(* ===== verification/Prelude.thy ===== *)
theory Prelude
  imports Main
    "HOL-Library.AList" "HOL-Library.Multiset"
    "HOL-Library.List_Lexorder" "HOL-Library.Char_ord"
begin

text \<open>
  Shared vocabulary of the development: Go's 64-bit integers and times, Go's maps (association
  lists whose iteration order is chosen by the environment at every \<^verbatim>\<open>range\<close>), error values, and the
  list lemmas that the components use. Everything below is about the language, not about the
  program: the components import it and never unfold it.
\<close>

section \<open>Rule collections\<close>

named_theorems keeps_rules \<open>rules that compose a step relation along a Go computation\<close>
named_theorems hoare_rules \<open>rules that compose pre- and postconditions along a Go computation\<close>
named_theorems go_eval \<open>equations that evaluate the runtime primitives\<close>

section \<open>Machine integers and times\<close>

text \<open>
  An \<^verbatim>\<open>int64\<close> (and a \<^verbatim>\<open>time.Duration\<close>, which is one) is an integer in the range below; arithmetic on it
  wraps, which is written out by \<open>wrap64\<close>. Division truncates towards zero.
\<close>

definition int64_min :: int where "int64_min = - (2 ^ 63)"
definition int64_max :: int where "int64_max = 2 ^ 63 - 1"

definition wrap64 :: "int \<Rightarrow> int" where
  "wrap64 x = (x + 2 ^ 63) mod 2 ^ 64 - 2 ^ 63"

definition go_div :: "int \<Rightarrow> int \<Rightarrow> int" where
  "go_div a b = sgn a * sgn b * (\<bar>a\<bar> div \<bar>b\<bar>)"

lemma wrap64_bounds: "int64_min \<le> wrap64 x" "wrap64 x \<le> int64_max"
proof -
  have "0 \<le> (x + 2 ^ 63) mod 2 ^ 64" "(x + 2 ^ 63) mod 2 ^ 64 < (2 :: int) ^ 64"
    by simp_all
  then show "int64_min \<le> wrap64 x" "wrap64 x \<le> int64_max"
    by (auto simp: int64_min_def int64_max_def wrap64_def)
qed

lemma wrap64_id: "int64_min \<le> x \<Longrightarrow> x \<le> int64_max \<Longrightarrow> wrap64 x = x"
  by (simp add: int64_min_def int64_max_def wrap64_def)

lemma go_div_nonneg: "0 \<le> a \<Longrightarrow> 0 < b \<Longrightarrow> go_div a b = a div b"
  by (cases "a = 0") (auto simp: go_div_def)

text \<open>
  A \<^verbatim>\<open>time.Time\<close> is the number of nanoseconds since Go's zero time (year 1), so that the zero
  value is 0; \<^verbatim>\<open>Sub\<close> saturates at the ends of the duration range, and \<^verbatim>\<open>Truncate\<close> rounds down to a
  multiple of the duration since the zero time.
\<close>

type_synonym time = int
type_synonym duration = int

definition time_sub :: "time \<Rightarrow> time \<Rightarrow> duration" where
  "time_sub t u = max int64_min (min int64_max (t - u))"

definition time_truncate :: "time \<Rightarrow> duration \<Rightarrow> time" where
  "time_truncate t d = (if d \<le> 0 then t else t - t mod d)"

definition second :: duration where "second = 1000000000"
definition minute :: duration where "minute = 60 * second"
definition hour :: duration where "hour = 60 * minute"

lemmas duration_defs = second_def minute_def hour_def

lemma time_sub_less_iff:
  "int64_min < d \<Longrightarrow> d \<le> int64_max \<Longrightarrow> time_sub t u < d \<longleftrightarrow> t - u < d"
  by (auto simp: time_sub_def int64_min_def int64_max_def)

lemma time_sub_greater_iff:
  "int64_min \<le> d \<Longrightarrow> d < int64_max \<Longrightarrow> d < time_sub t u \<longleftrightarrow> d < t - u"
  by (auto simp: time_sub_def int64_min_def int64_max_def)

lemma time_truncate_le: "0 < d \<Longrightarrow> time_truncate t d \<le> t \<and> t < time_truncate t d + d"
  using pos_mod_bound [of d t] pos_mod_sign [of d t] by (simp add: time_truncate_def)

section \<open>Errors\<close>

text \<open>
  An error is the constant part of its message, possibly around the error it wraps;
  \<open>NotExist\<close> is what \<^verbatim>\<open>os.IsNotExist\<close> recognises.
\<close>

datatype go_error = Errorf string | Wrap string go_error | NotExist

section \<open>Go maps\<close>

text \<open>
  A Go map with string keys is an association list with distinct keys. Every \<^verbatim>\<open>range\<close> over a map
  visits the entries in an order of its own: the environment supplies a list of choices, and
  \<open>shuffle\<close> turns any such list into a permutation, so no assumption on the choices is needed and
  every order is possible (\<open>shuffle_surj\<close>).
\<close>

type_synonym 'v gomap = "(string \<times> 'v) list"

abbreviation gm_lookup :: "'v gomap \<Rightarrow> string \<Rightarrow> 'v option" where
  "gm_lookup m k \<equiv> map_of m k"

abbreviation gm_update :: "string \<Rightarrow> 'v \<Rightarrow> 'v gomap \<Rightarrow> 'v gomap" where
  "gm_update k v m \<equiv> AList.update k v m"

abbreviation gm_ok :: "'v gomap \<Rightarrow> bool" where
  "gm_ok m \<equiv> distinct (map fst m)"

fun shuffle :: "nat list \<Rightarrow> 'a list \<Rightarrow> 'a list" where
  "shuffle _ [] = []"
| "shuffle [] xs = xs"
| "shuffle (c # cs) xs =
     (let i = c mod length xs in xs ! i # shuffle cs (take i xs @ drop (Suc i) xs))"

lemma mset_shuffle [simp]: "mset (shuffle cs xs) = mset xs"
proof (induction cs xs rule: shuffle.induct)
  case (3 c cs v va)
  let ?xs = "v # va" and ?i = "c mod length (v # va)"
  have "mset (shuffle (c # cs) ?xs) = {#?xs ! ?i#} + mset (take ?i ?xs @ drop (Suc ?i) ?xs)"
    using 3 [OF refl] by (simp add: Let_def)
  also have "\<dots> = mset (take ?i ?xs @ ?xs ! ?i # drop (Suc ?i) ?xs)" by simp
  also have "\<dots> = mset ?xs" by (subst id_take_nth_drop [symmetric]) simp_all
  finally show ?case .
qed simp_all

lemma set_shuffle [simp]: "set (shuffle cs xs) = set xs"
  by (metis mset_shuffle set_mset_mset)

lemma length_shuffle [simp]: "length (shuffle cs xs) = length xs"
  by (metis mset_shuffle size_mset)

lemma distinct_shuffle [simp]: "distinct (shuffle cs xs) = distinct xs"
  by (metis mset_shuffle mset_eq_imp_distinct_iff)

lemma gm_ok_shuffle [simp]: "gm_ok (shuffle cs m) = gm_ok m"
proof -
  have "mset (map fst (shuffle cs m)) = mset (map fst m)" by simp
  then show ?thesis by (rule mset_eq_imp_distinct_iff)
qed

lemma shuffle_surj: "mset ys = mset xs \<Longrightarrow> \<exists>cs. shuffle cs xs = ys"
proof (induction ys arbitrary: xs)
  case Nil
  then show ?case by simp
next
  case (Cons y ys)
  from Cons.prems have "y \<in> set xs" by (metis list.set_intros(1) set_mset_mset)
  then obtain i where i: "i < length xs" "xs ! i = y" by (auto simp: in_set_conv_nth)
  let ?rest = "take i xs @ drop (Suc i) xs"
  have "mset xs = mset (take i xs @ xs ! i # drop (Suc i) xs)"
    using i by (subst id_take_nth_drop [symmetric]) simp_all
  with Cons.prems i have "mset ys = mset ?rest" by simp
  then obtain cs where cs: "shuffle cs ?rest = ys" using Cons.IH by blast
  from i have "xs \<noteq> []" by auto
  with i cs have "shuffle (i # cs) xs = y # ys" by (cases xs) (auto simp: Let_def)
  then show ?case by blast
qed

lemma gm_ok_update [simp]: "gm_ok m \<Longrightarrow> gm_ok (gm_update k v m)"
  by (rule distinct_update)

lemma set_gm_update: "set (gm_update k v m) \<subseteq> insert (k, v) (set m)"
  by (induction m) auto

lemma list_all_update: "list_all P m \<Longrightarrow> P (k, v) \<Longrightarrow> list_all P (gm_update k v m)"
  using set_gm_update [of k v m] by (auto simp: list_all_iff)

lemma gm_lookup_update [simp]: "gm_lookup (gm_update k v m) = (gm_lookup m)(k \<mapsto> v)"
  by (rule update_conv')

section \<open>Lists\<close>

text \<open>The last element a loop without \<^verbatim>\<open>break\<close> assigns: \<^verbatim>\<open>for x in xs: if p(x) r = x\<close>.\<close>

fun find_last :: "('a \<Rightarrow> bool) \<Rightarrow> 'a list \<Rightarrow> 'a option" where
  "find_last p [] = None"
| "find_last p (x # xs) = (case find_last p xs of Some y \<Rightarrow> Some y
     | None \<Rightarrow> if p x then Some x else None)"

lemma find_last_Some: "find_last p xs = Some x \<Longrightarrow> x \<in> set xs \<and> p x"
  by (induction xs) (auto split: option.splits if_splits)

lemma find_last_None_iff: "find_last p xs = None \<longleftrightarrow> (\<forall>x \<in> set xs. \<not> p x)"
  by (induction xs) (auto split: option.splits)

section \<open>Order in a sequence\<close>

text \<open>In a sequence, what satisfies \<open>B\<close> comes only after something that satisfies \<open>A\<close>.\<close>

fun preceded :: "('a \<Rightarrow> bool) \<Rightarrow> ('a \<Rightarrow> bool) \<Rightarrow> 'a list \<Rightarrow> bool" where
  "preceded A B [] = True"
| "preceded A B (x # xs) = (\<not> B x \<and> (A x \<or> preceded A B xs))"

lemma preceded_append:
  "preceded A B (xs @ ys) \<longleftrightarrow> preceded A B xs \<and> (list_ex A xs \<or> preceded A B ys)"
  by (induction xs) auto

lemma preceded_iff: "preceded A B xs \<longleftrightarrow> (\<forall>i < length xs. B (xs ! i) \<longrightarrow> (\<exists>j < i. A (xs ! j)))"
proof (induction xs)
  case (Cons x xs)
  have "(\<forall>i < length (x # xs). B ((x # xs) ! i) \<longrightarrow> (\<exists>j < i. A ((x # xs) ! j)))
      \<longleftrightarrow> \<not> B x \<and> (\<forall>i < length xs. B (xs ! i) \<longrightarrow> A x \<or> (\<exists>j < i. A (xs ! j)))"
    by (simp add: All_less_Suc2 Ex_less_Suc2)
  then show ?case using Cons by auto
qed simp

lemma preceded_none: "list_all (\<lambda>x. \<not> B x) xs \<Longrightarrow> preceded A B xs"
  by (induction xs) auto

lemma preceded_extend: "preceded A B xs \<Longrightarrow> list_all (\<lambda>x. \<not> B x) ys \<Longrightarrow> preceded A B (xs @ ys)"
  by (simp add: preceded_append preceded_none)

end
