(* ===== verification/Go_Monad.thy ===== *)
theory Go_Monad
  imports Prelude
begin

text \<open>
  Go computations with state: a function from the state to an outcome and the next state. An
  outcome is a returned value or a panic (a nil dereference, an index out of range or
  \<^verbatim>\<open>klog.Fatalf\<close>, all of which end the process); the state reached before a panic is kept, because
  what was sent to other nodes before is not undone. Errors are ordinary returned values, as in Go.
  The second half gives two ways to reason about such computations: step relations kept by every
  step, and Hoare triples.
\<close>

section \<open>Outcomes and sequencing\<close>

datatype 'a outcome = Ret 'a | Panic string

type_synonym ('s, 'a) go = "'s \<Rightarrow> 'a outcome \<times> 's"

definition ret :: "'a \<Rightarrow> ('s, 'a) go" where
  "ret x = (\<lambda>s. (Ret x, s))"

definition panic :: "string \<Rightarrow> ('s, 'a) go" where
  "panic msg = (\<lambda>s. (Panic msg, s))"

definition bind :: "('s, 'a) go \<Rightarrow> ('a \<Rightarrow> ('s, 'b) go) \<Rightarrow> ('s, 'b) go" where
  "bind m f = (\<lambda>s. case m s of (Ret x, s') \<Rightarrow> f x s' | (Panic msg, s') \<Rightarrow> (Panic msg, s'))"

definition gets :: "('s \<Rightarrow> 'a) \<Rightarrow> ('s, 'a) go" where
  "gets f = (\<lambda>s. (Ret (f s), s))"

definition modify :: "('s \<Rightarrow> 's) \<Rightarrow> ('s, unit) go" where
  "modify f = (\<lambda>s. (Ret (), f s))"

text \<open>A total external call: the environment answers and moves to its next state.\<close>

definition lift :: "('s \<Rightarrow> 'a \<times> 's) \<Rightarrow> ('s, 'a) go" where
  "lift f = (\<lambda>s. case f s of (x, s') \<Rightarrow> (Ret x, s'))"

text \<open>
  A \<^verbatim>\<open>for\<close> loop over a sequence with accumulator; the body continues with a new accumulator or leaves
  the loop (\<^verbatim>\<open>break\<close> or \<^verbatim>\<open>return\<close>) with a result.
\<close>

datatype ('a, 'r) loop = Next 'a | Stop 'r

primrec for_each :: "'x list \<Rightarrow> 'a \<Rightarrow> ('x \<Rightarrow> 'a \<Rightarrow> ('s, ('a, 'r) loop) go) \<Rightarrow> ('s, ('a, 'r) loop) go" where
  "for_each [] a f = ret (Next a)"
| "for_each (x # xs) a f =
     bind (f x a) (\<lambda>c. case c of Next a' \<Rightarrow> for_each xs a' f | Stop r \<Rightarrow> ret (Stop r))"

text \<open>
  The simplifier would eta-contract the next two equations and unfold every \<open>ret\<close>; they are given
  to it on request only.
\<close>

lemma ret_apply: "ret x s = (Ret x, s)"
  by (simp add: ret_def)

lemma panic_apply: "panic msg s = (Panic msg, s)"
  by (simp add: panic_def)

lemma gets_apply [simp]: "gets f s = (Ret (f s), s)"
  by (simp add: gets_def)

lemma modify_apply [simp]: "modify f s = (Ret (), f s)"
  by (simp add: modify_def)

lemma bind_ret [simp]: "bind (ret x) f = f x"
  by (simp add: bind_def ret_def)

lemma bind_ret_right [simp]: "bind m ret = m"
  by (rule ext) (simp add: bind_def ret_def split: prod.splits outcome.splits)

lemma bind_panic [simp]: "bind (panic msg) f = panic msg"
  by (simp add: bind_def panic_def)

lemma bind_assoc: "bind (bind m f) g = bind m (\<lambda>x. bind (f x) g)"
  by (rule ext) (simp add: bind_def split: prod.splits outcome.splits)

lemma bind_apply:
  "bind m f s = (case m s of (Ret x, s') \<Rightarrow> f x s' | (Panic msg, s') \<Rightarrow> (Panic msg, s'))"
  by (simp add: bind_def)

lemma lift_apply: "lift f s = (case f s of (x, s') \<Rightarrow> (Ret x, s'))"
  by (simp add: lift_def)

lemmas go_apply = ret_apply panic_apply bind_apply lift_apply

lemma for_each_cong [fundef_cong]:
  assumes "xs = ys" and "a = b" and "\<And>x c. x \<in> set ys \<Longrightarrow> f x c = g x c"
  shows "for_each xs a f = for_each ys b g"
proof -
  have "for_each ys b f = for_each ys b g" using assms(3)
    by (induction ys arbitrary: b) (auto simp: bind_def fun_eq_iff split: prod.splits outcome.splits loop.splits)
  then show ?thesis using assms(1,2) by simp
qed

section \<open>The state of a process and its environment\<close>

text \<open>
  A component runs in a state that holds its own data (\<open>self\<close>), everything outside it (\<open>world\<close>,
  of a type the component does not know) and the calls it has made that change something outside
  (\<open>trace\<close>, oldest first). The environment is a set of functions on the world: it answers calls,
  tells the time, and chooses the order of every \<^verbatim>\<open>range\<close> over a map.
\<close>

record ('st, 'w, 'ev) sys =
  self :: 'st
  world :: 'w
  trace :: "'ev list"

record 'w runtime =
  rt_now :: "'w \<Rightarrow> time \<times> 'w"
  rt_order :: "'w \<Rightarrow> nat list \<times> 'w"
  rt_token :: "'w \<Rightarrow> string \<times> 'w"

text \<open>A call that only asks, and a call that is recorded with its answer.\<close>

definition ask :: "('w \<Rightarrow> 'a \<times> 'w) \<Rightarrow> (('st, 'w, 'ev) sys, 'a) go" where
  "ask f = (\<lambda>s. case f (world s) of (x, w) \<Rightarrow> (Ret x, s\<lparr>world := w\<rparr>))"

definition act :: "('w \<Rightarrow> 'a \<times> 'w) \<Rightarrow> ('a \<Rightarrow> 'ev) \<Rightarrow> (('st, 'w, 'ev) sys, 'a) go" where
  "act f ev = (\<lambda>s. case f (world s) of (x, w) \<Rightarrow> (Ret x, s\<lparr>world := w, trace := trace s @ [ev x]\<rparr>))"

text \<open>Recording the end of a longer operation.\<close>

definition emit :: "'ev \<Rightarrow> (('st, 'w, 'ev) sys, unit) go" where
  "emit ev = modify (\<lambda>s. s\<lparr>trace := trace s @ [ev]\<rparr>)"

definition get_self :: "('st \<Rightarrow> 'a) \<Rightarrow> (('st, 'w, 'ev) sys, 'a) go" where
  "get_self f = gets (\<lambda>s. f (self s))"

definition upd_self :: "('st \<Rightarrow> 'st) \<Rightarrow> (('st, 'w, 'ev) sys, unit) go" where
  "upd_self f = modify (\<lambda>s. s\<lparr>self := f (self s)\<rparr>)"

definition time_now :: "'w runtime \<Rightarrow> (('st, 'w, 'ev) sys, time) go" where
  "time_now rt = ask (rt_now rt)"

text \<open>\<^verbatim>\<open>for k, v := range m\<close>: the entries of the map, in the order the environment picks this time.\<close>

definition range_map :: "'w runtime \<Rightarrow> 'v gomap \<Rightarrow> (('st, 'w, 'ev) sys, 'v gomap) go" where
  "range_map rt m = bind (ask (rt_order rt)) (\<lambda>cs. ret (shuffle cs m))"

section \<open>Step relations\<close>

text \<open>
  \<open>keeps R m\<close>: whatever the outcome, the state after \<open>m\<close> is related by \<open>R\<close> to the state before.
  For a reflexive and transitive relation this composes along the structure of a computation; the
  locale is that contract, and its lemmas are the composition rules.
\<close>

definition keeps :: "('s \<Rightarrow> 's \<Rightarrow> bool) \<Rightarrow> ('s, 'a) go \<Rightarrow> bool" where
  "keeps R m \<longleftrightarrow> (\<forall>s. R s (snd (m s)))"

lemma keepsI: "(\<And>s. R s (snd (m s))) \<Longrightarrow> keeps R m"
  by (simp add: keeps_def)

lemma keepsD: "keeps R m \<Longrightarrow> R s (snd (m s))"
  by (simp add: keeps_def)

lemma keepsE: "keeps R m \<Longrightarrow> m s = (r, s') \<Longrightarrow> R s s'"
  by (metis keepsD snd_conv)

lemma keeps_weaken: "keeps R m \<Longrightarrow> (\<And>s s'. R s s' \<Longrightarrow> Q s s') \<Longrightarrow> keeps Q m"
  by (simp add: keeps_def)

lemma keeps_if [keeps_rules]:
  "(b \<Longrightarrow> keeps R m) \<Longrightarrow> (\<not> b \<Longrightarrow> keeps R n) \<Longrightarrow> keeps R (if b then m else n)"
  by simp

lemma keeps_let [keeps_rules]: "keeps R (f x) \<Longrightarrow> keeps R (let y = x in f y)"
  by simp

lemma keeps_case_sum [keeps_rules]:
  "(\<And>x. r = Inl x \<Longrightarrow> keeps R (f x)) \<Longrightarrow> (\<And>y. r = Inr y \<Longrightarrow> keeps R (g y))
   \<Longrightarrow> keeps R (case r of Inl x \<Rightarrow> f x | Inr y \<Rightarrow> g y)"
  by (cases r) simp_all

lemma keeps_case_option [keeps_rules]:
  "(r = None \<Longrightarrow> keeps R m) \<Longrightarrow> (\<And>y. r = Some y \<Longrightarrow> keeps R (g y))
   \<Longrightarrow> keeps R (case r of None \<Rightarrow> m | Some y \<Rightarrow> g y)"
  by (cases r) simp_all

lemma keeps_case_prod [keeps_rules]:
  "(\<And>x y. r = (x, y) \<Longrightarrow> keeps R (f x y)) \<Longrightarrow> keeps R (case r of (x, y) \<Rightarrow> f x y)"
  by (cases r) simp

lemma keeps_case_loop [keeps_rules]:
  "(\<And>x. r = Next x \<Longrightarrow> keeps R (f x)) \<Longrightarrow> (\<And>y. r = Stop y \<Longrightarrow> keeps R (g y))
   \<Longrightarrow> keeps R (case r of Next x \<Rightarrow> f x | Stop y \<Rightarrow> g y)"
  by (cases r) simp_all

lemma keeps_case_list [keeps_rules]:
  "(xs = [] \<Longrightarrow> keeps R m) \<Longrightarrow> (\<And>y ys. xs = y # ys \<Longrightarrow> keeps R (g y ys))
   \<Longrightarrow> keeps R (case xs of [] \<Rightarrow> m | y # ys \<Rightarrow> g y ys)"
  by (cases xs) simp_all

locale step_rel =
  fixes R :: "'s \<Rightarrow> 's \<Rightarrow> bool"
  assumes step_refl: "R s s"
    and step_trans: "R s t \<Longrightarrow> R t u \<Longrightarrow> R s u"
begin

lemma keeps_ret: "keeps R (ret x)"
  by (simp add: keeps_def ret_apply step_refl)

lemma keeps_panic: "keeps R (panic msg)"
  by (simp add: keeps_def panic_apply step_refl)

lemma keeps_gets: "keeps R (gets f)"
  by (simp add: keeps_def step_refl)

lemma keeps_bind:
  assumes "keeps R m" and "\<And>x. keeps R (f x)"
  shows "keeps R (bind m f)"
proof (rule keepsI)
  fix s
  show "R s (snd (bind m f s))"
  proof (cases "m s")
    case (Pair r s')
    with assms(1) have "R s s'" by (metis keepsE)
    with Pair assms(2) show ?thesis
      by (cases r) (auto simp: bind_apply intro: step_trans dest: keepsD)
  qed
qed

text \<open>The same where what follows relies on a fact about the value returned.\<close>

lemma keeps_bind_dep:
  assumes "keeps R m" and "\<And>s x s'. m s = (Ret x, s') \<Longrightarrow> keeps R (f x)"
  shows "keeps R (bind m f)"
proof (rule keepsI)
  fix s
  show "R s (snd (bind m f s))"
  proof (cases "m s")
    case (Pair r s')
    with assms(1) have R: "R s s'" by (metis keepsE)
    show ?thesis
    proof (cases r)
      case (Ret x)
      with Pair assms(2) have "R s' (snd (f x s'))" by (blast intro: keepsD)
      with Ret Pair R show ?thesis by (auto simp: bind_apply intro: step_trans)
    next
      case (Panic msg)
      with Pair R show ?thesis by (simp add: bind_apply)
    qed
  qed
qed

lemma keeps_for_each:
  assumes "\<And>x a. x \<in> set xs \<Longrightarrow> keeps R (f x a)"
  shows "keeps R (for_each xs a f)"
  using assms
proof (induction xs arbitrary: a)
  case Nil
  show ?case by (simp add: keeps_ret)
next
  case (Cons x xs)
  then show ?case
    by (auto intro!: keeps_bind keeps_ret split: loop.splits)
qed

lemmas keeps_core = keeps_ret keeps_panic keeps_gets keeps_bind keeps_for_each

end

text \<open>
  The relations used throughout: a part of the process state is left alone, and every recorded
  call satisfies a predicate. A fact about one recorded call is stated over the calls made so far.
\<close>

definition frame :: "('st \<Rightarrow> 'b) \<Rightarrow> ('st, 'w, 'ev) sys \<Rightarrow> ('st, 'w, 'ev) sys \<Rightarrow> bool" where
  "frame f s s' \<longleftrightarrow> f (self s') = f (self s)"

definition emits :: "('ev \<Rightarrow> bool) \<Rightarrow> ('st, 'w, 'ev) sys \<Rightarrow> ('st, 'w, 'ev) sys \<Rightarrow> bool" where
  "emits A s s' \<longleftrightarrow> (\<exists>evs. trace s' = trace s @ evs \<and> list_all A evs)"

definition preserves :: "('st \<Rightarrow> bool) \<Rightarrow> ('st, 'w, 'ev) sys \<Rightarrow> ('st, 'w, 'ev) sys \<Rightarrow> bool" where
  "preserves I s s' \<longleftrightarrow> (I (self s) \<longrightarrow> I (self s'))"

interpretation pres: step_rel "preserves I" for I
  by unfold_locales (auto simp: preserves_def)

interpretation frame: step_rel "frame f" for f
  by unfold_locales (auto simp: frame_def)

interpretation emits: step_rel "emits A" for A
  by unfold_locales (force simp: emits_def)+

lemma keeps_frame_ask: "keeps (frame f) (ask g)"
  by (auto simp: keeps_def frame_def ask_def split: prod.splits)

lemma keeps_frame_act: "keeps (frame f) (act g ev)"
  by (auto simp: keeps_def frame_def act_def split: prod.splits)

lemma keeps_frame_emit: "keeps (frame f) (emit ev)"
  by (simp add: keeps_def frame_def emit_def)

lemma keeps_frame_get_self: "keeps (frame f) (get_self g)"
  by (simp add: get_self_def frame.keeps_gets)

lemma keeps_frame_upd_self: "(\<And>m. f (g m) = f m) \<Longrightarrow> keeps (frame f) (upd_self g)"
  by (auto simp: keeps_def frame_def upd_self_def)

lemma keeps_emits_ask: "keeps (emits A) (ask g)"
  by (auto simp: keeps_def emits_def ask_def split: prod.splits)

lemma keeps_emits_act: "(\<And>x. A (ev x)) \<Longrightarrow> keeps (emits A) (act g ev)"
  by (auto simp: keeps_def emits_def act_def split: prod.splits)

lemma keeps_emits_emit: "A ev \<Longrightarrow> keeps (emits A) (emit ev)"
  by (simp add: keeps_def emits_def emit_def)

lemma keeps_emits_get_self: "keeps (emits A) (get_self g)"
  by (simp add: get_self_def emits.keeps_gets)

lemma keeps_emits_upd_self: "keeps (emits A) (upd_self g)"
  by (auto simp: keeps_def emits_def upd_self_def)

lemma keeps_frame_range: "keeps (frame f) (range_map rt m)"
  unfolding range_map_def by (intro frame.keeps_core keeps_frame_ask)

lemma keeps_emits_range: "keeps (emits A) (range_map rt m)"
  unfolding range_map_def by (intro emits.keeps_core keeps_emits_ask)

lemma keeps_frame_now: "keeps (frame f) (time_now rt)"
  unfolding time_now_def by (rule keeps_frame_ask)

lemma keeps_emits_now: "keeps (emits A) (time_now rt)"
  unfolding time_now_def by (rule keeps_emits_ask)

lemmas frame_rules = keeps_rules frame.keeps_core keeps_frame_ask keeps_frame_act keeps_frame_emit
  keeps_frame_get_self keeps_frame_range keeps_frame_now

lemmas emits_rules = keeps_rules emits.keeps_core keeps_emits_ask keeps_emits_get_self
  keeps_emits_upd_self keeps_emits_range keeps_emits_now

lemma keeps_pres_ask: "keeps (preserves I) (ask g)"
  by (auto simp: keeps_def preserves_def ask_def split: prod.splits)

lemma keeps_pres_act: "keeps (preserves I) (act g ev)"
  by (auto simp: keeps_def preserves_def act_def split: prod.splits)

lemma keeps_pres_emit: "keeps (preserves I) (emit ev)"
  by (simp add: keeps_def preserves_def emit_def)

lemma keeps_pres_get_self: "keeps (preserves I) (get_self g)"
  by (simp add: get_self_def pres.keeps_gets)

lemma keeps_pres_upd_self: "(\<And>m. I m \<Longrightarrow> I (g m)) \<Longrightarrow> keeps (preserves I) (upd_self g)"
  by (auto simp: keeps_def preserves_def upd_self_def)

lemma keeps_pres_range: "keeps (preserves I) (range_map rt m)"
  unfolding range_map_def by (intro pres.keeps_core keeps_pres_ask)

lemma keeps_pres_now: "keeps (preserves I) (time_now rt)"
  unfolding time_now_def by (rule keeps_pres_ask)

lemmas pres_rules = keeps_rules pres.keeps_core keeps_pres_ask keeps_pres_act keeps_pres_emit
  keeps_pres_get_self keeps_pres_range keeps_pres_now

text \<open>A computation that reads the process state may rely on the invariant of what it read.\<close>

lemma keeps_pres_read:
  assumes "\<And>m. I m \<Longrightarrow> keeps (\<lambda>s s'. I (self s) \<and> g (self s) = g m \<longrightarrow> I (self s')) (f (g m))"
  shows "keeps (preserves I) (bind (get_self g) f)"
  using assms by (auto simp: keeps_def preserves_def bind_apply get_self_def)

lemma emits_mono: "emits A s s' \<Longrightarrow> (\<And>e. A e \<Longrightarrow> B e) \<Longrightarrow> emits B s s'"
  by (auto simp: emits_def list_all_iff)

text \<open>
  A computation that only asks: the process state and the record of calls are left alone, whatever
  the outcome.
\<close>

definition asks :: "('st, 'w, 'ev) sys \<Rightarrow> ('st, 'w, 'ev) sys \<Rightarrow> bool" where
  "asks s s' \<longleftrightarrow> self s' = self s \<and> trace s' = trace s"

interpretation asks: step_rel asks
  by unfold_locales (auto simp: asks_def)

lemma keeps_asks_ask: "keeps asks (ask f)"
  by (auto simp: keeps_def asks_def ask_def split: prod.splits)

lemma keeps_asks_get_self: "keeps asks (get_self f)"
  by (simp add: get_self_def asks.keeps_gets)

lemma keeps_asks_now: "keeps asks (time_now rt)"
  unfolding time_now_def by (rule keeps_asks_ask)

lemma keeps_asks_range: "keeps asks (range_map rt m)"
  unfolding range_map_def by (intro asks.keeps_core keeps_asks_ask)

lemmas asks_rules = keeps_rules asks.keeps_core keeps_asks_ask keeps_asks_get_self
  keeps_asks_now keeps_asks_range

text \<open>A predicate on the whole state that is never lost.\<close>

definition stays :: "('s \<Rightarrow> bool) \<Rightarrow> 's \<Rightarrow> 's \<Rightarrow> bool" where
  "stays P s s' \<longleftrightarrow> (P s \<longrightarrow> P s')"

interpretation stays: step_rel "stays P" for P
  by unfold_locales (auto simp: stays_def)

section \<open>Hoare triples\<close>

text \<open>
  \<open>hoare P m Q E\<close>: from a state with \<open>P\<close>, a returned value \<open>x\<close> and the state after it satisfy
  \<open>Q x\<close>, and the state at a panic satisfies \<open>E\<close> (so \<open>E = (\<lambda>_. False)\<close> says that no panic happens).
\<close>

definition hoare :: "('s \<Rightarrow> bool) \<Rightarrow> ('s, 'a) go \<Rightarrow> ('a \<Rightarrow> 's \<Rightarrow> bool) \<Rightarrow> ('s \<Rightarrow> bool) \<Rightarrow> bool" where
  "hoare P m Q E \<longleftrightarrow>
     (\<forall>s. P s \<longrightarrow> (case m s of (Ret x, s') \<Rightarrow> Q x s' | (Panic _, s') \<Rightarrow> E s'))"

lemma hoareI:
  assumes "\<And>s x s'. P s \<Longrightarrow> m s = (Ret x, s') \<Longrightarrow> Q x s'"
    and "\<And>s msg s'. P s \<Longrightarrow> m s = (Panic msg, s') \<Longrightarrow> E s'"
  shows "hoare P m Q E"
  unfolding hoare_def
proof (intro allI impI)
  fix s assume "P s"
  then show "case m s of (Ret x, s') \<Rightarrow> Q x s' | (Panic _, s') \<Rightarrow> E s'"
    using assms by (auto split: prod.splits outcome.splits)
qed

lemma hoare_RetD: "hoare P m Q E \<Longrightarrow> P s \<Longrightarrow> m s = (Ret x, s') \<Longrightarrow> Q x s'"
  by (auto simp: hoare_def dest!: spec [of _ s])

lemma hoare_PanicD: "hoare P m Q E \<Longrightarrow> P s \<Longrightarrow> m s = (Panic msg, s') \<Longrightarrow> E s'"
  by (auto simp: hoare_def dest!: spec [of _ s])

lemma hoare_conseq:
  assumes "hoare P' m Q' E'" and "\<And>s. P s \<Longrightarrow> P' s"
    and "\<And>x s. Q' x s \<Longrightarrow> Q x s" and "\<And>s. E' s \<Longrightarrow> E s"
  shows "hoare P m Q E"
  by (rule hoareI) (use assms in \<open>blast dest: hoare_RetD hoare_PanicD\<close>)+

lemma hoare_ret [hoare_rules]: "(\<And>s. P s \<Longrightarrow> Q x s) \<Longrightarrow> hoare P (ret x) Q E"
  by (simp add: hoare_def ret_apply)

lemma hoare_panic [hoare_rules]: "(\<And>s. P s \<Longrightarrow> E s) \<Longrightarrow> hoare P (panic msg) Q E"
  by (simp add: hoare_def panic_apply)

lemma hoare_gets: "(\<And>s. P s \<Longrightarrow> Q (f s) s) \<Longrightarrow> hoare P (gets f) Q E"
  by (simp add: hoare_def)

lemma hoare_modify: "(\<And>s. P s \<Longrightarrow> Q () (f s)) \<Longrightarrow> hoare P (modify f) Q E"
  by (simp add: hoare_def)

lemma hoare_bind:
  assumes "hoare P m R E" and "\<And>x. hoare (R x) (f x) Q E"
  shows "hoare P (bind m f) Q E"
proof (rule hoareI)
  fix s y s' assume "P s" "bind m f s = (Ret y, s')"
  then show "Q y s'" using assms
    by (auto simp: bind_apply split: prod.splits outcome.splits dest: hoare_RetD)
next
  fix s msg s' assume "P s" "bind m f s = (Panic msg, s')"
  then show "E s'" using assms
    by (auto simp: bind_apply split: prod.splits outcome.splits dest: hoare_RetD hoare_PanicD)
qed

lemma hoare_if [hoare_rules]:
  "(b \<Longrightarrow> hoare P m Q E) \<Longrightarrow> (\<not> b \<Longrightarrow> hoare P n Q E) \<Longrightarrow> hoare P (if b then m else n) Q E"
  by simp

lemma hoare_let [hoare_rules]: "hoare P (f x) Q E \<Longrightarrow> hoare P (let y = x in f y) Q E"
  by simp

lemma hoare_case_sum [hoare_rules]:
  "(\<And>x. r = Inl x \<Longrightarrow> hoare P (f x) Q E) \<Longrightarrow> (\<And>y. r = Inr y \<Longrightarrow> hoare P (g y) Q E)
   \<Longrightarrow> hoare P (case r of Inl x \<Rightarrow> f x | Inr y \<Rightarrow> g y) Q E"
  by (cases r) simp_all

lemma hoare_case_option [hoare_rules]:
  "(r = None \<Longrightarrow> hoare P m Q E) \<Longrightarrow> (\<And>y. r = Some y \<Longrightarrow> hoare P (g y) Q E)
   \<Longrightarrow> hoare P (case r of None \<Rightarrow> m | Some y \<Rightarrow> g y) Q E"
  by (cases r) simp_all

lemma hoare_case_prod [hoare_rules]:
  "(\<And>x y. r = (x, y) \<Longrightarrow> hoare P (f x y) Q E) \<Longrightarrow> hoare P (case r of (x, y) \<Rightarrow> f x y) Q E"
  by (cases r) simp

lemma hoare_case_loop [hoare_rules]:
  "(\<And>x. r = Next x \<Longrightarrow> hoare P (f x) Q E) \<Longrightarrow> (\<And>y. r = Stop y \<Longrightarrow> hoare P (g y) Q E)
   \<Longrightarrow> hoare P (case r of Next x \<Rightarrow> f x | Stop y \<Rightarrow> g y) Q E"
  by (cases r) simp_all

lemma hoare_stays: "keeps (stays P) m \<Longrightarrow> hoare P m (\<lambda>_. P) P"
  by (rule hoareI) (auto simp: stays_def dest: keepsE)

lemma stays_hoare: "hoare P m (\<lambda>_. P) P \<Longrightarrow> keeps (stays P) m"
proof (rule keepsI)
  fix s assume h: "hoare P m (\<lambda>_. P) P"
  obtain r s' where m: "m s = (r, s')" by fastforce
  show "stays P s (snd (m s))"
    using h m hoare_RetD [OF h, of s] hoare_PanicD [OF h, of s] by (cases r) (auto simp: stays_def)
qed

text \<open>
  The loop rule: an invariant over the part of the sequence already visited, the accumulator and
  the state.
\<close>

lemma hoare_for_each:
  assumes body: "\<And>pre x suf a. xs = pre @ x # suf \<Longrightarrow>
      hoare (I pre a) (f x a)
        (\<lambda>c s. case c of Next a' \<Rightarrow> I (pre @ [x]) a' s | Stop r \<Rightarrow> Q (Stop r) s) E"
    and final: "\<And>a s. I xs a s \<Longrightarrow> Q (Next a) s"
    and start: "\<And>s. P s \<Longrightarrow> I [] a s"
  shows "hoare P (for_each xs a f) Q E"
proof -
  have "hoare (I pre a) (for_each suf a f) Q E" if "xs = pre @ suf" for pre suf a
    using that
  proof (induction suf arbitrary: pre a)
    case Nil
    then show ?case using final by (auto intro: hoare_ret)
  next
    case (Cons x suf)
    show ?case
      unfolding for_each.simps
    proof (rule hoare_bind [OF body])
      show "xs = pre @ x # suf" using Cons.prems .
    next
      fix c
      show "hoare (\<lambda>s. case c of Next a' \<Rightarrow> I (pre @ [x]) a' s | Stop r \<Rightarrow> Q (Stop r) s)
          (case c of Next a' \<Rightarrow> for_each suf a' f | Stop r \<Rightarrow> ret (Stop r)) Q E"
        using Cons.IH [of "pre @ [x]"] Cons.prems by (cases c) (auto intro: hoare_ret)
    qed
  qed
  from this [of "[]" xs a] start show ?thesis
    by (auto intro: hoare_conseq)
qed

text \<open>The same with an invariant on the state alone.\<close>

lemma hoare_loop:
  assumes "\<And>x a. x \<in> set xs \<Longrightarrow> hoare P (f x a) (\<lambda>c s. case c of Next _ \<Rightarrow> P s | Stop r \<Rightarrow> R r s) E"
  shows "hoare P (for_each xs a f) (\<lambda>c s. case c of Next _ \<Rightarrow> P s | Stop r \<Rightarrow> R r s) E"
  by (rule hoare_for_each [where I = "\<lambda>_ _. P"]) (auto intro: hoare_conseq [OF assms] split: loop.splits)

text \<open>Rules for the calls to the environment.\<close>

lemma hoare_ask:
  "(\<And>s x w. P s \<Longrightarrow> f (world s) = (x, w) \<Longrightarrow> Q x (s\<lparr>world := w\<rparr>)) \<Longrightarrow> hoare P (ask f) Q E"
  by (auto simp: hoare_def ask_def split: prod.splits)

lemma hoare_act:
  "(\<And>s x w. P s \<Longrightarrow> f (world s) = (x, w) \<Longrightarrow> Q x (s\<lparr>world := w, trace := trace s @ [ev x]\<rparr>))
   \<Longrightarrow> hoare P (act f ev) Q E"
  by (auto simp: hoare_def act_def split: prod.splits)

lemma hoare_get_self: "(\<And>s. P s \<Longrightarrow> Q (f (self s)) s) \<Longrightarrow> hoare P (get_self f) Q E"
  by (simp add: get_self_def hoare_gets)

text \<open>Reading the own state and going on: the rest may rely on what was read.\<close>

lemma hoare_read:
  assumes "\<And>s. P s \<Longrightarrow> hoare (\<lambda>t. t = s) (f (g (self s))) Q E"
  shows "hoare P (bind (get_self g) f) Q E"
  using assms by (auto simp: hoare_def bind_apply get_self_def)

lemma hoare_at: "hoare P m Q E \<Longrightarrow> P s \<Longrightarrow> hoare (\<lambda>t. t = s) m Q E"
  by (auto simp: hoare_def)

lemma hoare_upd_self: "(\<And>s. P s \<Longrightarrow> Q () (s\<lparr>self := f (self s)\<rparr>)) \<Longrightarrow> hoare P (upd_self f) Q E"
  by (simp add: upd_self_def hoare_modify)

lemma hoare_range_map:
  "(\<And>s cs w. P s \<Longrightarrow> Q (shuffle cs m) (s\<lparr>world := w\<rparr>)) \<Longrightarrow> hoare P (range_map rt m) Q E"
  by (auto simp: hoare_def range_map_def bind_apply ask_def ret_apply split: prod.splits)

lemma hoare_range: "hoare P (range_map rt m) (\<lambda>kvs _. set kvs = set m) (\<lambda>_. True)"
  by (rule hoare_range_map) simp

lemma range_eval: "range_map rt m s = (Ret kvs, s') \<Longrightarrow> \<exists>cs. kvs = shuffle cs m"
  by (auto simp: range_map_def bind_apply ask_def ret_apply split: prod.splits)

lemma ask_pure: "(\<And>w. snd (f w) = w) \<Longrightarrow> ask f s = (Ret (fst (f (world s))), s)"
  by (cases s) (auto simp: ask_def split: prod.splits, metis snd_conv)

lemma hoare_pure: "(A \<Longrightarrow> hoare P m Q E) \<Longrightarrow> hoare (\<lambda>s. P s \<and> A) m Q E"
  by (cases A) (simp_all add: hoare_def)

lemma range_set: "range_map rt m s = (Ret kvs, s') \<Longrightarrow> set kvs = set m"
  using hoare_RetD [OF hoare_range TrueI] by blast

lemma hoare_ex: "(\<And>x. hoare (P x) m Q E) \<Longrightarrow> hoare (\<lambda>s. \<exists>x. P x s) m Q E"
  by (rule hoareI) (blast dest: hoare_RetD hoare_PanicD)+

lemma hoare_time_now:
  "(\<And>s t w. P s \<Longrightarrow> Q t (s\<lparr>world := w\<rparr>)) \<Longrightarrow> hoare P (time_now rt) Q E"
  by (auto simp: hoare_def time_now_def ask_def split: prod.splits)

section \<open>Computations that do not panic\<close>

text \<open>From an own state with the invariant \<open>I\<close> a computation returns, and keeps the invariant.\<close>

definition calm :: "('st \<Rightarrow> bool) \<Rightarrow> (('st, 'w, 'ev) sys, 'a) go \<Rightarrow> bool" where
  "calm I m \<longleftrightarrow> hoare (\<lambda>s. I (self s)) m (\<lambda>_ s. I (self s)) (\<lambda>_. False)"

lemma calmD: "calm I m \<Longrightarrow> I (self s) \<Longrightarrow> \<exists>x s'. m s = (Ret x, s') \<and> I (self s')"
  unfolding calm_def by (cases "m s", cases "fst (m s)") (auto dest: hoare_RetD hoare_PanicD)

lemma calm_ret: "calm I (ret x)"
  unfolding calm_def by (rule hoare_ret)

lemma calm_ask: "calm I (ask f)"
  unfolding calm_def by (rule hoare_ask) simp

lemma calm_act: "calm I (act f ev)"
  unfolding calm_def by (rule hoare_act) simp

lemma calm_emit: "calm I (emit ev)"
  unfolding calm_def emit_def by (rule hoare_modify) simp

lemma calm_get_self: "calm I (get_self f)"
  unfolding calm_def by (rule hoare_get_self)

lemma calm_upd_self: "(\<And>m. I m \<Longrightarrow> I (f m)) \<Longrightarrow> calm I (upd_self f)"
  unfolding calm_def by (rule hoare_upd_self) simp

lemma calm_range: "calm I (range_map rt m)"
  unfolding calm_def by (rule hoare_range_map) simp

lemma calm_now: "calm I (time_now rt)"
  unfolding calm_def by (rule hoare_time_now) simp

lemma calm_bind: "calm I m \<Longrightarrow> (\<And>x. calm I (f x)) \<Longrightarrow> calm I (bind m f)"
  unfolding calm_def by (rule hoare_bind)

lemma calm_bind_dep:
  assumes "calm I m" and "\<And>s x s'. m s = (Ret x, s') \<Longrightarrow> I (self s) \<Longrightarrow> calm I (f x)"
  shows "calm I (bind m f)"
  unfolding calm_def
proof (rule hoareI)
  fix s y s' assume I: "I (self s)" "bind m f s = (Ret y, s')"
  from calmD [OF assms(1) I(1)] obtain x t where m: "m s = (Ret x, t)" "I (self t)" by blast
  from calmD [OF assms(2) [OF m(1) I(1)] m(2)] m(1) I(2) show "I (self s')" by (auto simp: bind_apply)
next
  fix s msg s' assume I: "I (self s)" "bind m f s = (Panic msg, s')"
  from calmD [OF assms(1) I(1)] obtain x t where m: "m s = (Ret x, t)" "I (self t)" by blast
  from calmD [OF assms(2) [OF m(1) I(1)] m(2)] m(1) I(2) show False by (auto simp: bind_apply)
qed

lemma calm_read: "(\<And>m. I m \<Longrightarrow> calm I (f (g m))) \<Longrightarrow> calm I (bind (get_self g) f)"
  by (rule calm_bind_dep [OF calm_get_self]) (auto simp: get_self_def)

lemma calm_for_each: "(\<And>x a. x \<in> set xs \<Longrightarrow> calm I (f x a)) \<Longrightarrow> calm I (for_each xs a f)"
  by (induction xs arbitrary: a) (auto intro!: calm_ret calm_bind split: loop.splits)

lemma calm_range_loop:
  "(\<And>x a. x \<in> set m \<Longrightarrow> calm I (f x a)) \<Longrightarrow> (\<And>r. calm I (g r))
   \<Longrightarrow> calm I (bind (range_map rt m) (\<lambda>kvs. bind (for_each kvs a f) g))"
  by (rule calm_bind_dep [OF calm_range]) (auto intro!: calm_bind calm_for_each dest: range_set)

lemma calm_if: "(b \<Longrightarrow> calm I m) \<Longrightarrow> (\<not> b \<Longrightarrow> calm I n) \<Longrightarrow> calm I (if b then m else n)"
  by simp

lemma calm_let: "calm I (f x) \<Longrightarrow> calm I (let y = x in f y)"
  by simp

lemma calm_case_sum:
  "(\<And>x. r = Inl x \<Longrightarrow> calm I (f x)) \<Longrightarrow> (\<And>y. r = Inr y \<Longrightarrow> calm I (g y)) \<Longrightarrow> calm I (case r of Inl x \<Rightarrow> f x | Inr y \<Rightarrow> g y)"
  by (cases r) simp_all

lemma calm_case_option:
  "(r = None \<Longrightarrow> calm I m) \<Longrightarrow> (\<And>y. r = Some y \<Longrightarrow> calm I (g y)) \<Longrightarrow> calm I (case r of None \<Rightarrow> m | Some y \<Rightarrow> g y)"
  by (cases r) simp_all

lemma calm_case_prod: "(\<And>x y. r = (x, y) \<Longrightarrow> calm I (f x y)) \<Longrightarrow> calm I (case r of (x, y) \<Rightarrow> f x y)"
  by (cases r) simp

lemma calm_case_bool: "(b \<Longrightarrow> calm I m) \<Longrightarrow> (\<not> b \<Longrightarrow> calm I n) \<Longrightarrow> calm I (case b of True \<Rightarrow> m | False \<Rightarrow> n)"
  by (cases b) simp_all

lemmas calm_rules = calm_ret calm_ask calm_act calm_emit calm_get_self calm_range calm_now calm_range_loop calm_bind calm_for_each
  calm_if calm_let calm_case_sum calm_case_option calm_case_prod calm_case_bool

section \<open>Evaluating the runtime\<close>

text \<open>A clock that shows \<open>t\<close> throughout: no time passes while the handler runs.\<close>

definition clock_at :: "'w runtime \<Rightarrow> time \<Rightarrow> bool" where
  "clock_at rt t \<longleftrightarrow> (\<forall>w. fst (rt_now rt w) = t)"

lemma clock_read: "clock_at rt t \<Longrightarrow> \<exists>w. time_now rt s = (Ret t, s\<lparr>world := w\<rparr>)"
  by (auto simp: time_now_def ask_def clock_at_def split: prod.splits) (metis fst_conv)

lemma ask_eval: "\<exists>w. ask f s = (Ret (fst (f (world s))), s\<lparr>world := w\<rparr>)"
  by (auto simp: ask_def split: prod.splits)

lemma range_map_eval: "\<exists>cs w. range_map rt m s = (Ret (shuffle cs m), s\<lparr>world := w\<rparr>)"
  by (auto simp: range_map_def bind_apply ask_def ret_apply split: prod.splits)

text \<open>
  Running a computation on a concrete state by the simplifier: the equations of the primitives, and
  congruences by which a continuation is looked at only when its turn has come.
\<close>

lemmas go_run = bind_apply ret_apply panic_apply ask_def act_def emit_def get_self_def upd_self_def time_now_def range_map_def

lemma frozen_bind: "bind m f = bind m f"
  by (rule refl)

lemma frozen_loop: "xs = ys \<Longrightarrow> for_each xs a f = for_each ys a f"
  by simp

text \<open>A runtime whose clock stands still, for examples.\<close>

definition const_rt :: "time \<Rightarrow> 'w runtime" where
  "const_rt t = \<lparr>rt_now = (\<lambda>w. (t, w)), rt_order = (\<lambda>w. ([], w)), rt_token = (\<lambda>w. (''token'', w))\<rparr>"

lemma clock_at_const_rt: "clock_at (const_rt t) t"
  by (simp add: clock_at_def const_rt_def)

end
