(* ===== verification/Api_Types.thy ===== *)
theory Api_Types
  imports Prelude
begin

text \<open>
  The protobuf messages of \<^verbatim>\<open>pkg/apis/etcd\<close> and \<^verbatim>\<open>pkg/privateapi\<close>, one record per message with the
  fields of the generated Go struct. A message pointer is an \<open>option\<close> (\<^verbatim>\<open>nil\<close> is \<open>None\<close>), a repeated
  field a list, an \<^verbatim>\<open>int32\<close> or \<^verbatim>\<open>int64\<close> an \<open>int\<close>. Messages that carry no field (the requests and
  responses with an empty body) need no type.
\<close>

section \<open>Cluster description\<close>

record ClusterSpec =
  cs_MemberCount :: int
  cs_EtcdVersion :: string

record EtcdNode =
  en_Name :: string
  en_PeerUrls :: "string list"
  en_ClientUrls :: "string list"
  en_QuarantinedClientUrls :: "string list"
  en_TlsEnabled :: bool

record EtcdCluster =
  ec_DesiredClusterSize :: int
  ec_ClusterToken :: string
  ec_Nodes :: "EtcdNode list"

record EtcdState =
  es_NewCluster :: bool
  es_Cluster :: "EtcdCluster option"
  es_EtcdVersion :: string
  es_Quarantined :: bool

text \<open>The zero value \<^verbatim>\<open>&EtcdState{}\<close>.\<close>

definition empty_EtcdState :: EtcdState where
  "empty_EtcdState = \<lparr>es_NewCluster = False, es_Cluster = None, es_EtcdVersion = [], es_Quarantined = False\<rparr>"

record MemberMapInfo =
  mm_Name :: string
  mm_Dns :: string
  mm_Addresses :: "string list"

record MemberMap =
  mm_Members :: "MemberMapInfo list"

section \<open>Commands and backups\<close>

record RestoreBackupCommand =
  rb_ClusterSpec :: "ClusterSpec option"
  rb_Backup :: string

record Command =
  cmd_Timestamp :: int
  cmd_RestoreBackup :: "RestoreBackupCommand option"

record BackupInfo =
  bi_EtcdVersion :: string
  bi_Timestamp :: int
  bi_ClusterSpec :: "ClusterSpec option"

section \<open>Requests and responses of the etcd manager service\<close>

datatype Phase = PHASE_UNKNOWN | PHASE_PREPARE | PHASE_INITIAL_CLUSTER | PHASE_JOIN_EXISTING
  | PHASE_CANCEL_PREPARE

record CommonRequestHeader =
  h_LeadershipToken :: string
  h_ClusterName :: string

record GetInfoResponse =
  gi_ClusterName :: string
  gi_NodeConfiguration :: "EtcdNode option"
  gi_EtcdState :: "EtcdState option"

record JoinClusterRequest =
  jc_Header :: "CommonRequestHeader option"
  jc_Phase :: Phase
  jc_ClusterToken :: string
  jc_Nodes :: "EtcdNode list"
  jc_EtcdVersion :: string

record ReconfigureRequest =
  rc_Header :: "CommonRequestHeader option"
  rc_SetEtcdVersion :: string
  rc_Quarantined :: bool
  rc_EnableTls :: bool

record DoBackupRequest =
  db_Header :: "CommonRequestHeader option"
  db_Storage :: string
  db_Info :: "BackupInfo option"

record DoRestoreRequest =
  dr_Header :: "CommonRequestHeader option"
  dr_Storage :: string
  dr_BackupName :: string

section \<open>Messages of the peer service\<close>

type_synonym PeerId = string

record PeerInfo =
  pi_Id :: string
  pi_Endpoints :: "string list"

record View =
  v_Leader :: "PeerInfo option"
  v_LeadershipToken :: string
  v_Healthy :: "PeerInfo list"

record LeaderNotificationRequest =
  ln_View :: "View option"

record LeaderNotificationResponse =
  lr_Accepted :: bool
  lr_View :: "View option"

end
