(* ===== verification/Go_Strings.thy ===== *)
theory Go_Strings
  imports Prelude
begin

text \<open>
  The functions of Go's \<^verbatim>\<open>strings\<close>, \<^verbatim>\<open>strconv\<close>, \<^verbatim>\<open>path\<close> and \<^verbatim>\<open>path/filepath\<close> packages that the program
  uses, on strings as byte sequences, with the laws the components rely on.
\<close>

section \<open>strings\<close>

definition HasPrefix :: "string \<Rightarrow> string \<Rightarrow> bool" where
  "HasPrefix s p = (take (length p) s = p)"

definition HasSuffix :: "string \<Rightarrow> string \<Rightarrow> bool" where
  "HasSuffix s p = HasPrefix (rev s) (rev p)"

definition TrimPrefix :: "string \<Rightarrow> string \<Rightarrow> string" where
  "TrimPrefix s p = (if HasPrefix s p then drop (length p) s else s)"

definition TrimSuffix :: "string \<Rightarrow> string \<Rightarrow> string" where
  "TrimSuffix s p = (if HasSuffix s p then take (length s - length p) s else s)"

lemma HasPrefix_iff: "HasPrefix s p \<longleftrightarrow> (\<exists>t. s = p @ t)"
proof
  assume "HasPrefix s p"
  then have "s = p @ drop (length p) s" by (metis HasPrefix_def append_take_drop_id)
  then show "\<exists>t. s = p @ t" by blast
qed (auto simp: HasPrefix_def)

lemma HasPrefix_append [simp]: "HasPrefix (p @ t) p"
  by (simp add: HasPrefix_def)

lemma TrimPrefix_append [simp]: "TrimPrefix (p @ t) p = t"
  by (simp add: TrimPrefix_def)

text \<open>\<^verbatim>\<open>strings.Split(s, sep)\<close> and \<^verbatim>\<open>strings.Join\<close> for a one-byte separator.\<close>

fun split_on :: "char \<Rightarrow> string \<Rightarrow> string list" where
  "split_on c [] = [[]]"
| "split_on c (x # xs) =
     (if x = c then [] # split_on c xs
      else (case split_on c xs of [] \<Rightarrow> [[x]] | y # ys \<Rightarrow> (x # y) # ys))"

fun join :: "string \<Rightarrow> string list \<Rightarrow> string" where
  "join sep [] = []"
| "join sep [x] = x"
| "join sep (x # y # ys) = x @ sep @ join sep (y # ys)"

lemma split_on_nonempty [simp]: "split_on c s \<noteq> []"
  by (induction s) (auto split: list.splits)

lemma join_Cons: "join sep (x # xs) = (if xs = [] then x else x @ sep @ join sep xs)"
  by (cases xs) auto

lemma join_split_on [simp]: "join [c] (split_on c s) = s"
proof (induction s)
  case (Cons x xs)
  show ?case
  proof (cases "split_on c xs")
    case (Cons y ys)
    with Cons.IH have "join [c] (y # ys) = xs" by simp
    with Cons show ?thesis by (auto simp: join_Cons split: if_splits)
  qed simp
qed simp

lemma split_on_no_sep: "t \<in> set (split_on c s) \<Longrightarrow> c \<notin> set t"
proof (induction s arbitrary: t)
  case (Cons x xs)
  then show ?case
    by (cases "split_on c xs") (fastforce split: if_splits)+
qed simp

lemma split_on_append: "c \<notin> set x \<Longrightarrow> split_on c (x @ c # s) = x # split_on c s"
  by (induction x) auto

lemma split_on_no_sep_id: "c \<notin> set x \<Longrightarrow> split_on c x = [x]"
  by (induction x) auto

lemma split_on_join:
  "xs \<noteq> [] \<Longrightarrow> \<forall>x \<in> set xs. c \<notin> set x \<Longrightarrow> split_on c (join [c] xs) = xs"
  by (induction xs) (auto simp: join_Cons split_on_append split_on_no_sep_id)

lemma join_append:
  "xs \<noteq> [] \<Longrightarrow> ys \<noteq> [] \<Longrightarrow> join sep (xs @ ys) = join sep xs @ sep @ join sep ys"
  by (induction xs) (auto simp: join_Cons)

text \<open>\<^verbatim>\<open>strings.TrimSpace\<close> on ASCII white space.\<close>

definition is_space :: "char \<Rightarrow> bool" where
  "is_space c \<longleftrightarrow> c \<in> {CHR 0x09, CHR 0x0A, CHR 0x0B, CHR 0x0C, CHR 0x0D, CHR 0x20}"

definition TrimSpace :: "string \<Rightarrow> string" where
  "TrimSpace s = rev (dropWhile is_space (rev (dropWhile is_space s)))"

lemma dropWhile_id: "(s \<noteq> [] \<Longrightarrow> \<not> p (hd s)) \<Longrightarrow> dropWhile p s = s"
  by (cases s) auto

lemma TrimSpace_id:
  "s \<noteq> [] \<Longrightarrow> \<not> is_space (hd s) \<Longrightarrow> \<not> is_space (last s) \<Longrightarrow> TrimSpace s = s"
  by (simp add: TrimSpace_def dropWhile_id hd_rev)

text \<open>\<^verbatim>\<open>strings.Index\<close>: the first position of a substring.\<close>

fun index_of :: "string \<Rightarrow> string \<Rightarrow> nat option" where
  "index_of p [] = (if p = [] then Some 0 else None)"
| "index_of p (x # xs) = (if HasPrefix (x # xs) p then Some 0 else map_option Suc (index_of p xs))"

section \<open>strconv\<close>

definition is_digit :: "char \<Rightarrow> bool" where
  "is_digit c \<longleftrightarrow> CHR ''0'' \<le> c \<and> c \<le> CHR ''9''"

definition digit_val :: "char \<Rightarrow> int" where
  "digit_val c = int (of_char c) - 48"

definition dec_val :: "string \<Rightarrow> int" where
  "dec_val s = foldl (\<lambda>n c. 10 * n + digit_val c) 0 s"

definition all_digits :: "string \<Rightarrow> bool" where
  "all_digits s \<longleftrightarrow> s \<noteq> [] \<and> list_all is_digit s"

text \<open>\<^verbatim>\<open>ParseUint(s, 10, 64)\<close> and \<^verbatim>\<open>Atoi\<close> (64-bit \<^verbatim>\<open>int\<close>), with their syntax and range errors.\<close>

definition ParseUint :: "string \<Rightarrow> go_error + int" where
  "ParseUint s =
     (if \<not> all_digits s then Inl (Errorf ''invalid syntax'')
      else if dec_val s < 2 ^ 64 then Inr (dec_val s)
      else Inl (Errorf ''value out of range''))"

definition Atoi :: "string \<Rightarrow> go_error + int" where
  "Atoi s =
     (let neg = HasPrefix s ''-'';
          d = (if neg \<or> HasPrefix s ''+'' then tl s else s);
          n = (if neg then - dec_val d else dec_val d)
      in if \<not> all_digits d then Inl (Errorf ''invalid syntax'')
         else if int64_min \<le> n \<and> n \<le> int64_max then Inr n
         else Inl (Errorf ''value out of range''))"

lemma Atoi_range: "Atoi s = Inr n \<Longrightarrow> int64_min \<le> n \<and> n \<le> int64_max"
  by (auto simp: Atoi_def Let_def split: if_splits)

fun Itoa :: "nat \<Rightarrow> string" where
  "Itoa n = (if n < 10 then [char_of (48 + n)] else Itoa (n div 10) @ [char_of (48 + n mod 10)])"

declare Itoa.simps [simp del]

text \<open>Printing a number and reading it back gives the number, so distinct numbers print differently.\<close>

lemma digit_val_digit: "n < 10 \<Longrightarrow> digit_val (char_of (48 + n)) = int n"
  by (simp add: digit_val_def)

lemma is_digit_digit: "(n :: nat) < 10 \<Longrightarrow> is_digit (char_of (48 + n))"
  by (simp add: is_digit_def less_eq_char_def)

lemma dec_val_snoc: "dec_val (s @ [c]) = 10 * dec_val s + digit_val c"
  by (simp add: dec_val_def)

lemma dec_val_Itoa [simp]: "dec_val (Itoa n) = int n"
proof (induction n rule: Itoa.induct)
  case (1 n)
  show ?case
  proof (cases "n < 10")
    case True
    then show ?thesis by (simp add: Itoa.simps dec_val_def digit_val_digit)
  next
    case False
    with 1 have "dec_val (Itoa (n div 10)) = int (n div 10)" by simp
    with False have "dec_val (Itoa n) = 10 * int (n div 10) + int (n mod 10)"
      by (simp add: Itoa.simps [of n] dec_val_snoc digit_val_digit)
    then show ?thesis by presburger
  qed
qed

lemma Itoa_not_empty: "Itoa n \<noteq> []"
  by (subst Itoa.simps) simp

lemma Itoa_digits: "list_all is_digit (Itoa n)"
proof (induction n rule: Itoa.induct)
  case (1 n)
  then show ?case
    by (cases "n < 10") (auto simp: Itoa.simps [of n] is_digit_digit)
qed

lemma Itoa_inj: "Itoa m = Itoa n \<Longrightarrow> m = n"
  by (metis dec_val_Itoa of_nat_eq_iff)

lemma Itoa_no_dot: "CHR ''.'' \<notin> set (Itoa n)"
  using Itoa_digits [of n] by (auto simp: list_all_iff is_digit_def)

text \<open>\<^verbatim>\<open>fmt.Sprintf("%.6d", n)\<close>: at least six digits.\<close>

definition pad6 :: "nat \<Rightarrow> string" where
  "pad6 n = (let s = Itoa n in replicate (6 - length s) (CHR ''0'') @ s)"

section \<open>path and filepath\<close>

text \<open>
  \<^verbatim>\<open>filepath.Clean\<close> on Unix: the components between slashes are processed left to right, dropping
  empty ones and \<^verbatim>\<open>.\<close>, and letting \<^verbatim>\<open>..\<close> remove the component before it. The stack holds the result
  in reverse.
\<close>

fun clean_comps :: "bool \<Rightarrow> string list \<Rightarrow> string list \<Rightarrow> string list" where
  "clean_comps rooted st [] = rev st"
| "clean_comps rooted st (c # cs) =
     (if c = [] \<or> c = ''.'' then clean_comps rooted st cs
      else if c = ''..'' then
        (case st of
           [] \<Rightarrow> clean_comps rooted (if rooted then [] else [''..'']) cs
         | t # ts \<Rightarrow> if t = ''..'' then clean_comps rooted (''..'' # st) cs
                    else clean_comps rooted ts cs)
      else clean_comps rooted (c # st) cs)"

definition is_rooted :: "string \<Rightarrow> bool" where
  "is_rooted p \<longleftrightarrow> HasPrefix p ''/''"

definition path_comps :: "string \<Rightarrow> string list" where
  "path_comps p = clean_comps (is_rooted p) [] (split_on (CHR ''/'') p)"

definition filepath_Clean :: "string \<Rightarrow> string" where
  "filepath_Clean p =
     (if p = [] then ''.''
      else if is_rooted p then CHR ''/'' # join ''/'' (path_comps p)
      else if path_comps p = [] then ''.''
      else join ''/'' (path_comps p))"

fun filepath_Join :: "string list \<Rightarrow> string" where
  "filepath_Join [] = []"
| "filepath_Join (e # es) = (if e = [] then filepath_Join es else filepath_Clean (join ''/'' (e # es)))"

text \<open>
  \<^verbatim>\<open>filepath.Rel\<close>: the path from \<open>base\<close> to \<open>targ\<close>, computed on the cleaned paths by dropping their
  common leading components.
\<close>

fun strip_common :: "string list \<Rightarrow> string list \<Rightarrow> string list \<times> string list" where
  "strip_common (b # bs) (t # ts) = (if b = t then strip_common bs ts else (b # bs, t # ts))"
| "strip_common bs ts = (bs, ts)"

definition abs_comps :: "string \<Rightarrow> string list" where
  "abs_comps p = (if p = [] \<or> p = ''/'' then []
     else split_on (CHR ''/'') (if is_rooted p then tl p else p))"

definition filepath_Rel :: "string \<Rightarrow> string \<Rightarrow> go_error + string" where
  "filepath_Rel basepath targpath =
     (let base0 = filepath_Clean basepath; targ = filepath_Clean targpath
      in if targ = base0 then Inr ''.''
         else let base = (if base0 = ''.'' then [] else base0)
         in if is_rooted base \<noteq> is_rooted targ then Inl (Errorf ''Rel: can't make relative'')
            else case strip_common (abs_comps base) (abs_comps targ) of (bs, ts) \<Rightarrow>
              if bs \<noteq> [] \<and> hd bs = ''..'' then Inl (Errorf ''Rel: can't make relative'')
              else Inr (join ''/'' (replicate (length bs) ''..'' @ ts)))"

text \<open>\<^verbatim>\<open>path.Base\<close>: the last component, with trailing slashes removed.\<close>

definition path_Base :: "string \<Rightarrow> string" where
  "path_Base p =
     (if p = [] then ''.''
      else let q = rev (dropWhile (\<lambda>c. c = CHR ''/'') (rev p));
               r = last (split_on (CHR ''/'') q)
           in if r = [] then ''/'' else r)"

text \<open>\<^verbatim>\<open>filepath.Dir\<close>: everything up to the last slash, cleaned.\<close>

definition filepath_Dir :: "string \<Rightarrow> string" where
  "filepath_Dir p = filepath_Clean (rev (dropWhile (\<lambda>c. c \<noteq> CHR ''/'') (rev p)))"

lemma strip_common_spec:
  "strip_common bs ts = (b', t') \<Longrightarrow> \<exists>pre. bs = pre @ b' \<and> ts = pre @ t'"
proof (induction bs ts rule: strip_common.induct)
  case (1 b bs t ts)
  then show ?case by (auto split: if_splits)
qed auto

lemma clean_comps_no_sep:
  assumes "\<forall>x \<in> set st. s \<notin> set x" and "\<forall>x \<in> set cs. s \<notin> set x" and "s \<noteq> CHR ''.''"
  shows "\<forall>x \<in> set (clean_comps rooted st cs). s \<notin> set x"
  using assms
  by (induction rooted st cs rule: clean_comps.induct) (auto split: list.splits)

lemma clean_comps_nonempty:
  assumes "[] \<notin> set st" shows "[] \<notin> set (clean_comps rooted st cs)"
  using assms by (induction rooted st cs rule: clean_comps.induct) (auto split: list.splits)

lemma path_comps_plain:
  "x \<in> set (path_comps p) \<Longrightarrow> CHR ''/'' \<notin> set x \<and> x \<noteq> []"
  unfolding path_comps_def
  using clean_comps_no_sep [of "[]" "CHR ''/''" "split_on (CHR ''/'') p" "is_rooted p"]
    clean_comps_nonempty [of "[]" "is_rooted p" "split_on (CHR ''/'') p"] split_on_no_sep
  by fastforce

end
