(* ===== verification/Etcd_Versions.thy ===== *)
theory Etcd_Versions
  imports Go_Strings "HOL-Library.Word"
begin

text \<open>
  Version decisions (\<^verbatim>\<open>pkg/etcdversions/mappings.go\<close>): which upgrades run in place, and which etcd
  version reads a backup. Versions are parsed by \<^verbatim>\<open>semver.ParseTolerant\<close>, whose vendored source
  (\<^verbatim>\<open>github.com/blang/semver/v4\<close>) is modelled here with its 64-bit unsigned components.
\<close>

section \<open>Semantic versions\<close>

record PRVersion =
  pr_VersionStr :: string
  pr_VersionNum :: "64 word"
  pr_IsNum :: bool

record Version =
  Major :: "64 word"
  Minor :: "64 word"
  Patch :: "64 word"
  Pre :: "PRVersion list"
  Build :: "string list"

definition numbers :: string where "numbers = ''0123456789''"
definition alphanum :: string where
  "alphanum = ''abcdefghijklmnopqrstuvwxyzABCDEFGHIJKLMNOPQRSTUVWXYZ-'' @ numbers"

definition containsOnly :: "string \<Rightarrow> string \<Rightarrow> bool" where
  "containsOnly s cs = list_all (\<lambda>c. c \<in> set cs) s"

definition hasLeadingZeroes :: "string \<Rightarrow> bool" where
  "hasLeadingZeroes s \<longleftrightarrow> length s > 1 \<and> hd s = CHR ''0''"

definition SplitN :: "nat \<Rightarrow> char \<Rightarrow> string \<Rightarrow> string list" where
  "SplitN n c s = (let ps = split_on c s in
     if length ps \<le> n then ps else take (n - 1) ps @ [join [c] (drop (n - 1) ps)])"

definition parse_number :: "string \<Rightarrow> go_error + 64 word" where
  "parse_number s =
     (if \<not> containsOnly s numbers then Inl (Errorf ''Invalid character(s) found in number'')
      else if hasLeadingZeroes s then Inl (Errorf ''number must not contain leading zeroes'')
      else case ParseUint s of Inl e \<Rightarrow> Inl e | Inr n \<Rightarrow> Inr (of_int n))"

definition NewPRVersion :: "string \<Rightarrow> go_error + PRVersion" where
  "NewPRVersion s =
     (if s = [] then Inl (Errorf ''Prerelease is empty'')
      else if containsOnly s numbers then
        (if hasLeadingZeroes s then Inl (Errorf ''Numeric PreRelease version must not contain leading zeroes'')
         else case ParseUint s of Inl e \<Rightarrow> Inl e
           | Inr n \<Rightarrow> Inr \<lparr>pr_VersionStr = [], pr_VersionNum = of_int n, pr_IsNum = True\<rparr>)
      else if containsOnly s alphanum then Inr \<lparr>pr_VersionStr = s, pr_VersionNum = 0, pr_IsNum = False\<rparr>
      else Inl (Errorf ''Invalid character(s) found in prerelease''))"

fun map_result :: "('a \<Rightarrow> go_error + 'b) \<Rightarrow> 'a list \<Rightarrow> go_error + 'b list" where
  "map_result f [] = Inr []"
| "map_result f (x # xs) = (case f x of Inl e \<Rightarrow> Inl e | Inr y \<Rightarrow>
     (case map_result f xs of Inl e \<Rightarrow> Inl e | Inr ys \<Rightarrow> Inr (y # ys)))"

definition check_build :: "string \<Rightarrow> go_error + string" where
  "check_build s =
     (if s = [] then Inl (Errorf ''Build meta data is empty'')
      else if \<not> containsOnly s alphanum then Inl (Errorf ''Invalid character(s) found in build meta data'')
      else Inr s)"

text \<open>The part of a string before, and (if there is one) the part after, the first occurrence of a character.\<close>

definition cut_at :: "char \<Rightarrow> string \<Rightarrow> string \<times> string option" where
  "cut_at c s = (takeWhile (\<lambda>x. x \<noteq> c) s,
     if c \<in> set s then Some (tl (dropWhile (\<lambda>x. x \<noteq> c) s)) else None)"

definition dotted :: "string option \<Rightarrow> string list" where
  "dotted x = (case x of None \<Rightarrow> [] | Some s \<Rightarrow> split_on (CHR ''.'') s)"

definition Parse :: "string \<Rightarrow> go_error + Version" where
  "Parse s =
     (if s = [] then Inl (Errorf ''Version string empty'')
      else case SplitN 3 (CHR ''.'') s of
        [p0, p1, p2] \<Rightarrow>
          (case parse_number p0 of Inl e \<Rightarrow> Inl e | Inr major \<Rightarrow>
           case parse_number p1 of Inl e \<Rightarrow> Inl e | Inr minor \<Rightarrow>
           let (rest, build) = cut_at (CHR ''+'') p2; (patchStr, prerelease) = cut_at (CHR ''-'') rest
           in case parse_number patchStr of Inl e \<Rightarrow> Inl e | Inr patch \<Rightarrow>
              case map_result NewPRVersion (dotted prerelease) of Inl e \<Rightarrow> Inl e | Inr pre \<Rightarrow>
              case map_result check_build (dotted build) of Inl e \<Rightarrow> Inl e | Inr bs \<Rightarrow>
              Inr \<lparr>Major = major, Minor = minor, Patch = patch, Pre = pre, Build = bs\<rparr>)
      | _ \<Rightarrow> Inl (Errorf ''No Major.Minor.Patch elements found''))"

definition strip_zeros :: "string \<Rightarrow> string" where
  "strip_zeros p =
     (if length p > 1 then
        let q = dropWhile (\<lambda>c. c = CHR ''0'') p
        in if q = [] \<or> hd q \<notin> set numbers then CHR ''0'' # q else q
      else p)"

definition ParseTolerant :: "string \<Rightarrow> go_error + Version" where
  "ParseTolerant s0 =
     (let s = TrimPrefix (TrimSpace s0) ''v'';
          parts = map strip_zeros (SplitN 3 (CHR ''.'') s)
      in if length parts < 3 then
           (if \<exists>c \<in> set (last parts). c = CHR ''+'' \<or> c = CHR ''-''
            then Inl (Errorf ''Short version cannot contain PreRelease/Build meta data'')
            else Parse (join ''.'' (parts @ replicate (3 - length parts) ''0'')))
         else Parse (join ''.'' parts))"

section \<open>Version decisions\<close>

definition Version_3_1_12 :: string where "Version_3_1_12 = ''3.1.12''"
definition Version_3_2_18 :: string where "Version_3_2_18 = ''3.2.18''"
definition Version_3_2_24 :: string where "Version_3_2_24 = ''3.2.24''"
definition Version_3_3_10 :: string where "Version_3_3_10 = ''3.3.10''"
definition Version_3_3_13 :: string where "Version_3_3_13 = ''3.3.13''"
definition Version_3_3_17 :: string where "Version_3_3_17 = ''3.3.17''"
definition Version_3_4_3 :: string where "Version_3_4_3 = ''3.4.3''"
definition Version_3_4_13 :: string where "Version_3_4_13 = ''3.4.13''"
definition Version_3_5_30 :: string where "Version_3_5_30 = ''3.5.30''"
definition Version_3_6_11 :: string where "Version_3_6_11 = ''3.6.11''"

lemmas version_defs = Version_3_1_12_def Version_3_2_18_def Version_3_2_24_def Version_3_3_10_def
  Version_3_3_13_def Version_3_3_17_def Version_3_4_3_def Version_3_4_13_def Version_3_5_30_def
  Version_3_6_11_def

definition LatestEtcdVersions :: "string list" where
  "LatestEtcdVersions = [Version_3_1_12, Version_3_2_24, Version_3_3_17, Version_3_4_13,
     Version_3_5_30, Version_3_6_11]"

definition UpgradeInPlaceSupported :: "string \<Rightarrow> string \<Rightarrow> bool" where
  "UpgradeInPlaceSupported fromVersion toVersion =
     (case ParseTolerant fromVersion of Inl _ \<Rightarrow> False | Inr fromSemver \<Rightarrow>
      case ParseTolerant toVersion of Inl _ \<Rightarrow> False | Inr toSemver \<Rightarrow>
        if Major fromSemver = 3 \<and> Major toSemver = 3 then
          (if Minor toSemver - Minor fromSemver \<le> 1 \<and> Minor toSemver \<ge> Minor fromSemver
           then True else False)
        else False)"

definition EtcdVersionForRestore :: "string \<Rightarrow> string" where
  "EtcdVersionForRestore fromVersion =
     (case ParseTolerant fromVersion of Inl _ \<Rightarrow> [] | Inr fromSemver \<Rightarrow>
        let family = Itoa (unat (Major fromSemver)) @ ''.'' @ Itoa (unat (Minor fromSemver))
        in if family = ''3.0'' then Version_3_1_12
           else if family = ''3.1'' then Version_3_1_12
           else if family = ''3.2'' then
             (if Patch fromSemver \<le> 18 then Version_3_2_18 else Version_3_2_24)
           else if family = ''3.3'' then
             (if Patch fromSemver \<le> 10 then Version_3_3_10
              else if Patch fromSemver \<le> 13 then Version_3_3_13 else Version_3_3_17)
           else if family = ''3.4'' then
             (if Patch fromSemver \<le> 3 then Version_3_4_3 else Version_3_4_13)
           else if family = ''3.5'' then Version_3_5_30
           else if family = ''3.6'' then Version_3_6_11
           else [])"

section \<open>Properties\<close>

lemma family_eqD:
  assumes "Itoa m @ ''.'' @ Itoa n = Itoa a @ ''.'' @ Itoa b"
  shows "m = a \<and> n = b"
proof -
  have "split_on (CHR ''.'') (Itoa i @ ''.'' @ Itoa j) = [Itoa i, Itoa j]" for i j
    by (simp add: split_on_append split_on_no_sep_id Itoa_no_dot)
  with assms have "Itoa m = Itoa a \<and> Itoa n = Itoa b" by (metis list.inject)
  then show ?thesis by (blast dest: Itoa_inj)
qed

lemma family_literals:
  "''3.0'' = Itoa 3 @ ''.'' @ Itoa 0" "''3.1'' = Itoa 3 @ ''.'' @ Itoa 1"
  "''3.2'' = Itoa 3 @ ''.'' @ Itoa 2" "''3.3'' = Itoa 3 @ ''.'' @ Itoa 3"
  "''3.4'' = Itoa 3 @ ''.'' @ Itoa 4" "''3.5'' = Itoa 3 @ ''.'' @ Itoa 5"
  "''3.6'' = Itoa 3 @ ''.'' @ Itoa 6"
  by code_simp+

lemma unat_eq_numeral: "unat (w :: 64 word) = numeral k \<Longrightarrow> w = numeral k"
  by (metis of_nat_numeral of_nat_unat ucast_id)

lemma unat_eq_01: "unat (w :: 64 word) = 0 \<Longrightarrow> w = 0" "unat (w :: 64 word) = 1 \<Longrightarrow> w = 1"
  by (metis unsigned_word_eqI unsigned_0) (metis unsigned_word_eqI unsigned_1)

lemma family_major_minor:
  assumes "Itoa (unat (M :: 64 word)) @ ''.'' @ Itoa (unat (N :: 64 word)) = f"
  shows "f = ''3.0'' \<Longrightarrow> M = 3 \<and> N = 0" "f = ''3.1'' \<Longrightarrow> M = 3 \<and> N = 1"
    "f = ''3.2'' \<Longrightarrow> M = 3 \<and> N = 2" "f = ''3.3'' \<Longrightarrow> M = 3 \<and> N = 3"
    "f = ''3.4'' \<Longrightarrow> M = 3 \<and> N = 4" "f = ''3.5'' \<Longrightarrow> M = 3 \<and> N = 5"
    "f = ''3.6'' \<Longrightarrow> M = 3 \<and> N = 6"
  using assms unfolding family_literals
  by (simp_all only:) (blast dest: family_eqD intro: unat_eq_numeral unat_eq_01)+

text \<open>The versions that restores use, parsed.\<close>

lemma parse_versions:
  "ParseTolerant Version_3_1_12 = Inr \<lparr>Major = 3, Minor = 1, Patch = 12, Pre = [], Build = []\<rparr>"
  "ParseTolerant Version_3_2_18 = Inr \<lparr>Major = 3, Minor = 2, Patch = 18, Pre = [], Build = []\<rparr>"
  "ParseTolerant Version_3_2_24 = Inr \<lparr>Major = 3, Minor = 2, Patch = 24, Pre = [], Build = []\<rparr>"
  "ParseTolerant Version_3_3_10 = Inr \<lparr>Major = 3, Minor = 3, Patch = 10, Pre = [], Build = []\<rparr>"
  "ParseTolerant Version_3_3_13 = Inr \<lparr>Major = 3, Minor = 3, Patch = 13, Pre = [], Build = []\<rparr>"
  "ParseTolerant Version_3_3_17 = Inr \<lparr>Major = 3, Minor = 3, Patch = 17, Pre = [], Build = []\<rparr>"
  "ParseTolerant Version_3_4_3 = Inr \<lparr>Major = 3, Minor = 4, Patch = 3, Pre = [], Build = []\<rparr>"
  "ParseTolerant Version_3_4_13 = Inr \<lparr>Major = 3, Minor = 4, Patch = 13, Pre = [], Build = []\<rparr>"
  "ParseTolerant Version_3_5_30 = Inr \<lparr>Major = 3, Minor = 5, Patch = 30, Pre = [], Build = []\<rparr>"
  "ParseTolerant Version_3_6_11 = Inr \<lparr>Major = 3, Minor = 6, Patch = 11, Pre = [], Build = []\<rparr>"
  by code_simp+

lemma restore_versions:
  "EtcdVersionForRestore Version_3_1_12 = Version_3_1_12"
  "EtcdVersionForRestore Version_3_2_18 = Version_3_2_18"
  "EtcdVersionForRestore Version_3_2_24 = Version_3_2_24"
  "EtcdVersionForRestore Version_3_3_10 = Version_3_3_10"
  "EtcdVersionForRestore Version_3_3_13 = Version_3_3_13"
  "EtcdVersionForRestore Version_3_3_17 = Version_3_3_17"
  "EtcdVersionForRestore Version_3_4_3 = Version_3_4_3"
  "EtcdVersionForRestore Version_3_4_13 = Version_3_4_13"
  "EtcdVersionForRestore Version_3_5_30 = Version_3_5_30"
  "EtcdVersionForRestore Version_3_6_11 = Version_3_6_11"
  by code_simp+

text \<open>
  In-place upgrades go to the same or to the next minor version of etcd 3, and to no other: the
  unsigned subtraction of the source wraps for a downgrade, and its second comparison excludes that.
\<close>

lemma minor_step_iff:
  fixes t f :: "64 word"
  shows "t - f \<le> 1 \<and> t \<ge> f \<longleftrightarrow> uint t = uint f \<or> uint t = uint f + 1"
proof (cases "t \<ge> f")
  case True
  then have "uint (t - f) = uint t - uint f"
    by (simp add: uint_minus_simple_alt word_le_def)
  then have "t - f \<le> 1 \<longleftrightarrow> uint t - uint f \<le> 1" by (simp add: word_le_def)
  with True show ?thesis by (auto simp: word_le_def)
next
  case False
  then show ?thesis by (auto simp: word_le_def)
qed

text \<open>
  C36. An upgrade in place is exactly a move within etcd 3 to the same or to the next minor version; the
  unsigned subtraction of the code does not wrap into accepting a downgrade.
\<close>

theorem UpgradeInPlaceSupported_iff:
  "UpgradeInPlaceSupported fromVersion toVersion \<longleftrightarrow>
     (\<exists>f t. ParseTolerant fromVersion = Inr f \<and> ParseTolerant toVersion = Inr t
        \<and> Major f = 3 \<and> Major t = 3 \<and> (uint (Minor t) = uint (Minor f) \<or> uint (Minor t) = uint (Minor f) + 1))"
  unfolding UpgradeInPlaceSupported_def minor_step_iff by (auto split: sum.splits)

lemma EtcdVersionForRestore_cases:
  assumes "EtcdVersionForRestore v \<noteq> []"
  obtains f where "ParseTolerant v = Inr f" and "Major f = 3"
    and "Minor f = 0 \<and> EtcdVersionForRestore v = Version_3_1_12
      \<or> Minor f = 1 \<and> EtcdVersionForRestore v = Version_3_1_12
      \<or> Minor f = 2 \<and> EtcdVersionForRestore v \<in> {Version_3_2_18, Version_3_2_24}
      \<or> Minor f = 3 \<and> EtcdVersionForRestore v \<in> {Version_3_3_10, Version_3_3_13, Version_3_3_17}
      \<or> Minor f = 4 \<and> EtcdVersionForRestore v \<in> {Version_3_4_3, Version_3_4_13}
      \<or> Minor f = 5 \<and> EtcdVersionForRestore v = Version_3_5_30
      \<or> Minor f = 6 \<and> EtcdVersionForRestore v = Version_3_6_11"
proof -
  from assms obtain f where f: "ParseTolerant v = Inr f"
    by (auto simp: EtcdVersionForRestore_def split: sum.splits)
  define g where "g = Itoa (unat (Major f)) @ ''.'' @ Itoa (unat (Minor f))"
  note fam = family_major_minor [OF g_def [symmetric]]
  have "Major f = 3" and "(Minor f = 0 \<and> EtcdVersionForRestore v = Version_3_1_12
      \<or> Minor f = 1 \<and> EtcdVersionForRestore v = Version_3_1_12
      \<or> Minor f = 2 \<and> EtcdVersionForRestore v \<in> {Version_3_2_18, Version_3_2_24}
      \<or> Minor f = 3 \<and> EtcdVersionForRestore v \<in> {Version_3_3_10, Version_3_3_13, Version_3_3_17}
      \<or> Minor f = 4 \<and> EtcdVersionForRestore v \<in> {Version_3_4_3, Version_3_4_13}
      \<or> Minor f = 5 \<and> EtcdVersionForRestore v = Version_3_5_30
      \<or> Minor f = 6 \<and> EtcdVersionForRestore v = Version_3_6_11)"
    using assms fam unfolding EtcdVersionForRestore_def f Let_def sum.case g_def [symmetric]
    by (auto split: if_splits)
  then show thesis using that f by blast
qed

lemma EtcdVersionForRestore_range:
  "EtcdVersionForRestore v \<in> {[], Version_3_1_12, Version_3_2_18, Version_3_2_24, Version_3_3_10,
     Version_3_3_13, Version_3_3_17, Version_3_4_3, Version_3_4_13, Version_3_5_30, Version_3_6_11}"
  by (auto simp: EtcdVersionForRestore_def Let_def split: sum.splits)

text \<open>
  The version a backup is restored with is never a risk: it is one of the versions in the images,
  etcd supports the upgrade in place from the version of the backup to it, and asking again for the
  chosen version gives the same version.
\<close>

theorem EtcdVersionForRestore_safe:
  assumes "EtcdVersionForRestore v \<noteq> []"
  shows "UpgradeInPlaceSupported v (EtcdVersionForRestore v)
    \<and> EtcdVersionForRestore (EtcdVersionForRestore v) = EtcdVersionForRestore v"
proof -
  from assms obtain f where f: "ParseTolerant v = Inr f" "Major f = 3"
    and r: "Minor f = 0 \<and> EtcdVersionForRestore v = Version_3_1_12
      \<or> Minor f = 1 \<and> EtcdVersionForRestore v = Version_3_1_12
      \<or> Minor f = 2 \<and> EtcdVersionForRestore v \<in> {Version_3_2_18, Version_3_2_24}
      \<or> Minor f = 3 \<and> EtcdVersionForRestore v \<in> {Version_3_3_10, Version_3_3_13, Version_3_3_17}
      \<or> Minor f = 4 \<and> EtcdVersionForRestore v \<in> {Version_3_4_3, Version_3_4_13}
      \<or> Minor f = 5 \<and> EtcdVersionForRestore v = Version_3_5_30
      \<or> Minor f = 6 \<and> EtcdVersionForRestore v = Version_3_6_11"
    by (rule EtcdVersionForRestore_cases) blast
  have "UpgradeInPlaceSupported v (EtcdVersionForRestore v)"
    using f r unfolding UpgradeInPlaceSupported_def
    by (elim disjE conjE insertE) (simp_all add: parse_versions)
  moreover have "EtcdVersionForRestore (EtcdVersionForRestore v) = EtcdVersionForRestore v"
    using r by (elim disjE conjE insertE) (simp_all add: restore_versions)
  ultimately show ?thesis by blast
qed

theorem EtcdVersionForRestore_safe_witness:
  "EtcdVersionForRestore ''3.3.11'' = Version_3_3_13 \<and> UpgradeInPlaceSupported ''3.3.11'' Version_3_3_13"
proof -
  have "EtcdVersionForRestore ''3.3.11'' = Version_3_3_13" by code_simp
  moreover have "Version_3_3_13 \<noteq> []" by (simp add: version_defs)
  ultimately show ?thesis using EtcdVersionForRestore_safe [of "''3.3.11''"] by simp
qed

end
