(* ===== verification/Human_Duration.thy ===== *)
theory Human_Duration
  imports Go_Monad Go_Strings
begin

text \<open>
  Durations with days and years, as \<^verbatim>\<open>pkg/backupcontroller/cleanup.go\<close> and \<^verbatim>\<open>pkg/pki/certs.go\<close> read them
  from the environment (each file has its own copy of the function).
\<close>

text \<open>\<open>ParseDuration\<close> stands for \<^verbatim>\<open>time.ParseDuration\<close>. The product of two durations wraps.\<close>

definition ParseHumanDuration :: "(string \<Rightarrow> go_error + duration) \<Rightarrow> string \<Rightarrow> go_error + duration" where
  "ParseHumanDuration ParseDuration s =
     (if HasSuffix s ''y'' then
        (case Atoi (TrimSuffix s ''y'') of Inl err \<Rightarrow> Inl err
         | Inr n \<Rightarrow> Inr (wrap64 (wrap64 (wrap64 (n * 365) * 24) * hour)))
      else if HasSuffix s ''d'' then
        (case Atoi (TrimSuffix s ''d'') of Inl err \<Rightarrow> Inl err
         | Inr n \<Rightarrow> Inr (wrap64 (wrap64 (n * 24) * hour)))
      else ParseDuration s)"

text \<open>A setting from the environment: empty is the default, a value that does not parse is fatal.\<close>

definition env_duration :: "(string \<Rightarrow> go_error + duration) \<Rightarrow> string \<Rightarrow> duration \<Rightarrow> ('s, duration) go" where
  "env_duration ParseDuration s dflt =
     (if s = [] then ret dflt
      else case ParseHumanDuration ParseDuration s of
        Inl _ \<Rightarrow> panic ''failed to parse duration'' | Inr v \<Rightarrow> ret v)"

section \<open>Which durations can be written\<close>

lemma HasSuffix_append [simp]: "HasSuffix (s @ p) p"
  by (simp add: HasSuffix_def HasPrefix_def)

lemma TrimSuffix_append [simp]: "TrimSuffix (s @ p) p = s"
  by (simp add: TrimSuffix_def)

lemma Itoa_first: "\<exists>c cs. Itoa n = c # cs \<and> is_digit c \<and> list_all is_digit cs"
  using Itoa_digits [of n] by (cases "Itoa n") (auto simp: Itoa.simps [of n] split: if_splits)

lemma Atoi_Itoa: "Atoi (Itoa n) = (if int n \<le> int64_max then Inr (int n) else Inl (Errorf ''value out of range''))"
proof -
  obtain c cs where c: "Itoa n = c # cs" "is_digit c" "list_all is_digit cs" using Itoa_first by blast
  then have "c \<noteq> CHR ''-''" "c \<noteq> CHR ''+''" by (auto simp: is_digit_def)
  with c dec_val_Itoa [of n] show ?thesis
    by (simp add: Atoi_def HasPrefix_def all_digits_def Let_def int64_min_def)
qed

lemma wrap64_in_range: "int64_min \<le> x \<and> x \<le> int64_max" if "wrap64 y = x"
  using that wrap64_bounds by blast

text \<open>
  A number of years is the duration it says up to 292 years and not beyond, a number of days up
  to 106751: larger numbers wrap around or do not parse.
\<close>

theorem ParseHumanDuration_exact:
  "(ParseHumanDuration pd (Itoa n @ ''y'') = Inr (int n * 365 * 24 * hour) \<longleftrightarrow> n \<le> 292)
    \<and> (ParseHumanDuration pd (Itoa n @ ''d'') = Inr (int n * 24 * hour) \<longleftrightarrow> n \<le> 106751)"
proof -
  let ?y = "int n * 365 * 24 * hour" and ?d = "int n * 24 * hour"
  have "\<not> HasSuffix (Itoa n @ ''d'') ''y''" by (simp add: HasSuffix_def HasPrefix_def)
  then have "ParseHumanDuration pd (Itoa n @ ''y'') = Inr ?y \<longleftrightarrow> int n \<le> int64_max
      \<and> wrap64 (wrap64 (wrap64 (int n * 365) * 24) * hour) = ?y"
    and "ParseHumanDuration pd (Itoa n @ ''d'') = Inr ?d \<longleftrightarrow> int n \<le> int64_max
      \<and> wrap64 (wrap64 (int n * 24) * hour) = ?d"
    by (simp_all add: ParseHumanDuration_def Atoi_Itoa)
  moreover have "wrap64 (wrap64 (wrap64 (int n * 365) * 24) * hour) = ?y" if "n \<le> 292"
    using that by (simp add: wrap64_id int64_min_def int64_max_def duration_defs)
  moreover have "wrap64 (wrap64 (int n * 24) * hour) = ?d" if "n \<le> 106751"
    using that by (simp add: wrap64_id int64_min_def int64_max_def duration_defs)
  moreover have "n \<le> 292" if "wrap64 (wrap64 (wrap64 (int n * 365) * 24) * hour) = ?y"
    using wrap64_in_range [OF that] by (simp add: int64_max_def duration_defs)
  moreover have "n \<le> 106751" if "wrap64 (wrap64 (int n * 24) * hour) = ?d"
    using wrap64_in_range [OF that] by (simp add: int64_max_def duration_defs)
  moreover have "int n \<le> int64_max" if "n \<le> 106751" using that by (simp add: int64_max_def)
  moreover have "int n \<le> int64_max" if "n \<le> 292" using that by (simp add: int64_max_def)
  ultimately show ?thesis by blast
qed

end
