(* ===== verification/Pki.thy ===== *)
theory Pki
  imports Human_Duration
begin

text \<open>
  Certificates and key pairs (\<^verbatim>\<open>pkg/pki\<close>): when a stored certificate is reused, how a new one is
  issued, and the two stores (files and memory) behind the \<^verbatim>\<open>MutableKeypair\<close> interface. An RSA key
  pair is named by a number; generating keys, signing (\<^verbatim>\<open>crypto/x509\<close>, \<^verbatim>\<open>client-go/util/cert\<close>), the
  PEM encoding and the file system are parameters.
\<close>

section \<open>Data\<close>

type_synonym rsa_key = int

datatype key_usage = ClientAuth | ServerAuth

record certificate =
  ct_CommonName :: string
  ct_Organization :: "string list"
  ct_DNSNames :: "string list"
  ct_IPs :: "string list"
  ct_NotBefore :: time
  ct_NotAfter :: time
  ct_Usages :: "key_usage list"
  ct_PublicKey :: rsa_key
  ct_Raw :: string

record cert_config =
  cc_CommonName :: string
  cc_Organization :: "string list"
  cc_DNSNames :: "string list"
  cc_IPs :: "string list"
  cc_Usages :: "key_usage list"

record Keypair =
  kp_Certificate :: "certificate option"
  kp_PrivateKey :: "rsa_key option"

record CA =
  ca_primaryCertificate :: certificate
  ca_privateKey :: rsa_key
  ca_certificates :: "certificate list"

record tls_Config =
  tc_RootCAs :: "certificate list"
  tc_Certificate :: certificate
  tc_PrivateKey :: rsa_key

definition empty_Keypair :: Keypair where
  "empty_Keypair = \<lparr>kp_Certificate = None, kp_PrivateKey = None\<rparr>"

text \<open>
  The two durations (package variables, set once by \<^verbatim>\<open>init\<close>) and the calls to cryptography and files. A certificate is signed from a template (a certificate whose
  \<open>ct_Raw\<close> is not used yet), the parent certificate, the public key and the signing key.
\<close>

record 'w pki_env =
  pk_rt :: "'w runtime"
  pk_CertDuration :: duration
  pk_CertMinTimeLeft :: duration
  pk_GenerateKey :: "'w \<Rightarrow> (go_error + rsa_key) \<times> 'w"
  pk_Serial :: "'w \<Rightarrow> (go_error + int) \<times> 'w"
  pk_CreateCertificate :: "int \<Rightarrow> certificate \<Rightarrow> certificate \<Rightarrow> rsa_key \<Rightarrow> 'w
      \<Rightarrow> (go_error + certificate) \<times> 'w"
  pk_NewSelfSignedCACert :: "cert_config \<Rightarrow> rsa_key \<Rightarrow> 'w \<Rightarrow> (go_error + certificate) \<times> 'w"
  pk_ReadFile :: "string \<Rightarrow> 'w \<Rightarrow> (go_error + string) \<times> 'w"
  pk_MkdirAll :: "string \<Rightarrow> 'w \<Rightarrow> go_error option \<times> 'w"
  pk_WriteFile :: "string \<Rightarrow> string \<Rightarrow> 'w \<Rightarrow> go_error option \<times> 'w"
  pk_ParsePrivateKeyPEM :: "string \<Rightarrow> go_error + rsa_key option"
  pk_ParseCertsPEM :: "string \<Rightarrow> go_error + certificate list"
  pk_EncodeKey :: "rsa_key \<Rightarrow> string"
  pk_EncodeCert :: "certificate \<Rightarrow> string"

section \<open>Issuing and reusing certificates\<close>

definition CertDuration :: duration where "CertDuration = 2 * 365 * 24 * hour"
definition CertMinTimeLeft :: duration where "CertMinTimeLeft = 20 * 365 * 24 * hour"

text \<open>\<^verbatim>\<open>init\<close> of \<^verbatim>\<open>certs.go\<close>, and its copy of \<open>ParseHumanDuration\<close>.\<close>

definition pki_ParseHumanDuration :: "(string \<Rightarrow> go_error + duration) \<Rightarrow> string \<Rightarrow> go_error + duration" where
  "pki_ParseHumanDuration ParseDuration s = ParseHumanDuration ParseDuration s"

definition pki_init :: "(string \<Rightarrow> go_error + duration) \<Rightarrow> string \<Rightarrow> string \<Rightarrow> ('s, duration \<times> duration) go" where
  "pki_init ParseDuration certDuration certMinTimeLeft =
     bind (env_duration ParseDuration certDuration CertDuration) (\<lambda>d.
     bind (env_duration ParseDuration certMinTimeLeft CertMinTimeLeft) (\<lambda>m.
     ret (d, m)))"

definition cert_template :: "cert_config \<Rightarrow> rsa_key \<Rightarrow> time \<Rightarrow> time \<Rightarrow> certificate" where
  "cert_template cfg key notBefore notAfter =
     \<lparr>ct_CommonName = cc_CommonName cfg, ct_Organization = cc_Organization cfg,
      ct_DNSNames = cc_DNSNames cfg, ct_IPs = cc_IPs cfg, ct_NotBefore = notBefore,
      ct_NotAfter = notAfter, ct_Usages = cc_Usages cfg, ct_PublicKey = key, ct_Raw = []\<rparr>"

definition newSignedCert :: "'w pki_env \<Rightarrow> cert_config \<Rightarrow> rsa_key \<Rightarrow> CA \<Rightarrow> duration
    \<Rightarrow> (('st, 'w, 'ev) sys, go_error + certificate) go" where
  "newSignedCert e cfg key ca d =
     bind (ask (pk_Serial e)) (\<lambda>serial. case serial of
       Inl err \<Rightarrow> ret (Inl err)
     | Inr n \<Rightarrow>
       if cc_CommonName cfg = [] then ret (Inl (Errorf ''must specify a CommonName''))
       else if cc_Usages cfg = [] then ret (Inl (Errorf ''must specify at least one ExtKeyUsage''))
       else bind (time_now (pk_rt e)) (\<lambda>now.
         ask (pk_CreateCertificate e n
           (cert_template cfg key (ct_NotBefore (ca_primaryCertificate ca)) (now + d))
           (ca_primaryCertificate ca) (ca_privateKey ca))))"

text \<open>The checks of \<^verbatim>\<open>ensureKeypair\<close> on a stored certificate, with \<open>time.Until(cert.NotAfter)\<close> taken at \<open>now\<close>.\<close>

definition cert_matches :: "duration \<Rightarrow> time \<Rightarrow> cert_config \<Rightarrow> certificate \<Rightarrow> bool" where
  "cert_matches minLeft now config cert \<longleftrightarrow>
     \<not> time_sub (ct_NotAfter cert) now \<le> minLeft
     \<and> ct_CommonName cert = cc_CommonName config
     \<and> sort (cc_DNSNames config) = sort (ct_DNSNames cert)
     \<and> sort (cc_IPs config) = sort (ct_IPs cert)"

definition ensure_private_key :: "'w pki_env \<Rightarrow> Keypair
    \<Rightarrow> (('st, 'w, 'ev) sys, go_error + rsa_key) go" where
  "ensure_private_key e keypair =
     (case kp_PrivateKey keypair of Some k \<Rightarrow> ret (Inr k)
      | None \<Rightarrow> bind (ask (pk_GenerateKey e)) (\<lambda>r. ret (case r of
          Inl err \<Rightarrow> Inl (Wrap ''unable to create private key'' err) | Inr k \<Rightarrow> Inr k)))"

definition keypair_mutator :: "'w pki_env \<Rightarrow> cert_config \<Rightarrow> CA \<Rightarrow> Keypair
    \<Rightarrow> (('st, 'w, 'ev) sys, go_error + Keypair) go" where
  "keypair_mutator e config signer keypair =
     bind (ensure_private_key e keypair) (\<lambda>k. case k of
       Inl err \<Rightarrow> ret (Inl err)
     | Inr key \<Rightarrow>
       bind (case kp_Certificate keypair of None \<Rightarrow> ret None
         | Some cert \<Rightarrow> bind (time_now (pk_rt e)) (\<lambda>now.
             ret (if cert_matches (pk_CertMinTimeLeft e) now config cert then Some cert else None))) (\<lambda>kept. case kept of
         Some cert \<Rightarrow> ret (Inr \<lparr>kp_Certificate = Some cert, kp_PrivateKey = Some key\<rparr>)
       | None \<Rightarrow>
         bind (newSignedCert e config key signer (pk_CertDuration e)) (\<lambda>r. ret (case r of
           Inl err \<Rightarrow> Inl (Wrap ''error signing certificate'' err)
         | Inr cert \<Rightarrow> Inr \<lparr>kp_Certificate = Some cert, kp_PrivateKey = Some key\<rparr>))))"

section \<open>Stores\<close>

definition loadPrivateKey :: "'w pki_env \<Rightarrow> string \<Rightarrow> (('st, 'w, 'ev) sys, go_error + rsa_key) go" where
  "loadPrivateKey e path =
     bind (ask (pk_ReadFile e path)) (\<lambda>r. ret (case r of
       Inl err \<Rightarrow> Inl (if err = NotExist then err else Wrap ''unable to read key'' err)
     | Inr bytes \<Rightarrow> (case pk_ParsePrivateKeyPEM e bytes of
         Inl err \<Rightarrow> Inl (Wrap ''unable to parse private key'' err)
       | Inr None \<Rightarrow> Inl (Errorf ''unexpected private key type'')
       | Inr (Some k) \<Rightarrow> Inr k)))"

definition ParseOneCertificate :: "'w pki_env \<Rightarrow> string \<Rightarrow> go_error + certificate" where
  "ParseOneCertificate e b =
     (case pk_ParseCertsPEM e b of
        Inl err \<Rightarrow> Inl (Wrap ''error parsing certificate data'' err)
      | Inr certs \<Rightarrow> if length certs > 1 then Inl (Errorf ''found multiple certificates'')
          else if length certs = 0 then Inl (Errorf ''did not find any certificates'')
          else Inr (hd certs))"

definition loadCertificate :: "'w pki_env \<Rightarrow> string
    \<Rightarrow> (('st, 'w, 'ev) sys, go_error + certificate option) go" where
  "loadCertificate e path =
     bind (ask (pk_ReadFile e path)) (\<lambda>r. ret (case r of
       Inl err \<Rightarrow> if err = NotExist then Inr None else Inl (Wrap ''unable to read certificate'' err)
     | Inr bytes \<Rightarrow> (case ParseOneCertificate e bytes of
         Inl err \<Rightarrow> Inl (Wrap ''error parsing certificate data in file'' err)
       | Inr c \<Rightarrow> Inr (Some c))))"

definition write_pem :: "'w pki_env \<Rightarrow> string \<Rightarrow> string \<Rightarrow> (('st, 'w, 'ev) sys, go_error option) go" where
  "write_pem e path content =
     bind (ask (pk_MkdirAll e (filepath_Dir path))) (\<lambda>r. case r of
       Some err \<Rightarrow> ret (Some (Wrap ''creating directories'' err))
     | None \<Rightarrow> bind (ask (pk_WriteFile e path content)) (\<lambda>r. ret (case r of
         Some err \<Rightarrow> Some (Wrap ''writing file'' err) | None \<Rightarrow> None)))"

definition writePrivateKey :: "'w pki_env \<Rightarrow> string \<Rightarrow> rsa_key
    \<Rightarrow> (('st, 'w, 'ev) sys, go_error option) go" where
  "writePrivateKey e path k = write_pem e path (pk_EncodeKey e k)"

definition writeCertificates :: "'w pki_env \<Rightarrow> string \<Rightarrow> certificate list
    \<Rightarrow> (('st, 'w, 'ev) sys, go_error option) go" where
  "writeCertificates e path certs = write_pem e path (concat (map (pk_EncodeCert e) certs))"

definition WriteCABundle :: "'w pki_env \<Rightarrow> string \<Rightarrow> CA \<Rightarrow> (('st, 'w, 'ev) sys, go_error option) go" where
  "WriteCABundle e basedir ca = writeCertificates e (filepath_Join [basedir, ''ca.crt'']) (ca_certificates ca)"

text \<open>
  \<^verbatim>\<open>(s *MutableKeypairFromFile) MutateKeypair\<close>: missing files are an empty key pair, and only what
  the mutator changed is written. A key pair that comes back without key or certificate would be
  dereferenced by the writers.
\<close>

definition save_key :: "'w pki_env \<Rightarrow> string \<Rightarrow> Keypair \<Rightarrow> Keypair
    \<Rightarrow> (('st, 'w, 'ev) sys, go_error option) go" where
  "save_key e path original keypair =
     (if kp_PrivateKey original \<noteq> None \<and> kp_PrivateKey original = kp_PrivateKey keypair then ret None
      else case kp_PrivateKey keypair of None \<Rightarrow> panic ''nil private key''
        | Some k \<Rightarrow> writePrivateKey e path k)"

definition save_cert :: "'w pki_env \<Rightarrow> string \<Rightarrow> Keypair \<Rightarrow> Keypair
    \<Rightarrow> (('st, 'w, 'ev) sys, go_error option) go" where
  "save_cert e path original keypair =
     (if kp_Certificate original \<noteq> None \<and> kp_Certificate original = kp_Certificate keypair then ret None
      else case kp_Certificate keypair of None \<Rightarrow> panic ''nil certificate''
        | Some c \<Rightarrow> writeCertificates e path [c])"

definition MutateKeypair_file :: "'w pki_env \<Rightarrow> string \<Rightarrow> string
    \<Rightarrow> (Keypair \<Rightarrow> (('st, 'w, 'ev) sys, go_error + Keypair) go)
    \<Rightarrow> (('st, 'w, 'ev) sys, go_error + Keypair) go" where
  "MutateKeypair_file e keyPath certPath mutator =
     bind (loadPrivateKey e keyPath) (\<lambda>k.
       if (case k of Inl err \<Rightarrow> err \<noteq> NotExist | Inr _ \<Rightarrow> False)
       then ret (Inl (case k of Inl err \<Rightarrow> err | Inr _ \<Rightarrow> NotExist))
       else
       bind (loadCertificate e certPath) (\<lambda>c. case c of
         Inl err \<Rightarrow> ret (Inl err)
       | Inr cert \<Rightarrow>
         let original = \<lparr>kp_Certificate = cert,
               kp_PrivateKey = (case k of Inl _ \<Rightarrow> None | Inr key \<Rightarrow> Some key)\<rparr>
         in bind (mutator original) (\<lambda>r. case r of
           Inl err \<Rightarrow> ret (Inl err)
         | Inr keypair \<Rightarrow>
           bind (save_key e keyPath original keypair) (\<lambda>r. case r of
             Some err \<Rightarrow> ret (Inl err)
           | None \<Rightarrow>
             bind (save_cert e certPath original keypair) (\<lambda>r. case r of
               Some err \<Rightarrow> ret (Inl err)
             | None \<Rightarrow> ret (Inr keypair))))))"

text \<open>\<^verbatim>\<open>(s *InMemoryMutableKeypair) MutateKeypair\<close>: the slot is passed in, and returned with the result.\<close>

definition MutateKeypair_mem :: "Keypair option
    \<Rightarrow> (Keypair \<Rightarrow> ('s, go_error + Keypair) go)
    \<Rightarrow> ('s, (go_error + Keypair) \<times> Keypair option) go" where
  "MutateKeypair_mem slot mutator =
     bind (mutator (case slot of None \<Rightarrow> empty_Keypair | Some kp \<Rightarrow> kp)) (\<lambda>r. ret (case r of
       Inl err \<Rightarrow> (Inl err, slot)
     | Inr keypair \<Rightarrow> (Inr keypair, Some keypair)))"

definition FSStore_Keypair :: "'w pki_env \<Rightarrow> string \<Rightarrow> string
    \<Rightarrow> (Keypair \<Rightarrow> (('st, 'w, 'ev) sys, go_error + Keypair) go)
    \<Rightarrow> (('st, 'w, 'ev) sys, go_error + Keypair) go" where
  "FSStore_Keypair e basedir name =
     MutateKeypair_file e (filepath_Join [basedir, name @ ''.key'']) (filepath_Join [basedir, name @ ''.crt''])"

text \<open>A fresh in-memory store: its slots are empty, and it is dropped after the call.\<close>

definition fresh_Keypair :: "(Keypair \<Rightarrow> ('s, go_error + Keypair) go) \<Rightarrow> ('s, go_error + Keypair) go" where
  "fresh_Keypair mutator = bind (MutateKeypair_mem None mutator) (\<lambda>r. ret (fst r))"

definition EnsureKeypair :: "'w pki_env
    \<Rightarrow> ((Keypair \<Rightarrow> (('st, 'w, 'ev) sys, go_error + Keypair) go)
        \<Rightarrow> (('st, 'w, 'ev) sys, go_error + Keypair) go)
    \<Rightarrow> CA \<Rightarrow> cert_config \<Rightarrow> (('st, 'w, 'ev) sys, go_error + Keypair) go" where
  "EnsureKeypair e slot ca config = slot (keypair_mutator e config ca)"

definition NewCA :: "'w pki_env
    \<Rightarrow> ((Keypair \<Rightarrow> (('st, 'w, 'ev) sys, go_error + Keypair) go)
        \<Rightarrow> (('st, 'w, 'ev) sys, go_error + Keypair) go)
    \<Rightarrow> (('st, 'w, 'ev) sys, go_error + CA) go" where
  "NewCA e slot =
     (let config = \<lparr>cc_CommonName = ''ca'', cc_Organization = [], cc_DNSNames = [], cc_IPs = [], cc_Usages = []\<rparr>
      in bind (slot (\<lambda>_. bind (ask (pk_GenerateKey e)) (\<lambda>r. case r of
             Inl err \<Rightarrow> ret (Inl (Wrap ''unable to create private key'' err))
           | Inr k \<Rightarrow> bind (ask (pk_NewSelfSignedCACert e config k)) (\<lambda>r. ret (case r of
               Inl err \<Rightarrow> Inl (Wrap ''error signing certificate'' err)
             | Inr cert \<Rightarrow> Inr \<lparr>kp_Certificate = Some cert, kp_PrivateKey = Some k\<rparr>))))) (\<lambda>r. case r of
           Inl err \<Rightarrow> ret (Inl err)
         | Inr keypair \<Rightarrow> (case (kp_Certificate keypair, kp_PrivateKey keypair) of
             (Some cert, Some k) \<Rightarrow> ret (Inr \<lparr>ca_primaryCertificate = cert, ca_privateKey = k, ca_certificates = [cert]\<rparr>)
           | _ \<Rightarrow> panic ''nil certificate'')))"

text \<open>\<^verbatim>\<open>(s *FSStore) LoadCA\<close>: the certificate of the bundle, in the order of their bytes, that has the key.\<close>

definition loadCertificateBundle :: "'w pki_env \<Rightarrow> string
    \<Rightarrow> (('st, 'w, 'ev) sys, go_error + certificate list) go" where
  "loadCertificateBundle e path =
     bind (ask (pk_ReadFile e path)) (\<lambda>r. ret (case r of
       Inl err \<Rightarrow> if err = NotExist then Inr [] else Inl (Wrap ''unable to read certificate'' err)
     | Inr bytes \<Rightarrow> (case pk_ParseCertsPEM e bytes of
         Inl err \<Rightarrow> Inl (Wrap ''error parsing certificate data in file'' err) | Inr cs \<Rightarrow> Inr cs)))"

definition LoadCA :: "'w pki_env \<Rightarrow> string \<Rightarrow> string \<Rightarrow> (('st, 'w, 'ev) sys, go_error + CA) go" where
  "LoadCA e basedir name =
     bind (loadPrivateKey e (filepath_Join [basedir, name @ ''.key''])) (\<lambda>k. case k of
       Inl err \<Rightarrow> ret (Inl err)
     | Inr key \<Rightarrow>
       bind (loadCertificateBundle e (filepath_Join [basedir, name @ ''.crt''])) (\<lambda>c. ret (case c of
         Inl err \<Rightarrow> Inl err
       | Inr certs \<Rightarrow>
         let sorted = sort_key ct_Raw certs in
         case find (\<lambda>cert. ct_PublicKey cert = key) sorted of
           None \<Rightarrow> Inl (Errorf ''did not find certificate for private key'')
         | Some primary \<Rightarrow> Inr \<lparr>ca_primaryCertificate = primary, ca_privateKey = key, ca_certificates = sorted\<rparr>)))"

definition BuildTLSClientConfig :: "'w pki_env
    \<Rightarrow> ((Keypair \<Rightarrow> (('st, 'w, 'ev) sys, go_error + Keypair) go)
        \<Rightarrow> (('st, 'w, 'ev) sys, go_error + Keypair) go)
    \<Rightarrow> CA \<Rightarrow> string \<Rightarrow> (('st, 'w, 'ev) sys, go_error + tls_Config) go" where
  "BuildTLSClientConfig e slot ca cn =
     bind (EnsureKeypair e slot ca \<lparr>cc_CommonName = cn, cc_Organization = [], cc_DNSNames = [],
         cc_IPs = [], cc_Usages = [ClientAuth]\<rparr>) (\<lambda>r. case r of
       Inl err \<Rightarrow> ret (Inl err)
     | Inr keypair \<Rightarrow> (case (kp_Certificate keypair, kp_PrivateKey keypair) of
         (Some cert, Some k) \<Rightarrow>
           ret (Inr \<lparr>tc_RootCAs = ca_certificates ca, tc_Certificate = cert, tc_PrivateKey = k\<rparr>)
       | _ \<Rightarrow> panic ''nil certificate''))"

section \<open>What a mutated key pair is\<close>

text \<open>
  What the program relies on in \<^verbatim>\<open>x509.CreateCertificate\<close>: the certificate carries the subject, names,
  addresses and key of its template and does not outlive it (times are cut to seconds).
\<close>

definition signs_template :: "'w pki_env \<Rightarrow> bool" where
  "signs_template e \<longleftrightarrow> (\<forall>n t parent k w. case fst (pk_CreateCertificate e n t parent k w) of
     Inl _ \<Rightarrow> True
   | Inr c \<Rightarrow> ct_CommonName c = ct_CommonName t \<and> ct_DNSNames c = ct_DNSNames t \<and> ct_IPs c = ct_IPs t
       \<and> ct_PublicKey c = ct_PublicKey t \<and> ct_NotAfter c \<le> ct_NotAfter t)"

lemma signs_templateD:
  "signs_template e \<Longrightarrow> pk_CreateCertificate e n t parent k w = (Inr c, w') \<Longrightarrow>
     ct_CommonName c = ct_CommonName t \<and> ct_DNSNames c = ct_DNSNames t \<and> ct_IPs c = ct_IPs t
     \<and> ct_PublicKey c = ct_PublicKey t \<and> ct_NotAfter c \<le> ct_NotAfter t"
  unfolding signs_template_def
  by (drule spec [of _ n], drule spec [of _ t], drule spec [of _ parent], drule spec [of _ k],
      drule spec [of _ w]) simp

lemma newSignedCert_names:
  assumes "signs_template e" and "newSignedCert e cfg key ca d s = (Ret (Inr cert), s')"
  shows "ct_CommonName cert = cc_CommonName cfg" "ct_DNSNames cert = cc_DNSNames cfg"
    "ct_IPs cert = cc_IPs cfg" "ct_PublicKey cert = key"
  using assms(2)
  by (auto simp: newSignedCert_def bind_apply ret_apply ask_def time_now_def cert_template_def
      split: prod.splits sum.splits if_splits outcome.splits dest!: signs_templateD [OF assms(1)])

lemma newSignedCert_expiry:
  assumes "signs_template e" and "clock_at (pk_rt e) t"
    and "newSignedCert e cfg key ca d s = (Ret (Inr cert), s')"
  shows "ct_NotAfter cert \<le> t + d"
proof -
  obtain n w where n: "pk_Serial e (world s) = (Inr n, w)" and ne: "cc_CommonName cfg \<noteq> []" "cc_Usages cfg \<noteq> []"
    using assms(3) by (auto simp: newSignedCert_def bind_apply ret_apply ask_def
      split: prod.splits sum.splits if_splits)
  obtain w2 where "time_now (pk_rt e) (s\<lparr>world := w\<rparr>) = (Ret t, s\<lparr>world := w\<rparr>\<lparr>world := w2\<rparr>)"
    using clock_read [OF assms(2)] by blast
  with n ne assms(3) obtain w3 where
    "pk_CreateCertificate e n (cert_template cfg key (ct_NotBefore (ca_primaryCertificate ca)) (t + d))
       (ca_primaryCertificate ca) (ca_privateKey ca) w2 = (Inr cert, w3)"
    by (auto simp: newSignedCert_def bind_apply ask_def split: prod.splits)
  from signs_templateD [OF assms(1) this] show ?thesis by (simp add: cert_template_def)
qed

text \<open>The contents a key pair for a configuration has, in any order of the names.\<close>

definition serves :: "cert_config \<Rightarrow> Keypair \<Rightarrow> bool" where
  "serves config kp \<longleftrightarrow> kp_PrivateKey kp \<noteq> None \<and> (\<exists>cert. kp_Certificate kp = Some cert
     \<and> ct_CommonName cert = cc_CommonName config
     \<and> mset (ct_DNSNames cert) = mset (cc_DNSNames config) \<and> mset (ct_IPs cert) = mset (cc_IPs config))"

lemma sort_eq_mset: "sort xs = sort ys \<Longrightarrow> mset xs = mset ys"
  by (metis mset_sort)

lemma cert_matches_serves:
  "cert_matches minLeft now config cert \<Longrightarrow> serves config \<lparr>kp_Certificate = Some cert, kp_PrivateKey = Some k\<rparr>"
  by (auto simp: cert_matches_def serves_def dest: sort_eq_mset)

lemma keypair_mutator_serves:
  assumes "signs_template e" and "keypair_mutator e config signer kp0 s = (Ret (Inr kp), s')"
  shows "serves config kp"
proof -
  consider now cert k where "cert_matches (pk_CertMinTimeLeft e) now config cert"
      "kp = \<lparr>kp_Certificate = Some cert, kp_PrivateKey = Some k\<rparr>"
    | cert k t where "newSignedCert e config k signer (pk_CertDuration e) t = (Ret (Inr cert), s')"
      "kp = \<lparr>kp_Certificate = Some cert, kp_PrivateKey = Some k\<rparr>"
    using assms(2)
    by (auto simp: keypair_mutator_def bind_apply ret_apply
        split: prod.splits sum.splits option.splits outcome.splits if_splits)
  then show ?thesis
  proof cases
    case 1
    then show ?thesis by (simp add: cert_matches_serves)
  next
    case 2
    with newSignedCert_names [OF assms(1) 2(1)] show ?thesis by (simp add: serves_def)
  qed
qed

text \<open>
  The contract of \<^verbatim>\<open>MutableKeypair\<close>: a key pair that comes back was produced by the mutator, in some
  state and from some stored key pair.
\<close>

locale keypair_slot =
  fixes slot :: "(Keypair \<Rightarrow> (('st, 'w, 'ev) sys, go_error + Keypair) go)
    \<Rightarrow> (('st, 'w, 'ev) sys, go_error + Keypair) go"
  assumes from_mutator: "slot f s = (Ret (Inr kp), s') \<Longrightarrow> \<exists>kp0 t t'. f kp0 t = (Ret (Inr kp), t')"
begin

lemma ensured_serves:
  assumes "signs_template e" and "EnsureKeypair e slot ca config s = (Ret (Inr kp), s')"
  shows "serves config kp"
  using assms from_mutator keypair_mutator_serves unfolding EnsureKeypair_def by metis

end

interpretation memory: keypair_slot fresh_Keypair
proof
  fix f :: "Keypair \<Rightarrow> (('st, 'w, 'ev) sys, go_error + Keypair) go" and s kp s'
  assume "fresh_Keypair f s = (Ret (Inr kp), s')"
  then show "\<exists>kp0 t t'. f kp0 t = (Ret (Inr kp), t')"
    by (auto simp: fresh_Keypair_def MutateKeypair_mem_def bind_apply ret_apply
        split: prod.splits outcome.splits sum.splits)
qed

interpretation files: keypair_slot "FSStore_Keypair e basedir name" for e :: "'w pki_env" and basedir name
proof
  fix f :: "Keypair \<Rightarrow> (('st, 'w, 'ev) sys, go_error + Keypair) go" and s kp s'
  assume "FSStore_Keypair e basedir name f s = (Ret (Inr kp), s')"
  then show "\<exists>kp0 t t'. f kp0 t = (Ret (Inr kp), t')"
    by (auto simp: FSStore_Keypair_def MutateKeypair_file_def Let_def bind_apply ret_apply
        split: prod.splits outcome.splits sum.splits option.splits if_splits)
qed

text \<open>
  Whatever key pair the certificate files hold, \<^verbatim>\<open>EnsureKeypair\<close> on them returns, if it returns one,
  a key pair with a private key and a certificate whose common name, DNS names and addresses are those
  asked for.
\<close>

theorem EnsureKeypair_serves:
  assumes "signs_template e"
    and "EnsureKeypair e (FSStore_Keypair e basedir name) ca config s = (Ret (Inr kp), s')"
  shows "serves config kp"
  using assms by (rule files.ensured_serves)


section \<open>An example\<close>

definition example_pki :: "'w pki_env" where
  "example_pki = \<lparr>pk_rt = const_rt 0, pk_CertDuration = CertDuration, pk_CertMinTimeLeft = CertMinTimeLeft,
     pk_GenerateKey = (\<lambda>w. (Inr 1, w)), pk_Serial = (\<lambda>w. (Inr 1, w)),
     pk_CreateCertificate = (\<lambda>n t parent k w. (Inr t, w)),
     pk_NewSelfSignedCACert = (\<lambda>c k w. (Inr (cert_template c k 0 0), w)),
     pk_ReadFile = (\<lambda>_ w. (Inl NotExist, w)), pk_MkdirAll = (\<lambda>_ w. (None, w)), pk_WriteFile = (\<lambda>_ _ w. (None, w)),
     pk_ParsePrivateKeyPEM = (\<lambda>_. Inr (Some 1)), pk_ParseCertsPEM = (\<lambda>_. Inr []),
     pk_EncodeKey = (\<lambda>_. ''KEY''), pk_EncodeCert = (\<lambda>_. ''CERT'')\<rparr>"


abbreviation example_CA :: CA where
  "example_CA \<equiv> \<lparr>ca_primaryCertificate = cert_template \<lparr>cc_CommonName = ''ca'', cc_Organization = [], cc_DNSNames = [],
     cc_IPs = [], cc_Usages = []\<rparr> 7 0 0, ca_privateKey = 7, ca_certificates = []\<rparr>"

abbreviation example_config :: cert_config where
  "example_config \<equiv> \<lparr>cc_CommonName = ''node'', cc_Organization = [], cc_DNSNames = [''n1.local''], cc_IPs = [''127.0.0.1''],
     cc_Usages = [ServerAuth]\<rparr>"

abbreviation example_sys :: "(unit, unit, unit) sys" where
  "example_sys \<equiv> \<lparr>self = (), world = (), trace = []\<rparr>"

lemma example_pki_signs: "signs_template example_pki"
  by (simp add: signs_template_def example_pki_def)

theorem EnsureKeypair_serves_witness:
  "\<exists>kp. EnsureKeypair example_pki (FSStore_Keypair example_pki ''/pki'' ''me'') example_CA example_config example_sys
      = (Ret (Inr kp), example_sys) \<and> serves example_config kp"
proof -
  let ?r = "EnsureKeypair example_pki (FSStore_Keypair example_pki ''/pki'' ''me'') example_CA example_config example_sys"
  have "?r = (Ret (Inr \<lparr>kp_Certificate = Some (cert_template example_config 1 0 CertDuration), kp_PrivateKey = Some 1\<rparr>),
      example_sys)" by code_simp
  with EnsureKeypair_serves [OF example_pki_signs] show ?thesis by blast
qed


end
