(* ===== verification/Etcd_Client.thy ===== *)
theory Etcd_Client
  imports Go_Monad Go_Strings Pki
begin

text \<open>
  The wrapper around the etcd v3 client (\<^verbatim>\<open>pkg/etcdclient\<close>): listing and changing members, reading
  keys, and the loop that copies every key into another cluster when a backup is restored. The v3
  client library is the parameter \<open>etcd_api\<close>: functions on a connection handle.
\<close>

section \<open>Data\<close>

record EtcdProcessMember =
  em_Name :: string
  em_PeerURLs :: "string list"
  em_ClientURLs :: "string list"
  em_etcdVersion :: string
  em_ID :: string
  em_idv3 :: nat

record EtcdClient =
  cl_endpoints :: "string list"
  cl_handle :: int
  cl_tlsConfig :: "tls_Config option"

text \<open>A member as the library reports it, and the two fields of a status answer.\<close>

record api_member =
  am_ID :: nat
  am_Name :: string
  am_PeerURLs :: "string list"
  am_ClientURLs :: "string list"

record 'w etcd_api =
  api_New :: "string list \<Rightarrow> tls_Config option \<Rightarrow> 'w \<Rightarrow> (go_error + int) \<times> 'w"
  api_Close :: "int \<Rightarrow> 'w \<Rightarrow> go_error option \<times> 'w"
  api_GetVersion :: "string \<Rightarrow> tls_Config option \<Rightarrow> 'w \<Rightarrow> (go_error + string) \<times> 'w"
  api_Get :: "int \<Rightarrow> string \<Rightarrow> 'w \<Rightarrow> (go_error + (string \<times> string) list) \<times> 'w"
  api_GetFrom :: "int \<Rightarrow> string \<Rightarrow> nat \<Rightarrow> 'w \<Rightarrow> (go_error + (string \<times> string) list) \<times> 'w"
  api_CreateTxn :: "int \<Rightarrow> string \<Rightarrow> string \<Rightarrow> 'w \<Rightarrow> (go_error + bool) \<times> 'w"
  api_Put :: "int \<Rightarrow> string \<Rightarrow> string \<Rightarrow> 'w \<Rightarrow> go_error option \<times> 'w"
  api_MemberList :: "int \<Rightarrow> 'w \<Rightarrow> (go_error + api_member list) \<times> 'w"
  api_MemberAdd :: "int \<Rightarrow> string list \<Rightarrow> 'w \<Rightarrow> go_error option \<times> 'w"
  api_MemberUpdate :: "int \<Rightarrow> nat \<Rightarrow> string list \<Rightarrow> 'w \<Rightarrow> go_error option \<times> 'w"
  api_MemberRemove :: "int \<Rightarrow> nat \<Rightarrow> 'w \<Rightarrow> go_error option \<times> 'w"
  api_Status :: "int \<Rightarrow> string \<Rightarrow> 'w \<Rightarrow> (go_error + (nat \<times> nat)) \<times> 'w"
  api_Snapshot :: "int \<Rightarrow> 'w \<Rightarrow> go_error option \<times> 'w"
  api_CloseSnapshot :: "int \<Rightarrow> 'w \<Rightarrow> go_error option \<times> 'w"
  api_CreateFile :: "string \<Rightarrow> 'w \<Rightarrow> go_error option \<times> 'w"
  api_GzipTo :: "int \<Rightarrow> string \<Rightarrow> 'w \<Rightarrow> go_error option \<times> 'w"
  api_CloseGzip :: "string \<Rightarrow> 'w \<Rightarrow> go_error option \<times> 'w"
  api_CloseFile :: "string \<Rightarrow> 'w \<Rightarrow> go_error option \<times> 'w"

section \<open>Operations\<close>

definition NewClient :: "'w etcd_api \<Rightarrow> string list \<Rightarrow> tls_Config option
    \<Rightarrow> (('st, 'w, 'ev) sys, go_error + EtcdClient) go" where
  "NewClient api endpoints tls =
     (if endpoints = [] then ret (Inl (Errorf ''no endpoints provided''))
      else bind (ask (api_New api endpoints tls)) (\<lambda>r. ret (case r of
        Inl err \<Rightarrow> Inl (Wrap ''error building etcd client'' err)
      | Inr h \<Rightarrow> Inr \<lparr>cl_endpoints = endpoints, cl_handle = h, cl_tlsConfig = tls\<rparr>)))"

definition ServerVersion :: "'w etcd_api \<Rightarrow> EtcdClient \<Rightarrow> (('st, 'w, 'ev) sys, go_error + string) go" where
  "ServerVersion api c =
     bind (for_each (cl_endpoints c) () (\<lambda>endpoint _.
       let u = (if HasSuffix endpoint ''/'' then endpoint else endpoint @ ''/'') @ ''version''
       in bind (ask (api_GetVersion api u (cl_tlsConfig c))) (\<lambda>r. ret (case r of
            Inl _ \<Rightarrow> Next () | Inr v \<Rightarrow> Stop v)))) (\<lambda>r. ret (case r of
       Stop v \<Rightarrow> Inr v | Next _ \<Rightarrow> Inl (Errorf ''could not fetch server version'')))"

definition client_Get :: "'w etcd_api \<Rightarrow> EtcdClient \<Rightarrow> string
    \<Rightarrow> (('st, 'w, 'ev) sys, go_error + string option) go" where
  "client_Get api c key =
     bind (ask (api_Get api (cl_handle c) key)) (\<lambda>r. ret (case r of
       Inl err \<Rightarrow> Inl err
     | Inr [] \<Rightarrow> Inr None
     | Inr (kv # _) \<Rightarrow> Inr (Some (snd kv))))"

definition client_Create :: "'w etcd_api \<Rightarrow> EtcdClient \<Rightarrow> string \<Rightarrow> string
    \<Rightarrow> (('st, 'w, 'ev) sys, go_error option) go" where
  "client_Create api c key v =
     bind (ask (api_CreateTxn api (cl_handle c) key v)) (\<lambda>r. ret (case r of
       Inl err \<Rightarrow> Some err
     | Inr succeeded \<Rightarrow> if succeeded then None else Some (Errorf ''key already exists'')))"

definition client_Put :: "'w etcd_api \<Rightarrow> EtcdClient \<Rightarrow> string \<Rightarrow> string
    \<Rightarrow> (('st, 'w, 'ev) sys, go_error option) go" where
  "client_Put api c key v = ask (api_Put api (cl_handle c) key v)"

text \<open>
  \<^verbatim>\<open>CopyTo\<close>: pages of at most 1000 keys from the last key on, in key order; a page that brings only
  the last key again ends the loop. The destination is a \<^verbatim>\<open>NodeSink\<close>. The outer loop is unbounded in
  the code, so it gets fuel; \<open>None\<close> means that it would still be running.
\<close>

definition copy_kv :: "(string \<Rightarrow> string \<Rightarrow> ('s, go_error option) go) \<Rightarrow> string \<times> string
    \<Rightarrow> nat \<times> string \<times> bool \<Rightarrow> ('s, (nat \<times> string \<times> bool, nat \<times> go_error) loop) go" where
  "copy_kv put kv acc =
     (case acc of (cnt, lastKey, gotMore) \<Rightarrow>
       if fst kv = lastKey then ret (Next acc)
       else bind (put (fst kv) (snd kv)) (\<lambda>r. ret (case r of
         Some err \<Rightarrow> Stop (cnt, Wrap ''error writing key to destination'' err)
       | None \<Rightarrow> Next (cnt + 1, fst kv, True))))"

fun copy_loop :: "nat \<Rightarrow> 'w etcd_api \<Rightarrow> EtcdClient \<Rightarrow> (string \<Rightarrow> string \<Rightarrow> (('st, 'w, 'ev) sys, go_error option) go)
    \<Rightarrow> nat \<Rightarrow> string \<Rightarrow> (('st, 'w, 'ev) sys, (nat \<times> go_error option) option) go" where
  "copy_loop 0 api c put cnt lastKey = ret None"
| "copy_loop (Suc fuel) api c put cnt lastKey =
     (let etcdFrom = (if lastKey = [] then [CHR 0x00] else lastKey)
      in bind (ask (api_GetFrom api (cl_handle c) etcdFrom 1000)) (\<lambda>r. case r of
           Inl err \<Rightarrow> ret (Some (cnt, Some err))
         | Inr kvs \<Rightarrow>
           bind (for_each kvs (cnt, lastKey, False) (copy_kv put)) (\<lambda>r. case r of
             Stop (n, err) \<Rightarrow> ret (Some (n, Some err))
           | Next (n, lastKey', gotMore) \<Rightarrow>
             if gotMore then copy_loop fuel api c put n lastKey' else ret (Some (n, None)))))"

definition CopyTo :: "nat \<Rightarrow> 'w etcd_api \<Rightarrow> EtcdClient \<Rightarrow> (string \<Rightarrow> string \<Rightarrow> (('st, 'w, 'ev) sys, go_error option) go)
    \<Rightarrow> (('st, 'w, 'ev) sys, (nat \<times> go_error option) option) go" where
  "CopyTo fuel api c put = copy_loop fuel api c put 0 []"

text \<open>
  \<^verbatim>\<open>SnapshotSave\<close>: the stream of the snapshot is compressed into a new file. The stream and the file are closed on every path, and
  what closing them reports is dropped.
\<close>

definition save_stream :: "'w etcd_api \<Rightarrow> EtcdClient \<Rightarrow> string \<Rightarrow> (('st, 'w, 'ev) sys, go_error option) go" where
  "save_stream api c path =
     bind (ask (api_GzipTo api (cl_handle c) path)) (\<lambda>r. case r of
       Some err \<Rightarrow> ret (Some (Wrap ''error copying snapshot'' err))
     | None \<Rightarrow> bind (ask (api_CloseGzip api path)) (\<lambda>r. ret (map_option (Wrap ''error copying snapshot'') r)))"

definition SnapshotSave :: "'w etcd_api \<Rightarrow> EtcdClient \<Rightarrow> string \<Rightarrow> (('st, 'w, 'ev) sys, go_error option) go" where
  "SnapshotSave api c path =
     bind (ask (api_CreateFile api path)) (\<lambda>r. case r of
       Some err \<Rightarrow> ret (Some (Wrap ''error creating snapshot file'' err))
     | None \<Rightarrow>
       bind (bind (ask (api_Snapshot api (cl_handle c))) (\<lambda>r. case r of
         Some err \<Rightarrow> ret (Some (Wrap ''error making snapshot'' err))
       | None \<Rightarrow>
         bind (save_stream api c path) (\<lambda>res.
         bind (ask (api_CloseSnapshot api (cl_handle c))) (\<lambda>_. ret res)))) (\<lambda>res.
       bind (ask (api_CloseFile api path)) (\<lambda>_. ret res)))"

definition member_of_api :: "api_member \<Rightarrow> EtcdProcessMember" where
  "member_of_api m = \<lparr>em_Name = am_Name m, em_PeerURLs = am_PeerURLs m, em_ClientURLs = am_ClientURLs m,
     em_etcdVersion = ''3.x'', em_ID = Itoa (am_ID m), em_idv3 = am_ID m\<rparr>"

definition client_ListMembers :: "'w etcd_api \<Rightarrow> EtcdClient
    \<Rightarrow> (('st, 'w, 'ev) sys, go_error + EtcdProcessMember list) go" where
  "client_ListMembers api c =
     bind (ask (api_MemberList api (cl_handle c))) (\<lambda>r. ret (case r of
       Inl err \<Rightarrow> Inl err | Inr ms \<Rightarrow> Inr (map member_of_api ms)))"

definition client_LeaderID :: "'w etcd_api \<Rightarrow> EtcdClient \<Rightarrow> (('st, 'w, 'ev) sys, go_error + string) go" where
  "client_LeaderID api c =
     (case cl_endpoints c of [] \<Rightarrow> panic ''index out of range''
      | ep # _ \<Rightarrow> bind (ask (api_Status api (cl_handle c) ep)) (\<lambda>r. ret (case r of
          Inl err \<Rightarrow> Inl err
        | Inr (memberId, leader) \<Rightarrow> Inr (if leader = 0 then [] else Itoa leader))))"

definition client_AddMember :: "'w etcd_api \<Rightarrow> EtcdClient \<Rightarrow> string list
    \<Rightarrow> (('st, 'w, 'ev) sys, go_error option) go" where
  "client_AddMember api c peerURLs = ask (api_MemberAdd api (cl_handle c) peerURLs)"

definition client_SetPeerURLs :: "'w etcd_api \<Rightarrow> EtcdClient \<Rightarrow> EtcdProcessMember \<Rightarrow> string list
    \<Rightarrow> (('st, 'w, 'ev) sys, go_error option) go" where
  "client_SetPeerURLs api c m peerURLs = ask (api_MemberUpdate api (cl_handle c) (em_idv3 m) peerURLs)"

definition client_RemoveMember :: "'w etcd_api \<Rightarrow> EtcdClient \<Rightarrow> EtcdProcessMember
    \<Rightarrow> (('st, 'w, 'ev) sys, go_error option) go" where
  "client_RemoveMember api c m = ask (api_MemberRemove api (cl_handle c) (em_idv3 m))"

definition LocalNodeInfo :: "'w etcd_api \<Rightarrow> EtcdClient \<Rightarrow> (('st, 'w, 'ev) sys, go_error + bool option) go" where
  "LocalNodeInfo api c =
     bind (for_each (cl_endpoints c) (Inr None) (\<lambda>ep _.
       bind (ask (api_Status api (cl_handle c) ep)) (\<lambda>r. ret (case r of
         Inl err \<Rightarrow> Next (Inl err)
       | Inr (memberId, leader) \<Rightarrow> Stop (Inr (Some (memberId = leader))))))) (\<lambda>r. ret (case r of
       Next x \<Rightarrow> x | Stop x \<Rightarrow> x))"

section \<open>Copying a cluster\<close>

text \<open>
  A source that holds the pairs \<open>kvs\<close>: a read from a key returns the first pairs at or after that
  key, in key order and at most as many as the limit; reading does not change what it holds. Keys
  are distinct and not empty, as etcd requires.
\<close>

definition kv_ok :: "(string \<times> string) list \<Rightarrow> bool" where
  "kv_ok kvs \<longleftrightarrow> sorted_wrt (\<lambda>a b. fst a < fst b) kvs \<and> (\<forall>kv \<in> set kvs. fst kv \<noteq> [])"

definition page :: "(string \<times> string) list \<Rightarrow> string \<Rightarrow> nat \<Rightarrow> (string \<times> string) list" where
  "page kvs k n = take n (filter (\<lambda>kv. k \<le> fst kv) kvs)"

definition holds :: "'w etcd_api \<Rightarrow> int \<Rightarrow> (string \<times> string) list \<Rightarrow> bool" where
  "holds api h kvs \<longleftrightarrow> kv_ok kvs \<and> (\<forall>k n w. fst (api_GetFrom api h k n w) = Inr (page kvs k n))"

text \<open>A sink that accepts every pair and records it.\<close>

definition recording :: "(string \<Rightarrow> string \<Rightarrow> 'w \<Rightarrow> 'w) \<Rightarrow> string \<Rightarrow> string
    \<Rightarrow> (('st, 'w, string \<times> string) sys, go_error option) go" where
  "recording store k v = act (\<lambda>w. (None, store k v w)) (\<lambda>_. (k, v))"

lemma copy_page:
  assumes "sorted_wrt (\<lambda>a b. fst a < fst b) xs" and "\<forall>kv \<in> set xs. lk < fst kv"
  shows "\<exists>w. for_each xs (n, lk, g) (copy_kv (recording store)) s
    = (Ret (Next (n + length xs, if xs = [] then lk else fst (last xs), g \<or> xs \<noteq> [])),
       s\<lparr>world := w, trace := trace s @ xs\<rparr>)"
  using assms
proof (induction xs arbitrary: n lk g s)
  case Nil
  show ?case by (rule exI [of _ "world s"]) (simp add: ret_apply)
next
  case (Cons kv xs)
  from Cons.prems(2) have "fst kv \<noteq> lk" by auto
  then have "copy_kv (recording store) kv (n, lk, g) s
      = (Ret (Next (n + 1, fst kv, True)), s\<lparr>world := store (fst kv) (snd kv) (world s), trace := trace s @ [kv]\<rparr>)"
    by (simp add: copy_kv_def recording_def bind_apply ret_apply act_def)
  moreover obtain w where "for_each xs (n + 1, fst kv, True) (copy_kv (recording store))
       (s\<lparr>world := store (fst kv) (snd kv) (world s), trace := trace s @ [kv]\<rparr>)
    = (Ret (Next (n + 1 + length xs, if xs = [] then fst kv else fst (last xs), True)),
       s\<lparr>world := w, trace := trace s @ kv # xs\<rparr>)"
    using Cons.IH [of "fst kv" "n + 1" True "s\<lparr>world := store (fst kv) (snd kv) (world s), trace := trace s @ [kv]\<rparr>"]
      Cons.prems by auto
  ultimately show ?case by (auto simp: bind_apply)
qed

lemma empty_key_least: "k \<noteq> [] \<Longrightarrow> [] < (k :: string)"
  by (cases k) simp_all

lemma zero_char_least: "CHR 0x00 \<le> c"
  by (simp add: less_eq_char_def)

lemma zero_key_least: "k \<noteq> [] \<Longrightarrow> [CHR 0x00] \<le> (k :: string)"
  using zero_char_least by (cases k) (auto simp: order.order_iff_strict empty_key_least)

text \<open>The page read after the pairs \<open>pre\<close> have been copied: the last of them again, then what follows.\<close>

definition last_key :: "(string \<times> string) list \<Rightarrow> string" where
  "last_key pre = (if pre = [] then [] else fst (last pre))"

lemma page_first: "kv_ok kvs \<Longrightarrow> page kvs [CHR 0x00] n = take n kvs"
  by (auto simp: page_def kv_ok_def zero_key_least filter_id_conv)

lemma page_next:
  assumes "kv_ok (pre @ kv # suf)"
  shows "page (pre @ kv # suf) (fst kv) (Suc n) = kv # take n suf"
proof -
  have "filter (\<lambda>x. fst kv \<le> fst x) pre = []"
    using assms by (auto simp: kv_ok_def sorted_wrt_append filter_empty_conv not_le)
  moreover have "filter (\<lambda>x. fst kv \<le> fst x) suf = suf"
    using assms by (auto simp: kv_ok_def sorted_wrt_append filter_id_conv intro: less_imp_le)
  ultimately show ?thesis by (simp add: page_def)
qed

lemma copy_round:
  assumes "kv_ok (pre @ suf)"
  shows "\<exists>m w. for_each (page (pre @ suf) (if last_key pre = [] then [CHR 0x00] else last_key pre) 1000)
       (length pre, last_key pre, False) (copy_kv (recording store)) s
     = (Ret (Next (length (pre @ take m suf), last_key (pre @ take m suf), take m suf \<noteq> [])),
        s\<lparr>world := w, trace := trace s @ take m suf\<rparr>) \<and> (suf \<noteq> [] \<longrightarrow> m > 0)"
proof (cases pre rule: rev_cases)
  case Nil
  have "\<forall>kv \<in> set (take 1000 suf). [] < fst kv"
    using assms Nil by (auto simp: kv_ok_def dest!: in_set_takeD intro: empty_key_least)
  moreover have "sorted_wrt (\<lambda>a b. fst a < fst b) (take 1000 suf)"
    using assms Nil by (auto simp: kv_ok_def intro: sorted_wrt_take)
  ultimately show ?thesis
    using copy_page [of "take 1000 suf" "[]" 0 False store s] page_first [of suf 1000] assms Nil
    by (auto simp: last_key_def intro!: exI [of _ 1000])
next
  case (snoc qs kv)
  have kvs: "kv_ok (qs @ kv # suf)" using assms snoc by simp
  then have k: "fst kv \<noteq> []" "\<forall>x \<in> set suf. fst kv < fst x" "sorted_wrt (\<lambda>a b. fst a < fst b) suf"
    by (auto simp: kv_ok_def sorted_wrt_append)
  have pg: "page (pre @ suf) (fst kv) 1000 = kv # take 999 suf"
    using page_next [OF kvs, of 999] snoc by simp
  obtain w where "for_each (take 999 suf) (length pre, fst kv, False) (copy_kv (recording store)) s
    = (Ret (Next (length pre + length (take 999 suf), if take 999 suf = [] then fst kv else fst (last (take 999 suf)),
        take 999 suf \<noteq> [])), s\<lparr>world := w, trace := trace s @ take 999 suf\<rparr>)"
    using copy_page [of "take 999 suf" "fst kv" "length pre" False store s] k
    by (auto dest!: in_set_takeD intro: sorted_wrt_take)
  moreover have "copy_kv (recording store) kv (length pre, fst kv, False) s
      = (Ret (Next (length pre, fst kv, False)), s)"
    by (simp add: copy_kv_def ret_apply)
  ultimately show ?thesis
    using snoc k(1) pg
    by (auto simp: last_key_def bind_apply intro!: exI [of _ 999])
qed

lemma copy_loop_all:
  assumes "holds api (cl_handle c) (pre @ suf)" and "length suf < fuel"
  shows "\<exists>w. copy_loop fuel api c (recording store) (length pre) (last_key pre) s
    = (Ret (Some (length (pre @ suf), None)), s\<lparr>world := w, trace := trace s @ suf\<rparr>)"
  using assms
proof (induction fuel arbitrary: pre suf s)
  case (Suc fuel)
  let ?from = "if last_key pre = [] then [CHR 0x00] else last_key pre"
  from Suc.prems(1) have ok: "kv_ok (pre @ suf)" by (simp add: holds_def)
  obtain w1 where get: "ask (api_GetFrom api (cl_handle c) ?from 1000) s
      = (Ret (Inr (page (pre @ suf) ?from 1000)), s\<lparr>world := w1\<rparr>)"
    using ask_eval [of "api_GetFrom api (cl_handle c) ?from 1000" s] Suc.prems(1)
    unfolding holds_def by metis
  obtain m w2 where round: "for_each (page (pre @ suf) ?from 1000) (length pre, last_key pre, False)
        (copy_kv (recording store)) (s\<lparr>world := w1\<rparr>)
     = (Ret (Next (length (pre @ take m suf), last_key (pre @ take m suf), take m suf \<noteq> [])),
        s\<lparr>world := w2, trace := trace s @ take m suf\<rparr>)" and m: "suf \<noteq> [] \<longrightarrow> m > 0"
    using copy_round [OF ok, of store "s\<lparr>world := w1\<rparr>"] by auto
  show ?case
  proof (cases "suf = []")
    case True
    then have "copy_loop (Suc fuel) api c (recording store) (length pre) (last_key pre) s
        = (Ret (Some (length pre, None)), s\<lparr>world := w2\<rparr>)"
      using get round unfolding copy_loop.simps Let_def by (simp add: bind_apply ret_apply)
    with True show ?thesis by (intro exI [of _ w2]) simp
  next
    case False
    with m have "take m suf \<noteq> []" by auto
    moreover have "length (drop m suf) < fuel"
      using Suc.prems(2) m False by (cases suf) auto
    moreover obtain w3 where "copy_loop fuel api c (recording store) (length (pre @ take m suf))
        (last_key (pre @ take m suf)) (s\<lparr>world := w2, trace := trace s @ take m suf\<rparr>)
      = (Ret (Some (length (pre @ suf), None)), s\<lparr>world := w3, trace := trace s @ suf\<rparr>)"
      using Suc.IH [of "pre @ take m suf" "drop m suf" "s\<lparr>world := w2, trace := trace s @ take m suf\<rparr>"]
        Suc.prems(1) \<open>length (drop m suf) < fuel\<close> by auto
    ultimately show ?thesis
      using get round unfolding copy_loop.simps Let_def
      by (intro exI [of _ w3]) (simp only: bind_apply prod.case outcome.case sum.case loop.case not_False_eq_True if_True)
  qed
qed simp

text \<open>
  C24. Copying terminates and is complete: from a source that holds finitely many keys, with a sink that
  accepts every write, one turn of the loop more than there are keys is enough, every pair of the
  source is written exactly once and in key order, and the number returned is the number of keys.
\<close>

theorem CopyTo_copies_everything:
  assumes "holds api (cl_handle c) kvs" and "length kvs < fuel"
  shows "\<exists>w. CopyTo fuel api c (recording store) s
    = (Ret (Some (length kvs, None)), s\<lparr>world := w, trace := trace s @ kvs\<rparr>)"
  using copy_loop_all [of api c "[]" kvs fuel store s] assms by (simp add: CopyTo_def last_key_def)

text \<open>A source in memory, for the example below.\<close>

definition mem_api :: "(string \<times> string) list \<Rightarrow> 'w etcd_api" where
  "mem_api kvs = \<lparr>api_New = (\<lambda>_ _ w. (Inr 0, w)), api_Close = (\<lambda>_ w. (None, w)),
     api_GetVersion = (\<lambda>_ _ w. (Inr ''3.5.0'', w)), api_Get = (\<lambda>_ k w. (Inr (filter (\<lambda>kv. fst kv = k) kvs), w)),
     api_GetFrom = (\<lambda>_ k n w. (Inr (page kvs k n), w)), api_CreateTxn = (\<lambda>_ _ _ w. (Inr True, w)),
     api_Put = (\<lambda>_ _ _ w. (None, w)), api_MemberList = (\<lambda>_ w. (Inr [], w)), api_MemberAdd = (\<lambda>_ _ w. (None, w)),
     api_MemberUpdate = (\<lambda>_ _ _ w. (None, w)), api_MemberRemove = (\<lambda>_ _ w. (None, w)),
     api_Status = (\<lambda>_ _ w. (Inr (1, 1), w)), api_Snapshot = (\<lambda>_ w. (None, w)),
     api_CloseSnapshot = (\<lambda>_ w. (None, w)), api_CreateFile = (\<lambda>_ w. (None, w)), api_GzipTo = (\<lambda>_ _ w. (None, w)),
     api_CloseGzip = (\<lambda>_ w. (None, w)), api_CloseFile = (\<lambda>_ w. (None, w))\<rparr>"

lemma holds_mem_api: "kv_ok kvs \<Longrightarrow> holds (mem_api kvs) h kvs"
  by (simp add: holds_def mem_api_def)

theorem CopyTo_copies_everything_witness:
  "\<exists>w. CopyTo 3 (mem_api [(''a'', ''1''), (''b'', ''2'')]) \<lparr>cl_endpoints = [''x''], cl_handle = 0, cl_tlsConfig = None\<rparr>
      (recording (\<lambda>_ _ w. w)) \<lparr>self = (), world = (), trace = []\<rparr>
    = (Ret (Some (2, None)), \<lparr>self = (), world = w, trace = [(''a'', ''1''), (''b'', ''2'')]\<rparr>)"
  using CopyTo_copies_everything [of "mem_api [(''a'', ''1''), (''b'', ''2'')]"
      "\<lparr>cl_endpoints = [''x''], cl_handle = 0, cl_tlsConfig = None\<rparr>" "[(''a'', ''1''), (''b'', ''2'')]" 3
      "\<lambda>_ _ w. w" "\<lparr>self = (), world = (), trace = []\<rparr>"]
  by (simp add: holds_mem_api kv_ok_def less_char_def)

section \<open>Effects\<close>

text \<open>These operations leave the process that calls them alone.\<close>

lemma SnapshotSave_asks: "keeps asks (SnapshotSave api c path)"
  unfolding SnapshotSave_def save_stream_def by (intro asks_rules)

lemma NewClient_asks: "keeps asks (NewClient api eps tls)"
  unfolding NewClient_def by (intro asks_rules)

lemma client_ListMembers_asks: "keeps asks (client_ListMembers api c)"
  unfolding client_ListMembers_def by (intro asks_rules)

end
