(* ===== verification/Etcd_Process.thy ===== *)
theory Etcd_Process
  imports Go_Monad Api_Types Etcd_Versions Pki Etcd_Client
begin

text \<open>
  The etcd process of a node (\<^verbatim>\<open>pkg/etcd/etcdprocess.go\<close>, \<^verbatim>\<open>pki.go\<close>): its description, the search for
  the binaries of an etcd version, its certificates, the environment it is started with, stopping
  it, and the commands that depend on the version. Path checks of \<^verbatim>\<open>etcdserver.go\<close> are here too,
  since every data directory passes them. URL and IP parsing, the operating system and the clock are
  the parameter \<open>proc_env\<close>.
\<close>

section \<open>Data\<close>

record etcdProcess =
  pr_BinDir :: string
  pr_DataDir :: string
  pr_CurrentDir :: string
  pr_PKIPeersDir :: string
  pr_PKIClientsDir :: string
  pr_etcdClientsCA :: "CA option"
  pr_etcdClientTLSConfig :: "tls_Config option"
  pr_EtcdVersion :: string
  pr_CreateNewCluster :: bool
  pr_ForceNewCluster :: bool
  pr_Cluster :: EtcdCluster
  pr_MyNodeName :: string
  pr_Quarantined :: bool
  pr_DisableTLS :: bool
  pr_ListenAddress :: string
  pr_ListenMetricsURLs :: "string list"
  pr_IgnoreListenMetricsURLs :: bool
  pr_cmd :: "int option"

text \<open>
  A parsed URL: the parts the program reads, and the text after its host has been replaced. A
  process is known by its pid once it is started (\<open>pr_cmd\<close>); its exit is what the goroutine that waits
  for it has stored: whether there is an exit state and whether there is an error.
\<close>

record url =
  u_Scheme :: string
  u_Hostname :: string
  u_Port :: string
  u_with_host :: "string \<Rightarrow> string"

record exec_cmd =
  x_Path :: string
  x_Args :: "string list"
  x_Dir :: string
  x_Env :: "string list"

text \<open>The calls a node makes that change something outside its memory, with their answers.\<close>

datatype node_event =
    EvStart etcdProcess exec_cmd "go_error + int"
  | EvKill int "go_error option"
  | EvExitState int bool bool
  | EvWriteState string EtcdState "go_error option"
  | EvRename string string "go_error option"
  | EvMkdir string "go_error option"
  | EvRemoveAll string "go_error option"
  | EvUpdateHosts "string list gomap" "go_error option"
  | EvAddBackup string string string BackupInfo "go_error + string"
  | EvPutKey EtcdClient string string "go_error option"

record 'w proc_env =
  px_rt :: "'w runtime"
  px_pki :: "'w pki_env"
  px_api :: "'w etcd_api"
  px_url_Parse :: "string \<Rightarrow> go_error + url"
  px_ParseIP :: "string \<Rightarrow> string option"
  px_Stat :: "string \<Rightarrow> 'w \<Rightarrow> go_error option \<times> 'w"
  px_Environ :: "'w \<Rightarrow> string list \<times> 'w"
  px_StartCmd :: "exec_cmd \<Rightarrow> 'w \<Rightarrow> (go_error + int) \<times> 'w"
  px_RunCmd :: "string \<Rightarrow> string list \<Rightarrow> (string \<times> string) list \<Rightarrow> 'w \<Rightarrow> (go_error + bool) \<times> 'w"
  px_Kill :: "int \<Rightarrow> 'w \<Rightarrow> go_error option \<times> 'w"
  px_ExitState :: "int \<Rightarrow> 'w \<Rightarrow> (bool \<times> bool) \<times> 'w"
  px_patience :: nat

definition findMyNode :: "etcdProcess \<Rightarrow> EtcdNode option" where
  "findMyNode p = find_last (\<lambda>n. en_Name n = pr_MyNodeName p) (ec_Nodes (pr_Cluster p))"

text \<open>The URLs on which clients reach the process: the quarantined ones while it is quarantined.\<close>

definition process_urls :: "etcdProcess \<Rightarrow> EtcdNode \<Rightarrow> string list" where
  "process_urls p me = (if pr_Quarantined p then en_QuarantinedClientUrls me else en_ClientUrls me)"

section \<open>Binaries\<close>

definition baseDirs :: "string list" where "baseDirs = [''/opt'', ''/tmp'']"

definition bin_dirs :: "string \<Rightarrow> string list" where
  "bin_dirs etcdVersion = concat (map (\<lambda>baseDir.
     [filepath_Join [baseDir, ''etcd-'' @ etcdVersion],
      filepath_Join [baseDir, ''etcd-'' @ etcdVersion, ''usr'', ''local'', ''bin'']]) baseDirs)"

text \<open>
  \<^verbatim>\<open>BindirForEtcdVersion\<close>: the first directory that holds the binary; \<open>stat\<close> is \<^verbatim>\<open>os.Stat\<close>, and an
  error of it other than not-exist ends the search.
\<close>

definition BindirForEtcdVersion :: "(string \<Rightarrow> 'w \<Rightarrow> go_error option \<times> 'w) \<Rightarrow> string \<Rightarrow> string
    \<Rightarrow> (('st, 'w, 'ev) sys, go_error + string) go" where
  "BindirForEtcdVersion stat etcdVersion0 cmd =
     (let etcdVersion = (if HasPrefix etcdVersion0 ''v'' then etcdVersion0 else ''v'' @ etcdVersion0)
      in bind (for_each (bin_dirs etcdVersion) () (\<lambda>binDir _.
           bind (ask (stat (filepath_Join [binDir, cmd]))) (\<lambda>err. ret (case err of
             Some NotExist \<Rightarrow> Next ()
           | Some x \<Rightarrow> Stop (Inl (Wrap ''error checking for binary'' x))
           | None \<Rightarrow> Stop (Inr binDir))))) (\<lambda>r.
         ret (case r of Stop x \<Rightarrow> x | Next _ \<Rightarrow> Inl (Errorf ''unknown etcd version: not found''))))"

section \<open>Commands that depend on the version\<close>

definition snapshotRestoreCommand :: "etcdProcess \<Rightarrow> string" where
  "snapshotRestoreCommand p =
     (case ParseTolerant (pr_EtcdVersion p) of
        Inl _ \<Rightarrow> ''etcdctl''
      | Inr version \<Rightarrow> if Major version > 3 \<or> (Major version = 3 \<and> Minor version \<ge> 6)
          then ''etcdutl'' else ''etcdctl'')"

definition initial_cluster :: "EtcdNode list \<Rightarrow> string" where
  "initial_cluster ns = join '','' (map (\<lambda>n. en_Name n @ ''='' @ join '','' (en_PeerUrls n)) ns)"

text \<open>The arguments and the environment with which \<^verbatim>\<open>RestoreV3Snapshot\<close> runs the command.\<close>

definition restore_args :: "etcdProcess \<Rightarrow> EtcdNode \<Rightarrow> string \<Rightarrow> string list" where
  "restore_args p me snapshotFile =
     [''snapshot'', ''restore'', snapshotFile, ''--name'', en_Name me,
      ''--initial-cluster'', initial_cluster (ec_Nodes (pr_Cluster p)),
      ''--initial-cluster-token'', ec_ClusterToken (pr_Cluster p),
      ''--initial-advertise-peer-urls'', join '','' (en_PeerUrls me), ''--data-dir'', pr_DataDir p]"

definition restore_env :: "etcdProcess \<Rightarrow> (string \<times> string) list" where
  "restore_env p =
     (let version = (case ParseTolerant (pr_EtcdVersion p) of
          Inl _ \<Rightarrow> \<lparr>Major = 0, Minor = 0, Patch = 0, Pre = [], Build = []\<rparr> | Inr v \<Rightarrow> v)
      in if Major version = 3 \<and> Minor version < 4 then [(''ETCDCTL_API'', ''3'')] else [])"

definition RestoreV3Snapshot ::
    "(string \<Rightarrow> string list \<Rightarrow> (string \<times> string) list \<Rightarrow> 'w \<Rightarrow> (go_error + bool) \<times> 'w)
     \<Rightarrow> etcdProcess \<Rightarrow> string \<Rightarrow> (('st, 'w, 'ev) sys, go_error option) go" where
  "RestoreV3Snapshot exec p snapshotFile =
     (case findMyNode p of
        None \<Rightarrow> ret (Some (Errorf ''unable to find self node''))
      | Some me \<Rightarrow>
        bind (ask (exec (filepath_Join [pr_BinDir p, snapshotRestoreCommand p]) (restore_args p me snapshotFile)
            (restore_env p))) (\<lambda>r. ret (case r of
          Inl err \<Rightarrow> Some (Wrap ''snapshot restore returned an error'' err)
        | Inr success \<Rightarrow> if success then None
            else Some (Errorf ''snapshot restore returned a non-zero exit code''))))"

section \<open>Certificates of the process\<close>

definition addAltNames :: "'w proc_env \<Rightarrow> cert_config \<Rightarrow> string list \<Rightarrow> go_error + cert_config" where
  "addAltNames e config urls =
     (let step = (\<lambda>acc s. case acc of Inl err \<Rightarrow> Inl err | Inr c \<Rightarrow>
            (case px_url_Parse e s of
               Inl _ \<Rightarrow> Inl (Errorf ''cannot parse url'')
             | Inr u \<Rightarrow>
               if u_Scheme u = ''http'' \<or> u_Scheme u = ''https'' then
                 (case px_ParseIP e (u_Hostname u) of
                    None \<Rightarrow> Inr (c\<lparr>cc_DNSNames := cc_DNSNames c @ [u_Hostname u]\<rparr>)
                  | Some ip \<Rightarrow> Inr (c\<lparr>cc_IPs := cc_IPs c @ [ip]\<rparr>))
               else if u_Scheme u = ''unix'' \<or> u_Scheme u = ''unixs'' then
                 Inr (c\<lparr>cc_DNSNames := cc_DNSNames c @ [u_Hostname u]\<rparr>)
               else Inl (Errorf ''unknown URL'')))
      in case foldl step (Inr config) urls of
           Inl err \<Rightarrow> Inl err
         | Inr c \<Rightarrow>
           if ''127.0.0.1'' \<in> set (cc_IPs c) then Inr c
           else let c1 = c\<lparr>cc_IPs := cc_IPs c @ [''127.0.0.1'']\<rparr>
                in if ''::1'' \<in> set (cc_IPs c1) then Inr c1
                   else Inr (c1\<lparr>cc_IPs := cc_IPs c1 @ [''::1'']\<rparr>))"

fun dedup_from :: "string set \<Rightarrow> string list \<Rightarrow> string list" where
  "dedup_from m [] = []"
| "dedup_from m (ip # ips) = (if ip \<in> m then dedup_from m ips else ip # dedup_from (insert ip m) ips)"

definition removeDuplicateIPs :: "string list \<Rightarrow> string list" where
  "removeDuplicateIPs ips = dedup_from {} ips"

definition own_cert_config :: "EtcdNode \<Rightarrow> key_usage list \<Rightarrow> cert_config" where
  "own_cert_config me usages = \<lparr>cc_CommonName = en_Name me, cc_Organization = [],
     cc_DNSNames = [en_Name me], cc_IPs = [], cc_Usages = usages\<rparr>"

definition peer_keypairs :: "'w proc_env \<Rightarrow> CA option \<Rightarrow> string \<Rightarrow> EtcdNode \<Rightarrow> string list \<Rightarrow> etcdProcess
    \<Rightarrow> (('st, 'w, 'ev) sys, go_error + etcdProcess) go" where
  "peer_keypairs e peersCA pkiDir me peerClientIPs p =
     (case peersCA of None \<Rightarrow> ret (Inr p)
      | Some ca \<Rightarrow>
        let peersDir = filepath_Join [pkiDir, ''peers''];
            p1 = p\<lparr>pr_PKIPeersDir := peersDir\<rparr>;
            config = (own_cert_config me [ClientAuth, ServerAuth])\<lparr>cc_IPs := peerClientIPs\<rparr>
        in bind (WriteCABundle (px_pki e) peersDir ca) (\<lambda>r. case r of
             Some err \<Rightarrow> ret (Inl err)
           | None \<Rightarrow> (case addAltNames e config (en_PeerUrls me) of
               Inl err \<Rightarrow> ret (Inl err)
             | Inr c \<Rightarrow>
               bind (EnsureKeypair (px_pki e) (FSStore_Keypair (px_pki e) peersDir ''me'') ca
                   (c\<lparr>cc_IPs := removeDuplicateIPs (cc_IPs c)\<rparr>)) (\<lambda>r. ret (case r of
                 Inl err \<Rightarrow> Inl err | Inr _ \<Rightarrow> Inr p1)))))"

definition client_keypairs :: "'w proc_env \<Rightarrow> CA option \<Rightarrow> string \<Rightarrow> EtcdNode \<Rightarrow> etcdProcess
    \<Rightarrow> (('st, 'w, 'ev) sys, go_error + etcdProcess) go" where
  "client_keypairs e clientsCA pkiDir me p0 =
     (let p = p0\<lparr>pr_etcdClientsCA := clientsCA\<rparr> in
      case clientsCA of None \<Rightarrow> ret (Inr p)
      | Some ca \<Rightarrow>
        let clientsDir = filepath_Join [pkiDir, ''clients''];
            p1 = p\<lparr>pr_PKIClientsDir := clientsDir\<rparr>
        in bind (WriteCABundle (px_pki e) clientsDir ca) (\<lambda>r. case r of
             Some err \<Rightarrow> ret (Inl err)
           | None \<Rightarrow> (case addAltNames e (own_cert_config me [ServerAuth, ClientAuth]) (en_ClientUrls me) of
               Inl err \<Rightarrow> ret (Inl err)
             | Inr c1 \<Rightarrow> (case addAltNames e c1 (en_PeerUrls me) of
                 Inl err \<Rightarrow> ret (Inl err)
               | Inr c2 \<Rightarrow>
                 bind (EnsureKeypair (px_pki e) (FSStore_Keypair (px_pki e) clientsDir ''server'') ca c2) (\<lambda>r. case r of
                   Inl err \<Rightarrow> ret (Inl err)
                 | Inr _ \<Rightarrow>
                   bind (BuildTLSClientConfig (px_pki e) fresh_Keypair ca (en_Name me)) (\<lambda>r. ret (case r of
                     Inl err \<Rightarrow> Inl err
                   | Inr tls \<Rightarrow> Inr (p1\<lparr>pr_etcdClientTLSConfig := Some tls\<rparr>))))))))"

definition createKeypairs :: "'w proc_env \<Rightarrow> CA option \<Rightarrow> CA option \<Rightarrow> string \<Rightarrow> EtcdNode \<Rightarrow> string list
    \<Rightarrow> etcdProcess \<Rightarrow> (('st, 'w, 'ev) sys, go_error + etcdProcess) go" where
  "createKeypairs e peersCA clientsCA pkiDir me peerClientIPs p =
     bind (peer_keypairs e peersCA pkiDir me peerClientIPs p) (\<lambda>r. case r of
       Inl err \<Rightarrow> ret (Inl err)
     | Inr p1 \<Rightarrow> client_keypairs e clientsCA pkiDir me p1)"

section \<open>Starting and stopping\<close>

definition changeHost :: "'w proc_env \<Rightarrow> string list \<Rightarrow> string \<Rightarrow> string list" where
  "changeHost e urls host = map (\<lambda>s. case px_url_Parse e s of
      Inl _ \<Rightarrow> s
    | Inr u \<Rightarrow> u_with_host u (if u_Port u \<noteq> [] then
        (if CHR '':'' \<in> set host then ''['' @ host @ '']:'' @ u_Port u else host @ '':'' @ u_Port u) else host)) urls"

definition tls_env :: "etcdProcess \<Rightarrow> string gomap" where
  "tls_env p =
     (if pr_PKIPeersDir p = [] then [] else
        [(''ETCD_PEER_CLIENT_CERT_AUTH'', ''true''),
         (''ETCD_PEER_TRUSTED_CA_FILE'', filepath_Join [pr_PKIPeersDir p, ''ca.crt'']),
         (''ETCD_PEER_CERT_FILE'', filepath_Join [pr_PKIPeersDir p, ''me.crt'']),
         (''ETCD_PEER_KEY_FILE'', filepath_Join [pr_PKIPeersDir p, ''me.key''])])
   @ (if pr_PKIClientsDir p = [] then [] else
        [(''ETCD_CLIENT_CERT_AUTH'', ''true''),
         (''ETCD_TRUSTED_CA_FILE'', filepath_Join [pr_PKIClientsDir p, ''ca.crt'']),
         (''ETCD_CERT_FILE'', filepath_Join [pr_PKIClientsDir p, ''server.crt'']),
         (''ETCD_KEY_FILE'', filepath_Join [pr_PKIClientsDir p, ''server.key''])])"

definition version_env :: "etcdProcess \<Rightarrow> string gomap" where
  "version_env p =
     (case ParseTolerant (pr_EtcdVersion p) of Inl _ \<Rightarrow> []
      | Inr v \<Rightarrow>
        (if Major v = 3 \<and> (Minor v = 2 \<or> Minor v = 3) then [(''ETCD_ENABLE_V2'', ''false'')] else [])
      @ (if Major v = 3 \<and> Minor v = 5 then [(''ETCD_EXPERIMENTAL_INITIAL_CORRUPT_CHECK'', ''true'')] else []))"

definition etcd_env :: "'w proc_env \<Rightarrow> etcdProcess \<Rightarrow> EtcdNode \<Rightarrow> string gomap" where
  "etcd_env e p me =
     (let clientUrls = process_urls p me in
      [(''ETCD_DATA_DIR'', pr_DataDir p), (''ETCD_LOGGER'', ''zap''), (''ETCD_LOG_OUTPUTS'', ''stdout''),
       (''ETCD_LISTEN_PEER_URLS'', join '','' (changeHost e (en_PeerUrls me) (pr_ListenAddress p))),
       (''ETCD_LISTEN_CLIENT_URLS'', join '','' (changeHost e clientUrls (pr_ListenAddress p))),
       (''ETCD_ADVERTISE_CLIENT_URLS'', join '','' clientUrls),
       (''ETCD_INITIAL_ADVERTISE_PEER_URLS'', join '','' (en_PeerUrls me))]
    @ (if pr_ListenMetricsURLs p \<noteq> [] then [(''ETCD_LISTEN_METRICS_URLS'', join '','' (pr_ListenMetricsURLs p))] else [])
    @ [(''ETCD_INITIAL_CLUSTER_STATE'', if pr_CreateNewCluster p then ''new'' else ''existing''),
       (''ETCD_NAME'', pr_MyNodeName p)]
    @ (if ec_ClusterToken (pr_Cluster p) \<noteq> [] then [(''ETCD_INITIAL_CLUSTER_TOKEN'', ec_ClusterToken (pr_Cluster p))] else [])
    @ [(''ETCD_INITIAL_CLUSTER'', initial_cluster (ec_Nodes (pr_Cluster p))), (''ETCD_STRICT_RECONFIG_CHECK'', ''true'')]
    @ tls_env p @ version_env p)"

text \<open>
  The settings of the manager's own environment override these. An entry without \<^verbatim>\<open>=\<close> would be an
  index out of range (\<open>None\<close>).
\<close>

fun override_env :: "string list \<Rightarrow> string gomap \<Rightarrow> string gomap option" where
  "override_env [] env = Some env"
| "override_env (x # xs) env =
     (if HasPrefix x ''ETCD_'' then
        (case index_of ''='' x of None \<Rightarrow> None
         | Some i \<Rightarrow> override_env xs (gm_update (take i x) (drop (Suc i) x) env))
      else override_env xs env)"

definition process_Start :: "'w proc_env \<Rightarrow> etcdProcess
    \<Rightarrow> (('st, 'w, node_event) sys, go_error + etcdProcess) go" where
  "process_Start e p =
     (case findMyNode p of
        None \<Rightarrow> ret (Inl (Errorf ''unable to find self node''))
      | Some me \<Rightarrow>
        bind (ask (px_Environ e)) (\<lambda>environ. case override_env environ (etcd_env e p me) of
          None \<Rightarrow> panic ''index out of range''
        | Some env0 \<Rightarrow>
          let env = (if pr_IgnoreListenMetricsURLs p then AList.delete ''ETCD_LISTEN_METRICS_URLS'' env0 else env0)
          in bind (range_map (px_rt e) env) (\<lambda>kvs.
             let c = \<lparr>x_Path = filepath_Join [pr_BinDir p, ''etcd''],
                      x_Args = (if pr_ForceNewCluster p then [''--force-new-cluster''] else []),
                      x_Dir = pr_CurrentDir p, x_Env = map (\<lambda>kv. fst kv @ ''='' @ snd kv) kvs\<rparr>
             in bind (act (px_StartCmd e c) (EvStart p c)) (\<lambda>r. ret (case r of
                  Inl err \<Rightarrow> Inl (Wrap ''error starting etcd'' err)
                | Inr pid \<Rightarrow> Inr (p\<lparr>pr_cmd := Some pid\<rparr>))))))"

text \<open>\<^verbatim>\<open>ExitState\<close>: what is known of the end of the process; nothing before it was started.\<close>

definition ExitState :: "'w proc_env \<Rightarrow> etcdProcess \<Rightarrow> (('st, 'w, node_event) sys, bool \<times> bool) go" where
  "ExitState e p =
     (case pr_cmd p of None \<Rightarrow> ret (False, False)
      | Some pid \<Rightarrow> act (px_ExitState e pid) (\<lambda>(st, err). EvExitState pid st err))"

text \<open>
  The loop of \<^verbatim>\<open>Stop\<close> that waits for the exit state polls at most \<open>px_patience\<close> times in the model;
  running out means that the code is still waiting then, with the mutex of the server held.
\<close>

fun wait_exit :: "nat \<Rightarrow> 'w proc_env \<Rightarrow> etcdProcess \<Rightarrow> (('st, 'w, node_event) sys, bool) go" where
  "wait_exit 0 e p = ret False"
| "wait_exit (Suc n) e p = bind (ExitState e p) (\<lambda>(st, _). if st then ret True else wait_exit n e p)"

definition process_Stop :: "'w proc_env \<Rightarrow> etcdProcess \<Rightarrow> (('st, 'w, node_event) sys, go_error option) go" where
  "process_Stop e p =
     (case pr_cmd p of None \<Rightarrow> ret None
      | Some pid \<Rightarrow>
        bind (act (px_Kill e pid) (EvKill pid)) (\<lambda>r. case r of
          Some err \<Rightarrow> bind (ExitState e p) (\<lambda>(st, _).
            if st then ret None else ret (Some (Wrap ''failed to kill process'' err)))
        | None \<Rightarrow> bind (wait_exit (px_patience e) e p) (\<lambda>exited.
            if exited then ret None else panic ''still waiting for etcd to exit'')))"

section \<open>Clients of the process\<close>

definition client_url :: "string \<Rightarrow> string \<Rightarrow> go_error + string" where
  "client_url currentDir u =
     (let scheme = (if HasPrefix u ''unix://'' then ''unix'' else if HasPrefix u ''unixs://'' then ''unixs'' else [])
      in if scheme = [] \<or> HasPrefix u (scheme @ '':///'') then Inr u
         else if currentDir = [] then Inl (Errorf ''clientURL was set to relative path, but process directory was not set'')
         else if \<not> is_rooted currentDir then Inl (Errorf ''process directory was not absolute'')
         else Inr (scheme @ ''://'' @ filepath_Join [currentDir, TrimPrefix u (scheme @ ''://'')]))"

fun map_err :: "('a \<Rightarrow> 'e + 'b) \<Rightarrow> 'a list \<Rightarrow> 'e + 'b list" where
  "map_err f [] = Inr []"
| "map_err f (x # xs) = (case f x of Inl err \<Rightarrow> Inl err | Inr y \<Rightarrow>
     (case map_err f xs of Inl err \<Rightarrow> Inl err | Inr ys \<Rightarrow> Inr (y # ys)))"

text \<open>
  \<^verbatim>\<open>(p *etcdProcess) NewClient\<close>. The code writes the rewritten URLs back into the node of \<open>p\<close>; nothing
  reads them there again, since rewriting an absolute URL changes nothing.
\<close>

definition process_NewClient :: "'w proc_env \<Rightarrow> etcdProcess
    \<Rightarrow> (('st, 'w, 'ev) sys, go_error + EtcdClient) go" where
  "process_NewClient e p =
     (case findMyNode p of
        None \<Rightarrow> ret (Inl (Errorf ''unable to find self node''))
      | Some me \<Rightarrow> (case map_err (client_url (pr_CurrentDir p)) (process_urls p me) of
          Inl err \<Rightarrow> ret (Inl err)
        | Inr clientURLs \<Rightarrow> NewClient (px_api e) clientURLs (pr_etcdClientTLSConfig p)))"

section \<open>Data directories\<close>

definition StateFileName :: string where "StateFileName = ''state''"
definition DataDirName :: string where "DataDirName = ''data''"
definition PkiDirName :: string where "PkiDirName = ''pki''"
definition TrashcanDirName :: string where "TrashcanDirName = ''data-trashcan''"

definition validateSubDirectory :: "string \<Rightarrow> string \<Rightarrow> go_error option" where
  "validateSubDirectory parent child =
     (let cleaned = filepath_Clean child in
      case filepath_Rel parent cleaned of
        Inl err \<Rightarrow> Some (Wrap ''path is not within'' err)
      | Inr rel \<Rightarrow> if HasPrefix rel ''..'' \<or> rel = ''.''
          then Some (Errorf ''path escapes parent directory'') else None)"

section \<open>Paths inside a directory\<close>

definition dot_free :: "string list \<Rightarrow> bool" where
  "dot_free cs \<longleftrightarrow> [] \<notin> set cs \<and> ''.'' \<notin> set cs \<and> ''..'' \<notin> set cs"

lemma clean_comps_dot_free: "dot_free cs \<Longrightarrow> clean_comps r st cs = rev st @ cs"
  by (induction cs arbitrary: st) (auto simp: dot_free_def)

lemma dot_free_clean_comps: "dot_free st \<Longrightarrow> dot_free (clean_comps True st cs)"
  by (induction True st cs rule: clean_comps.induct) (auto simp: dot_free_def split: list.splits)

lemma rooted_dot_free: "is_rooted p \<Longrightarrow> dot_free (path_comps p)"
  unfolding path_comps_def using dot_free_clean_comps [of "[]"] by (simp add: dot_free_def)

lemma rooted_Clean: "is_rooted p \<Longrightarrow> filepath_Clean p = CHR ''/'' # join ''/'' (path_comps p)"
  by (auto simp: filepath_Clean_def is_rooted_def HasPrefix_def)

lemma path_comps_rooted_join:
  assumes "dot_free cs" and "\<forall>c \<in> set cs. CHR ''/'' \<notin> set c"
  shows "path_comps (CHR ''/'' # join ''/'' cs) = cs"
proof -
  have "split_on (CHR ''/'') (CHR ''/'' # join ''/'' cs) = [] # (if cs = [] then [[]] else cs)"
    using split_on_join [of cs "CHR ''/''"] assms(2) by simp
  then show ?thesis
    using clean_comps_dot_free [OF assms(1), of True "[]"]
    by (simp add: path_comps_def is_rooted_def HasPrefix_def)
qed

lemma path_comps_Clean: "is_rooted p \<Longrightarrow> path_comps (filepath_Clean p) = path_comps p"
  using path_comps_rooted_join [OF rooted_dot_free] path_comps_plain by (simp add: rooted_Clean)

lemma is_rooted_iff: "is_rooted p \<longleftrightarrow> (\<exists>q. p = CHR ''/'' # q)"
  by (cases p) (auto simp: is_rooted_def HasPrefix_def)

lemma is_rooted_Clean: "is_rooted (filepath_Clean p) = is_rooted p"
proof (cases "is_rooted p")
  case True
  then show ?thesis by (simp add: rooted_Clean is_rooted_iff)
next
  case False
  have "\<not> is_rooted (join ''/'' cs)" if "cs \<noteq> []" "hd cs \<noteq> []" "CHR ''/'' \<notin> set (hd cs)" for cs
    using that by (cases cs; cases "hd cs") (auto simp: join_Cons is_rooted_iff)
  moreover have "hd (path_comps p) \<noteq> [] \<and> CHR ''/'' \<notin> set (hd (path_comps p))" if "path_comps p \<noteq> []"
    using path_comps_plain [of "hd (path_comps p)" p] that by simp
  ultimately have "path_comps p \<noteq> [] \<Longrightarrow> \<not> is_rooted (join ''/'' (path_comps p))" by blast
  with False show ?thesis by (auto simp: filepath_Clean_def is_rooted_iff)
qed

lemma abs_comps_Clean: "is_rooted p \<Longrightarrow> abs_comps (filepath_Clean p) = path_comps p"
proof -
  assume r: "is_rooted p"
  show ?thesis
  proof (cases "path_comps p = []")
    case True
    with r show ?thesis by (simp add: abs_comps_def rooted_Clean)
  next
    case False
    then have "join ''/'' (path_comps p) \<noteq> []"
      using rooted_dot_free [OF r] by (cases "path_comps p") (auto simp: join_Cons dot_free_def)
    moreover have "split_on (CHR ''/'') (join ''/'' (path_comps p)) = path_comps p"
      using split_on_join [OF False] path_comps_plain [of _ p] by blast
    ultimately show ?thesis using r by (simp add: abs_comps_def rooted_Clean is_rooted_iff)
  qed
qed

lemma Clean_Clean: "is_rooted p \<Longrightarrow> filepath_Clean (filepath_Clean p) = filepath_Clean p"
  by (simp add: rooted_Clean [of "filepath_Clean p"] is_rooted_Clean path_comps_Clean) (simp add: rooted_Clean)

lemma Clean_inj: "is_rooted p \<Longrightarrow> is_rooted q \<Longrightarrow> path_comps p = path_comps q \<Longrightarrow> filepath_Clean p = filepath_Clean q"
  by (simp add: rooted_Clean)

lemma validateSubDirectory_inside:
  assumes root: "is_rooted parent" and ok: "validateSubDirectory parent child = None"
  shows "\<exists>rest. path_comps child = path_comps parent @ rest \<and> rest \<noteq> [] \<and> \<not> HasPrefix (hd rest) ''..''"
proof -
  let ?P = "path_comps parent" and ?C = "path_comps child"
  obtain rel where rel: "filepath_Rel parent (filepath_Clean child) = Inr rel" "\<not> HasPrefix rel ''..''" "rel \<noteq> ''.''"
    using ok by (auto simp: validateSubDirectory_def Let_def split: sum.splits if_splits)
  have base: "filepath_Clean parent \<noteq> ''.''" using root by (simp add: rooted_Clean)
  have child: "is_rooted child"
    using rel(1) base root by (auto simp: filepath_Rel_def Let_def is_rooted_Clean rooted_Clean split: if_splits)
      (metis is_rooted_Clean rooted_Clean)+
  obtain bs ts where st: "strip_common ?P ?C = (bs, ts)" by fastforce
  have ne: "filepath_Clean child \<noteq> filepath_Clean parent"
    using rel(1,3) by (auto simp: filepath_Rel_def Let_def Clean_Clean child)
  then have r: "rel = join ''/'' (replicate (length bs) ''..'' @ ts)"
    using rel(1) base st by (auto simp: filepath_Rel_def Let_def Clean_Clean child root abs_comps_Clean
        is_rooted_Clean split: if_splits)
  have "bs = []"
  proof (rule ccontr)
    assume "bs \<noteq> []"
    then obtain n where "length bs = Suc n" by (cases bs) auto
    then have "HasPrefix rel ''..''" by (auto simp: r join_Cons HasPrefix_def)
    with rel(2) show False by simp
  qed
  with strip_common_spec [OF st] have C: "?C = ?P @ ts" by auto
  moreover have "ts \<noteq> []"
    using C ne Clean_inj [OF child root] by auto
  moreover have "\<not> HasPrefix (hd ts) ''..''"
  proof
    assume "HasPrefix (hd ts) ''..''"
    then have "HasPrefix rel ''..''"
      using \<open>ts \<noteq> []\<close> r \<open>bs = []\<close> by (cases ts) (auto simp: join_Cons HasPrefix_iff)
    with rel(2) show False by simp
  qed
  ultimately show ?thesis by blast
qed

text \<open>
  C35. The directory check confines the paths a cluster token can name: below an absolute directory,
  an accepted path has the components of that directory followed by at least one more, the first
  of which does not start with two dots. (It may be several levels down.)
\<close>

theorem validateSubDirectory_confines:
  assumes "is_rooted parent" and "validateSubDirectory parent child = None"
  shows "\<exists>rest. path_comps child = path_comps parent @ rest \<and> rest \<noteq> [] \<and> \<not> HasPrefix (hd rest) ''..''"
  using validateSubDirectory_inside [OF assms] .

theorem validateSubDirectory_confines_witness:
  "\<exists>rest. path_comps ''/data/a/b'' = path_comps ''/data'' @ rest \<and> rest \<noteq> [] \<and> \<not> HasPrefix (hd rest) ''..''"
  by (rule validateSubDirectory_confines) code_simp+

section \<open>Effects\<close>

text \<open>These operations leave the process that calls them alone.\<close>

lemma Bindir_asks: "keeps asks (BindirForEtcdVersion st v c)"
  unfolding BindirForEtcdVersion_def by (intro asks_rules)

end
