(* ===== verification/Private_Api.thy ===== *)
theory Private_Api
  imports Go_Monad Go_Strings Api_Types
begin

text \<open>
  The peer service of one node (\<^verbatim>\<open>pkg/privateapi\<close>): the table of peers found by discovery, pings and
  leader views (\<^verbatim>\<open>peers.go\<close>, \<^verbatim>\<open>server.go\<close>), and the weak leader election (\<^verbatim>\<open>leadership.go\<close>). The state of
  a node is its \<open>Server\<close>; the world holds the network and the clock. A remote call may change the
  server as well, because the node's own handlers run while a call is in flight (and a node calls
  itself), so the network functions act on the whole state.
\<close>

section \<open>State\<close>

record NodeEndpoint =
  ne_IP :: string
  ne_Port :: int

record Node =
  dn_ID :: string
  dn_Endpoints :: "NodeEndpoint list"

definition empty_Node :: Node where
  "empty_Node = \<lparr>dn_ID = [], dn_Endpoints = []\<rparr>"

text \<open>A connection is named by the endpoint it was dialled on.\<close>

record peer =
  p_id :: PeerId
  p_discoveryNode :: Node
  p_defaultPort :: int
  p_lastInfo :: "PeerInfo option"
  p_lastPingTime :: time
  p_conn :: "string option"

record leadership =
  l_notification :: "LeaderNotificationRequest option"
  l_timestamp :: time

text \<open>\<open>goroutines\<close> lists the peers for which \<^verbatim>\<open>go existing.Run\<close> was executed, in order.\<close>

record Server =
  myInfo :: PeerInfo
  defaultPort :: int
  peers :: "peer gomap"
  leadership_of :: "leadership option"
  HealthyTimeout :: duration
  srv_dnsSuffix :: string
  goroutines :: "PeerId list"

definition defaultHealthyTimeout :: duration where "defaultHealthyTimeout = minute"

definition NewServer :: "PeerInfo option \<Rightarrow> int \<Rightarrow> string \<Rightarrow> go_error + Server" where
  "NewServer info port dnsSuffix =
     (case info of None \<Rightarrow> Inl (Errorf ''myInfo is required'')
      | Some i \<Rightarrow> Inr \<lparr>myInfo = i, defaultPort = port, peers = [], leadership_of = None,
          HealthyTimeout = defaultHealthyTimeout, srv_dnsSuffix = dnsSuffix, goroutines = []\<rparr>)"

datatype conn_state = Idle | Connecting | Ready | TransientFailure | Shutdown

type_synonym 'w node = "(Server, 'w, unit) sys"

record 'w peer_env =
  pe_rt :: "'w runtime"
  pe_poll :: "'w \<Rightarrow> (go_error + Node gomap) \<times> 'w"
  pe_ParseIP :: "string \<Rightarrow> string option"
  pe_AddFallbacks :: "(string \<times> string list) list \<Rightarrow> 'w \<Rightarrow> go_error option \<times> 'w"
  pe_conn_state :: "string \<Rightarrow> 'w \<Rightarrow> conn_state \<times> 'w"
  pe_dial :: "string \<Rightarrow> 'w \<Rightarrow> go_error option \<times> 'w"
  pe_ping :: "string \<Rightarrow> PeerInfo \<Rightarrow> 'w node \<Rightarrow> (go_error + PeerInfo option) \<times> 'w node"
  pe_notify :: "string \<Rightarrow> LeaderNotificationRequest \<Rightarrow> 'w node
      \<Rightarrow> (go_error + LeaderNotificationResponse) \<times> 'w node"

section \<open>Peers\<close>

definition new_peer :: "PeerId \<Rightarrow> int \<Rightarrow> peer" where
  "new_peer i port = \<lparr>p_id = i, p_discoveryNode = empty_Node, p_defaultPort = port,
     p_lastInfo = None, p_lastPingTime = 0, p_conn = None\<rparr>"

text \<open>
  \<^verbatim>\<open>(p *peer) updatePeerInfo\<close>; \<open>now\<close> is the clock reading it takes when it stores the info. The
  connection is dropped when the set of endpoints changed.
\<close>

definition updatePeerInfo :: "time \<Rightarrow> PeerInfo \<Rightarrow> peer \<Rightarrow> peer" where
  "updatePeerInfo now info p =
     (if pi_Id info \<noteq> p_id p then p
      else let p1 = (case p_lastInfo p of None \<Rightarrow> p
             | Some old \<Rightarrow> if set (pi_Endpoints old) \<noteq> set (pi_Endpoints info)
                 then p\<lparr>p_conn := None\<rparr> else p)
           in p1\<lparr>p_lastInfo := Some info, p_lastPingTime := now\<rparr>)"

definition status :: "time \<Rightarrow> duration \<Rightarrow> peer \<Rightarrow> PeerInfo option" where
  "status now healthyTimeout p =
     (case p_lastInfo p of None \<Rightarrow> None
      | Some info \<Rightarrow> if time_sub now (p_lastPingTime p) > healthyTimeout then None else Some info)"

definition put_peer :: "PeerId \<Rightarrow> peer \<Rightarrow> Server \<Rightarrow> Server" where
  "put_peer i p s = s\<lparr>peers := gm_update i p (peers s)\<rparr>"

definition start_peer :: "PeerId \<Rightarrow> peer \<Rightarrow> Server \<Rightarrow> Server" where
  "start_peer i p s = (put_peer i p s)\<lparr>goroutines := goroutines s @ [i]\<rparr>"

definition updateFromPingRequest :: "'w runtime \<Rightarrow> PeerInfo option \<Rightarrow> ('w node, unit) go" where
  "updateFromPingRequest rt request_info =
     (case request_info of None \<Rightarrow> ret ()
      | Some info \<Rightarrow>
        if pi_Id info = [] then ret ()
        else bind (get_self peers) (\<lambda>ps.
          bind (time_now rt) (\<lambda>now.
            case gm_lookup ps (pi_Id info) of
              None \<Rightarrow> upd_self (start_peer (pi_Id info) (updatePeerInfo now info (new_peer (pi_Id info) 0)))
            | Some existing \<Rightarrow> upd_self (put_peer (pi_Id info) (updatePeerInfo now info existing)))))"

definition updateFromDiscovery :: "Node \<Rightarrow> ('w node, unit) go" where
  "updateFromDiscovery discoveryNode =
     bind (get_self (\<lambda>s. s)) (\<lambda>s.
       let i = dn_ID discoveryNode in
       case gm_lookup (peers s) i of
         None \<Rightarrow> upd_self (start_peer i ((new_peer i (defaultPort s))\<lparr>p_discoveryNode := discoveryNode\<rparr>))
       | Some existing \<Rightarrow> upd_self (put_peer i (existing\<lparr>p_discoveryNode := discoveryNode\<rparr>)))"

definition add_dot :: "string \<Rightarrow> string" where
  "add_dot dnsSuffix = (if HasPrefix dnsSuffix ''.'' then dnsSuffix else ''.'' @ dnsSuffix)"

definition runDiscoveryOnce :: "'w peer_env \<Rightarrow> ('w node, go_error option) go" where
  "runDiscoveryOnce e =
     bind (ask (pe_poll e)) (\<lambda>r. case r of
       Inl err \<Rightarrow> ret (Some (Wrap ''error during peer discovery'' err))
     | Inr nodes \<Rightarrow>
       bind (range_map (pe_rt e) nodes) (\<lambda>kvs.
       bind (for_each kvs () (\<lambda>kv _. bind (updateFromDiscovery (snd kv)) (\<lambda>_. ret (Next ())))) (\<lambda>_ :: (unit, unit) loop.
       bind (get_self srv_dnsSuffix) (\<lambda>suffix0.
         if suffix0 = [] then ret None
         else
           let dnsSuffix = add_dot suffix0 in
           bind (range_map (pe_rt e) nodes) (\<lambda>kvs2.
             let fallbacks = fold (\<lambda>kv m. AList.update (dn_ID (snd kv) @ dnsSuffix)
                   (List.map_filter (pe_ParseIP e \<circ> ne_IP) (dn_Endpoints (snd kv))) m) kvs2 []
             in bind (ask (pe_AddFallbacks e fallbacks)) (\<lambda>_. ret None))))))"

text \<open>\<^verbatim>\<open>net.JoinHostPort\<close>: a host with a colon (an IPv6 address) is bracketed.\<close>

definition JoinHostPort :: "string \<Rightarrow> int \<Rightarrow> string" where
  "JoinHostPort h p =
     (let ps = (if p < 0 then CHR ''-'' # Itoa (nat (- p)) else Itoa (nat p))
      in if CHR '':'' \<in> set h then ''['' @ h @ '']:'' @ ps else h @ '':'' @ ps)"

text \<open>
  \<^verbatim>\<open>(p *peer) connect\<close> for the peer \<open>i\<close>: reuse a usable connection, otherwise dial and ping every
  known endpoint in some order until one answers. \<open>Inr None\<close> is the result when none does.
\<close>

definition peer_endpoints :: "peer \<Rightarrow> string list" where
  "peer_endpoints p =
     remdups (map (\<lambda>ep. JoinHostPort (ne_IP ep) (if ne_Port ep = 0 then p_defaultPort p else ne_Port ep))
        (dn_Endpoints (p_discoveryNode p))
      @ (case p_lastInfo p of None \<Rightarrow> [] | Some info \<Rightarrow> pi_Endpoints info))"

definition with_peer :: "PeerId \<Rightarrow> (peer \<Rightarrow> ('w node, 'a) go) \<Rightarrow> ('w node, 'a) go" where
  "with_peer i f = bind (get_self peers) (\<lambda>ps. case gm_lookup ps i of
     None \<Rightarrow> panic ''nil peer'' | Some p \<Rightarrow> f p)"

definition adopt_conn :: "PeerId \<Rightarrow> string \<Rightarrow> ('w node, string) go" where
  "adopt_conn i endpoint =
     with_peer i (\<lambda>p. case p_conn p of
       Some c \<Rightarrow> ret c
     | None \<Rightarrow> bind (upd_self (put_peer i (p\<lparr>p_conn := Some endpoint\<rparr>))) (\<lambda>_. ret endpoint))"

definition try_endpoint :: "'w peer_env \<Rightarrow> PeerId \<Rightarrow> string
    \<Rightarrow> ('w node, (unit, go_error + string option) loop) go" where
  "try_endpoint e i endpoint =
     bind (ask (pe_dial e endpoint)) (\<lambda>derr. case derr of
       Some _ \<Rightarrow> ret (Next ())
     | None \<Rightarrow>
       bind (get_self myInfo) (\<lambda>me.
       bind (lift (pe_ping e endpoint me)) (\<lambda>r. case r of
         Inl _ \<Rightarrow> ret (Next ())
       | Inr None \<Rightarrow> panic ''nil ping info''
       | Inr (Some info) \<Rightarrow>
         bind (time_now (pe_rt e)) (\<lambda>now.
         with_peer i (\<lambda>p.
         bind (upd_self (put_peer i (updatePeerInfo now info p))) (\<lambda>_.
         bind (adopt_conn i endpoint) (\<lambda>c. ret (Stop (Inr (Some c))))))))))"

definition usable_conn :: "'w peer_env \<Rightarrow> PeerId \<Rightarrow> ('w node, string option) go" where
  "usable_conn e i =
     with_peer i (\<lambda>p. case p_conn p of
       None \<Rightarrow> ret None
     | Some c \<Rightarrow> bind (ask (pe_conn_state e c)) (\<lambda>st.
         if st = TransientFailure \<or> st = Shutdown
         then bind (upd_self (put_peer i (p\<lparr>p_conn := None\<rparr>))) (\<lambda>_. ret None)
         else ret (Some c)))"

definition connect :: "'w peer_env \<Rightarrow> PeerId \<Rightarrow> ('w node, go_error + string option) go" where
  "connect e i =
     bind (usable_conn e i) (\<lambda>conn. case conn of
       Some c \<Rightarrow> ret (Inr (Some c))
     | None \<Rightarrow>
       with_peer i (\<lambda>p.
       bind (range_map (pe_rt e) (map (\<lambda>ep. (ep, ())) (peer_endpoints p))) (\<lambda>eps.
       bind (for_each eps () (\<lambda>ep _. try_endpoint e i (fst ep))) (\<lambda>r. case r of
         Stop res \<Rightarrow> ret res
       | Next _ \<Rightarrow> ret (Inr None)))))"

definition GetPeerClient :: "'w peer_env \<Rightarrow> PeerId \<Rightarrow> ('w node, go_error + string) go" where
  "GetPeerClient e peerId =
     bind (get_self (\<lambda>s. s)) (\<lambda>s. case gm_lookup (peers s) peerId of
       None \<Rightarrow> ret (Inl (Errorf ''peer not known''))
     | Some p \<Rightarrow>
       bind (time_now (pe_rt e)) (\<lambda>now.
         if status now (HealthyTimeout s) p = None then ret (Inl (Errorf ''peer is not healthy''))
         else bind (connect e peerId) (\<lambda>r. case r of
             Inl err \<Rightarrow> ret (Inl (Wrap ''error connecting to peer'' err))
           | Inr None \<Rightarrow> ret (Inl (Errorf ''unable to connect to peer''))
           | Inr (Some c) \<Rightarrow> ret (Inr c))))"

text \<open>\<^verbatim>\<open>(p *peer) sendPings\<close>, one turn of its loop: ping over the connection and record the answer.\<close>

definition sendPing :: "'w peer_env \<Rightarrow> PeerId \<Rightarrow> string \<Rightarrow> ('w node, go_error option) go" where
  "sendPing e i conn =
     bind (get_self myInfo) (\<lambda>me.
     bind (lift (pe_ping e conn me)) (\<lambda>r. case r of
       Inl err \<Rightarrow> ret (Some (Wrap ''error pinging'' err))
     | Inr None \<Rightarrow> panic ''nil ping info''
     | Inr (Some info) \<Rightarrow>
       bind (time_now (pe_rt e)) (\<lambda>now.
       with_peer i (\<lambda>p. bind (upd_self (put_peer i (updatePeerInfo now info p))) (\<lambda>_. ret None)))))"

text \<open>\<^verbatim>\<open>(s *Server) Peers\<close>: the infos of the peers that are healthy when they are asked.\<close>

definition Peers :: "'w runtime \<Rightarrow> ('w node, PeerInfo list) go" where
  "Peers rt =
     bind (get_self (\<lambda>s. s)) (\<lambda>s.
     bind (range_map rt (peers s)) (\<lambda>kvs.
     bind (for_each kvs [] (\<lambda>kv infos. bind (time_now rt) (\<lambda>now.
       case status now (HealthyTimeout s) (snd kv) of
         None \<Rightarrow> ret (Next infos) | Some i \<Rightarrow> ret (Next (infos @ [i]))))) (\<lambda>r. case r of
       Next infos \<Rightarrow> ret infos | Stop x \<Rightarrow> ret x)))"

definition Ping :: "'w runtime \<Rightarrow> PeerInfo option \<Rightarrow> ('w node, PeerInfo) go" where
  "Ping rt request_info =
     bind (case request_info of None \<Rightarrow> ret ()
       | Some info \<Rightarrow> if pi_Id info = [] then ret () else updateFromPingRequest rt request_info) (\<lambda>_.
     get_self myInfo)"

section \<open>Leadership\<close>

definition add_candidate :: "'w runtime \<Rightarrow> PeerInfo \<Rightarrow> ('w node, unit) go" where
  "add_candidate rt info =
     bind (get_self peers) (\<lambda>ps. case gm_lookup ps (pi_Id info) of
       Some _ \<Rightarrow> ret ()
     | None \<Rightarrow> bind (time_now rt) (\<lambda>now.
         upd_self (start_peer (pi_Id info) (updatePeerInfo now info (new_peer (pi_Id info) 0)))))"

definition addPeersFromView :: "'w runtime \<Rightarrow> View \<Rightarrow> ('w node, unit) go" where
  "addPeersFromView rt view =
     bind (for_each (v_Healthy view) () (\<lambda>info _. bind (add_candidate rt info) (\<lambda>_. ret (Next ()))))
       (\<lambda>_ :: (unit, unit) loop. ret ())"

text \<open>The loop of \<^verbatim>\<open>LeaderNotification\<close> that looks for a healthy peer missing from the view.\<close>

definition missing_from_view :: "'w runtime \<Rightarrow> View \<Rightarrow> ('w node, bool) go" where
  "missing_from_view rt view =
     bind (get_self (\<lambda>s. s)) (\<lambda>s.
     bind (range_map rt (peers s)) (\<lambda>kvs.
     bind (for_each kvs () (\<lambda>kv _.
       if fst kv \<in> pi_Id ` set (v_Healthy view) then ret (Next ())
       else bind (time_now rt) (\<lambda>now.
         if status now (HealthyTimeout s) (snd kv) \<noteq> None then ret (Stop ()) else ret (Next ())))) (\<lambda>r.
     ret (case r of Stop _ \<Rightarrow> True | Next _ \<Rightarrow> False))))"

definition LeaderNotification :: "'w runtime \<Rightarrow> LeaderNotificationRequest
    \<Rightarrow> ('w node, go_error + LeaderNotificationResponse) go" where
  "LeaderNotification rt request =
     (case ln_View request of
        None \<Rightarrow> ret (Inl (Errorf ''View is required''))
      | Some view \<Rightarrow>
        if v_Healthy view = [] then ret (Inl (Errorf ''View.Healthy is required''))
        else
          bind (addPeersFromView rt view) (\<lambda>_.
          bind (missing_from_view rt view) (\<lambda>reject.
            if reject then
              bind (Peers rt) (\<lambda>infos.
                ret (Inr \<lparr>lr_Accepted = False,
                  lr_View = Some \<lparr>v_Leader = None, v_LeadershipToken = [], v_Healthy = infos\<rparr>\<rparr>))
            else
              bind (time_now rt) (\<lambda>now.
              bind (upd_self (\<lambda>s. s\<lparr>leadership_of :=
                  Some \<lparr>l_notification = Some request, l_timestamp = now\<rparr>\<rparr>)) (\<lambda>_.
              ret (Inr \<lparr>lr_Accepted = True, lr_View = None\<rparr>))))))"

definition snapshotHealthy :: "'w runtime \<Rightarrow> ('w node, PeerInfo gomap) go" where
  "snapshotHealthy rt =
     bind (get_self (\<lambda>s. s)) (\<lambda>s.
     bind (range_map rt (peers s)) (\<lambda>kvs.
     bind (for_each kvs [] (\<lambda>kv infos. bind (time_now rt) (\<lambda>now.
       case status now (HealthyTimeout s) (snd kv) of
         None \<Rightarrow> ret (Next infos) | Some i \<Rightarrow> ret (Next (infos @ [(fst kv, i)]))))) (\<lambda>r. case r of
       Next infos \<Rightarrow> ret infos | Stop x \<Rightarrow> ret x)))"

definition IsLeader :: "Server \<Rightarrow> string \<Rightarrow> bool" where
  "IsLeader s leadershipToken =
     (case leadership_of s of None \<Rightarrow> False | Some l \<Rightarrow>
      case l_notification l of None \<Rightarrow> False | Some n \<Rightarrow>
      case ln_View n of None \<Rightarrow> False | Some v \<Rightarrow> v_LeadershipToken v = leadershipToken)"

text \<open>
  The loop that both \<^verbatim>\<open>BecomeLeader\<close> and \<^verbatim>\<open>AssertLeadership\<close> run: notify every peer of the snapshot,
  stop at the first error or rejection; it returns the peers that accepted.
\<close>

definition notify_peer :: "'w peer_env \<Rightarrow> LeaderNotificationRequest \<Rightarrow> PeerId \<Rightarrow> PeerId list
    \<Rightarrow> ('w node, (PeerId list, go_error) loop) go" where
  "notify_peer e request peerId acked =
     bind (GetPeerClient e peerId) (\<lambda>c. case c of
       Inl err \<Rightarrow> ret (Stop (Wrap ''error getting peer client'' err))
     | Inr conn \<Rightarrow>
       bind (lift (pe_notify e conn request)) (\<lambda>r. case r of
         Inl err \<Rightarrow> ret (Stop (Wrap ''error sending leader notification'' err))
       | Inr response \<Rightarrow>
         bind (case lr_View response of None \<Rightarrow> ret () | Some v \<Rightarrow> addPeersFromView (pe_rt e) v) (\<lambda>_.
           if \<not> lr_Accepted response then ret (Stop (Errorf ''our leadership bid was not accepted''))
           else ret (Next (acked @ [peerId])))))"

definition leader_request :: "Server \<Rightarrow> PeerInfo list \<Rightarrow> string \<Rightarrow> LeaderNotificationRequest" where
  "leader_request s infos token =
     \<lparr>ln_View = Some \<lparr>v_Leader = Some (myInfo s), v_LeadershipToken = token, v_Healthy = infos\<rparr>\<rparr>"

definition BecomeLeader :: "'w peer_env \<Rightarrow> ('w node, go_error + (PeerId list \<times> string)) go" where
  "BecomeLeader e =
     bind (snapshotHealthy (pe_rt e)) (\<lambda>snapshot.
     bind (range_map (pe_rt e) snapshot) (\<lambda>infos.
     bind (get_self (\<lambda>s. s)) (\<lambda>s.
     bind (ask (rt_token (pe_rt e))) (\<lambda>token.
     bind (range_map (pe_rt e) snapshot) (\<lambda>kvs.
     bind (for_each kvs [] (\<lambda>kv acked. notify_peer e (leader_request s (map snd infos) token) (fst kv) acked)) (\<lambda>r.
     ret (case r of Stop err \<Rightarrow> Inl err | Next acked \<Rightarrow> Inr (acked, token))))))))"

definition AssertLeadership :: "'w peer_env \<Rightarrow> string \<Rightarrow> ('w node, go_error option) go" where
  "AssertLeadership e leadershipToken =
     bind (snapshotHealthy (pe_rt e)) (\<lambda>snapshot.
     bind (range_map (pe_rt e) snapshot) (\<lambda>infos.
     bind (get_self (\<lambda>s. s)) (\<lambda>s.
     bind (range_map (pe_rt e) snapshot) (\<lambda>kvs.
     bind (for_each kvs [] (\<lambda>kv acked. notify_peer e (leader_request s (map snd infos) leadershipToken) (fst kv) acked)) (\<lambda>r.
     ret (case r of Stop err \<Rightarrow> Some err | Next _ \<Rightarrow> None))))))"

section \<open>The invariant of the peer table\<close>

text \<open>
  Every entry is filed under its own id and holds only infos of that id, ids are unique, and there
  is exactly one \<^verbatim>\<open>Run\<close> goroutine per entry.
\<close>

definition peer_ok :: "PeerId \<Rightarrow> peer \<Rightarrow> bool" where
  "peer_ok i p \<longleftrightarrow> p_id p = i \<and> (\<forall>info. p_lastInfo p = Some info \<longrightarrow> pi_Id info = i)"

definition server_ok :: "Server \<Rightarrow> bool" where
  "server_ok s \<longleftrightarrow> gm_ok (peers s) \<and> (\<forall>i p. gm_lookup (peers s) i = Some p \<longrightarrow> peer_ok i p)
     \<and> distinct (goroutines s) \<and> set (goroutines s) = dom (gm_lookup (peers s))"

lemma peer_ok_new [simp]: "peer_ok i (new_peer i d)"
  by (simp add: peer_ok_def new_peer_def)

lemma peer_ok_update [simp]: "peer_ok i p \<Longrightarrow> peer_ok i (updatePeerInfo now info p)"
  by (auto simp: peer_ok_def updatePeerInfo_def Let_def split: option.splits)

lemma peer_ok_fields [simp]:
  "peer_ok i (p\<lparr>p_conn := c\<rparr>) = peer_ok i p" "peer_ok i (p\<lparr>p_discoveryNode := d\<rparr>) = peer_ok i p"
  by (simp_all add: peer_ok_def)

lemma server_ok_put:
  assumes "server_ok s" and "gm_lookup (peers s) i \<noteq> None" and "peer_ok i p"
  shows "server_ok (put_peer i p s)"
proof -
  have "i \<in> dom (gm_lookup (peers s))" using assms(2) by auto
  then show ?thesis
    using assms(1,3) unfolding server_ok_def by (simp add: put_peer_def insert_absorb)
qed

lemma server_ok_lookup: "server_ok s \<Longrightarrow> gm_lookup (peers s) i = Some p \<Longrightarrow> peer_ok i p"
  by (simp add: server_ok_def)

lemma server_ok_start:
  "server_ok s \<Longrightarrow> gm_lookup (peers s) i = None \<Longrightarrow> peer_ok i p \<Longrightarrow> server_ok (start_peer i p s)"
  by (auto simp: server_ok_def start_peer_def put_peer_def)

lemma server_ok_leadership: "server_ok (s\<lparr>leadership_of := l\<rparr>) = server_ok s"
  by (simp add: server_ok_def)

text \<open>
  The invariant as a relation that also remembers which ids are in the table: a computation never
  removes a peer.
\<close>

definition server_step :: "'w node \<Rightarrow> 'w node \<Rightarrow> bool" where
  "server_step s s' \<longleftrightarrow> (server_ok (self s) \<longrightarrow> server_ok (self s')
     \<and> dom (gm_lookup (peers (self s))) \<subseteq> dom (gm_lookup (peers (self s'))))"

interpretation srv: step_rel server_step
  by unfold_locales (auto simp: server_step_def)

lemma srv_ask: "keeps server_step (ask f)"
  by (auto simp: keeps_def server_step_def ask_def split: prod.splits)

lemma srv_get_self: "keeps server_step (get_self g)"
  by (simp add: get_self_def srv.keeps_gets)

lemma srv_now: "keeps server_step (time_now rt)"
  by (simp add: time_now_def srv_ask)

lemma srv_range: "keeps server_step (range_map rt m)"
  unfolding range_map_def by (intro srv.keeps_core srv_ask)

lemmas srv_rules = keeps_rules srv.keeps_core srv_ask srv_get_self srv_now srv_range

text \<open>Replacing an entry by an updated version of itself, and filing a new one.\<close>

lemma keeps_put_existing:
  assumes "\<And>p. peer_ok i p \<Longrightarrow> peer_ok i (g p)"
  shows "server_ok (self s) \<Longrightarrow> gm_lookup (peers (self s)) i = Some p \<Longrightarrow>
    server_step s (s\<lparr>world := w, self := put_peer i (g p) (self s)\<rparr>)"
  by (auto simp: server_step_def put_peer_def assms
      intro!: server_ok_put [unfolded put_peer_def] dest: server_ok_lookup)

lemma keeps_start_new:
  "server_ok (self s) \<Longrightarrow> gm_lookup (peers (self s)) i = None \<Longrightarrow> peer_ok i p \<Longrightarrow>
    server_step s (s\<lparr>world := w, self := start_peer i p (self s)\<rparr>)"
  by (auto simp: server_step_def start_peer_def put_peer_def
      intro!: server_ok_start [unfolded start_peer_def put_peer_def])

lemma srv_keepsI:
  assumes "\<And>s. server_ok (self s) \<Longrightarrow> server_step s (snd (m s))"
  shows "keeps server_step m"
  using assms by (auto simp: keeps_def server_step_def)

lemmas srv_unfold = bind_apply ret_apply get_self_def upd_self_def time_now_def ask_def

lemma server_step_world: "server_step s (s\<lparr>world := w\<rparr>)"
  by (simp add: server_step_def)

lemma updateFromPingRequest_keeps: "keeps server_step (updateFromPingRequest rt info)"
proof (rule srv_keepsI)
  fix s :: "'a node" assume ok: "server_ok (self s)"
  show "server_step s (snd (updateFromPingRequest rt info s))"
    using keeps_put_existing [OF peer_ok_update _ , OF _ ok] keeps_start_new [OF ok]
    by (auto simp: updateFromPingRequest_def srv_unfold srv.step_refl
        split: option.splits prod.splits)
qed

lemma updateFromDiscovery_keeps: "keeps server_step (updateFromDiscovery n)"
proof (rule srv_keepsI)
  fix s :: "'a node" assume ok: "server_ok (self s)"
  show "server_step s (snd (updateFromDiscovery n s))"
    using keeps_put_existing [of "dn_ID n" "\<lambda>p. p\<lparr>p_discoveryNode := n\<rparr>" s _ "world s"] ok
      keeps_start_new [OF ok, of "dn_ID n" _ "world s"]
    by (auto simp: updateFromDiscovery_def srv_unfold Let_def split: option.splits)
qed

lemma add_candidate_keeps: "keeps server_step (add_candidate rt info)"
proof (rule srv_keepsI)
  fix s :: "'a node" assume ok: "server_ok (self s)"
  show "server_step s (snd (add_candidate rt info s))"
    using keeps_start_new [OF ok]
    by (auto simp: add_candidate_def srv_unfold srv.step_refl split: option.splits prod.splits)
qed

lemma addPeersFromView_keeps: "keeps server_step (addPeersFromView rt v)"
  unfolding addPeersFromView_def by (intro srv_rules add_candidate_keeps)

lemma Peers_keeps: "keeps server_step (Peers rt)"
  unfolding Peers_def by (intro srv_rules)

lemma missing_from_view_keeps: "keeps server_step (missing_from_view rt v)"
  unfolding missing_from_view_def by (intro srv_rules)

lemma set_leadership_keeps: "keeps server_step (upd_self (\<lambda>s. s\<lparr>leadership_of := l\<rparr>))"
  by (auto simp: keeps_def server_step_def upd_self_def server_ok_leadership)

lemma Ping_keeps: "keeps server_step (Ping rt info)"
  unfolding Ping_def by (intro srv_rules updateFromPingRequest_keeps)

lemma LeaderNotification_keeps: "keeps server_step (LeaderNotification rt req)"
  unfolding LeaderNotification_def
  by (intro srv_rules addPeersFromView_keeps missing_from_view_keeps Peers_keeps set_leadership_keeps)

lemma runDiscoveryOnce_keeps: "keeps server_step (runDiscoveryOnce e)"
  unfolding runDiscoveryOnce_def by (intro srv_rules updateFromDiscovery_keeps)

lemma with_peer_put_keeps:
  assumes "\<And>p. peer_ok i p \<Longrightarrow> peer_ok i (g p)" and "\<And>p. keeps server_step (h p)"
  shows "keeps server_step (with_peer i (\<lambda>p. bind (upd_self (put_peer i (g p))) (\<lambda>_. h p)))"
proof (rule srv_keepsI)
  fix s :: "'a node" assume ok: "server_ok (self s)"
  show "server_step s (snd (with_peer i (\<lambda>p. bind (upd_self (put_peer i (g p))) (\<lambda>_. h p)) s))"
  proof (cases "gm_lookup (peers (self s)) i")
    case None
    then show ?thesis by (simp add: with_peer_def srv_unfold panic_apply srv.step_refl)
  next
    case (Some p)
    from keeps_put_existing [of i g, OF assms(1) ok Some, of "world s"]
    have "server_step s (s\<lparr>self := put_peer i (g p) (self s)\<rparr>)" by simp
    with assms(2) show ?thesis
      by (auto simp: with_peer_def srv_unfold Some intro: srv.step_trans keepsD)
  qed
qed

lemma with_peer_keeps: "(\<And>p. keeps server_step (f p)) \<Longrightarrow> keeps server_step (with_peer i f)"
  unfolding with_peer_def by (intro srv_rules)

lemma adopt_conn_keeps: "keeps server_step (adopt_conn i ep)"
proof (rule srv_keepsI)
  fix s :: "'a node" assume ok: "server_ok (self s)"
  show "server_step s (snd (adopt_conn i ep s))"
    using keeps_put_existing [of i "\<lambda>p. p\<lparr>p_conn := Some ep\<rparr>" s _ "world s"] ok
    by (auto simp: adopt_conn_def with_peer_def srv_unfold panic_apply srv.step_refl split: option.splits)
qed

lemma usable_conn_keeps: "keeps server_step (usable_conn e i)"
proof (rule srv_keepsI)
  fix s :: "'a node" assume ok: "server_ok (self s)"
  show "server_step s (snd (usable_conn e i s))"
    using keeps_put_existing [of i "\<lambda>p. p\<lparr>p_conn := None\<rparr>" s] ok
    by (auto simp: usable_conn_def with_peer_def srv_unfold panic_apply srv.step_refl
        server_step_world split: option.splits prod.splits)
qed

lemma snapshotHealthy_keeps: "keeps server_step (snapshotHealthy rt)"
  unfolding snapshotHealthy_def by (intro srv_rules)

section \<open>The network\<close>

text \<open>
  What a node relies on while a call is in flight: its own handlers may run and change its server,
  and they keep the invariant and remove no peer. Every operation that calls out keeps them too.
\<close>

locale peer_network =
  fixes e :: "'w peer_env"
  assumes ping_ok: "server_step s (snd (pe_ping e c i s))"
    and notify_ok: "server_step s (snd (pe_notify e c r s))"
begin

lemma ping_keeps: "keeps server_step (lift (pe_ping e c i))"
  using ping_ok by (auto simp: keeps_def lift_apply split: prod.splits) (metis snd_conv)

lemma notify_keeps: "keeps server_step (lift (pe_notify e c r))"
  using notify_ok by (auto simp: keeps_def lift_apply split: prod.splits) (metis snd_conv)

lemma try_endpoint_keeps: "keeps server_step (try_endpoint e i ep)"
  unfolding try_endpoint_def
  by (intro srv_rules ping_keeps with_peer_put_keeps adopt_conn_keeps peer_ok_update)

lemma connect_keeps: "keeps server_step (connect e i)"
  unfolding connect_def by (intro srv_rules usable_conn_keeps with_peer_keeps try_endpoint_keeps)

lemma GetPeerClient_keeps: "keeps server_step (GetPeerClient e i)"
  unfolding GetPeerClient_def by (intro srv_rules connect_keeps)

lemma sendPing_keeps: "keeps server_step (sendPing e i c)"
  unfolding sendPing_def
  by (intro srv_rules ping_keeps with_peer_put_keeps peer_ok_update)

lemma notify_peer_keeps: "keeps server_step (notify_peer e req i acked)"
  unfolding notify_peer_def
  by (intro srv_rules GetPeerClient_keeps notify_keeps addPeersFromView_keeps)

lemma BecomeLeader_keeps: "keeps server_step (BecomeLeader e)"
  unfolding BecomeLeader_def by (intro srv_rules snapshotHealthy_keeps notify_peer_keeps)

lemma AssertLeadership_keeps: "keeps server_step (AssertLeadership e tok)"
  unfolding AssertLeadership_def by (intro srv_rules snapshotHealthy_keeps notify_peer_keeps)

end

text \<open>
  The network of a cluster of one: every endpoint is this node, and a call is its own handler.
\<close>

definition loopback :: "'w runtime \<Rightarrow> ('w \<Rightarrow> (go_error + Node gomap) \<times> 'w) \<Rightarrow> 'w peer_env" where
  "loopback rt poll = \<lparr>pe_rt = rt, pe_poll = poll, pe_ParseIP = Some,
     pe_AddFallbacks = (\<lambda>_ w. (None, w)), pe_conn_state = (\<lambda>_ w. (Ready, w)), pe_dial = (\<lambda>_ w. (None, w)),
     pe_ping = (\<lambda>_ i s. case Ping rt (Some i) s of
         (Ret info, s') \<Rightarrow> (Inr (Some info), s') | (Panic m, s') \<Rightarrow> (Inl (Errorf m), s')),
     pe_notify = (\<lambda>_ r s. case LeaderNotification rt r s of
         (Ret x, s') \<Rightarrow> (x, s') | (Panic m, s') \<Rightarrow> (Inl (Errorf m), s'))\<rparr>"

interpretation lb: peer_network "loopback rt poll" for rt poll
proof
  show "server_step s (snd (pe_ping (loopback rt poll) c i s))" for s c i
    using keepsD [OF Ping_keeps, of s rt "Some i"]
    by (auto simp: loopback_def split: prod.splits outcome.splits)
  show "server_step s (snd (pe_notify (loopback rt poll) c r s))" for s c r
    using keepsD [OF LeaderNotification_keeps, of s rt r]
    by (auto simp: loopback_def split: prod.splits outcome.splits)
qed

section \<open>A node as a state machine\<close>

text \<open>
  One step is one operation of the node, run to its end whatever its outcome: a handler, a discovery
  poll, one ping of a peer, or an operation the controller calls.
\<close>

inductive node_step :: "'w peer_env \<Rightarrow> 'w node \<Rightarrow> 'w node \<Rightarrow> bool" for e where
  step_Ping: "node_step e s (snd (Ping (pe_rt e) info s))"
| step_Notification: "node_step e s (snd (LeaderNotification (pe_rt e) req s))"
| step_Discovery: "node_step e s (snd (runDiscoveryOnce e s))"
| step_sendPing: "node_step e s (snd (sendPing e i c s))"
| step_connect: "node_step e s (snd (connect e i s))"
| step_GetPeerClient: "node_step e s (snd (GetPeerClient e i s))"
| step_Peers: "node_step e s (snd (Peers (pe_rt e) s))"
| step_BecomeLeader: "node_step e s (snd (BecomeLeader e s))"
| step_AssertLeadership: "node_step e s (snd (AssertLeadership e tok s))"

inductive node_reach :: "'w peer_env \<Rightarrow> 'w node \<Rightarrow> bool" for e where
  reach_start: "NewServer (Some info) port sfx = Inr srv \<Longrightarrow> self s = srv \<Longrightarrow> node_reach e s"
| reach_step: "node_reach e s \<Longrightarrow> node_step e s s' \<Longrightarrow> node_reach e s'"

lemma NewServer_ok: "NewServer info port sfx = Inr srv \<Longrightarrow> server_ok srv"
  by (auto simp: NewServer_def server_ok_def split: option.splits)

lemma node_step_ok:
  assumes "peer_network e" and "node_step e s s'"
  shows "server_step s s'"
  using assms(2)
  by cases (simp_all only: keepsD [OF Ping_keeps] keepsD [OF LeaderNotification_keeps]
      keepsD [OF runDiscoveryOnce_keeps] keepsD [OF Peers_keeps]
      keepsD [OF peer_network.connect_keeps [OF assms(1)]]
      keepsD [OF peer_network.GetPeerClient_keeps [OF assms(1)]]
      keepsD [OF peer_network.sendPing_keeps [OF assms(1)]]
      keepsD [OF peer_network.BecomeLeader_keeps [OF assms(1)]]
      keepsD [OF peer_network.AssertLeadership_keeps [OF assms(1)]])

lemma node_reach_ok:
  assumes "peer_network e" and "node_reach e s"
  shows "server_ok (self s)"
  using assms(2)
proof (induction rule: node_reach.induct)
  case (reach_start info port sfx srv s)
  then show ?case by (simp add: NewServer_ok)
next
  case (reach_step s s')
  with node_step_ok [OF assms(1)] show ?case by (auto simp: server_step_def)
qed

text \<open>
  C23. The peer table stays sound: in every state a node can reach by serving pings and leader
  notifications, polling discovery, pinging, connecting and bidding for leadership, every entry is
  filed under its own id and holds only infos of that id, and each peer has exactly one goroutine.
\<close>

theorem peer_table_invariant:
  assumes "peer_network e" and "node_reach e s"
  shows "server_ok (self s)"
  using assms by (rule node_reach_ok)

section \<open>Accepting a leader\<close>

text \<open>The peers that the view of a bid leaves out although this node finds them healthy.\<close>

definition left_out :: "time \<Rightarrow> View \<Rightarrow> Server \<Rightarrow> PeerId set" where
  "left_out t v s = {i. \<exists>p. gm_lookup (peers s) i = Some p \<and> status t (HealthyTimeout s) p \<noteq> None
     \<and> i \<notin> pi_Id ` set (v_Healthy v)}"

lemma left_out_start:
  assumes "gm_lookup (peers s) i = None" and "i \<in> pi_Id ` set (v_Healthy v)"
  shows "left_out t v (start_peer i p s) = left_out t v s"
  using assms by (auto simp: left_out_def start_peer_def put_peer_def split: if_splits)

definition same_but_peers :: "time \<Rightarrow> View \<Rightarrow> Server \<Rightarrow> Server \<Rightarrow> bool" where
  "same_but_peers t v s s' \<longleftrightarrow> left_out t v s' = left_out t v s \<and> leadership_of s' = leadership_of s
     \<and> HealthyTimeout s' = HealthyTimeout s"

lemma add_candidate_eval:
  assumes "info \<in> set (v_Healthy v)"
  shows "\<exists>s'. add_candidate rt info s = (Ret (), s') \<and> same_but_peers t v (self s) (self s')"
  using assms left_out_start [of "self s" "pi_Id info" v t]
  by (auto simp: add_candidate_def srv_unfold same_but_peers_def start_peer_def put_peer_def
      split: prod.splits option.splits)

lemma addPeersFromView_eval:
  "\<exists>s'. addPeersFromView rt v s = (Ret (), s') \<and> same_but_peers t v (self s) (self s')"
proof -
  define body where
    "body = (\<lambda>info (_ :: unit). bind (add_candidate rt info) (\<lambda>_. ret (Next () :: (unit, unit) loop)))"
  have step: "\<exists>s'. body info x s = (Ret (Next ()), s') \<and> same_but_peers t v (self s) (self s')"
    if "info \<in> set (v_Healthy v)" for info s x
    using add_candidate_eval [OF that, of rt s t] by (auto simp: body_def bind_apply ret_apply)
  have "\<exists>s'. for_each infos () body s = (Ret (Next ()), s') \<and> same_but_peers t v (self s) (self s')"
    if "set infos \<subseteq> set (v_Healthy v)" for infos
    using that
  proof (induction infos arbitrary: s)
    case Nil
    then show ?case by (simp add: ret_apply same_but_peers_def)
  next
    case (Cons info infos)
    then obtain s1 where "body info () s = (Ret (Next ()), s1)" "same_but_peers t v (self s) (self s1)"
      using step [of info "()" s] by auto
    moreover obtain s2 where "for_each infos () body s1 = (Ret (Next ()), s2)" "same_but_peers t v (self s1) (self s2)"
      using Cons by auto
    ultimately show ?case by (simp add: bind_apply same_but_peers_def)
  qed
  from this [OF subset_refl] show ?thesis
    by (auto simp: addPeersFromView_def body_def [symmetric] bind_apply ret_apply)
qed

lemma missing_from_view_eval:
  assumes clock: "clock_at rt t" and ok: "server_ok (self s)"
  shows "\<exists>w. missing_from_view rt v s = (Ret (left_out t v (self s) \<noteq> {}), s\<lparr>world := w\<rparr>)"
proof -
  let ?T = "HealthyTimeout (self s)"
  let ?bad = "\<lambda>kv. fst kv \<notin> pi_Id ` set (v_Healthy v) \<and> status t ?T (snd kv) \<noteq> None"
  let ?body = "\<lambda>kv (_ :: unit). if fst kv \<in> pi_Id ` set (v_Healthy v) then ret (Next ())
       else bind (time_now rt) (\<lambda>now. if status now ?T (snd kv) \<noteq> None then ret (Stop ()) else ret (Next ()))"
  have loop: "\<exists>w. for_each kvs () ?body u
      = (Ret (if \<exists>kv \<in> set kvs. ?bad kv then Stop () else Next ()), u\<lparr>world := w\<rparr>)" for kvs u
  proof (induction kvs arbitrary: u)
    case Nil
    show ?case by (rule exI [of _ "world u"]) (simp add: ret_apply)
  next
    case (Cons kv kvs)
    obtain w where "time_now rt u = (Ret t, u\<lparr>world := w\<rparr>)" using clock_read [OF clock] by blast
    with Cons [of u] Cons [of "u\<lparr>world := w\<rparr>"] show ?case by (auto simp: bind_apply ret_apply)
  qed
  obtain cs w1 where range: "range_map rt (peers (self s)) s = (Ret (shuffle cs (peers (self s))), s\<lparr>world := w1\<rparr>)"
    using range_map_eval [of rt "peers (self s)" s] by blast
  obtain w2 where "for_each (shuffle cs (peers (self s))) () ?body (s\<lparr>world := w1\<rparr>)
      = (Ret (if \<exists>kv \<in> set (peers (self s)). ?bad kv then Stop () else Next ()), s\<lparr>world := w2\<rparr>)"
    using loop [of "shuffle cs (peers (self s))" "s\<lparr>world := w1\<rparr>"] by auto
  moreover have "(\<exists>kv \<in> set (peers (self s)). ?bad kv) \<longleftrightarrow> left_out t v (self s) \<noteq> {}"
    using ok by (fastforce simp: left_out_def server_ok_def)
  ultimately show ?thesis
    by (auto simp: missing_from_view_def bind_apply get_self_def range ret_apply)
qed

lemma Peers_eval:
  assumes clock: "clock_at rt t"
  shows "\<exists>infos w. Peers rt s = (Ret infos, s\<lparr>world := w\<rparr>)
    \<and> set infos = {info. \<exists>kv \<in> set (peers (self s)). status t (HealthyTimeout (self s)) (snd kv) = Some info}"
proof -
  let ?T = "HealthyTimeout (self s)"
  define body :: "string \<times> peer \<Rightarrow> PeerInfo list \<Rightarrow> ('a node, (PeerInfo list, PeerInfo list) loop) go"
    where "body = (\<lambda>kv infos. bind (time_now rt) (\<lambda>now. case status now ?T (snd kv) of
         None \<Rightarrow> ret (Next infos) | Some i \<Rightarrow> ret (Next (infos @ [i]))))"
  have step: "\<exists>w. body kv acc u = (Ret (Next (case status t ?T (snd kv) of None \<Rightarrow> acc | Some i \<Rightarrow> acc @ [i])), u\<lparr>world := w\<rparr>)"
    for kv acc u
    using clock_read [OF clock, of u] by (auto simp: body_def bind_apply ret_apply split: option.splits)
  have loop: "\<exists>infos w. for_each kvs acc body u = (Ret (Next infos), u\<lparr>world := w\<rparr>)
      \<and> set infos = set acc \<union> {info. \<exists>kv \<in> set kvs. status t ?T (snd kv) = Some info}" for kvs acc u
  proof (induction kvs arbitrary: acc u)
    case Nil
    show ?case by (intro exI [of _ acc] exI [of _ "world u"]) (simp add: ret_apply)
  next
    case (Cons kv kvs)
    let ?acc = "case status t ?T (snd kv) of None \<Rightarrow> acc | Some i \<Rightarrow> acc @ [i]"
    obtain w where "body kv acc u = (Ret (Next ?acc), u\<lparr>world := w\<rparr>)" using step by blast
    moreover obtain infos w2 where "for_each kvs ?acc body (u\<lparr>world := w\<rparr>) = (Ret (Next infos), u\<lparr>world := w2\<rparr>)"
      "set infos = set ?acc \<union> {info. \<exists>kv \<in> set kvs. status t ?T (snd kv) = Some info}"
      using Cons [of ?acc "u\<lparr>world := w\<rparr>"] by auto
    ultimately show ?case
      by (intro exI [of _ infos] exI [of _ w2]) (auto simp: bind_apply split: option.splits)
  qed
  obtain cs w1 where range: "range_map rt (peers (self s)) s = (Ret (shuffle cs (peers (self s))), s\<lparr>world := w1\<rparr>)"
    using range_map_eval [of rt "peers (self s)" s] by blast
  obtain infos w2 where "for_each (shuffle cs (peers (self s))) [] body (s\<lparr>world := w1\<rparr>) = (Ret (Next infos), s\<lparr>world := w2\<rparr>)"
      "set infos = {info. \<exists>kv \<in> set (peers (self s)). status t ?T (snd kv) = Some info}"
    using loop [of "shuffle cs (peers (self s))" "[]" "s\<lparr>world := w1\<rparr>"] by auto
  then show ?thesis
    by (intro exI [of _ infos] exI [of _ w2])
      (simp add: Peers_def body_def [symmetric] bind_apply get_self_def range ret_apply)
qed

lemma LeaderNotification_spec:
  assumes ok: "server_ok (self s)" and clock: "clock_at rt t"
    and view: "ln_View req = Some v" and healthy: "v_Healthy v \<noteq> []"
  shows "\<exists>resp s'. LeaderNotification rt req s = (Ret (Inr resp), s')
    \<and> (lr_Accepted resp \<longleftrightarrow> left_out t v (self s) = {})
    \<and> (lr_Accepted resp \<longrightarrow> (\<forall>tok. IsLeader (self s') tok \<longleftrightarrow> tok = v_LeadershipToken v))
    \<and> (\<not> lr_Accepted resp \<longrightarrow> leadership_of (self s') = leadership_of (self s)
         \<and> (\<exists>v'. lr_View resp = Some v' \<and> left_out t v (self s) \<subseteq> pi_Id ` set (v_Healthy v')))"
proof -
  obtain s1 where s1: "addPeersFromView rt v s = (Ret (), s1)" "same_but_peers t v (self s) (self s1)"
    using addPeersFromView_eval by blast
  with keepsE [OF addPeersFromView_keeps, OF s1(1)] ok have ok1: "server_ok (self s1)"
    by (simp add: server_step_def)
  obtain w2 where s2: "missing_from_view rt v s1 = (Ret (left_out t v (self s1) \<noteq> {}), s1\<lparr>world := w2\<rparr>)"
    using missing_from_view_eval [OF clock ok1] by blast
  show ?thesis
  proof (cases "left_out t v (self s) = {}")
    case True
    obtain w3 where "time_now rt (s1\<lparr>world := w2\<rparr>) = (Ret t, s1\<lparr>world := w3\<rparr>)"
      using clock_read [OF clock, of "s1\<lparr>world := w2\<rparr>"] by auto
    with True s1 s2 show ?thesis
      by (auto simp: LeaderNotification_def view healthy bind_apply ret_apply upd_self_def
          same_but_peers_def IsLeader_def)
  next
    case False
    obtain infos w3 where infos: "Peers rt (s1\<lparr>world := w2\<rparr>) = (Ret infos, s1\<lparr>world := w3\<rparr>)"
      "set infos = {info. \<exists>kv \<in> set (peers (self s1)). status t (HealthyTimeout (self s1)) (snd kv) = Some info}"
      using Peers_eval [OF clock, of "s1\<lparr>world := w2\<rparr>"] by auto
    have "left_out t v (self s1) \<subseteq> pi_Id ` set infos"
      using ok1 infos(2) unfolding left_out_def server_ok_def peer_ok_def status_def
      by (fastforce split: option.splits if_splits simp: image_iff)
    with False s1 s2 infos(1) show ?thesis
      by (simp add: LeaderNotification_def view healthy bind_apply ret_apply same_but_peers_def)
  qed
qed

text \<open>
  C22. What a node answers to a bid. It never fails on a well-formed bid; it accepts exactly when the
  view leaves out no peer it finds healthy; it then takes the bid's token as the only valid one;
  and a rejection keeps the leader and tells the bidder every peer it left out.
\<close>

theorem LeaderNotification_decides:
  assumes ok: "server_ok (self s)" and clock: "clock_at rt t"
    and view: "ln_View req = Some v" and healthy: "v_Healthy v \<noteq> []"
  shows "\<exists>resp s'. LeaderNotification rt req s = (Ret (Inr resp), s')
    \<and> (lr_Accepted resp \<longleftrightarrow> left_out t v (self s) = {})
    \<and> (lr_Accepted resp \<longrightarrow> (\<forall>tok. IsLeader (self s') tok \<longleftrightarrow> tok = v_LeadershipToken v))
    \<and> (\<not> lr_Accepted resp \<longrightarrow> leadership_of (self s') = leadership_of (self s)
         \<and> (\<exists>v'. lr_View resp = Some v' \<and> left_out t v (self s) \<subseteq> pi_Id ` set (v_Healthy v')))"
  using assms by (rule LeaderNotification_spec)

section \<open>An example\<close>

definition example_info :: "string \<Rightarrow> PeerInfo" where
  "example_info i = \<lparr>pi_Id = i, pi_Endpoints = [''10.0.0.1:3996'']\<rparr>"

definition example_loopback :: "unit peer_env" where
  "example_loopback = loopback (const_rt 0) (\<lambda>w. (Inr [], w))"

definition example_new :: "unit node" where
  "example_new = \<lparr>self = \<lparr>myInfo = example_info ''a'', defaultPort = 3996, peers = [], leadership_of = None,
     HealthyTimeout = defaultHealthyTimeout, srv_dnsSuffix = [], goroutines = []\<rparr>, world = (), trace = []\<rparr>"

definition example_pinged :: "unit node" where
  "example_pinged = snd (Ping (const_rt 0) (Some (example_info ''b'')) example_new)"

lemma example_network: "peer_network example_loopback"
  unfolding example_loopback_def by (rule lb.peer_network_axioms)

lemma example_pinged_reach: "node_reach example_loopback example_pinged"
proof -
  have "node_reach example_loopback example_new"
    by (rule reach_start [of "example_info ''a''" 3996 "[]"]) (simp_all add: NewServer_def example_new_def)
  then show ?thesis
    using step_Ping [of example_loopback example_new "Some (example_info ''b'')"]
    by (auto simp: example_pinged_def example_loopback_def loopback_def intro: reach_step)
qed

theorem peer_table_invariant_witness:
  "server_ok (self example_pinged) \<and> goroutines (self example_pinged) = [''b'']"
proof -
  have "goroutines (self example_pinged) = [''b'']" by code_simp
  with peer_table_invariant [OF example_network example_pinged_reach] show ?thesis by simp
qed

definition example_view :: View where
  "example_view = \<lparr>v_Leader = None, v_LeadershipToken = ''t'', v_Healthy = [example_info ''b'']\<rparr>"

lemma example_ok: "server_ok (self example_pinged)"
  by (rule node_reach_ok [OF example_network example_pinged_reach])

lemma example_bid: "left_out 0 example_view (self example_pinged) = {}"
proof -
  have "map fst (peers (self example_pinged)) = [''b'']" by code_simp
  then have ids: "set (map fst (peers (self example_pinged))) = {''b''}" by simp
  have "i = ''b''" if "gm_lookup (peers (self example_pinged)) i = Some p" for i p
    using map_of_SomeD [OF that] ids by force
  then show ?thesis by (auto simp: left_out_def example_info_def example_view_def)
qed

theorem LeaderNotification_decides_witness:
  "\<exists>resp s'. LeaderNotification (const_rt 0) \<lparr>ln_View = Some example_view\<rparr> example_pinged = (Ret (Inr resp), s')
     \<and> lr_Accepted resp \<and> IsLeader (self s') ''t''"
  using LeaderNotification_decides [OF example_ok clock_at_const_rt, of "\<lparr>ln_View = Some example_view\<rparr>" example_view] example_bid
  by (fastforce simp: example_view_def)

end
