(* ===== verification/Go_Time.thy ===== *)
theory Go_Time
  imports Go_Strings
begin

text \<open>
  The calendar behind \<^verbatim>\<open>time.Format\<close> and \<^verbatim>\<open>time.Parse\<close> with the layout \<^verbatim>\<open>RFC3339\<close>, in UTC: backups and
  commands are named by such time stamps. Days are counted from 1 January of year 1, Go's zero time.
\<close>

definition is_leap :: "int \<Rightarrow> bool" where
  "is_leap y \<longleftrightarrow> y mod 4 = 0 \<and> (y mod 100 \<noteq> 0 \<or> y mod 400 = 0)"

definition days_before_year :: "int \<Rightarrow> int" where
  "days_before_year y = 365 * (y - 1) + (y - 1) div 4 - (y - 1) div 100 + (y - 1) div 400"

definition month_starts :: "int list" where
  "month_starts = [0, 31, 59, 90, 120, 151, 181, 212, 243, 273, 304, 334, 365]"

text \<open>The first day of a month in its year; month 13 is the end of the year.\<close>

definition days_before_month :: "int \<Rightarrow> int \<Rightarrow> int" where
  "days_before_month y m = month_starts ! nat (m - 1) + (if is_leap y \<and> m > 2 then 1 else 0)"

definition days_in_month :: "int \<Rightarrow> int \<Rightarrow> int" where
  "days_in_month y m = days_before_month y (m + 1) - days_before_month y m"

definition date_days :: "int \<Rightarrow> int \<Rightarrow> int \<Rightarrow> int" where
  "date_days y m d = days_before_year y + days_before_month y m + d - 1"

text \<open>The inverse, by cycles of 400, 100, 4 and 1 years.\<close>

definition year_day :: "int \<Rightarrow> int \<times> int" where
  "year_day d =
     (let n400 = d div 146097; r = d mod 146097;
          n100 = min 3 (r div 36524); r1 = r - 36524 * n100;
          n4 = r1 div 1461; r2 = r1 mod 1461;
          n1 = min 3 (r2 div 365)
      in (400 * n400 + 100 * n100 + 4 * n4 + n1 + 1, r2 - 365 * n1))"

definition month_of :: "int \<Rightarrow> int \<Rightarrow> int" where
  "month_of y yd = (case find (\<lambda>m. yd < days_before_month y (m + 1)) (map int [1..<12]) of
     Some m \<Rightarrow> m | None \<Rightarrow> 12)"

definition day_ns :: int where "day_ns = 24 * hour"

text \<open>\<^verbatim>\<open>t.Unix()\<close> and \<^verbatim>\<open>t.UnixNano()\<close>; year 1970 starts on day 719162.\<close>

definition unix_epoch :: time where "unix_epoch = 719162 * day_ns"
definition time_Unix :: "time \<Rightarrow> int" where "time_Unix t = (t - unix_epoch) div second"
definition time_UnixNano :: "time \<Rightarrow> int" where "time_UnixNano t = wrap64 (t - unix_epoch)"

definition pad :: "nat \<Rightarrow> int \<Rightarrow> string" where
  "pad w n = (let s = Itoa (nat n) in replicate (w - length s) (CHR ''0'') @ s)"

text \<open>\<^verbatim>\<open>t.UTC().Format(time.RFC3339)\<close> for times from year 1 on.\<close>

definition FormatRFC3339 :: "time \<Rightarrow> string" where
  "FormatRFC3339 t =
     (let d = t div day_ns; s = (t mod day_ns) div second; y = fst (year_day d); yd = snd (year_day d);
          m = month_of y yd
      in pad 4 y @ ''-'' @ pad 2 m @ ''-'' @ pad 2 (yd - days_before_month y m + 1) @ ''T''
         @ pad 2 (s div 3600) @ '':'' @ pad 2 (s div 60 mod 60) @ '':'' @ pad 2 (s mod 60) @ ''Z'')"

text \<open>
  \<^verbatim>\<open>time.Parse(time.RFC3339, s)\<close>: fixed-width fields within their ranges, an optional fraction after
  the seconds (dot or comma and digits), and \<^verbatim>\<open>Z\<close> or a numeric zone offset.
\<close>

definition num_field :: "nat \<Rightarrow> string \<Rightarrow> (int \<times> string) option" where
  "num_field w s = (if length s \<ge> w \<and> list_all is_digit (take w s) then Some (dec_val (take w s), drop w s) else None)"

definition lit :: "char \<Rightarrow> string \<Rightarrow> string option" where
  "lit c s = (case s of [] \<Rightarrow> None | x # xs \<Rightarrow> if x = c then Some xs else None)"

text \<open>The fraction in nanoseconds: digits after the ninth are dropped.\<close>

definition frac_field :: "string \<Rightarrow> int \<times> string" where
  "frac_field s = (case s of
     c # d # ds \<Rightarrow> if (c = CHR ''.'' \<or> c = CHR '','') \<and> is_digit d
       then (let ns = takeWhile is_digit (d # ds) in
             (dec_val (take 9 (ns @ replicate 9 (CHR ''0''))), drop (length ns) (d # ds)))
       else (0, s)
   | _ \<Rightarrow> (0, s))"

text \<open>A sequence of numbers of fixed width and literal characters; the numbers, and what is left.\<close>

fun fields :: "(nat + char) list \<Rightarrow> string \<Rightarrow> (int list \<times> string) option" where
  "fields [] s = Some ([], s)"
| "fields (Inl w # fs) s = Option.bind (num_field w s) (\<lambda>(n, r).
     map_option (\<lambda>(ns, r'). (n # ns, r')) (fields fs r))"
| "fields (Inr c # fs) s = Option.bind (lit c s) (fields fs)"

definition zone_field :: "string \<Rightarrow> int option" where
  "zone_field s =
     (if s = ''Z'' then Some 0
      else if s = [] \<or> (hd s \<noteq> CHR ''+'' \<and> hd s \<noteq> CHR ''-'') then None
      else Option.bind (fields [Inl 2, Inr (CHR '':''), Inl 2] (tl s)) (\<lambda>(v, r).
        if r = [] \<and> v ! 0 \<le> 24 \<and> v ! 1 \<le> 60
        then Some ((if hd s = CHR ''+'' then 1 else - 1) * (v ! 0 * hour + v ! 1 * minute)) else None))"

definition rfc3339_layout :: "(nat + char) list" where
  "rfc3339_layout = [Inl 4, Inr (CHR ''-''), Inl 2, Inr (CHR ''-''), Inl 2, Inr (CHR ''T''),
     Inl 2, Inr (CHR '':''), Inl 2, Inr (CHR '':''), Inl 2]"

definition ParseRFC3339 :: "string \<Rightarrow> time option" where
  "ParseRFC3339 s =
     Option.bind (fields rfc3339_layout s) (\<lambda>(v, r).
       let y = v ! 0; mo = v ! 1; d = v ! 2; h = v ! 3; mi = v ! 4; se = v ! 5 in
       case frac_field r of (ns, z) \<Rightarrow>
       Option.bind (zone_field z) (\<lambda>off.
         if 1 \<le> mo \<and> mo \<le> 12 \<and> 1 \<le> d \<and> d \<le> days_in_month y mo \<and> h < 24 \<and> mi < 60 \<and> se < 60
         then Some (date_days y mo d * day_ns + h * hour + mi * minute + se * second + ns - off)
         else None))"

section \<open>Printing and reading back\<close>

lemma Itoa_length: "n < 10 ^ w \<Longrightarrow> w > 0 \<Longrightarrow> length (Itoa n) \<le> w"
proof (induction n arbitrary: w rule: Itoa.induct)
  case (1 n)
  show ?case
  proof (cases "n < 10")
    case True
    then show ?thesis using 1 by (simp add: Itoa.simps [of n])
  next
    case False
    then obtain v where v: "w = Suc v" using 1 by (cases w) auto
    with False 1 have "v > 0" by (cases v) auto
    moreover have "n div 10 < 10 ^ v" using 1 v by (simp add: div_less_iff_less_mult mult.commute)
    ultimately show ?thesis using 1 False v by (simp add: Itoa.simps [of n])
  qed
qed

lemma dec_val_zeros: "dec_val (replicate k (CHR ''0'') @ s) = dec_val s"
proof (induction k)
  case (Suc k)
  then show ?case by (simp add: dec_val_def digit_val_def)
qed simp

lemma num_field_pad:
  assumes "0 \<le> n" "n < 10 ^ w" "w > 0"
  shows "num_field w (pad w n @ r) = Some (n, r)"
proof -
  have "length (Itoa (nat n)) \<le> w" using assms by (intro Itoa_length) (simp_all add: nat_less_iff)
  then have len: "length (pad w n) = w" by (simp add: pad_def Let_def)
  moreover have "list_all is_digit (pad w n)"
    using Itoa_digits [of "nat n"] by (simp add: pad_def Let_def list_all_iff) (auto simp: is_digit_def)
  moreover have "dec_val (pad w n) = n" using assms by (simp add: pad_def Let_def dec_val_zeros)
  ultimately show ?thesis by (simp add: num_field_def)
qed

text \<open>A cycle of four equal parts and one day: the part a day falls in, and its day in that part.\<close>

lemma four_parts:
  fixes r b :: int
  assumes "0 \<le> r" "r \<le> 4 * b" "0 < b"
  defines "n \<equiv> min 3 (r div b)"
  shows "0 \<le> n" "n \<le> 3" "0 \<le> r - b * n" "r - b * n < b + (if n = 3 then 1 else 0)"
proof -
  have q: "r = b * (r div b) + r mod b" "0 \<le> r mod b" "r mod b < b" "0 \<le> r div b"
    using assms by (simp_all add: pos_imp_zdiv_nonneg_iff)
  show "0 \<le> n" "n \<le> 3" using q(4) by (simp_all add: n_def)
  show "0 \<le> r - b * n" "r - b * n < b + (if n = 3 then 1 else 0)"
  proof (atomize(full), cases "r div b \<le> 3")
    case True
    then have "n = r div b" by (simp add: n_def)
    then show "0 \<le> r - b * n \<and> r - b * n < b + (if n = 3 then 1 else 0)"
      using q by (simp add: minus_mult_div_eq_mod)
  next
    case False
    then have "n = 3" by (simp add: n_def)
    moreover have "b * 4 \<le> b * (r div b)" using False assms(3) by (intro mult_left_mono) auto
    then have "b * 4 \<le> r" using q(1,2) by linarith
    ultimately show "0 \<le> r - b * n \<and> r - b * n < b + (if n = 3 then 1 else 0)"
      using assms(2,3) by simp
  qed
qed

lemma year_day_spec:
  assumes "year_day d = (y, yd)"
  shows "d = days_before_year y + yd" "0 \<le> yd" "yd < 365 + (if is_leap y then 1 else 0)"
proof -
  define n400 r where "n400 = d div 146097" "r = d mod 146097"
  define n100 where "n100 = min 3 (r div 36524)"
  define r1 where "r1 = r - 36524 * n100"
  define n4 r2 where "n4 = r1 div 1461" "r2 = r1 mod 1461"
  define n1 where "n1 = min 3 (r2 div 365)"
  have y: "y = 400 * n400 + 100 * n100 + 4 * n4 + n1 + 1" and yd: "yd = r2 - 365 * n1"
    using assms by (simp_all only: year_day_def Let_def n400_r_def n100_def r1_def n4_r2_def n1_def prod.inject)
  have d: "d = 146097 * n400 + r" "0 \<le> r" "r \<le> 4 * 36524" by (simp_all add: n400_r_def)
  have r: "r = 36524 * n100 + r1" "0 \<le> n100" "n100 \<le> 3" "0 \<le> r1" "r1 < 36524 + (if n100 = 3 then 1 else 0)"
    using four_parts [OF d(2,3)] by (simp_all add: n100_def r1_def)
  have "r1 \<le> 36524" using r(5) by (simp split: if_splits)
  then have r1: "r1 = 1461 * n4 + r2" "0 \<le> n4" "n4 \<le> 24" "0 \<le> r2" "r2 \<le> 4 * 365"
    using r(4) by (simp_all add: n4_r2_def pos_imp_zdiv_nonneg_iff)
  have r2: "0 \<le> n1" "n1 \<le> 3" "0 \<le> yd" "yd < 365 + (if n1 = 3 then 1 else 0)"
    using four_parts [OF r1(4,5)] by (simp_all add: n1_def yd)
  have q: "(y - 1) div 400 = n400" "(y - 1) div 100 = 4 * n400 + n100" "(y - 1) div 4 = 100 * n400 + 25 * n100 + n4"
    using y r r1 r2 by (intro int_div_pos_eq [of _ 400 n400 "100 * n100 + 4 * n4 + n1"]
      int_div_pos_eq [of _ 100 "4 * n400 + n100" "4 * n4 + n1"]
      int_div_pos_eq [of _ 4 "100 * n400 + 25 * n100 + n4" n1]; simp)+
  show "d = days_before_year y + yd"
    using d r r1 q y yd by (simp add: days_before_year_def)
  show "0 \<le> yd" using r2 by simp
  show "yd < 365 + (if is_leap y then 1 else 0)"
  proof (cases "yd = 365")
    case True
    with r2 have n1: "n1 = 3" by (auto split: if_splits)
    have "y = 4 * (100 * n400 + 25 * n100 + n4 + 1)" using y n1 by simp
    then have "y mod 4 = 0" by simp
    moreover have "y mod 100 = 0 \<Longrightarrow> y mod 400 = 0"
    proof -
      assume "y mod 100 = 0"
      moreover have "y mod 100 = 4 * n4 + 4" if "n4 < 24"
        using y n1 r1 that by (intro int_mod_pos_eq [of _ 100 "4 * n400 + n100"]) auto
      ultimately have "n4 = 24" using r1 by fastforce
      with True r1 yd n1 r(5) have "n100 = 3" by (auto split: if_splits)
      with \<open>n4 = 24\<close> n1 y have "y = 400 * (n400 + 1)" by simp
      then show ?thesis by simp
    qed
    ultimately have "is_leap y" by (auto simp: is_leap_def)
    with True show ?thesis by simp
  next
    case False
    then show ?thesis using r2 by (auto split: if_splits)
  qed
qed

lemma month_of_spec:
  assumes "0 \<le> yd" "yd < 365 + (if is_leap y then 1 else 0)"
  shows "1 \<le> month_of y yd \<and> month_of y yd \<le> 12
    \<and> days_before_month y (month_of y yd) \<le> yd \<and> yd < days_before_month y (month_of y yd + 1)"
proof (cases "find (\<lambda>m. yd < days_before_month y (m + 1)) (map int [1..<12])")
  case None
  then have "\<not> yd < days_before_month y (int 11 + 1)"
    by (auto simp: find_None_iff simp del: of_nat_numeral dest!: bspec [of _ _ 11])
  moreover have "days_before_month y 13 = 365 + (if is_leap y then 1 else 0)"
    by (simp add: days_before_month_def month_starts_def)
  ultimately show ?thesis using None assms(2) by (simp add: month_of_def)
next
  case (Some m)
  then obtain i where i: "i < 11" "m = int i + 1" "yd < days_before_month y (m + 1)"
      "\<forall>j < i. \<not> yd < days_before_month y (int j + 2)"
    by (auto simp: find_Some_iff algebra_simps)
  have "days_before_month y m \<le> yd"
  proof (cases i)
    case 0
    with i assms(1) show ?thesis by (simp add: days_before_month_def month_starts_def)
  next
    case (Suc j)
    with i show ?thesis by (auto simp: not_less add.commute)
  qed
  with Some i show ?thesis by (simp add: month_of_def)
qed

lemma year_day_pos: "0 \<le> d \<Longrightarrow> year_day d = (y, yd) \<Longrightarrow> 1 \<le> y"
proof -
  assume d: "0 \<le> d" and y: "year_day d = (y, yd)"
  let ?r = "d mod 146097"
  let ?r1 = "?r - 36524 * min 3 (?r div 36524)"
  have "?r div 36524 * 36524 \<le> ?r" using div_mult_mod_eq [of ?r 36524] pos_mod_sign [of 36524 ?r] by linarith
  then have "0 \<le> ?r1" by linarith
  then have "0 \<le> ?r1 div 1461" by (simp add: pos_imp_zdiv_nonneg_iff)
  moreover have "0 \<le> min 3 (?r div 36524)" "0 \<le> min 3 (?r1 mod 1461 div 365)" "0 \<le> d div 146097"
    using d by (simp_all add: pos_imp_zdiv_nonneg_iff)
  moreover have "y = 400 * (d div 146097) + 100 * min 3 (?r div 36524) + 4 * (?r1 div 1461)
      + min 3 (?r1 mod 1461 div 365) + 1"
    using y by (simp only: year_day_def Let_def prod.inject)
  moreover have "1 \<le> 400 * a + 100 * b + 4 * c + e + 1" if "0 \<le> a" "0 \<le> b" "0 \<le> c" "0 \<le> e" for a b c e :: int
    using that by linarith
  ultimately show "1 \<le> y" by blast
qed

lemma days_before_year_large:
  assumes "10000 \<le> y" shows "3652059 \<le> days_before_year y"
proof -
  have "2499 \<le> (y - 1) div 4" "24 \<le> (y - 1) div 400"
    using zdiv_mono1 [of 9999 "y - 1" 4] zdiv_mono1 [of 9999 "y - 1" 400] assms by simp_all
  moreover have "(y - 1) div 100 \<le> 365 * (y - 10000) + 99"
    using assms by simp
  ultimately show ?thesis by (simp add: days_before_year_def)
qed

lemma year_range:
  assumes "0 \<le> d" "d < 3652059" "year_day d = (y, yd)"
  shows "1 \<le> y \<and> y \<le> 9999"
  using year_day_pos [OF assms(1,3)] year_day_spec(1,2) [OF assms(3)] days_before_year_large [of y] assms(2)
  by linarith

lemma fields_layout:
  assumes "0 \<le> y" "y < 10000" "0 \<le> mo" "mo < 100" "0 \<le> d" "d < 100" "0 \<le> h" "h < 100"
    "0 \<le> mi" "mi < 100" "0 \<le> se" "se < 100"
  shows "fields rfc3339_layout (pad 4 y @ ''-'' @ pad 2 mo @ ''-'' @ pad 2 d @ ''T''
         @ pad 2 h @ '':'' @ pad 2 mi @ '':'' @ pad 2 se @ r) = Some ([y, mo, d, h, mi, se], r)"
  using assms by (simp add: rfc3339_layout_def num_field_pad lit_def)

lemma days_in_month_le: "1 \<le> m \<Longrightarrow> m \<le> 12 \<Longrightarrow> days_in_month y m \<le> 31"
proof -
  assume "1 \<le> m" "m \<le> 12"
  then have "m = 1 \<or> m = 2 \<or> m = 3 \<or> m = 4 \<or> m = 5 \<or> m = 6 \<or> m = 7 \<or> m = 8 \<or> m = 9 \<or> m = 10
      \<or> m = 11 \<or> m = 12" by presburger
  then show ?thesis by (auto simp: days_in_month_def days_before_month_def month_starts_def)
qed

lemma sec_split: "(s :: int) = s div 3600 * 3600 + s div 60 mod 60 * 60 + s mod 60"
proof -
  have "s = s div 60 * 60 + s mod 60" by simp
  also have "s div 60 = s div 60 div 60 * 60 + s div 60 mod 60" by (rule div_mult_mod_eq [symmetric])
  also have "s div 60 div 60 = s div 3600" using zdiv_zmult2_eq [of 60 s 60] by simp
  finally show ?thesis by simp
qed

lemma time_split:
  "t - t mod second = t div day_ns * day_ns + (t mod day_ns div second) div 3600 * hour
     + (t mod day_ns div second) div 60 mod 60 * minute + (t mod day_ns div second) mod 60 * second"
proof -
  let ?s = "t mod day_ns div second"
  have "t div day_ns * day_ns = t - t mod day_ns" by (simp add: minus_mod_eq_div_mult)
  moreover have "t mod day_ns = ?s * second + t mod second"
    using mod_mod_cancel [of second day_ns t] div_mult_mod_eq [of "t mod day_ns" second]
    by (simp add: day_ns_def duration_defs)
  ultimately have "t - t mod second = t div day_ns * day_ns + ?s * second" by linarith
  also note sec_split [of ?s]
  finally have "t - t mod second = t div day_ns * day_ns
      + (?s div 3600 * 3600 + ?s div 60 mod 60 * 60 + ?s mod 60) * second" .
  then show ?thesis by (simp add: hour_def minute_def distrib_right)
qed

text \<open>Reading a printed time gives that time, cut to the second, for every year up to 9999.\<close>

lemma Parse_Format:
  assumes "0 \<le> t" "t < 3652059 * day_ns"
  shows "ParseRFC3339 (FormatRFC3339 t) = Some (t - t mod second)"
proof -
  define d where "d = t div day_ns"
  define s where "s = (t mod day_ns) div second"
  obtain y yd where yd: "year_day d = (y, yd)" by fastforce
  define m where "m = month_of y yd"
  define dd where "dd = yd - days_before_month y m + 1"
  have dr: "0 \<le> d" "d < 3652059"
    using assms by (auto simp: d_def day_ns_def duration_defs pos_imp_zdiv_nonneg_iff div_less_iff_less_mult)
  note y = year_range [OF dr yd] and yds = year_day_spec [OF yd]
  note ms = month_of_spec [OF yds(2,3), folded m_def]
  have dd: "1 \<le> dd" "dd \<le> days_in_month y m" "dd < 100"
    using ms days_in_month_le [of m y] by (auto simp: dd_def days_in_month_def)
  have s: "0 \<le> s" "s < 86400"
    by (auto simp: s_def day_ns_def duration_defs)
  have F: "FormatRFC3339 t = pad 4 y @ ''-'' @ pad 2 m @ ''-'' @ pad 2 dd @ ''T''
         @ pad 2 (s div 3600) @ '':'' @ pad 2 (s div 60 mod 60) @ '':'' @ pad 2 (s mod 60) @ ''Z''"
    by (simp add: FormatRFC3339_def Let_def d_def [symmetric] s_def [symmetric] yd m_def dd_def)
  have "s div 3600 < 24" using s by simp
  have "date_days y m dd = d" using yds by (simp add: date_days_def dd_def)
  have "fields rfc3339_layout (FormatRFC3339 t) = Some ([y, m, dd, s div 3600, s div 60 mod 60, s mod 60], ''Z'')"
    unfolding F using y ms dd s by (intro fields_layout) (auto intro: order.strict_trans)
  moreover have "t - t mod second = d * day_ns + s div 3600 * hour + s div 60 mod 60 * minute + s mod 60 * second"
    unfolding d_def s_def by (rule time_split)
  ultimately show ?thesis
    using y ms dd s \<open>date_days y m dd = d\<close>
    by (simp add: ParseRFC3339_def frac_field_def zone_field_def Let_def)
qed

lemma pad_digits: "c \<in> set (pad w n) \<Longrightarrow> is_digit c"
  using Itoa_digits [of "nat n"] by (auto simp: pad_def Let_def list_all_iff is_digit_def)

lemma pad_no_letter: "CHR ''Z'' \<notin> set (pad w n)" "CHR ''/'' \<notin> set (pad w n)"
  using pad_digits [of "CHR ''Z''" w n] pad_digits [of "CHR ''/''" w n]
  by (auto simp: is_digit_def less_eq_char_def)

lemma FormatRFC3339_shape: "\<exists>xs. FormatRFC3339 t = xs @ ''Z'' \<and> CHR ''Z'' \<notin> set xs \<and> CHR ''/'' \<notin> set xs"
  unfolding FormatRFC3339_def Let_def append_assoc [symmetric]
  by (rule exI, rule conjI, rule refl) (simp add: pad_no_letter)

end
