(* ===== verification/Backup_Store.thy ===== *)
theory Backup_Store
  imports Go_Monad Go_Time Api_Types
begin

text \<open>
  The backup store (\<^verbatim>\<open>pkg/backup\<close>) on the virtual file system of kops (\<^verbatim>\<open>vfs.Path\<close>), which is the
  parameter \<open>vfs_env\<close>: a path is a string, joined and split by the functions given there; the JSON
  encoding of \<^verbatim>\<open>BackupInfo\<close> and the local files are part of it.
\<close>

section \<open>The file systems\<close>

record 'w vfs_env =
  vf_rt :: "'w runtime"
  vf_BuildVfsPath :: "string \<Rightarrow> go_error + string"
  vf_Join :: "string \<Rightarrow> string list \<Rightarrow> string"
  vf_Base :: "string \<Rightarrow> string"
  vf_ReadTree :: "string \<Rightarrow> 'w \<Rightarrow> (go_error + string list) \<times> 'w"
  vf_ReadFile :: "string \<Rightarrow> 'w \<Rightarrow> (go_error + string) \<times> 'w"
  vf_WriteFile :: "string \<Rightarrow> string \<Rightarrow> 'w \<Rightarrow> go_error option \<times> 'w"
  vf_Remove :: "string \<Rightarrow> 'w \<Rightarrow> go_error option \<times> 'w"
  vf_RemoveAllVersions :: "string \<Rightarrow> 'w \<Rightarrow> go_error option \<times> 'w"
  vf_WriteTo :: "string \<Rightarrow> string \<Rightarrow> 'w \<Rightarrow> go_error option \<times> 'w"
  vf_InfoToJson :: "BackupInfo \<Rightarrow> go_error + string"
  vf_InfoFromJson :: "string \<Rightarrow> go_error + BackupInfo"
  os_ReadFile :: "string \<Rightarrow> 'w \<Rightarrow> (go_error + string) \<times> 'w"
  os_MkdirAll :: "string \<Rightarrow> 'w \<Rightarrow> go_error option \<times> 'w"
  os_CreateTemp :: "string \<Rightarrow> 'w \<Rightarrow> (go_error + string) \<times> 'w"
  os_CloseTemp :: "string \<Rightarrow> 'w \<Rightarrow> go_error option \<times> 'w"
  os_Rename :: "string \<Rightarrow> string \<Rightarrow> 'w \<Rightarrow> go_error option \<times> 'w"
  os_Remove :: "string \<Rightarrow> 'w \<Rightarrow> go_error option \<times> 'w"

section \<open>The store\<close>

definition MetaFilename :: string where "MetaFilename = ''_etcd_backup.meta''"
definition DataFilename :: string where "DataFilename = ''etcd.backup.gz''"

text \<open>A \<^verbatim>\<open>vfsStore\<close> is its base path, which is also its \<^verbatim>\<open>Spec()\<close>.\<close>

record vfsStore =
  st_spec :: string
  st_backupsBase :: string

definition NewVFSStore :: "string \<Rightarrow> vfsStore" where
  "NewVFSStore p = \<lparr>st_spec = p, st_backupsBase = p\<rparr>"

definition NewStore :: "'w vfs_env \<Rightarrow> string \<Rightarrow> go_error + vfsStore" where
  "NewStore e storage = (case vf_BuildVfsPath e storage of Inl err \<Rightarrow> Inl err | Inr p \<Rightarrow> Inr (NewVFSStore p))"

definition validateBackupName :: "string \<Rightarrow> go_error option" where
  "validateBackupName name =
     (if name = [] then Some (Errorf ''backup name must not be empty'')
      else if name \<noteq> path_Base name then Some (Errorf ''backup name contains invalid path characters'')
      else if name = ''.'' \<or> name = ''..'' then Some (Errorf ''backup name must not be a dot name'')
      else None)"

definition backup_name :: "time \<Rightarrow> string \<Rightarrow> string" where
  "backup_name now sequence = FormatRFC3339 now @ ''-'' @ sequence"

definition copy_data :: "'w vfs_env \<Rightarrow> vfsStore \<Rightarrow> string \<Rightarrow> string \<Rightarrow> (('st, 'w, 'ev) sys, go_error option) go" where
  "copy_data e st srcFile name =
     (if srcFile = [] then ret None
      else bind (ask (os_ReadFile e srcFile)) (\<lambda>r. case r of
        Inl err \<Rightarrow> ret (Some (Wrap ''error opening file'' err))
      | Inr content \<Rightarrow>
        bind (ask (vf_WriteFile e (vf_Join e (vf_Join e (st_backupsBase st) [name]) [DataFilename]) content))
          (\<lambda>r. ret (case r of Some err \<Rightarrow> Some (Wrap ''error copying file'' err) | None \<Rightarrow> None))))"

definition fill_Timestamp :: "time \<Rightarrow> BackupInfo \<Rightarrow> BackupInfo" where
  "fill_Timestamp now info = (if bi_Timestamp info = 0 then info\<lparr>bi_Timestamp := time_Unix now\<rparr> else info)"

definition AddBackup :: "'w vfs_env \<Rightarrow> vfsStore \<Rightarrow> string \<Rightarrow> string \<Rightarrow> BackupInfo
    \<Rightarrow> (('st, 'w, 'ev) sys, go_error + string) go" where
  "AddBackup e st srcFile sequence info0 =
     bind (time_now (vf_rt e)) (\<lambda>now.
     let info = fill_Timestamp now info0;
         name = backup_name now sequence
     in bind (copy_data e st srcFile name) (\<lambda>r. case r of
          Some err \<Rightarrow> ret (Inl err)
        | None \<Rightarrow> (case vf_InfoToJson e info of
            Inl err \<Rightarrow> ret (Inl (Wrap ''error marshalling state'' err))
          | Inr d \<Rightarrow>
            bind (ask (vf_WriteFile e (vf_Join e (st_backupsBase st) [name, MetaFilename]) d)) (\<lambda>r. ret (case r of
              Some err \<Rightarrow> Inl (Wrap ''error writing file'' err) | None \<Rightarrow> Inr name)))))"

definition backup_of_path :: "'w vfs_env \<Rightarrow> string \<Rightarrow> string option" where
  "backup_of_path e f =
     (if vf_Base e f \<noteq> MetaFilename then None
      else let tokens = split_on (CHR ''/'') f
           in if length tokens < 2 then None else Some (tokens ! (length tokens - 2)))"

definition ListBackups :: "'w vfs_env \<Rightarrow> vfsStore \<Rightarrow> (('st, 'w, 'ev) sys, go_error + string list) go" where
  "ListBackups e st =
     bind (ask (vf_ReadTree e (st_backupsBase st))) (\<lambda>r. ret (case r of
       Inl err \<Rightarrow> if err = NotExist then Inr [] else Inl (Wrap ''error reading'' err)
     | Inr files \<Rightarrow> Inr (sort (List.map_filter (backup_of_path e) files))))"

definition RemoveBackup :: "'w vfs_env \<Rightarrow> vfsStore \<Rightarrow> string \<Rightarrow> (('st, 'w, 'ev) sys, go_error option) go" where
  "RemoveBackup e st name =
     (case validateBackupName name of
        Some err \<Rightarrow> ret (Some err)
      | None \<Rightarrow>
        bind (ask (vf_ReadTree e (vf_Join e (st_backupsBase st) [name]))) (\<lambda>r. case r of
          Inl err \<Rightarrow> ret (Some (Wrap ''error deleting - cannot read'' err))
        | Inr files \<Rightarrow>
          bind (for_each files () (\<lambda>f _. bind (ask (vf_RemoveAllVersions e f)) (\<lambda>r. ret (case r of
            Some err \<Rightarrow> Stop (Wrap ''error deleting backups'' err) | None \<Rightarrow> Next ())))) (\<lambda>r.
          ret (case r of Stop err \<Rightarrow> Some err | Next _ \<Rightarrow> None))))"

definition LoadInfo :: "'w vfs_env \<Rightarrow> vfsStore \<Rightarrow> string \<Rightarrow> (('st, 'w, 'ev) sys, go_error + BackupInfo) go" where
  "LoadInfo e st name =
     (case validateBackupName name of
        Some err \<Rightarrow> ret (Inl err)
      | None \<Rightarrow>
        bind (ask (vf_ReadFile e (vf_Join e (st_backupsBase st) [name, MetaFilename]))) (\<lambda>r. ret (case r of
          Inl err \<Rightarrow> Inl (Wrap ''error reading file'' err)
        | Inr d \<Rightarrow> (case vf_InfoFromJson e d of
            Inl err \<Rightarrow> Inl (Wrap ''error parsing file'' err) | Inr info \<Rightarrow> Inr info))))"

text \<open>
  \<^verbatim>\<open>DownloadBackup\<close>: through a temporary file in the directory of the destination, which is closed and
  renamed; the deferred function closes (if it is still open) and removes it otherwise.
\<close>

definition drop_temp :: "'w vfs_env \<Rightarrow> bool \<Rightarrow> string \<Rightarrow> go_error \<Rightarrow> (('st, 'w, 'ev) sys, go_error option) go" where
  "drop_temp e still_open tempfile err =
     bind (if still_open then ask (os_CloseTemp e tempfile) else ret None) (\<lambda>_.
     bind (ask (os_Remove e tempfile)) (\<lambda>_. ret (Some err)))"

definition DownloadBackup :: "'w vfs_env \<Rightarrow> vfsStore \<Rightarrow> string \<Rightarrow> string
    \<Rightarrow> (('st, 'w, 'ev) sys, go_error option) go" where
  "DownloadBackup e st name destFile =
     (case validateBackupName name of
        Some err \<Rightarrow> ret (Some err)
      | None \<Rightarrow>
        bind (ask (os_MkdirAll e (filepath_Dir destFile))) (\<lambda>r. case r of
          Some err \<Rightarrow> ret (Some (Wrap ''error creating directories'' err))
        | None \<Rightarrow>
          bind (ask (os_CreateTemp e (filepath_Dir destFile))) (\<lambda>r. case r of
            Inl err \<Rightarrow> ret (Some (Wrap ''error creating temp file'' err))
          | Inr tempfile \<Rightarrow>
            bind (ask (vf_WriteTo e (vf_Join e (vf_Join e (st_backupsBase st) [name]) [DataFilename]) tempfile)) (\<lambda>r. case r of
              Some err \<Rightarrow> drop_temp e True tempfile err
            | None \<Rightarrow>
              bind (ask (os_CloseTemp e tempfile)) (\<lambda>r. case r of
                Some err \<Rightarrow> drop_temp e False tempfile err
              | None \<Rightarrow>
                bind (ask (os_Rename e tempfile destFile)) (\<lambda>r. case r of
                  Some err \<Rightarrow> drop_temp e False tempfile (Wrap ''error during file write: rename failed'' err)
                | None \<Rightarrow> ret None))))))"

section \<open>Names\<close>

lemma path_Base_plain: "name \<noteq> [] \<Longrightarrow> CHR ''/'' \<notin> set name \<Longrightarrow> path_Base name = name"
proof -
  assume n: "name \<noteq> []" "CHR ''/'' \<notin> set name"
  then have "dropWhile (\<lambda>c. c = CHR ''/'') (rev name) = rev name"
    by (intro dropWhile_id) (metis hd_in_set set_rev rev_is_Nil_conv)
  then show ?thesis using n by (simp add: path_Base_def Let_def split_on_no_sep_id)
qed

lemma path_Base_shape: "path_Base name = ''/'' \<or> CHR ''/'' \<notin> set (path_Base name)"
proof -
  have "CHR ''/'' \<notin> set (last (split_on (CHR ''/'') q))" for q
    using split_on_no_sep [of "last (split_on (CHR ''/'') q)" "CHR ''/''" q] by simp
  then show ?thesis by (simp add: path_Base_def Let_def)
qed

text \<open>
  The names the store works on: a name is accepted exactly when it is one plain path component
  other than the two dot names, or the single slash, which \<^verbatim>\<open>path.Base\<close> maps to itself.
\<close>

theorem validateBackupName_accepts:
  "validateBackupName name = None \<longleftrightarrow>
     name = ''/'' \<or> (name \<noteq> [] \<and> CHR ''/'' \<notin> set name \<and> name \<noteq> ''.'' \<and> name \<noteq> ''..'')"
proof -
  have "path_Base ''/'' = ''/''" by (simp add: path_Base_def)
  then show ?thesis
    using path_Base_plain [of name] path_Base_shape [of name]
    unfolding validateBackupName_def by (cases "CHR ''/'' \<in> set name") (auto split: if_splits)
qed

section \<open>Backups read back\<close>

text \<open>
  What the store relies on in a virtual file system: a file that was written reads back and is
  listed under its directory, joining plain names appends them as components, and the JSON
  encoding can be decoded.
\<close>

definition plain_name :: "string \<Rightarrow> bool" where
  "plain_name n \<longleftrightarrow> n \<noteq> [] \<and> CHR ''/'' \<notin> set n \<and> n \<noteq> ''.'' \<and> n \<noteq> ''..''"

definition vfs_ok :: "'w vfs_env \<Rightarrow> bool" where
  "vfs_ok e \<longleftrightarrow>
     (\<forall>p d w. fst (vf_WriteFile e p d w) = None \<longrightarrow> fst (vf_ReadFile e p (snd (vf_WriteFile e p d w))) = Inr d)
   \<and> (\<forall>base n f d w. plain_name n \<and> plain_name f \<and> fst (vf_WriteFile e (vf_Join e base [n, f]) d w) = None \<longrightarrow>
        (\<exists>fs. fst (vf_ReadTree e base (snd (vf_WriteFile e (vf_Join e base [n, f]) d w))) = Inr fs
           \<and> vf_Join e base [n, f] \<in> set fs))
   \<and> (\<forall>base n f. plain_name n \<and> plain_name f \<longrightarrow> vf_Base e (vf_Join e base [n, f]) = f
        \<and> (\<exists>pre. split_on (CHR ''/'') (vf_Join e base [n, f]) = pre @ [n, f]))
   \<and> (\<forall>i d. vf_InfoToJson e i = Inr d \<longrightarrow> vf_InfoFromJson e d = Inr i)"

lemma vfs_read: "vfs_ok e \<Longrightarrow> vf_WriteFile e p d w = (None, w') \<Longrightarrow> fst (vf_ReadFile e p w') = Inr d"
  unfolding vfs_ok_def by (metis fst_conv snd_conv)

lemma vfs_list:
  assumes "vfs_ok e" "plain_name n" "plain_name f" "vf_WriteFile e (vf_Join e base [n, f]) d w = (None, w')"
  shows "\<exists>fs. fst (vf_ReadTree e base w') = Inr fs \<and> vf_Join e base [n, f] \<in> set fs"
  using assms unfolding vfs_ok_def by (metis fst_conv snd_conv)

lemma vfs_backup_of_path:
  assumes "vfs_ok e" "plain_name n"
  shows "backup_of_path e (vf_Join e base [n, MetaFilename]) = Some n"
proof -
  have "plain_name MetaFilename" by (simp add: plain_name_def MetaFilename_def)
  with assms obtain pre where "vf_Base e (vf_Join e base [n, MetaFilename]) = MetaFilename"
      "split_on (CHR ''/'') (vf_Join e base [n, MetaFilename]) = pre @ [n, MetaFilename]"
    unfolding vfs_ok_def by blast
  then show ?thesis by (simp add: backup_of_path_def nth_append)
qed

lemma backup_name_plain: "CHR ''/'' \<notin> set sequence \<Longrightarrow> plain_name (backup_name now sequence)"
proof -
  assume s: "CHR ''/'' \<notin> set sequence"
  obtain xs where xs: "FormatRFC3339 now = xs @ ''Z''" "CHR ''/'' \<notin> set xs"
    using FormatRFC3339_shape by blast
  have "CHR ''Z'' \<in> set (backup_name now sequence)" using xs by (simp add: backup_name_def)
  moreover have "CHR ''/'' \<notin> set (backup_name now sequence)" using s xs by (simp add: backup_name_def)
  ultimately show ?thesis by (auto simp: plain_name_def)
qed

text \<open>What a successful \<^verbatim>\<open>AddBackup\<close> did: its last step wrote the meta file of the backup it names.\<close>

lemma AddBackup_success:
  assumes "AddBackup e st srcFile sequence info s = (Ret (Inr name), s')"
  shows "\<exists>now d w. name = backup_name now sequence
    \<and> vf_InfoToJson e (fill_Timestamp now info) = Inr d
    \<and> vf_WriteFile e (vf_Join e (st_backupsBase st) [name, MetaFilename]) d w = (None, world s')"
  using assms unfolding AddBackup_def Let_def bind_apply ret_apply
  by (auto simp: ask_def bind_apply ret_apply split: prod.splits outcome.splits option.splits sum.splits) blast

text \<open>
  C26. A backup that was added can be listed and its description read back: after \<^verbatim>\<open>AddBackup\<close> returned a
  name, \<^verbatim>\<open>ListBackups\<close> contains it and \<^verbatim>\<open>LoadInfo\<close> returns the description, with the time stamp filled in
  when it had none.
\<close>

theorem AddBackup_read_back:
  assumes "vfs_ok e" and "CHR ''/'' \<notin> set sequence"
    and "AddBackup e st srcFile sequence info s = (Ret (Inr name), s')"
  shows "\<exists>info'. fst (LoadInfo e st name s') = Ret (Inr info')
    \<and> (bi_Timestamp info \<noteq> 0 \<longrightarrow> info' = info)
    \<and> bi_EtcdVersion info' = bi_EtcdVersion info \<and> bi_ClusterSpec info' = bi_ClusterSpec info
    \<and> (\<exists>names. fst (ListBackups e st s') = Ret (Inr names) \<and> name \<in> set names)"
proof -
  obtain now d w where a: "name = backup_name now sequence"
      "vf_InfoToJson e (fill_Timestamp now info) = Inr d"
      "vf_WriteFile e (vf_Join e (st_backupsBase st) [name, MetaFilename]) d w = (None, world s')"
    using AddBackup_success [OF assms(3)] by blast
  have plain: "plain_name name" "plain_name MetaFilename"
    using backup_name_plain [OF assms(2)] a(1) by (simp_all add: plain_name_def MetaFilename_def)
  then have valid: "validateBackupName name = None"
    by (auto simp: validateBackupName_def plain_name_def path_Base_plain)
  have "vf_InfoFromJson e d = Inr (fill_Timestamp now info)" using assms(1) a(2) unfolding vfs_ok_def by blast
  then have load: "fst (LoadInfo e st name s') = Ret (Inr (fill_Timestamp now info))"
    using vfs_read [OF assms(1) a(3)]
    by (auto simp: LoadInfo_def valid bind_apply ask_def ret_apply split: prod.splits)
  obtain fs where "fst (vf_ReadTree e (st_backupsBase st) (world s')) = Inr fs"
      "vf_Join e (st_backupsBase st) [name, MetaFilename] \<in> set fs"
    using vfs_list [OF assms(1) plain a(3)] by blast
  moreover have "name \<in> set (List.map_filter (backup_of_path e) fs)"
    using \<open>_ \<in> set fs\<close> vfs_backup_of_path [OF assms(1) plain(1)] by (force simp: List.map_filter_def)
  ultimately have "\<exists>names. fst (ListBackups e st s') = Ret (Inr names) \<and> name \<in> set names"
    by (auto simp: ListBackups_def bind_apply ask_def ret_apply split: prod.splits)
  with load show ?thesis by (auto simp: fill_Timestamp_def)
qed

text \<open>A file system in memory: the world is the files with their contents. It keeps the laws above.\<close>

definition info_json :: "BackupInfo \<Rightarrow> go_error + string" where
  "info_json i = (if bi_Timestamp i < 0 \<or> bi_ClusterSpec i \<noteq> None then Inl (Errorf ''not encoded here'')
     else Inr (Itoa (nat (bi_Timestamp i)) @ '','' @ bi_EtcdVersion i))"

definition info_of_json :: "string \<Rightarrow> go_error + BackupInfo" where
  "info_of_json d = Inr \<lparr>bi_EtcdVersion = drop 1 (dropWhile is_digit d),
     bi_Timestamp = dec_val (takeWhile is_digit d), bi_ClusterSpec = None\<rparr>"

definition mem_vfs :: "time \<Rightarrow> string gomap vfs_env" where
  "mem_vfs now = \<lparr>vf_rt = \<lparr>rt_now = (\<lambda>w. (now, w)), rt_order = (\<lambda>w. ([], w)), rt_token = (\<lambda>w. ([], w))\<rparr>,
     vf_BuildVfsPath = Inr, vf_Join = (\<lambda>base ns. join ''/'' (base # ns)), vf_Base = path_Base,
     vf_ReadTree = (\<lambda>p w. (Inr (filter (\<lambda>f. HasPrefix f (p @ ''/'')) (map fst w)), w)),
     vf_ReadFile = (\<lambda>p w. (case gm_lookup w p of None \<Rightarrow> Inl NotExist | Some d \<Rightarrow> Inr d, w)),
     vf_WriteFile = (\<lambda>p d w. (None, gm_update p d w)),
     vf_Remove = (\<lambda>p w. (None, AList.delete p w)), vf_RemoveAllVersions = (\<lambda>p w. (None, AList.delete p w)),
     vf_WriteTo = (\<lambda>_ _ w. (None, w)), vf_InfoToJson = info_json, vf_InfoFromJson = info_of_json,
     os_ReadFile = (\<lambda>p w. (Inr ''snapshot'', w)), os_MkdirAll = (\<lambda>_ w. (None, w)),
     os_CreateTemp = (\<lambda>d w. (Inr (d @ ''/tmp1''), w)), os_CloseTemp = (\<lambda>_ w. (None, w)),
     os_Rename = (\<lambda>_ _ w. (None, w)), os_Remove = (\<lambda>_ w. (None, w))\<rparr>"

lemma info_json_decodes: "info_json i = Inr d \<Longrightarrow> info_of_json d = Inr i"
proof -
  assume "info_json i = Inr d"
  then have i: "0 \<le> bi_Timestamp i" "bi_ClusterSpec i = None"
      "d = Itoa (nat (bi_Timestamp i)) @ CHR '','' # bi_EtcdVersion i"
    by (auto simp: info_json_def split: if_splits)
  have digits: "\<forall>c \<in> set (Itoa n). is_digit c" for n using Itoa_digits [of n] by (simp add: list_all_iff)
  have "\<not> is_digit (CHR '','')" by (simp add: is_digit_def less_eq_char_def)
  with digits i show ?thesis
    by (auto simp: info_of_json_def takeWhile_append2 dropWhile_append2)
qed

lemma mem_vfs_ok: "vfs_ok (mem_vfs now)"
proof -
  have s: "CHR ''/'' \<notin> set n \<Longrightarrow> CHR ''/'' \<notin> set f \<Longrightarrow>
      split_on (CHR ''/'') (base @ CHR ''/'' # n @ CHR ''/'' # f) = split_on (CHR ''/'') base @ [n, f]" for base n f
    by (induction base) (auto simp: split_on_append split_on_no_sep_id split: list.splits)
  have b: "path_Base (base @ CHR ''/'' # n @ CHR ''/'' # f) = f" if "plain_name n" "plain_name f" for base n f
  proof -
    have "f \<noteq> []" "CHR ''/'' \<notin> set f" using that by (simp_all add: plain_name_def)
    then have "dropWhile (\<lambda>c. c = CHR ''/'') (rev f @ r) = rev f @ r" for r
      by (intro dropWhile_id) (metis hd_append hd_in_set rev_is_Nil_conv set_rev)
    then show ?thesis
      using that s [of n f base] by (simp add: path_Base_def Let_def plain_name_def)
  qed
  have l: "base @ CHR ''/'' # n \<in> fst ` set (gm_update (base @ CHR ''/'' # n) d w)" for base n d and w :: "string gomap"
    using dom_update [of "base @ CHR ''/'' # n" d w] by blast
  show ?thesis
    using s b l info_json_decodes
    by (auto simp: vfs_ok_def mem_vfs_def plain_name_def HasPrefix_def)
qed

theorem AddBackup_read_back_witness:
  "\<exists>name s' info'. AddBackup (mem_vfs 63654698875000000000) (NewVFSStore ''s3://b'') ''f'' ''000001''
       \<lparr>bi_EtcdVersion = ''3.5.0'', bi_Timestamp = 5, bi_ClusterSpec = None\<rparr> \<lparr>self = (), world = [], trace = [()]\<rparr>
     = (Ret (Inr name), s')
   \<and> fst (LoadInfo (mem_vfs 63654698875000000000) (NewVFSStore ''s3://b'') name s') = Ret (Inr info')
   \<and> bi_EtcdVersion info' = ''3.5.0''"
proof -
  let ?e = "mem_vfs 63654698875000000000" and ?st = "NewVFSStore ''s3://b''"
  let ?i = "\<lparr>bi_EtcdVersion = ''3.5.0'', bi_Timestamp = 5, bi_ClusterSpec = None\<rparr>"
  let ?s = "\<lparr>self = (), world = [], trace = [()]\<rparr>"
  obtain name s' where a: "AddBackup ?e ?st ''f'' ''000001'' ?i ?s = (Ret (Inr name), s')"
    by (simp add: AddBackup_def copy_data_def mem_vfs_def info_json_def fill_Timestamp_def time_now_def Let_def
        bind_apply ask_def ret_apply)
  from AddBackup_read_back [OF mem_vfs_ok _ a] obtain info' where
    "fst (LoadInfo ?e ?st name s') = Ret (Inr info')" "bi_EtcdVersion info' = ''3.5.0''" by auto
  with a show ?thesis by blast
qed

section \<open>Effects\<close>

text \<open>These operations leave the process that calls them alone.\<close>

lemma AddBackup_asks: "keeps asks (AddBackup e st src sq info)"
  unfolding AddBackup_def copy_data_def by (intro asks_rules)

lemma LoadInfo_asks: "keeps asks (LoadInfo e st name)"
  unfolding LoadInfo_def by (intro asks_rules)

lemma DownloadBackup_asks: "keeps asks (DownloadBackup e st name dest)"
  unfolding DownloadBackup_def drop_temp_def by (intro asks_rules)

lemma ListBackups_asks: "keeps asks (ListBackups e st)"
  unfolding ListBackups_def by (intro asks_rules)

lemma RemoveBackup_asks: "keeps asks (RemoveBackup e st b)"
  unfolding RemoveBackup_def by (intro asks_rules)

end
