(* ===== verification/Urls.thy ===== *)
theory Urls
  imports Go_Strings
begin

text \<open>
  URL schemes (\<^verbatim>\<open>pkg/urls/rewrite.go\<close>): \<open>RewriteScheme\<close> turns the peer and client URLs of a node from
  http to https and back; it is what enables and disables TLS on a node.
\<close>

definition http :: string where "http = ''http://''"
definition https :: string where "https = ''https://''"

definition RewriteScheme :: "string list \<Rightarrow> string \<Rightarrow> string \<Rightarrow> string list" where
  "RewriteScheme inp findPrefix newPrefix =
     map (\<lambda>s. if HasPrefix s findPrefix then newPrefix @ TrimPrefix s findPrefix else s) inp"

lemma length_RewriteScheme [simp]: "length (RewriteScheme us a b) = length us"
  by (simp add: RewriteScheme_def)

lemma https_not_http [simp]: "\<not> HasPrefix (https @ u) http"
  by (simp add: HasPrefix_def http_def https_def)

lemma http_not_https [simp]: "\<not> HasPrefix (http @ u) https"
  by (simp add: HasPrefix_def http_def https_def)

text \<open>Every URL is rewritten or kept; none of the rewritten ones is plain http any more.\<close>

lemma RewriteScheme_no_http: "u \<in> set (RewriteScheme us http https) \<Longrightarrow> \<not> HasPrefix u http"
  by (auto simp: RewriteScheme_def split: if_splits)

lemma RewriteScheme_idem:
  "RewriteScheme (RewriteScheme us http https) http https = RewriteScheme us http https"
  by (simp add: RewriteScheme_def)

text \<open>
  Enabling TLS can be undone: URLs that are all plain http come back unchanged when their scheme
  is rewritten to https and back, and none of them is http in between.
\<close>

theorem RewriteScheme_back:
  assumes "\<forall>u \<in> set us. HasPrefix u http"
  shows "RewriteScheme (RewriteScheme us http https) https http = us
    \<and> (\<forall>u \<in> set (RewriteScheme us http https). \<not> HasPrefix u http)"
proof
  show "RewriteScheme (RewriteScheme us http https) https http = us"
    using assms by (induction us) (auto simp: RewriteScheme_def HasPrefix_iff)
  show "\<forall>u \<in> set (RewriteScheme us http https). \<not> HasPrefix u http"
    using RewriteScheme_no_http by blast
qed

theorem RewriteScheme_back_witness:
  "RewriteScheme [''http://a:2380''] http https = [''https://a:2380'']
    \<and> RewriteScheme (RewriteScheme [''http://a:2380''] http https) https http = [''http://a:2380'']"
proof -
  have "RewriteScheme [''http://a:2380''] http https = [''https://a:2380'']"
    and "\<forall>u \<in> set [''http://a:2380'']. HasPrefix u http" by code_simp+
  then show ?thesis using RewriteScheme_back by blast
qed

end
