(* ===== verification/Etcd_Server.thy ===== *)
theory Etcd_Server
  imports Etcd_Process Private_Api Backup_Store Urls
begin

text \<open>
  The etcd manager service of one node (\<^verbatim>\<open>pkg/etcd/etcdserver.go\<close>, \<^verbatim>\<open>backup.go\<close>, \<^verbatim>\<open>restore.go\<close>): the state
  it keeps and persists, the etcd process it runs, and the handlers the leader calls. Whether a
  request comes from the current leader is decided by the node's peer server (\<open>Private_Api\<close>), which
  is part of the world here since its own handlers change it. A handler runs with the mutex held
  from start to end, so a run of the node is a sequence of handler runs.
\<close>

section \<open>State\<close>

record preparedState =
  ps_validUntil :: time
  ps_clusterToken :: string

record EtcdServer =
  s_baseDir :: string
  s_etcdNodeConfiguration :: EtcdNode
  s_clusterName :: string
  s_state :: "EtcdState option"
  s_prepared :: "preparedState option"
  s_process :: "etcdProcess option"
  s_listenAddress :: string
  s_etcdClientsCA :: "CA option"
  s_etcdPeersCA :: "CA option"
  s_listenMetricsURLs :: "string list"
  s_peerClientIPs :: "string list"
  s_sequence :: nat

text \<open>\<open>sx_peerServer\<close> reads the peer server of the node; \<open>s_sequence\<close> is the package variable \<^verbatim>\<open>sequence\<close>.\<close>

text \<open>The calls of \<^verbatim>\<open>gzFile.expand\<close> (\<^verbatim>\<open>tar.go\<close>) on the two files and the decompressing reader between them.\<close>

record 'w gz_env =
  gz_Open :: "string \<Rightarrow> 'w \<Rightarrow> go_error option \<times> 'w"
  gz_Create :: "string \<Rightarrow> 'w \<Rightarrow> go_error option \<times> 'w"
  gz_NewReader :: "string \<Rightarrow> 'w \<Rightarrow> go_error option \<times> 'w"
  gz_Copy :: "string \<Rightarrow> string \<Rightarrow> 'w \<Rightarrow> go_error option \<times> 'w"
  gz_CloseReader :: "string \<Rightarrow> 'w \<Rightarrow> go_error option \<times> 'w"
  gz_Close :: "string \<Rightarrow> 'w \<Rightarrow> go_error option \<times> 'w"

record 'w server_env =
  sx_proc :: "'w proc_env"
  sx_vfs :: "'w vfs_env"
  sx_peerServer :: "'w \<Rightarrow> Server"
  sx_UpdateHosts :: "string list gomap \<Rightarrow> 'w \<Rightarrow> go_error option \<times> 'w"
  sx_ReadFile :: "string \<Rightarrow> 'w \<Rightarrow> (go_error + string) \<times> 'w"
  sx_WriteFile :: "string \<Rightarrow> string \<Rightarrow> 'w \<Rightarrow> go_error option \<times> 'w"
  sx_Marshal :: "EtcdState \<Rightarrow> go_error + string"
  sx_Unmarshal :: "string \<Rightarrow> go_error + EtcdState"
  sx_MkdirAll :: "string \<Rightarrow> 'w \<Rightarrow> go_error option \<times> 'w"
  sx_Rename :: "string \<Rightarrow> string \<Rightarrow> 'w \<Rightarrow> go_error option \<times> 'w"
  sx_RemoveAll :: "string \<Rightarrow> 'w \<Rightarrow> go_error option \<times> 'w"
  sx_MkdirTemp :: "'w \<Rightarrow> (go_error + string) \<times> 'w"
  sx_TempDir :: string
  sx_gz :: "'w gz_env"
  sx_copyFuel :: nat

type_synonym 'w server = "(EtcdServer, 'w, node_event) sys"

abbreviation sx_rt :: "'w server_env \<Rightarrow> 'w runtime" where "sx_rt e \<equiv> px_rt (sx_proc e)"

definition PreparedValidity :: duration where "PreparedValidity = minute"

section \<open>The state file\<close>

definition state_path :: "string \<Rightarrow> string" where
  "state_path baseDir = filepath_Join [baseDir, StateFileName]"

definition readState :: "'w server_env \<Rightarrow> string \<Rightarrow> ('w server, go_error + EtcdState option) go" where
  "readState e baseDir =
     bind (ask (sx_ReadFile e (state_path baseDir))) (\<lambda>r. ret (case r of
       Inl err \<Rightarrow> if err = NotExist then Inr None else Inl (Wrap ''error reading state file'' err)
     | Inr b \<Rightarrow> (case sx_Unmarshal e b of
         Inl err \<Rightarrow> Inl (Wrap ''error parsing state file'' err) | Inr st \<Rightarrow> Inr (Some st))))"

definition writeState :: "'w server_env \<Rightarrow> string \<Rightarrow> EtcdState \<Rightarrow> ('w server, go_error option) go" where
  "writeState e baseDir st =
     (case sx_Marshal e st of
        Inl err \<Rightarrow> ret (Some (Wrap ''error marshaling state data'' err))
      | Inr b \<Rightarrow>
        bind (act (sx_WriteFile e (state_path baseDir) b) (EvWriteState (state_path baseDir) st)) (\<lambda>r.
        ret (case r of Some err \<Rightarrow> Some (Wrap ''error writing state file'' err) | None \<Rightarrow> None)))"

definition initState :: "'w server_env \<Rightarrow> ('w server, go_error option) go" where
  "initState e =
     bind (get_self (\<lambda>s. s)) (\<lambda>s. case s_state s of
       Some _ \<Rightarrow> ret None
     | None \<Rightarrow>
       bind (readState e (s_baseDir s)) (\<lambda>r. case r of
         Inl err \<Rightarrow> ret (Some err)
       | Inr None \<Rightarrow> ret None
       | Inr (Some st) \<Rightarrow> bind (upd_self (\<lambda>s. s\<lparr>s_state := Some st\<rparr>)) (\<lambda>_. ret None)))"

section \<open>Starting and stopping etcd\<close>

text \<open>\<^verbatim>\<open>findSelfNode\<close>: the node with our name; two of them are an error, none is \<open>None\<close>.\<close>

definition findSelfNode :: "EtcdServer \<Rightarrow> EtcdState \<Rightarrow> ('w server, go_error + EtcdNode option) go" where
  "findSelfNode s st =
     (case es_Cluster st of None \<Rightarrow> panic ''nil pointer dereference''
      | Some c \<Rightarrow> ret (case filter (\<lambda>n. en_Name n = en_Name (s_etcdNodeConfiguration s)) (ec_Nodes c) of
          [] \<Rightarrow> Inr None
        | [n] \<Rightarrow> Inr (Some n)
        | _ \<Rightarrow> Inl (Errorf ''multiple nodes matching local name included in cluster'')))"

definition map_self_node :: "EtcdServer \<Rightarrow> (EtcdNode \<Rightarrow> EtcdNode) \<Rightarrow> EtcdState \<Rightarrow> EtcdState" where
  "map_self_node s f st =
     st\<lparr>es_Cluster := map_option (\<lambda>c. c\<lparr>ec_Nodes := map (\<lambda>n.
        if en_Name n = en_Name (s_etcdNodeConfiguration s) then f n else n) (ec_Nodes c)\<rparr>) (es_Cluster st)\<rparr>"

definition data_parent :: "string \<Rightarrow> string" where "data_parent baseDir = filepath_Join [baseDir, DataDirName]"
definition pki_parent :: "string \<Rightarrow> string" where "pki_parent baseDir = filepath_Join [baseDir, PkiDirName]"

text \<open>The process that \<^verbatim>\<open>startEtcdProcess\<close> builds from the (cloned) state and its own node.\<close>

definition override_urls :: "EtcdServer \<Rightarrow> EtcdNode \<Rightarrow> EtcdNode" where
  "override_urls s n = n\<lparr>en_ClientUrls := en_ClientUrls (s_etcdNodeConfiguration s),
     en_QuarantinedClientUrls := en_QuarantinedClientUrls (s_etcdNodeConfiguration s)\<rparr>"

definition new_process :: "EtcdServer \<Rightarrow> string \<Rightarrow> EtcdState \<Rightarrow> EtcdCluster \<Rightarrow> EtcdNode \<Rightarrow> etcdProcess" where
  "new_process s dataDir st c meNode =
     \<lparr>pr_BinDir = [], pr_DataDir = dataDir, pr_CurrentDir = [], pr_PKIPeersDir = [], pr_PKIClientsDir = [],
      pr_etcdClientsCA = None, pr_etcdClientTLSConfig = None, pr_EtcdVersion = [], pr_CreateNewCluster = False,
      pr_ForceNewCluster = False,
      pr_Cluster = \<lparr>ec_DesiredClusterSize = 0, ec_ClusterToken = ec_ClusterToken c, ec_Nodes = ec_Nodes c\<rparr>,
      pr_MyNodeName = en_Name (s_etcdNodeConfiguration s), pr_Quarantined = es_Quarantined st,
      pr_DisableTLS = (\<not> en_TlsEnabled meNode), pr_ListenAddress = s_listenAddress s,
      pr_ListenMetricsURLs = s_listenMetricsURLs s, pr_IgnoreListenMetricsURLs = False, pr_cmd = None\<rparr>"

definition launch :: "'w server_env \<Rightarrow> EtcdServer \<Rightarrow> string \<Rightarrow> string \<Rightarrow> EtcdState \<Rightarrow> EtcdNode
    \<Rightarrow> ('w server, go_error option) go" where
  "launch e s dataDir pkiDir st0 meNode0 =
     (let st = map_self_node s (override_urls s) st0; meNode = override_urls s meNode0 in
      case es_Cluster st of None \<Rightarrow> panic ''nil pointer dereference''
      | Some c \<Rightarrow>
        bind (createKeypairs (sx_proc e) (s_etcdPeersCA s) (s_etcdClientsCA s) pkiDir meNode (s_peerClientIPs s)
            (new_process s dataDir st c meNode)) (\<lambda>r. case r of
          Inl err \<Rightarrow> ret (Some err)
        | Inr p1 \<Rightarrow>
          bind (BindirForEtcdVersion (px_Stat (sx_proc e)) (es_EtcdVersion st) ''etcd'') (\<lambda>r. case r of
            Inl err \<Rightarrow> ret (Some err)
          | Inr binDir \<Rightarrow>
            bind (process_Start (sx_proc e) (p1\<lparr>pr_BinDir := binDir, pr_EtcdVersion := es_EtcdVersion st,
                pr_CreateNewCluster := es_NewCluster st\<rparr>)) (\<lambda>r. case r of
              Inl err \<Rightarrow> ret (Some (Wrap ''error starting etcd'' err))
            | Inr p \<Rightarrow> bind (upd_self (\<lambda>s. s\<lparr>s_process := Some p\<rparr>)) (\<lambda>_. ret None)))))"

definition startEtcdProcess :: "'w server_env \<Rightarrow> EtcdState \<Rightarrow> ('w server, go_error option) go" where
  "startEtcdProcess e st =
     bind (get_self (\<lambda>s. s)) (\<lambda>s. case es_Cluster st of
       None \<Rightarrow> ret (Some (Errorf ''cluster not configured, cannot start etcd''))
     | Some c \<Rightarrow>
       if ec_ClusterToken c = [] then ret (Some (Errorf ''ClusterToken not configured, cannot start etcd''))
       else
         let dataDir = filepath_Join [s_baseDir s, DataDirName, ec_ClusterToken c];
             pkiDir = filepath_Join [s_baseDir s, PkiDirName, ec_ClusterToken c]
         in case validateSubDirectory (data_parent (s_baseDir s)) dataDir of
           Some err \<Rightarrow> ret (Some (Wrap ''invalid ClusterToken'' err))
         | None \<Rightarrow> (case validateSubDirectory (pki_parent (s_baseDir s)) pkiDir of
             Some err \<Rightarrow> ret (Some (Wrap ''invalid ClusterToken'' err))
           | None \<Rightarrow>
             bind (findSelfNode s st) (\<lambda>r. case r of
               Inl err \<Rightarrow> ret (Some err)
             | Inr None \<Rightarrow> ret (Some (Errorf ''self node was not included in cluster''))
             | Inr (Some meNode) \<Rightarrow> launch e s dataDir pkiDir st meNode)))"

definition stopEtcdProcess :: "'w server_env \<Rightarrow> ('w server, bool \<times> go_error option) go" where
  "stopEtcdProcess e =
     bind (get_self s_process) (\<lambda>p. case p of
       None \<Rightarrow> ret (False, None)
     | Some p \<Rightarrow>
       bind (process_Stop (sx_proc e) p) (\<lambda>r. case r of
         Some err \<Rightarrow> ret (True, Some (Wrap ''error killing etcd'' err))
       | None \<Rightarrow> bind (upd_self (\<lambda>s. s\<lparr>s_process := None\<rparr>)) (\<lambda>_. ret (True, None))))"

definition check_process :: "'w server_env \<Rightarrow> ('w server, unit) go" where
  "check_process e =
     bind (get_self s_process) (\<lambda>p. case p of None \<Rightarrow> ret ()
       | Some p \<Rightarrow> bind (ExitState (sx_proc e) p) (\<lambda>(st, err).
           if err \<or> st then upd_self (\<lambda>s. s\<lparr>s_process := None\<rparr>) else ret ()))"

definition runOnce :: "'w server_env \<Rightarrow> ('w server, go_error option) go" where
  "runOnce e =
     bind (initState e) (\<lambda>r. case r of
       Some err \<Rightarrow> ret (Some err)
     | None \<Rightarrow>
       bind (check_process e) (\<lambda>_.
       bind (get_self (\<lambda>s. s)) (\<lambda>s. case s_state s of
         None \<Rightarrow> ret None
       | Some st \<Rightarrow> if es_Cluster st \<noteq> None \<and> s_process s = None then startEtcdProcess e st else ret None)))"

section \<open>Requests\<close>

definition validateHeader :: "'w server_env \<Rightarrow> CommonRequestHeader option \<Rightarrow> ('w server, go_error option) go" where
  "validateHeader e header =
     (case header of None \<Rightarrow> panic ''nil pointer dereference''
      | Some h \<Rightarrow>
        bind (get_self s_clusterName) (\<lambda>cn.
          if h_ClusterName h \<noteq> cn then ret (Some (Errorf ''ClusterName mismatch''))
          else bind (ask (\<lambda>w. (IsLeader (sx_peerServer e w) (h_LeadershipToken h), w))) (\<lambda>leader.
            ret (if leader then None else Some (Errorf ''LeadershipToken in request is not current leader'')))))"

definition GetInfo :: "('w server, GetInfoResponse) go" where
  "GetInfo = bind (get_self (\<lambda>s. s)) (\<lambda>s.
     ret \<lparr>gi_ClusterName = s_clusterName s, gi_NodeConfiguration = Some (s_etcdNodeConfiguration s),
       gi_EtcdState = (case s_state s of None \<Rightarrow> None
         | Some st \<Rightarrow> if es_Cluster st \<noteq> None then Some st else None)\<rparr>)"

text \<open>\<^verbatim>\<open>net.SplitHostPort\<close>, the host part.\<close>

definition SplitHostPort :: "string \<Rightarrow> go_error + string" where
  "SplitHostPort a =
     (let i = length a - 1 - length (takeWhile (\<lambda>c. c \<noteq> CHR '':'') (rev a)) in
      if CHR '':'' \<notin> set a then Inl (Errorf ''missing port in address'')
      else if HasPrefix a ''['' then
        (if CHR '']'' \<notin> set a then Inl (Errorf ''missing ']' in address'')
         else let k = length (takeWhile (\<lambda>c. c \<noteq> CHR '']'') a) in
           if k + 1 = length a then Inl (Errorf ''missing port in address'')
           else if k + 1 \<noteq> i then
             (if a ! (k + 1) = CHR '':'' then Inl (Errorf ''too many colons in address'')
              else Inl (Errorf ''missing port in address''))
           else if CHR ''['' \<in> set (drop 1 a) then Inl (Errorf ''unexpected '[' in address'')
           else if CHR '']'' \<in> set (drop (k + 1) a) then Inl (Errorf ''unexpected ']' in address'')
           else Inr (take (k - 1) (drop 1 a)))
      else
        let host = take i a in
        if CHR '':'' \<in> set host then Inl (Errorf ''too many colons in address'')
        else if CHR ''['' \<in> set a then Inl (Errorf ''unexpected '[' in address'')
        else if CHR '']'' \<in> set a then Inl (Errorf ''unexpected ']' in address'')
        else Inr host)"

fun add_addresses :: "string \<Rightarrow> string list \<Rightarrow> string list gomap \<Rightarrow> go_error + string list gomap" where
  "add_addresses dns [] m = Inr m"
| "add_addresses dns (a # as) m = (case SplitHostPort a of
     Inl err \<Rightarrow> Inl (Wrap ''failed to parse address'' err)
   | Inr ip \<Rightarrow> add_addresses dns as
       (gm_update ip ((case gm_lookup m ip of None \<Rightarrow> [] | Some hs \<Rightarrow> hs) @ [dns]) m))"

fun address_map :: "MemberMapInfo list \<Rightarrow> string list gomap \<Rightarrow> go_error + string list gomap" where
  "address_map [] m = Inr m"
| "address_map (i # is) m =
     (if mm_Dns i = [] then address_map is m
      else case add_addresses (mm_Dns i) (mm_Addresses i) m of Inl err \<Rightarrow> Inl err | Inr m' \<Rightarrow> address_map is m')"

definition UpdateEndpoints :: "'w server_env \<Rightarrow> MemberMap option \<Rightarrow> ('w server, go_error option) go" where
  "UpdateEndpoints e memberMap =
     (case memberMap of None \<Rightarrow> ret None
      | Some mm \<Rightarrow> (case address_map (mm_Members mm) [] of
          Inl err \<Rightarrow> ret (Some err)
        | Inr m \<Rightarrow> if m \<noteq> [] then act (sx_UpdateHosts e m) (EvUpdateHosts m) else ret None))"

section \<open>Joining a cluster\<close>

text \<open>The phases of \<^verbatim>\<open>JoinCluster\<close>; an error is \<open>Some\<close>, the empty response \<open>None\<close>.\<close>

definition cancel_prepare :: "JoinClusterRequest \<Rightarrow> ('w server, go_error option) go" where
  "cancel_prepare request =
     bind (get_self s_prepared) (\<lambda>p. case p of
       None \<Rightarrow> ret None
     | Some p \<Rightarrow>
       if ps_clusterToken p = jc_ClusterToken request
       then bind (upd_self (\<lambda>s. s\<lparr>s_prepared := None\<rparr>)) (\<lambda>_. ret None)
       else ret (Some (Errorf ''concurrent prepare in progress'')))"

definition expire_prepared :: "'w server_env \<Rightarrow> ('w server, unit) go" where
  "expire_prepared e =
     bind (get_self s_prepared) (\<lambda>p. case p of
       None \<Rightarrow> ret ()
     | Some p \<Rightarrow> bind (time_now (sx_rt e)) (\<lambda>now.
         if now > ps_validUntil p then upd_self (\<lambda>s. s\<lparr>s_prepared := None\<rparr>) else ret ()))"

definition phase_prepare :: "'w server_env \<Rightarrow> JoinClusterRequest \<Rightarrow> ('w server, go_error option) go" where
  "phase_prepare e request =
     bind (get_self (\<lambda>s. s)) (\<lambda>s.
       if s_process s \<noteq> None then ret (Some (Errorf ''etcd process already running''))
       else if s_prepared s \<noteq> None then ret (Some (Errorf ''concurrent prepare in progress''))
       else bind (time_now (sx_rt e)) (\<lambda>now.
         bind (upd_self (\<lambda>s. s\<lparr>s_prepared := Some \<lparr>ps_validUntil = now + PreparedValidity,
             ps_clusterToken = jc_ClusterToken request\<rparr>\<rparr>)) (\<lambda>_. ret None)))"

text \<open>The guards both of the remaining phases start with.\<close>

definition check_prepared :: "JoinClusterRequest \<Rightarrow> EtcdServer \<Rightarrow> go_error option" where
  "check_prepared request s =
     (if s_process s \<noteq> None then Some (Errorf ''etcd process already running'')
      else case s_prepared s of
        None \<Rightarrow> Some (Errorf ''not prepared'')
      | Some p \<Rightarrow> if ps_clusterToken p \<noteq> jc_ClusterToken request
          then Some (Errorf ''clusterToken does not match prepared'') else None)"

definition joined_state :: "bool \<Rightarrow> bool \<Rightarrow> JoinClusterRequest \<Rightarrow> EtcdState" where
  "joined_state newCluster quarantined request =
     \<lparr>es_NewCluster = newCluster,
      es_Cluster = Some \<lparr>ec_DesiredClusterSize = 0, ec_ClusterToken = jc_ClusterToken request, ec_Nodes = jc_Nodes request\<rparr>,
      es_EtcdVersion = jc_EtcdVersion request, es_Quarantined = quarantined\<rparr>"

definition set_state :: "EtcdState \<Rightarrow> ('w server, unit) go" where
  "set_state st = upd_self (\<lambda>s. s\<lparr>s_state := Some st\<rparr>)"

definition persist_and_start :: "'w server_env \<Rightarrow> EtcdState \<Rightarrow> ('w server, go_error option) go" where
  "persist_and_start e st =
     bind (get_self s_baseDir) (\<lambda>baseDir.
     bind (writeState e baseDir st) (\<lambda>r. case r of
       Some err \<Rightarrow> ret (Some err)
     | None \<Rightarrow> startEtcdProcess e st))"

definition phase_initial_cluster :: "'w server_env \<Rightarrow> JoinClusterRequest \<Rightarrow> ('w server, go_error option) go" where
  "phase_initial_cluster e request =
     bind (get_self (\<lambda>s. s)) (\<lambda>s. case check_prepared request s of
       Some err \<Rightarrow> ret (Some err)
     | None \<Rightarrow>
       bind (set_state (joined_state True True request)) (\<lambda>_.
       bind (persist_and_start e (joined_state True True request)) (\<lambda>r. case r of
         Some err \<Rightarrow> ret (Some err)
       | None \<Rightarrow>
         bind (set_state (joined_state False True request)) (\<lambda>_.
         bind (writeState e (s_baseDir s) (joined_state False True request)) (\<lambda>r. case r of
           Some err \<Rightarrow> ret (Some err)
         | None \<Rightarrow> bind (upd_self (\<lambda>s. s\<lparr>s_prepared := None\<rparr>)) (\<lambda>_. ret None))))))"

definition phase_join_existing :: "'w server_env \<Rightarrow> JoinClusterRequest \<Rightarrow> ('w server, go_error option) go" where
  "phase_join_existing e request =
     bind (get_self (\<lambda>s. s)) (\<lambda>s. case check_prepared request s of
       Some err \<Rightarrow> ret (Some err)
     | None \<Rightarrow>
       bind (set_state (joined_state False False request)) (\<lambda>_.
       bind (persist_and_start e (joined_state False False request)) (\<lambda>r. case r of
         Some err \<Rightarrow> ret (Some err)
       | None \<Rightarrow> bind (upd_self (\<lambda>s. s\<lparr>s_prepared := None\<rparr>)) (\<lambda>_. ret None))))"

definition JoinCluster :: "'w server_env \<Rightarrow> JoinClusterRequest \<Rightarrow> ('w server, go_error option) go" where
  "JoinCluster e request =
     bind (validateHeader e (jc_Header request)) (\<lambda>r. case r of
       Some err \<Rightarrow> ret (Some err)
     | None \<Rightarrow>
       if jc_Phase request = PHASE_CANCEL_PREPARE then cancel_prepare request
       else
         bind (expire_prepared e) (\<lambda>_.
         bind (BindirForEtcdVersion (px_Stat (sx_proc e)) (jc_EtcdVersion request) ''etcd'') (\<lambda>r. case r of
           Inl _ \<Rightarrow> ret (Some (Errorf ''etcd version not supported''))
         | Inr _ \<Rightarrow> (case jc_Phase request of
             PHASE_PREPARE \<Rightarrow> phase_prepare e request
           | PHASE_INITIAL_CLUSTER \<Rightarrow> phase_initial_cluster e request
           | PHASE_JOIN_EXISTING \<Rightarrow> phase_join_existing e request
           | _ \<Rightarrow> ret (Some (Errorf ''unknown status''))))))"

section \<open>Reconfiguring and stopping\<close>

definition enable_tls :: "EtcdNode \<Rightarrow> EtcdNode" where
  "enable_tls n = n\<lparr>en_TlsEnabled := True, en_PeerUrls := RewriteScheme (en_PeerUrls n) ''http://'' ''https://'',
     en_ClientUrls := RewriteScheme (en_ClientUrls n) ''http://'' ''https://''\<rparr>"

text \<open>The state the request asks for, computed on a clone of the current one.\<close>

definition reconfigured :: "EtcdServer \<Rightarrow> ReconfigureRequest \<Rightarrow> EtcdState \<Rightarrow> EtcdState" where
  "reconfigured s request st =
     (let st1 = (if rc_SetEtcdVersion request \<noteq> [] then st\<lparr>es_EtcdVersion := rc_SetEtcdVersion request\<rparr> else st);
          st2 = st1\<lparr>es_Quarantined := rc_Quarantined request\<rparr>
      in if rc_EnableTls request then map_self_node s enable_tls st2 else st2)"

definition check_version :: "'w server_env \<Rightarrow> ReconfigureRequest \<Rightarrow> ('w server, go_error option) go" where
  "check_version e request =
     (if rc_SetEtcdVersion request = [] then ret None
      else bind (BindirForEtcdVersion (px_Stat (sx_proc e)) (rc_SetEtcdVersion request) ''etcd'') (\<lambda>r.
        ret (case r of Inl _ \<Rightarrow> Some (Errorf ''etcd version not supported'') | Inr _ \<Rightarrow> None)))"

definition apply_reconfigure :: "'w server_env \<Rightarrow> ReconfigureRequest \<Rightarrow> EtcdServer \<Rightarrow> EtcdState
    \<Rightarrow> ('w server, go_error option) go" where
  "apply_reconfigure e request s st =
     bind (check_version e request) (\<lambda>r. case r of
       Some err \<Rightarrow> ret (Some err)
     | None \<Rightarrow>
       bind (stopEtcdProcess e) (\<lambda>(_, r). case r of
         Some err \<Rightarrow> ret (Some (Wrap ''error stopping etcd process'' err))
       | None \<Rightarrow>
         bind (set_state (reconfigured s request st)) (\<lambda>_.
         persist_and_start e (reconfigured s request st))))"

definition Reconfigure :: "'w server_env \<Rightarrow> ReconfigureRequest \<Rightarrow> ('w server, go_error option) go" where
  "Reconfigure e request =
     bind (validateHeader e (rc_Header request)) (\<lambda>r. case r of
       Some err \<Rightarrow> ret (Some err)
     | None \<Rightarrow>
       bind (get_self (\<lambda>s. s)) (\<lambda>s. case s_state s of
         None \<Rightarrow> ret (Some (Errorf ''cluster not running''))
       | Some st \<Rightarrow>
         bind (findSelfNode s st) (\<lambda>r. case r of
           Inl err \<Rightarrow> ret (Some err)
         | Inr None \<Rightarrow> ret (Some (Errorf ''could not find self node in cluster''))
         | Inr (Some _) \<Rightarrow> apply_reconfigure e request s st)))"

definition archive_data :: "'w server_env \<Rightarrow> string \<Rightarrow> string \<Rightarrow> ('w server, go_error option) go" where
  "archive_data e baseDir clusterToken =
     (let dataParent = data_parent baseDir;
          oldDataDir = filepath_Join [dataParent, clusterToken];
          trashcanDir = filepath_Join [baseDir, TrashcanDirName];
          newDataDir = filepath_Join [trashcanDir, clusterToken]
      in case validateSubDirectory dataParent oldDataDir of
           Some err \<Rightarrow> ret (Some (Wrap ''invalid ClusterToken'' err))
         | None \<Rightarrow>
           bind (act (sx_MkdirAll e trashcanDir) (EvMkdir trashcanDir)) (\<lambda>_.
           case validateSubDirectory trashcanDir newDataDir of
             Some err \<Rightarrow> ret (Some (Wrap ''invalid ClusterToken'' err))
           | None \<Rightarrow>
             bind (act (sx_Rename e oldDataDir newDataDir) (EvRename oldDataDir newDataDir)) (\<lambda>_. ret None)))"

definition StopEtcd :: "'w server_env \<Rightarrow> CommonRequestHeader option \<Rightarrow> ('w server, go_error option) go" where
  "StopEtcd e header =
     bind (validateHeader e header) (\<lambda>r. case r of
       Some err \<Rightarrow> ret (Some err)
     | None \<Rightarrow>
       bind (get_self (\<lambda>s. s)) (\<lambda>s. case s_state s of
         None \<Rightarrow> ret (Some (Errorf ''cluster not running''))
       | Some st \<Rightarrow> (case es_Cluster st of
           None \<Rightarrow> panic ''nil pointer dereference''
         | Some c \<Rightarrow>
           bind (stopEtcdProcess e) (\<lambda>(_, r). case r of
             Some err \<Rightarrow> ret (Some (Wrap ''error stopping etcd process'' err))
           | None \<Rightarrow>
             bind (set_state empty_EtcdState) (\<lambda>_.
             bind (writeState e (s_baseDir s) empty_EtcdState) (\<lambda>r. case r of
               Some err \<Rightarrow> ret (Some err)
             | None \<Rightarrow> archive_data e (s_baseDir s) (ec_ClusterToken c)))))))"

section \<open>Backup\<close>

definition next_sequence :: "nat \<Rightarrow> nat" where
  "next_sequence n = (if n + 1 > 999999 then 0 else n + 1)"

definition uploadBackup :: "'w server_env \<Rightarrow> vfsStore \<Rightarrow> BackupInfo \<Rightarrow> string \<Rightarrow> ('w server, go_error + string) go" where
  "uploadBackup e st info srcFile =
     bind (upd_self (\<lambda>s. s\<lparr>s_sequence := next_sequence (s_sequence s)\<rparr>)) (\<lambda>_.
     bind (get_self s_sequence) (\<lambda>n.
     bind (AddBackup (sx_vfs e) st srcFile (pad6 n) info) (\<lambda>r.
     bind (emit (EvAddBackup (st_spec st) srcFile (pad6 n) info r)) (\<lambda>_.
     ret (case r of Inl err \<Rightarrow> Inl (Wrap ''error copying backup to storage'' err) | Inr name \<Rightarrow> Inr name)))))"

definition DoBackupV3 :: "'w server_env \<Rightarrow> vfsStore \<Rightarrow> BackupInfo \<Rightarrow> string list \<Rightarrow> tls_Config option
    \<Rightarrow> ('w server, go_error + string) go" where
  "DoBackupV3 e st info clientUrls tls =
     bind (ask (sx_MkdirTemp e)) (\<lambda>r. case r of
       Inl err \<Rightarrow> ret (Inl (Wrap ''error creating etcd backup temp directory'' err))
     | Inr tempDir \<Rightarrow>
       bind (bind (NewClient (px_api (sx_proc e)) clientUrls tls) (\<lambda>r. case r of
         Inl err \<Rightarrow> ret (Inl (Wrap ''error building etcd client to etcd'' err))
       | Inr client \<Rightarrow>
         let snapshotFile = filepath_Join [tempDir, ''snapshot.db.gz''] in
         bind (SnapshotSave (px_api (sx_proc e)) client snapshotFile) (\<lambda>r.
         bind (case r of
           Some err \<Rightarrow> ret (Inl (Wrap ''error performing snapshot save'' err))
         | None \<Rightarrow> uploadBackup e st info snapshotFile) (\<lambda>res.
         bind (ask (api_Close (px_api (sx_proc e)) (cl_handle client))) (\<lambda>_. ret res))))) (\<lambda>res.
       bind (act (sx_RemoveAll e tempDir) (EvRemoveAll tempDir)) (\<lambda>_. ret res)))"

definition etcd_DoBackup :: "'w server_env \<Rightarrow> vfsStore \<Rightarrow> BackupInfo \<Rightarrow> string list \<Rightarrow> tls_Config option
    \<Rightarrow> ('w server, go_error + string) go" where
  "etcd_DoBackup e st info clientUrls tls =
     (if bi_EtcdVersion info = [] then ret (Inl (Errorf ''EtcdVersion not set''))
      else DoBackupV3 e st info clientUrls tls)"

definition process_DoBackup :: "'w server_env \<Rightarrow> etcdProcess \<Rightarrow> vfsStore \<Rightarrow> BackupInfo
    \<Rightarrow> ('w server, go_error + string) go" where
  "process_DoBackup e p st info =
     (case findMyNode p of
        None \<Rightarrow> ret (Inl (Errorf ''unable to find self node''))
      | Some me \<Rightarrow> etcd_DoBackup e st info (process_urls p me) (pr_etcdClientTLSConfig p))"

definition DoBackup :: "'w server_env \<Rightarrow> DoBackupRequest \<Rightarrow> ('w server, go_error + string) go" where
  "DoBackup e request =
     bind (validateHeader e (db_Header request)) (\<lambda>r. case r of
       Some err \<Rightarrow> ret (Inl err)
     | None \<Rightarrow>
       bind (get_self s_process) (\<lambda>p. case p of
         None \<Rightarrow> ret (Inl (Errorf ''etcd not running''))
       | Some p \<Rightarrow>
         if db_Storage request = [] then ret (Inl (Errorf ''request Storage is required''))
         else case db_Info request of
           None \<Rightarrow> ret (Inl (Errorf ''request Info is required''))
         | Some info \<Rightarrow> (case NewStore (sx_vfs e) (db_Storage request) of
             Inl err \<Rightarrow> ret (Inl err)
           | Inr st \<Rightarrow> process_DoBackup e p st (info\<lparr>bi_EtcdVersion := pr_EtcdVersion p\<rparr>))))"

section \<open>Restore\<close>

text \<open>
  \<^verbatim>\<open>RunEtcdFromBackup\<close>: an etcd process of its own, over unix sockets in a temporary directory, that
  serves the contents of a backup.
\<close>

definition restore_version :: "string \<Rightarrow> string" where
  "restore_version v =
     (let restoreWith = EtcdVersionForRestore v
      in if restoreWith \<noteq> [] \<and> restoreWith \<noteq> v then restoreWith else v)"

definition restore_node :: EtcdNode where
  "restore_node = \<lparr>en_Name = ''restore'', en_PeerUrls = [''unixs://127.0.0.1:8003''],
     en_ClientUrls = [''unixs://127.0.0.1:8002''], en_QuarantinedClientUrls = [], en_TlsEnabled = False\<rparr>"

definition restore_process :: "string \<Rightarrow> string \<Rightarrow> string \<Rightarrow> etcdProcess" where
  "restore_process basedir binDir etcdVersion =
     (let dataDir = filepath_Join [basedir, DataDirName] in
      \<lparr>pr_BinDir = binDir, pr_DataDir = dataDir, pr_CurrentDir = basedir, pr_PKIPeersDir = [], pr_PKIClientsDir = [],
       pr_etcdClientsCA = None, pr_etcdClientTLSConfig = None, pr_EtcdVersion = etcdVersion,
       pr_CreateNewCluster = True, pr_ForceNewCluster = True,
       pr_Cluster = \<lparr>ec_DesiredClusterSize = 0, ec_ClusterToken = path_Base dataDir, ec_Nodes = [restore_node]\<rparr>,
       pr_MyNodeName = ''restore'', pr_Quarantined = False, pr_DisableTLS = False, pr_ListenAddress = ''127.0.0.1'',
       pr_ListenMetricsURLs = [], pr_IgnoreListenMetricsURLs = True, pr_cmd = None\<rparr>)"

definition restore_CAs :: "'w server_env \<Rightarrow> (('st, 'w, node_event) sys, go_error + (CA \<times> CA)) go" where
  "restore_CAs e =
     bind (NewCA (px_pki (sx_proc e)) fresh_Keypair) (\<lambda>r. case r of
       Inl err \<Rightarrow> ret (Inl (Wrap ''error building CA'' err))
     | Inr clientsCA \<Rightarrow>
       bind (NewCA (px_pki (sx_proc e)) fresh_Keypair) (\<lambda>r. ret (case r of
         Inl err \<Rightarrow> Inl (Wrap ''error building CA'' err)
       | Inr peersCA \<Rightarrow> Inr (clientsCA, peersCA))))"

text \<open>\<^verbatim>\<open>gzFile.expand\<close>: the files are closed on every path, and what closing them reports is dropped.\<close>

definition gz_transfer :: "'w gz_env \<Rightarrow> string \<Rightarrow> string \<Rightarrow> (('st, 'w, 'ev) sys, go_error option) go" where
  "gz_transfer g file destFile =
     bind (ask (gz_NewReader g file)) (\<lambda>r. case r of
       Some err \<Rightarrow> ret (Some (Wrap ''error reading gzip (source corrupted?)'' err))
     | None \<Rightarrow>
       bind (ask (gz_Copy g file destFile)) (\<lambda>r. case r of
         Some err \<Rightarrow> ret (Some (Wrap ''error expanding file'' err))
       | None \<Rightarrow> bind (ask (gz_CloseReader g file)) (\<lambda>r. ret (map_option (Wrap ''error completing file expansion'') r))))"

definition expand :: "'w gz_env \<Rightarrow> string \<Rightarrow> string \<Rightarrow> (('st, 'w, 'ev) sys, go_error option) go" where
  "expand g file destFile =
     bind (ask (gz_Open g file)) (\<lambda>r. case r of
       Some err \<Rightarrow> ret (Some (Wrap ''error opening'' err))
     | None \<Rightarrow>
       bind (bind (ask (gz_Create g destFile)) (\<lambda>r. case r of
         Some err \<Rightarrow> ret (Some (Wrap ''error opening'' err))
       | None \<Rightarrow>
         bind (gz_transfer g file destFile) (\<lambda>res.
         bind (ask (gz_Close g destFile)) (\<lambda>_. ret res)))) (\<lambda>res.
       bind (ask (gz_Close g file)) (\<lambda>_. ret res)))"

definition start_restore :: "'w server_env \<Rightarrow> string \<Rightarrow> etcdProcess \<Rightarrow> (('st, 'w, node_event) sys, go_error + etcdProcess) go" where
  "start_restore e basedir p =
     (let downloadFile = filepath_Join [basedir, ''download'', ''snapshot.db.gz''];
          snapshotFile = filepath_Join [basedir, ''download'', ''snapshot.db'']
      in bind (expand (sx_gz e) downloadFile snapshotFile) (\<lambda>r. case r of
           Some err \<Rightarrow> ret (Inl (Wrap ''error expanding snapshot'' err))
         | None \<Rightarrow>
           bind (RestoreV3Snapshot (px_RunCmd (sx_proc e)) p snapshotFile) (\<lambda>r. case r of
             Some err \<Rightarrow> ret (Inl err)
           | None \<Rightarrow>
             bind (process_Start (sx_proc e) p) (\<lambda>r. ret (case r of
               Inl err \<Rightarrow> Inl (Wrap ''error starting etcd'' err) | Inr p' \<Rightarrow> Inr p')))))"

definition RunEtcdFromBackup :: "'w server_env \<Rightarrow> vfsStore \<Rightarrow> string \<Rightarrow> string
    \<Rightarrow> (('st, 'w, node_event) sys, go_error + etcdProcess) go" where
  "RunEtcdFromBackup e st backupName basedir =
     bind (LoadInfo (sx_vfs e) st backupName) (\<lambda>r. case r of
       Inl err \<Rightarrow> ret (Inl err)
     | Inr backupInfo \<Rightarrow>
       if HasPrefix (bi_EtcdVersion backupInfo) ''2.''
       then ret (Inl (Errorf ''this version of etcd-manager does not support etcd v2''))
       else
         bind (DownloadBackup (sx_vfs e) st backupName (filepath_Join [basedir, ''download'', ''snapshot.db.gz''])) (\<lambda>r. case r of
           Some err \<Rightarrow> ret (Inl (Wrap ''error restoring backup'' err))
         | None \<Rightarrow>
           let etcdVersion = restore_version (bi_EtcdVersion backupInfo) in
           bind (BindirForEtcdVersion (px_Stat (sx_proc e)) etcdVersion ''etcd'') (\<lambda>r. case r of
             Inl err \<Rightarrow> ret (Inl err)
           | Inr binDir \<Rightarrow>
             bind (restore_CAs e) (\<lambda>r. case r of
               Inl err \<Rightarrow> ret (Inl err)
             | Inr (clientsCA, peersCA) \<Rightarrow>
               bind (createKeypairs (sx_proc e) (Some peersCA) (Some clientsCA) (filepath_Join [basedir, PkiDirName])
                   restore_node [] (restore_process basedir binDir etcdVersion)) (\<lambda>r. case r of
                 Inl err \<Rightarrow> ret (Inl err)
               | Inr p \<Rightarrow> start_restore e basedir p)))))"

text \<open>
  \<^verbatim>\<open>copyEtcd\<close>: up to 60 attempts to read from the source, one second apart; after the last failed
  attempt the copy is tried all the same.
\<close>

fun await_source :: "nat \<Rightarrow> 'w server_env \<Rightarrow> etcdProcess \<Rightarrow> EtcdClient \<Rightarrow> (('st, 'w, node_event) sys, go_error option) go" where
  "await_source 0 e p c = ret None"
| "await_source (Suc n) e p c =
     bind (client_Get (px_api (sx_proc e)) c ''/'') (\<lambda>r. case r of
       Inr _ \<Rightarrow> ret None
     | Inl _ \<Rightarrow> bind (ExitState (sx_proc e) p) (\<lambda>(st, err).
         if err \<or> st then ret (Some (Errorf ''source etcd process exited'')) else await_source n e p c))"

definition put_key :: "'w server_env \<Rightarrow> EtcdClient \<Rightarrow> string \<Rightarrow> string \<Rightarrow> ('w server, go_error option) go" where
  "put_key e dest k v = act (api_Put (px_api (sx_proc e)) (cl_handle dest) k v) (EvPutKey dest k v)"

definition copyEtcd :: "'w server_env \<Rightarrow> etcdProcess \<Rightarrow> EtcdClient \<Rightarrow> ('w server, go_error option) go" where
  "copyEtcd e source dest =
     bind (process_NewClient (sx_proc e) source) (\<lambda>r. case r of
       Inl err \<Rightarrow> ret (Some (Wrap ''error building etcd client'' err))
     | Inr sourceClient \<Rightarrow>
       bind (bind (await_source 60 e source sourceClient) (\<lambda>r. case r of
         Some err \<Rightarrow> ret (Some err)
       | None \<Rightarrow>
         bind (CopyTo (sx_copyFuel e) (px_api (sx_proc e)) sourceClient (put_key e dest)) (\<lambda>r. case r of
           None \<Rightarrow> panic ''still copying keys''
         | Some (_, Some err) \<Rightarrow> ret (Some (Wrap ''error copying keys'' err))
         | Some (_, None) \<Rightarrow> ret None))) (\<lambda>res.
       bind (ask (api_Close (px_api (sx_proc e)) (cl_handle sourceClient))) (\<lambda>_. ret res)))"

definition restore_into :: "'w server_env \<Rightarrow> etcdProcess \<Rightarrow> etcdProcess \<Rightarrow> ('w server, go_error option) go" where
  "restore_into e target p =
     bind (bind (process_NewClient (sx_proc e) target) (\<lambda>r. case r of
       Inl err \<Rightarrow> ret (Some (Wrap ''error building etcd client for target'' err))
     | Inr destClient \<Rightarrow>
       bind (copyEtcd e p destClient) (\<lambda>res.
       bind (ask (api_Close (px_api (sx_proc e)) (cl_handle destClient))) (\<lambda>_. ret res)))) (\<lambda>res.
     bind (process_Stop (sx_proc e) p) (\<lambda>_. ret res))"

definition DoRestore :: "'w server_env \<Rightarrow> DoRestoreRequest \<Rightarrow> ('w server, go_error option) go" where
  "DoRestore e request =
     bind (validateHeader e (dr_Header request)) (\<lambda>r. case r of
       Some err \<Rightarrow> ret (Some err)
     | None \<Rightarrow>
       bind (get_self s_process) (\<lambda>p. case p of
         None \<Rightarrow> ret (Some (Errorf ''etcd not running''))
       | Some target \<Rightarrow>
         if dr_Storage request = [] then ret (Some (Errorf ''request Storage is required''))
         else if dr_BackupName request = [] then ret (Some (Errorf ''request BackupName is required''))
         else case NewStore (sx_vfs e) (dr_Storage request) of
           Inl err \<Rightarrow> ret (Some err)
         | Inr st \<Rightarrow>
           bind (time_now (sx_rt e)) (\<lambda>now.
           let tempDir = filepath_Join [sx_TempDir e, ''restore-etcd-'' @ Itoa (nat (time_UnixNano now))] in
           bind (act (sx_MkdirAll e tempDir) (EvMkdir tempDir)) (\<lambda>r. case r of
             Some err \<Rightarrow> ret (Some (Wrap ''error creating tempdir'' err))
           | None \<Rightarrow>
             bind (bind (RunEtcdFromBackup e st (dr_BackupName request) tempDir) (\<lambda>r. case r of
               Inl err \<Rightarrow> ret (Some err)
             | Inr p \<Rightarrow> restore_into e target p)) (\<lambda>res.
             bind (act (sx_RemoveAll e tempDir) (EvRemoveAll tempDir)) (\<lambda>_. ret res))))))"

section \<open>A node as a state machine\<close>

text \<open>One step is one run of a handler or of the periodic \<^verbatim>\<open>runOnce\<close>, whatever its outcome.\<close>

inductive server_run :: "'w server_env \<Rightarrow> 'w server \<Rightarrow> 'w server \<Rightarrow> bool" for e where
  run_Once: "server_run e s (snd (runOnce e s))"
| run_GetInfo: "server_run e s (snd (GetInfo s))"
| run_UpdateEndpoints: "server_run e s (snd (UpdateEndpoints e m s))"
| run_JoinCluster: "server_run e s (snd (JoinCluster e jc s))"
| run_Reconfigure: "server_run e s (snd (Reconfigure e rc s))"
| run_StopEtcd: "server_run e s (snd (StopEtcd e h s))"
| run_DoBackup: "server_run e s (snd (DoBackup e db s))"
| run_DoRestore: "server_run e s (snd (DoRestore e dr s))"
| run_world: "server_run e s (s\<lparr>world := w\<rparr>)"

text \<open>\<^verbatim>\<open>NewEtcdServer\<close> reads the state file once; no process is running then and nothing was done.\<close>

definition fresh_server :: "'w server \<Rightarrow> bool" where
  "fresh_server s \<longleftrightarrow> s_state (self s) = None \<and> s_prepared (self s) = None \<and> s_process (self s) = None \<and> trace s = []"

inductive server_reach :: "'w server_env \<Rightarrow> 'w server \<Rightarrow> bool" for e where
  reach_new: "fresh_server s \<Longrightarrow> server_reach e (snd (initState e s))"
| reach_run: "server_reach e s \<Longrightarrow> server_run e s s' \<Longrightarrow> server_reach e s'"

end
