(* ===== verification/Server_Safety.thy ===== *)
theory Server_Safety
  imports Etcd_Server
begin

text \<open>
  Safety of a node (\<open>Etcd_Server\<close>) over all sequences of requests: at most one etcd process, requests
  that are not from the current leader have no effect, etcd is only started for a cluster the node
  prepared for, and what is on disk is what is in memory.
\<close>

section \<open>What the parts of a handler leave alone\<close>

lemma newSignedCert_asks: "keeps asks (newSignedCert e cfg key ca d)"
  unfolding newSignedCert_def by (intro asks_rules)

lemma keypair_mutator_asks: "keeps asks (keypair_mutator e config ca kp)"
  unfolding keypair_mutator_def ensure_private_key_def by (intro asks_rules newSignedCert_asks)

lemma write_pem_asks: "keeps asks (write_pem e p c)"
  unfolding write_pem_def by (intro asks_rules)

lemma FSStore_Keypair_asks: "(\<And>kp. keeps asks (f kp)) \<Longrightarrow> keeps asks (FSStore_Keypair e d n f)"
  unfolding FSStore_Keypair_def MutateKeypair_file_def loadPrivateKey_def loadCertificate_def
    save_key_def save_cert_def writePrivateKey_def writeCertificates_def
  by (intro asks_rules write_pem_asks)

lemma fresh_Keypair_asks: "(\<And>kp. keeps asks (f kp)) \<Longrightarrow> keeps asks (fresh_Keypair f)"
  unfolding fresh_Keypair_def MutateKeypair_mem_def by (intro asks_rules)

lemma createKeypairs_asks: "keeps asks (createKeypairs e pca cca d me ips p)"
  unfolding createKeypairs_def peer_keypairs_def client_keypairs_def WriteCABundle_def writeCertificates_def
    EnsureKeypair_def BuildTLSClientConfig_def
  by (intro asks_rules write_pem_asks FSStore_Keypair_asks fresh_Keypair_asks keypair_mutator_asks)

lemma NewCA_asks: "keeps asks (NewCA e fresh_Keypair)"
  unfolding NewCA_def by (intro asks_rules fresh_Keypair_asks)

lemma process_NewClient_asks: "keeps asks (process_NewClient e p)"
  unfolding process_NewClient_def by (intro asks_rules NewClient_asks)

lemma RestoreV3Snapshot_asks: "keeps asks (RestoreV3Snapshot exec p f)"
  unfolding RestoreV3Snapshot_def by (intro asks_rules)

lemma readState_asks: "keeps asks (readState e b)"
  unfolding readState_def by (intro asks_rules)

lemma validateHeader_asks: "keeps asks (validateHeader e h)"
  unfolding validateHeader_def by (intro asks_rules)

lemma findSelfNode_asks: "keeps asks (findSelfNode s st)"
  unfolding findSelfNode_def by (intro asks_rules)

lemma GetInfo_asks: "keeps asks GetInfo"
  unfolding GetInfo_def by (intro asks_rules)

lemmas ask_only = createKeypairs_asks Bindir_asks NewCA_asks NewClient_asks process_NewClient_asks AddBackup_asks
  LoadInfo_asks DownloadBackup_asks RestoreV3Snapshot_asks readState_asks validateHeader_asks findSelfNode_asks
  GetInfo_asks SnapshotSave_asks

section \<open>At most one etcd process\<close>

text \<open>
  The main processes (not the ones that serve a backup) that were started and whose end has not been
  observed since, read off the calls made.
\<close>

fun note_event :: "node_event \<Rightarrow> int list \<Rightarrow> int list" where
  "note_event (EvStart p c (Inr pid)) r = (if pr_ForceNewCluster p then r else pid # r)"
| "note_event (EvExitState pid st err) r = (if st \<or> err then removeAll pid r else r)"
| "note_event _ r = r"

definition running :: "node_event list \<Rightarrow> int list" where
  "running evs = foldl (\<lambda>r ev. note_event ev r) [] evs"

lemma running_snoc [simp]: "running (evs @ [ev]) = note_event ev (running evs)"
  by (simp add: running_def)

definition main_start :: "node_event \<Rightarrow> bool" where
  "main_start ev \<longleftrightarrow> (\<exists>p c pid. ev = EvStart p c (Inr pid) \<and> \<not> pr_ForceNewCluster p)"

lemma note_event_subset: "\<not> main_start ev \<Longrightarrow> mset (note_event ev r) \<subseteq># mset r"
  by (induction ev r rule: note_event.induct)
    (auto simp: main_start_def removeAll_filter_not_eq multiset_filter_subset)

definition quiet :: "'w server \<Rightarrow> 'w server \<Rightarrow> bool" where
  "quiet s s' \<longleftrightarrow> s_process (self s') = s_process (self s) \<and> mset (running (trace s')) \<subseteq># mset (running (trace s))"

interpretation quiet: step_rel quiet
  by unfold_locales (auto simp: quiet_def)

lemma asks_quiet: "keeps asks m \<Longrightarrow> keeps quiet m"
  by (erule keeps_weaken) (auto simp: asks_def quiet_def)

lemma quiet_act: "(\<And>x. \<not> main_start (ev x)) \<Longrightarrow> keeps quiet (act f ev)"
  using note_event_subset by (auto simp: keeps_def quiet_def act_def split: prod.splits)

lemma quiet_emit: "\<not> main_start ev \<Longrightarrow> keeps quiet (emit ev)"
  using note_event_subset by (auto simp: keeps_def quiet_def emit_def)

lemma quiet_upd_self: "(\<And>s. s_process (f s) = s_process s) \<Longrightarrow> keeps quiet (upd_self f)"
  by (simp add: keeps_def quiet_def upd_self_def)

lemmas quiet_rules = keeps_rules quiet.keeps_core asks_quiet [OF keeps_asks_ask] asks_quiet [OF keeps_asks_get_self]
  asks_quiet [OF keeps_asks_now] asks_quiet [OF keeps_asks_range]
lemmas quiet_asks = ask_only [THEN asks_quiet]

lemma main_start_simps [simp]:
  "\<not> main_start (EvKill a b)" "\<not> main_start (EvExitState a c d)" "\<not> main_start (EvWriteState p st r)"
  "\<not> main_start (EvRename p q r)" "\<not> main_start (EvMkdir p r)" "\<not> main_start (EvRemoveAll p r)"
  "\<not> main_start (EvUpdateHosts m r)" "\<not> main_start (EvAddBackup p q x i y)" "\<not> main_start (EvPutKey cl k v r)"
  by (simp_all add: main_start_def)

lemma writeState_quiet: "keeps quiet (writeState e b st)"
  unfolding writeState_def by (intro quiet_rules quiet_act) simp

lemma set_state_quiet: "keeps quiet (set_state st)"
  unfolding set_state_def by (intro quiet_upd_self) simp

lemma ExitState_quiet: "keeps quiet (ExitState e p)"
  unfolding ExitState_def by (intro quiet_rules quiet_act) (simp split: prod.splits)

lemma wait_exit_quiet: "keeps quiet (wait_exit n e p)"
  by (induction n) (auto intro!: quiet_rules ExitState_quiet)

lemma process_Stop_quiet: "keeps quiet (process_Stop e p)"
  unfolding process_Stop_def by (intro quiet_rules quiet_act ExitState_quiet wait_exit_quiet) simp

lemma initState_quiet: "keeps quiet (initState e)"
  unfolding initState_def by (intro quiet_rules quiet_asks quiet_upd_self) simp

lemma archive_data_quiet: "keeps quiet (archive_data e b t)"
  unfolding archive_data_def by (intro quiet_rules quiet_act) simp_all

lemma uploadBackup_quiet: "keeps quiet (uploadBackup e st info f)"
  unfolding uploadBackup_def by (intro quiet_rules quiet_asks quiet_upd_self quiet_emit) simp_all

lemma DoBackupV3_quiet: "keeps quiet (DoBackupV3 e st info urls tls)"
  unfolding DoBackupV3_def by (intro quiet_rules quiet_asks uploadBackup_quiet quiet_act) simp

lemma DoBackup_quiet: "keeps quiet (DoBackup e req)"
  unfolding DoBackup_def process_DoBackup_def etcd_DoBackup_def
  by (intro quiet_rules quiet_asks DoBackupV3_quiet)

lemma UpdateEndpoints_quiet: "keeps quiet (UpdateEndpoints e m)"
  unfolding UpdateEndpoints_def by (intro quiet_rules quiet_act) simp

lemma process_Start_quiet:
  assumes "pr_ForceNewCluster p"
  shows "keeps quiet (process_Start e p)"
  unfolding process_Start_def using assms by (intro quiet_rules quiet_act) (simp add: main_start_def)

lemma copy_kv_quiet: "(\<And>k v. keeps quiet (put k v)) \<Longrightarrow> keeps quiet (copy_kv put kv acc)"
  unfolding copy_kv_def by (intro quiet_rules)

lemma copy_loop_quiet: "(\<And>k v. keeps quiet (put k v)) \<Longrightarrow> keeps quiet (copy_loop n api c put cnt lk)"
proof (induction n arbitrary: cnt lk)
  case 0
  show ?case by (simp add: quiet.keeps_ret)
next
  case (Suc n)
  show ?case unfolding copy_loop.simps by (intro quiet_rules copy_kv_quiet Suc)
qed

lemma await_source_quiet: "keeps quiet (await_source n e p c)"
proof (induction n)
  case 0
  show ?case by (simp add: quiet.keeps_ret)
next
  case (Suc n)
  show ?case unfolding await_source.simps client_Get_def by (intro quiet_rules ExitState_quiet Suc)
qed

lemma copyEtcd_quiet: "keeps quiet (copyEtcd e p dest)"
  unfolding copyEtcd_def CopyTo_def put_key_def
  by (intro quiet_rules quiet_asks await_source_quiet copy_loop_quiet quiet_act) simp

lemma restore_into_quiet: "keeps quiet (restore_into e target p)"
  unfolding restore_into_def by (intro quiet_rules quiet_asks copyEtcd_quiet process_Stop_quiet)

text \<open>What \<^verbatim>\<open>createKeypairs\<close> leaves alone in the process.\<close>

definition pki_only :: "etcdProcess \<Rightarrow> etcdProcess \<Rightarrow> bool" where
  "pki_only p p' \<longleftrightarrow> pr_DataDir p' = pr_DataDir p \<and> pr_ForceNewCluster p' = pr_ForceNewCluster p
     \<and> pr_Cluster p' = pr_Cluster p \<and> pr_MyNodeName p' = pr_MyNodeName p \<and> pr_Quarantined p' = pr_Quarantined p"

lemma peer_keypairs_result:
  "peer_keypairs e ca d me ips p s = (Ret (Inr p'), s') \<Longrightarrow> pki_only p p'"
  unfolding peer_keypairs_def Let_def pki_only_def
  by (auto simp: bind_apply ret_apply split: option.splits prod.splits outcome.splits sum.splits)

lemma client_keypairs_result:
  "client_keypairs e ca d me p s = (Ret (Inr p'), s') \<Longrightarrow> pki_only p p'"
  unfolding client_keypairs_def Let_def pki_only_def
  by (auto simp: bind_apply ret_apply split: option.splits prod.splits outcome.splits sum.splits)

lemma createKeypairs_result:
  "createKeypairs e pca cca d me ips p s = (Ret (Inr p'), s') \<Longrightarrow> pki_only p p'"
  unfolding createKeypairs_def
  by (auto simp: bind_apply ret_apply pki_only_def split: prod.splits outcome.splits sum.splits
      dest!: peer_keypairs_result client_keypairs_result)

lemma restore_process_force: "pr_ForceNewCluster (restore_process basedir binDir v)"
  by (simp add: restore_process_def Let_def)

lemma start_restore_quiet: "pr_ForceNewCluster p \<Longrightarrow> keeps quiet (start_restore e basedir p)"
  unfolding start_restore_def expand_def gz_transfer_def by (intro quiet_rules quiet_asks process_Start_quiet)

lemma restore_keypairs_quiet:
  "keeps quiet (bind (createKeypairs pe ca1 ca2 d me ips (restore_process basedir b v)) (\<lambda>r. case r of
     Inl err \<Rightarrow> ret (Inl err) | Inr p \<Rightarrow> start_restore e basedir p))"
proof (rule quiet.keeps_bind_dep [OF createKeypairs_asks [THEN asks_quiet]])
  fix s r s'
  assume c: "createKeypairs pe ca1 ca2 d me ips (restore_process basedir b v) s = (Ret r, s')"
  show "keeps quiet (case r of Inl err \<Rightarrow> ret (Inl err) | Inr p \<Rightarrow> start_restore e basedir p)"
  proof (cases r)
    case (Inr p)
    from createKeypairs_result [OF c [unfolded Inr]] have "pr_ForceNewCluster p"
      by (simp add: pki_only_def restore_process_force)
    with Inr show ?thesis by (simp add: start_restore_quiet)
  qed (simp add: quiet.keeps_ret)
qed

lemma RunEtcdFromBackup_quiet: "keeps quiet (RunEtcdFromBackup e st name basedir)"
  unfolding RunEtcdFromBackup_def restore_CAs_def
  by (intro restore_keypairs_quiet quiet_rules quiet_asks)

lemma DoRestore_quiet: "keeps quiet (DoRestore e req)"
  unfolding DoRestore_def
  by (intro quiet_rules quiet_asks quiet_act RunEtcdFromBackup_quiet restore_into_quiet) simp_all

definition idle :: "'w server \<Rightarrow> bool" where
  "idle s \<longleftrightarrow> s_process (self s) = None \<and> running (trace s) = []"

definition single :: "'w server \<Rightarrow> bool" where
  "single s \<longleftrightarrow> running (trace s) = []
     \<or> (\<exists>p pid. s_process (self s) = Some p \<and> pr_cmd p = Some pid \<and> running (trace s) = [pid])"

lemma idle_single: "idle s \<Longrightarrow> single s"
  by (simp add: idle_def single_def)

lemma single_no_process: "single s \<Longrightarrow> s_process (self s) = None \<Longrightarrow> idle s"
  by (auto simp: idle_def single_def)

lemma mset_subset_single: "mset xs \<subseteq># {#x#} \<Longrightarrow> xs = [] \<or> xs = [x]"
  using size_mset_mono [of "mset xs" "{#x#}"]
  by (cases xs) (auto dest: mset_subset_eqD)

lemma quiet_single: "quiet s s' \<Longrightarrow> single s \<Longrightarrow> single s'"
  using mset_subset_single [of "running (trace s')"] by (auto simp: quiet_def single_def)

lemma quiet_idle: "quiet s s' \<Longrightarrow> idle s \<Longrightarrow> idle s'"
  by (auto simp: quiet_def idle_def)

lemma hoare_quiet_single: "keeps quiet m \<Longrightarrow> hoare single m (\<lambda>_. single) single"
  by (intro hoare_stays) (auto elim!: keeps_weaken simp: stays_def intro: quiet_single)

lemma hoare_quiet_idle: "keeps quiet m \<Longrightarrow> hoare idle m (\<lambda>_. idle) idle"
  by (intro hoare_stays) (auto elim!: keeps_weaken simp: stays_def intro: quiet_idle)

lemma process_Start_idle:
  "hoare idle (process_Start e p)
     (\<lambda>r s. case r of Inl _ \<Rightarrow> idle s | Inr p' \<Rightarrow> single (s\<lparr>self := (self s)\<lparr>s_process := Some p'\<rparr>\<rparr>)) single"
  unfolding process_Start_def hoare_def
  by (auto simp: bind_apply ret_apply panic_apply act_def ask_def range_map_def Let_def idle_def single_def
      split: option.splits prod.splits sum.splits)

lemma hoare_upd_process: "hoare (\<lambda>s. single (s\<lparr>self := (self s)\<lparr>s_process := Some p\<rparr>\<rparr>))
   (upd_self (\<lambda>s. s\<lparr>s_process := Some p\<rparr>)) (\<lambda>_. single) E"
  by (rule hoare_upd_self)

lemma launch_single: "hoare idle (launch e s d pd st me) (\<lambda>_. single) single"
proof -
  have start: "hoare idle (bind (process_Start (sx_proc e) p) (\<lambda>r. case r of
      Inl err \<Rightarrow> ret (Some (Wrap ''error starting etcd'' err))
    | Inr p \<Rightarrow> bind (upd_self (\<lambda>s. s\<lparr>s_process := Some p\<rparr>)) (\<lambda>_. ret None))) (\<lambda>_. single) single" for p
  proof (rule hoare_bind [OF process_Start_idle])
    fix r
    show "hoare (\<lambda>s. case r of Inl _ \<Rightarrow> idle s | Inr p' \<Rightarrow> single (s\<lparr>self := (self s)\<lparr>s_process := Some p'\<rparr>\<rparr>))
       (case r of Inl err \<Rightarrow> ret (Some (Wrap ''error starting etcd'' err))
        | Inr p \<Rightarrow> bind (upd_self (\<lambda>s. s\<lparr>s_process := Some p\<rparr>)) (\<lambda>_. ret None)) (\<lambda>_. single) single"
      by (cases r) (auto intro!: hoare_ret hoare_bind [OF hoare_upd_process] idle_single)
  qed
  have q: "keeps quiet m \<Longrightarrow> hoare idle m (\<lambda>_. idle) single" for m :: "('a server, 'b) go"
    by (rule hoare_conseq [OF hoare_quiet_idle]) (auto intro: idle_single)
  show ?thesis
    unfolding launch_def Let_def
    by (intro hoare_case_option hoare_case_sum hoare_panic hoare_ret start
        hoare_bind [OF q [OF quiet_asks(1)]] hoare_bind [OF q [OF quiet_asks(2)]]) (auto intro: idle_single)
qed

lemma startEtcdProcess_single: "hoare idle (startEtcdProcess e st) (\<lambda>_. single) single"
proof -
  have q: "keeps quiet m \<Longrightarrow> hoare idle m (\<lambda>_. idle) single" for m :: "('a server, 'b) go"
    by (rule hoare_conseq [OF hoare_quiet_idle]) (auto intro: idle_single)
  show ?thesis
    unfolding startEtcdProcess_def Let_def
    by (intro hoare_bind [OF q [OF asks_quiet [OF keeps_asks_get_self]]] hoare_bind [OF q [OF findSelfNode_asks [THEN asks_quiet]]]
        hoare_case_option hoare_case_sum hoare_if hoare_ret launch_single) (auto intro: idle_single)
qed

text \<open>An observed exit is an end of the process, and a successful \<^verbatim>\<open>Stop\<close> has observed it.\<close>

lemma ExitState_ended:
  assumes "pr_cmd p = Some pid" and "ExitState e p s = (Ret (st, err), s')" and "st \<or> err"
  shows "pid \<notin> set (running (trace s'))"
  using assms by (auto simp: ExitState_def act_def split: prod.splits)

lemma wait_exit_ended:
  assumes "pr_cmd p = Some pid" and "wait_exit n e p s = (Ret True, s')"
  shows "pid \<notin> set (running (trace s'))"
  using assms(2)
proof (induction n arbitrary: s)
  case (Suc n)
  obtain r s1 where x: "ExitState e p s = (r, s1)" by fastforce
  show ?case
  proof (cases r)
    case (Ret v)
    then show ?thesis
      using x Suc ExitState_ended [OF assms(1), of e s] by (cases v) (auto simp: bind_apply ret_apply split: if_splits)
  qed (use x Suc.prems in \<open>simp add: bind_apply\<close>)
qed (simp add: ret_apply)

lemma process_Stop_ended:
  assumes "pr_cmd p = Some pid" and "process_Stop e p s = (Ret None, s')"
  shows "pid \<notin> set (running (trace s'))"
  using assms(2) unfolding process_Stop_def
  by (auto simp: assms(1) bind_apply ret_apply panic_apply split: prod.splits outcome.splits option.splits if_splits
      dest: ExitState_ended [OF assms(1)] wait_exit_ended [OF assms(1)])

lemma quiet_ended:
  assumes "quiet s s'" and "single s" and "s_process (self s) = Some p"
    and "\<And>pid. pr_cmd p = Some pid \<Longrightarrow> pid \<notin> set (running (trace s'))"
  shows "running (trace s') = []"
  using quiet_single [OF assms(1,2)] assms(1,3,4) by (auto simp: single_def quiet_def)

lemma stopEtcdProcess_idle:
  "hoare single (stopEtcdProcess e) (\<lambda>x s. if snd x = None then idle s else single s) single"
proof (rule hoareI)
  fix s :: "'a server" and msg s'
  assume a: "single s" "stopEtcdProcess e s = (Panic msg, s')"
  then obtain p where p: "s_process (self s) = Some p" "process_Stop (sx_proc e) p s = (Panic msg, s')"
    by (auto simp: stopEtcdProcess_def bind_apply get_self_def ret_apply upd_self_def
        split: option.splits prod.splits outcome.splits)
  from keepsE [OF process_Stop_quiet p(2)] a(1) show "single s'" by (rule quiet_single)
next
  fix s :: "'a server" and x s'
  assume a: "single s" "stopEtcdProcess e s = (Ret x, s')"
  show "if snd x = None then idle s' else single s'"
  proof (cases "s_process (self s)")
    case None
    with a show ?thesis
      by (auto simp: stopEtcdProcess_def bind_apply get_self_def ret_apply intro: single_no_process)
  next
    case (Some p)
    with a(2) obtain r s1 where r: "process_Stop (sx_proc e) p s = (Ret r, s1)"
        "if r = None then x = (True, None) \<and> s' = s1\<lparr>self := (self s1)\<lparr>s_process := None\<rparr>\<rparr>
         else snd x \<noteq> None \<and> s' = s1"
      by (auto simp: stopEtcdProcess_def bind_apply get_self_def ret_apply upd_self_def
          split: option.splits prod.splits outcome.splits)
    note q = keepsE [OF process_Stop_quiet r(1)]
    show ?thesis
    proof (cases r)
      case None
      with r(1) have "pid \<notin> set (running (trace s1))" if "pr_cmd p = Some pid" for pid
        using process_Stop_ended [OF that] by blast
      from quiet_ended [OF q a(1) Some this] show ?thesis using None r(2) by (simp add: idle_def)
    next
      case (Some err)
      with r(2) quiet_single [OF q a(1)] show ?thesis by auto
    qed
  qed
qed

lemma check_process_single: "keeps (stays single) (check_process e)"
proof (rule keepsI)
  fix s :: "'a server"
  show "stays single s (snd (check_process e s))"
    unfolding stays_def
  proof
    assume a: "single s"
    show "single (snd (check_process e s))"
    proof (cases "s_process (self s)")
      case None
      with a show ?thesis by (simp add: check_process_def bind_apply get_self_def ret_apply)
    next
      case (Some p)
      obtain r s1 where x: "ExitState (sx_proc e) p s = (r, s1)" by fastforce
      note q = keepsE [OF ExitState_quiet x]
      show ?thesis
      proof (cases r)
        case (Panic msg)
        with Some x quiet_single [OF q a] show ?thesis by (simp add: check_process_def bind_apply get_self_def)
      next
        case (Ret v)
        obtain st err where v: "v = (st, err)" by fastforce
        show ?thesis
        proof (cases "st \<or> err")
          case True
          with ExitState_ended x Ret v have "pid \<notin> set (running (trace s1))" if "pr_cmd p = Some pid" for pid
            using that by blast
          from quiet_ended [OF q a Some this] Some x Ret v True show ?thesis
            by (auto simp: check_process_def bind_apply get_self_def upd_self_def single_def)
        next
          case False
          with Some x Ret v quiet_single [OF q a] show ?thesis
            by (simp add: check_process_def bind_apply get_self_def ret_apply)
        qed
      qed
    qed
  qed
qed

lemma hoare_quiet_idle': "keeps quiet m \<Longrightarrow> hoare idle m (\<lambda>_. idle) single"
  by (rule hoare_conseq [OF hoare_quiet_idle]) (auto intro: idle_single)

lemma persist_and_start_single: "hoare idle (persist_and_start e st) (\<lambda>_. single) single"
  unfolding persist_and_start_def
  by (intro hoare_bind [OF hoare_quiet_idle' [OF asks_quiet [OF keeps_asks_get_self]]]
      hoare_bind [OF hoare_quiet_idle' [OF writeState_quiet]] hoare_case_option hoare_ret startEtcdProcess_single)
    (auto intro: idle_single)

lemma prepared_idle: "check_prepared request (self s) = None \<Longrightarrow> single s \<Longrightarrow> idle s"
  by (auto simp: check_prepared_def intro: single_no_process split: if_splits)

lemma clear_prepared_quiet: "keeps quiet (upd_self (\<lambda>s. s\<lparr>s_prepared := x\<rparr>))"
  by (intro quiet_upd_self) simp

lemmas then_single = hoare_bind [OF hoare_quiet_single [OF set_state_quiet]]
  hoare_bind [OF hoare_quiet_single [OF writeState_quiet]]
  hoare_bind [OF hoare_quiet_single [OF clear_prepared_quiet]]

text \<open>Both joining phases: past the guards nothing is running, and what follows starts at most one process.\<close>

lemma prepared_branch:
  assumes "\<And>s. hoare idle (m s) (\<lambda>_. single) single"
  shows "hoare single (bind (get_self (\<lambda>s. s)) (\<lambda>s. case check_prepared req s of
     Some err \<Rightarrow> ret (Some err) | None \<Rightarrow> m s)) (\<lambda>_. single) single"
proof (rule hoare_read)
  fix s :: "'a server" assume s: "single s"
  show "hoare (\<lambda>t. t = s) (case check_prepared req (self s) of Some err \<Rightarrow> ret (Some err) | None \<Rightarrow> m (self s))
      (\<lambda>_. single) single"
  proof (cases "check_prepared req (self s)")
    case None
    then show ?thesis using hoare_at [OF assms prepared_idle [OF None s]] by simp
  qed (auto intro: hoare_ret s)
qed

lemma phase_initial_cluster_single: "hoare single (phase_initial_cluster e req) (\<lambda>_. single) single"
  unfolding phase_initial_cluster_def
  by (intro prepared_branch hoare_bind [OF hoare_quiet_idle' [OF set_state_quiet]]
      hoare_bind [OF persist_and_start_single] hoare_case_option then_single hoare_ret) assumption+

lemma phase_join_existing_single: "hoare single (phase_join_existing e req) (\<lambda>_. single) single"
  unfolding phase_join_existing_def
  by (intro prepared_branch hoare_bind [OF hoare_quiet_idle' [OF set_state_quiet]]
      hoare_bind [OF persist_and_start_single] hoare_case_option then_single hoare_ret) assumption+

lemma cancel_prepare_quiet: "keeps quiet (cancel_prepare req)"
  unfolding cancel_prepare_def by (intro quiet_rules clear_prepared_quiet)

lemma expire_prepared_quiet: "keeps quiet (expire_prepared e)"
  unfolding expire_prepared_def by (intro quiet_rules clear_prepared_quiet)

lemma phase_prepare_quiet: "keeps quiet (phase_prepare e req)"
  unfolding phase_prepare_def by (intro quiet_rules clear_prepared_quiet)

lemma JoinCluster_single: "hoare single (JoinCluster e req) (\<lambda>_. single) single"
proof -
  have "hoare single (case ph of PHASE_PREPARE \<Rightarrow> phase_prepare e req
     | PHASE_INITIAL_CLUSTER \<Rightarrow> phase_initial_cluster e req | PHASE_JOIN_EXISTING \<Rightarrow> phase_join_existing e req
     | _ \<Rightarrow> ret (Some (Errorf ''unknown status''))) (\<lambda>_. single) single" for ph
    by (cases ph) (auto intro: hoare_ret phase_initial_cluster_single phase_join_existing_single
        hoare_quiet_single [OF phase_prepare_quiet])
  then show ?thesis
    unfolding JoinCluster_def
    by (intro hoare_bind [OF hoare_quiet_single [OF validateHeader_asks [THEN asks_quiet]]]
        hoare_bind [OF hoare_quiet_single [OF Bindir_asks [THEN asks_quiet]]]
        hoare_bind [OF hoare_quiet_single [OF expire_prepared_quiet]] hoare_case_option hoare_case_sum hoare_if hoare_ret
        hoare_quiet_single [OF cancel_prepare_quiet]) assumption+
qed

lemma Reconfigure_single: "hoare single (Reconfigure e req) (\<lambda>_. single) single"
proof -
  have stop: "hoare single (bind (stopEtcdProcess e) (\<lambda>(b, r). case r of
       Some err \<Rightarrow> ret (Some (Wrap ''error stopping etcd process'' err))
     | None \<Rightarrow> bind (set_state st) (\<lambda>_. persist_and_start e st))) (\<lambda>_. single) single" for st
  proof (rule hoare_bind [OF stopEtcdProcess_idle])
    fix x
    show "hoare (\<lambda>s. if snd x = None then idle s else single s) (case x of (b, r) \<Rightarrow> (case r of
       Some err \<Rightarrow> ret (Some (Wrap ''error stopping etcd process'' err))
     | None \<Rightarrow> bind (set_state st) (\<lambda>_. persist_and_start e st))) (\<lambda>_. single) single"
      by (cases x; cases "snd x")
        (auto intro: hoare_ret hoare_bind [OF hoare_quiet_idle' [OF set_state_quiet] persist_and_start_single])
  qed
  have q: "hoare single (check_version e req) (\<lambda>_. single) single"
    unfolding check_version_def by (intro hoare_quiet_single quiet_rules quiet_asks)
  show ?thesis
    unfolding Reconfigure_def apply_reconfigure_def
    by (intro stop hoare_bind [OF hoare_quiet_single [OF validateHeader_asks [THEN asks_quiet]]]
        hoare_bind [OF hoare_quiet_single [OF asks_quiet [OF keeps_asks_get_self]]]
        hoare_bind [OF hoare_quiet_single [OF findSelfNode_asks [THEN asks_quiet]]] hoare_bind [OF q]
        hoare_case_option hoare_case_sum hoare_ret) assumption+
qed

lemma StopEtcd_single: "hoare single (StopEtcd e h) (\<lambda>_. single) single"
proof -
  have tail: "hoare single (bind (set_state empty_EtcdState) (\<lambda>_.
             bind (writeState e b empty_EtcdState) (\<lambda>r. case r of
               Some err \<Rightarrow> ret (Some err) | None \<Rightarrow> archive_data e b t))) (\<lambda>_. single) single" for b t
    by (intro hoare_quiet_single quiet_rules set_state_quiet writeState_quiet archive_data_quiet)
  have stop: "hoare single (bind (stopEtcdProcess e) (\<lambda>(x, r). case r of
       Some err \<Rightarrow> ret (Some (Wrap ''error stopping etcd process'' err))
     | None \<Rightarrow> bind (set_state empty_EtcdState) (\<lambda>_.
             bind (writeState e b empty_EtcdState) (\<lambda>r. case r of
               Some err \<Rightarrow> ret (Some err) | None \<Rightarrow> archive_data e b t)))) (\<lambda>_. single) single" for b t
  proof (rule hoare_bind [OF hoare_conseq [OF stopEtcdProcess_idle, where Q = "\<lambda>_. single"]])
    fix x
    show "hoare single (case x of (y, r) \<Rightarrow> (case r of
       Some err \<Rightarrow> ret (Some (Wrap ''error stopping etcd process'' err))
     | None \<Rightarrow> bind (set_state empty_EtcdState) (\<lambda>_.
             bind (writeState e b empty_EtcdState) (\<lambda>r. case r of
               Some err \<Rightarrow> ret (Some err) | None \<Rightarrow> archive_data e b t)))) (\<lambda>_. single) single"
      by (intro hoare_case_prod hoare_case_option hoare_ret tail) assumption
  qed (auto intro: idle_single split: if_splits)
  show ?thesis
    unfolding StopEtcd_def
    by (intro stop hoare_bind [OF hoare_quiet_single [OF validateHeader_asks [THEN asks_quiet]]]
        hoare_bind [OF hoare_quiet_single [OF asks_quiet [OF keeps_asks_get_self]]]
        hoare_case_option hoare_ret hoare_panic) assumption+
qed

lemma runOnce_single: "hoare single (runOnce e) (\<lambda>_. single) single"
proof -
  have start: "hoare single (bind (get_self (\<lambda>s. s)) (\<lambda>s. case s_state s of
         None \<Rightarrow> ret None
       | Some st \<Rightarrow> if es_Cluster st \<noteq> None \<and> s_process s = None then startEtcdProcess e st else ret None))
     (\<lambda>_. single) single"
  proof (rule hoare_read)
    fix s :: "'a server" assume s: "single s"
    show "hoare (\<lambda>t. t = s) (case s_state (self s) of None \<Rightarrow> ret None
       | Some st \<Rightarrow> if es_Cluster st \<noteq> None \<and> s_process (self s) = None then startEtcdProcess e st else ret None)
       (\<lambda>_. single) single"
      using s by (auto intro!: hoare_ret hoare_at [OF startEtcdProcess_single] single_no_process split: option.splits)
  qed
  show ?thesis
    unfolding runOnce_def
    by (intro start hoare_bind [OF hoare_quiet_single [OF initState_quiet]]
        hoare_bind [OF hoare_stays [OF check_process_single]] hoare_case_option hoare_ret) assumption
qed

lemma server_run_single: "server_run e s s' \<Longrightarrow> single s \<Longrightarrow> single s'"
proof (induction rule: server_run.induct)
  case (run_world s w)
  then show ?case by (simp add: single_def)
qed (simp_all add: keepsD [OF stays_hoare, unfolded stays_def, rule_format] runOnce_single JoinCluster_single
    Reconfigure_single StopEtcd_single hoare_quiet_single DoBackup_quiet DoRestore_quiet UpdateEndpoints_quiet
    GetInfo_asks asks_quiet)

lemma server_reach_single: "server_reach e s \<Longrightarrow> single s"
proof (induction rule: server_reach.induct)
  case (reach_new s)
  then have "single s" by (simp add: fresh_server_def single_def running_def)
  with keepsD [OF initState_quiet] show ?case by (rule quiet_single)
next
  case (reach_run s s')
  then show ?case by (simp add: server_run_single)
qed

section \<open>An example node\<close>

text \<open>
  A node without certificate authorities whose calls to the outside all succeed; the etcd processes
  it starts have pid 42, and \<open>exited\<close> is what is known of their end. Its leader has the token \<open>leader\<close>.
\<close>

definition example_proc :: "bool \<Rightarrow> unit proc_env" where
  "example_proc exited = \<lparr>px_rt = const_rt 0, px_pki = example_pki, px_api = mem_api [],
     px_url_Parse = (\<lambda>s. Inl (Errorf ''no url'')), px_ParseIP = (\<lambda>_. None), px_Stat = (\<lambda>_ w. (None, w)),
     px_Environ = (\<lambda>w. ([], w)), px_StartCmd = (\<lambda>_ w. (Inr 42, w)), px_RunCmd = (\<lambda>_ _ _ w. (Inr True, w)),
     px_Kill = (\<lambda>_ w. (None, w)), px_ExitState = (\<lambda>_ w. ((exited, False), w)), px_patience = 3\<rparr>"

definition example_vfs :: "unit vfs_env" where
  "example_vfs = \<lparr>vf_rt = const_rt 0, vf_BuildVfsPath = Inr, vf_Join = (\<lambda>base ns. join ''/'' (base # ns)), vf_Base = path_Base,
     vf_ReadTree = (\<lambda>p w. (Inr [], w)), vf_ReadFile = (\<lambda>p w. (Inl NotExist, w)), vf_WriteFile = (\<lambda>p d w. (None, w)),
     vf_Remove = (\<lambda>p w. (None, w)), vf_RemoveAllVersions = (\<lambda>p w. (None, w)),
     vf_WriteTo = (\<lambda>_ _ w. (None, w)), vf_InfoToJson = info_json, vf_InfoFromJson = info_of_json,
     os_ReadFile = (\<lambda>p w. (Inr ''snapshot'', w)), os_MkdirAll = (\<lambda>_ w. (None, w)),
     os_CreateTemp = (\<lambda>d w. (Inr (d @ ''/tmp1''), w)), os_CloseTemp = (\<lambda>_ w. (None, w)),
     os_Rename = (\<lambda>_ _ w. (None, w)), os_Remove = (\<lambda>_ w. (None, w))\<rparr>"

definition example_peers :: Server where
  "example_peers = \<lparr>myInfo = \<lparr>pi_Id = ''n1'', pi_Endpoints = []\<rparr>, defaultPort = 0, peers = [],
     leadership_of = Some \<lparr>l_notification = Some \<lparr>ln_View = Some \<lparr>v_Leader = None, v_LeadershipToken = ''leader'',
       v_Healthy = []\<rparr>\<rparr>, l_timestamp = 0\<rparr>, HealthyTimeout = minute, srv_dnsSuffix = [], goroutines = []\<rparr>"

definition example_gz :: "unit gz_env" where
  "example_gz = \<lparr>gz_Open = (\<lambda>_ w. (None, w)), gz_Create = (\<lambda>_ w. (None, w)), gz_NewReader = (\<lambda>_ w. (None, w)),
     gz_Copy = (\<lambda>_ _ w. (None, w)), gz_CloseReader = (\<lambda>_ w. (None, w)), gz_Close = (\<lambda>_ w. (None, w))\<rparr>"

definition example_env :: "bool \<Rightarrow> unit server_env" where
  "example_env exited = \<lparr>sx_proc = example_proc exited, sx_vfs = example_vfs, sx_peerServer = (\<lambda>_. example_peers),
     sx_UpdateHosts = (\<lambda>_ w. (None, w)), sx_ReadFile = (\<lambda>_ w. (Inl NotExist, w)), sx_WriteFile = (\<lambda>_ _ w. (None, w)),
     sx_Marshal = (\<lambda>_. Inr ''state''), sx_Unmarshal = (\<lambda>_. Inr empty_EtcdState), sx_MkdirAll = (\<lambda>_ w. (None, w)),
     sx_Rename = (\<lambda>_ _ w. (None, w)), sx_RemoveAll = (\<lambda>_ w. (None, w)), sx_MkdirTemp = (\<lambda>w. (Inr ''/tmp/x'', w)),
     sx_TempDir = ''/tmp'', sx_gz = example_gz, sx_copyFuel = 5\<rparr>"

definition example_node :: EtcdNode where
  "example_node = \<lparr>en_Name = ''n1'', en_PeerUrls = [''http://n1:2380''], en_ClientUrls = [''http://n1:4001''],
     en_QuarantinedClientUrls = [''http://n1:3994''], en_TlsEnabled = False\<rparr>"

definition example_server :: EtcdServer where
  "example_server = \<lparr>s_baseDir = ''/data'', s_etcdNodeConfiguration = example_node, s_clusterName = ''main'', s_state = None,
     s_prepared = None, s_process = None, s_listenAddress = ''0.0.0.0'', s_etcdClientsCA = None, s_etcdPeersCA = None,
     s_listenMetricsURLs = [], s_peerClientIPs = [], s_sequence = 0\<rparr>"

abbreviation example_start :: "unit server" where
  "example_start \<equiv> \<lparr>self = example_server, world = (), trace = []\<rparr>"

abbreviation from_leader :: "CommonRequestHeader option" where
  "from_leader \<equiv> Some \<lparr>h_LeadershipToken = ''leader'', h_ClusterName = ''main''\<rparr>"

definition example_join :: "Phase \<Rightarrow> JoinClusterRequest" where
  "example_join ph = \<lparr>jc_Header = from_leader, jc_Phase = ph, jc_ClusterToken = ''tok'', jc_Nodes = [example_node],
     jc_EtcdVersion = ''3.5.0''\<rparr>"

text \<open>After the two phases of creating a cluster.\<close>

definition example_created :: "unit server" where
  "example_created = (let s1 = snd (initState (example_env False) example_start);
       s2 = snd (JoinCluster (example_env False) (example_join PHASE_PREPARE) s1)
     in snd (JoinCluster (example_env False) (example_join PHASE_INITIAL_CLUSTER) s2))"

section \<open>Who may change a node\<close>

lemma validateHeader_eval:
  "validateHeader e (Some h) s = (Ret (if h_ClusterName h \<noteq> s_clusterName (self s) then Some (Errorf ''ClusterName mismatch'')
     else if IsLeader (sx_peerServer e (world s)) (h_LeadershipToken h) then None
     else Some (Errorf ''LeadershipToken in request is not current leader'')), s)"
  by (simp add: validateHeader_def bind_apply get_self_def ask_def ret_apply)

text \<open>
  C19. A request that is for another cluster, or whose token is not that of the leader this node has
  accepted, is answered with an error and changes nothing: no state, no file, no process.
\<close>

theorem foreign_requests_change_nothing:
  assumes "h_ClusterName h \<noteq> s_clusterName (self s) \<or> \<not> IsLeader (sx_peerServer e (world s)) (h_LeadershipToken h)"
  shows "\<exists>err.
      (\<forall>jc. jc_Header jc = Some h \<longrightarrow> JoinCluster e jc s = (Ret (Some err), s))
    \<and> (\<forall>rc. rc_Header rc = Some h \<longrightarrow> Reconfigure e rc s = (Ret (Some err), s))
    \<and> StopEtcd e (Some h) s = (Ret (Some err), s)
    \<and> (\<forall>db. db_Header db = Some h \<longrightarrow> DoBackup e db s = (Ret (Inl err), s))
    \<and> (\<forall>dr. dr_Header dr = Some h \<longrightarrow> DoRestore e dr s = (Ret (Some err), s))"
proof -
  obtain err where v: "validateHeader e (Some h) s = (Ret (Some err), s)"
    using assms by (cases "h_ClusterName h = s_clusterName (self s)") (auto simp: validateHeader_eval)
  show ?thesis
    by (rule exI [of _ err])
      (simp add: JoinCluster_def Reconfigure_def StopEtcd_def DoBackup_def DoRestore_def bind_apply v ret_apply)
qed

theorem foreign_requests_change_nothing_witness:
  "\<exists>err. StopEtcd (example_env False) (Some \<lparr>h_LeadershipToken = ''old'', h_ClusterName = ''main''\<rparr>) example_start
     = (Ret (Some err), example_start)"
  using foreign_requests_change_nothing [of "\<lparr>h_LeadershipToken = ''old'', h_ClusterName = ''main''\<rparr>" example_start
      "example_env False"]
  by (auto simp: example_env_def example_peers_def IsLeader_def)

section \<open>Joining\<close>

definition same_state :: "'w server \<Rightarrow> 'w server \<Rightarrow> bool" where
  "same_state s s' \<longleftrightarrow> s_state (self s') = s_state (self s) \<and> trace s' = trace s"

interpretation same: step_rel same_state
  by unfold_locales (auto simp: same_state_def)

lemma asks_same: "keeps asks m \<Longrightarrow> keeps same_state m"
  by (erule keeps_weaken) (auto simp: asks_def same_state_def)

lemma same_upd: "(\<And>s. s_state (f s) = s_state s) \<Longrightarrow> keeps same_state (upd_self f)"
  by (simp add: keeps_def same_state_def upd_self_def)

lemmas same_rules = keeps_rules same.keeps_core asks_same [OF keeps_asks_ask] asks_same [OF keeps_asks_get_self]
  asks_same [OF keeps_asks_now]

lemma cancel_prepare_same: "keeps same_state (cancel_prepare req)"
  unfolding cancel_prepare_def by (intro same_rules same_upd) simp

lemma phase_prepare_same: "keeps same_state (phase_prepare e req)"
  unfolding phase_prepare_def by (intro same_rules same_upd) simp

text \<open>The prepared state that is still valid at time \<open>t\<close>.\<close>

definition valid_prepared :: "time \<Rightarrow> EtcdServer \<Rightarrow> preparedState option" where
  "valid_prepared t s = (case s_prepared s of None \<Rightarrow> None | Some p \<Rightarrow> if t > ps_validUntil p then None else Some p)"

lemma expire_prepared_eval:
  assumes "clock_at (sx_rt e) t"
  shows "\<exists>w. expire_prepared e s = (Ret (), s\<lparr>world := w, self := (self s)\<lparr>s_prepared := valid_prepared t (self s)\<rparr>\<rparr>)"
proof (cases "s_prepared (self s)")
  case None
  then show ?thesis
    by (intro exI [of _ "world s"]) (simp add: expire_prepared_def bind_apply get_self_def ret_apply valid_prepared_def)
next
  case (Some p)
  obtain w where "time_now (sx_rt e) s = (Ret t, s\<lparr>world := w\<rparr>)" using clock_read [OF assms] by blast
  then show ?thesis
    using Some by (intro exI [of _ w])
      (auto simp: expire_prepared_def bind_apply get_self_def ret_apply upd_self_def valid_prepared_def)
qed

text \<open>A run of \<^verbatim>\<open>JoinCluster\<close> that gets to its phase.\<close>

lemma JoinCluster_cases:
  assumes "clock_at (sx_rt e) t" and "JoinCluster e req s = (r, s')"
  obtains (early) "same_state s s'" "r = Ret None \<Longrightarrow> jc_Phase req = PHASE_CANCEL_PREPARE"
  | (phase) w where "jc_Phase req \<noteq> PHASE_CANCEL_PREPARE"
      "(case jc_Phase req of PHASE_PREPARE \<Rightarrow> phase_prepare e req
         | PHASE_INITIAL_CLUSTER \<Rightarrow> phase_initial_cluster e req
         | PHASE_JOIN_EXISTING \<Rightarrow> phase_join_existing e req
         | _ \<Rightarrow> ret (Some (Errorf ''unknown status'')))
       (s\<lparr>world := w, self := (self s)\<lparr>s_prepared := valid_prepared t (self s)\<rparr>\<rparr>) = (r, s')"
proof -
  obtain v s1 where v: "validateHeader e (jc_Header req) s = (v, s1)" by fastforce
  have s1: "self s1 = self s" "trace s1 = trace s"
    using keepsE [OF validateHeader_asks v] by (simp_all add: asks_def)
  show thesis
  proof (cases "v = Ret None \<and> jc_Phase req \<noteq> PHASE_CANCEL_PREPARE")
    case False
    have "same_state s s' \<and> (r = Ret None \<longrightarrow> jc_Phase req = PHASE_CANCEL_PREPARE)"
    proof (cases "v = Ret None")
      case True
      with False v assms(2) have "cancel_prepare req s1 = (r, s')" by (simp add: JoinCluster_def bind_apply)
      from keepsE [OF cancel_prepare_same this] s1 True False show ?thesis by (simp add: same_state_def)
    next
      case neq: False
      with v assms(2) s1 show ?thesis
        by (auto simp: JoinCluster_def bind_apply ret_apply same_state_def split: outcome.splits option.splits)
    qed
    then show thesis by (blast intro: early)
  next
    case True
    obtain w1 where ex: "expire_prepared e s1
        = (Ret (), s1\<lparr>world := w1, self := (self s1)\<lparr>s_prepared := valid_prepared t (self s1)\<rparr>\<rparr>)"
      using expire_prepared_eval [OF assms(1)] by blast
    define s2 where "s2 = s1\<lparr>world := w1, self := (self s1)\<lparr>s_prepared := valid_prepared t (self s1)\<rparr>\<rparr>"
    obtain b s3 where b: "BindirForEtcdVersion (px_Stat (sx_proc e)) (jc_EtcdVersion req) ''etcd'' s2 = (b, s3)"
      by fastforce
    have s3: "self s3 = self s2" "trace s3 = trace s2"
      using keepsE [OF Bindir_asks b] by (simp_all add: asks_def)
    have eq: "s3 = s\<lparr>world := world s3, self := (self s)\<lparr>s_prepared := valid_prepared t (self s)\<rparr>\<rparr>"
      using s1 s3 by (simp add: s2_def)
    have run: "(case b of Ret x \<Rightarrow> (case x of
           Inl _ \<Rightarrow> ret (Some (Errorf ''etcd version not supported''))
         | Inr _ \<Rightarrow> (case jc_Phase req of PHASE_PREPARE \<Rightarrow> phase_prepare e req
           | PHASE_INITIAL_CLUSTER \<Rightarrow> phase_initial_cluster e req
           | PHASE_JOIN_EXISTING \<Rightarrow> phase_join_existing e req
           | _ \<Rightarrow> ret (Some (Errorf ''unknown status'')))) s3 | Panic msg \<Rightarrow> (Panic msg, s3)) = (r, s')"
      using True v ex b assms(2) by (simp add: JoinCluster_def bind_apply s2_def)
    have "same_state s s3" using s1 s3 by (simp add: same_state_def s2_def)
    then consider (go) d where "b = Ret (Inr d)" | (stop) "same_state s s'" "r \<noteq> Ret None"
      using run by (cases b) (auto simp: ret_apply split: sum.splits)
    then show thesis
    proof cases
      case go
      with run have "(case jc_Phase req of PHASE_PREPARE \<Rightarrow> phase_prepare e req
         | PHASE_INITIAL_CLUSTER \<Rightarrow> phase_initial_cluster e req
         | PHASE_JOIN_EXISTING \<Rightarrow> phase_join_existing e req
         | _ \<Rightarrow> ret (Some (Errorf ''unknown status''))) s3 = (r, s')"
        by simp
      with True eq show thesis by (metis phase)
    qed (blast intro: early)
  qed
qed

text \<open>
  C18. A node joins nothing it did not prepare for. If a run of \<^verbatim>\<open>JoinCluster\<close> (at a time \<open>t\<close>) changes the
  state of the node or makes any call at all, then it is in one of the two joining phases, no etcd
  process was running, and the node held an unexpired preparation for exactly that cluster token.
\<close>

theorem joining_requires_preparation:
  assumes "clock_at (sx_rt e) t" and "JoinCluster e req s = (r, s')"
    and "s_state (self s') \<noteq> s_state (self s) \<or> trace s' \<noteq> trace s"
  shows "(jc_Phase req = PHASE_INITIAL_CLUSTER \<or> jc_Phase req = PHASE_JOIN_EXISTING) \<and> s_process (self s) = None
    \<and> (\<exists>p. s_prepared (self s) = Some p \<and> ps_clusterToken p = jc_ClusterToken req \<and> t \<le> ps_validUntil p)"
proof -
  have neq: "\<not> same_state s s'" using assms(3) by (auto simp: same_state_def)
  from assms(1,2) show ?thesis
  proof (cases rule: JoinCluster_cases)
    case early
    with neq show ?thesis by simp
  next
    case (phase w)
    let ?s = "s\<lparr>world := w, self := (self s)\<lparr>s_prepared := valid_prepared t (self s)\<rparr>\<rparr>"
    have st: "same_state s ?s" by (simp add: same_state_def)
    have "jc_Phase req = PHASE_INITIAL_CLUSTER \<or> jc_Phase req = PHASE_JOIN_EXISTING"
    proof (rule ccontr)
      assume "\<not> ?thesis"
      with phase have "same_state ?s s'"
        using keepsE [OF phase_prepare_same, of e req ?s r s'] by (cases "jc_Phase req") (auto simp: ret_apply same.step_refl)
      with st neq show False by (blast intro: same.step_trans)
    qed
    moreover have "check_prepared req (self ?s) = None"
    proof (rule ccontr)
      assume "check_prepared req (self ?s) \<noteq> None"
      then obtain err where "check_prepared req (self ?s) = Some err" by blast
      with phase(2) calculation have "s' = ?s"
        by (auto simp: phase_initial_cluster_def phase_join_existing_def bind_apply get_self_def ret_apply)
      with st neq show False by simp
    qed
    ultimately show ?thesis
      by (auto simp: check_prepared_def valid_prepared_def split: if_splits option.splits)
  qed
qed

text \<open>A node that has prepared for the example cluster.\<close>

definition example_prepared :: "unit server" where
  "example_prepared = snd (JoinCluster (example_env False) (example_join PHASE_PREPARE) example_start)"

theorem joining_requires_preparation_witness:
  "\<exists>p. s_prepared (self example_prepared) = Some p \<and> ps_clusterToken p = ''tok'' \<and> 0 \<le> ps_validUntil p"
proof -
  let ?r = "JoinCluster (example_env False) (example_join PHASE_INITIAL_CLUSTER) example_prepared"
  have "trace (snd ?r) \<noteq> trace example_prepared" by code_simp
  moreover have "clock_at (sx_rt (example_env False)) 0"
    by (simp add: example_env_def example_proc_def clock_at_const_rt)
  ultimately show ?thesis
    using joining_requires_preparation [of "example_env False" 0 "example_join PHASE_INITIAL_CLUSTER" example_prepared
        "fst ?r" "snd ?r"] by (simp add: example_join_def)
qed

section \<open>What a successful request leaves\<close>

fun note_write :: "node_event \<Rightarrow> EtcdState option \<Rightarrow> EtcdState option" where
  "note_write (EvWriteState p st None) acc = Some st"
| "note_write _ acc = acc"

definition last_written :: "node_event list \<Rightarrow> EtcdState option" where
  "last_written evs = foldl (\<lambda>acc ev. note_write ev acc) None evs"

lemma last_written_snoc: "last_written (evs @ [ev]) = note_write ev (last_written evs)"
  by (simp add: last_written_def)

lemma writeState_ok:
  "writeState e b st s = (Ret None, s') \<Longrightarrow> self s' = self s \<and> last_written (trace s') = Some st"
  by (auto simp: writeState_def bind_apply act_def ret_apply last_written_snoc
      split: sum.splits prod.splits option.splits)

lemma process_Start_ok:
  "process_Start e p s = (Ret (Inr p'), s') \<Longrightarrow>
     self s' = self s \<and> last_written (trace s') = last_written (trace s) \<and> (\<exists>pid. p' = p\<lparr>pr_cmd := Some pid\<rparr>)"
  by (auto simp: process_Start_def bind_apply act_def ask_def range_map_def ret_apply panic_apply Let_def last_written_snoc
      split: sum.splits prod.splits option.splits) blast

text \<open>The process is what the state asks for.\<close>

definition runs_state :: "EtcdServer \<Rightarrow> EtcdState \<Rightarrow> etcdProcess \<Rightarrow> bool" where
  "runs_state s st p \<longleftrightarrow> pr_cmd p \<noteq> None \<and> pr_EtcdVersion p = es_EtcdVersion st \<and> pr_CreateNewCluster p = es_NewCluster st
     \<and> pr_Quarantined p = es_Quarantined st \<and> (\<exists>c. es_Cluster st = Some c
        \<and> ec_ClusterToken (pr_Cluster p) = ec_ClusterToken c \<and> map en_Name (ec_Nodes (pr_Cluster p)) = map en_Name (ec_Nodes c)
        \<and> map en_PeerUrls (ec_Nodes (pr_Cluster p)) = map en_PeerUrls (ec_Nodes c)
        \<and> pr_DataDir p = filepath_Join [s_baseDir s, DataDirName, ec_ClusterToken c]
        \<and> validateSubDirectory (data_parent (s_baseDir s)) (pr_DataDir p) = None)"

lemma launch_ok:
  assumes "launch e s0 d pd st me s = (Ret None, s')" and "es_Cluster st = Some c"
  shows "\<exists>p. self s' = (self s)\<lparr>s_process := Some p\<rparr> \<and> last_written (trace s') = last_written (trace s)
    \<and> pr_cmd p \<noteq> None \<and> pr_EtcdVersion p = es_EtcdVersion st \<and> pr_CreateNewCluster p = es_NewCluster st
    \<and> pr_Quarantined p = es_Quarantined st \<and> pr_DataDir p = d \<and> ec_ClusterToken (pr_Cluster p) = ec_ClusterToken c
    \<and> map en_Name (ec_Nodes (pr_Cluster p)) = map en_Name (ec_Nodes c)
    \<and> map en_PeerUrls (ec_Nodes (pr_Cluster p)) = map en_PeerUrls (ec_Nodes c)"
proof -
  define st' where "st' = map_self_node s0 (override_urls s0) st"
  define c' where "c' = c\<lparr>ec_Nodes := map (\<lambda>n. if en_Name n = en_Name (s_etcdNodeConfiguration s0) then override_urls s0 n else n) (ec_Nodes c)\<rparr>"
  define p0 where "p0 = new_process s0 d st' c' (override_urls s0 me)"
  have st': "es_Cluster st' = Some c'" "es_EtcdVersion st' = es_EtcdVersion st" "es_NewCluster st' = es_NewCluster st"
      "es_Quarantined st' = es_Quarantined st"
    using assms(2) by (simp_all add: st'_def c'_def map_self_node_def)
  obtain p1 s1 b s2 p2 s3 where
      k: "createKeypairs (sx_proc e) (s_etcdPeersCA s0) (s_etcdClientsCA s0) pd (override_urls s0 me) (s_peerClientIPs s0) p0 s = (Ret (Inr p1), s1)"
    and b: "BindirForEtcdVersion (px_Stat (sx_proc e)) (es_EtcdVersion st') ''etcd'' s1 = (Ret (Inr b), s2)"
    and st: "process_Start (sx_proc e) (p1\<lparr>pr_BinDir := b, pr_EtcdVersion := es_EtcdVersion st', pr_CreateNewCluster := es_NewCluster st'\<rparr>) s2 = (Ret (Inr p2), s3)"
    and s': "s' = s3\<lparr>self := (self s3)\<lparr>s_process := Some p2\<rparr>\<rparr>"
    using assms(1) unfolding launch_def Let_def st'_def [symmetric] st'(1) option.case p0_def [symmetric]
    by (auto simp: bind_apply ret_apply upd_self_def split: prod.splits outcome.splits sum.splits)
  have "self s2 = self s" "trace s2 = trace s"
    using keepsE [OF createKeypairs_asks k] keepsE [OF Bindir_asks b] by (simp_all add: asks_def)
  moreover have "pki_only p0 p1" using createKeypairs_result [OF k] .
  ultimately show ?thesis
    using process_Start_ok [OF st] s' st'
    by (auto simp: pki_only_def p0_def new_process_def c'_def override_urls_def)
qed

lemma startEtcdProcess_ok:
  assumes "startEtcdProcess e st s = (Ret None, s')"
  shows "\<exists>p. self s' = (self s)\<lparr>s_process := Some p\<rparr> \<and> last_written (trace s') = last_written (trace s)
    \<and> runs_state (self s) st p"
proof -
  obtain c where c: "es_Cluster st = Some c"
    using assms by (cases "es_Cluster st") (auto simp: startEtcdProcess_def bind_apply get_self_def ret_apply)
  let ?d = "filepath_Join [s_baseDir (self s), DataDirName, ec_ClusterToken c]"
  let ?pd = "filepath_Join [s_baseDir (self s), PkiDirName, ec_ClusterToken c]"
  have v: "validateSubDirectory (data_parent (s_baseDir (self s))) ?d = None"
    "validateSubDirectory (pki_parent (s_baseDir (self s))) ?pd = None" "ec_ClusterToken c \<noteq> []"
    using assms c by (auto simp: startEtcdProcess_def Let_def bind_apply get_self_def ret_apply split: if_splits option.splits)
  obtain me s1 where f: "findSelfNode (self s) st s = (Ret (Inr (Some me)), s1)"
    and l: "launch e (self s) ?d ?pd st me s1 = (Ret None, s')"
    using assms c v by (auto simp: startEtcdProcess_def Let_def bind_apply get_self_def ret_apply
        split: prod.splits outcome.splits sum.splits option.splits)
  have "self s1 = self s" "trace s1 = trace s" using keepsE [OF findSelfNode_asks f] by (simp_all add: asks_def)
  with launch_ok [OF l c] v c show ?thesis by (auto simp: runs_state_def)
qed

lemma persist_and_start_ok:
  assumes "persist_and_start e st s = (Ret None, s')"
  shows "\<exists>p. self s' = (self s)\<lparr>s_process := Some p\<rparr> \<and> last_written (trace s') = Some st \<and> runs_state (self s) st p"
proof -
  obtain s1 where w: "writeState e (s_baseDir (self s)) st s = (Ret None, s1)" and st: "startEtcdProcess e st s1 = (Ret None, s')"
    using assms by (auto simp: persist_and_start_def bind_apply get_self_def ret_apply split: prod.splits outcome.splits option.splits)
  from writeState_ok [OF w] startEtcdProcess_ok [OF st] show ?thesis by auto
qed

lemma set_state_eval: "set_state st s = (Ret (), s\<lparr>self := (self s)\<lparr>s_state := Some st\<rparr>\<rparr>)"
  by (simp add: set_state_def upd_self_def)

lemma runs_state_same: "s_baseDir s' = s_baseDir s \<Longrightarrow> runs_state s' = runs_state s"
  by (simp add: runs_state_def fun_eq_iff)

lemma check_version_asks: "keeps asks (check_version e req)"
  unfolding check_version_def by (intro asks_rules Bindir_asks)

lemma ExitState_frame: "keeps (frame f) (ExitState e p)"
  unfolding ExitState_def by (intro frame_rules)

lemma wait_exit_frame: "keeps (frame f) (wait_exit n e p)"
  by (induction n) (auto intro!: frame_rules ExitState_frame)

lemma stopEtcdProcess_frame: "keeps (frame s_baseDir) (stopEtcdProcess e)"
  unfolding stopEtcdProcess_def process_Stop_def
  by (intro frame_rules ExitState_frame wait_exit_frame keeps_frame_upd_self) simp

text \<open>The last state written, the state and the process are left alone by archiving the data directory.\<close>

definition same_writes :: "'w server \<Rightarrow> 'w server \<Rightarrow> bool" where
  "same_writes s s' \<longleftrightarrow> self s' = self s \<and> last_written (trace s') = last_written (trace s)"

interpretation writes: step_rel same_writes
  by unfold_locales (auto simp: same_writes_def)

lemma writes_act: "(\<And>x acc. note_write (ev x) acc = acc) \<Longrightarrow> keeps same_writes (act f ev)"
  by (auto simp: keeps_def same_writes_def act_def last_written_snoc split: prod.splits)

lemma archive_data_writes: "keeps (\<lambda>s s'. self s' = self s \<and> last_written (trace s') = last_written (trace s)) (archive_data e b t)"
  unfolding archive_data_def same_writes_def [abs_def, symmetric]
  by (intro keeps_rules writes.keeps_core writes_act) simp_all

lemma runs_state_upd [simp]:
  "runs_state (s\<lparr>s_state := x\<rparr>) = runs_state s" "runs_state (s\<lparr>s_prepared := y\<rparr>) = runs_state s"
  "runs_state (s\<lparr>s_process := z\<rparr>) = runs_state s"
  by (rule runs_state_same, simp)+

lemma phase_initial_cluster_ok:
  assumes "phase_initial_cluster e req s = (Ret None, s')"
  shows "s_state (self s') = Some (joined_state False True req) \<and> s_prepared (self s') = None
    \<and> last_written (trace s') = Some (joined_state False True req)
    \<and> (\<exists>p. s_process (self s') = Some p \<and> runs_state (self s) (joined_state True True req) p)"
proof -
  have c: "check_prepared req (self s) = None"
    using assms by (cases "check_prepared req (self s)") (auto simp: phase_initial_cluster_def bind_apply get_self_def ret_apply)
  let ?s1 = "s\<lparr>self := (self s)\<lparr>s_state := Some (joined_state True True req)\<rparr>\<rparr>"
  obtain s2 s3 where p: "persist_and_start e (joined_state True True req) ?s1 = (Ret None, s2)"
    and w: "writeState e (s_baseDir (self s)) (joined_state False True req)
        (s2\<lparr>self := (self s2)\<lparr>s_state := Some (joined_state False True req)\<rparr>\<rparr>) = (Ret None, s3)"
    and s': "s' = s3\<lparr>self := (self s3)\<lparr>s_prepared := None\<rparr>\<rparr>"
    using assms c by (auto simp: phase_initial_cluster_def bind_apply get_self_def ret_apply set_state_eval upd_self_def
        split: prod.splits outcome.splits option.splits)
  from persist_and_start_ok [OF p] writeState_ok [OF w] s' show ?thesis by auto
qed

lemma phase_join_existing_ok:
  assumes "phase_join_existing e req s = (Ret None, s')"
  shows "s_state (self s') = Some (joined_state False False req) \<and> s_prepared (self s') = None
    \<and> last_written (trace s') = Some (joined_state False False req)
    \<and> (\<exists>p. s_process (self s') = Some p \<and> runs_state (self s) (joined_state False False req) p)"
proof -
  have c: "check_prepared req (self s) = None"
    using assms by (cases "check_prepared req (self s)") (auto simp: phase_join_existing_def bind_apply get_self_def ret_apply)
  let ?s1 = "s\<lparr>self := (self s)\<lparr>s_state := Some (joined_state False False req)\<rparr>\<rparr>"
  obtain s2 where p: "persist_and_start e (joined_state False False req) ?s1 = (Ret None, s2)"
    and s': "s' = s2\<lparr>self := (self s2)\<lparr>s_prepared := None\<rparr>\<rparr>"
    using assms c by (auto simp: phase_join_existing_def bind_apply get_self_def ret_apply set_state_eval upd_self_def
        split: prod.splits outcome.splits option.splits)
  from persist_and_start_ok [OF p] s' show ?thesis by auto
qed

text \<open>
  C20. What a successful join leaves: the state the request describes, in memory and in the state file
  (no longer marked as new), no preparation, and a running etcd process for exactly that state: it
  bootstraps a new cluster and is quarantined in the initial phase, and joins and serves clients in
  the other; its data directory is the one of the cluster token below the data directory.
\<close>

theorem join_success:
  assumes "clock_at (sx_rt e) t" and "JoinCluster e req s = (Ret None, s')"
    and "jc_Phase req = PHASE_INITIAL_CLUSTER \<and> q \<or> jc_Phase req = PHASE_JOIN_EXISTING \<and> \<not> q"
  shows "s_state (self s') = Some (joined_state False q req) \<and> s_prepared (self s') = None
    \<and> last_written (trace s') = Some (joined_state False q req)
    \<and> (\<exists>p. s_process (self s') = Some p \<and> runs_state (self s) (joined_state q q req) p)"
proof -
  from assms(1,2) show ?thesis
  proof (cases rule: JoinCluster_cases)
    case early
    with assms(3) show ?thesis by auto
  next
    case (phase w)
    let ?s = "s\<lparr>world := w, self := (self s)\<lparr>s_prepared := valid_prepared t (self s)\<rparr>\<rparr>"
    from assms(3) phase(2) consider "q" "phase_initial_cluster e req ?s = (Ret None, s')"
      | "\<not> q" "phase_join_existing e req ?s = (Ret None, s')" by auto
    then show ?thesis
      using phase_initial_cluster_ok [of e req ?s s'] phase_join_existing_ok [of e req ?s s'] by cases auto
  qed
qed

theorem join_success_witness:
  "s_state (self example_created) = Some (joined_state False True (example_join PHASE_INITIAL_CLUSTER))
    \<and> last_written (trace example_created) = Some (joined_state False True (example_join PHASE_INITIAL_CLUSTER))"
proof -
  let ?s = "snd (JoinCluster (example_env False) (example_join PHASE_PREPARE) (snd (initState (example_env False) example_start)))"
  have "fst (JoinCluster (example_env False) (example_join PHASE_INITIAL_CLUSTER) ?s) = Ret None" by code_simp
  then have "JoinCluster (example_env False) (example_join PHASE_INITIAL_CLUSTER) ?s = (Ret None, example_created)"
    by (simp add: example_created_def Let_def prod_eq_iff)
  moreover have "clock_at (sx_rt (example_env False)) 0"
    by (simp add: example_env_def example_proc_def clock_at_const_rt)
  moreover have "jc_Phase (example_join PHASE_INITIAL_CLUSTER) = PHASE_INITIAL_CLUSTER" by (simp add: example_join_def)
  ultimately show ?thesis
    using join_success [of "example_env False" 0 "example_join PHASE_INITIAL_CLUSTER" ?s example_created True] by simp
qed



text \<open>
  C38. Stopping twice: after a successful \<^verbatim>\<open>StopEtcd\<close> the node has forgotten its cluster, on disk as well, and
  nothing is running; a second stop request of the same leader then dereferences the missing
  cluster, so the handler panics instead of answering.
\<close>

theorem second_stop_panics:
  assumes "StopEtcd e h s = (Ret None, s')" and "validateHeader e h s' = (Ret None, s')"
  shows "s_state (self s') = Some empty_EtcdState \<and> last_written (trace s') = Some empty_EtcdState
    \<and> s_process (self s') = None \<and> StopEtcd e h s' = (Panic ''nil pointer dereference'', s')"
proof -
  obtain s1 st c b s2 s3 where st: "s_state (self s1) = Some st" "es_Cluster st = Some c"
    and stop: "stopEtcdProcess e s1 = (Ret (b, None), s2)"
    and w: "writeState e (s_baseDir (self s1)) empty_EtcdState
        (s2\<lparr>self := (self s2)\<lparr>s_state := Some empty_EtcdState\<rparr>\<rparr>) = (Ret None, s3)"
    and a: "archive_data e (s_baseDir (self s1)) (ec_ClusterToken c) s3 = (Ret None, s')"
    using assms(1) by (auto simp: StopEtcd_def bind_apply ret_apply get_self_def set_state_eval panic_apply
        split: prod.splits outcome.splits option.splits)
  have p: "s_process (self s2) = None"
    using stop by (auto simp: stopEtcdProcess_def bind_apply get_self_def ret_apply upd_self_def
        split: option.splits prod.splits outcome.splits)
  have "s_state (self s') = Some empty_EtcdState \<and> last_written (trace s') = Some empty_EtcdState
    \<and> s_process (self s') = None"
    using keepsE [OF archive_data_writes a] writeState_ok [OF w] p by simp
  then show ?thesis
    using assms(2) by (simp add: StopEtcd_def bind_apply get_self_def empty_EtcdState_def panic_apply)
qed

theorem second_stop_panics_witness:
  "fst (StopEtcd (example_env True) from_leader (snd (StopEtcd (example_env True) from_leader example_created)))
     = Panic ''nil pointer dereference''"
proof -
  let ?r = "StopEtcd (example_env True) from_leader example_created"
  have "fst ?r = Ret None" by code_simp
  then have r: "?r = (Ret None, snd ?r)" by (simp add: prod_eq_iff)
  moreover have "fst (validateHeader (example_env True) from_leader (snd ?r)) = Ret None" by code_simp
  then have "validateHeader (example_env True) from_leader (snd ?r) = (Ret None, snd ?r)"
    by (simp add: validateHeader_eval)
  ultimately show ?thesis using second_stop_panics by (metis fst_conv)
qed

text \<open>
  C17. At most one etcd: in every state a node can reach, whatever requests it served and however they
  ended, of all etcd processes it ever started to run its cluster at most one has not been seen to
  end, and that one is the process the node is holding.
\<close>

theorem one_process_at_a_time:
  assumes "server_reach e s"
  shows "running (trace s) = []
    \<or> (\<exists>p pid. s_process (self s) = Some p \<and> pr_cmd p = Some pid \<and> running (trace s) = [pid])"
  using server_reach_single [OF assms] by (simp add: single_def)

lemma example_created_reach: "server_reach (example_env False) example_created"
  unfolding example_created_def Let_def
  by (intro reach_run [OF _ run_JoinCluster] reach_new) (simp add: fresh_server_def example_server_def)

theorem one_process_at_a_time_witness:
  "running (trace example_created) = [42]
    \<and> (\<exists>p. s_process (self example_created) = Some p \<and> pr_cmd p = Some 42)"
proof -
  have "running (trace example_created) = [42]" by code_simp
  with one_process_at_a_time [OF example_created_reach] show ?thesis by auto
qed

end
