(* ===== verification/Backup_Cleanup.thy ===== *)
theory Backup_Cleanup
  imports Backup_Store Human_Duration
begin

text \<open>
  Removing old backups (\<^verbatim>\<open>pkg/backupcontroller/cleanup.go\<close>, \<^verbatim>\<open>parse.go\<close>): which backups of a listing are
  kept, and the maintenance run that removes the others. The retention times are package variables
  of the code, set once from the environment, and a parameter here.
\<close>

section \<open>Retention times\<close>

record retention =
  HourlyBackupsRetention :: duration
  DailyBackupsRetention :: duration

definition default_retention :: retention where
  "default_retention = \<lparr>HourlyBackupsRetention = 24 * 7 * hour, DailyBackupsRetention = 24 * 2 * 365 * hour\<rparr>"

text \<open>\<^verbatim>\<open>init\<close>: the two environment variables; a value that does not parse is fatal.\<close>

definition init_retention :: "(string \<Rightarrow> go_error + duration) \<Rightarrow> string \<Rightarrow> string \<Rightarrow> ('s, retention) go" where
  "init_retention ParseDuration hourly daily =
     bind (env_duration ParseDuration hourly (HourlyBackupsRetention default_retention)) (\<lambda>h.
     bind (env_duration ParseDuration daily (DailyBackupsRetention default_retention)) (\<lambda>d.
     ret \<lparr>HourlyBackupsRetention = h, DailyBackupsRetention = d\<rparr>))"

section \<open>Backup names\<close>

record backupNameInfo =
  bn_Timestamp :: time
  bn_Suffix :: string

definition parseBackupNameInfo :: "string \<Rightarrow> backupNameInfo option" where
  "parseBackupNameInfo name =
     (let z = index_of ''Z-'' name;
          timeString = (case z of None \<Rightarrow> name | Some i \<Rightarrow> take (i + 1) name);
          suffix = (case z of None \<Rightarrow> [] | Some i \<Rightarrow> drop (i + 2) name)
      in case ParseRFC3339 timeString of None \<Rightarrow> None
         | Some t \<Rightarrow> Some \<lparr>bn_Timestamp = t, bn_Suffix = suffix\<rparr>)"

section \<open>What is kept\<close>

record marks =
  mk_backups :: "(time \<times> string) list"
  mk_retain :: "string list"
  mk_ignore :: "string list"
  mk_buckets :: "(time \<times> time) list"

definition no_marks :: marks where
  "no_marks = \<lparr>mk_backups = [], mk_retain = [], mk_ignore = [], mk_buckets = []\<rparr>"

definition lookup_zero :: "(time \<times> time) list \<Rightarrow> time \<Rightarrow> time" where
  "lookup_zero m k = (case map_of m k of None \<Rightarrow> 0 | Some v \<Rightarrow> v)"

definition into_bucket :: "time \<Rightarrow> time \<Rightarrow> (time \<times> time) list \<Rightarrow> (time \<times> time) list" where
  "into_bucket bucketed t m =
     (let existing = lookup_zero m bucketed
      in if existing = 0 \<or> existing > t then AList.update bucketed t m else m)"

definition mark_backup :: "retention \<Rightarrow> time \<Rightarrow> marks \<Rightarrow> string \<Rightarrow> marks" where
  "mark_backup cfg now k b =
     (case parseBackupNameInfo b of
        None \<Rightarrow> k\<lparr>mk_ignore := b # mk_ignore k\<rparr>
      | Some i \<Rightarrow>
        let t = bn_Timestamp i; k1 = k\<lparr>mk_backups := AList.update t b (mk_backups k)\<rparr>; age = time_sub now t
        in if age < hour then k1\<lparr>mk_retain := b # mk_retain k1\<rparr>
           else if age < HourlyBackupsRetention cfg then
             k1\<lparr>mk_buckets := into_bucket (time_truncate t hour) t (mk_buckets k1)\<rparr>
           else if age < DailyBackupsRetention cfg then
             k1\<lparr>mk_buckets := into_bucket (time_truncate t (hour * 24)) t (mk_buckets k1)\<rparr>
           else k1)"

definition mark_all :: "retention \<Rightarrow> time \<Rightarrow> string list \<Rightarrow> marks" where
  "mark_all cfg now names = foldl (mark_backup cfg now) no_marks names"

text \<open>The names kept: marked while reading, or the backup of the time a bucket ended with.\<close>

definition retained :: "marks \<Rightarrow> string list" where
  "retained k = mk_retain k @ map (\<lambda>(_, t). case map_of (mk_backups k) t of None \<Rightarrow> [] | Some b \<Rightarrow> b) (mk_buckets k)"

definition to_remove :: "retention \<Rightarrow> time \<Rightarrow> string list \<Rightarrow> string list" where
  "to_remove cfg now names =
     (let k = mark_all cfg now names
      in filter (\<lambda>b. b \<notin> set (retained k) \<and> b \<notin> set (mk_ignore k)) names)"

section \<open>Maintenance\<close>

record BackupCleanup =
  bc_backupStore :: vfsStore
  bc_lastBackupCleanup :: time
  bc_backupCleanupInterval :: duration

definition NewBackupCleanup :: "vfsStore \<Rightarrow> BackupCleanup" where
  "NewBackupCleanup st = \<lparr>bc_backupStore = st, bc_lastBackupCleanup = 0, bc_backupCleanupInterval = hour\<rparr>"

definition MaybeDoBackupMaintenance :: "'w vfs_env \<Rightarrow> retention \<Rightarrow> BackupCleanup
    \<Rightarrow> (('st, 'w, 'ev) sys, go_error option \<times> BackupCleanup) go" where
  "MaybeDoBackupMaintenance e cfg m =
     bind (time_now (vf_rt e)) (\<lambda>now.
       if time_sub now (bc_lastBackupCleanup m) < bc_backupCleanupInterval m then ret (None, m)
       else let m1 = m\<lparr>bc_lastBackupCleanup := now\<rparr> in
         bind (ListBackups e (bc_backupStore m)) (\<lambda>r. case r of
           Inl err \<Rightarrow> ret (Some (Wrap ''error listing backups'' err), m1)
         | Inr names \<Rightarrow>
           bind (for_each (to_remove cfg now names) () (\<lambda>b _.
             bind (RemoveBackup e (bc_backupStore m) b) (\<lambda>_. ret (Next () :: (unit, unit) loop)))) (\<lambda>_.
           ret (None, m1))))"

section \<open>The retention policy\<close>

definition stamp :: "string \<Rightarrow> time option" where
  "stamp b = map_option bn_Timestamp (parseBackupNameInfo b)"

definition bucket_of :: "retention \<Rightarrow> time \<Rightarrow> time \<Rightarrow> time option" where
  "bucket_of cfg now t =
     (let age = time_sub now t in
      if age < hour then None
      else if age < HourlyBackupsRetention cfg then Some (time_truncate t hour)
      else if age < DailyBackupsRetention cfg then Some (time_truncate t (hour * 24))
      else None)"

lemma hour_pos: "0 < hour" by (simp add: duration_defs)

lemma bucket_le: "bucket_of cfg now t = Some k \<Longrightarrow> k \<le> t"
  using time_truncate_le [of hour t] time_truncate_le [of "hour * 24" t] hour_pos
  by (auto simp: bucket_of_def Let_def split: if_splits)

lemma mark_backup_cases:
  "mark_backup cfg now k b =
     (case stamp b of None \<Rightarrow> k\<lparr>mk_ignore := b # mk_ignore k\<rparr>
      | Some t \<Rightarrow> k\<lparr>mk_backups := AList.update t b (mk_backups k),
          mk_retain := (if time_sub now t < hour then [b] else []) @ mk_retain k,
          mk_buckets := (case bucket_of cfg now t of None \<Rightarrow> mk_buckets k
             | Some key \<Rightarrow> into_bucket key t (mk_buckets k))\<rparr>)"
  by (simp add: mark_backup_def stamp_def bucket_of_def Let_def split: option.splits)

text \<open>
  The invariant of the marking loop over the names read so far: the time map is exact, and every
  bucket holds the earliest time put into it.
\<close>

definition marks_ok :: "retention \<Rightarrow> time \<Rightarrow> string list \<Rightarrow> marks \<Rightarrow> bool" where
  "marks_ok cfg now bs k \<longleftrightarrow>
     (\<forall>t b. map_of (mk_backups k) t = Some b \<longrightarrow> b \<in> set bs \<and> stamp b = Some t)
   \<and> (\<forall>b \<in> set bs. \<forall>t. stamp b = Some t \<longrightarrow> map_of (mk_backups k) t \<noteq> None)
   \<and> (\<forall>b \<in> set bs. stamp b = None \<longrightarrow> b \<in> set (mk_ignore k))
   \<and> (\<forall>b \<in> set bs. \<forall>t. stamp b = Some t \<and> time_sub now t < hour \<longrightarrow> b \<in> set (mk_retain k))
   \<and> (\<forall>key t. map_of (mk_buckets k) key = Some t \<longrightarrow> 0 < t \<and> key \<le> t \<and> map_of (mk_backups k) t \<noteq> None)
   \<and> (\<forall>b \<in> set bs. \<forall>t key. stamp b = Some t \<and> bucket_of cfg now t = Some key
        \<longrightarrow> (\<exists>t'. map_of (mk_buckets k) key = Some t' \<and> t' \<le> t))"

lemma into_bucket_lookup:
  assumes "\<forall>key t. map_of m key = Some t \<longrightarrow> 0 < t"
  shows "map_of (into_bucket key t m) = (map_of m)(key \<mapsto> (case map_of m key of None \<Rightarrow> t | Some u \<Rightarrow> min u t))"
proof (cases "map_of m key")
  case None
  then show ?thesis by (simp add: into_bucket_def lookup_zero_def Let_def update_conv')
next
  case (Some u)
  with assms have "0 < u" by blast
  with Some show ?thesis
    by (auto simp: into_bucket_def lookup_zero_def Let_def update_conv' min_def fun_eq_iff)
qed

lemma bucketed_positive:
  assumes "int64_max < now" "HourlyBackupsRetention cfg \<le> int64_max" "DailyBackupsRetention cfg \<le> int64_max"
    and "bucket_of cfg now t = Some key"
  shows "0 < t"
proof -
  have "time_sub now t < int64_max"
    using assms(2-4) by (auto simp: bucket_of_def Let_def split: if_splits)
  then have "now - t < int64_max" by (auto simp: time_sub_def int64_min_def int64_max_def)
  with assms(1) show ?thesis by linarith
qed

lemma marks_ok_step:
  assumes ok: "marks_ok cfg now bs k" and pos: "\<And>t key. bucket_of cfg now t = Some key \<Longrightarrow> 0 < t"
  shows "marks_ok cfg now (bs @ [b]) (mark_backup cfg now k b)"
proof (cases "stamp b")
  case None
  with ok show ?thesis unfolding marks_ok_def mark_backup_cases by auto
next
  case (Some t)
  note b = this
  let ?k = "mark_backup cfg now k b"
  have bk: "map_of (mk_backups ?k) = (map_of (mk_backups k))(t \<mapsto> b)"
    by (simp add: mark_backup_cases b update_conv')
  have fields: "mk_ignore ?k = mk_ignore k" "set (mk_retain ?k) = set (mk_retain k) \<union> (if time_sub now t < hour then {b} else {})"
    by (simp_all add: mark_backup_cases b)
  have posk: "\<forall>key t. map_of (mk_buckets k) key = Some t \<longrightarrow> 0 < t"
    using ok by (simp add: marks_ok_def)
  have bu: "map_of (mk_buckets ?k) = (case bucket_of cfg now t of None \<Rightarrow> map_of (mk_buckets k)
      | Some key \<Rightarrow> (map_of (mk_buckets k))(key \<mapsto> (case map_of (mk_buckets k) key of None \<Rightarrow> t | Some u \<Rightarrow> min u t)))"
    by (simp add: mark_backup_cases b into_bucket_lookup [OF posk] split: option.splits)
  have buckets: "0 < u \<and> key \<le> u \<and> map_of (mk_backups ?k) u \<noteq> None" if "map_of (mk_buckets ?k) key = Some u" for key u
  proof -
    from that bu consider "map_of (mk_buckets k) key = Some u" | "bucket_of cfg now t = Some key" "u = t"
      by (auto split: option.splits if_splits simp: min_def)
    then show ?thesis
    proof cases
      case 1
      then show ?thesis using ok bk unfolding marks_ok_def by auto
    next
      case 2
      then show ?thesis using pos bucket_le bk by auto
    qed
  qed
  have earliest: "\<exists>u. map_of (mk_buckets ?k) key = Some u \<and> u \<le> t'"
    if "c \<in> set (bs @ [b])" "stamp c = Some t'" "bucket_of cfg now t' = Some key" for c t' key
  proof (cases "c = b")
    case True
    with that b bu show ?thesis by (auto split: option.splits)
  next
    case False
    with that ok obtain u where "map_of (mk_buckets k) key = Some u" "u \<le> t'"
      unfolding marks_ok_def by force
    with bu show ?thesis by (auto split: option.splits)
  qed
  show ?thesis
    unfolding marks_ok_def bk fields using ok b buckets earliest bk
    by (auto simp: marks_ok_def)
qed

lemma marks_ok_all:
  assumes "\<And>t key. bucket_of cfg now t = Some key \<Longrightarrow> 0 < t"
  shows "marks_ok cfg now names (mark_all cfg now names)"
proof (induction names rule: rev_induct)
  case Nil
  show ?case by (simp add: marks_ok_def mark_all_def no_marks_def)
next
  case (snoc b bs)
  then show ?case using marks_ok_step [OF snoc assms] by (simp add: mark_all_def)
qed

text \<open>
  C25. No backup that matters is removed. A removed backup has a name with a time stamp and is at least
  an hour old; and while it is within the hourly (or else the daily) retention, an earlier or equal
  backup of the same hour (or day) is kept. Backups whose names carry no time stamp are never
  removed. The clock must be past year 293, and the retentions fit their type.
\<close>

theorem removed_backups_are_covered:
  assumes "int64_max < now"
    and "HourlyBackupsRetention cfg \<le> int64_max" and "DailyBackupsRetention cfg \<le> int64_max"
    and "b \<in> set (to_remove cfg now names)"
  shows "\<exists>t. stamp b = Some t \<and> hour \<le> time_sub now t
    \<and> (\<forall>key. bucket_of cfg now t = Some key \<longrightarrow>
         (\<exists>b' t'. b' \<in> set names \<and> b' \<notin> set (to_remove cfg now names)
            \<and> stamp b' = Some t' \<and> key \<le> t' \<and> t' \<le> t))"
proof -
  let ?k = "mark_all cfg now names"
  have ok: "marks_ok cfg now names ?k"
    using bucketed_positive [OF assms(1-3)] by (rule marks_ok_all)
  have b: "b \<in> set names" "b \<notin> set (retained ?k)" "b \<notin> set (mk_ignore ?k)"
    using assms(4) by (auto simp: to_remove_def Let_def)
  then obtain t where t: "stamp b = Some t" using ok by (auto simp: marks_ok_def)
  have "hour \<le> time_sub now t"
    using b ok t by (auto simp: marks_ok_def retained_def not_less [symmetric])
  moreover have "\<exists>b' t'. b' \<in> set names \<and> b' \<notin> set (to_remove cfg now names)
      \<and> stamp b' = Some t' \<and> key \<le> t' \<and> t' \<le> t" if key: "bucket_of cfg now t = Some key" for key
  proof -
    obtain t' where t': "map_of (mk_buckets ?k) key = Some t'" "t' \<le> t"
      using ok b(1) t key unfolding marks_ok_def by blast
    then obtain b' where b': "map_of (mk_backups ?k) t' = Some b'" "key \<le> t'"
      using ok unfolding marks_ok_def by blast
    then have "b' \<in> set names" "stamp b' = Some t'" using ok unfolding marks_ok_def by blast+
    moreover have "b' \<in> set (retained ?k)"
      using map_of_SomeD [OF t'(1)] b'(1) by (force simp: retained_def)
    ultimately show ?thesis using t'(2) b'(2) by (auto simp: to_remove_def Let_def)
  qed
  ultimately show ?thesis using t by blast
qed

theorem removed_backups_are_covered_witness:
  "\<exists>t. stamp ''2018-02-20T03:27:55Z-000002'' = Some t \<and> hour \<le> time_sub 63654698875000000000 t
    \<and> (\<forall>key. bucket_of default_retention 63654698875000000000 t = Some key \<longrightarrow>
         (\<exists>b' t'. b' \<in> set [''2018-02-20T03:07:55Z-000001'', ''2018-02-20T03:27:55Z-000002'']
            \<and> b' \<notin> set (to_remove default_retention 63654698875000000000
                  [''2018-02-20T03:07:55Z-000001'', ''2018-02-20T03:27:55Z-000002''])
            \<and> stamp b' = Some t' \<and> key \<le> t' \<and> t' \<le> t))"
  by (rule removed_backups_are_covered) code_simp+

section \<open>Names read back\<close>

lemma index_of_found: "CHR ''Z'' \<notin> set xs \<Longrightarrow> index_of ''Z-'' (xs @ ''Z-'' @ ys) = Some (length xs)"
  by (induction xs) (auto simp: HasPrefix_def)

text \<open>
  A backup is found again by its name: the name the store gives to a backup carries the time it
  was taken, to the second, and its sequence number, and the cleanup reads both back.
\<close>

theorem backup_name_read_back:
  assumes "0 \<le> now" and "now < 3652059 * day_ns"
  shows "parseBackupNameInfo (backup_name now sequence)
    = Some \<lparr>bn_Timestamp = now - now mod second, bn_Suffix = sequence\<rparr>"
proof -
  obtain xs where xs: "FormatRFC3339 now = xs @ ''Z''" "CHR ''Z'' \<notin> set xs"
    using FormatRFC3339_shape by blast
  then have "backup_name now sequence = xs @ ''Z-'' @ sequence" by (simp add: backup_name_def)
  with index_of_found [OF xs(2)] Parse_Format [OF assms] xs(1) show ?thesis
    by (simp add: parseBackupNameInfo_def Let_def)
qed

theorem backup_name_read_back_witness:
  "parseBackupNameInfo (backup_name 63654698875000000123 ''000002'')
    = Some \<lparr>bn_Timestamp = 63654698875000000000, bn_Suffix = ''000002''\<rparr>"
  using backup_name_read_back [of 63654698875000000123 "''000002''"] by (simp add: day_ns_def duration_defs)

lemma MaybeDoBackupMaintenance_asks: "keeps asks (MaybeDoBackupMaintenance e cfg m)"
  unfolding MaybeDoBackupMaintenance_def by (intro asks_rules ListBackups_asks RemoveBackup_asks)

end
