(* ===== verification/Command_Store.thy ===== *)
theory Command_Store
  imports Backup_Store
begin

text \<open>
  The control store (\<^verbatim>\<open>pkg/commands\<close>, \<^verbatim>\<open>pkg/static\<close>): the queue of commands, the cluster specification and
  the marker that tells whether the cluster was created. \<^verbatim>\<open>commands.Store\<close> has two implementations,
  one on the virtual file system and one on a fixed configuration; a store is one of the two, and
  an operation is dispatched on it. The JSON encodings and the local file system are parameters.
\<close>

section \<open>Data\<close>

record ConfigNode =
  cn_ID :: string
  cn_IP :: "string list"

record Config =
  cfg_EtcdVersion :: string
  cfg_Nodes :: "ConfigNode list"

datatype control_store = VFSControl string | StaticControl Config string

record vfsCommand =
  vc_p :: string
  vc_data :: Command

record 'w command_env =
  ce_vfs :: "'w vfs_env"
  ce_CommandToJson :: "Command \<Rightarrow> go_error + string"
  ce_CommandFromJson :: "string \<Rightarrow> go_error + Command"
  ce_SpecToJson :: "ClusterSpec \<Rightarrow> go_error + string"
  ce_SpecFromJson :: "string \<Rightarrow> go_error + ClusterSpec"
  ce_Stat :: "string \<Rightarrow> 'w \<Rightarrow> go_error option \<times> 'w"

definition CommandFilename :: string where "CommandFilename = ''_command.json''"
definition EtcdClusterCreated :: string where "EtcdClusterCreated = ''etcd-cluster-created''"
definition EtcdClusterSpec :: string where "EtcdClusterSpec = ''etcd-cluster-spec''"
definition newClusterMarkerFile :: string where "newClusterMarkerFile = ''please-create-new-cluster''"

definition commands_NewVFSStore :: "'w command_env \<Rightarrow> string \<Rightarrow> control_store" where
  "commands_NewVFSStore e p = VFSControl (vf_Join (ce_vfs e) p [''control''])"

definition commands_NewStore :: "'w command_env \<Rightarrow> string \<Rightarrow> go_error + control_store" where
  "commands_NewStore e storage = (case vf_BuildVfsPath (ce_vfs e) storage of
     Inl err \<Rightarrow> Inl err | Inr p \<Rightarrow> Inr (commands_NewVFSStore e p))"

section \<open>The store on the virtual file system\<close>

definition vfs_AddCommand :: "'w command_env \<Rightarrow> string \<Rightarrow> Command \<Rightarrow> (('st, 'w, 'ev) sys, go_error option) go" where
  "vfs_AddCommand e commandsBase cmd =
     bind (time_now (vf_rt (ce_vfs e))) (\<lambda>now.
       let name = FormatRFC3339 now @ ''-000000'' in
       case ce_CommandToJson e (cmd\<lparr>cmd_Timestamp := time_UnixNano now\<rparr>) of
         Inl err \<Rightarrow> ret (Some (Wrap ''error marshalling command'' err))
       | Inr data \<Rightarrow>
         bind (ask (vf_WriteFile (ce_vfs e) (vf_Join (ce_vfs e) commandsBase [name, CommandFilename]) data)) (\<lambda>r.
         ret (case r of Some err \<Rightarrow> Some (Wrap ''error writing file'' err) | None \<Rightarrow> None)))"

definition read_command :: "'w command_env \<Rightarrow> string \<Rightarrow> vfsCommand list
    \<Rightarrow> (('st, 'w, 'ev) sys, (vfsCommand list, go_error) loop) go" where
  "read_command e f commands =
     (if vf_Base (ce_vfs e) f \<noteq> CommandFilename then ret (Next commands)
      else bind (ask (vf_ReadFile (ce_vfs e) f)) (\<lambda>r. ret (case r of
        Inl err \<Rightarrow> Stop (Wrap ''error reading command'' err)
      | Inr data \<Rightarrow> (case ce_CommandFromJson e data of
          Inl err \<Rightarrow> Stop (Wrap ''error parsing command'' err)
        | Inr c \<Rightarrow> Next (commands @ [\<lparr>vc_p = f, vc_data = c\<rparr>])))))"

text \<open>Commands are ordered by their time stamps; commands of the same time stay in listing order.\<close>

definition vfs_ListCommands :: "'w command_env \<Rightarrow> string \<Rightarrow> (('st, 'w, 'ev) sys, go_error + vfsCommand list) go" where
  "vfs_ListCommands e commandsBase =
     bind (ask (vf_ReadTree (ce_vfs e) commandsBase)) (\<lambda>r. case r of
       Inl err \<Rightarrow> ret (if err = NotExist then Inr [] else Inl (Wrap ''error reading commands'' err))
     | Inr files \<Rightarrow>
       bind (for_each files [] (read_command e)) (\<lambda>r. ret (case r of
         Stop err \<Rightarrow> Inl err
       | Next commands \<Rightarrow> Inr (sort_key (\<lambda>c. cmd_Timestamp (vc_data c)) commands))))"

definition vfs_RemoveCommand :: "'w command_env \<Rightarrow> vfsCommand \<Rightarrow> (('st, 'w, 'ev) sys, go_error option) go" where
  "vfs_RemoveCommand e command =
     bind (ask (vf_Remove (ce_vfs e) (vc_p command))) (\<lambda>r.
     ret (case r of Some err \<Rightarrow> Some (Wrap ''error removing command'' err) | None \<Rightarrow> None))"

definition vfs_GetExpectedClusterSpec :: "'w command_env \<Rightarrow> string
    \<Rightarrow> (('st, 'w, 'ev) sys, go_error + ClusterSpec option) go" where
  "vfs_GetExpectedClusterSpec e commandsBase =
     bind (ask (vf_ReadFile (ce_vfs e) (vf_Join (ce_vfs e) commandsBase [EtcdClusterSpec]))) (\<lambda>r. ret (case r of
       Inl err \<Rightarrow> if err = NotExist then Inr None else Inl (Wrap ''error reading cluster spec file'' err)
     | Inr data \<Rightarrow> (case ce_SpecFromJson e data of
         Inl err \<Rightarrow> Inl (Wrap ''error parsing cluster spec'' err) | Inr spec \<Rightarrow> Inr (Some spec))))"

definition vfs_SetExpectedClusterSpec :: "'w command_env \<Rightarrow> string \<Rightarrow> ClusterSpec
    \<Rightarrow> (('st, 'w, 'ev) sys, go_error option) go" where
  "vfs_SetExpectedClusterSpec e commandsBase spec =
     (case ce_SpecToJson e spec of
        Inl err \<Rightarrow> ret (Some (Wrap ''error serializing cluster spec'' err))
      | Inr data \<Rightarrow>
        bind (ask (vf_WriteFile (ce_vfs e) (vf_Join (ce_vfs e) commandsBase [EtcdClusterSpec]) data)) (\<lambda>r.
        ret (case r of Some err \<Rightarrow> Some (Wrap ''error writing cluster spec file'' err) | None \<Rightarrow> None)))"

definition vfs_IsNewCluster :: "'w command_env \<Rightarrow> string \<Rightarrow> (('st, 'w, 'ev) sys, go_error + bool) go" where
  "vfs_IsNewCluster e commandsBase =
     bind (ask (vf_ReadFile (ce_vfs e) (vf_Join (ce_vfs e) commandsBase [EtcdClusterCreated]))) (\<lambda>r. ret (case r of
       Inl err \<Rightarrow> if err = NotExist then Inr True else Inl (Wrap ''error reading cluster-creation marker file'' err)
     | Inr data \<Rightarrow> if data = [] then Inl (Errorf ''marker file was unexpectedly empty'') else Inr False))"

text \<open>\<^verbatim>\<open>json.Marshal\<close> of \<^verbatim>\<open>etcdClusterCreated\<close>: the field is left out when it is zero.\<close>

definition created_json :: "int \<Rightarrow> string" where
  "created_json ts =
     (if ts = 0 then ''{}''
      else ''{'' @ [CHR 34] @ ''timestamp'' @ [CHR 34] @ '':'' @ (if ts < 0 then ''-'' else []) @ Itoa (nat \<bar>ts\<bar>) @ ''}'')"

definition vfs_MarkClusterCreated :: "'w command_env \<Rightarrow> string \<Rightarrow> (('st, 'w, 'ev) sys, go_error option) go" where
  "vfs_MarkClusterCreated e commandsBase =
     bind (time_now (vf_rt (ce_vfs e))) (\<lambda>now.
     bind (ask (vf_WriteFile (ce_vfs e) (vf_Join (ce_vfs e) commandsBase [EtcdClusterCreated])
         (created_json (time_UnixNano now)))) (\<lambda>r.
     ret (case r of Some err \<Rightarrow> Some (Wrap ''error creating cluster-creation marker file'' err) | None \<Rightarrow> None)))"

section \<open>The static store\<close>

definition marker_path :: "string \<Rightarrow> string" where
  "marker_path dataDir = filepath_Join [dataDir, newClusterMarkerFile]"

definition static_spec :: "Config \<Rightarrow> ClusterSpec" where
  "static_spec config = \<lparr>cs_MemberCount = int (length (cfg_Nodes config)), cs_EtcdVersion = cfg_EtcdVersion config\<rparr>"

definition static_IsNewCluster :: "'w command_env \<Rightarrow> string \<Rightarrow> (('st, 'w, 'ev) sys, go_error + bool) go" where
  "static_IsNewCluster e dataDir =
     bind (ask (ce_Stat e (marker_path dataDir))) (\<lambda>r. ret (case r of
       Some err \<Rightarrow> if err = NotExist then Inr False else Inl (Wrap ''checking for file'' err)
     | None \<Rightarrow> Inr True))"

definition static_MarkClusterCreated :: "'w command_env \<Rightarrow> string \<Rightarrow> (('st, 'w, 'ev) sys, go_error option) go" where
  "static_MarkClusterCreated e dataDir =
     bind (ask (os_Remove (ce_vfs e) (marker_path dataDir))) (\<lambda>r.
     ret (case r of Some err \<Rightarrow> Some (Wrap ''deleting marker file'' err) | None \<Rightarrow> None))"

section \<open>The interface\<close>

definition AddCommand :: "'w command_env \<Rightarrow> control_store \<Rightarrow> Command \<Rightarrow> (('st, 'w, 'ev) sys, go_error option) go" where
  "AddCommand e store cmd = (case store of
     VFSControl base \<Rightarrow> vfs_AddCommand e base cmd
   | StaticControl _ _ \<Rightarrow> ret (Some (Errorf ''StaticStore::AddCommand not supported'')))"

definition ListCommands :: "'w command_env \<Rightarrow> control_store \<Rightarrow> (('st, 'w, 'ev) sys, go_error + vfsCommand list) go" where
  "ListCommands e store = (case store of
     VFSControl base \<Rightarrow> vfs_ListCommands e base | StaticControl _ _ \<Rightarrow> ret (Inr []))"

definition RemoveCommand :: "'w command_env \<Rightarrow> control_store \<Rightarrow> vfsCommand \<Rightarrow> (('st, 'w, 'ev) sys, go_error option) go" where
  "RemoveCommand e store cmd = (case store of
     VFSControl _ \<Rightarrow> vfs_RemoveCommand e cmd
   | StaticControl _ _ \<Rightarrow> ret (Some (Errorf ''StaticStore::RemoveCommand not supported'')))"

definition GetExpectedClusterSpec :: "'w command_env \<Rightarrow> control_store
    \<Rightarrow> (('st, 'w, 'ev) sys, go_error + ClusterSpec option) go" where
  "GetExpectedClusterSpec e store = (case store of
     VFSControl base \<Rightarrow> vfs_GetExpectedClusterSpec e base
   | StaticControl config _ \<Rightarrow> ret (Inr (Some (static_spec config))))"

definition SetExpectedClusterSpec :: "'w command_env \<Rightarrow> control_store \<Rightarrow> ClusterSpec
    \<Rightarrow> (('st, 'w, 'ev) sys, go_error option) go" where
  "SetExpectedClusterSpec e store spec = (case store of
     VFSControl base \<Rightarrow> vfs_SetExpectedClusterSpec e base spec | StaticControl _ _ \<Rightarrow> ret None)"

definition IsNewCluster :: "'w command_env \<Rightarrow> control_store \<Rightarrow> (('st, 'w, 'ev) sys, go_error + bool) go" where
  "IsNewCluster e store = (case store of
     VFSControl base \<Rightarrow> vfs_IsNewCluster e base | StaticControl _ dataDir \<Rightarrow> static_IsNewCluster e dataDir)"

definition MarkClusterCreated :: "'w command_env \<Rightarrow> control_store \<Rightarrow> (('st, 'w, 'ev) sys, go_error option) go" where
  "MarkClusterCreated e store = (case store of
     VFSControl base \<Rightarrow> vfs_MarkClusterCreated e base | StaticControl _ dataDir \<Rightarrow> static_MarkClusterCreated e dataDir)"

section \<open>What is stored is found again\<close>

text \<open>
  What the store relies on: the file system returns what was written (\<open>vfs_ok\<close>) and reading changes no
  file; the encodings can be decoded; a local file that was removed is gone.
\<close>

definition control_ok :: "'w command_env \<Rightarrow> bool" where
  "control_ok e \<longleftrightarrow> vfs_ok (ce_vfs e)
   \<and> (\<forall>p q w. fst (vf_ReadFile (ce_vfs e) p (snd (vf_ReadFile (ce_vfs e) q w))) = fst (vf_ReadFile (ce_vfs e) p w))
   \<and> (\<forall>p q w. fst (vf_ReadFile (ce_vfs e) p (snd (vf_ReadTree (ce_vfs e) q w))) = fst (vf_ReadFile (ce_vfs e) p w))
   \<and> (\<forall>c d. ce_CommandToJson e c = Inr d \<longrightarrow> ce_CommandFromJson e d = Inr c)
   \<and> (\<forall>c d. ce_SpecToJson e c = Inr d \<longrightarrow> ce_SpecFromJson e d = Inr c)
   \<and> (\<forall>p w. fst (os_Remove (ce_vfs e) p w) = None \<longrightarrow> fst (ce_Stat e p (snd (os_Remove (ce_vfs e) p w))) = Some NotExist)"

text \<open>
  The contract of the creation marker: once it was set, the cluster is not new any more. Both stores
  keep it (the proposition \<open>ok\<close> is what they rely on).
\<close>

locale creation_marker =
  fixes ok :: bool
    and isNew :: "(('st, 'w, 'ev) sys, go_error + bool) go"
    and mark :: "(('st, 'w, 'ev) sys, go_error option) go"
  assumes marked: "ok \<Longrightarrow> mark s = (Ret None, s') \<Longrightarrow> fst (isNew s') = Ret (Inr False)"
begin

lemma not_new_again:
  assumes ok
  shows "hoare (\<lambda>_. True) (bind mark (\<lambda>r. case r of Some err \<Rightarrow> ret (Inl err) | None \<Rightarrow> isNew))
    (\<lambda>r _. r \<noteq> Inr True) (\<lambda>_. True)"
proof (rule hoareI)
  fix s x s'
  assume run: "bind mark (\<lambda>r. case r of Some err \<Rightarrow> ret (Inl err) | None \<Rightarrow> isNew) s = (Ret x, s')"
  then obtain r s1 where r: "mark s = (Ret r, s1)" by (auto simp: bind_apply split: prod.splits outcome.splits)
  with run marked [OF assms, of s s1] show "x \<noteq> Inr True"
    by (cases r) (auto simp: bind_apply ret_apply)
qed simp

end

lemma created_json_not_empty: "created_json ts \<noteq> []"
  by (simp add: created_json_def)

interpretation vfs_marker: creation_marker "control_ok e" "IsNewCluster e (VFSControl base)"
  "MarkClusterCreated e (VFSControl base)" for e :: "'w command_env" and base
proof
  fix s s' :: "('st, 'w, 'ev) sys"
  assume "control_ok e" and "MarkClusterCreated e (VFSControl base) s = (Ret None, s')"
  then obtain ts w where "vfs_ok (ce_vfs e)"
    and "vf_WriteFile (ce_vfs e) (vf_Join (ce_vfs e) base [EtcdClusterCreated]) (created_json ts) w = (None, world s')"
    by (auto simp: control_ok_def MarkClusterCreated_def vfs_MarkClusterCreated_def bind_apply ret_apply ask_def
        time_now_def split: prod.splits option.splits)
  then have "fst (vf_ReadFile (ce_vfs e) (vf_Join (ce_vfs e) base [EtcdClusterCreated]) (world s')) = Inr (created_json ts)"
    by (rule vfs_read)
  then show "fst (IsNewCluster e (VFSControl base) s') = Ret (Inr False)"
    by (auto simp: IsNewCluster_def vfs_IsNewCluster_def bind_apply ret_apply ask_def created_json_not_empty
        split: prod.splits)
qed

interpretation static_marker: creation_marker "control_ok e" "IsNewCluster e (StaticControl config dataDir)"
  "MarkClusterCreated e (StaticControl config dataDir)" for e :: "'w command_env" and config dataDir
proof
  fix s s' :: "('st, 'w, 'ev) sys"
  assume "control_ok e" and "MarkClusterCreated e (StaticControl config dataDir) s = (Ret None, s')"
  then have "fst (ce_Stat e (marker_path dataDir) (world s')) = Some NotExist"
    by (auto simp: control_ok_def MarkClusterCreated_def static_MarkClusterCreated_def bind_apply ret_apply ask_def
        split: prod.splits option.splits) (metis fst_conv snd_conv)
  then show "fst (IsNewCluster e (StaticControl config dataDir) s') = Ret (Inr False)"
    by (auto simp: IsNewCluster_def static_IsNewCluster_def bind_apply ret_apply ask_def split: prod.splits)
qed

lemma marked_not_new:
  assumes "control_ok e" and "MarkClusterCreated e store s = (Ret None, s')"
  shows "fst (IsNewCluster e store s') = Ret (Inr False)"
  using assms vfs_marker.marked static_marker.marked by (cases store) blast+

text \<open>
  C16. A cluster is created at most once: after the control store, of either kind, accepted the marker,
  it reports that the cluster is not new.
\<close>

theorem cluster_created_once:
  assumes "control_ok e" and "MarkClusterCreated e store s = (Ret None, s')"
  shows "fst (IsNewCluster e store s') = Ret (Inr False)"
  using assms by (rule marked_not_new)

lemma read_command_finds:
  assumes ok: "control_ok e" and "vf_Base (ce_vfs e) p = CommandFilename" and "ce_CommandFromJson e d = Inr c"
    and "p \<in> set fs" and "for_each fs [] (read_command e) s = (Ret (Next cs), s')"
    and "fst (vf_ReadFile (ce_vfs e) p (world s)) = Inr d"
  shows "\<lparr>vc_p = p, vc_data = c\<rparr> \<in> set cs"
proof -
  let ?I = "\<lambda>pre acc s. fst (vf_ReadFile (ce_vfs e) p (world s)) = Inr d
    \<and> (p \<in> set pre \<longrightarrow> \<lparr>vc_p = p, vc_data = c\<rparr> \<in> set acc)"
  have stable: "fst (vf_ReadFile (ce_vfs e) p w') = fst (vf_ReadFile (ce_vfs e) p w)"
    if "vf_ReadFile (ce_vfs e) q w = (r, w')" for q w w' r
    using ok that unfolding control_ok_def by (metis snd_conv)
  have "hoare (\<lambda>s. fst (vf_ReadFile (ce_vfs e) p (world s)) = Inr d) (for_each fs [] (read_command e))
      (\<lambda>r s. \<forall>cs. r = Next cs \<longrightarrow> \<lparr>vc_p = p, vc_data = c\<rparr> \<in> set cs) (\<lambda>_. True)"
  proof (rule hoare_for_each [where I = ?I])
    fix pre x suf acc
    show "hoare (?I pre acc) (read_command e x acc)
        (\<lambda>r s. case r of Next acc' \<Rightarrow> ?I (pre @ [x]) acc' s | Stop err \<Rightarrow> \<forall>cs. Stop err = Next cs \<longrightarrow> \<lparr>vc_p = p, vc_data = c\<rparr> \<in> set cs)
        (\<lambda>_. True)"
      using assms(2,3) stable
      by (auto simp: hoare_def read_command_def bind_apply ret_apply ask_def split: prod.splits sum.splits)
  qed (use assms(4) in auto)
  from hoare_RetD [OF this assms(6,5)] show ?thesis by simp
qed

lemma added_is_listed:
  assumes "control_ok e" and "AddCommand e (VFSControl base) cmd s = (Ret None, s')"
    and "ListCommands e (VFSControl base) t = (Ret (Inr cs), s'')"
    and "world t = world s'"
  shows "(\<exists>c \<in> set cs. vc_data c = cmd\<lparr>cmd_Timestamp := time_UnixNano (fst (rt_now (vf_rt (ce_vfs e)) (world s)))\<rparr>)
    \<and> sorted (map (\<lambda>c. cmd_Timestamp (vc_data c)) cs)"
proof -
  let ?V = "ce_vfs e" and ?t = "fst (rt_now (vf_rt (ce_vfs e)) (world s))"
  let ?p = "vf_Join ?V base [backup_name ?t ''000000'', CommandFilename]"
  let ?c = "cmd\<lparr>cmd_Timestamp := time_UnixNano ?t\<rparr>"
  have ok: "vfs_ok ?V" using assms(1) by (simp add: control_ok_def)
  obtain d w where d: "ce_CommandToJson e ?c = Inr d" "vf_WriteFile ?V ?p d w = (None, world s')"
    using assms(2) by (auto simp: AddCommand_def vfs_AddCommand_def backup_name_def Let_def bind_apply ret_apply
        ask_def time_now_def split: prod.splits option.splits sum.splits)
  have plain: "plain_name (backup_name ?t ''000000'')" by (rule backup_name_plain) simp
  have plainf: "plain_name CommandFilename" by (simp add: plain_name_def CommandFilename_def)
  obtain fs where fs: "fst (vf_ReadTree ?V base (world s')) = Inr fs" "?p \<in> set fs"
    using vfs_list [OF ok plain plainf d(2)] by blast
  obtain w1 where w1: "vf_ReadTree ?V base (world s') = (Inr fs, w1)" using fs(1) by (metis prod.collapse)
  obtain cs0 s1 where cs0: "for_each fs [] (read_command e) (t\<lparr>world := w1\<rparr>) = (Ret (Next cs0), s1)"
    "cs = sort_key (\<lambda>c. cmd_Timestamp (vc_data c)) cs0"
    using assms(3) by (auto simp: ListCommands_def vfs_ListCommands_def bind_apply ret_apply ask_def assms(4) w1
        split: prod.splits outcome.splits loop.splits)
  have "fst (vf_ReadFile ?V ?p w1) = Inr d"
    using vfs_read [OF ok d(2)] assms(1) w1 unfolding control_ok_def by (metis snd_conv)
  moreover have "vf_Base ?V ?p = CommandFilename" using ok plain plainf by (simp add: vfs_ok_def)
  moreover have "ce_CommandFromJson e d = Inr ?c" using assms(1) d(1) by (simp add: control_ok_def)
  ultimately have "\<lparr>vc_p = ?p, vc_data = ?c\<rparr> \<in> set cs0"
    using read_command_finds [OF assms(1) _ _ fs(2) cs0(1)] by simp
  then show ?thesis using cs0(2) by (auto intro: rev_bexI)
qed

text \<open>
  A command that was added is in the queue: when the queue can be listed after \<^verbatim>\<open>AddCommand\<close>
  succeeded, it holds the command, stamped with the time of the call, and the queue is ordered by
  the time stamps.
\<close>

theorem commands_are_queued:
  assumes "control_ok e" and "AddCommand e (VFSControl base) cmd s = (Ret None, s')"
    and "ListCommands e (VFSControl base) s' = (Ret (Inr cs), s'')"
  shows "(\<exists>c \<in> set cs. vc_data c = cmd\<lparr>cmd_Timestamp := time_UnixNano (fst (rt_now (vf_rt (ce_vfs e)) (world s)))\<rparr>)
    \<and> sorted (map (\<lambda>c. cmd_Timestamp (vc_data c)) cs)"
  by (rule added_is_listed [OF assms refl])

section \<open>An example\<close>

text \<open>A store in memory: commands are encoded by their backup name, specifications by their version.\<close>

definition mem_control :: "time \<Rightarrow> string gomap command_env" where
  "mem_control now = \<lparr>ce_vfs = (mem_vfs now)\<lparr>os_Remove := (\<lambda>p w. (None, AList.delete p w))\<rparr>,
     ce_CommandToJson = (\<lambda>c. if 0 \<le> cmd_Timestamp c \<and> cmd_RestoreBackup c = None then Inr (Itoa (nat (cmd_Timestamp c)))
        else Inl (Errorf ''not encoded here'')),
     ce_CommandFromJson = (\<lambda>d. Inr \<lparr>cmd_Timestamp = dec_val d, cmd_RestoreBackup = None\<rparr>),
     ce_SpecToJson = (\<lambda>c. if cs_MemberCount c = 3 then Inr (cs_EtcdVersion c) else Inl (Errorf ''not encoded here'')),
     ce_SpecFromJson = (\<lambda>d. Inr \<lparr>cs_MemberCount = 3, cs_EtcdVersion = d\<rparr>),
     ce_Stat = (\<lambda>p w. (if gm_lookup w p = None then Some NotExist else None, w))\<rparr>"

lemma mem_control_ok: "control_ok (mem_control now)"
proof -
  have "vfs_ok ((mem_vfs now)\<lparr>os_Remove := r\<rparr>)" for r
    using mem_vfs_ok [of now] by (simp add: vfs_ok_def)
  then show ?thesis
    by (auto simp: control_ok_def mem_control_def mem_vfs_def delete_conv split: if_splits)
qed

abbreviation example_control :: "(unit, string gomap, unit) sys" where
  "example_control \<equiv> \<lparr>self = (), world = [(''/data/please-create-new-cluster'', [])], trace = []\<rparr>"

theorem cluster_created_once_witness:
  "\<exists>s'. MarkClusterCreated (mem_control 0) (StaticControl \<lparr>cfg_EtcdVersion = ''3.5.0'', cfg_Nodes = []\<rparr> ''/data'') example_control
      = (Ret None, s')
    \<and> fst (IsNewCluster (mem_control 0) (StaticControl \<lparr>cfg_EtcdVersion = ''3.5.0'', cfg_Nodes = []\<rparr> ''/data'') s')
      = Ret (Inr False)"
proof -
  let ?st = "StaticControl \<lparr>cfg_EtcdVersion = ''3.5.0'', cfg_Nodes = []\<rparr> ''/data''"
  obtain s' where s': "MarkClusterCreated (mem_control 0) ?st example_control = (Ret None, s')"
    by (simp add: MarkClusterCreated_def static_MarkClusterCreated_def mem_control_def bind_apply ret_apply ask_def)
  from s' cluster_created_once [OF mem_control_ok s'] show ?thesis by blast
qed

definition is_listed :: "(go_error + 'a list) outcome \<Rightarrow> bool" where
  "is_listed r = (case r of Ret (Inr _) \<Rightarrow> True | _ \<Rightarrow> False)"

lemma is_listed: "is_listed r \<Longrightarrow> \<exists>cs. r = Ret (Inr cs)"
  by (auto simp: is_listed_def split: outcome.splits sum.splits)

theorem commands_are_queued_witness:
  "\<exists>s' s'' cs. AddCommand (mem_control 62135596800000000005) (VFSControl ''s3://b/control'')
        \<lparr>cmd_Timestamp = 0, cmd_RestoreBackup = None\<rparr> example_control = (Ret None, s')
    \<and> ListCommands (mem_control 62135596800000000005) (VFSControl ''s3://b/control'') s' = (Ret (Inr cs), s'') \<and> cs \<noteq> []"
proof -
  let ?e = "mem_control 62135596800000000005" and ?st = "VFSControl ''s3://b/control''"
  let ?c = "\<lparr>cmd_Timestamp = 0, cmd_RestoreBackup = None\<rparr>"
  let ?a = "AddCommand ?e ?st ?c example_control"
  have "fst ?a = Ret None" by code_simp
  then have a: "?a = (Ret None, snd ?a)" by (metis prod.collapse)
  have "is_listed (fst (ListCommands ?e ?st (snd ?a)))" by code_simp
  then obtain cs s'' where l: "ListCommands ?e ?st (snd ?a) = (Ret (Inr cs), s'')"
    by (metis is_listed prod.collapse)
  have "cs \<noteq> []" using commands_are_queued [OF mem_control_ok a l] by auto
  then show ?thesis using a l by blast
qed

section \<open>Effects\<close>

text \<open>No operation of the store touches the state of the process that calls it.\<close>

lemmas control_defs = AddCommand_def ListCommands_def RemoveCommand_def GetExpectedClusterSpec_def SetExpectedClusterSpec_def
  IsNewCluster_def MarkClusterCreated_def vfs_AddCommand_def vfs_ListCommands_def vfs_RemoveCommand_def
  vfs_GetExpectedClusterSpec_def vfs_SetExpectedClusterSpec_def vfs_IsNewCluster_def vfs_MarkClusterCreated_def
  static_IsNewCluster_def static_MarkClusterCreated_def

lemma read_command_asks: "keeps asks (read_command e f cs)"
  unfolding read_command_def by (intro asks_rules)

lemma control_asks:
  "keeps asks (AddCommand e store cmd)" "keeps asks (ListCommands e store)" "keeps asks (RemoveCommand e store c)"
  "keeps asks (GetExpectedClusterSpec e store)" "keeps asks (SetExpectedClusterSpec e store spec)"
  "keeps asks (IsNewCluster e store)" "keeps asks (MarkClusterCreated e store)"
  by (cases store; simp add: control_defs; intro asks_rules read_command_asks)+

end
