(* ===== verification/Cluster_State.thy ===== *)
theory Cluster_State
  imports Etcd_Process Private_Api Backup_Cleanup Command_Store
begin

text \<open>
  What the controller knows of the cluster and how it talks to it (\<^verbatim>\<open>pkg/controller\<close>: \<^verbatim>\<open>peer.go\<close>,
  \<^verbatim>\<open>etcdclusterstate.go\<close>, \<^verbatim>\<open>utils.go\<close>, and \<^verbatim>\<open>updateClusterState\<close> of \<^verbatim>\<open>controller.go\<close>): remote calls to the other
  nodes, the etcd members and peers of one control cycle, and the questions asked of them. The own
  peer service (\<^verbatim>\<open>privateapi.Peers\<close>, modelled in \<open>Private_Api\<close>) runs beside the controller and belongs to
  its environment, as do the other nodes, etcd and the leader lock.
\<close>

section \<open>The environment and the record of calls\<close>

text \<open>Every call that may change a node, the etcd cluster or the control store, with its answer.\<close>

datatype ctl_event =
    RpcUpdateEndpoints PeerId MemberMap "go_error option"
  | RpcJoinCluster PeerId JoinClusterRequest "go_error option"
  | RpcReconfigure PeerId ReconfigureRequest "go_error option"
  | RpcStopEtcd PeerId CommonRequestHeader "go_error option"
  | RpcDoBackup PeerId DoBackupRequest "go_error + string"
  | RpcDoRestore PeerId DoRestoreRequest "go_error option"
  | MemberAdd EtcdClient "string list" "go_error option"
  | MemberRemove EtcdClient EtcdProcessMember "go_error option"
  | MemberUpdate EtcdClient EtcdProcessMember "string list" "go_error option"
  | SpecWritten ClusterSpec "go_error option"
  | ClusterMarked "go_error option"
  | CommandAdded Command "go_error option"
  | CommandRemoved vfsCommand "go_error option"
  | LockAcquired string "go_error + int option"
  | LockReleased int "go_error option"

record 'w ctl_env =
  cx_rt :: "'w runtime"
  cx_cmd :: "'w command_env"
  cx_api :: "'w etcd_api"
  cx_pki :: "'w pki_env"
  cx_Stat :: "string \<Rightarrow> 'w \<Rightarrow> go_error option \<times> 'w"
  cx_retention :: retention
  cx_rand :: "'w \<Rightarrow> nat \<times> 'w"
  cx_Peers :: "'w \<Rightarrow> PeerInfo list \<times> 'w"
  cx_BecomeLeader :: "'w \<Rightarrow> (go_error + (PeerId list \<times> string)) \<times> 'w"
  cx_AssertLeadership :: "string \<Rightarrow> 'w \<Rightarrow> go_error option \<times> 'w"
  cx_GetPeerClient :: "PeerId \<Rightarrow> 'w \<Rightarrow> go_error option \<times> 'w"
  cx_GetInfo :: "PeerId \<Rightarrow> 'w \<Rightarrow> (go_error + GetInfoResponse) \<times> 'w"
  cx_UpdateEndpoints :: "PeerId \<Rightarrow> MemberMap \<Rightarrow> 'w \<Rightarrow> go_error option \<times> 'w"
  cx_JoinCluster :: "PeerId \<Rightarrow> JoinClusterRequest \<Rightarrow> 'w \<Rightarrow> go_error option \<times> 'w"
  cx_Reconfigure :: "PeerId \<Rightarrow> ReconfigureRequest \<Rightarrow> 'w \<Rightarrow> go_error option \<times> 'w"
  cx_StopEtcd :: "PeerId \<Rightarrow> CommonRequestHeader \<Rightarrow> 'w \<Rightarrow> go_error option \<times> 'w"
  cx_DoBackup :: "PeerId \<Rightarrow> DoBackupRequest \<Rightarrow> 'w \<Rightarrow> (go_error + string) \<times> 'w"
  cx_DoRestore :: "PeerId \<Rightarrow> DoRestoreRequest \<Rightarrow> 'w \<Rightarrow> go_error option \<times> 'w"
  cx_Acquire :: "string \<Rightarrow> 'w \<Rightarrow> (go_error + int option) \<times> 'w"
  cx_Release :: "int \<Rightarrow> 'w \<Rightarrow> go_error option \<times> 'w"
  cx_patience :: nat

abbreviation cx_vfs :: "'w ctl_env \<Rightarrow> 'w vfs_env" where "cx_vfs e \<equiv> ce_vfs (cx_cmd e)"

text \<open>A call is recorded with its answer when it has returned.\<close>

definition recorded :: "(('st, 'w, 'ev) sys, 'a) go \<Rightarrow> ('a \<Rightarrow> 'ev) \<Rightarrow> (('st, 'w, 'ev) sys, 'a) go" where
  "recorded m ev = bind m (\<lambda>r. bind (emit (ev r)) (\<lambda>_. ret r))"

section \<open>Peers\<close>

record ctl_peer =
  cp_Id :: PeerId
  cp_info :: "PeerInfo option"

definition newPeer :: "PeerInfo \<Rightarrow> ctl_peer" where
  "newPeer info = \<lparr>cp_Id = pi_Id info, cp_info = Some info\<rparr>"

text \<open>A remote call: without a connection to the peer it fails before anything is sent.\<close>

definition rpc :: "'w ctl_env \<Rightarrow> ctl_peer \<Rightarrow> (go_error \<Rightarrow> 'a) \<Rightarrow> (('st, 'w, 'ev) sys, 'a) go
    \<Rightarrow> (('st, 'w, 'ev) sys, 'a) go" where
  "rpc e p fail call =
     bind (ask (cx_GetPeerClient e (cp_Id p))) (\<lambda>r. case r of
       Some err \<Rightarrow> ret (fail (Wrap ''error getting peer client'' err))
     | None \<Rightarrow> call)"

definition rpcDoBackup :: "'w ctl_env \<Rightarrow> ctl_peer \<Rightarrow> DoBackupRequest
    \<Rightarrow> (('st, 'w, ctl_event) sys, go_error + string) go" where
  "rpcDoBackup e p req = rpc e p Inl (act (cx_DoBackup e (cp_Id p) req) (RpcDoBackup (cp_Id p) req))"

definition rpcDoRestore :: "'w ctl_env \<Rightarrow> ctl_peer \<Rightarrow> DoRestoreRequest
    \<Rightarrow> (('st, 'w, ctl_event) sys, go_error option) go" where
  "rpcDoRestore e p req = rpc e p Some (act (cx_DoRestore e (cp_Id p) req) (RpcDoRestore (cp_Id p) req))"

definition rpcJoinCluster :: "'w ctl_env \<Rightarrow> ctl_peer \<Rightarrow> JoinClusterRequest
    \<Rightarrow> (('st, 'w, ctl_event) sys, go_error option) go" where
  "rpcJoinCluster e p req = rpc e p Some (act (cx_JoinCluster e (cp_Id p) req) (RpcJoinCluster (cp_Id p) req))"

definition rpcGetInfo :: "'w ctl_env \<Rightarrow> ctl_peer \<Rightarrow> (('st, 'w, ctl_event) sys, go_error + GetInfoResponse) go" where
  "rpcGetInfo e p = rpc e p Inl (ask (cx_GetInfo e (cp_Id p)))"

definition rpcUpdateEndpoints :: "'w ctl_env \<Rightarrow> ctl_peer \<Rightarrow> MemberMap
    \<Rightarrow> (('st, 'w, ctl_event) sys, go_error option) go" where
  "rpcUpdateEndpoints e p mm = rpc e p Some (act (cx_UpdateEndpoints e (cp_Id p) mm) (RpcUpdateEndpoints (cp_Id p) mm))"

definition rpcReconfigure :: "'w ctl_env \<Rightarrow> ctl_peer \<Rightarrow> ReconfigureRequest
    \<Rightarrow> (('st, 'w, ctl_event) sys, go_error option) go" where
  "rpcReconfigure e p req = rpc e p Some (act (cx_Reconfigure e (cp_Id p) req) (RpcReconfigure (cp_Id p) req))"

definition rpcStopEtcd :: "'w ctl_env \<Rightarrow> ctl_peer \<Rightarrow> CommonRequestHeader
    \<Rightarrow> (('st, 'w, ctl_event) sys, go_error option) go" where
  "rpcStopEtcd e p h = rpc e p Some (act (cx_StopEtcd e (cp_Id p) h) (RpcStopEtcd (cp_Id p) h))"

section \<open>The cluster state\<close>

record etcdClusterPeerInfo =
  cpi_peer :: ctl_peer
  cpi_info :: "GetInfoResponse option"

record etcdClusterState =
  st_tls :: "tls_Config option"
  st_members :: "EtcdProcessMember gomap"
  st_peers :: "etcdClusterPeerInfo gomap"
  st_healthyMembers :: "EtcdProcessMember gomap"

text \<open>The etcd state a peer reported, and whether it is part of a cluster.\<close>

definition peer_state :: "etcdClusterPeerInfo \<Rightarrow> EtcdState option" where
  "peer_state p = (case cpi_info p of None \<Rightarrow> None | Some i \<Rightarrow> gi_EtcdState i)"

definition is_configured :: "etcdClusterPeerInfo \<Rightarrow> bool" where
  "is_configured p = (case peer_state p of None \<Rightarrow> False | Some st \<Rightarrow> es_Cluster st \<noteq> None)"

definition node_name :: "etcdClusterPeerInfo \<Rightarrow> string option" where
  "node_name p = (case cpi_info p of None \<Rightarrow> None | Some i \<Rightarrow> map_option en_Name (gi_NodeConfiguration i))"

text \<open>The first entry of a map, in the order of this iteration, that satisfies a predicate.\<close>

definition find_in :: "'w runtime \<Rightarrow> (string \<times> 'v \<Rightarrow> bool) \<Rightarrow> 'v gomap \<Rightarrow> (('st, 'w, 'ev) sys, 'v option) go" where
  "find_in rt P m = bind (range_map rt m) (\<lambda>kvs. ret (map_option snd (find P kvs)))"

definition FindMember :: "'w ctl_env \<Rightarrow> etcdClusterState \<Rightarrow> PeerId
    \<Rightarrow> (('st, 'w, 'ev) sys, EtcdProcessMember option) go" where
  "FindMember e s peerId = find_in (cx_rt e) (\<lambda>kv. em_Name (snd kv) = peerId) (st_members s)"

definition FindHealthyMember :: "'w ctl_env \<Rightarrow> etcdClusterState \<Rightarrow> PeerId
    \<Rightarrow> (('st, 'w, 'ev) sys, EtcdProcessMember option) go" where
  "FindHealthyMember e s peerId = find_in (cx_rt e) (\<lambda>kv. em_Name (snd kv) = peerId) (st_healthyMembers s)"

definition FindPeer :: "'w ctl_env \<Rightarrow> etcdClusterState \<Rightarrow> EtcdProcessMember
    \<Rightarrow> (('st, 'w, 'ev) sys, etcdClusterPeerInfo option) go" where
  "FindPeer e s member = find_in (cx_rt e) (\<lambda>kv. em_Name member = fst kv) (st_peers s)"

definition isTLSEnabled :: "EtcdProcessMember \<Rightarrow> bool" where
  "isTLSEnabled member \<longleftrightarrow> list_ex (\<lambda>u. HasPrefix u ''https://'') (em_ClientURLs member)
     \<or> list_ex (\<lambda>u. HasPrefix u ''https://'') (em_PeerURLs member)"

definition LoggedClose :: "'w etcd_api \<Rightarrow> EtcdClient \<Rightarrow> (('st, 'w, 'ev) sys, unit) go" where
  "LoggedClose api c = bind (ask (api_Close api (cl_handle c))) (\<lambda>_. ret ())"

text \<open>
  The URLs a member is reached on: those of the last peer (in the order of the iteration) whose node
  configuration has its name, the quarantined ones while it is in quarantine, or else those etcd
  reports.
\<close>

definition client_urls_of :: "EtcdNode \<Rightarrow> EtcdState option \<Rightarrow> string list" where
  "client_urls_of n st = (case st of
     Some t \<Rightarrow> if es_Quarantined t then en_QuarantinedClientUrls n else en_ClientUrls n
   | None \<Rightarrow> en_ClientUrls n)"

definition newEtcdClient :: "'w ctl_env \<Rightarrow> etcdClusterState \<Rightarrow> EtcdProcessMember
    \<Rightarrow> (('st, 'w, 'ev) sys, go_error + EtcdClient) go" where
  "newEtcdClient e s member =
     bind (range_map (cx_rt e) (st_peers s)) (\<lambda>kvs.
       let clientURLs = (case find (\<lambda>kv. node_name (snd kv) = Some (em_Name member)) (rev kvs) of
             None \<Rightarrow> em_ClientURLs member
           | Some kv \<Rightarrow> (case cpi_info (snd kv) of None \<Rightarrow> em_ClientURLs member
               | Some i \<Rightarrow> (case gi_NodeConfiguration i of None \<Rightarrow> em_ClientURLs member
                   | Some n \<Rightarrow> client_urls_of n (gi_EtcdState i))))
       in NewClient (cx_api e) clientURLs (st_tls s))"

text \<open>\<^verbatim>\<open>etcdAddMember\<close> and \<^verbatim>\<open>etcdRemoveMember\<close>: every member is tried until one accepts the change.\<close>

definition on_some_member :: "'w ctl_env \<Rightarrow> etcdClusterState
    \<Rightarrow> (EtcdClient \<Rightarrow> (('st, 'w, ctl_event) sys, go_error option) go) \<Rightarrow> string
    \<Rightarrow> (('st, 'w, ctl_event) sys, go_error option) go" where
  "on_some_member e s change msg =
     bind (range_map (cx_rt e) (st_members s)) (\<lambda>kvs.
     bind (for_each kvs () (\<lambda>kv _.
       bind (newEtcdClient e s (snd kv)) (\<lambda>c. case c of
         Inl _ \<Rightarrow> ret (Next ())
       | Inr client \<Rightarrow>
         bind (change client) (\<lambda>r.
         bind (LoggedClose (cx_api e) client) (\<lambda>_.
         ret (case r of Some _ \<Rightarrow> Next () | None \<Rightarrow> Stop ())))))) (\<lambda>r.
     ret (case r of Stop _ \<Rightarrow> None | Next _ \<Rightarrow> Some (Errorf msg))))"

definition etcdAddMember :: "'w ctl_env \<Rightarrow> etcdClusterState \<Rightarrow> EtcdNode
    \<Rightarrow> (('st, 'w, ctl_event) sys, go_error option) go" where
  "etcdAddMember e s nodeInfo =
     on_some_member e s (\<lambda>client. recorded (client_AddMember (cx_api e) client (en_PeerUrls nodeInfo))
         (MemberAdd client (en_PeerUrls nodeInfo)))
       ''unable to reach any cluster member, when trying to add new member''"

definition etcdRemoveMember :: "'w ctl_env \<Rightarrow> etcdClusterState \<Rightarrow> EtcdProcessMember
    \<Rightarrow> (('st, 'w, ctl_event) sys, go_error option) go" where
  "etcdRemoveMember e s member =
     on_some_member e s (\<lambda>client. recorded (client_RemoveMember (cx_api e) client member)
         (MemberRemove client member))
       ''unable to reach any cluster member, when trying to remove member''"

definition idlePeers :: "'w ctl_env \<Rightarrow> etcdClusterState \<Rightarrow> (('st, 'w, 'ev) sys, etcdClusterPeerInfo list) go" where
  "idlePeers e s =
     bind (range_map (cx_rt e) (st_peers s)) (\<lambda>kvs. ret (filter (\<lambda>p. \<not> is_configured p) (map snd kvs)))"

section \<open>Querying the cluster\<close>

definition collect_infos :: "'w ctl_env \<Rightarrow> ctl_peer list
    \<Rightarrow> (('st, 'w, ctl_event) sys, go_error + etcdClusterPeerInfo gomap) go" where
  "collect_infos e peerList =
     bind (for_each peerList [] (\<lambda>p acc.
       bind (rpcGetInfo e p) (\<lambda>r. ret (case r of
         Inl err \<Rightarrow> Stop (Wrap ''error from GetInfo from peer'' err)
       | Inr i \<Rightarrow> Next (gm_update (cp_Id p) \<lparr>cpi_peer = p, cpi_info = Some i\<rparr> acc))))) (\<lambda>r.
     ret (case r of Stop err \<Rightarrow> Inl err | Next m \<Rightarrow> Inr m))"

definition member_map :: "EtcdProcessMember list \<Rightarrow> (('st, 'w, 'ev) sys, EtcdProcessMember gomap) go" where
  "member_map ms =
     (if list_ex (\<lambda>m. em_ID m = []) ms then panic ''etcd member did not have ID''
      else ret (fold (\<lambda>m acc. gm_update (em_ID m) m acc) ms []))"

text \<open>The members as the first peer that answers lists them.\<close>

definition ask_members :: "'w ctl_env \<Rightarrow> tls_Config option \<Rightarrow> etcdClusterPeerInfo
    \<Rightarrow> (('st, 'w, 'ev) sys, (unit, EtcdProcessMember gomap) loop) go" where
  "ask_members e tls p =
     (case cpi_info p of None \<Rightarrow> panic ''nil pointer dereference''
      | Some i \<Rightarrow> (case (gi_NodeConfiguration i, gi_EtcdState i) of
          (Some n, Some st) \<Rightarrow>
            if client_urls_of n (Some st) = [] then ret (Next ())
            else bind (NewClient (cx_api e) (client_urls_of n (Some st)) tls) (\<lambda>c. case c of
              Inl _ \<Rightarrow> ret (Next ())
            | Inr client \<Rightarrow>
              bind (client_ListMembers (cx_api e) client) (\<lambda>r.
              bind (LoggedClose (cx_api e) client) (\<lambda>_. case r of
                Inl _ \<Rightarrow> ret (Next ())
              | Inr ms \<Rightarrow> bind (member_map ms) (\<lambda>m. ret (Stop m)))))
        | _ \<Rightarrow> ret (Next ())))"

definition list_members :: "'w ctl_env \<Rightarrow> tls_Config option \<Rightarrow> etcdClusterPeerInfo gomap
    \<Rightarrow> (('st, 'w, 'ev) sys, EtcdProcessMember gomap) go" where
  "list_members e tls ps =
     bind (range_map (cx_rt e) ps) (\<lambda>kvs.
     bind (for_each kvs () (\<lambda>kv _. ask_members e tls (snd kv))) (\<lambda>r.
     ret (case r of Stop m \<Rightarrow> m | Next _ \<Rightarrow> [])))"

definition check_health :: "'w ctl_env \<Rightarrow> etcdClusterState \<Rightarrow> (('st, 'w, 'ev) sys, EtcdProcessMember gomap) go" where
  "check_health e s =
     bind (range_map (cx_rt e) (st_members s)) (\<lambda>kvs.
     bind (for_each kvs [] (\<lambda>kv acc.
       bind (newEtcdClient e s (snd kv)) (\<lambda>c. case c of
         Inl _ \<Rightarrow> ret (Next acc)
       | Inr client \<Rightarrow>
         bind (client_ListMembers (cx_api e) client) (\<lambda>r.
         bind (LoggedClose (cx_api e) client) (\<lambda>_.
         ret (case r of Inl _ \<Rightarrow> Next acc | Inr _ \<Rightarrow> Next (gm_update (fst kv) (snd kv) acc))))))) (\<lambda>r.
     ret (case r of Next m \<Rightarrow> m | Stop m \<Rightarrow> m)))"

definition updateClusterState :: "'w ctl_env \<Rightarrow> tls_Config option \<Rightarrow> ctl_peer list
    \<Rightarrow> (('st, 'w, ctl_event) sys, go_error + etcdClusterState) go" where
  "updateClusterState e tls peerList =
     bind (collect_infos e peerList) (\<lambda>r. case r of
       Inl err \<Rightarrow> ret (Inl err)
     | Inr ps \<Rightarrow>
       bind (list_members e tls ps) (\<lambda>ms.
       let s = \<lparr>st_tls = tls, st_members = ms, st_peers = ps, st_healthyMembers = []\<rparr> in
       bind (check_health e s) (\<lambda>hs. ret (Inr (s\<lparr>st_healthyMembers := hs\<rparr>)))))"

section \<open>What a cluster state is\<close>

text \<open>
  Peers under their own ids, each with its answer, members under their etcd ids, and the
  healthy ones among them.
\<close>

definition members_ok :: "EtcdProcessMember gomap \<Rightarrow> bool" where
  "members_ok m \<longleftrightarrow> gm_ok m \<and> list_all (\<lambda>(k, v). em_ID v = k) m"

definition peers_ok :: "etcdClusterPeerInfo gomap \<Rightarrow> bool" where
  "peers_ok m \<longleftrightarrow> gm_ok m \<and> list_all (\<lambda>(k, p). cp_Id (cpi_peer p) = k \<and> cpi_info p \<noteq> None) m"

definition cluster_ok :: "etcdClusterState \<Rightarrow> bool" where
  "cluster_ok st \<longleftrightarrow> peers_ok (st_peers st) \<and> members_ok (st_members st)
     \<and> gm_ok (st_healthyMembers st) \<and> set (st_healthyMembers st) \<subseteq> set (st_members st)"

lemma ok_Nil [simp]: "members_ok []" "peers_ok []"
  by (simp_all add: members_ok_def peers_ok_def)

lemma members_ok_update: "members_ok m \<Longrightarrow> members_ok (gm_update (em_ID v) v m)"
  by (simp add: members_ok_def list_all_update)

lemma peers_ok_update:
  "peers_ok m \<Longrightarrow> peers_ok (gm_update (cp_Id p) \<lparr>cpi_peer = p, cpi_info = Some i\<rparr> m)"
  by (simp add: peers_ok_def list_all_update)

lemma collect_infos_ok:
  "hoare P (collect_infos e ps) (\<lambda>r _. \<forall>m. r = Inr m \<longrightarrow> peers_ok m) (\<lambda>_. True)"
  unfolding collect_infos_def rpcGetInfo_def rpc_def
  by (rule hoare_bind [OF hoare_for_each [where I = "\<lambda>_ m _. peers_ok m" and Q = "\<lambda>c _. \<forall>m. c = Next m \<longrightarrow> peers_ok m"]])
    (auto simp: hoare_def go_apply ask_def peers_ok_update split: loop.splits option.splits sum.splits prod.splits)

lemma members_ok_fold: "members_ok acc \<Longrightarrow> members_ok (fold (\<lambda>m acc. gm_update (em_ID m) m acc) ms acc)"
  by (induction ms arbitrary: acc) (simp_all add: members_ok_update)

lemma list_members_ok: "hoare P (list_members e tls ps) (\<lambda>m _. members_ok m) (\<lambda>_. True)"
  unfolding list_members_def ask_members_def member_map_def
  by (rule hoare_bind [where R = "\<lambda>_ _. True"], simp add: hoare_def split: prod.splits outcome.splits,
      rule hoare_bind [OF hoare_for_each [where I = "\<lambda>_ _ _. True" and Q = "\<lambda>c _. \<forall>m. c = Stop m \<longrightarrow> members_ok m"]])
    (auto simp: hoare_def go_apply members_ok_fold split: loop.splits option.splits sum.splits prod.splits outcome.splits if_splits)

lemma check_health_ok: "hoare P (check_health e s) (\<lambda>m _. gm_ok m \<and> set m \<subseteq> set (st_members s)) (\<lambda>_. True)"
  unfolding check_health_def
proof (rule hoare_bind [OF hoare_range])
  fix kvs
  show "hoare (\<lambda>_. set kvs = set (st_members s)) (bind (for_each kvs [] (\<lambda>kv acc.
       bind (newEtcdClient e s (snd kv)) (\<lambda>c. case c of
         Inl _ \<Rightarrow> ret (Next acc)
       | Inr client \<Rightarrow>
         bind (client_ListMembers (cx_api e) client) (\<lambda>r.
         bind (LoggedClose (cx_api e) client) (\<lambda>_.
         ret (case r of Inl _ \<Rightarrow> Next acc | Inr _ \<Rightarrow> Next (gm_update (fst kv) (snd kv) acc))))))) (\<lambda>r.
     ret (case r of Next m \<Rightarrow> m | Stop m \<Rightarrow> m))) (\<lambda>m _. gm_ok m \<and> set m \<subseteq> set (st_members s)) (\<lambda>_. True)"
    (is "hoare _ (bind ?loop _) _ _")
  proof -
    have "hoare (\<lambda>_. set kvs = set (st_members s)) ?loop
        (\<lambda>c _. case c of Next m \<Rightarrow> gm_ok m \<and> set m \<subseteq> set (st_members s) | Stop _ \<Rightarrow> False) (\<lambda>_. True)"
      by (rule hoare_for_each [where I = "\<lambda>_ m _. set kvs = set (st_members s) \<and> gm_ok m \<and> set m \<subseteq> set (st_members s)"])
        (auto simp: hoare_def go_apply split: loop.splits sum.splits prod.splits outcome.splits
          dest!: set_gm_update [THEN subsetD])
    then show ?thesis by (rule hoare_bind) (auto intro!: hoare_ret split: loop.splits)
  qed
qed

lemma updateClusterState_ok:
  assumes "updateClusterState e tls ps s = (Ret (Inr st), s')"
  shows "cluster_ok st"
proof -
  from assms obtain infos s1 ms s2 hs s3 where
      c: "collect_infos e ps s = (Ret (Inr infos), s1)" and l: "list_members e tls infos s1 = (Ret ms, s2)"
    and h: "check_health e \<lparr>st_tls = tls, st_members = ms, st_peers = infos, st_healthyMembers = []\<rparr> s2 = (Ret hs, s3)"
    and st: "st = \<lparr>st_tls = tls, st_members = ms, st_peers = infos, st_healthyMembers = hs\<rparr>"
    by (auto simp: updateClusterState_def bind_apply ret_apply Let_def split: prod.splits outcome.splits sum.splits)
  from hoare_RetD [OF collect_infos_ok TrueI c] hoare_RetD [OF list_members_ok TrueI l] hoare_RetD [OF check_health_ok TrueI h]
  show ?thesis by (simp add: st cluster_ok_def)
qed

end
