(* ===== verification/Controller.thy ===== *)
theory Controller
  imports Cluster_State Urls
begin

text \<open>
  The controller (\<^verbatim>\<open>pkg/controller\<close>): one iteration \<open>run\<close> of the loop by which the leader creates, repairs,
  resizes, upgrades and restores the etcd cluster. The state is the record \<open>EtcdController\<close>; every
  decision is taken on the cluster state of this iteration. The pair an operation returns is Go's
  \<^verbatim>\<open>(bool, error)\<close>: whether progress was made, and the error if there is one.
\<close>

section \<open>State\<close>

record leadershipState =
  ls_token :: string
  ls_ackedPeers :: "PeerId list"

record EtcdController =
  m_clusterName :: string
  m_dnsSuffix :: string
  m_controlRefreshInterval :: duration
  m_backupInterval :: duration
  m_backupStore :: vfsStore
  m_myPeerId :: PeerId
  m_hasLeaderLock :: bool
  m_leaderLockGuard :: "int option"
  m_leadership :: "leadershipState option"
  m_peerState :: "time gomap"
  m_lastBackup :: time
  m_backupCleanup :: BackupCleanup
  m_controlStore :: control_store
  m_controlCommands :: "vfsCommand list"
  m_controlLastRead :: time
  m_controlClusterSpec :: "ClusterSpec option"
  m_disableEtcdTLS :: bool
  m_etcdClientTLSConfig :: "tls_Config option"

type_synonym 'w ctl = "(EtcdController, 'w, ctl_event) sys"
type_synonym progress = "bool \<times> go_error option"

definition removeUnhealthyDeadline :: duration where "removeUnhealthyDeadline = minute"

definition NewEtcdController :: "'w ctl_env \<Rightarrow> bool \<Rightarrow> vfsStore \<Rightarrow> duration \<Rightarrow> control_store \<Rightarrow> duration \<Rightarrow> string
    \<Rightarrow> string \<Rightarrow> PeerId \<Rightarrow> CA option \<Rightarrow> bool \<Rightarrow> (('st, 'w, 'ev) sys, go_error + EtcdController) go" where
  "NewEtcdController e hasLock backupStore backupInterval controlStore refreshInterval clusterName dnsSuffix
       myPeerId etcdClientsCA disableEtcdTLS =
     (if clusterName = [] then ret (Inl (Errorf ''ClusterName is required''))
      else
        let m = \<lparr>m_clusterName = clusterName, m_dnsSuffix = dnsSuffix, m_controlRefreshInterval = refreshInterval,
              m_backupInterval = backupInterval, m_backupStore = backupStore, m_myPeerId = myPeerId,
              m_hasLeaderLock = hasLock, m_leaderLockGuard = None, m_leadership = None, m_peerState = [],
              m_lastBackup = 0, m_backupCleanup = NewBackupCleanup backupStore, m_controlStore = controlStore,
              m_controlCommands = [], m_controlLastRead = 0, m_controlClusterSpec = None,
              m_disableEtcdTLS = disableEtcdTLS, m_etcdClientTLSConfig = None\<rparr>
        in case etcdClientsCA of
             None \<Rightarrow> ret (Inr m)
           | Some ca \<Rightarrow>
             bind (BuildTLSClientConfig (cx_pki e) fresh_Keypair ca (''etcd-manager-'' @ myPeerId)) (\<lambda>r. ret (case r of
               Inl err \<Rightarrow> Inl err | Inr c \<Rightarrow> Inr (m\<lparr>m_etcdClientTLSConfig := Some c\<rparr>))))"

definition quorumSize :: "int \<Rightarrow> int" where
  "quorumSize desiredMemberCount = go_div desiredMemberCount 2 + 1"

abbreviation size_of :: "'v gomap \<Rightarrow> int" where "size_of m \<equiv> int (length m)"

definition buildHeader :: "('w ctl, CommonRequestHeader) go" where
  "buildHeader = bind (get_self (\<lambda>m. m)) (\<lambda>m. case m_leadership m of
     None \<Rightarrow> panic ''nil pointer dereference''
   | Some l \<Rightarrow> ret \<lparr>h_LeadershipToken = ls_token l, h_ClusterName = m_clusterName m\<rparr>)"

definition verifyEtcdVersion :: "'w ctl_env \<Rightarrow> ClusterSpec \<Rightarrow> (('st, 'w, 'ev) sys, go_error option) go" where
  "verifyEtcdVersion e spec =
     bind (BindirForEtcdVersion (cx_Stat e) (cs_EtcdVersion spec) ''etcd'') (\<lambda>r. ret (case r of
       Inr _ \<Rightarrow> None | Inl _ \<Rightarrow> Some (Errorf ''can't act as leader for unknown etcd version'')))"

section \<open>The control store\<close>

definition refreshControlStore :: "'w ctl_env \<Rightarrow> duration \<Rightarrow> ('w ctl, go_error option) go" where
  "refreshControlStore e ttl =
     bind (time_now (cx_rt e)) (\<lambda>now.
     bind (get_self (\<lambda>m. m)) (\<lambda>m.
       if ttl \<noteq> 0 \<and> now < m_controlLastRead m + ttl then ret None
       else bind (ListCommands (cx_cmd e) (m_controlStore m)) (\<lambda>r. case r of
         Inl err \<Rightarrow> ret (Some err)
       | Inr commands \<Rightarrow>
         bind (GetExpectedClusterSpec (cx_cmd e) (m_controlStore m)) (\<lambda>r. case r of
           Inl err \<Rightarrow> ret (Some err)
         | Inr spec \<Rightarrow>
           bind (upd_self (\<lambda>m. m\<lparr>m_controlCommands := commands, m_controlLastRead := now, m_controlClusterSpec := spec\<rparr>))
             (\<lambda>_. ret None)))))"

definition InvalidateControlStore :: "'w ctl_env \<Rightarrow> ('w ctl, go_error option) go" where
  "InvalidateControlStore e = refreshControlStore e 0"

definition getRestoreBackupCommand :: "EtcdController \<Rightarrow> vfsCommand option" where
  "getRestoreBackupCommand m = find (\<lambda>c. cmd_RestoreBackup (vc_data c) \<noteq> None) (m_controlCommands m)"

definition removeCommand :: "'w ctl_env \<Rightarrow> vfsCommand \<Rightarrow> ('w ctl, go_error option) go" where
  "removeCommand e cmd =
     bind (get_self m_controlStore) (\<lambda>store.
     bind (recorded (RemoveCommand (cx_cmd e) store cmd) (CommandRemoved cmd)) (\<lambda>r.
     bind (upd_self (\<lambda>m. m\<lparr>m_controlCommands := [], m_controlLastRead := 0\<rparr>)) (\<lambda>_. ret r)))"

definition writeClusterSpec :: "'w ctl_env \<Rightarrow> ClusterSpec \<Rightarrow> ('w ctl, go_error option) go" where
  "writeClusterSpec e spec =
     bind (get_self m_controlStore) (\<lambda>store.
     recorded (SetExpectedClusterSpec (cx_cmd e) store spec) (SpecWritten spec))"

section \<open>Backups\<close>

definition try_backup :: "'w ctl_env \<Rightarrow> ClusterSpec \<Rightarrow> etcdClusterState \<Rightarrow> EtcdProcessMember
    \<Rightarrow> ('w ctl, (unit, string) loop) go" where
  "try_backup e spec st member =
     bind (FindPeer e st member) (\<lambda>p. case p of
       None \<Rightarrow> ret (Next ())
     | Some p \<Rightarrow>
       bind buildHeader (\<lambda>h.
       bind (get_self m_backupStore) (\<lambda>store.
       bind (rpcDoBackup e (cpi_peer p) \<lparr>db_Header = Some h, db_Storage = st_spec store,
           db_Info = Some \<lparr>bi_EtcdVersion = [], bi_Timestamp = 0, bi_ClusterSpec = Some spec\<rparr>\<rparr>) (\<lambda>r.
       ret (case r of Inl _ \<Rightarrow> Next () | Inr name \<Rightarrow> Stop name)))))"

definition doClusterBackup :: "'w ctl_env \<Rightarrow> ClusterSpec \<Rightarrow> etcdClusterState \<Rightarrow> ('w ctl, go_error + string) go" where
  "doClusterBackup e spec st =
     bind (range_map (cx_rt e) (st_healthyMembers st)) (\<lambda>kvs.
     bind (for_each kvs () (\<lambda>kv _. try_backup e spec st (snd kv))) (\<lambda>r.
     ret (case r of Stop name \<Rightarrow> Inr name | Next _ \<Rightarrow> Inl (Errorf ''no peer was able to perform a backup''))))"

definition maybeBackup :: "'w ctl_env \<Rightarrow> ClusterSpec \<Rightarrow> etcdClusterState \<Rightarrow> ('w ctl, go_error option) go" where
  "maybeBackup e spec st =
     bind (time_now (cx_rt e)) (\<lambda>now.
     bind (get_self (\<lambda>m. m)) (\<lambda>m.
       if \<not> time_sub now (m_lastBackup m) > m_backupInterval m then ret None
       else bind (doClusterBackup e spec st) (\<lambda>r. case r of
         Inl err \<Rightarrow> ret (Some err)
       | Inr _ \<Rightarrow>
         bind (upd_self (\<lambda>m. m\<lparr>m_lastBackup := now\<rparr>)) (\<lambda>_.
         bind (MaybeDoBackupMaintenance (cx_vfs e) (cx_retention e) (m_backupCleanup m)) (\<lambda>(_, cleanup).
         bind (upd_self (\<lambda>m. m\<lparr>m_backupCleanup := cleanup\<rparr>)) (\<lambda>_. ret None))))))"

section \<open>The member map\<close>

definition member_info :: "string \<Rightarrow> string \<Rightarrow> string list \<Rightarrow> MemberMapInfo" where
  "member_info dnsSuffix name endpoints =
     \<lparr>mm_Name = name, mm_Dns = (if dnsSuffix \<noteq> [] then name @ add_dot dnsSuffix else []), mm_Addresses = endpoints\<rparr>"

definition buildMemberMap :: "'w ctl_env \<Rightarrow> etcdClusterState \<Rightarrow> ('w ctl, MemberMap) go" where
  "buildMemberMap e st =
     bind (get_self m_dnsSuffix) (\<lambda>dnsSuffix.
     bind (range_map (cx_rt e) (st_peers st)) (\<lambda>kvs.
     bind (for_each kvs [] (\<lambda>kv ms. case cp_info (cpi_peer (snd kv)) of
         None \<Rightarrow> ret (Next ms)
       | Some pinfo \<Rightarrow> (case cpi_info (snd kv) of
           None \<Rightarrow> panic ''nil pointer dereference''
         | Some i \<Rightarrow> ret (Next (case (gi_EtcdState i, gi_NodeConfiguration i) of
             (Some _, Some n) \<Rightarrow> ms @ [member_info dnsSuffix (en_Name n) (pi_Endpoints pinfo)] | _ \<Rightarrow> ms))))) (\<lambda>r.
     ret \<lparr>mm_Members = (case r of Next ms \<Rightarrow> ms | Stop ms \<Rightarrow> ms)\<rparr>)))"

definition broadcastMemberMap :: "'w ctl_env \<Rightarrow> etcdClusterState \<Rightarrow> MemberMap \<Rightarrow> ('w ctl, go_error list) go" where
  "broadcastMemberMap e st memberMap =
     bind (range_map (cx_rt e) (st_peers st)) (\<lambda>kvs.
     bind (for_each kvs [] (\<lambda>kv errs.
       bind (rpcUpdateEndpoints e (cpi_peer (snd kv)) memberMap) (\<lambda>r.
       ret (Next (case r of Some err \<Rightarrow> errs @ [err] | None \<Rightarrow> errs))))) (\<lambda>r.
     ret (case r of Next errs \<Rightarrow> errs | Stop errs \<Rightarrow> errs)))"

section \<open>Creating a cluster\<close>

text \<open>A node configuration with the URL schemes that fit the TLS setting (the code clones it first).\<close>

definition node_for_tls :: "bool \<Rightarrow> EtcdNode \<Rightarrow> EtcdNode" where
  "node_for_tls disableTLS n =
     (if disableTLS then n\<lparr>en_PeerUrls := RewriteScheme (en_PeerUrls n) ''https://'' ''http://'',
        en_ClientUrls := RewriteScheme (en_ClientUrls n) ''https://'' ''http://'', en_TlsEnabled := False\<rparr>
      else n\<lparr>en_PeerUrls := RewriteScheme (en_PeerUrls n) ''http://'' ''https://'',
        en_ClientUrls := RewriteScheme (en_ClientUrls n) ''http://'' ''https://'', en_TlsEnabled := True\<rparr>)"

definition node_config :: "etcdClusterPeerInfo \<Rightarrow> (('st, 'w, 'ev) sys, EtcdNode) go" where
  "node_config p = (case cpi_info p of None \<Rightarrow> panic ''nil pointer dereference''
     | Some i \<Rightarrow> (case gi_NodeConfiguration i of None \<Rightarrow> panic ''nil pointer dereference'' | Some n \<Rightarrow> ret n))"

text \<open>As many peers as members are wanted, or all of them when there are fewer.\<close>

definition proposal_of :: "int \<Rightarrow> etcdClusterPeerInfo list \<Rightarrow> etcdClusterPeerInfo list" where
  "proposal_of desired ps = (if desired \<le> 0 then ps else take (nat desired) ps)"

definition propose :: "'w ctl_env \<Rightarrow> etcdClusterPeerInfo list
    \<Rightarrow> ('w ctl, go_error + (EtcdNode list \<times> MemberMap)) go" where
  "propose e proposal =
     bind (get_self (\<lambda>m. m)) (\<lambda>m.
     bind (for_each proposal ([], []) (\<lambda>p (nodes, infos).
       bind (node_config p) (\<lambda>n0.
         let n = node_for_tls (m_disableEtcdTLS m) n0 in
         case cp_info (cpi_peer p) of
           None \<Rightarrow> ret (Stop (Errorf ''no info for peer''))
         | Some pinfo \<Rightarrow> ret (Next (nodes @ [n], infos @ [member_info (m_dnsSuffix m) (en_Name n) (pi_Endpoints pinfo)]))))) (\<lambda>r.
     ret (case r of Stop err \<Rightarrow> Inl err | Next (nodes, infos) \<Rightarrow> Inr (nodes, \<lparr>mm_Members = infos\<rparr>))))"

definition stop_all :: "'w ctl_env \<Rightarrow> etcdClusterState \<Rightarrow> ('w ctl, go_error option) go" where
  "stop_all e st =
     bind (range_map (cx_rt e) (st_peers st)) (\<lambda>kvs.
     bind (for_each kvs () (\<lambda>kv _. case peer_state (snd kv) of
         None \<Rightarrow> ret (Next ())
       | Some _ \<Rightarrow>
         bind buildHeader (\<lambda>h.
         bind (rpcStopEtcd e (cpi_peer (snd kv)) h) (\<lambda>r. ret (case r of
           Some err \<Rightarrow> Stop (Wrap ''error stopping etcd peer'' err) | None \<Rightarrow> Next ()))))) (\<lambda>r.
     ret (case r of Stop err \<Rightarrow> Some err | Next _ \<Rightarrow> None)))"

definition join_request :: "CommonRequestHeader \<Rightarrow> Phase \<Rightarrow> string \<Rightarrow> string \<Rightarrow> EtcdNode list \<Rightarrow> JoinClusterRequest" where
  "join_request h phase clusterToken etcdVersion nodes = \<lparr>jc_Header = Some h, jc_Phase = phase,
     jc_ClusterToken = clusterToken, jc_Nodes = nodes, jc_EtcdVersion = etcdVersion\<rparr>"

definition join_all :: "'w ctl_env \<Rightarrow> Phase \<Rightarrow> string \<Rightarrow> string \<Rightarrow> EtcdNode list \<Rightarrow> etcdClusterPeerInfo list
    \<Rightarrow> ('w ctl, go_error option) go" where
  "join_all e phase clusterToken etcdVersion nodes proposal =
     bind (for_each proposal () (\<lambda>p _.
       bind buildHeader (\<lambda>h.
       bind (rpcJoinCluster e (cpi_peer p) (join_request h phase clusterToken etcdVersion nodes)) (\<lambda>r.
       ret (case r of Some err \<Rightarrow> Stop (Wrap ''error from JoinClusterRequest'' err) | None \<Rightarrow> Next ()))))) (\<lambda>r.
     ret (case r of Stop err \<Rightarrow> Some err | Next _ \<Rightarrow> None))"

text \<open>Stop what runs, tell everyone the member map, prepare all, start all, write the specification.\<close>

definition form_cluster :: "'w ctl_env \<Rightarrow> etcdClusterState \<Rightarrow> ClusterSpec \<Rightarrow> string \<Rightarrow> etcdClusterPeerInfo list
    \<Rightarrow> EtcdNode list \<Rightarrow> MemberMap \<Rightarrow> ('w ctl, progress) go" where
  "form_cluster e st spec clusterToken proposal nodes memberMap =
     bind (stop_all e st) (\<lambda>r. case r of
       Some err \<Rightarrow> ret (False, Some err)
     | None \<Rightarrow>
       bind (broadcastMemberMap e st memberMap) (\<lambda>errs.
       if errs \<noteq> [] then ret (False, Some (Errorf ''unable to broadcast member map''))
       else
         bind (join_all e PHASE_PREPARE clusterToken (cs_EtcdVersion spec) nodes proposal) (\<lambda>r. case r of
           Some err \<Rightarrow> ret (False, Some err)
         | None \<Rightarrow>
           bind (join_all e PHASE_INITIAL_CLUSTER clusterToken (cs_EtcdVersion spec) nodes proposal) (\<lambda>r. case r of
             Some err \<Rightarrow> ret (False, Some err)
           | None \<Rightarrow>
             bind (writeClusterSpec e spec) (\<lambda>r. case r of
               Some err \<Rightarrow> ret (False, Some err) | None \<Rightarrow> ret (True, None))))))"

definition createNewCluster :: "'w ctl_env \<Rightarrow> etcdClusterState \<Rightarrow> ClusterSpec \<Rightarrow> ('w ctl, progress) go" where
  "createNewCluster e st spec =
     (let desired = cs_MemberCount spec; n = size_of (st_peers st) in
      if n < quorumSize desired then ret (False, None)
      else if n < desired \<and> quorumSize n \<noteq> quorumSize desired then ret (False, None)
      else
        bind (ask (rt_token (cx_rt e))) (\<lambda>clusterToken.
        bind (range_map (cx_rt e) (st_peers st)) (\<lambda>kvs.
        let proposal = proposal_of desired (map snd kvs) in
        if int (length proposal) < desired \<and> quorumSize (int (length proposal)) < quorumSize desired
        then panic ''Need to add dummy peers to force quorum size''
        else
          bind (propose e proposal) (\<lambda>r. case r of
            Inl err \<Rightarrow> ret (False, Some err)
          | Inr (nodes, memberMap) \<Rightarrow> form_cluster e st spec clusterToken proposal nodes memberMap))))"

section \<open>Changing the members\<close>

text \<open>
  The token and version of the running cluster: those of the last configured peer (in the order of
  this iteration) with a token.
\<close>

definition running_cluster :: "etcdClusterPeerInfo list \<Rightarrow> string \<times> string" where
  "running_cluster ps = fold (\<lambda>p acc. case peer_state p of
     Some st \<Rightarrow> (case es_Cluster st of
       Some c \<Rightarrow> if ec_ClusterToken c \<noteq> [] then (ec_ClusterToken c, es_EtcdVersion st) else acc
     | None \<Rightarrow> acc)
   | None \<Rightarrow> acc) ps ([], [])"

definition node_of_member :: "EtcdProcessMember \<Rightarrow> EtcdNode" where
  "node_of_member m = \<lparr>en_Name = em_Name m, en_PeerUrls = em_PeerURLs m, en_ClientUrls = em_ClientURLs m,
     en_QuarantinedClientUrls = [], en_TlsEnabled = isTLSEnabled m\<rparr>"

text \<open>
  The idle peers, in the order of the iteration; the name of a configured peer is read from its node
  configuration to look for its member.
\<close>

definition find_idle :: "'w ctl_env \<Rightarrow> etcdClusterState \<Rightarrow> ('w ctl, etcdClusterPeerInfo list) go" where
  "find_idle e st =
     bind (range_map (cx_rt e) (st_peers st)) (\<lambda>kvs.
     bind (for_each kvs [] (\<lambda>kv idle.
       if is_configured (snd kv) then
         (if st_members st = [] then ret (Next idle)
          else bind (node_config (snd kv)) (\<lambda>_. ret (Next idle)))
       else ret (Next (idle @ [snd kv])))) (\<lambda>r.
     ret (case r of Next idle \<Rightarrow> idle | Stop idle \<Rightarrow> idle)))"

definition cancel_request :: "CommonRequestHeader \<Rightarrow> string \<Rightarrow> JoinClusterRequest" where
  "cancel_request h clusterToken = join_request h PHASE_CANCEL_PREPARE clusterToken [] []"

text \<open>Prepare the peer, add it to etcd (or cancel the preparation), and start it.\<close>

definition join_peer :: "'w ctl_env \<Rightarrow> etcdClusterState \<Rightarrow> etcdClusterPeerInfo \<Rightarrow> EtcdNode \<Rightarrow> string \<Rightarrow> string
    \<Rightarrow> EtcdNode list \<Rightarrow> ('w ctl, progress) go" where
  "join_peer e st p config clusterToken etcdVersion nodes =
     bind buildHeader (\<lambda>h.
     bind (rpcJoinCluster e (cpi_peer p) (join_request h PHASE_PREPARE clusterToken etcdVersion nodes)) (\<lambda>r. case r of
       Some err \<Rightarrow> ret (False, Some (Wrap ''error from JoinClusterRequest (prepare)'' err))
     | None \<Rightarrow>
       bind (etcdAddMember e st config) (\<lambda>r. case r of
         Some err \<Rightarrow>
           bind buildHeader (\<lambda>h.
           bind (rpcJoinCluster e (cpi_peer p) (cancel_request h clusterToken)) (\<lambda>_.
           ret (False, Some (Wrap ''error adding peer to cluster'' err))))
       | None \<Rightarrow>
         bind buildHeader (\<lambda>h.
         bind (rpcJoinCluster e (cpi_peer p) (join_request h PHASE_JOIN_EXISTING clusterToken etcdVersion nodes)) (\<lambda>r.
         ret (case r of
           Some err \<Rightarrow> (False, Some (Wrap ''error from JoinClusterRequest'' err)) | None \<Rightarrow> (True, None)))))))"

definition backup_before_add :: "'w ctl_env \<Rightarrow> ClusterSpec \<Rightarrow> etcdClusterState \<Rightarrow> ('w ctl, go_error option) go" where
  "backup_before_add e spec st =
     (if st_members st \<noteq> [] then bind (doClusterBackup e spec st) (\<lambda>r. ret (case r of
        Inl err \<Rightarrow> Some (Wrap ''failed to backup (before adding peer)'' err) | Inr _ \<Rightarrow> None))
      else ret None)"

definition add_peer :: "'w ctl_env \<Rightarrow> ClusterSpec \<Rightarrow> etcdClusterState \<Rightarrow> etcdClusterPeerInfo list \<Rightarrow> ('w ctl, progress) go" where
  "add_peer e spec st idle =
     bind (backup_before_add e spec st) (\<lambda>r. case r of
       Some err \<Rightarrow> ret (False, Some err)
     | None \<Rightarrow>
       bind (ask (cx_rand e)) (\<lambda>k.
       let p = idle ! (k mod length idle) in
       bind (range_map (cx_rt e) (st_peers st)) (\<lambda>pkvs.
       let (clusterToken, etcdVersion) = running_cluster (map snd pkvs) in
       if clusterToken = [] then ret (False, Some (Errorf ''unable to determine cluster token''))
       else
         bind (range_map (cx_rt e) (st_members st)) (\<lambda>mkvs.
         bind (node_config p) (\<lambda>config.
         bind (get_self m_disableEtcdTLS) (\<lambda>disableTLS.
         join_peer e st p config clusterToken etcdVersion
           (map (node_of_member \<circ> snd) mkvs @ [node_for_tls disableTLS config])))))))"

definition addNodeToCluster :: "'w ctl_env \<Rightarrow> ClusterSpec \<Rightarrow> etcdClusterState \<Rightarrow> ('w ctl, progress) go" where
  "addNodeToCluster e spec st =
     (if size_of (st_healthyMembers st) < quorumSize (size_of (st_members st))
      then ret (False, Some (Errorf ''can't expand cluster - don't have quorum''))
      else
        bind (find_idle e st) (\<lambda>idle.
        if idle \<noteq> [] then add_peer e spec st idle else ret (False, None)))"

text \<open>
  The member to remove: an unhealthy one, which must have been so for a while unless healthy ones may
  be removed as well; then any one.
\<close>

definition unhealthy_victim :: "'w ctl_env \<Rightarrow> etcdClusterState \<Rightarrow> bool \<Rightarrow> time
    \<Rightarrow> ('w ctl, EtcdProcessMember option) go" where
  "unhealthy_victim e st removeHealthy now =
     (if size_of (st_healthyMembers st) < size_of (st_members st) then
        bind (get_self m_peerState) (\<lambda>ps.
        bind (range_map (cx_rt e) (st_members st)) (\<lambda>kvs.
        bind (for_each kvs () (\<lambda>kv _.
          if gm_lookup (st_healthyMembers st) (fst kv) = None then
            (if \<not> removeHealthy then (case gm_lookup ps (fst kv) of
               None \<Rightarrow> panic ''peerState unexpectedly nil''
             | Some lastEtcdHealthy \<Rightarrow>
               ret (if time_sub now lastEtcdHealthy < removeUnhealthyDeadline then Next () else Stop (snd kv)))
             else ret (Stop (snd kv)))
          else ret (Next ()))) (\<lambda>r.
        ret (case r of Stop m \<Rightarrow> Some m | Next _ \<Rightarrow> None))))
      else ret None)"

definition any_member :: "'w ctl_env \<Rightarrow> etcdClusterState \<Rightarrow> ('w ctl, EtcdProcessMember option) go" where
  "any_member e st = find_in (cx_rt e) (\<lambda>_. True) (st_members st)"

definition remove_member :: "'w ctl_env \<Rightarrow> ClusterSpec \<Rightarrow> etcdClusterState \<Rightarrow> EtcdProcessMember \<Rightarrow> ('w ctl, progress) go" where
  "remove_member e spec st victim =
     bind (doClusterBackup e spec st) (\<lambda>r. case r of
       Inl err \<Rightarrow> ret (False, Some (Wrap ''failed to backup (before adding peer)'' err))
     | Inr _ \<Rightarrow>
       bind (etcdRemoveMember e st victim) (\<lambda>r. ret (case r of
         Some err \<Rightarrow> (False, Some (Wrap ''failed to remove member'' err)) | None \<Rightarrow> (True, None))))"

definition removeNodeFromCluster :: "'w ctl_env \<Rightarrow> ClusterSpec \<Rightarrow> etcdClusterState \<Rightarrow> bool \<Rightarrow> ('w ctl, progress) go" where
  "removeNodeFromCluster e spec st removeHealthy =
     bind (time_now (cx_rt e)) (\<lambda>now.
     bind (unhealthy_victim e st removeHealthy now) (\<lambda>v. case v of
       Some victim \<Rightarrow> remove_member e spec st victim
     | None \<Rightarrow>
       if \<not> removeHealthy then ret (False, None)
       else bind (any_member e st) (\<lambda>v. case v of
         None \<Rightarrow> ret (False, Some (Errorf ''unable to pick a member to remove''))
       | Some victim \<Rightarrow> remove_member e spec st victim)))"

section \<open>Quarantine and restore\<close>

definition updateQuarantine :: "'w ctl_env \<Rightarrow> etcdClusterState \<Rightarrow> bool \<Rightarrow> ('w ctl, progress) go" where
  "updateQuarantine e st quarantined =
     bind (range_map (cx_rt e) (st_peers st)) (\<lambda>kvs.
     bind (for_each kvs False (\<lambda>kv changed.
       bind (FindMember e st (fst kv)) (\<lambda>member. case member of
         None \<Rightarrow> ret (Next changed)
       | Some _ \<Rightarrow>
         bind buildHeader (\<lambda>h.
         bind (rpcReconfigure e (cpi_peer (snd kv)) \<lparr>rc_Header = Some h, rc_SetEtcdVersion = [],
             rc_Quarantined = quarantined, rc_EnableTls = False\<rparr>) (\<lambda>r. ret (case r of
           Some err \<Rightarrow> Stop (changed, Wrap ''error reconfiguring peer'' err)
         | None \<Rightarrow> Next True)))))) (\<lambda>r.
     ret (case r of Stop (changed, err) \<Rightarrow> (changed, Some err) | Next changed \<Rightarrow> (changed, None))))"

text \<open>The last peer, in the order of the iteration, that is a healthy member.\<close>

definition restore_peer :: "'w ctl_env \<Rightarrow> etcdClusterState \<Rightarrow> ('w ctl, etcdClusterPeerInfo option) go" where
  "restore_peer e st =
     bind (range_map (cx_rt e) (st_peers st)) (\<lambda>kvs.
     bind (for_each kvs None (\<lambda>kv found.
       bind (FindHealthyMember e st (fst kv)) (\<lambda>member.
       ret (Next (case member of None \<Rightarrow> found | Some _ \<Rightarrow> Some (snd kv)))))) (\<lambda>r.
     ret (case r of Next found \<Rightarrow> found | Stop found \<Rightarrow> found)))"

definition restoreBackupAndLiftQuarantine :: "'w ctl_env \<Rightarrow> ClusterSpec \<Rightarrow> etcdClusterState \<Rightarrow> vfsCommand
    \<Rightarrow> ('w ctl, progress) go" where
  "restoreBackupAndLiftQuarantine e spec st cmd =
     (case cmd_RestoreBackup (vc_data cmd) of
        None \<Rightarrow> ret (False, Some (Errorf ''RestoreBackup not set''))
      | Some rb \<Rightarrow>
        if rb_Backup rb = [] then ret (False, Some (Errorf ''RestoreBackup not set''))
        else
          bind (get_self m_backupStore) (\<lambda>store.
          bind (LoadInfo (cx_vfs e) store (rb_Backup rb)) (\<lambda>r. case r of
            Inl err \<Rightarrow> ret (False, Some (Wrap ''error reading backup info'' err))
          | Inr info \<Rightarrow>
            if bi_EtcdVersion info = [] then ret (False, Some (Errorf ''etcd version not found''))
            else
              bind buildHeader (\<lambda>h.
              bind (restore_peer e st) (\<lambda>p. case p of
                None \<Rightarrow> ret (False, Some (Errorf ''unable to find peer on which to run restore operation''))
              | Some p \<Rightarrow>
                bind (rpcDoRestore e (cpi_peer p) \<lparr>dr_Header = Some h, dr_Storage = st_spec store,
                    dr_BackupName = rb_Backup rb\<rparr>) (\<lambda>r. case r of
                  Some err \<Rightarrow> ret (False, Some (Wrap ''error restoring backup on peer'' err))
                | None \<Rightarrow>
                  bind (writeClusterSpec e spec) (\<lambda>r. case r of
                    Some err \<Rightarrow> ret (False, Some err)
                  | None \<Rightarrow>
                    bind (removeCommand e cmd) (\<lambda>r. ret (case r of
                      Some err \<Rightarrow> (False, Some err) | None \<Rightarrow> (True, None))))))))))"

section \<open>TLS\<close>

definition updatePeerURLs :: "'w ctl_env \<Rightarrow> PeerId \<Rightarrow> EtcdNode \<Rightarrow> EtcdState \<Rightarrow> string list \<Rightarrow> ('w ctl, progress) go" where
  "updatePeerURLs e peerID config state setPeerURLs =
     (if setPeerURLs = [] then ret (False, None)
      else
        bind (get_self m_etcdClientTLSConfig) (\<lambda>tls.
        bind (NewClient (cx_api e) (client_urls_of config (Some state)) tls) (\<lambda>c. case c of
          Inl err \<Rightarrow> ret (False, Some (Wrap ''unable to reach peer'' err))
        | Inr client \<Rightarrow>
          bind (bind (client_ListMembers (cx_api e) client) (\<lambda>r. case r of
            Inl err \<Rightarrow> ret (False, Some (Wrap ''error listing members on peer'' err))
          | Inr ms \<Rightarrow> (case find (\<lambda>m. em_Name m = peerID) (rev ms) of
              None \<Rightarrow> ret (False, Some (Errorf ''peer had no member in cluster, can't reconfigure peerUrls''))
            | Some member \<Rightarrow>
              bind (recorded (client_SetPeerURLs (cx_api e) client member setPeerURLs)
                  (MemberUpdate client member setPeerURLs)) (\<lambda>r. ret (case r of
                Some err \<Rightarrow> (False, Some (Wrap ''error reconfiguring peer with peerUrls'' err))
              | None \<Rightarrow> (True, None)))))) (\<lambda>res.
          bind (LoggedClose (cx_api e) client) (\<lambda>_. ret res)))))"

definition normalize :: "string list \<Rightarrow> string list" where "normalize xs = sort xs"

text \<open>The peer URLs first, which go through raft, then the flag on the node; one change per cycle.\<close>

definition reconcile_peer_tls :: "'w ctl_env \<Rightarrow> etcdClusterState \<Rightarrow> PeerId \<Rightarrow> etcdClusterPeerInfo \<Rightarrow> EtcdNode \<Rightarrow> EtcdState
    \<Rightarrow> EtcdNode \<Rightarrow> ('w ctl, (unit, progress) loop) go" where
  "reconcile_peer_tls e st peerID p config state node =
     bind (FindMember e st peerID) (\<lambda>member. case member of
       None \<Rightarrow> ret (Next ())
     | Some member \<Rightarrow>
       let expected = normalize (RewriteScheme (en_PeerUrls config) ''http://'' ''https://'') in
       bind (if normalize (em_PeerURLs member) \<noteq> expected then updatePeerURLs e peerID config state expected
             else ret (False, None)) (\<lambda>(c, err).
         if c \<or> err \<noteq> None then ret (Stop (c, err))
         else if \<not> en_TlsEnabled node then
           bind buildHeader (\<lambda>h.
           bind (rpcReconfigure e (cpi_peer p) \<lparr>rc_Header = Some h, rc_SetEtcdVersion = [],
               rc_Quarantined = es_Quarantined state, rc_EnableTls = True\<rparr>) (\<lambda>r. ret (case r of
             Some err \<Rightarrow> Stop (False, Some (Wrap ''error reconfiguring peer'' err))
           | None \<Rightarrow> Stop (True, None))))
         else ret (Next ())))"

definition reconcileTLS :: "'w ctl_env \<Rightarrow> etcdClusterState \<Rightarrow> ('w ctl, progress) go" where
  "reconcileTLS e st =
     bind (get_self m_disableEtcdTLS) (\<lambda>disabled.
     if disabled then ret (False, None)
     else
       bind (range_map (cx_rt e) (st_peers st)) (\<lambda>kvs.
       bind (for_each kvs () (\<lambda>kv _. case cpi_info (snd kv) of
           None \<Rightarrow> ret (Next ())
         | Some i \<Rightarrow> (case (gi_NodeConfiguration i, gi_EtcdState i) of
             (Some config, Some state) \<Rightarrow> (case es_Cluster state of
               None \<Rightarrow> ret (Next ())
             | Some c \<Rightarrow> (case find (\<lambda>n. en_Name n = en_Name config) (rev (ec_Nodes c)) of
                 None \<Rightarrow> ret (Next ())
               | Some node \<Rightarrow> reconcile_peer_tls e st (fst kv) (snd kv) config state node))
           | _ \<Rightarrow> ret (Next ())))) (\<lambda>r.
       ret (case r of Stop res \<Rightarrow> res | Next _ \<Rightarrow> (False, None)))))"

section \<open>Upgrades\<close>

definition prepareForUpgrade :: "'w ctl_env \<Rightarrow> ClusterSpec \<Rightarrow> etcdClusterState
    \<Rightarrow> ('w ctl, go_error + etcdClusterPeerInfo gomap) go" where
  "prepareForUpgrade e spec st =
     bind (range_map (cx_rt e) (st_members st)) (\<lambda>mkvs.
     bind (for_each mkvs [] (\<lambda>mkv acc.
       bind (range_map (cx_rt e) (st_peers st)) (\<lambda>pkvs. ret (
         case find (\<lambda>kv. node_name (snd kv) = Some (em_Name (snd mkv))) (rev pkvs) of
           None \<Rightarrow> Stop (Errorf ''unable to find peer for member'')
         | Some kv \<Rightarrow> Next (gm_update (fst mkv) (snd kv) acc))))) (\<lambda>r. ret (case r of
       Stop err \<Rightarrow> Inl err
     | Next memberToPeer \<Rightarrow>
       if length (st_healthyMembers st) \<noteq> length (st_members st)
       then Inl (Errorf ''cannot upgrade/downgrade cluster when not all members are healthy'')
       else if size_of (st_members st) \<noteq> cs_MemberCount spec
       then Inl (Errorf ''cannot upgrade/downgrade cluster when cluster is not at full member count'')
       else Inr memberToPeer)))"

text \<open>
  The wait for the restore command to become visible is unbounded in the code; the model polls
  \<open>cx_patience\<close> times, and running out stands for a run that is still waiting.
\<close>

fun await_command :: "nat \<Rightarrow> 'w ctl_env \<Rightarrow> ('w ctl, go_error option) go" where
  "await_command 0 e = panic ''still waiting for the restore-backup command''"
| "await_command (Suc n) e =
     bind (refreshControlStore e 0) (\<lambda>r. case r of
       Some err \<Rightarrow> ret (Some (Wrap ''error refreshing control store'' err))
     | None \<Rightarrow> bind (get_self getRestoreBackupCommand) (\<lambda>c. if c \<noteq> None then ret None else await_command n e))"

definition stop_members :: "'w ctl_env \<Rightarrow> etcdClusterState \<Rightarrow> etcdClusterPeerInfo gomap \<Rightarrow> ('w ctl, progress) go" where
  "stop_members e st memberToPeer =
     bind (range_map (cx_rt e) (st_members st)) (\<lambda>kvs.
     bind (for_each kvs () (\<lambda>kv _. case gm_lookup memberToPeer (fst kv) of
         None \<Rightarrow> ret (Stop (Errorf ''peer unexpectedly not found for member - logic error''))
       | Some p \<Rightarrow>
         bind buildHeader (\<lambda>h.
         bind (rpcStopEtcd e (cpi_peer p) h) (\<lambda>r. ret (case r of
           Some err \<Rightarrow> Stop (Wrap ''error stopping etcd peer'' err) | None \<Rightarrow> Next ()))))) (\<lambda>r.
     ret (case r of Stop err \<Rightarrow> (False, Some err) | Next _ \<Rightarrow> (True, None))))"

definition restore_command :: "string \<Rightarrow> ClusterSpec \<Rightarrow> Command" where
  "restore_command backup spec = \<lparr>cmd_Timestamp = 0,
     cmd_RestoreBackup = Some \<lparr>rb_ClusterSpec = Some spec, rb_Backup = backup\<rparr>\<rparr>"

definition schedule_restore :: "'w ctl_env \<Rightarrow> ClusterSpec \<Rightarrow> string \<Rightarrow> ('w ctl, go_error option) go" where
  "schedule_restore e spec backup =
     bind (get_self m_controlStore) (\<lambda>store.
     bind (recorded (AddCommand (cx_cmd e) store (restore_command backup spec)) (CommandAdded (restore_command backup spec)))
       (\<lambda>r. case r of
         Some err \<Rightarrow> ret (Some (Wrap ''error adding restore command'' err))
       | None \<Rightarrow> await_command (cx_patience e) e))"

definition stopForUpgrade :: "'w ctl_env \<Rightarrow> ClusterSpec \<Rightarrow> etcdClusterState \<Rightarrow> ('w ctl, progress) go" where
  "stopForUpgrade e spec st =
     bind (prepareForUpgrade e spec st) (\<lambda>r. case r of
       Inl err \<Rightarrow> ret (False, Some err)
     | Inr memberToPeer \<Rightarrow>
       bind (doClusterBackup e spec st) (\<lambda>r. case r of
         Inl err \<Rightarrow> ret (False, Some (Wrap ''error doing backup before upgrade/downgrade'' err))
       | Inr _ \<Rightarrow>
         bind (updateQuarantine e st True) (\<lambda>(_, r). case r of
           Some err \<Rightarrow> ret (False, Some err)
         | None \<Rightarrow>
           bind (doClusterBackup e spec st) (\<lambda>r. case r of
             Inl err \<Rightarrow> ret (False, Some err)
           | Inr backup \<Rightarrow>
             bind (schedule_restore e spec backup) (\<lambda>r. case r of
               Some err \<Rightarrow> ret (False, Some err)
             | None \<Rightarrow> stop_members e st memberToPeer)))))"

text \<open>The check that every member has a peer that reported its state, and the upgrade of one of them.\<close>

definition check_upgradable :: "'w ctl_env \<Rightarrow> etcdClusterState \<Rightarrow> etcdClusterPeerInfo gomap \<Rightarrow> ('w ctl, go_error option) go" where
  "check_upgradable e st memberToPeer =
     bind (range_map (cx_rt e) (st_members st)) (\<lambda>kvs.
     bind (for_each kvs () (\<lambda>kv _. ret (case gm_lookup memberToPeer (fst kv) of
         None \<Rightarrow> Stop (Errorf ''peer unexpectedly not found for member - logic error'')
       | Some p \<Rightarrow> if peer_state p = None then Stop (Errorf ''cannot upgrade; insufficient info for peer'') else Next ()))) (\<lambda>r.
     ret (case r of Stop err \<Rightarrow> Some err | Next _ \<Rightarrow> None)))"

definition upgrade_member :: "'w ctl_env \<Rightarrow> ClusterSpec \<Rightarrow> etcdClusterPeerInfo \<Rightarrow> ('w ctl, (unit, progress) loop) go" where
  "upgrade_member e spec p =
     (case peer_state p of
        None \<Rightarrow> panic ''nil pointer dereference''
      | Some state \<Rightarrow>
        if es_EtcdVersion state = cs_EtcdVersion spec then ret (Next ())
        else
          bind buildHeader (\<lambda>h.
          bind (rpcReconfigure e (cpi_peer p) \<lparr>rc_Header = Some h, rc_SetEtcdVersion = cs_EtcdVersion spec,
              rc_Quarantined = es_Quarantined state, rc_EnableTls = False\<rparr>) (\<lambda>r. ret (case r of
            Some err \<Rightarrow> Stop (False, Some (Wrap ''error reconfiguring etcd peer'' err))
          | None \<Rightarrow> Stop (True, None)))))"

definition upgradeInPlace :: "'w ctl_env \<Rightarrow> ClusterSpec \<Rightarrow> etcdClusterState \<Rightarrow> ('w ctl, progress) go" where
  "upgradeInPlace e spec st =
     bind (prepareForUpgrade e spec st) (\<lambda>r. case r of
       Inl err \<Rightarrow> ret (False, Some err)
     | Inr memberToPeer \<Rightarrow>
       bind (check_upgradable e st memberToPeer) (\<lambda>r. case r of
         Some err \<Rightarrow> ret (False, Some err)
       | None \<Rightarrow>
         bind (doClusterBackup e spec st) (\<lambda>r. case r of
           Inl err \<Rightarrow> ret (False, Some err)
         | Inr _ \<Rightarrow>
           bind (range_map (cx_rt e) (st_members st)) (\<lambda>kvs.
           bind (for_each kvs () (\<lambda>kv _. case gm_lookup memberToPeer (fst kv) of
               None \<Rightarrow> ret (Stop (False, Some (Errorf ''peer unexpectedly not found for member - logic error'')))
             | Some p \<Rightarrow> upgrade_member e spec p)) (\<lambda>r.
           ret (case r of Stop res \<Rightarrow> res | Next _ \<Rightarrow> (False, None)))))))"

end
