(* ===== verification/Controller_Loop.thy ===== *)
theory Controller_Loop
  imports Controller
begin

text \<open>
  One iteration of the control loop (\<^verbatim>\<open>run\<close> of \<^verbatim>\<open>pkg/controller/controller.go\<close>), in the order of the code:
  who leads, what the cluster looks like, and then the one thing to do about it.
\<close>

section \<open>Leadership\<close>

definition releaseLeaderLock :: "'w ctl_env \<Rightarrow> ('w ctl, go_error option) go" where
  "releaseLeaderLock e =
     bind (get_self m_leaderLockGuard) (\<lambda>guard. case guard of
       None \<Rightarrow> ret None
     | Some g \<Rightarrow>
       bind (act (cx_Release e g) (LockReleased g)) (\<lambda>r. case r of
         Some err \<Rightarrow> ret (Some (Wrap ''failed to release leader lock guard'' err))
       | None \<Rightarrow> bind (upd_self (\<lambda>m. m\<lparr>m_leaderLockGuard := None\<rparr>)) (\<lambda>_. ret None)))"

text \<open>All responsive peers, by id.\<close>

definition sorted_peers :: "'w ctl_env \<Rightarrow> (('st, 'w, 'ev) sys, ctl_peer list) go" where
  "sorted_peers e = bind (ask (cx_Peers e)) (\<lambda>infos. ret (sort_key cp_Id (map newPeer infos)))"

text \<open>The leader lock, if one is configured: \<open>None\<close> means that it is held, else what \<^verbatim>\<open>run\<close> returns.\<close>

definition acquire_lock :: "'w ctl_env \<Rightarrow> PeerId \<Rightarrow> ('w ctl, progress option) go" where
  "acquire_lock e me =
     bind (get_self (\<lambda>m. m)) (\<lambda>m.
       if m_hasLeaderLock m \<and> m_leaderLockGuard m = None then
         bind (act (cx_Acquire e me) (LockAcquired me)) (\<lambda>r. case r of
           Inl err \<Rightarrow> ret (Some (False, Some (Wrap ''error acquiring leader lock'' err)))
         | Inr None \<Rightarrow> ret (Some (False, None))
         | Inr (Some g) \<Rightarrow> bind (upd_self (\<lambda>m. m\<lparr>m_leaderLockGuard := Some g\<rparr>)) (\<lambda>_. ret None))
       else ret None)"

definition start_leadership :: "'w ctl_env \<Rightarrow> ('w ctl, progress) go" where
  "start_leadership e =
     bind (ask (cx_BecomeLeader e)) (\<lambda>r. case r of
       Inl err \<Rightarrow> ret (False, Some (Wrap ''error during LeaderNotification'' err))
     | Inr (acked, token) \<Rightarrow>
       bind (refreshControlStore e 0) (\<lambda>r. case r of
         Some err \<Rightarrow> ret (False, Some (Wrap ''error refreshing control store after leadership change'' err))
       | None \<Rightarrow>
         bind (upd_self (\<lambda>m. m\<lparr>m_leadership := Some \<lparr>ls_token = token, ls_ackedPeers = acked\<rparr>, m_peerState := []\<rparr>))
           (\<lambda>_. ret (False, None))))"

section \<open>What the cluster looks like\<close>

text \<open>When each member was last seen healthy; a member seen for the first time counts as healthy.\<close>

definition note_member :: "time \<Rightarrow> etcdClusterState \<Rightarrow> string \<Rightarrow> time gomap \<Rightarrow> time gomap" where
  "note_member now st i ps =
     (let ps1 = (if gm_lookup ps i = None then gm_update i now ps else ps)
      in if gm_lookup (st_healthyMembers st) i \<noteq> None then gm_update i now ps1 else ps1)"

definition note_health :: "time \<Rightarrow> etcdClusterState \<Rightarrow> time gomap \<Rightarrow> time gomap" where
  "note_health now st ps = fold (\<lambda>kv. note_member now st (fst kv)) (st_members st) ps"

definition configuredMembers :: "etcdClusterState \<Rightarrow> int" where
  "configuredMembers st = int (length (filter (\<lambda>kv. is_configured (snd kv)) (st_peers st)))"

definition is_quarantined :: "etcdClusterPeerInfo \<Rightarrow> bool" where
  "is_quarantined p = (is_configured p \<and> (case peer_state p of None \<Rightarrow> False | Some s \<Rightarrow> es_Quarantined s))"

definition quarantinedMembers :: "etcdClusterState \<Rightarrow> int" where
  "quarantinedMembers st = int (length (filter (\<lambda>kv. is_quarantined (snd kv)) (st_peers st)))"

definition nonQuarantinedMembers :: "etcdClusterState \<Rightarrow> int" where
  "nonQuarantinedMembers st =
     int (length (filter (\<lambda>kv. is_configured (snd kv) \<and> \<not> is_quarantined (snd kv)) (st_peers st)))"

definition versionMismatch :: "ClusterSpec \<Rightarrow> etcdClusterState \<Rightarrow> EtcdState list" where
  "versionMismatch spec st = filter (\<lambda>s. es_EtcdVersion s \<noteq> cs_EtcdVersion spec)
     (List.map_filter (\<lambda>kv. peer_state (snd kv)) (st_peers st))"

definition canUpgradeInPlace :: "ClusterSpec \<Rightarrow> etcdClusterState \<Rightarrow> bool" where
  "canUpgradeInPlace spec st =
     list_all (\<lambda>s. UpgradeInPlaceSupported (es_EtcdVersion s) (cs_EtcdVersion spec)) (versionMismatch spec st)"

section \<open>What to do\<close>

text \<open>A new cluster; \<open>None\<close> when there is none to create and the iteration goes on.\<close>

definition create_if_new :: "'w ctl_env \<Rightarrow> int \<Rightarrow> etcdClusterState \<Rightarrow> ('w ctl, progress option) go" where
  "create_if_new e ackedPeerCount st =
     bind (get_self m_controlStore) (\<lambda>store.
     bind (IsNewCluster (cx_cmd e) store) (\<lambda>r. case r of
       Inl err \<Rightarrow> ret (Some (False, Some (Wrap ''error checking control store'' err)))
     | Inr False \<Rightarrow> ret None
     | Inr True \<Rightarrow>
       bind (refreshControlStore e 0) (\<lambda>r. case r of
         Some err \<Rightarrow> ret (Some (False, Some (Wrap ''error refreshing control store'' err)))
       | None \<Rightarrow>
         bind (get_self m_controlClusterSpec) (\<lambda>spec. case spec of
           None \<Rightarrow> ret None
         | Some spec \<Rightarrow>
           bind (verifyEtcdVersion e spec) (\<lambda>r. case r of
             Some err \<Rightarrow> ret (Some (False, Some err))
           | None \<Rightarrow>
             if ackedPeerCount < quorumSize (cs_MemberCount spec) then ret (Some (False, None))
             else
               bind (createNewCluster e st spec) (\<lambda>(created, r). case r of
                 Some err \<Rightarrow> ret (Some (created, Some err))
               | None \<Rightarrow>
                 if created then
                   bind (recorded (MarkClusterCreated (cx_cmd e) store) ClusterMarked) (\<lambda>r. ret (case r of
                     Some err \<Rightarrow> Some (False, Some err) | None \<Rightarrow> Some (True, None)))
                 else ret (Some (True, None))))))))"

definition run_restore :: "'w ctl_env \<Rightarrow> int \<Rightarrow> ClusterSpec \<Rightarrow> etcdClusterState \<Rightarrow> vfsCommand \<Rightarrow> ('w ctl, progress) go" where
  "run_restore e ackedPeerCount spec st cmd =
     bind (verifyEtcdVersion e spec) (\<lambda>r. case r of
       Some err \<Rightarrow> ret (False, Some err)
     | None \<Rightarrow> (case cmd_RestoreBackup (vc_data cmd) of
         None \<Rightarrow> ret (False, Some (Errorf ''RestoreBackup was not set''))
       | Some rb \<Rightarrow> (case rb_ClusterSpec rb of
           None \<Rightarrow> ret (False, Some (Errorf ''RestoreBackup was not set''))
         | Some newSpec \<Rightarrow>
           if ackedPeerCount < quorumSize (cs_MemberCount spec) then ret (False, None)
           else
             bind (createNewCluster e st newSpec) (\<lambda>(_, r). case r of
               Some err \<Rightarrow> ret (False, Some err)
             | None \<Rightarrow> restoreBackupAndLiftQuarantine e newSpec st cmd))))"

text \<open>Quarantine: lifted when the cluster is ready, else made the same everywhere.\<close>

definition reconcile_quarantine :: "'w ctl_env \<Rightarrow> int \<Rightarrow> ClusterSpec \<Rightarrow> etcdClusterState \<Rightarrow> ('w ctl, progress option) go" where
  "reconcile_quarantine e ackedPeerCount spec st =
     (if quarantinedMembers st > 0 then
        (if size_of (st_healthyMembers st) \<ge> quorumSize (cs_MemberCount spec) \<and> versionMismatch spec st = [] then
           (if ackedPeerCount \<ge> quorumSize (cs_MemberCount spec)
            then bind (updateQuarantine e st False) (\<lambda>r. ret (Some r))
            else ret (Some (False, None)))
         else if nonQuarantinedMembers st > 0 then bind (updateQuarantine e st True) (\<lambda>r. ret (Some r))
         else ret None)
      else ret None)"

definition expand_cluster :: "'w ctl_env \<Rightarrow> int \<Rightarrow> ClusterSpec \<Rightarrow> etcdClusterState \<Rightarrow> ('w ctl, progress) go" where
  "expand_cluster e ackedPeerCount spec st =
     (if st_members st = [] then
        bind (InvalidateControlStore e) (\<lambda>_.
        ret (False, Some (Errorf ''etcd has 0 members registered; must issue restore-backup command to proceed'')))
      else if ackedPeerCount \<ge> quorumSize (size_of (st_members st)) then addNodeToCluster e spec st
      else ret (False, None))"

text \<open>A long unhealthy member is removed only to make room for an idle peer.\<close>

definition replace_unhealthy :: "'w ctl_env \<Rightarrow> int \<Rightarrow> ClusterSpec \<Rightarrow> etcdClusterState \<Rightarrow> ('w ctl, progress option) go" where
  "replace_unhealthy e ackedPeerCount spec st =
     (if size_of (st_healthyMembers st) < size_of (st_members st) then
        bind (idlePeers e st) (\<lambda>idle.
          if idle = [] then ret None
          else if size_of (st_members st) \<le> 2 then ret None
          else if size_of (st_members st) \<le> cs_MemberCount spec then ret None
          else if ackedPeerCount < quorumSize (cs_MemberCount spec) then ret None
          else bind (removeNodeFromCluster e spec st False) (\<lambda>r. ret (Some r)))
      else ret None)"

definition reconcile_version :: "'w ctl_env \<Rightarrow> int \<Rightarrow> ClusterSpec \<Rightarrow> etcdClusterState \<Rightarrow> ('w ctl, progress) go" where
  "reconcile_version e ackedPeerCount spec st =
     (if versionMismatch spec st \<noteq> [] then
        (if ackedPeerCount \<ge> quorumSize (cs_MemberCount spec) then
           (if canUpgradeInPlace spec st then upgradeInPlace e spec st else stopForUpgrade e spec st)
         else ret (False, None))
      else ret (False, None))"

definition reconcile_members :: "'w ctl_env \<Rightarrow> int \<Rightarrow> ClusterSpec \<Rightarrow> etcdClusterState \<Rightarrow> ('w ctl, progress) go" where
  "reconcile_members e ackedPeerCount spec st =
     (if size_of (st_members st) < cs_MemberCount spec then expand_cluster e ackedPeerCount spec st
      else if st_members st = [] then ret (False, None)
      else if configuredMembers st > cs_MemberCount spec then
        (if ackedPeerCount \<ge> quorumSize (configuredMembers st) then removeNodeFromCluster e spec st True
         else ret (False, None))
      else
        bind (replace_unhealthy e ackedPeerCount spec st) (\<lambda>r. case r of
          Some res \<Rightarrow> ret res
        | None \<Rightarrow>
          bind (reconcileTLS e st) (\<lambda>(changed, err).
            if changed \<or> err \<noteq> None then ret (changed, err)
            else reconcile_version e ackedPeerCount spec st)))"

definition backup_if_due :: "'w ctl_env \<Rightarrow> ClusterSpec \<Rightarrow> etcdClusterState \<Rightarrow> ('w ctl, unit) go" where
  "backup_if_due e spec st =
     (if st_members st \<noteq> [] then bind (maybeBackup e spec st) (\<lambda>_. ret ()) else ret ())"

definition reconcile :: "'w ctl_env \<Rightarrow> int \<Rightarrow> ClusterSpec \<Rightarrow> etcdClusterState \<Rightarrow> ('w ctl, progress) go" where
  "reconcile e ackedPeerCount spec st =
     bind (backup_if_due e spec st) (\<lambda>_.
     bind (verifyEtcdVersion e spec) (\<lambda>r. case r of
       Some err \<Rightarrow> ret (False, Some err)
     | None \<Rightarrow>
       bind (reconcile_quarantine e ackedPeerCount spec st) (\<lambda>r. case r of
         Some res \<Rightarrow> ret res
       | None \<Rightarrow> reconcile_members e ackedPeerCount spec st)))"

section \<open>The iteration\<close>

text \<open>With the cluster state known: remember who is healthy, tell everyone the members, then act.\<close>

definition act_on_state :: "'w ctl_env \<Rightarrow> int \<Rightarrow> etcdClusterState \<Rightarrow> ('w ctl, progress) go" where
  "act_on_state e ackedPeerCount st =
     bind (time_now (cx_rt e)) (\<lambda>now.
     bind (upd_self (\<lambda>m. m\<lparr>m_peerState := note_health now st (m_peerState m)\<rparr>)) (\<lambda>_.
     bind (buildMemberMap e st) (\<lambda>memberMap.
     bind (broadcastMemberMap e st memberMap) (\<lambda>_.
     bind (get_self m_controlRefreshInterval) (\<lambda>interval.
     bind (refreshControlStore e interval) (\<lambda>r. case r of
       Some err \<Rightarrow> ret (False, Some (Wrap ''error refreshing control store'' err))
     | None \<Rightarrow>
       bind (create_if_new e ackedPeerCount st) (\<lambda>r. case r of
         Some res \<Rightarrow> ret res
       | None \<Rightarrow>
         bind (get_self (\<lambda>m. m)) (\<lambda>m. case m_controlClusterSpec m of
           None \<Rightarrow> ret (False, None)
         | Some spec \<Rightarrow> (case getRestoreBackupCommand m of
             Some cmd \<Rightarrow> run_restore e ackedPeerCount spec st cmd
           | None \<Rightarrow> reconcile e ackedPeerCount spec st)))))))))"

text \<open>As the leader: assert the leadership, resign when a peer has not acknowledged it, then act.\<close>

definition lead :: "'w ctl_env \<Rightarrow> ctl_peer list \<Rightarrow> leadershipState \<Rightarrow> ('w ctl, progress) go" where
  "lead e ps l =
     bind (ask (cx_AssertLeadership e (ls_token l))) (\<lambda>r. case r of
       Some err \<Rightarrow> ret (False, Some (Wrap ''error during AssertLeadership'' err))
     | None \<Rightarrow>
       if list_ex (\<lambda>p. cp_Id p \<notin> set (ls_ackedPeers l)) ps
       then bind (upd_self (\<lambda>m. m\<lparr>m_leadership := None\<rparr>)) (\<lambda>_. ret (False, None))
       else
         bind (get_self m_etcdClientTLSConfig) (\<lambda>tls.
         bind (updateClusterState e tls ps) (\<lambda>r. case r of
           Inl err \<Rightarrow> ret (False, Some (Wrap ''error building cluster state'' err))
         | Inr st \<Rightarrow> act_on_state e (int (length ps)) st)))"

definition run :: "'w ctl_env \<Rightarrow> ('w ctl, progress) go" where
  "run e =
     bind (sorted_peers e) (\<lambda>ps.
     bind (get_self m_myPeerId) (\<lambda>me.
       if \<not> list_ex (\<lambda>p. cp_Id p = me) ps then ret (False, Some (Errorf ''cannot find self in list of peers''))
       else if cp_Id (hd ps) \<noteq> me then
         bind (releaseLeaderLock e) (\<lambda>r. ret (False, r))
       else
         bind (acquire_lock e me) (\<lambda>r. case r of
           Some res \<Rightarrow> ret res
         | None \<Rightarrow>
           bind (get_self m_leadership) (\<lambda>l. case l of
             None \<Rightarrow> start_leadership e
           | Some l \<Rightarrow> lead e ps l))))"

end
