(* ===== verification/Controller_Example.thy ===== *)
theory Controller_Example
  imports Controller_Loop
begin

text \<open>
  Clusters on which an iteration of the control loop is evaluated. Every call succeeds; the
  nodes and their answers, the etcd members, the time and the files of the control store are given.
\<close>

definition demo_api :: "api_member list \<Rightarrow> 'w etcd_api" where
  "demo_api ms = (mem_api [])\<lparr>api_MemberList := (\<lambda>_ w. (Inr ms, w))\<rparr>"

definition demo_env :: "(PeerId \<times> GetInfoResponse) list \<Rightarrow> api_member list \<Rightarrow> time \<Rightarrow> string gomap ctl_env" where
  "demo_env nodes ms now = \<lparr>cx_rt = const_rt now, cx_cmd = mem_control now, cx_api = demo_api ms, cx_pki = example_pki,
     cx_Stat = (\<lambda>_ w. (None, w)), cx_retention = default_retention, cx_rand = (\<lambda>w. (0, w)),
     cx_Peers = (\<lambda>w. (map (\<lambda>n. \<lparr>pi_Id = fst n, pi_Endpoints = []\<rparr>) nodes, w)),
     cx_BecomeLeader = (\<lambda>w. (Inr (map fst nodes, ''leader''), w)), cx_AssertLeadership = (\<lambda>_ w. (None, w)),
     cx_GetPeerClient = (\<lambda>_ w. (None, w)),
     cx_GetInfo = (\<lambda>i w. (case gm_lookup nodes i of None \<Rightarrow> Inl (Errorf ''no such node'') | Some r \<Rightarrow> Inr r, w)),
     cx_UpdateEndpoints = (\<lambda>_ _ w. (None, w)), cx_JoinCluster = (\<lambda>_ _ w. (None, w)), cx_Reconfigure = (\<lambda>_ _ w. (None, w)),
     cx_StopEtcd = (\<lambda>_ _ w. (None, w)), cx_DoBackup = (\<lambda>_ _ w. (Inr ''backup'', w)), cx_DoRestore = (\<lambda>_ _ w. (None, w)),
     cx_Acquire = (\<lambda>_ w. (Inr (Some 7), w)), cx_Release = (\<lambda>_ w. (None, w)), cx_patience = 2\<rparr>"

text \<open>A node, the etcd state of one that is part of a cluster, and its member.\<close>

definition demo_node :: "string \<Rightarrow> EtcdNode" where
  "demo_node i = \<lparr>en_Name = i, en_PeerUrls = [''https://'' @ i @ '':2380''], en_ClientUrls = [''https://'' @ i @ '':4001''],
     en_QuarantinedClientUrls = [''https://'' @ i @ '':3994''], en_TlsEnabled = True\<rparr>"

definition demo_info :: "string \<Rightarrow> EtcdState option \<Rightarrow> GetInfoResponse" where
  "demo_info i state = \<lparr>gi_ClusterName = ''main'', gi_NodeConfiguration = Some (demo_node i), gi_EtcdState = state\<rparr>"

definition demo_state :: "string list \<Rightarrow> string \<Rightarrow> EtcdState" where
  "demo_state members version = \<lparr>es_NewCluster = False, es_Cluster = Some \<lparr>ec_DesiredClusterSize = 3, ec_ClusterToken = ''tok'',
     ec_Nodes = map demo_node members\<rparr>, es_EtcdVersion = version, es_Quarantined = False\<rparr>"

definition demo_member :: "nat \<Rightarrow> string \<Rightarrow> api_member" where
  "demo_member n i = \<lparr>am_ID = n, am_Name = i, am_PeerURLs = [''https://'' @ i @ '':2380''],
     am_ClientURLs = [''https://'' @ i @ '':4001'']\<rparr>"

text \<open>
  The controller of node \<open>a\<close>, which has been acknowledged as the leader by the nodes given, with a
  static configuration of as many nodes; a new cluster is one whose marker file is there.
\<close>

definition demo_controller :: "PeerId list \<Rightarrow> string \<Rightarrow> EtcdController" where
  "demo_controller acked version = \<lparr>m_clusterName = ''main'', m_dnsSuffix = [], m_controlRefreshInterval = 0,
     m_backupInterval = hour, m_backupStore = NewVFSStore ''/backups'', m_myPeerId = ''a'', m_hasLeaderLock = True,
     m_leaderLockGuard = None, m_leadership = Some \<lparr>ls_token = ''leader'', ls_ackedPeers = acked\<rparr>, m_peerState = [],
     m_lastBackup = 0, m_backupCleanup = NewBackupCleanup (NewVFSStore ''/backups''),
     m_controlStore = StaticControl \<lparr>cfg_EtcdVersion = version, cfg_Nodes = map (\<lambda>i. \<lparr>cn_ID = i, cn_IP = []\<rparr>) acked\<rparr> ''/data'',
     m_controlCommands = [], m_controlLastRead = 0, m_controlClusterSpec = None, m_disableEtcdTLS = False,
     m_etcdClientTLSConfig = None\<rparr>"

abbreviation demo_start :: "PeerId list \<Rightarrow> string \<Rightarrow> bool \<Rightarrow> string gomap ctl" where
  "demo_start acked version new \<equiv> \<lparr>self = demo_controller acked version,
     world = (if new then [(''/data/please-create-new-cluster'', [])] else []), trace = []\<rparr>"

text \<open>A cluster of one member with an idle peer to grow by.\<close>

abbreviation grow_env :: "string gomap ctl_env" where
  "grow_env \<equiv> demo_env [(''b'', demo_info ''b'' None), (''a'', demo_info ''a'' (Some (demo_state [''a''] ''3.5.0'')))]
     [demo_member 1 ''a''] 5"

abbreviation grow_start :: "string gomap ctl" where
  "grow_start \<equiv> demo_start [''a'', ''b''] ''3.5.0'' False"

text \<open>Three nodes that report the given states.\<close>

abbreviation three_env :: "(string \<Rightarrow> EtcdState option) \<Rightarrow> api_member list \<Rightarrow> string gomap ctl_env" where
  "three_env state ms \<equiv> demo_env [(''c'', demo_info ''c'' (state ''c'')), (''a'', demo_info ''a'' (state ''a'')),
     (''b'', demo_info ''b'' (state ''b''))] ms 5"

abbreviation three_start :: "string \<Rightarrow> bool \<Rightarrow> string gomap ctl" where
  "three_start \<equiv> demo_start [''a'', ''b'', ''c'']"

text \<open>The cluster state with the given states of the nodes, members and healthy members.\<close>

definition demo_cluster :: "(PeerId \<times> EtcdState option) list \<Rightarrow> api_member list \<Rightarrow> api_member list \<Rightarrow> etcdClusterState" where
  "demo_cluster ps ms hs = \<lparr>st_tls = None, st_members = map (\<lambda>m. (Itoa (am_ID m), member_of_api m)) ms,
     st_peers = map (\<lambda>(i, state). (i, \<lparr>cpi_peer = newPeer \<lparr>pi_Id = i, pi_Endpoints = []\<rparr>, cpi_info = Some (demo_info i state)\<rparr>)) ps,
     st_healthyMembers = map (\<lambda>m. (Itoa (am_ID m), member_of_api m)) hs\<rparr>"

abbreviation demo_peers :: "PeerId list \<Rightarrow> etcdClusterState" where
  "demo_peers is \<equiv> demo_cluster (map (\<lambda>i. (i, None)) is) [] []"

section \<open>Evaluation\<close>

lemma demo_env_sel [simp]:
  "cx_rt (demo_env ns ms t) = const_rt t" "cx_cmd (demo_env ns ms t) = mem_control t" "cx_api (demo_env ns ms t) = demo_api ms"
  "cx_Stat (demo_env ns ms t) p w = (None, w)" "cx_retention (demo_env ns ms t) = default_retention"
  "cx_rand (demo_env ns ms t) w = (0, w)"
  "cx_Peers (demo_env ns ms t) w = (map (\<lambda>n. \<lparr>pi_Id = fst n, pi_Endpoints = []\<rparr>) ns, w)"
  "cx_BecomeLeader (demo_env ns ms t) w = (Inr (map fst ns, ''leader''), w)"
  "cx_AssertLeadership (demo_env ns ms t) k w = (None, w)" "cx_GetPeerClient (demo_env ns ms t) i w = (None, w)"
  "cx_GetInfo (demo_env ns ms t) i w = (case gm_lookup ns i of None \<Rightarrow> Inl (Errorf ''no such node'') | Some r \<Rightarrow> Inr r, w)"
  "cx_UpdateEndpoints (demo_env ns ms t) i mm w = (None, w)" "cx_JoinCluster (demo_env ns ms t) i jc w = (None, w)"
  "cx_Reconfigure (demo_env ns ms t) i rc w = (None, w)" "cx_StopEtcd (demo_env ns ms t) i h w = (None, w)"
  "cx_DoBackup (demo_env ns ms t) i db w = (Inr ''backup'', w)" "cx_DoRestore (demo_env ns ms t) i dr w = (None, w)"
  "cx_Acquire (demo_env ns ms t) i w = (Inr (Some 7), w)" "cx_Release (demo_env ns ms t) g w = (None, w)"
  "cx_patience (demo_env ns ms t) = 2"
  by (simp_all add: demo_env_def)

lemma demo_api_sel [simp]: "api_New (demo_api ms) us tls w = (Inr 0, w)" "api_Close (demo_api ms) h w = (None, w)"
  "api_MemberList (demo_api ms) h w = (Inr ms, w)" "api_MemberAdd (demo_api ms) h us w = (None, w)"
  "api_MemberRemove (demo_api ms) h i w = (None, w)" "api_MemberUpdate (demo_api ms) h i us w = (None, w)"
  by (simp_all add: demo_api_def mem_api_def)

lemma demo_ids [simp]: "Itoa (Suc 0) = ''1''" "Itoa 2 = ''2''" "Itoa 3 = ''3''" "Itoa 4 = ''4''"
  by code_simp+

lemma demo_paths [simp]: "marker_path ''/data'' = ''/data/please-create-new-cluster''"
  by code_simp

lemmas demo_run = Let_def mem_control_def mem_vfs_def const_rt_def demo_info_def demo_node_def demo_state_def
  demo_member_def demo_controller_def member_of_api_def HasPrefix_def time_sub_def int64_min_def int64_max_def duration_defs
  go_div_def

lemmas loop_run = run_def sorted_peers_def newPeer_def acquire_lock_def lead_def updateClusterState_def collect_infos_def
  rpcGetInfo_def rpc_def list_members_def ask_members_def client_urls_of_def NewClient_def client_ListMembers_def LoggedClose_def
  member_map_def check_health_def newEtcdClient_def act_on_state_def note_health_def note_member_def buildMemberMap_def
  broadcastMemberMap_def rpcUpdateEndpoints_def refreshControlStore_def ListCommands_def GetExpectedClusterSpec_def
  create_if_new_def IsNewCluster_def static_IsNewCluster_def static_spec_def getRestoreBackupCommand_def
  reconcile_def backup_if_due_def maybeBackup_def verifyEtcdVersion_def BindirForEtcdVersion_def bin_dirs_def baseDirs_def
  reconcile_quarantine_def quarantinedMembers_def is_quarantined_def is_configured_def peer_state_def node_name_def
  reconcile_members_def expand_cluster_def quorumSize_def addNodeToCluster_def find_idle_def node_config_def add_peer_def
  backup_before_add_def doClusterBackup_def try_backup_def FindPeer_def find_in_def buildHeader_def rpcDoBackup_def
  running_cluster_def node_of_member_def node_for_tls_def join_peer_def join_request_def rpcJoinCluster_def etcdAddMember_def
  on_some_member_def recorded_def client_AddMember_def

lemmas creation_run = createNewCluster_def form_cluster_def propose_def proposal_of_def stop_all_def join_all_def writeClusterSpec_def
  SetExpectedClusterSpec_def MarkClusterCreated_def static_MarkClusterCreated_def member_info_def

end
