(* ===== verification/Controller_Safety.thy ===== *)
theory Controller_Safety
  imports Controller_Example
begin

text \<open>
  What an iteration of the controller may do: which calls each of its parts can make, who signs them,
  and in which order they come.
\<close>

section \<open>Which calls are made\<close>

datatype call_kind = KEndpoints | KJoin | KStart | KReconfigure | KUpgrade | KStop | KBackup | KRestore | KMemberAdd | KMemberRemove
  | KMemberUpdate | KSpec | KMark | KCommandAdd | KCommandRemove | KLock

fun kind :: "ctl_event \<Rightarrow> call_kind" where
  "kind (RpcUpdateEndpoints _ _ _) = KEndpoints"
| "kind (RpcJoinCluster _ req _) = (if jc_Phase req = PHASE_INITIAL_CLUSTER then KStart else KJoin)"
| "kind (RpcReconfigure _ req _) = (if rc_SetEtcdVersion req = [] then KReconfigure else KUpgrade)"
| "kind (RpcStopEtcd _ _ _) = KStop"
| "kind (RpcDoBackup _ _ _) = KBackup"
| "kind (RpcDoRestore _ _ _) = KRestore"
| "kind (MemberAdd _ _ _) = KMemberAdd"
| "kind (MemberRemove _ _ _) = KMemberRemove"
| "kind (MemberUpdate _ _ _ _) = KMemberUpdate"
| "kind (SpecWritten _ _) = KSpec"
| "kind (ClusterMarked _) = KMark"
| "kind (CommandAdded _ _) = KCommandAdd"
| "kind (CommandRemoved _ _) = KCommandRemove"
| "kind (LockAcquired _ _) = KLock"
| "kind (LockReleased _ _) = KLock"

text \<open>The queries leave the controller and the record of calls alone.\<close>

lemma find_in_asks: "keeps asks (find_in rt P m)"
  unfolding find_in_def by (intro asks_rules)

lemma LoggedClose_asks: "keeps asks (LoggedClose api c)"
  unfolding LoggedClose_def by (intro asks_rules)

lemma newEtcdClient_asks: "keeps asks (newEtcdClient e s m)"
  unfolding newEtcdClient_def by (intro asks_rules NewClient_asks)

lemma find_asks: "keeps asks (FindMember e s i)" "keeps asks (FindHealthyMember e s i)" "keeps asks (FindPeer e s m)"
  "keeps asks (any_member e s)"
  by (simp_all add: FindMember_def FindHealthyMember_def FindPeer_def any_member_def find_in_asks)

lemma idlePeers_asks: "keeps asks (idlePeers e s)"
  unfolding idlePeers_def by (intro asks_rules)

lemma updateClusterState_asks: "keeps asks (updateClusterState e tls ps)"
  unfolding updateClusterState_def collect_infos_def rpcGetInfo_def rpc_def list_members_def ask_members_def member_map_def
    check_health_def
  by (intro asks_rules NewClient_asks client_ListMembers_asks LoggedClose_asks newEtcdClient_asks)

lemma buildHeader_asks: "keeps asks buildHeader"
  unfolding buildHeader_def by (intro asks_rules)

lemma verifyEtcdVersion_asks: "keeps asks (verifyEtcdVersion e spec)"
  unfolding verifyEtcdVersion_def by (intro asks_rules Bindir_asks)

lemma node_config_asks: "keeps asks (node_config p)"
  unfolding node_config_def by (intro asks_rules)

lemma buildMemberMap_asks: "keeps asks (buildMemberMap e st)"
  unfolding buildMemberMap_def by (intro asks_rules)

lemma propose_asks: "keeps asks (propose e ps)"
  unfolding propose_def by (intro asks_rules node_config_asks)

lemma find_idle_asks: "keeps asks (find_idle e st)"
  unfolding find_idle_def by (intro asks_rules node_config_asks)

lemma unhealthy_victim_asks: "keeps asks (unhealthy_victim e st b now)"
  unfolding unhealthy_victim_def by (intro asks_rules)

lemma restore_peer_asks: "keeps asks (restore_peer e st)"
  unfolding restore_peer_def by (intro asks_rules find_asks)

lemma prepareForUpgrade_asks: "keeps asks (prepareForUpgrade e spec st)"
  unfolding prepareForUpgrade_def by (intro asks_rules)

lemma check_upgradable_asks: "keeps asks (check_upgradable e st m)"
  unfolding check_upgradable_def by (intro asks_rules)

lemma sorted_peers_asks: "keeps asks (sorted_peers e)"
  unfolding sorted_peers_def by (intro asks_rules)

lemmas ctl_asks = find_in_asks LoggedClose_asks newEtcdClient_asks find_asks idlePeers_asks updateClusterState_asks
  buildHeader_asks verifyEtcdVersion_asks node_config_asks buildMemberMap_asks propose_asks find_idle_asks
  unhealthy_victim_asks restore_peer_asks prepareForUpgrade_asks check_upgradable_asks sorted_peers_asks control_asks
  NewClient_asks client_ListMembers_asks Bindir_asks LoadInfo_asks MaybeDoBackupMaintenance_asks

section \<open>Calls made as the leader\<close>

text \<open>The header of the own requests, while the controller has the leadership.\<close>

definition own_header :: "EtcdController \<Rightarrow> CommonRequestHeader option" where
  "own_header m = map_option (\<lambda>l. \<lparr>h_LeadershipToken = ls_token l, h_ClusterName = m_clusterName m\<rparr>) (m_leadership m)"

fun signed_by :: "CommonRequestHeader \<Rightarrow> ctl_event \<Rightarrow> bool" where
  "signed_by H (RpcJoinCluster _ req _) = (jc_Header req = Some H)"
| "signed_by H (RpcReconfigure _ req _) = (rc_Header req = Some H)"
| "signed_by H (RpcStopEtcd _ h _) = (h = H)"
| "signed_by H (RpcDoBackup _ req _) = (db_Header req = Some H)"
| "signed_by H (RpcDoRestore _ req _) = (dr_Header req = Some H)"
| "signed_by H _ = True"

text \<open>
  Started with the header \<open>H\<close>, a computation keeps it, the lock and the health record, and makes only calls of the kinds \<open>K\<close>, all of them
  signed_by with \<open>H\<close>.
\<close>

definition leads :: "CommonRequestHeader \<Rightarrow> call_kind set \<Rightarrow> 'w ctl \<Rightarrow> 'w ctl \<Rightarrow> bool" where
  "leads H K s s' \<longleftrightarrow> (own_header (self s) = Some H \<longrightarrow>
     own_header (self s') = Some H \<and> m_leaderLockGuard (self s') = m_leaderLockGuard (self s)
     \<and> m_peerState (self s') = m_peerState (self s) \<and> emits (\<lambda>ev. kind ev \<in> K \<and> signed_by H ev) s s')"

interpretation leads: step_rel "leads H K" for H K
  by unfold_locales (auto simp: leads_def intro: emits.step_refl emits.step_trans)

lemma leads_mono: "keeps (leads H K) m \<Longrightarrow> K \<subseteq> L \<Longrightarrow> keeps (leads H L) m"
  by (erule keeps_weaken) (auto simp: leads_def elim: emits_mono)

lemma leads_asks: "keeps asks m \<Longrightarrow> keeps (leads H K) m"
  by (erule keeps_weaken) (auto simp: asks_def emits_def leads_def)

text \<open>A header that is built is the own header.\<close>

lemma leads_header: "keeps (leads H K) (f H) \<Longrightarrow> keeps (leads H K) (bind buildHeader f)"
  by (auto simp: keeps_def leads_def buildHeader_def own_header_def bind_apply get_self_def ret_apply)

lemma leads_act: "(\<And>x. kind (ev x) \<in> K) \<Longrightarrow> (\<And>x. signed_by H (ev x)) \<Longrightarrow> keeps (leads H K) (act f ev)"
  by (auto simp: keeps_def leads_def emits_def act_def split: prod.splits)

lemma leads_upd:
  "(\<And>m. (m_leadership (f m), m_clusterName (f m), m_leaderLockGuard (f m), m_peerState (f m))
      = (m_leadership m, m_clusterName m, m_leaderLockGuard m, m_peerState m)) \<Longrightarrow> keeps (leads H K) (upd_self f)"
  by (auto simp: keeps_def leads_def emits_def upd_self_def own_header_def)

lemma leads_emit: "kind ev \<in> K \<Longrightarrow> signed_by H ev \<Longrightarrow> keeps (leads H K) (emit ev)"
  by (simp add: keeps_def leads_def emits_def emit_def)

lemma leads_recorded:
  "keeps asks m \<Longrightarrow> (\<And>x. kind (ev x) \<in> K) \<Longrightarrow> (\<And>x. signed_by H (ev x)) \<Longrightarrow> keeps (leads H K) (recorded m ev)"
  unfolding recorded_def by (intro leads.keeps_core leads_emit leads_asks)

lemma leads_rpc: "keeps (leads H K) call \<Longrightarrow> keeps (leads H K) (rpc e p fail call)"
  unfolding rpc_def by (intro keeps_rules leads.keeps_core leads_asks [OF keeps_asks_ask])

lemma leads_on_some_member:
  "(\<And>c. keeps (leads H K) (f c)) \<Longrightarrow> keeps (leads H K) (on_some_member e st f msg)"
  unfolding on_some_member_def
  by (intro keeps_rules leads.keeps_core leads_asks [OF newEtcdClient_asks] leads_asks [OF LoggedClose_asks]
      leads_asks [OF keeps_asks_range])

lemma client_calls_ask: "keeps asks (client_AddMember api c us)" "keeps asks (client_RemoveMember api c m)"
  "keeps asks (client_SetPeerURLs api c m us)"
  by (simp_all add: client_AddMember_def client_RemoveMember_def client_SetPeerURLs_def keeps_asks_ask)

lemmas leads_rules = leads_header keeps_rules leads.keeps_core leads_recorded leads_rpc leads_on_some_member leads_act leads_upd
  control_asks client_calls_ask ctl_asks [THEN leads_asks]
  keeps_asks_ask [THEN leads_asks] keeps_asks_get_self [THEN leads_asks] keeps_asks_now [THEN leads_asks]
  keeps_asks_range [THEN leads_asks]

lemma join_request_fields [simp]:
  "jc_Header (join_request h ph t v ns) = Some h" "jc_Phase (join_request h ph t v ns) = ph"
  "jc_ClusterToken (join_request h ph t v ns) = t" "jc_Nodes (join_request h ph t v ns) = ns"
  by (simp_all add: join_request_def)

lemma cancel_request_fields [simp]: "jc_Header (cancel_request h t) = Some h" "jc_Phase (cancel_request h t) = PHASE_CANCEL_PREPARE"
  by (simp_all add: cancel_request_def)

lemma refreshControlStore_leads: "keeps (leads H {}) (refreshControlStore e ttl)"
  unfolding refreshControlStore_def by (intro leads_rules) simp_all

lemma removeCommand_leads: "keeps (leads H {KCommandRemove}) (removeCommand e c)"
  unfolding removeCommand_def by (intro leads_rules) simp_all

lemma writeClusterSpec_leads: "keeps (leads H {KSpec}) (writeClusterSpec e spec)"
  unfolding writeClusterSpec_def by (intro leads_rules) simp_all

lemma doClusterBackup_leads: "keeps (leads H {KBackup}) (doClusterBackup e spec st)"
  unfolding doClusterBackup_def try_backup_def rpcDoBackup_def by (intro leads_rules) simp_all

lemma maybeBackup_leads: "keeps (leads H {KBackup}) (maybeBackup e spec st)"
  unfolding maybeBackup_def by (intro leads_rules doClusterBackup_leads) simp_all

lemma broadcastMemberMap_leads: "keeps (leads H {KEndpoints}) (broadcastMemberMap e st mm)"
  unfolding broadcastMemberMap_def rpcUpdateEndpoints_def by (intro leads_rules) simp_all

lemma stop_all_leads: "keeps (leads H {KStop}) (stop_all e st)"
  unfolding stop_all_def rpcStopEtcd_def by (intro leads_rules) simp_all

lemma join_all_leads: "keeps (leads H {KJoin, KStart}) (join_all e ph t v ns ps)"
  unfolding join_all_def rpcJoinCluster_def by (intro leads_rules) simp_all

lemma keeps_case_bool: "(b \<Longrightarrow> keeps R m) \<Longrightarrow> (\<not> b \<Longrightarrow> keeps R n) \<Longrightarrow> keeps R (case b of True \<Rightarrow> m | False \<Rightarrow> n)"
  by (cases b) simp_all

lemma createNewCluster_leads: "keeps (leads H {KStop, KEndpoints, KJoin, KStart, KSpec}) (createNewCluster e st spec)"
  unfolding createNewCluster_def form_cluster_def
  by (intro leads_rules leads_mono [OF stop_all_leads] leads_mono [OF broadcastMemberMap_leads] leads_mono [OF join_all_leads]
      leads_mono [OF writeClusterSpec_leads]) simp_all

lemma etcdAddMember_leads: "keeps (leads H {KMemberAdd}) (etcdAddMember e st n)"
  unfolding etcdAddMember_def by (intro leads_rules) simp_all

lemma etcdRemoveMember_leads: "keeps (leads H {KMemberRemove}) (etcdRemoveMember e st m)"
  unfolding etcdRemoveMember_def by (intro leads_rules) simp_all

lemma join_peer_leads: "keeps (leads H {KJoin, KMemberAdd}) (join_peer e st p c t v ns)"
  unfolding join_peer_def rpcJoinCluster_def by (intro leads_rules leads_mono [OF etcdAddMember_leads]) simp_all

lemma addNodeToCluster_leads: "keeps (leads H {KBackup, KJoin, KMemberAdd}) (addNodeToCluster e spec st)"
  unfolding addNodeToCluster_def add_peer_def backup_before_add_def
  by (intro leads_rules leads_mono [OF doClusterBackup_leads] leads_mono [OF join_peer_leads]) simp_all

lemma removeNodeFromCluster_leads: "keeps (leads H {KBackup, KMemberRemove}) (removeNodeFromCluster e spec st b)"
  unfolding removeNodeFromCluster_def remove_member_def
  by (intro leads_rules leads_mono [OF doClusterBackup_leads] leads_mono [OF etcdRemoveMember_leads]) simp_all

lemma updateQuarantine_leads: "keeps (leads H {KReconfigure}) (updateQuarantine e st q)"
  unfolding updateQuarantine_def rpcReconfigure_def by (intro leads_rules) simp_all

lemma restoreBackup_leads: "keeps (leads H {KRestore, KSpec, KCommandRemove}) (restoreBackupAndLiftQuarantine e spec st cmd)"
  unfolding restoreBackupAndLiftQuarantine_def rpcDoRestore_def
  by (intro leads_rules leads_mono [OF writeClusterSpec_leads] leads_mono [OF removeCommand_leads]) simp_all

lemma reconcileTLS_leads: "keeps (leads H {KMemberUpdate, KReconfigure}) (reconcileTLS e st)"
  unfolding reconcileTLS_def reconcile_peer_tls_def updatePeerURLs_def rpcReconfigure_def by (intro leads_rules) simp_all

lemma await_command_leads: "keeps (leads H {}) (await_command n e)"
  by (induction n) (unfold await_command.simps, (intro leads_rules refreshControlStore_leads | assumption)+)

lemma stopForUpgrade_leads: "keeps (leads H {KBackup, KReconfigure, KCommandAdd, KStop}) (stopForUpgrade e spec st)"
  unfolding stopForUpgrade_def schedule_restore_def stop_members_def rpcStopEtcd_def
  by (intro leads_rules leads_mono [OF doClusterBackup_leads] leads_mono [OF updateQuarantine_leads]
      leads_mono [OF await_command_leads]) simp_all

lemma upgradeInPlace_leads: "keeps (leads H {KBackup, KUpgrade, KReconfigure}) (upgradeInPlace e spec st)"
  unfolding upgradeInPlace_def upgrade_member_def rpcReconfigure_def
  by (intro leads_rules leads_mono [OF doClusterBackup_leads]) simp_all

section \<open>The iteration as a whole\<close>

lemma create_if_new_leads: "keeps (leads H {KStop, KEndpoints, KJoin, KStart, KSpec, KMark}) (create_if_new e n st)"
  unfolding create_if_new_def
  by (intro leads_rules leads_mono [OF refreshControlStore_leads] leads_mono [OF createNewCluster_leads] keeps_case_bool)
    simp_all

lemma run_restore_leads:
  "keeps (leads H {KStop, KEndpoints, KJoin, KStart, KSpec, KRestore, KCommandRemove}) (run_restore e n spec st cmd)"
  unfolding run_restore_def
  by (intro leads_rules leads_mono [OF createNewCluster_leads] leads_mono [OF restoreBackup_leads]) simp_all

abbreviation reconcile_kinds :: "call_kind set" where
  "reconcile_kinds \<equiv> {KBackup, KJoin, KReconfigure, KUpgrade, KStop, KMemberAdd, KMemberRemove, KMemberUpdate, KCommandAdd}"

lemma reconcile_leads: "keeps (leads H reconcile_kinds) (reconcile e n spec st)"
  unfolding reconcile_def backup_if_due_def reconcile_quarantine_def reconcile_members_def expand_cluster_def
    replace_unhealthy_def reconcile_version_def InvalidateControlStore_def
  by (intro leads_rules leads_mono [OF maybeBackup_leads] leads_mono [OF updateQuarantine_leads]
      leads_mono [OF refreshControlStore_leads] leads_mono [OF addNodeToCluster_leads]
      leads_mono [OF removeNodeFromCluster_leads] leads_mono [OF reconcileTLS_leads]
      leads_mono [OF upgradeInPlace_leads] leads_mono [OF stopForUpgrade_leads]) simp_all

text \<open>The iteration of a leader: as above, but the health record is brought up to date.\<close>

definition acts :: "CommonRequestHeader \<Rightarrow> 'w ctl \<Rightarrow> 'w ctl \<Rightarrow> bool" where
  "acts H s s' \<longleftrightarrow> (own_header (self s) = Some H \<longrightarrow>
     own_header (self s') = Some H \<and> m_leaderLockGuard (self s') = m_leaderLockGuard (self s)
     \<and> emits (\<lambda>ev. kind ev \<noteq> KLock \<and> signed_by H ev) s s')"

interpretation acts: step_rel "acts H" for H
  by unfold_locales (auto simp: acts_def intro: emits.step_refl emits.step_trans)

lemma leads_acts: "keeps (leads H K) m \<Longrightarrow> KLock \<notin> K \<Longrightarrow> keeps (acts H) m"
  by (erule keeps_weaken) (auto simp: acts_def leads_def elim!: emits_mono)

lemma acts_asks: "keeps asks m \<Longrightarrow> keeps (acts H) m"
  by (rule leads_acts [OF leads_asks [where K = "{}"]]) simp_all

lemma acts_note_health: "keeps (acts H) (upd_self (\<lambda>m. m\<lparr>m_peerState := note_health now st (m_peerState m)\<rparr>))"
  by (auto simp: keeps_def acts_def emits_def upd_self_def own_header_def)

lemma act_on_state_acts: "keeps (acts H) (act_on_state e n st)"
  unfolding act_on_state_def
  by (intro keeps_rules acts.keeps_core acts_asks [OF keeps_asks_now] acts_asks [OF buildMemberMap_asks]
      acts_asks [OF keeps_asks_get_self] acts_note_health leads_acts [OF broadcastMemberMap_leads]
      leads_acts [OF refreshControlStore_leads] leads_acts [OF create_if_new_leads] leads_acts [OF run_restore_leads]
      leads_acts [OF reconcile_leads]) simp_all

text \<open>What an iteration comes to: nothing but the lock, or the work of an acknowledged leader.\<close>

abbreviation peer_ids :: "'w ctl_env \<Rightarrow> 'w ctl \<Rightarrow> PeerId set" where
  "peer_ids e s \<equiv> pi_Id ` set (fst (cx_Peers e (world s)))"

lemma sorted_peers_eval: "sorted_peers e s = (Ret (sort_key cp_Id (map newPeer (fst (cx_Peers e (world s))))),
    s\<lparr>world := snd (cx_Peers e (world s))\<rparr>)"
  by (simp add: sorted_peers_def bind_apply ask_def ret_apply split: prod.splits)

lemma hd_sort_key_le: "xs \<noteq> [] \<Longrightarrow> x \<in> set xs \<Longrightarrow> f (hd (sort_key f xs)) \<le> f x"
proof -
  assume "xs \<noteq> []" "x \<in> set xs"
  then obtain y ys where y: "sort_key f xs = y # ys" by (metis list.exhaust set_empty set_sort)
  moreover have "sorted (map f (sort_key f xs))" by simp
  moreover have "x \<in> set (sort_key f xs)" using \<open>x \<in> set xs\<close> by simp
  ultimately show "f (hd (sort_key f xs)) \<le> f x" by auto
qed

lemma hd_peers_le:
  assumes "i \<in> peer_ids e s"
  shows "cp_Id (hd (sort_key cp_Id (map newPeer (fst (cx_Peers e (world s)))))) \<le> i"
proof -
  from assms obtain x where "newPeer x \<in> set (map newPeer (fst (cx_Peers e (world s))))" "i = cp_Id (newPeer x)"
    by (auto simp: newPeer_def)
  then show ?thesis using hd_sort_key_le [of "map newPeer (fst (cx_Peers e (world s)))" "newPeer x" cp_Id]
    by (metis empty_iff list.set(1))
qed

lemma asks_emits: "keeps asks m \<Longrightarrow> keeps (emits A) m"
  by (erule keeps_weaken) (auto simp: asks_def emits_def)

lemma refreshControlStore_emits: "keeps (emits A) (refreshControlStore e ttl)"
  unfolding refreshControlStore_def by (intro emits_rules control_asks [THEN asks_emits])

abbreviation lock_only :: "'w ctl \<Rightarrow> 'w ctl \<Rightarrow> bool" where
  "lock_only \<equiv> emits (\<lambda>ev. kind ev = KLock)"

lemma lock_steps: "keeps lock_only (releaseLeaderLock e)" "keeps lock_only (acquire_lock e me)"
  "keeps lock_only (start_leadership e)"
  unfolding releaseLeaderLock_def acquire_lock_def start_leadership_def
  by (intro emits_rules refreshControlStore_emits keeps_emits_act; simp)+

lemma acquire_lock_frame: "keeps (frame (\<lambda>m. (m_leadership m, m_clusterName m, m_hasLeaderLock m))) (acquire_lock e me)"
  unfolding acquire_lock_def by (intro frame_rules keeps_frame_upd_self) simp_all

lemma acquire_lock_held:
  "acquire_lock e me s = (Ret None, s') \<Longrightarrow> m_hasLeaderLock (self s) \<Longrightarrow> m_leaderLockGuard (self s') \<noteq> None"
  by (auto simp: acquire_lock_def bind_apply get_self_def ret_apply act_def upd_self_def
      split: if_splits prod.splits sum.splits option.splits)

lemma lock_signed: "kind ev = KLock \<Longrightarrow> signed_by H ev"
  by (cases ev) (auto split: if_splits)

lemma emits_asks: "asks s t \<Longrightarrow> emits A s t"
  by (simp add: asks_def emits_def)

lemma lead_cases:
  assumes "lead e ps l s = (r, s')"
  shows "lock_only s s' \<or> (\<forall>p \<in> set ps. cp_Id p \<in> set (ls_ackedPeers l))
    \<and> (\<exists>st t. asks s t \<and> cluster_ok st \<and> act_on_state e (int (length ps)) st t = (r, s'))"
proof -
  obtain x w where x: "cx_AssertLeadership e (ls_token l) (world s) = (x, w)" by fastforce
  show ?thesis
  proof (cases "x \<noteq> None \<or> list_ex (\<lambda>p. cp_Id p \<notin> set (ls_ackedPeers l)) ps")
    case True
    with assms x have "trace s' = trace s"
      by (auto simp: lead_def bind_apply ask_def ret_apply upd_self_def split: option.splits)
    then show ?thesis by (simp add: emits_def)
  next
    case False
    obtain ru t where u: "updateClusterState e (m_etcdClientTLSConfig (self s)) ps (s\<lparr>world := w\<rparr>) = (ru, t)" by fastforce
    then have "asks s t" using keepsE [OF updateClusterState_asks u] by (simp add: asks_def)
    moreover have "lead e ps l s = (case ru of Panic msg \<Rightarrow> (Panic msg, t)
        | Ret (Inl err) \<Rightarrow> (Ret (False, Some (Wrap ''error building cluster state'' err)), t)
        | Ret (Inr st) \<Rightarrow> act_on_state e (int (length ps)) st t)"
      using False x u by (simp add: lead_def bind_apply ask_def ret_apply get_self_def split: outcome.splits sum.splits)
    moreover have "cluster_ok st" if "ru = Ret (Inr st)" for st using updateClusterState_ok u that by blast
    ultimately show ?thesis
      using False assms by (auto simp: list_ex_iff emits_asks split: outcome.splits sum.splits)
  qed
qed

text \<open>
  An iteration that is more than the lock is the work of a leader: the state \<open>u\<close> in which it acts on
  the cluster it found.
\<close>

definition leader_at :: "'w ctl_env \<Rightarrow> leadershipState \<Rightarrow> 'w ctl \<Rightarrow> 'w ctl \<Rightarrow> bool" where
  "leader_at e l s u \<longleftrightarrow> m_leadership (self s) = Some l
     \<and> (\<forall>i \<in> peer_ids e s. i \<in> set (ls_ackedPeers l) \<and> m_myPeerId (self s) \<le> i)
     \<and> (m_hasLeaderLock (self s) \<longrightarrow> m_leaderLockGuard (self u) \<noteq> None)
     \<and> own_header (self u) = Some \<lparr>h_LeadershipToken = ls_token l, h_ClusterName = m_clusterName (self s)\<rparr>"

lemma run_act:
  assumes "run e s = (r, s')"
  shows "lock_only s s' \<or> (\<exists>l u st. leader_at e l s u \<and> lock_only s u \<and> cluster_ok st
    \<and> act_on_state e (int (length (fst (cx_Peers e (world s))))) st u = (r, s'))"
proof -
  let ?ps = "sort_key cp_Id (map newPeer (fst (cx_Peers e (world s))))"
  let ?s = "s\<lparr>world := snd (cx_Peers e (world s))\<rparr>" and ?me = "m_myPeerId (self s)"
  have ids: "cp_Id ` set ?ps = peer_ids e s" by (auto simp: newPeer_def image_image)
  obtain ra t where a: "acquire_lock e ?me ?s = (ra, t)" by fastforce
  have t: "lock_only s t" "m_leadership (self t) = m_leadership (self s)" "m_clusterName (self t) = m_clusterName (self s)"
    using keepsE [OF lock_steps(2) a] keepsE [OF acquire_lock_frame a] by (simp_all add: emits_def frame_def)
  show ?thesis
  proof (cases "list_ex (\<lambda>p. cp_Id p = ?me) ?ps \<and> cp_Id (hd ?ps) = ?me \<and> ra = Ret None \<and> m_leadership (self s) \<noteq> None")
    case False
    have "lock_only ?s (snd (releaseLeaderLock e ?s))" "lock_only t (snd (start_leadership e t))"
      by (rule keepsD [OF lock_steps(1)], rule keepsD [OF lock_steps(3)])
    then have "lock_only s (snd (releaseLeaderLock e ?s))" "lock_only s (snd (start_leadership e t))"
      using t(1) emits.step_trans by (simp_all add: emits_def) blast
    with False assms t(1,2) a show ?thesis
      by (auto simp: run_def bind_apply sorted_peers_eval get_self_def ret_apply emits.step_refl emits_def
          split: if_splits prod.splits outcome.splits option.splits)
  next
    case True
    then obtain l where l: "m_leadership (self s) = Some l" by blast
    with True assms t(2) a have run: "lead e ?ps l t = (r, s')"
      by (simp add: run_def bind_apply sorted_peers_eval get_self_def)
    show ?thesis
    proof (cases "lock_only t s'")
      case True
      with t(1) show ?thesis using emits.step_trans by blast
    next
      case False
      then obtain st u where u: "\<forall>p \<in> set ?ps. cp_Id p \<in> set (ls_ackedPeers l)" "asks t u"
          "act_on_state e (int (length ?ps)) st u = (r, s')" "cluster_ok st"
        using lead_cases [OF run] by blast
      have "?me \<le> i \<and> i \<in> set (ls_ackedPeers l)" if "i \<in> peer_ids e s" for i
        using that u(1) True hd_peers_le [OF that] ids by (auto simp: newPeer_def)
      moreover have "m_leaderLockGuard (self u) \<noteq> None" if "m_hasLeaderLock (self s)"
        using acquire_lock_held [of e ?me ?s t] a True that u(2) by (simp add: asks_def)
      ultimately have "leader_at e l s u" using u(2) t(2,3) l by (simp add: leader_at_def asks_def own_header_def)
      moreover have "lock_only s u" using t(1) u(2) by (auto simp: asks_def emits_def)
      ultimately show ?thesis using u(3,4) by auto
    qed
  qed
qed

lemma acts_signed:
  assumes "leader_at e l s u" and "lock_only s u" and "act_on_state e n st u = (r, s')"
  shows "emits (signed_by \<lparr>h_LeadershipToken = ls_token l, h_ClusterName = m_clusterName (self s)\<rparr>) s s'"
    and "m_leaderLockGuard (self s') = m_leaderLockGuard (self u)"
proof -
  let ?H = "\<lparr>h_LeadershipToken = ls_token l, h_ClusterName = m_clusterName (self s)\<rparr>"
  have act: "emits (signed_by ?H) u s'" "m_leaderLockGuard (self s') = m_leaderLockGuard (self u)"
    using keepsE [OF act_on_state_acts assms(3), of ?H] assms(1) by (auto simp: acts_def leader_at_def elim: emits_mono)
  show "m_leaderLockGuard (self s') = m_leaderLockGuard (self u)" by (rule act(2))
  have "emits (signed_by ?H) s u" using assms(2) by (rule emits_mono) (rule lock_signed)
  then show "emits (signed_by ?H) s s'" using act(1) emits.step_trans by blast
qed

abbreviation new_calls :: "'w ctl \<Rightarrow> 'w ctl \<Rightarrow> ctl_event list" where
  "new_calls s s' \<equiv> drop (length (trace s)) (trace s')"



text \<open>
  C8. Followers stay out. An iteration on a node that sees a peer with a smaller id makes no progress
  and touches nothing: at most it gives the leader lock back, and but for that its own state stays as it was.
\<close>

theorem followers_stay_out:
  assumes "run e s = (r, s')" and "i \<in> peer_ids e s" and "i < m_myPeerId (self s)"
  shows "(\<exists>err. r = Ret (False, err)) \<and> self s' \<in> {self s, (self s)\<lparr>m_leaderLockGuard := None\<rparr>}
    \<and> list_all (\<lambda>ev. \<exists>g x. ev = LockReleased g x) (new_calls s s')"
proof -
  let ?ps = "sort_key cp_Id (map newPeer (fst (cx_Peers e (world s))))"
  let ?s = "s\<lparr>world := snd (cx_Peers e (world s))\<rparr>"
  from hd_peers_le [OF assms(2)] assms(3) have "cp_Id (hd ?ps) \<noteq> m_myPeerId (self s)" by auto
  with assms(1) have "(r, s') = (Ret (False, Some (Errorf ''cannot find self in list of peers'')), ?s)
      \<or> (r, s') = bind (releaseLeaderLock e) (\<lambda>r. ret (False, r)) ?s"
    by (auto simp: run_def bind_apply sorted_peers_eval get_self_def ret_apply split: if_splits)
  then show ?thesis
    by (auto simp: releaseLeaderLock_def bind_apply ret_apply get_self_def act_def upd_self_def
        split: option.splits prod.splits)
qed

theorem followers_stay_out_witness:
  "\<exists>s'. run (demo_env [(''0'', demo_info ''0'' None), (''a'', demo_info ''a'' None)] [] 5)
      (grow_start\<lparr>self := (demo_controller [''a''] ''3.5.0'')\<lparr>m_leaderLockGuard := Some 7\<rparr>\<rparr>) = (Ret (False, None), s')
    \<and> (\<exists>g x. trace s' = [LockReleased g x])"
proof -
  let ?e = "demo_env [(''0'', demo_info ''0'' None), (''a'', demo_info ''a'' None)] [] 5"
  let ?s = "grow_start\<lparr>self := (demo_controller [''a''] ''3.5.0'')\<lparr>m_leaderLockGuard := Some 7\<rparr>\<rparr>"
  obtain s' where s': "run ?e ?s = (Ret (False, None), s')" "length (trace s') = 1" "''0'' < m_myPeerId (self ?s)"
    by (simp add: go_run loop_run demo_run releaseLeaderLock_def cong: frozen_bind frozen_loop)
  from followers_stay_out [OF s'(1) _ s'(3)] s'(1,2) show ?thesis
    by (auto simp: length_Suc_conv)
qed

end
