(* ===== verification/Controller_Creation.thy ===== *)
theory Controller_Creation
  imports Controller_Safety
begin

text \<open>
  How a new cluster comes to be: in two phases, so that no node starts etcd as part of a cluster that
  another of its nodes would refuse to join.
\<close>

section \<open>Everyone is prepared before anyone starts\<close>

text \<open>
  In a sequence of calls, a node is told to start as part of a new cluster only after every node of
  that cluster (as many as the request lists) has accepted the preparation with the same request.
\<close>

definition prepared_first :: "ctl_event list \<Rightarrow> bool" where
  "prepared_first evs \<longleftrightarrow> (\<forall>pre p req x post. evs = pre @ RpcJoinCluster p req x # post
     \<longrightarrow> jc_Phase req = PHASE_INITIAL_CLUSTER
     \<longrightarrow> (\<exists>ps. p \<in> set ps \<and> distinct ps \<and> length ps = length (jc_Nodes req)
        \<and> (\<forall>q \<in> set ps. RpcJoinCluster q (req\<lparr>jc_Phase := PHASE_PREPARE\<rparr>) None \<in> set pre)))"

lemma prepared_first_none: "list_all (\<lambda>ev. kind ev \<noteq> KStart) evs \<Longrightarrow> prepared_first evs"
  by (auto simp: prepared_first_def)

lemma prepared_first_append: "prepared_first xs \<Longrightarrow> prepared_first ys \<Longrightarrow> prepared_first (xs @ ys)"
  unfolding prepared_first_def append_eq_append_conv2 append_eq_Cons_conv Cons_eq_append_conv
  by (auto; fastforce)

text \<open>Two blocks of calls: the preparations at all nodes, then the starts at some of them.\<close>

lemma prepared_first_block:
  assumes "\<forall>ev \<in> set ys. \<exists>p \<in> set ps. \<exists>x. ev = RpcJoinCluster p req x" and "length ps = length (jc_Nodes req)" and "distinct ps"
    and "\<forall>q \<in> set ps. RpcJoinCluster q (req\<lparr>jc_Phase := PHASE_PREPARE\<rparr>) None \<in> set xs"
    and "list_all (\<lambda>ev. kind ev \<noteq> KStart) xs"
  shows "prepared_first (xs @ ys)"
  unfolding prepared_first_def
proof (intro allI impI)
  fix pre p req' r post
  assume eq: "xs @ ys = pre @ RpcJoinCluster p req' r # post" and ph: "jc_Phase req' = PHASE_INITIAL_CLUSTER"
  have "RpcJoinCluster p req' r \<notin> set xs" using assms(5) ph by (auto simp: list_all_iff)
  with eq obtain us where "pre = xs @ us" "ys = us @ RpcJoinCluster p req' r # post"
    by (auto simp: append_eq_append_conv2 append_eq_Cons_conv Cons_eq_append_conv)
  with assms show "\<exists>ps. p \<in> set ps \<and> distinct ps \<and> length ps = length (jc_Nodes req')
      \<and> (\<forall>q \<in> set ps. RpcJoinCluster q (req'\<lparr>jc_Phase := PHASE_PREPARE\<rparr>) None \<in> set pre)"
    by (intro exI [of _ ps]) auto
qed

text \<open>As a relation between states: the leader keeps its header and makes such a sequence of calls.\<close>

definition two_phase :: "CommonRequestHeader \<Rightarrow> 'w ctl \<Rightarrow> 'w ctl \<Rightarrow> bool" where
  "two_phase H s s' \<longleftrightarrow> (own_header (self s) = Some H \<longrightarrow>
     own_header (self s') = Some H \<and> (\<exists>evs. trace s' = trace s @ evs \<and> prepared_first evs))"

interpretation two_phase: step_rel "two_phase H" for H
proof unfold_locales
  show "two_phase H s s" for s by (simp add: two_phase_def prepared_first_def)
  show "two_phase H s t \<Longrightarrow> two_phase H t u \<Longrightarrow> two_phase H s u" for s t u
    by (auto simp: two_phase_def prepared_first_append)
qed

lemma leads_two_phase: "keeps (leads H K) m \<Longrightarrow> KStart \<notin> K \<Longrightarrow> keeps (two_phase H) m"
  by (erule keeps_weaken)
    (auto simp: leads_def two_phase_def emits_def list_all_iff intro!: prepared_first_none; metis)

text \<open>The calls of one phase: all to the given peers and with the same request, which all have accepted at its end.\<close>

definition asked_all :: "ctl_event list \<Rightarrow> JoinClusterRequest \<Rightarrow> etcdClusterPeerInfo list \<Rightarrow> etcdClusterPeerInfo list
    \<Rightarrow> ctl_event list \<Rightarrow> bool" where
  "asked_all tr req all ok t \<longleftrightarrow> (\<exists>evs. t = tr @ evs
     \<and> (\<forall>ev \<in> set evs. \<exists>p \<in> set all. \<exists>x. ev = RpcJoinCluster (cp_Id (cpi_peer p)) req x)
     \<and> (\<forall>p \<in> set ok. RpcJoinCluster (cp_Id (cpi_peer p)) req None \<in> set evs))"

lemma asked_all_step:
  assumes "asked_all tr req all ok t" and "p \<in> set all"
  shows "asked_all tr req all ok (t @ [RpcJoinCluster (cp_Id (cpi_peer p)) req x])"
    and "asked_all tr req all (ok @ [p]) (t @ [RpcJoinCluster (cp_Id (cpi_peer p)) req None])"
  using assms by (fastforce simp: asked_all_def)+

lemma asked_all_less: "asked_all tr req all ok t \<Longrightarrow> asked_all tr req all [] t"
  by (auto simp: asked_all_def)

lemma buildHeader_eval: "own_header (self s) = Some H \<Longrightarrow> buildHeader s = (Ret H, s)"
  by (auto simp: own_header_def buildHeader_def bind_apply get_self_def ret_apply)

lemma hoare_header:
  assumes "\<And>s. P s \<Longrightarrow> own_header (self s) = Some H" and "hoare P (f H) Q E"
  shows "hoare P (bind buildHeader f) Q E"
  using assms(2) by (simp add: hoare_def bind_apply buildHeader_eval [OF assms(1)])

lemma hoare_rpc:
  assumes "\<And>s w. P s \<Longrightarrow> P (s\<lparr>world := w\<rparr>)" and "\<And>err s. P s \<Longrightarrow> Q (fail err) s"
    and "\<And>s x w. P s \<Longrightarrow> Q x (s\<lparr>world := w, trace := trace s @ [ev x]\<rparr>)"
  shows "hoare P (rpc e p fail (act f ev)) Q E"
  unfolding rpc_def
  by (rule hoare_bind [OF hoare_ask [where Q = "\<lambda>_. P"]]) (auto intro!: hoare_act hoare_rules assms)

lemma join_all_calls:
  "hoare (\<lambda>s. own_header (self s) = Some H \<and> trace s = tr) (join_all e ph t v ns ps)
     (\<lambda>r s. own_header (self s) = Some H
        \<and> asked_all tr (join_request H ph t v ns) ps (if r = None then ps else []) (trace s)) (\<lambda>_. False)"
  unfolding join_all_def
proof (rule hoare_bind [OF hoare_for_each [where
        I = "\<lambda>pre _ s. own_header (self s) = Some H \<and> asked_all tr (join_request H ph t v ns) ps pre (trace s)"
        and Q = "\<lambda>c s. own_header (self s) = Some H
          \<and> asked_all tr (join_request H ph t v ns) ps (if c = Next () then ps else []) (trace s)"]], goal_cases)
  case (1 pre p suf a)
  then have p: "p \<in> set ps" by simp
  show ?case
    by (rule hoare_header [where H = H], simp, unfold rpcJoinCluster_def,
        rule hoare_bind [OF hoare_rpc [where Q = "\<lambda>r s. own_header (self s) = Some H
          \<and> asked_all tr (join_request H ph t v ns) ps (if r = None then pre @ [p] else []) (trace s)"]])
      (auto intro!: hoare_ret split: option.splits intro: asked_all_step [OF _ p] elim: asked_all_less simp: )
qed (auto simp: asked_all_def intro!: hoare_ret split: loop.splits)

lemma two_phase_hoare:
  assumes "\<And>tr. hoare (\<lambda>s. own_header (self s) = Some H \<and> trace s = tr) m
      (\<lambda>_ s. own_header (self s) = Some H \<and> (\<exists>evs. trace s = tr @ evs \<and> prepared_first evs))
      (\<lambda>s. own_header (self s) = Some H \<and> (\<exists>evs. trace s = tr @ evs \<and> prepared_first evs))"
  shows "keeps (two_phase H) m"
proof (rule keepsI)
  fix s
  obtain r s' where m: "m s = (r, s')" by fastforce
  then show "two_phase H s (snd (m s))"
    using hoare_RetD [OF assms, of s "trace s"] hoare_PanicD [OF assms, of s "trace s"] by (cases r) (auto simp: two_phase_def)
qed

lemma asked_all_start:
  assumes "asked_all tr (join_request H PHASE_PREPARE t v ns) ps ps tr1"
    and "asked_all tr1 (join_request H PHASE_INITIAL_CLUSTER t v ns) ps ok tr2"
    and "distinct (map (\<lambda>p. cp_Id (cpi_peer p)) ps)" and "length ns = length ps"
  shows "\<exists>evs. tr2 = tr @ evs \<and> prepared_first evs"
proof -
  from assms(1,2) obtain xs ys where x: "tr1 = tr @ xs"
      "\<forall>ev \<in> set xs. \<exists>p \<in> set ps. \<exists>x. ev = RpcJoinCluster (cp_Id (cpi_peer p)) (join_request H PHASE_PREPARE t v ns) x"
      "\<forall>p \<in> set ps. RpcJoinCluster (cp_Id (cpi_peer p)) (join_request H PHASE_PREPARE t v ns) None \<in> set xs"
    and y: "tr2 = tr1 @ ys"
      "\<forall>ev \<in> set ys. \<exists>p \<in> set ps. \<exists>x. ev = RpcJoinCluster (cp_Id (cpi_peer p)) (join_request H PHASE_INITIAL_CLUSTER t v ns) x"
    by (auto simp: asked_all_def)
  have "prepared_first (xs @ ys)"
    by (rule prepared_first_block [where ps = "map (\<lambda>p. cp_Id (cpi_peer p)) ps"
          and req = "join_request H PHASE_INITIAL_CLUSTER t v ns"])
      (use x y assms(3,4) in \<open>fastforce simp: join_request_def list_all_iff\<close>)+
  with x y show ?thesis by auto
qed

lemma asked_all_prepare:
  assumes "asked_all tr (join_request H PHASE_PREPARE t v ns) ps ok tr1"
  shows "\<exists>evs. tr1 = tr @ evs \<and> prepared_first evs"
proof -
  from assms obtain evs where "tr1 = tr @ evs"
      "\<forall>ev \<in> set evs. \<exists>p x. ev = RpcJoinCluster p (join_request H PHASE_PREPARE t v ns) x"
    by (fastforce simp: asked_all_def)
  moreover from this have "list_all (\<lambda>ev. kind ev \<noteq> KStart) evs" by (fastforce simp: list_all_iff)
  ultimately show ?thesis using prepared_first_none by blast
qed

text \<open>What keeps \<open>two_phase\<close> may follow a sequence of calls that is in order.\<close>

lemma two_phase_tail:
  assumes "keeps (two_phase H) m"
  shows "hoare (\<lambda>s. own_header (self s) = Some H \<and> (\<exists>evs. trace s = tr @ evs \<and> prepared_first evs)) m
    (\<lambda>_ s. own_header (self s) = Some H \<and> (\<exists>evs. trace s = tr @ evs \<and> prepared_first evs))
    (\<lambda>s. own_header (self s) = Some H \<and> (\<exists>evs. trace s = tr @ evs \<and> prepared_first evs))"
proof (rule hoare_stays, rule keeps_weaken [OF assms])
  fix s s' :: "'a ctl" assume "two_phase H s s'"
  then show "stays (\<lambda>s. own_header (self s) = Some H \<and> (\<exists>evs. trace s = tr @ evs \<and> prepared_first evs)) s s'"
    by (auto simp: stays_def two_phase_def) (metis append_assoc prepared_first_append)
qed

lemmas two_phase_asks = leads_two_phase [OF leads_asks [where K = "{}"], simplified]

text \<open>Preparing, starting and recording, as \<open>form_cluster\<close> does it at its end.\<close>

lemma start_two_phase:
  assumes "distinct (map (\<lambda>p. cp_Id (cpi_peer p)) ps)" and "length ns = length ps"
    and "\<And>err. keeps asks (f err)" and "\<And>err. keeps asks (g err)" and "keeps (two_phase H) fin"
  shows "keeps (two_phase H) (bind (join_all e PHASE_PREPARE t v ns ps) (\<lambda>r. case r of
      Some err \<Rightarrow> f err
    | None \<Rightarrow> bind (join_all e PHASE_INITIAL_CLUSTER t v ns ps) (\<lambda>r. case r of
        Some err \<Rightarrow> g err | None \<Rightarrow> fin)))"
proof -
  let ?prep = "join_request H PHASE_PREPARE t v ns" and ?start = "join_request H PHASE_INITIAL_CLUSTER t v ns"
  let ?done = "\<lambda>tr s. own_header (self s) = Some H \<and> (\<exists>evs. trace s = tr @ evs \<and> prepared_first evs)"
  show ?thesis
  proof (rule two_phase_hoare, rule hoare_bind)
    fix tr
    show "hoare (\<lambda>s. own_header (self s) = Some H \<and> trace s = tr) (join_all e PHASE_PREPARE t v ns ps)
        (\<lambda>r s. own_header (self s) = Some H \<and> asked_all tr ?prep ps (if r = None then ps else []) (trace s)) (?done tr)"
      by (rule hoare_conseq [OF join_all_calls]) auto
    fix r
    show "hoare (\<lambda>s. own_header (self s) = Some H \<and> asked_all tr ?prep ps (if r = None then ps else []) (trace s))
        (case r of Some err \<Rightarrow> f err | None \<Rightarrow> bind (join_all e PHASE_INITIAL_CLUSTER t v ns ps) (\<lambda>r. case r of
          Some err \<Rightarrow> g err | None \<Rightarrow> fin)) (\<lambda>_. ?done tr) (?done tr)"
    proof (cases r)
      case None
      have "hoare (\<lambda>s. \<exists>tr1. asked_all tr ?prep ps ps tr1 \<and> own_header (self s) = Some H \<and> trace s = tr1)
          (join_all e PHASE_INITIAL_CLUSTER t v ns ps) (\<lambda>_. ?done tr) (?done tr)"
      proof (rule hoare_ex)
        fix tr1
        show "hoare (\<lambda>s. asked_all tr ?prep ps ps tr1 \<and> own_header (self s) = Some H \<and> trace s = tr1)
            (join_all e PHASE_INITIAL_CLUSTER t v ns ps) (\<lambda>_. ?done tr) (?done tr)"
        proof (cases "asked_all tr ?prep ps ps tr1")
          case True
          then show ?thesis
            by (intro hoare_conseq [OF join_all_calls]) (use assms(1,2) in \<open>auto dest: asked_all_start [OF True]\<close>)
        qed (simp add: hoare_def)
      qed
      from hoare_conseq [OF this] show ?thesis
        unfolding None option.case
        by (rule hoare_bind [where R = "\<lambda>_. ?done tr"]) (auto intro!: two_phase_tail keeps_case_option assms(5) two_phase_asks [OF assms(4)])
    next
      case (Some err)
      show ?thesis unfolding Some option.case
        by (rule hoare_conseq [OF two_phase_tail [OF two_phase_asks [OF assms(3)]]]) (auto dest: asked_all_prepare)
    qed
  qed
qed

lemma propose_length:
  "hoare P (propose e ps) (\<lambda>r _. \<forall>nodes mm. r = Inr (nodes, mm) \<longrightarrow> length nodes = length ps) (\<lambda>_. True)"
  unfolding propose_def
proof (rule hoare_bind [where R = "\<lambda>_ _. True"], goal_cases)
  case (2 m)
  show ?case
    by (rule hoare_bind [OF hoare_for_each [where I = "\<lambda>pre (nodes, infos) _. length nodes = length pre"
          and Q = "\<lambda>c _. \<forall>nodes infos. c = Next (nodes, infos) \<longrightarrow> length nodes = length ps"]])
      (auto simp: hoare_def node_config_def go_apply Let_def split: loop.splits option.splits)
qed (auto intro!: hoare_get_self)

lemma propose_one_node_each: "propose e ps s = (Ret (Inr (nodes, mm)), s') \<Longrightarrow> length nodes = length ps"
  using hoare_RetD [OF propose_length TrueI] by blast

lemma form_cluster_two_phase:
  assumes "distinct (map (\<lambda>p. cp_Id (cpi_peer p)) ps)" and "length ns = length ps"
  shows "keeps (two_phase H) (form_cluster e st spec t ps ns mm)"
  unfolding form_cluster_def
  by (intro two_phase.keeps_bind keeps_case_option keeps_if start_two_phase assms asks_rules two_phase_asks
      leads_two_phase [OF stop_all_leads] leads_two_phase [OF broadcastMemberMap_leads]
      leads_two_phase [OF writeClusterSpec_leads]) simp_all

lemma proposal_distinct:
  assumes "cluster_ok st"
  shows "distinct (map (\<lambda>p. cp_Id (cpi_peer p)) (proposal_of d (map snd (shuffle cs (st_peers st)))))"
proof -
  let ?kvs = "shuffle cs (st_peers st)"
  have "map (\<lambda>p. cp_Id (cpi_peer p)) (map snd ?kvs) = map fst ?kvs"
    using assms by (auto simp: cluster_ok_def peers_ok_def list_all_iff)
  moreover have "distinct (map fst ?kvs)" using assms by (simp add: cluster_ok_def peers_ok_def)
  ultimately have "distinct (map (\<lambda>p. cp_Id (cpi_peer p)) (map snd ?kvs))" by metis
  then show ?thesis by (simp add: proposal_of_def distinct_take flip: take_map)
qed

lemma createNewCluster_two_phase:
  assumes "cluster_ok st"
  shows "keeps (two_phase H) (createNewCluster e st spec)"
  unfolding createNewCluster_def Let_def
proof (intro keeps_if two_phase.keeps_ret, rule two_phase.keeps_bind [OF two_phase_asks [OF keeps_asks_ask]],
    rule two_phase.keeps_bind_dep, goal_cases)
  case (2 clusterToken s kvs s')
  then obtain cs where kvs: "kvs = shuffle cs (st_peers st)"
    by (auto simp: range_map_def bind_apply ask_def ret_apply split: prod.splits)
  show ?case
  proof (intro keeps_if two_phase.keeps_panic, rule two_phase.keeps_bind_dep, goal_cases)
    case (2 s r s')
    then show ?case
      by (auto intro!: keeps_case_sum keeps_case_prod two_phase.keeps_ret form_cluster_two_phase proposal_distinct [OF assms]
          dest: propose_one_node_each simp: kvs)
  qed (intro two_phase_asks propose_asks)
qed (intro two_phase_asks asks_rules)

lemma create_if_new_two_phase: "cluster_ok st \<Longrightarrow> keeps (two_phase H) (create_if_new e n st)"
  unfolding create_if_new_def
  by (intro two_phase.keeps_core keeps_rules keeps_case_bool createNewCluster_two_phase
      leads_two_phase [OF refreshControlStore_leads] two_phase_asks [OF keeps_asks_get_self] two_phase_asks [OF control_asks(6)]
      two_phase_asks [OF verifyEtcdVersion_asks] leads_two_phase [OF leads_recorded [OF control_asks(7), where K = "{KMark}"]]) simp_all

lemma run_restore_two_phase: "cluster_ok st \<Longrightarrow> keeps (two_phase H) (run_restore e n spec st cmd)"
  unfolding run_restore_def
  by (intro two_phase.keeps_core keeps_rules createNewCluster_two_phase leads_two_phase [OF restoreBackup_leads]
      two_phase_asks [OF verifyEtcdVersion_asks]) simp_all

lemma act_on_state_two_phase: "cluster_ok st \<Longrightarrow> keeps (two_phase H) (act_on_state e n st)"
  unfolding act_on_state_def
  by (intro two_phase.keeps_core keeps_rules create_if_new_two_phase run_restore_two_phase leads_two_phase [OF reconcile_leads]
      two_phase_asks [OF keeps_asks_now] two_phase_asks [OF buildMemberMap_asks] two_phase_asks [OF keeps_asks_get_self]
      leads_two_phase [OF broadcastMemberMap_leads] leads_two_phase [OF refreshControlStore_leads])
    (auto simp: keeps_def two_phase_def upd_self_def own_header_def prepared_first_def)

text \<open>
  C5. A cluster is created in two phases. When an iteration of the control loop tells a node to start
  as part of a new cluster, it has before that told as many distinct nodes as the new cluster is to have,
  this one among them, to prepare for the same cluster (token, version and nodes), and all have accepted.
\<close>

theorem creation_is_two_phase:
  assumes "run e s = (r, s')" and "new_calls s s' = pre @ RpcJoinCluster p req x # post"
    and "jc_Phase req = PHASE_INITIAL_CLUSTER"
  shows "\<exists>ps. p \<in> set ps \<and> distinct ps \<and> length ps = length (jc_Nodes req)
    \<and> (\<forall>q \<in> set ps. RpcJoinCluster q (req\<lparr>jc_Phase := PHASE_PREPARE\<rparr>) None \<in> set pre)"
proof -
  have "prepared_first (new_calls s s')"
    using run_act [OF assms(1)]
  proof
    assume "lock_only s s'"
    then show ?thesis by (auto simp: emits_def list_all_iff intro!: prepared_first_none)
  next
    assume "\<exists>l u st. leader_at e l s u \<and> lock_only s u \<and> cluster_ok st
      \<and> act_on_state e (int (length (fst (cx_Peers e (world s))))) st u = (r, s')"
    then obtain l u st where u: "leader_at e l s u" "lock_only s u" "cluster_ok st"
        "act_on_state e (int (length (fst (cx_Peers e (world s))))) st u = (r, s')" by blast
    from u(2) obtain evs where evs: "trace u = trace s @ evs" "list_all (\<lambda>ev. kind ev = KLock) evs" by (auto simp: emits_def)
    from evs(2) have "prepared_first evs" by (auto simp: list_all_iff intro!: prepared_first_none)
    with evs(1) keepsE [OF act_on_state_two_phase [OF u(3), where
        H = "\<lparr>h_LeadershipToken = ls_token l, h_ClusterName = m_clusterName (self s)\<rparr>"] u(4)] u(1) show ?thesis
      by (auto simp: two_phase_def leader_at_def prepared_first_append)
  qed
  with assms(2,3) show ?thesis by (auto simp: prepared_first_def)
qed

theorem creation_is_two_phase_witness:
  "\<exists>s' ps t. run (three_env (\<lambda>_. None) []) (three_start ''3.5.0'' True) = (Ret (True, None), s') \<and> distinct ps \<and> length ps = 3
    \<and> (\<forall>q \<in> set ps. RpcJoinCluster q t None \<in> set (trace s')) \<and> jc_Phase t = PHASE_PREPARE"
proof -
  let ?e = "three_env (\<lambda>_. None) []" and ?s = "three_start ''3.5.0'' True"
  obtain s' p req x where s': "run ?e ?s = (Ret (True, None), s')" "10 < length (trace s')"
      "trace s' ! 10 = RpcJoinCluster p req x" "jc_Phase req = PHASE_INITIAL_CLUSTER" "length (jc_Nodes req) = 3"
    by (simp add: go_run loop_run creation_run demo_run cong: frozen_bind frozen_loop)
  have "new_calls ?s s' = take 10 (trace s') @ RpcJoinCluster p req x # drop 11 (trace s')"
    using s'(2,3) id_take_nth_drop [of 10 "trace s'"] by simp
  from creation_is_two_phase [OF s'(1) this s'(4)] obtain ps where "distinct ps" "length ps = length (jc_Nodes req)"
      "\<forall>q \<in> set ps. RpcJoinCluster q (req\<lparr>jc_Phase := PHASE_PREPARE\<rparr>) None \<in> set (take 10 (trace s'))" by blast
  then show ?thesis using s'(1,5) in_set_takeD by (metis JoinClusterRequest.select_convs(2) JoinClusterRequest.surjective JoinClusterRequest.update_convs(2))
qed

section \<open>A cluster that was created has a quorum\<close>

lemma quorumSize_le: "0 < d \<Longrightarrow> quorumSize d \<le> d"
  by (simp add: quorumSize_def go_div_def)

lemma proposal_subset: "set (proposal_of d ps) \<subseteq> set ps"
  by (auto simp: proposal_of_def dest: in_set_takeD)

lemma peer_id_key: "cluster_ok st \<Longrightarrow> (k, p) \<in> set (st_peers st) \<Longrightarrow> cp_Id (cpi_peer p) \<in> fst ` set (st_peers st)"
  by (rule rev_image_eqI) (auto simp: cluster_ok_def peers_ok_def list_all_iff)

lemma leads_extends: "keeps (leads H K) m \<Longrightarrow> m s = (r, s') \<Longrightarrow> own_header (self s) = Some H
    \<Longrightarrow> own_header (self s') = Some H \<and> (\<exists>evs. trace s' = trace s @ evs)"
  by (drule keepsE) (auto simp: leads_def emits_def)

lemma writeClusterSpec_written:
  "writeClusterSpec e spec s = (Ret None, s') \<Longrightarrow> trace s' = trace s @ [SpecWritten spec None]"
proof -
  assume "writeClusterSpec e spec s = (Ret None, s')"
  then obtain t where t: "SetExpectedClusterSpec (cx_cmd e) (m_controlStore (self s)) spec s = (Ret None, t)"
      "s' = t\<lparr>trace := trace t @ [SpecWritten spec None]\<rparr>"
    by (auto simp: writeClusterSpec_def recorded_def go_apply get_self_def emit_def split: prod.splits outcome.splits)
  with keepsE [OF control_asks(5) t(1)] show ?thesis by (simp add: asks_def)
qed

lemma form_cluster_starts:
  assumes "form_cluster e st spec t ps ns mm s = (Ret (True, None), s')" and "own_header (self s) = Some H"
  shows "\<exists>evs. trace s' = trace s @ evs @ [SpecWritten spec None]
    \<and> (\<forall>p \<in> set ps. RpcJoinCluster (cp_Id (cpi_peer p)) (join_request H PHASE_INITIAL_CLUSTER t (cs_EtcdVersion spec) ns) None \<in> set evs)"
proof -
  from assms(1) obtain s1 s2 s3 s4 where
      1: "stop_all e st s = (Ret None, s1)" and 2: "broadcastMemberMap e st mm s1 = (Ret [], s2)"
    and 3: "join_all e PHASE_PREPARE t (cs_EtcdVersion spec) ns ps s2 = (Ret None, s3)"
    and 4: "join_all e PHASE_INITIAL_CLUSTER t (cs_EtcdVersion spec) ns ps s3 = (Ret None, s4)"
    and 5: "writeClusterSpec e spec s4 = (Ret None, s')"
    by (auto simp: form_cluster_def bind_apply ret_apply split: prod.splits outcome.splits option.splits if_splits)
  from leads_extends [OF stop_all_leads 1 assms(2)] leads_extends [OF broadcastMemberMap_leads 2] leads_extends [OF join_all_leads 3]
  obtain evs where s3: "own_header (self s3) = Some H" "trace s3 = trace s @ evs" by fastforce
  from hoare_RetD [OF join_all_calls _ 4] s3 have
    "asked_all (trace s3) (join_request H PHASE_INITIAL_CLUSTER t (cs_EtcdVersion spec) ns) ps ps (trace s4)" by fastforce
  with s3(2) writeClusterSpec_written [OF 5] show ?thesis by (fastforce simp: asked_all_def)
qed

text \<open>
  C6. A created cluster has a quorum. When creating a cluster reports success, as many distinct peers
  as the new cluster has nodes, and at least a quorum of the members the specification asks for, have been started
  with one request for its version, and then the specification has been written to the control store.
\<close>

theorem created_cluster_has_quorum:
  assumes "createNewCluster e st spec s = (Ret (True, None), s')" and "cluster_ok st" and "m_leadership (self s) \<noteq> None"
  shows "\<exists>evs ps req. new_calls s s' = evs @ [SpecWritten spec None]
    \<and> distinct ps \<and> set ps \<subseteq> fst ` set (st_peers st) \<and> length ps = length (jc_Nodes req) \<and> quorumSize (cs_MemberCount spec) \<le> int (length ps)
    \<and> jc_Phase req = PHASE_INITIAL_CLUSTER \<and> jc_EtcdVersion req = cs_EtcdVersion spec
    \<and> (\<forall>q \<in> set ps. RpcJoinCluster q req None \<in> set evs)"
proof -
  from assms(3) obtain H where H: "own_header (self s) = Some H" by (auto simp: own_header_def)
  let ?d = "cs_MemberCount spec" and ?n = "size_of (st_peers st)"
  from assms(1) have guards: "quorumSize ?d \<le> ?n" by (auto simp: createNewCluster_def Let_def ret_apply split: if_splits)
  from assms(1) obtain t s1 kvs s2 nodes mm s3 where
      t: "ask (rt_token (cx_rt e)) s = (Ret t, s1)" and k: "range_map (cx_rt e) (st_peers st) s1 = (Ret kvs, s2)" and
      p: "propose e (proposal_of ?d (map snd kvs)) s2 = (Ret (Inr (nodes, mm)), s3)"
    and f: "form_cluster e st spec t (proposal_of ?d (map snd kvs)) nodes mm s3 = (Ret (True, None), s')"
    by (auto simp: createNewCluster_def Let_def bind_apply ret_apply panic_apply
        split: prod.splits outcome.splits sum.splits if_splits)
  from k obtain cs where kvs: "kvs = shuffle cs (st_peers st)" using range_map_eval by (metis Pair_inject outcome.inject(1))
  let ?ps = "proposal_of ?d (map snd kvs)" and ?req = "join_request H PHASE_INITIAL_CLUSTER t (cs_EtcdVersion spec) nodes"
  have s3: "own_header (self s3) = Some H" "trace s3 = trace s"
    using keepsE [OF keeps_asks_ask t] keepsE [OF keeps_asks_range k] keepsE [OF propose_asks p] H by (simp_all add: asks_def)
  from form_cluster_starts [OF f s3(1)] s3(2) obtain evs where
    evs: "trace s' = trace s @ evs @ [SpecWritten spec None]" "\<forall>p \<in> set ?ps. RpcJoinCluster (cp_Id (cpi_peer p)) ?req None \<in> set evs"
    by auto
  let ?ids = "map (\<lambda>p. cp_Id (cpi_peer p)) ?ps"
  have "distinct ?ids" unfolding kvs by (rule proposal_distinct [OF assms(2)])
  have "length ?ids = length (jc_Nodes ?req)" using propose_one_node_each [OF p] by simp
  have "quorumSize ?d \<le> int (length ?ids)"
    using guards quorumSize_le [of ?d] by (auto simp: proposal_of_def kvs)
  have "set ?ids \<subseteq> fst ` set (st_peers st)"
    using proposal_subset [of ?d "map snd kvs"] peer_id_key [OF assms(2)] by (auto simp: kvs)
  have "new_calls s s' = evs @ [SpecWritten spec None]" using evs(1) by simp
  have "\<forall>q \<in> set ?ids. RpcJoinCluster q ?req None \<in> set evs" using evs(2) by simp
  have "jc_Phase ?req = PHASE_INITIAL_CLUSTER" "jc_EtcdVersion ?req = cs_EtcdVersion spec"
    by (simp_all add: join_request_def)
  show ?thesis by (rule exI [of _ evs], rule exI [of _ ?ids], rule exI [of _ ?req], intro conjI) fact+
qed

theorem created_cluster_has_quorum_witness:
  "\<exists>s' evs ps req. createNewCluster (three_env (\<lambda>_. None) []) (demo_peers [''a'', ''b'', ''c'']) \<lparr>cs_MemberCount = 3, cs_EtcdVersion = ''3.5.0''\<rparr>
      (three_start ''3.5.0'' True) = (Ret (True, None), s') \<and> trace s' = evs @ [SpecWritten \<lparr>cs_MemberCount = 3, cs_EtcdVersion = ''3.5.0''\<rparr> None]
    \<and> distinct ps \<and> 2 \<le> int (length ps) \<and> (\<forall>q \<in> set ps. RpcJoinCluster q req None \<in> set evs)"
proof -
  let ?e = "three_env (\<lambda>_. None) []" and ?s = "three_start ''3.5.0'' True" and ?st = "demo_peers [''a'', ''b'', ''c'']"
  let ?spec = "\<lparr>cs_MemberCount = 3, cs_EtcdVersion = ''3.5.0''\<rparr>"
  obtain s' where s': "createNewCluster ?e ?st ?spec ?s = (Ret (True, None), s')" "m_leadership (self ?s) \<noteq> None"
    by (simp add: go_run loop_run creation_run demo_run demo_cluster_def cong: frozen_bind frozen_loop)
  have ok: "cluster_ok ?st" by (simp add: cluster_ok_def peers_ok_def demo_cluster_def newPeer_def)
  have "quorumSize (cs_MemberCount ?spec) = 2" by (simp add: quorumSize_def go_div_def)
  with created_cluster_has_quorum [OF s'(1) ok s'(2)] s'(1) show ?thesis by fastforce
qed

end
