(* ===== verification/Controller_Order.thy ===== *)
theory Controller_Order
  imports Controller_Safety
begin

text \<open>
  In which order an iteration of the controller makes its calls: a backup before the cluster is
  changed, and everyone prepared before anyone is started.
\<close>

section \<open>Backups come first\<close>

text \<open>
  The calls that change the cluster in a way that can lose data: adding or removing a member and
  changing the version of one. In a sequence of calls they are covered when a backup succeeded before.
\<close>

fun changes_cluster :: "ctl_event \<Rightarrow> bool" where
  "changes_cluster ev = (kind ev \<in> {KMemberAdd, KMemberRemove, KUpgrade})"

fun backed_up :: "ctl_event \<Rightarrow> bool" where
  "backed_up (RpcDoBackup _ _ (Inr _)) = True"
| "backed_up _ = False"

abbreviation covered :: "ctl_event list \<Rightarrow> bool" where
  "covered \<equiv> preceded backed_up changes_cluster"

text \<open>As the leader with header \<open>H\<close>, with the calls since the first \<open>n\<close> covered; and with a backup among them.\<close>

definition safe :: "CommonRequestHeader \<Rightarrow> nat \<Rightarrow> 'w ctl \<Rightarrow> bool" where
  "safe H n s \<longleftrightarrow> own_header (self s) = Some H \<and> n \<le> length (trace s) \<and> covered (drop n (trace s))"

definition saved :: "CommonRequestHeader \<Rightarrow> nat \<Rightarrow> 'w ctl \<Rightarrow> bool" where
  "saved H n s \<longleftrightarrow> safe H n s \<and> list_ex backed_up (drop n (trace s))"

lemma saved_safe: "saved H n s \<Longrightarrow> safe H n s"
  by (simp add: saved_def)

lemma stays_safe: "keeps (leads H K) m \<Longrightarrow> K \<inter> {KMemberAdd, KMemberRemove, KUpgrade} = {} \<Longrightarrow> keeps (stays (safe H n)) m"
  by (erule keeps_weaken)
    (auto simp: leads_def stays_def safe_def emits_def list_all_iff disjoint_iff intro!: preceded_extend)

lemma stays_saved: "keeps (leads H K) m \<Longrightarrow> keeps (stays (saved H n)) m"
  by (erule keeps_weaken)
    (auto simp: leads_def stays_def saved_def safe_def emits_def preceded_append)

lemma safe_hoare: "keeps (leads H K) m \<Longrightarrow> K \<inter> {KMemberAdd, KMemberRemove, KUpgrade} = {} \<Longrightarrow> hoare (safe H n) m (\<lambda>_. safe H n) (safe H n)"
  by (intro hoare_stays stays_safe)

lemma saved_hoare: "keeps (leads H K) m \<Longrightarrow> hoare (saved H n) m (\<lambda>_. safe H n) (safe H n)"
  by (rule hoare_conseq [OF hoare_stays [OF stays_saved]]) (auto dest: saved_safe)

text \<open>A backup that succeeded covers what comes after it.\<close>

lemma rpcDoBackup_saves:
  "hoare (safe H n) (rpcDoBackup e p req) (\<lambda>r s. safe H n s \<and> (r \<in> range Inr \<longrightarrow> saved H n s)) (safe H n)"
  unfolding rpcDoBackup_def rpc_def
  by (rule hoare_bind [where R = "\<lambda>_. safe H n"])
    (auto intro!: hoare_ask hoare_act hoare_rules simp: safe_def saved_def preceded_append split: option.splits)

lemma try_backup_saves:
  "hoare (safe H n) (try_backup e spec st m) (\<lambda>c s. case c of Next _ \<Rightarrow> safe H n s | Stop _ \<Rightarrow> saved H n s) (safe H n)"
  unfolding try_backup_def
  by (rule hoare_bind [OF safe_hoare [OF leads_asks [OF find_asks(3), where K = "{}"]]], simp,
      intro hoare_rules, simp, rule hoare_bind [OF safe_hoare [OF leads_asks [OF buildHeader_asks, where K = "{}"]]], simp,
      rule hoare_bind [OF safe_hoare [OF leads_asks [OF keeps_asks_get_self, where K = "{}"]]], simp,
      rule hoare_bind [OF rpcDoBackup_saves], auto intro!: hoare_ret split: sum.splits)

lemma doClusterBackup_saves:
  "hoare (safe H n) (doClusterBackup e spec st) (\<lambda>r s. case r of Inl _ \<Rightarrow> safe H n s | Inr _ \<Rightarrow> saved H n s) (safe H n)"
  unfolding doClusterBackup_def
  by (rule hoare_bind [OF safe_hoare [OF leads_asks [OF keeps_asks_range, where K = "{}"]]], simp,
      rule hoare_bind [OF hoare_loop [OF try_backup_saves]]) (auto intro!: hoare_ret split: loop.splits)

lemmas safe_asks = safe_hoare [OF leads_asks [where K = "{}"], simplified]

text \<open>After a backup, anything a leader does is covered.\<close>

lemma backup_then:
  assumes "\<And>err. keeps asks (g err)" and "\<And>x. keeps (leads H UNIV) (f x)"
  shows "hoare (safe H n) (bind (doClusterBackup e spec st) (\<lambda>r. case r of Inl err \<Rightarrow> g err | Inr x \<Rightarrow> f x))
    (\<lambda>_. safe H n) (safe H n)"
  by (rule hoare_bind [OF doClusterBackup_saves]) (auto split: sum.splits intro: saved_hoare assms safe_asks)

lemma remove_member_safe: "hoare (safe H n) (remove_member e spec st v) (\<lambda>_. safe H n) (safe H n)"
  unfolding remove_member_def by (intro backup_then asks_rules leads_rules leads_mono [OF etcdRemoveMember_leads] subset_UNIV)

lemma removeNode_safe: "hoare (safe H n) (removeNodeFromCluster e spec st b) (\<lambda>_. safe H n) (safe H n)"
  unfolding removeNodeFromCluster_def
  by (intro hoare_rules remove_member_safe hoare_bind [OF safe_asks [OF keeps_asks_now]]
      hoare_bind [OF safe_asks [OF unhealthy_victim_asks]] hoare_bind [OF safe_asks [OF find_asks(4)]])

lemma backup_before_add_saves:
  "st_members st \<noteq> [] \<Longrightarrow> hoare (safe H n) (backup_before_add e spec st)
     (\<lambda>r s. case r of None \<Rightarrow> saved H n s | Some _ \<Rightarrow> safe H n s) (safe H n)"
  unfolding backup_before_add_def
  by (simp, rule hoare_bind [OF doClusterBackup_saves]) (auto intro!: hoare_ret split: sum.splits)

lemma add_peer_safe: "st_members st \<noteq> [] \<Longrightarrow> hoare (safe H n) (add_peer e spec st idle) (\<lambda>_. safe H n) (safe H n)"
  unfolding add_peer_def
proof (rule hoare_bind [OF backup_before_add_saves], assumption, rule hoare_case_option, goal_cases)
  case (1 r)
  show ?case unfolding \<open>r = None\<close> option.case
    by (rule saved_hoare [where K = UNIV]) (intro leads_rules leads_mono [OF join_peer_leads] subset_UNIV)
qed (auto intro!: hoare_ret)

lemma upgrade_member_leads: "keeps (leads H {KUpgrade, KReconfigure}) (upgrade_member e spec p)"
  unfolding upgrade_member_def rpcReconfigure_def by (intro leads_rules) simp_all

lemma upgradeInPlace_safe: "hoare (safe H n) (upgradeInPlace e spec st) (\<lambda>_. safe H n) (safe H n)"
  unfolding upgradeInPlace_def
  by (intro hoare_bind [OF safe_asks [OF prepareForUpgrade_asks]] hoare_case_sum hoare_case_option hoare_ret
      hoare_bind [OF safe_asks [OF check_upgradable_asks]] backup_then asks_rules leads_rules leads_mono [OF upgrade_member_leads] subset_UNIV)

lemma addNode_safe: "st_members st \<noteq> [] \<Longrightarrow> hoare (safe H n) (addNodeToCluster e spec st) (\<lambda>_. safe H n) (safe H n)"
  unfolding addNodeToCluster_def
  by (intro hoare_rules hoare_bind [OF safe_asks [OF find_idle_asks]] add_peer_safe)

lemma expand_cluster_safe: "hoare (safe H n) (expand_cluster e k spec st) (\<lambda>_. safe H n) (safe H n)"
  unfolding expand_cluster_def InvalidateControlStore_def
  by (intro hoare_rules addNode_safe hoare_bind [OF safe_hoare [OF refreshControlStore_leads]]) simp_all

lemma replace_unhealthy_safe: "hoare (safe H n) (replace_unhealthy e k spec st) (\<lambda>_. safe H n) (safe H n)"
  unfolding replace_unhealthy_def
  by (intro hoare_rules hoare_bind [OF safe_asks [OF idlePeers_asks]] hoare_bind [OF removeNode_safe])

lemma reconcile_version_safe: "hoare (safe H n) (reconcile_version e k spec st) (\<lambda>_. safe H n) (safe H n)"
  unfolding reconcile_version_def
  by (intro hoare_rules upgradeInPlace_safe safe_hoare [OF stopForUpgrade_leads]) simp_all

lemma reconcile_members_safe: "hoare (safe H n) (reconcile_members e k spec st) (\<lambda>_. safe H n) (safe H n)"
  unfolding reconcile_members_def
  by (intro hoare_rules expand_cluster_safe removeNode_safe reconcile_version_safe hoare_bind [OF replace_unhealthy_safe]
      hoare_bind [OF safe_hoare [OF reconcileTLS_leads]]) simp_all

lemma reconcile_quarantine_leads: "keeps (leads H {KReconfigure}) (reconcile_quarantine e k spec st)"
  unfolding reconcile_quarantine_def by (intro leads_rules updateQuarantine_leads)

lemma backup_if_due_leads: "keeps (leads H {KBackup}) (backup_if_due e spec st)"
  unfolding backup_if_due_def by (intro leads_rules maybeBackup_leads)

lemma reconcile_safe: "hoare (safe H n) (reconcile e k spec st) (\<lambda>_. safe H n) (safe H n)"
  unfolding reconcile_def
  by (intro hoare_rules reconcile_members_safe hoare_bind [OF safe_hoare [OF backup_if_due_leads]]
      hoare_bind [OF safe_asks [OF verifyEtcdVersion_asks]] hoare_bind [OF safe_hoare [OF reconcile_quarantine_leads]]) simp_all

lemma act_on_state_safe: "hoare (safe H n) (act_on_state e k st) (\<lambda>_. safe H n) (safe H n)"
  unfolding act_on_state_def
  by (intro hoare_bind [OF safe_asks [OF keeps_asks_now]]
    hoare_bind [OF hoare_upd_self [where Q = "\<lambda>_. safe H n"]]
    hoare_bind [OF safe_asks [OF buildMemberMap_asks]] hoare_bind [OF safe_hoare [OF broadcastMemberMap_leads]]
    hoare_bind [OF safe_asks [OF keeps_asks_get_self]] hoare_bind [OF safe_hoare [OF refreshControlStore_leads]]
    hoare_bind [OF safe_hoare [OF create_if_new_leads]] hoare_rules
    reconcile_safe safe_hoare [OF run_restore_leads]) (simp_all add: safe_def own_header_def)

lemma act_on_state_covered:
  assumes "act_on_state e k st u = (r, s')" and "safe H n u"
  shows "safe H n s'"
  using assms hoare_RetD [OF act_on_state_safe] hoare_PanicD [OF act_on_state_safe] by (cases r) blast+



end
