(* ===== verification/Controller_Members.thy ===== *)
theory Controller_Members
  imports Controller_Order
begin

text \<open>
  Which members the controller removes from etcd, and why.
\<close>

section \<open>Members are removed for a reason\<close>

text \<open>As the leader, with every removal since the first \<open>n\<close> calls of a member that satisfies \<open>Q\<close>.\<close>

definition justified :: "(EtcdProcessMember \<Rightarrow> bool) \<Rightarrow> CommonRequestHeader \<Rightarrow> time gomap \<Rightarrow> nat \<Rightarrow> 'w ctl \<Rightarrow> bool" where
  "justified Q H ps n s \<longleftrightarrow> own_header (self s) = Some H \<and> m_peerState (self s) = ps \<and> n \<le> length (trace s)
     \<and> (\<forall>c m x. MemberRemove c m x \<in> set (drop n (trace s)) \<longrightarrow> Q m)"

lemma leads_justified: "keeps (leads H K) m \<Longrightarrow> KMemberRemove \<notin> K \<Longrightarrow> keeps (stays (justified Q H ps n)) m"
proof (erule keeps_weaken)
  fix s s' :: "'a ctl" assume K: "KMemberRemove \<notin> K" and l: "leads H K s s'"
  have no: "MemberRemove c m x \<notin> set evs" if "list_all (\<lambda>ev. kind ev \<in> K \<and> signed_by H ev) evs" for c m x evs
    using that K by (auto simp: list_all_iff)
  with l show "stays (justified Q H ps n) s s'"
    by (auto simp: stays_def justified_def leads_def emits_def; blast)
qed

lemmas justified_asks = leads_justified [OF leads_asks [where K = "{}"], simplified]
lemmas justified_hoare = hoare_stays [OF leads_justified]
lemmas asks_justified = hoare_stays [OF justified_asks]

lemma etcdRemoveMember_justified:
  "Q v \<Longrightarrow> keeps (stays (justified Q H ps n)) (etcdRemoveMember e st v)"
  unfolding etcdRemoveMember_def on_some_member_def recorded_def
  by (intro stays.keeps_core keeps_rules justified_asks [OF keeps_asks_range] justified_asks [OF newEtcdClient_asks]
      justified_asks [OF LoggedClose_asks] justified_asks [OF client_calls_ask(2)])
    (auto simp: keeps_def stays_def justified_def emit_def)

lemma remove_member_justified: "Q v \<Longrightarrow> keeps (stays (justified Q H ps n)) (remove_member e spec st v)"
  unfolding remove_member_def
  by (intro stays.keeps_core keeps_rules leads_justified [OF doClusterBackup_leads] etcdRemoveMember_justified) simp_all

text \<open>A member that is not healthy, and has not been for at least \<open>d\<close>.\<close>

definition unhealthy_for :: "duration \<Rightarrow> etcdClusterState \<Rightarrow> time gomap \<Rightarrow> time \<Rightarrow> EtcdProcessMember \<Rightarrow> bool" where
  "unhealthy_for d st ps now m \<longleftrightarrow> gm_lookup (st_healthyMembers st) (em_ID m) = None
     \<and> (\<exists>t. gm_lookup ps (em_ID m) = Some t \<and> d \<le> now - t)"

lemma unhealthy_victim_waits:
  assumes "cluster_ok st" and "unhealthy_victim e st b now s = (Ret (Some v), s')"
  shows "v \<in> snd ` set (st_members st) \<and> (b \<or> unhealthy_for removeUnhealthyDeadline st (m_peerState (self s)) now v)"
proof -
  let ?ps = "m_peerState (self s)"
  have key: "em_ID v = k" if "(k, v) \<in> set (st_members st)" for k v
    using that assms by (auto simp: cluster_ok_def members_ok_def list_all_iff)
  have deadline: "time_sub now t < removeUnhealthyDeadline \<longleftrightarrow> now - t < removeUnhealthyDeadline" for t
    by (rule time_sub_less_iff) (simp_all add: removeUnhealthyDeadline_def duration_defs int64_min_def int64_max_def)
  let ?ok = "\<lambda>v. v \<in> snd ` set (st_members st) \<and> (b \<or> unhealthy_for removeUnhealthyDeadline st ?ps now v)"
  have loop: "hoare (\<lambda>_. True) (for_each kvs () (\<lambda>kv _.
      if gm_lookup (st_healthyMembers st) (fst kv) = None then
        (if \<not> b then (case gm_lookup ?ps (fst kv) of
           None \<Rightarrow> panic ''peerState unexpectedly nil''
         | Some t \<Rightarrow> ret (if time_sub now t < removeUnhealthyDeadline then Next () else Stop (snd kv)))
         else ret (Stop (snd kv)))
      else ret (Next ()))) (\<lambda>c _. case c of Next _ \<Rightarrow> True | Stop v \<Rightarrow> ?ok v) (\<lambda>_. True)"
    if "set kvs = set (st_members st)" for kvs
    by (rule hoare_loop) (use that in \<open>auto simp: hoare_def ret_apply panic_apply unhealthy_for_def deadline not_less dest: key
        split: option.splits loop.splits intro: rev_image_eqI\<close>)
  from assms(2) obtain kvs t where kvs: "range_map (cx_rt e) (st_members st) s = (Ret kvs, t)"
    and found: "for_each kvs () (\<lambda>kv _.
      if gm_lookup (st_healthyMembers st) (fst kv) = None then
        (if \<not> b then (case gm_lookup ?ps (fst kv) of
           None \<Rightarrow> panic ''peerState unexpectedly nil''
         | Some t \<Rightarrow> ret (if time_sub now t < removeUnhealthyDeadline then Next () else Stop (snd kv)))
         else ret (Stop (snd kv)))
      else ret (Next ())) t = (Ret (Stop v), s')"
    by (auto simp: unhealthy_victim_def bind_apply get_self_def ret_apply split: if_splits prod.splits outcome.splits loop.splits)
  from hoare_RetD [OF loop [OF range_set [OF kvs]] TrueI found] show ?thesis by simp
qed

lemma find_in_member: "find_in rt P m s = (Ret (Some v), s') \<Longrightarrow> v \<in> snd ` set m"
proof -
  assume "find_in rt P m s = (Ret (Some v), s')"
  then obtain kvs t k where "range_map rt m s = (Ret kvs, t)" "find P kvs = Some (k, v)"
    by (auto simp: find_in_def bind_apply ret_apply split: prod.splits outcome.splits)
  then have "(k, v) \<in> set m" using range_set by (metis find_Some_iff nth_mem)
  then show ?thesis by force
qed

lemma removeNode_justified:
  assumes "cluster_ok st" and "clock_at (cx_rt e) now"
    and Q: "\<And>v. v \<in> snd ` set (st_members st) \<Longrightarrow> b \<or> unhealthy_for removeUnhealthyDeadline st ps now v \<Longrightarrow> Q v"
  shows "keeps (stays (justified Q H ps n)) (removeNodeFromCluster e spec st b)"
proof (rule stays_hoare)
  let ?J = "justified Q H ps n"
  have victim: "hoare ?J (unhealthy_victim e st b now) (\<lambda>r s. ?J s \<and> (\<forall>v. r = Some v \<longrightarrow> Q v)) ?J"
  proof (rule hoareI)
    fix s r s' assume J: "?J s" and v: "unhealthy_victim e st b now s = (Ret r, s')"
    then have "?J s'" using keepsE [OF justified_asks [OF unhealthy_victim_asks] v] by (simp add: stays_def)
    moreover have "Q w" if "r = Some w" for w
      using unhealthy_victim_waits [OF assms(1) v [unfolded that]] J by (auto simp: justified_def intro: Q)
    ultimately show "?J s' \<and> (\<forall>v. r = Some v \<longrightarrow> Q v)" by blast
  qed (auto dest: keepsE [OF justified_asks [OF unhealthy_victim_asks]] simp: stays_def)
  have other: "hoare ?J (any_member e st) (\<lambda>r s. ?J s \<and> (\<forall>v. r = Some v \<longrightarrow> b \<longrightarrow> Q v)) ?J"
    by (rule hoareI) (use Q in \<open>auto simp: any_member_def stays_def dest: find_in_member keepsE [OF justified_asks [OF find_in_asks]]\<close>)
  have clock: "hoare ?J (time_now (cx_rt e)) (\<lambda>t s. ?J s \<and> t = now) ?J"
    using assms(2) by (auto simp: hoare_def time_now_def ask_def clock_at_def justified_def split: prod.splits) (metis fst_conv)
  show "hoare ?J (removeNodeFromCluster e spec st b) (\<lambda>_. ?J) ?J"
    unfolding removeNodeFromCluster_def
  proof (rule hoare_bind [OF clock], rule hoare_pure)
    fix t assume "t = now"
    show "hoare ?J (bind (unhealthy_victim e st b t) (\<lambda>v. case v of
       Some victim \<Rightarrow> remove_member e spec st victim
     | None \<Rightarrow>
       if \<not> b then ret (False, None)
       else bind (any_member e st) (\<lambda>v. case v of
         None \<Rightarrow> ret (False, Some (Errorf ''unable to pick a member to remove''))
       | Some victim \<Rightarrow> remove_member e spec st victim))) (\<lambda>_. ?J) ?J"
      unfolding \<open>t = now\<close>
      by (intro hoare_bind [OF victim] hoare_bind [OF other] hoare_pure hoare_case_option hoare_if)
        (auto intro!: hoare_stays stays.keeps_ret remove_member_justified)
  qed
qed

text \<open>When a member may be removed: the cluster is too large, or the member is long unhealthy and there is an idle peer.\<close>

definition may_remove :: "int \<Rightarrow> ClusterSpec \<Rightarrow> etcdClusterState \<Rightarrow> time gomap \<Rightarrow> time \<Rightarrow> EtcdProcessMember \<Rightarrow> bool" where
  "may_remove acked spec st ps now m \<longleftrightarrow> m \<in> snd ` set (st_members st) \<and> cs_MemberCount spec \<le> size_of (st_members st)
     \<and> (cs_MemberCount spec < configuredMembers st \<and> quorumSize (configuredMembers st) \<le> acked
       \<or> unhealthy_for removeUnhealthyDeadline st ps now m \<and> cs_MemberCount spec < size_of (st_members st) \<and> 2 < size_of (st_members st)
         \<and> quorumSize (cs_MemberCount spec) \<le> acked \<and> list_ex (\<lambda>kv. \<not> is_configured (snd kv)) (st_peers st))"

lemma idle_exists: "idlePeers e st s = (Ret idle, s') \<Longrightarrow> idle \<noteq> [] \<Longrightarrow> list_ex (\<lambda>kv. \<not> is_configured (snd kv)) (st_peers st)"
proof -
  assume "idlePeers e st s = (Ret idle, s')" and ne: "idle \<noteq> []"
  then obtain kvs t where "range_map (cx_rt e) (st_peers st) s = (Ret kvs, t)" "idle = filter (\<lambda>p. \<not> is_configured p) (map snd kvs)"
    by (auto simp: idlePeers_def bind_apply ret_apply split: prod.splits outcome.splits)
  with ne range_set show ?thesis by (fastforce simp: list_ex_iff filter_empty_conv)
qed

lemma replace_unhealthy_justified:
  assumes "cluster_ok st" and "clock_at (cx_rt e) now" and "cs_MemberCount spec \<le> size_of (st_members st)"
  shows "keeps (stays (justified (may_remove acked spec st ps now) H ps n)) (replace_unhealthy e acked spec st)"
  unfolding replace_unhealthy_def
proof (intro keeps_if stays.keeps_ret, rule stays.keeps_bind_dep, goal_cases)
  case (2 s idle s')
  have "list_ex (\<lambda>kv. \<not> is_configured (snd kv)) (st_peers st)" if "idle \<noteq> []" by (rule idle_exists [OF 2(2) that])
  then show ?case using assms
    by (intro keeps_if stays.keeps_core removeNode_justified) (auto simp: may_remove_def)
qed (intro justified_asks idlePeers_asks)

lemma reconcile_members_justified:
  assumes "cluster_ok st" and "clock_at (cx_rt e) now"
  shows "keeps (stays (justified (may_remove acked spec st ps now) H ps n)) (reconcile_members e acked spec st)"
  unfolding reconcile_members_def expand_cluster_def InvalidateControlStore_def reconcile_version_def
  using assms
  by (intro keeps_rules stays.keeps_core replace_unhealthy_justified removeNode_justified [where now = now] leads_justified [OF refreshControlStore_leads]
      leads_justified [OF addNodeToCluster_leads] leads_justified [OF reconcileTLS_leads] leads_justified [OF upgradeInPlace_leads]
      leads_justified [OF stopForUpgrade_leads]) (auto simp: may_remove_def)

text \<open>
  C7. Members are not removed lightly. An iteration that reconciles a cluster removes only a member of
  that cluster, never when fewer members are registered than wanted, and only for one of two reasons: more nodes are configured
  than wanted and a quorum of them is there; or the member is unhealthy, has been for at least a minute, the cluster
  has more members than wanted and more than two, and an idle peer is there to take its place.
\<close>

theorem removal_needs_a_reason:
  assumes "reconcile e acked spec st s = (r, s')" and "MemberRemove c m x \<in> set (new_calls s s')"
    and "cluster_ok st" and "clock_at (cx_rt e) now" and "m_leadership (self s) \<noteq> None"
  shows "may_remove acked spec st (m_peerState (self s)) now m"
proof -
  from assms(5) obtain H where H: "own_header (self s) = Some H" by (auto simp: own_header_def)
  let ?J = "justified (may_remove acked spec st (m_peerState (self s)) now) H (m_peerState (self s)) (length (trace s))"
  have "keeps (stays ?J) (reconcile e acked spec st)"
    unfolding reconcile_def
    by (intro keeps_rules stays.keeps_core reconcile_members_justified assms leads_justified [OF backup_if_due_leads]
        justified_asks [OF verifyEtcdVersion_asks] leads_justified [OF reconcile_quarantine_leads]) simp_all
  from keepsE [OF this assms(1)] H assms(2) show ?thesis by (auto simp: stays_def justified_def)
qed

text \<open>Four members of which the last is gone, and an idle node.\<close>

abbreviation four_members :: "api_member list" where
  "four_members \<equiv> [demo_member 1 ''a'', demo_member 2 ''b'', demo_member 3 ''c'', demo_member 4 ''d'']"

abbreviation lame_cluster :: etcdClusterState where
  "lame_cluster \<equiv> demo_cluster [(''a'', Some (demo_state [''a''] ''3.5.0'')), (''b'', Some (demo_state [''b''] ''3.5.0'')),
     (''c'', Some (demo_state [''c''] ''3.5.0'')), (''e'', None)] four_members (take 3 four_members)"

lemmas removal_run = replace_unhealthy_def configuredMembers_def idlePeers_def removeNodeFromCluster_def unhealthy_victim_def
  removeUnhealthyDeadline_def remove_member_def etcdRemoveMember_def client_RemoveMember_def

theorem removal_needs_a_reason_witness:
  "\<exists>s'. reconcile (demo_env [] [] 61000000000) 4 \<lparr>cs_MemberCount = 3, cs_EtcdVersion = ''3.5.0''\<rparr> lame_cluster
      ((three_start ''3.5.0'' False)\<lparr>self := (demo_controller [''a''] ''3.5.0'')\<lparr>m_peerState := [(''4'', 0)]\<rparr>\<rparr>) = (Ret (True, None), s')
    \<and> (\<exists>c m x. MemberRemove c m x \<in> set (trace s') \<and> unhealthy_for minute lame_cluster [(''4'', 0)] 61000000000 m)"
proof -
  let ?e = "demo_env [] [] 61000000000" and ?spec = "\<lparr>cs_MemberCount = 3, cs_EtcdVersion = ''3.5.0''\<rparr>"
  let ?s = "(three_start ''3.5.0'' False)\<lparr>self := (demo_controller [''a''] ''3.5.0'')\<lparr>m_peerState := [(''4'', 0)]\<rparr>\<rparr>"
  obtain s' c m x where s': "reconcile ?e 4 ?spec lame_cluster ?s = (Ret (True, None), s')" "MemberRemove c m x \<in> set (new_calls ?s s')"
    by (simp add: go_run loop_run removal_run demo_run demo_cluster_def cong: frozen_bind frozen_loop) 
  have ok: "cluster_ok lame_cluster" by (simp add: cluster_ok_def peers_ok_def members_ok_def demo_cluster_def demo_run newPeer_def)
  have clock: "clock_at (cx_rt ?e) 61000000000" by (simp add: clock_at_const_rt)
  have three: "configuredMembers lame_cluster = 3"
    by (simp add: configuredMembers_def is_configured_def peer_state_def demo_cluster_def demo_run)
  from removal_needs_a_reason [OF s' ok clock] three s' show ?thesis
    by (fastforce simp: may_remove_def removeUnhealthyDeadline_def demo_controller_def)
qed

end
