(* ===== verification/Controller_Total.thy ===== *)
theory Controller_Total
  imports Controller_Creation Controller_Members
begin

text \<open>
  An iteration of the control loop returns: nothing in it panics and its one wait ends.
\<close>

section \<open>The parts of an iteration return\<close>

text \<open>The queries return, whatever the state of the controller.\<close>

lemma NewClient_calm: "calm I (NewClient api us tls)"
  unfolding NewClient_def by (intro calm_rules)

lemma client_calm: "calm I (client_ListMembers api c)" "calm I (client_AddMember api c us)" "calm I (client_RemoveMember api c m)"
  "calm I (client_SetPeerURLs api c m us)" "calm I (LoggedClose api c)"
  unfolding client_ListMembers_def client_AddMember_def client_RemoveMember_def client_SetPeerURLs_def LoggedClose_def
  by (intro calm_rules)+

lemma find_in_calm: "calm I (find_in rt P m)"
  unfolding find_in_def by (intro calm_rules)

lemma find_calm: "calm I (FindMember e s i)" "calm I (FindHealthyMember e s i)" "calm I (FindPeer e s m)" "calm I (any_member e s)"
  by (simp_all add: FindMember_def FindHealthyMember_def FindPeer_def any_member_def find_in_calm)

lemma newEtcdClient_calm: "calm I (newEtcdClient e s m)"
  unfolding newEtcdClient_def by (intro calm_rules NewClient_calm)

lemma idlePeers_calm: "calm I (idlePeers e s)"
  unfolding idlePeers_def by (intro calm_rules)

lemma Bindir_calm: "calm I (BindirForEtcdVersion stat v cmd)"
  unfolding BindirForEtcdVersion_def by (intro calm_rules)

lemma verifyEtcdVersion_calm: "calm I (verifyEtcdVersion e spec)"
  unfolding verifyEtcdVersion_def by (intro calm_rules Bindir_calm)

lemma recorded_calm: "calm I m \<Longrightarrow> calm I (recorded m ev)"
  unfolding recorded_def by (intro calm_rules)

lemma rpc_calm: "calm I m \<Longrightarrow> calm I (rpc e p fail m)"
  unfolding rpc_def by (intro calm_rules)

lemma rpcs_calm: "calm I (rpcGetInfo e p)" "calm I (rpcUpdateEndpoints e p mm)" "calm I (rpcJoinCluster e p j)"
  "calm I (rpcReconfigure e p rc)" "calm I (rpcStopEtcd e p h)" "calm I (rpcDoBackup e p db)" "calm I (rpcDoRestore e p dr)"
  unfolding rpcGetInfo_def rpcUpdateEndpoints_def rpcJoinCluster_def rpcReconfigure_def rpcStopEtcd_def rpcDoBackup_def rpcDoRestore_def
  by (intro rpc_calm calm_rules)+

lemma read_command_calm: "calm I (read_command e f cs)"
  unfolding read_command_def by (intro calm_rules)

lemma control_calm:
  "calm I (AddCommand e store cmd)" "calm I (ListCommands e store)" "calm I (RemoveCommand e store c)"
  "calm I (GetExpectedClusterSpec e store)" "calm I (SetExpectedClusterSpec e store spec)"
  "calm I (IsNewCluster e store)" "calm I (MarkClusterCreated e store)"
  by (cases store; simp add: control_defs; intro calm_rules read_command_calm)+

lemma LoadInfo_calm: "calm I (LoadInfo e st n)"
  unfolding LoadInfo_def by (intro calm_rules)

lemma MaybeDoBackupMaintenance_calm: "calm I (MaybeDoBackupMaintenance e cfg m)"
  unfolding MaybeDoBackupMaintenance_def ListBackups_def RemoveBackup_def by (intro calm_rules)

lemma on_some_member_calm: "(\<And>c. calm I (f c)) \<Longrightarrow> calm I (on_some_member e st f msg)"
  unfolding on_some_member_def by (intro calm_rules newEtcdClient_calm client_calm)

lemma etcdMember_calm: "calm I (etcdAddMember e st n)" "calm I (etcdRemoveMember e st m)"
  unfolding etcdAddMember_def etcdRemoveMember_def by (intro on_some_member_calm recorded_calm client_calm)+

section \<open>The controller\<close>

text \<open>
  What the parts of an iteration rely on: the leadership, and a health record for every member of the
  cluster (\<open>note_health\<close> has just made one). Every peer has reported its node configuration.
\<close>

definition leading :: "etcdClusterState \<Rightarrow> EtcdController \<Rightarrow> bool" where
  "leading st m \<longleftrightarrow> m_leadership m \<noteq> None \<and> (\<forall>i \<in> fst ` set (st_members st). gm_lookup (m_peerState m) i \<noteq> None)"

definition nodes_ok :: "etcdClusterState \<Rightarrow> bool" where
  "nodes_ok st \<longleftrightarrow> list_all (\<lambda>kv. case cpi_info (snd kv) of None \<Rightarrow> False | Some i \<Rightarrow> gi_NodeConfiguration i \<noteq> None) (st_peers st)"

lemma leading_upd [simp]:
  "leading st (m\<lparr>m_controlCommands := c, m_controlLastRead := t, m_controlClusterSpec := sp\<rparr>) = leading st m"
  "leading st (m\<lparr>m_controlCommands := c, m_controlLastRead := t\<rparr>) = leading st m"
  "leading st (m\<lparr>m_lastBackup := t\<rparr>) = leading st m" "leading st (m\<lparr>m_backupCleanup := b\<rparr>) = leading st m"
  by (simp_all add: leading_def)

lemma buildHeader_calm: "calm (leading st) buildHeader"
  unfolding buildHeader_def by (rule calm_read) (auto simp: leading_def intro: calm_ret)

lemma node_config_calm: "nodes_ok st \<Longrightarrow> (k, p) \<in> set (st_peers st) \<Longrightarrow> calm I (node_config p)"
  by (auto simp: nodes_ok_def list_all_iff node_config_def intro!: calm_ret split: option.splits)

lemmas ctl_calm = calm_rules rpcs_calm find_calm newEtcdClient_calm idlePeers_calm verifyEtcdVersion_calm recorded_calm
  control_calm LoadInfo_calm MaybeDoBackupMaintenance_calm etcdMember_calm NewClient_calm client_calm buildHeader_calm

lemma refreshControlStore_calm: "calm (leading st) (refreshControlStore e ttl)"
  unfolding refreshControlStore_def by (intro ctl_calm calm_upd_self) simp_all

lemma removeCommand_calm: "calm (leading st) (removeCommand e c)"
  unfolding removeCommand_def by (intro ctl_calm calm_upd_self) simp_all

lemma writeClusterSpec_calm: "calm I (writeClusterSpec e spec)"
  unfolding writeClusterSpec_def by (intro ctl_calm)

lemma doClusterBackup_calm: "calm (leading st) (doClusterBackup e spec st')"
  unfolding doClusterBackup_def try_backup_def by (intro ctl_calm)

lemma maybeBackup_calm: "calm (leading st) (maybeBackup e spec st')"
  unfolding maybeBackup_def by (intro ctl_calm calm_upd_self doClusterBackup_calm) simp_all

lemma broadcastMemberMap_calm: "calm I (broadcastMemberMap e st mm)"
  unfolding broadcastMemberMap_def by (intro ctl_calm)

lemma buildMemberMap_calm: "nodes_ok st \<Longrightarrow> calm I (buildMemberMap e st)"
  unfolding buildMemberMap_def
  by (intro ctl_calm calm_case_option) (auto simp: nodes_ok_def list_all_iff split: option.splits)

lemma stop_all_calm: "calm (leading st) (stop_all e st')"
  unfolding stop_all_def by (intro ctl_calm)

lemma join_all_calm: "calm (leading st) (join_all e ph t v ns ps)"
  unfolding join_all_def by (intro ctl_calm)

lemma form_cluster_calm: "calm (leading st) (form_cluster e st' spec t ps ns mm)"
  unfolding form_cluster_def by (intro ctl_calm stop_all_calm broadcastMemberMap_calm join_all_calm writeClusterSpec_calm)

lemma propose_calm: "nodes_ok st \<Longrightarrow> set ps \<subseteq> snd ` set (st_peers st) \<Longrightarrow> calm I (propose e ps)"
  unfolding propose_def by (intro ctl_calm, drule (1) subsetD) (auto intro: node_config_calm)

text \<open>The fatal branch that asks for dummy peers is not reached.\<close>

lemma proposal_length:
  assumes "\<not> (int n < d \<and> quorumSize (int n) \<noteq> quorumSize d)" and "length ps = n"
  shows "\<not> (int (length (proposal_of d ps)) < d \<and> quorumSize (int (length (proposal_of d ps))) < quorumSize d)"
  using assms by (auto simp: proposal_of_def quorumSize_def go_div_def)

lemma createNewCluster_calm:
  assumes "nodes_ok st'"
  shows "calm (leading st) (createNewCluster e st' spec)"
  unfolding createNewCluster_def Let_def
proof (intro calm_if calm_ret, rule calm_bind [OF calm_ask], rule calm_bind_dep [OF calm_range], goal_cases)
  case (1 t s kvs s')
  from range_eval [OF 1(3)] obtain cs where kvs: "kvs = shuffle cs (st_peers st')" by blast
  then have len: "length (map snd kvs) = length (st_peers st')" by simp
  have sub: "set (proposal_of (cs_MemberCount spec) (map snd kvs)) \<subseteq> snd ` set (st_peers st')"
    using proposal_subset [of "cs_MemberCount spec" "map snd kvs"] by (auto simp: kvs)
  show ?case
    by (intro calm_if calm_bind calm_case_sum calm_case_prod calm_ret form_cluster_calm propose_calm [OF assms sub])
      (use proposal_length [OF 1(2) len] in blast)
qed

lemma find_idle_calm: "nodes_ok st \<Longrightarrow> calm I (find_idle e st)"
  unfolding find_idle_def by (intro ctl_calm) (auto intro: node_config_calm)

lemma find_idle_peers: "find_idle e st s = (Ret idle, s') \<Longrightarrow> set idle \<subseteq> snd ` set (st_peers st)"
proof -
  assume i: "find_idle e st s = (Ret idle, s')"
  let ?body = "\<lambda>kv idle. if is_configured (snd kv) then
         (if st_members st = [] then ret (Next idle) else bind (node_config (snd kv)) (\<lambda>_. ret (Next idle)))
       else ret (Next (idle @ [snd kv]))"
  from i obtain kvs t c where k: "range_map (cx_rt e) (st_peers st) s = (Ret kvs, t)"
    and l: "for_each kvs [] ?body t = (Ret c, s')" and c: "idle = (case c of Next idle \<Rightarrow> idle | Stop idle \<Rightarrow> idle)"
    by (auto simp: find_idle_def bind_apply ret_apply split: prod.splits outcome.splits)
  have "hoare (\<lambda>_. True) (for_each kvs [] ?body) (\<lambda>c _. case c of Next xs \<Rightarrow> set xs \<subseteq> snd ` set kvs | Stop xs \<Rightarrow> False) (\<lambda>_. True)"
    by (rule hoare_for_each [where I = "\<lambda>_ xs _. set xs \<subseteq> snd ` set kvs"])
      (auto simp: hoare_def go_apply node_config_def split: prod.splits outcome.splits option.splits loop.splits)
  from hoare_RetD [OF this TrueI l] c range_set [OF k] show ?thesis by (auto split: loop.splits)
qed

lemma join_peer_calm: "calm (leading st) (join_peer e st' p c t v ns)"
  unfolding join_peer_def by (intro ctl_calm)

lemma addNode_calm: "nodes_ok st' \<Longrightarrow> calm (leading st) (addNodeToCluster e spec st')"
  unfolding addNodeToCluster_def
proof (intro calm_if calm_ret, rule calm_bind_dep [OF find_idle_calm], assumption, goal_cases)
  case (1 s idle s')
  have pick: "\<exists>k. (k, idle ! (n mod length idle)) \<in> set (st_peers st')" if "idle \<noteq> []" for n
    using find_idle_peers [OF 1(3)] nth_mem [of "n mod length idle" idle] that by fastforce
  show ?case
    unfolding add_peer_def backup_before_add_def
    by (intro ctl_calm doClusterBackup_calm join_peer_calm) (use pick 1(1) node_config_calm in blast)
qed

lemma unhealthy_victim_calm: "calm (leading st) (unhealthy_victim e st b now)"
  unfolding unhealthy_victim_def
  by (intro calm_if calm_ret, rule calm_read, intro calm_range_loop calm_if calm_case_option calm_ret) (auto simp: leading_def)

lemma removeNode_calm: "calm (leading st) (removeNodeFromCluster e spec st b)"
  unfolding removeNodeFromCluster_def remove_member_def by (intro ctl_calm unhealthy_victim_calm doClusterBackup_calm)

lemma updateQuarantine_calm: "calm (leading st) (updateQuarantine e st' q)"
  unfolding updateQuarantine_def by (intro ctl_calm)

lemma restoreBackup_calm: "calm (leading st) (restoreBackupAndLiftQuarantine e spec st' cmd)"
  unfolding restoreBackupAndLiftQuarantine_def restore_peer_def by (intro ctl_calm writeClusterSpec_calm removeCommand_calm)

lemma reconcileTLS_calm: "calm (leading st) (reconcileTLS e st')"
  unfolding reconcileTLS_def reconcile_peer_tls_def updatePeerURLs_def by (intro ctl_calm)

lemma prepareForUpgrade_calm: "calm I (prepareForUpgrade e spec st)"
  unfolding prepareForUpgrade_def by (intro ctl_calm)

lemma check_upgradable_calm: "calm I (check_upgradable e st m)"
  unfolding check_upgradable_def by (intro ctl_calm)

lemma check_upgradable_ok:
  assumes "check_upgradable e st mtp s = (Ret None, s')" and "(i, m) \<in> set (st_members st)"
  shows "\<exists>p. gm_lookup mtp i = Some p \<and> peer_state p \<noteq> None"
proof -
  let ?body = "\<lambda>kv _. ret (case gm_lookup mtp (fst kv) of
         None \<Rightarrow> Stop (Errorf ''peer unexpectedly not found for member - logic error'')
       | Some p \<Rightarrow> if peer_state p = None then Stop (Errorf ''cannot upgrade; insufficient info for peer'') else Next ())"
  from assms(1) obtain kvs t where k: "range_map (cx_rt e) (st_members st) s = (Ret kvs, t)"
    and l: "for_each kvs () ?body t = (Ret (Next ()), s')"
    by (auto simp: check_upgradable_def bind_apply ret_apply split: prod.splits outcome.splits loop.splits)
  let ?ok = "\<lambda>kv. \<exists>p. gm_lookup mtp (fst kv) = Some p \<and> peer_state p \<noteq> None"
  have "hoare (\<lambda>_. True) (for_each kvs () ?body) (\<lambda>c _. c = Next () \<longrightarrow> (\<forall>kv \<in> set kvs. ?ok kv)) (\<lambda>_. True)"
    by (rule hoare_for_each [where I = "\<lambda>pre _ _. \<forall>kv \<in> set pre. ?ok kv"])
      (auto simp: hoare_def ret_apply split: option.splits loop.splits)
  from hoare_RetD [OF this TrueI l] range_set [OF k] assms(2) show ?thesis by fastforce
qed

lemma upgradeInPlace_calm: "calm (leading st) (upgradeInPlace e spec st')"
  unfolding upgradeInPlace_def
proof (rule calm_bind [OF prepareForUpgrade_calm], intro calm_case_sum calm_ret,
    rule calm_bind_dep [OF check_upgradable_calm], intro calm_case_option calm_ret, goal_cases)
  case (1 r mtp s r' s')
  then have c: "check_upgradable e st' mtp s = (Ret None, s')" by simp
  show ?case
    unfolding upgrade_member_def
    by (intro ctl_calm doClusterBackup_calm) (use check_upgradable_ok [OF c] in fastforce)
qed

section \<open>Waiting for the restore command\<close>

text \<open>
  What the wait relies on: the control store keeps its contract, reading the clock changes nothing,
  and the wait is given at least one try.
\<close>

definition patient :: "'w ctl_env \<Rightarrow> bool" where
  "patient e \<longleftrightarrow> control_ok (cx_cmd e) \<and> (\<forall>w. snd (rt_now (cx_rt e) w) = w) \<and> 0 < cx_patience e"

text \<open>A look at the control store keeps the queue it has read.\<close>

lemma refresh_lists:
  assumes "\<And>w. snd (rt_now (cx_rt e) w) = w" and "refreshControlStore e 0 c = (Ret None, c')"
  shows "\<exists>v. ListCommands (cx_cmd e) (m_controlStore (self c)) c = (Ret (Inr (m_controlCommands (self c'))), v)"
proof -
  have now: "time_now (cx_rt e) c = (Ret (fst (rt_now (cx_rt e) (world c))), c)"
    using assms(1) ask_pure [of "rt_now (cx_rt e)" c] by (simp add: time_now_def)
  from assms(2) show ?thesis
    by (auto simp: refreshControlStore_def bind_apply get_self_def ret_apply upd_self_def now
        split: prod.splits outcome.splits sum.splits)
qed

text \<open>A command that was added, by this or another process, is seen by the first look at the queue, or the look fails with an error.\<close>

lemma refresh_sees_added:
  assumes "control_ok (cx_cmd e)" and "\<And>w. snd (rt_now (cx_rt e) w) = w" and "AddCommand (cx_cmd e) (m_controlStore (self c)) cmd s = (Ret None, t)"
    and "world c = world t" and "refreshControlStore e 0 c = (Ret None, c')"
  shows "\<exists>v ts. v \<in> set (m_controlCommands (self c')) \<and> vc_data v = cmd\<lparr>cmd_Timestamp := ts\<rparr>"
proof -
  from assms(3) obtain base where store: "m_controlStore (self c) = VFSControl base"
    by (cases "m_controlStore (self c)") (auto simp: AddCommand_def ret_apply)
  from refresh_lists [OF assms(2,5)] obtain v where l: "ListCommands (cx_cmd e) (VFSControl base) c = (Ret (Inr (m_controlCommands (self c'))), v)"
    unfolding store by blast
  from added_is_listed [OF assms(1) assms(3) [unfolded store] l assms(4)] show ?thesis by blast
qed

lemma refresh_sees_command:
  assumes "patient e" and "AddCommand (cx_cmd e) (m_controlStore (self s)) cmd s = (Ret None, t)" and "cmd_RestoreBackup cmd \<noteq> None"
    and "refreshControlStore e 0 (t\<lparr>trace := tr\<rparr>) = (Ret None, u)"
  shows "getRestoreBackupCommand (self u) \<noteq> None"
proof -
  have "self t = self s" using keepsE [OF control_asks(1) assms(2)] by (simp add: asks_def)
  then have "\<exists>v ts. v \<in> set (m_controlCommands (self u)) \<and> vc_data v = cmd\<lparr>cmd_Timestamp := ts\<rparr>"
    using assms(1,2) by (intro refresh_sees_added [OF _ _ _ _ assms(4), of cmd s t]) (simp_all add: patient_def)
  with assms(3) show ?thesis by (auto simp: getRestoreBackupCommand_def find_None_iff)
qed

lemma schedule_restore_calm:
  assumes "patient e"
  shows "calm (leading st) (schedule_restore e spec backup)"
  unfolding calm_def
proof -
  from assms obtain n where n: "cx_patience e = Suc n" by (auto simp: patient_def gr0_conv_Suc)
  let ?cmd = "restore_command backup spec"
  have "\<exists>r t. schedule_restore e spec backup s = (Ret r, t) \<and> leading st (self t)" if L: "leading st (self s)" for s
  proof -
    from calmD [OF control_calm(1) [where I = "leading st"] L] obtain r t where t: "AddCommand (cx_cmd e) (m_controlStore (self s)) ?cmd s = (Ret r, t)"
        "leading st (self t)" by blast
    let ?t = "t\<lparr>trace := trace t @ [CommandAdded ?cmd r]\<rparr>"
    from calmD [OF refreshControlStore_calm, of st ?t e 0] t(2) obtain r' u where
      u: "refreshControlStore e 0 ?t = (Ret r', u)" "leading st (self u)" by auto
    have "getRestoreBackupCommand (self u) \<noteq> None" if "r = None" "r' = None"
      using refresh_sees_command [OF assms, of s ?cmd t _ u] t(1) u(1) that by (simp add: restore_command_def)
    with t u show ?thesis
      by (auto simp: schedule_restore_def n recorded_def go_apply get_self_def emit_def split: option.splits)
  qed
  then show "hoare (\<lambda>s. leading st (self s)) (schedule_restore e spec backup) (\<lambda>_ s. leading st (self s)) (\<lambda>_. False)"
    by (intro hoareI) fastforce+
qed

lemma stopForUpgrade_calm: "patient e \<Longrightarrow> calm (leading st) (stopForUpgrade e spec st')"
  unfolding stopForUpgrade_def stop_members_def
  by (intro ctl_calm prepareForUpgrade_calm doClusterBackup_calm updateQuarantine_calm schedule_restore_calm)

section \<open>The iteration\<close>

lemma reconcile_calm:
  assumes "patient e" and "nodes_ok st"
  shows "calm (leading st) (reconcile e n spec st)"
  unfolding reconcile_def backup_if_due_def reconcile_quarantine_def reconcile_members_def expand_cluster_def InvalidateControlStore_def
    replace_unhealthy_def reconcile_version_def
  by (intro ctl_calm maybeBackup_calm updateQuarantine_calm refreshControlStore_calm addNode_calm removeNode_calm reconcileTLS_calm
      upgradeInPlace_calm stopForUpgrade_calm assms)

lemma create_if_new_calm: "nodes_ok st' \<Longrightarrow> calm (leading st) (create_if_new e n st')"
  unfolding create_if_new_def by (intro ctl_calm refreshControlStore_calm createNewCluster_calm)

lemma run_restore_calm: "nodes_ok st' \<Longrightarrow> calm (leading st) (run_restore e n spec st' cmd)"
  unfolding run_restore_def by (intro ctl_calm createNewCluster_calm restoreBackup_calm)

text \<open>After the health record was brought up to date, every member has an entry.\<close>

lemma note_member_mono: "gm_lookup ps i \<noteq> None \<Longrightarrow> gm_lookup (note_member now st j ps) i \<noteq> None"
  by (auto simp: note_member_def Let_def)

lemma note_health_mono: "gm_lookup ps i \<noteq> None \<Longrightarrow> gm_lookup (fold (\<lambda>kv. note_member now st (fst kv)) ms ps) i \<noteq> None"
  by (induction ms arbitrary: ps) (simp_all add: note_member_mono del: not_None_eq)

lemma note_health_covers: "i \<in> fst ` set (st_members st) \<Longrightarrow> gm_lookup (note_health now st ps) i \<noteq> None"
proof -
  have "gm_lookup (fold (\<lambda>kv. note_member now st (fst kv)) ms ps) i \<noteq> None" if "i \<in> fst ` set ms" for ms
    using that
  proof (induction ms arbitrary: ps)
    case (Cons kv ms)
    have "gm_lookup (note_member now st (fst kv) ps) (fst kv) \<noteq> None" by (auto simp: note_member_def Let_def)
    with Cons note_health_mono [of "note_member now st (fst kv) ps" "fst kv" now st ms] show ?case
      by (cases "i = fst kv") (auto simp del: not_None_eq)
  qed simp
  then show "i \<in> fst ` set (st_members st) \<Longrightarrow> ?thesis" by (simp add: note_health_def)
qed

lemma act_on_state_returns:
  assumes "patient e" and "nodes_ok st" and "m_leadership (self s) \<noteq> None"
  shows "\<exists>x s'. act_on_state e n st s = (Ret x, s')"
proof -
  obtain now w where now: "time_now (cx_rt e) s = (Ret now, s\<lparr>world := w\<rparr>)"
    by (cases "rt_now (cx_rt e) (world s)") (auto simp: time_now_def ask_def)
  let ?s = "s\<lparr>world := w, self := (self s)\<lparr>m_peerState := note_health now st (m_peerState (self s))\<rparr>\<rparr>"
  let ?rest = "bind (buildMemberMap e st) (\<lambda>memberMap.
     bind (broadcastMemberMap e st memberMap) (\<lambda>_.
     bind (get_self m_controlRefreshInterval) (\<lambda>interval.
     bind (refreshControlStore e interval) (\<lambda>r. case r of
       Some err \<Rightarrow> ret (False, Some (Wrap ''error refreshing control store'' err))
     | None \<Rightarrow>
       bind (create_if_new e n st) (\<lambda>r. case r of
         Some res \<Rightarrow> ret res
       | None \<Rightarrow>
         bind (get_self (\<lambda>m. m)) (\<lambda>m. case m_controlClusterSpec m of
           None \<Rightarrow> ret (False, None)
         | Some spec \<Rightarrow> (case getRestoreBackupCommand m of
             Some cmd \<Rightarrow> run_restore e n spec st cmd
           | None \<Rightarrow> reconcile e n spec st)))))))"
  have "calm (leading st) ?rest"
    by (intro ctl_calm buildMemberMap_calm broadcastMemberMap_calm refreshControlStore_calm create_if_new_calm run_restore_calm
        reconcile_calm assms(1,2))
  moreover have "leading st (self ?s)" using assms(3) note_health_covers by (auto simp: leading_def simp del: not_None_eq)
  ultimately obtain x s' where "?rest ?s = (Ret x, s')" using calmD by blast
  moreover have "act_on_state e n st s = ?rest ?s"
    unfolding act_on_state_def
    by (subst bind_apply, subst now, unfold prod.case outcome.case, subst bind_apply, simp only: upd_self_def modify_apply prod.case outcome.case)
      simp
  ultimately show ?thesis by metis
qed

text \<open>
  Every node reports its configuration (\<open>GetInfo\<close> of \<open>Etcd_Server\<close> always does), and every member has an
  etcd id, so the cluster state can be built.
\<close>

definition reporting :: "'w ctl_env \<Rightarrow> bool" where
  "reporting e \<longleftrightarrow> (\<forall>i w r w'. cx_GetInfo e i w = (Inr r, w') \<longrightarrow> gi_NodeConfiguration r \<noteq> None)"

abbreviation has_node :: "PeerId \<times> etcdClusterPeerInfo \<Rightarrow> bool" where
  "has_node kv \<equiv> case cpi_info (snd kv) of None \<Rightarrow> False | Some i \<Rightarrow> gi_NodeConfiguration i \<noteq> None"

lemma collect_infos_nodes:
  assumes "reporting e"
  shows "hoare P (collect_infos e ps) (\<lambda>r _. \<forall>m. r = Inr m \<longrightarrow> list_all has_node m) (\<lambda>_. False)"
proof -
  have node: "\<exists>n. gi_NodeConfiguration r = Some n" if "cx_GetInfo e i w = (Inr r, w')" for i w r w'
    using assms that unfolding reporting_def by (metis not_None_eq)
  show ?thesis
    unfolding collect_infos_def rpcGetInfo_def rpc_def
    by (rule hoare_bind [OF hoare_for_each [where I = "\<lambda>_ m _. list_all has_node m" and Q = "\<lambda>c _. \<forall>m. c = Next m \<longrightarrow> list_all has_node m"]])
      (auto simp: hoare_def go_apply ask_def split: loop.splits option.splits sum.splits prod.splits intro!: list_all_update dest!: node)
qed

lemma ListMembers_ids: "client_ListMembers api c s = (Ret (Inr ms), s') \<Longrightarrow> \<not> list_ex (\<lambda>m. em_ID m = []) ms"
  by (auto simp: client_ListMembers_def bind_apply ask_def ret_apply list_ex_iff member_of_api_def Itoa_not_empty
      split: prod.splits sum.splits)

lemma ask_members_calm: "has_node kv \<Longrightarrow> calm I (ask_members e tls (snd kv))"
  unfolding ask_members_def
proof (intro calm_case_option, goal_cases)
  case (2 i)
  then show ?case
    by (auto split: option.splits intro!: calm_ret calm_if calm_bind [OF NewClient_calm] calm_case_sum
        calm_bind_dep [OF client_calm(1)] calm_bind [OF client_calm(5)] calm_bind simp: member_map_def dest: ListMembers_ids)
qed simp

lemma updateClusterState_returns:
  assumes "reporting e"
  shows "\<exists>r s'. updateClusterState e tls ps s = (Ret r, s') \<and> (\<forall>st. r = Inr st \<longrightarrow> nodes_ok st)"
proof -
  obtain r s1 where c: "collect_infos e ps s = (r, s1)" by fastforce
  show ?thesis
  proof (cases r)
    case (Panic msg)
    then show ?thesis using hoare_PanicD [OF collect_infos_nodes [OF assms] TrueI] c by blast
  next
    case (Ret x)
    show ?thesis
    proof (cases x)
      case (Inl err)
      then show ?thesis using c Ret by (simp add: updateClusterState_def bind_apply ret_apply)
    next
      case (Inr infos)
      have nodes: "list_all has_node infos"
        using hoare_RetD [OF collect_infos_nodes [OF assms] TrueI] c Ret Inr by blast
      have "calm (\<lambda>_. True) (list_members e tls infos)"
        unfolding list_members_def by (intro calm_range_loop calm_ret ask_members_calm) (use nodes in \<open>simp add: list_all_iff\<close>)
      then obtain ms s2 where l: "list_members e tls infos s1 = (Ret ms, s2)" using calmD by blast
      let ?st = "\<lparr>st_tls = tls, st_members = ms, st_peers = infos, st_healthyMembers = []\<rparr>"
      have "calm (\<lambda>_. True) (check_health e ?st)"
        unfolding check_health_def by (intro calm_rules newEtcdClient_calm client_calm)
      then obtain hs s3 where h: "check_health e ?st s2 = (Ret hs, s3)" using calmD by blast
      show ?thesis using c Ret Inr l h nodes by (simp add: updateClusterState_def bind_apply ret_apply Let_def nodes_ok_def)
    qed
  qed
qed

lemma releaseLeaderLock_calm: "calm (\<lambda>_. True) (releaseLeaderLock e)"
  unfolding releaseLeaderLock_def by (intro calm_rules calm_upd_self)

lemma start_leadership_calm: "calm (\<lambda>_. True) (start_leadership e)"
  unfolding start_leadership_def refreshControlStore_def by (intro calm_rules calm_upd_self control_calm)

lemma lead_returns:
  assumes "patient e" and "reporting e" and "m_leadership (self s) \<noteq> None"
  shows "\<exists>x s'. lead e ps l s = (Ret x, s')"
proof -
  obtain a w where a: "cx_AssertLeadership e (ls_token l) (world s) = (a, w)" by fastforce
  let ?s = "s\<lparr>world := w\<rparr>" and ?tls = "m_etcdClientTLSConfig (self s)"
  from updateClusterState_returns [OF assms(2)] obtain r t where u: "updateClusterState e ?tls ps ?s = (Ret r, t)"
      "\<forall>st. r = Inr st \<longrightarrow> nodes_ok st" by blast
  have "m_leadership (self t) \<noteq> None" using keepsE [OF updateClusterState_asks u(1)] assms(3) by (simp add: asks_def)
  then have "\<exists>x s'. act_on_state e n st t = (Ret x, s')" if "r = Inr st" for n st
    using act_on_state_returns [OF assms(1)] u(2) that by blast
  then show ?thesis
    by (cases r) (auto simp: lead_def go_apply ask_def a upd_self_def get_self_def u(1) split: option.splits)
qed

lemma run_total:
  assumes "reporting e" and "patient e"
  shows "\<exists>x s'. run e s = (Ret x, s')"
proof -
  let ?ps = "sort_key cp_Id (map newPeer (fst (cx_Peers e (world s))))"
  let ?s = "s\<lparr>world := snd (cx_Peers e (world s))\<rparr>" and ?me = "m_myPeerId (self s)"
  obtain r1 s1 where rel: "releaseLeaderLock e ?s = (Ret r1, s1)" using calmD [OF releaseLeaderLock_calm] by blast
  have "calm (\<lambda>_. True) (acquire_lock e ?me)" unfolding acquire_lock_def by (intro calm_rules calm_upd_self)
  then obtain ra t where acq: "acquire_lock e ?me ?s = (Ret ra, t)" using calmD by blast
  obtain r2 s2 where start: "start_leadership e t = (Ret r2, s2)" using calmD [OF start_leadership_calm] by blast
  have "\<exists>x s'. lead e ?ps l t = (Ret x, s')" if "m_leadership (self t) = Some l" for l
    using lead_returns [OF assms(2,1), of t] that by auto
  with rel acq start show ?thesis
    by (auto simp: run_def bind_apply sorted_peers_eval get_self_def ret_apply split: option.splits)
qed

text \<open>
  C2. An iteration of the control loop always returns: no nil dereference, no failed assertion and no endless wait.
  The environment is arbitrary but for this: every node reports its configuration, the control store returns
  what was written to it, and reading the clock changes nothing. In particular the branches the code marks as fatal (a member without health
  record, too few peers for the proposal) are never reached, and the wait for a restore command ends at its first look.
\<close>

theorem run_returns:
  assumes "reporting e" and "patient e"
  shows "\<exists>progress err s'. run e s = (Ret (progress, err), s')"
  using run_total [OF assms] by simp

theorem run_returns_witness:
  "\<exists>progress err s'. run grow_env grow_start = (Ret (progress, err), s')"
proof -
  have "reporting grow_env" by (auto simp: reporting_def demo_info_def split: if_splits)
  moreover have "patient grow_env" by (simp add: patient_def mem_control_ok const_rt_def)
  ultimately show ?thesis by (rule run_returns)
qed

end
