(* ===== verification/Hosts.thy ===== *)
theory Hosts
  imports Go_Strings Go_Monad
begin

text \<open>
  The provider of DNS names through \<^verbatim>\<open>/etc/hosts\<close> (\<^verbatim>\<open>pkg/hosts\<close>). Names come from two sources, the member map
  (\<^verbatim>\<open>primary\<close>) and discovery (\<^verbatim>\<open>fallbacks\<close>); both end up in a guarded block of the file, and everything outside
  the block belongs to someone else. The file system and \<^verbatim>\<open>net.IP.String\<close> are parameters.

  The code sorts the slices of names in place, and the slices it sorts share their arrays with
  \<^verbatim>\<open>primary\<close>. A slice is therefore modelled with the free capacity behind its elements, and the map that is written out
  remembers which of its slices still share the array of a primary one.
\<close>

section \<open>Data\<close>

record hosts_slice =
  sl_elems :: "string list"
  sl_spare :: nat

record shared_slice = hosts_slice +
  sl_shared :: bool

record Provider =
  hp_Key :: string
  hp_primary :: "hosts_slice gomap"
  hp_fallbacks :: "string list gomap"

datatype hosts_event = HostsWritten string string "go_error option" | HostsRenamed string string "go_error option"

record 'w hosts_env =
  hx_rt :: "'w runtime"
  hx_Stat :: "string \<Rightarrow> 'w \<Rightarrow> (go_error + int) \<times> 'w"
  hx_ReadFile :: "string \<Rightarrow> 'w \<Rightarrow> (go_error + string) \<times> 'w"
  hx_WriteFile :: "string \<Rightarrow> string \<Rightarrow> int \<Rightarrow> 'w \<Rightarrow> go_error option \<times> 'w"
  hx_rand :: "'w \<Rightarrow> nat \<times> 'w"
  hx_Sleep :: "duration \<Rightarrow> 'w \<Rightarrow> unit \<times> 'w"
  hx_CreateTemp :: "string \<Rightarrow> string \<Rightarrow> 'w \<Rightarrow> (go_error + string) \<times> 'w"
  hx_WriteTemp :: "string \<Rightarrow> string \<Rightarrow> 'w \<Rightarrow> go_error option \<times> 'w"
  hx_CloseTemp :: "string \<Rightarrow> 'w \<Rightarrow> go_error option \<times> 'w"
  hx_Chmod :: "string \<Rightarrow> int \<Rightarrow> 'w \<Rightarrow> go_error option \<times> 'w"
  hx_Rename :: "string \<Rightarrow> string \<Rightarrow> 'w \<Rightarrow> go_error option \<times> 'w"
  hx_Remove :: "string \<Rightarrow> 'w \<Rightarrow> go_error option \<times> 'w"
  hx_IPString :: "string \<Rightarrow> string"

type_synonym ('w, 'a) hosts_go = "((Provider, 'w, hosts_event) sys, 'a) go"

section \<open>The text of the file\<close>

text \<open>\<^verbatim>\<open>strings.Replace\<close> of all occurrences, for a pattern that is not empty.\<close>

function ReplaceAll :: "string \<Rightarrow> string \<Rightarrow> string \<Rightarrow> string" where
  "ReplaceAll [] old new = []"
| "ReplaceAll (c # s) old new =
     (if old \<noteq> [] \<and> HasPrefix (c # s) old then new @ ReplaceAll (drop (length old) (c # s)) old new
      else c # ReplaceAll s old new)"
  by pat_completeness auto
termination by (relation "measure (\<lambda>(s, _, _). length s)") auto

definition GUARD_BEGIN_TEMPLATE :: string where
  "GUARD_BEGIN_TEMPLATE = ''# Begin host entries managed by __key__ - do not edit''"

definition GUARD_END_TEMPLATE :: string where
  "GUARD_END_TEMPLATE = ''# End host entries managed by __key__''"

definition guardBegin :: "string \<Rightarrow> string" where
  "guardBegin key = ReplaceAll GUARD_BEGIN_TEMPLATE ''__key__'' key"

definition guardEnd :: "string \<Rightarrow> string" where
  "guardEnd key = ReplaceAll GUARD_END_TEMPLATE ''__key__'' key"

text \<open>One line of the old file: the lines kept so far, whether in a block, whether to skip a blank line.\<close>

definition scan_line :: "string \<Rightarrow> string \<Rightarrow> string list \<times> bool \<times> bool \<Rightarrow> string list \<times> bool \<times> bool" where
  "scan_line key line = (\<lambda>(out, inGuardBlock, skipBlank).
     let k = TrimSpace line in
     if k = [] \<and> skipBlank then (out, inGuardBlock, False)
     else
       let inG = (inGuardBlock \<or> k = guardBegin key);
           out1 = (if inG then out else out @ [line])
       in if k = guardEnd key then (if inG then out1 else butlast out1, False, True)
          else (out1, inG, False))"

definition kept_lines :: "string \<Rightarrow> string list \<Rightarrow> string list" where
  "kept_lines key ls = fst (fold (scan_line key) ls ([], False, False))"

text \<open>The loop that removes empty lines from the end.\<close>

definition drop_blank :: "string list \<Rightarrow> string list" where
  "drop_blank ls = rev (dropWhile (\<lambda>l. l = []) (rev ls))"

text \<open>The names of an address, without repeating one that equals its predecessor.\<close>

fun more_hosts :: "string \<Rightarrow> string list \<Rightarrow> string" where
  "more_hosts prev [] = []"
| "more_hosts prev (h # hs) = (if prev = h then [] else '' '' @ h) @ more_hosts h hs"

definition host_line :: "string \<Rightarrow> string list \<Rightarrow> string" where
  "host_line addr hosts = addr @ [CHR 9] @ (case hosts of [] \<Rightarrow> [] | h # hs \<Rightarrow> h @ more_hosts h hs)"

definition hosts_text :: "string \<Rightarrow> string list \<Rightarrow> string \<Rightarrow> string" where
  "hosts_text key lines data =
     join [CHR 10] (drop_blank (kept_lines key (split_on (CHR 10) data)) @ [[]]
       @ [guardBegin key] @ sort lines @ [guardEnd key, []])"

section \<open>Writing the file\<close>

text \<open>Write, wait for a moment, read back; \<open>n\<close> attempts are left.\<close>

fun write_attempts :: "nat \<Rightarrow> 'w hosts_env \<Rightarrow> string \<Rightarrow> string \<Rightarrow> int \<Rightarrow> ('w, go_error option) hosts_go" where
  "write_attempts 0 e p b mode = ret (Some (Errorf ''failed to consistently write file - too many retries''))"
| "write_attempts (Suc n) e p b mode =
     bind (act (hx_WriteFile e p b mode) (HostsWritten p b)) (\<lambda>r. case r of
       Some _ \<Rightarrow> write_attempts n e p b mode
     | None \<Rightarrow>
       bind (ask (hx_rand e)) (\<lambda>k.
       bind (ask (hx_Sleep e (int (1 + k mod 20) * 1000000))) (\<lambda>_.
       bind (ask (hx_ReadFile e p)) (\<lambda>r. case r of
         Inl _ \<Rightarrow> write_attempts n e p b mode
       | Inr contents \<Rightarrow> if contents = b then ret None else write_attempts n e p b mode))))"

definition pseudoAtomicWrite :: "'w hosts_env \<Rightarrow> string \<Rightarrow> string \<Rightarrow> int \<Rightarrow> ('w, go_error option) hosts_go" where
  "pseudoAtomicWrite e p b mode = write_attempts 10 e p b mode"

text \<open>
  \<^verbatim>\<open>atomicWriteFile\<close>: the deferred function closes and removes the temporary file as far as needed. The code
  never takes this branch (\<^verbatim>\<open>containerized\<close> is always true).
\<close>

definition discard_temp :: "'w hosts_env \<Rightarrow> string \<Rightarrow> bool \<Rightarrow> go_error \<Rightarrow> ('w, go_error option) hosts_go" where
  "discard_temp e tmp mustClose err =
     bind (if mustClose then bind (ask (hx_CloseTemp e tmp)) (\<lambda>_. ret ()) else ret ()) (\<lambda>_.
     bind (ask (hx_Remove e tmp)) (\<lambda>_. ret (Some err)))"

definition atomicWriteFile :: "'w hosts_env \<Rightarrow> string \<Rightarrow> string \<Rightarrow> int \<Rightarrow> ('w, go_error option) hosts_go" where
  "atomicWriteFile e filename data perm =
     bind (ask (hx_CreateTemp e (filepath_Dir filename) (''.tmp'' @ path_Base filename))) (\<lambda>r. case r of
       Inl err \<Rightarrow> ret (Some (Wrap ''error creating temp file'' err))
     | Inr tmp \<Rightarrow>
       bind (ask (hx_WriteTemp e tmp data)) (\<lambda>r. case r of
         Some err \<Rightarrow> discard_temp e tmp True (Wrap ''error writing temp file'' err)
       | None \<Rightarrow>
         bind (ask (hx_CloseTemp e tmp)) (\<lambda>r. case r of
           Some err \<Rightarrow> discard_temp e tmp True (Wrap ''error closing temp file'' err)
         | None \<Rightarrow>
           bind (ask (hx_Chmod e tmp perm)) (\<lambda>r. case r of
             Some err \<Rightarrow> discard_temp e tmp False (Wrap ''error changing mode of temp file'' err)
           | None \<Rightarrow>
             bind (act (hx_Rename e tmp filename) (HostsRenamed tmp filename)) (\<lambda>r. case r of
               Some err \<Rightarrow> discard_temp e tmp False (Wrap ''error moving temp file'' err)
             | None \<Rightarrow> ret None)))))"

text \<open>The slices of the map are sorted in place; the sorted map is returned with the error.\<close>

definition sorted_slices :: "shared_slice gomap \<Rightarrow> shared_slice gomap" where
  "sorted_slices m = map (\<lambda>(a, s). (a, s\<lparr>sl_elems := sort (sl_elems s)\<rparr>)) m"

definition updateHostsFileWithRecords :: "'w hosts_env \<Rightarrow> string \<Rightarrow> string \<Rightarrow> shared_slice gomap
    \<Rightarrow> ('w, go_error option \<times> shared_slice gomap) hosts_go" where
  "updateHostsFileWithRecords e p key addrToHosts =
     bind (ask (hx_Stat e p)) (\<lambda>r. case r of
       Inl err \<Rightarrow> ret (Some (Wrap ''error getting file status'' err), addrToHosts)
     | Inr mode \<Rightarrow>
       bind (ask (hx_ReadFile e p)) (\<lambda>r. case r of
         Inl err \<Rightarrow> ret (Some (Wrap ''error reading file'' err), addrToHosts)
       | Inr data \<Rightarrow>
         bind (range_map (hx_rt e) (sorted_slices addrToHosts)) (\<lambda>kvs.
         let updated = hosts_text key (map (\<lambda>(a, s). host_line a (sl_elems s)) kvs) data in
         if updated = data then ret (None, sorted_slices addrToHosts)
         else bind (pseudoAtomicWrite e p updated mode) (\<lambda>r.
           ret (map_option (Wrap ''error writing file'') r, sorted_slices addrToHosts)))))"

section \<open>The provider\<close>

text \<open>\<^verbatim>\<open>append\<close>: into the free capacity, where it stays in the shared array, or into a new array.\<close>

definition append_host :: "string \<Rightarrow> shared_slice \<Rightarrow> shared_slice" where
  "append_host h s = (if 0 < sl_spare s then s\<lparr>sl_elems := sl_elems s @ [h], sl_spare := sl_spare s - 1\<rparr>
     else s\<lparr>sl_elems := sl_elems s @ [h], sl_shared := False\<rparr>)"

definition nil_slice :: shared_slice where
  "nil_slice = \<lparr>sl_elems = [], sl_spare = 0, sl_shared = False\<rparr>"

definition add_fallback :: "'w hosts_env \<Rightarrow> string list \<Rightarrow> string \<times> string list \<Rightarrow> shared_slice gomap \<Rightarrow> shared_slice gomap" where
  "add_fallback e hostExists kv m =
     (if fst kv \<in> set hostExists then m
      else fold (\<lambda>ip m. let addr = hx_IPString e ip in
        gm_update addr (append_host (fst kv) (case gm_lookup m addr of None \<Rightarrow> nil_slice | Some s \<Rightarrow> s)) m) (snd kv) m)"

definition shared_primary :: "hosts_slice gomap \<Rightarrow> shared_slice gomap" where
  "shared_primary primary = map (\<lambda>(a, s). (a, \<lparr>sl_elems = sl_elems s, sl_spare = sl_spare s, sl_shared = True\<rparr>)) primary"

text \<open>What the slices of \<^verbatim>\<open>primary\<close> show of their arrays after those have been sorted through a shared slice.\<close>

definition seen_through :: "shared_slice gomap \<Rightarrow> hosts_slice gomap \<Rightarrow> hosts_slice gomap" where
  "seen_through m primary = map (\<lambda>(a, s). (a, case gm_lookup m a of
     Some t \<Rightarrow> if sl_shared t then s\<lparr>sl_elems := take (length (sl_elems s)) (sl_elems t)\<rparr> else s
   | None \<Rightarrow> s)) primary"

definition update :: "'w hosts_env \<Rightarrow> ('w, go_error option) hosts_go" where
  "update e =
     bind (get_self (\<lambda>h. h)) (\<lambda>h.
     bind (range_map (hx_rt e) (hp_primary h)) (\<lambda>pkvs.
     bind (range_map (hx_rt e) (hp_fallbacks h)) (\<lambda>fkvs.
     let hostExists = concat (map (\<lambda>kv. sl_elems (snd kv)) pkvs);
         addrToHosts = fold (add_fallback e hostExists) fkvs (shared_primary pkvs)
     in bind (updateHostsFileWithRecords e ''/etc/hosts'' (hp_Key h) addrToHosts) (\<lambda>(err, sorted).
        bind (upd_self (\<lambda>h. h\<lparr>hp_primary := seen_through sorted (hp_primary h)\<rparr>)) (\<lambda>_. ret err)))))"

definition AddFallbacks :: "'w hosts_env \<Rightarrow> string list gomap \<Rightarrow> ('w, go_error option) hosts_go" where
  "AddFallbacks e dnsFallbacks = bind (upd_self (\<lambda>h. h\<lparr>hp_fallbacks := dnsFallbacks\<rparr>)) (\<lambda>_. update e)"

definition UpdateHosts :: "'w hosts_env \<Rightarrow> hosts_slice gomap \<Rightarrow> ('w, go_error option) hosts_go" where
  "UpdateHosts e addressToHosts = bind (upd_self (\<lambda>h. h\<lparr>hp_primary := addressToHosts\<rparr>)) (\<lambda>_. update e)"

section \<open>The guarded block\<close>

text \<open>A key for which the guard lines can be recognised again: the code compares them with trimmed lines.\<close>

definition good_key :: "string \<Rightarrow> bool" where
  "good_key key \<longleftrightarrow> key \<noteq> [] \<and> CHR 10 \<notin> set key \<and> \<not> is_space (last key)"

text \<open>Lines of others, and lines that may stand in a block.\<close>

definition foreign :: "string \<Rightarrow> string \<Rightarrow> bool" where
  "foreign key l \<longleftrightarrow> TrimSpace l \<noteq> guardBegin key \<and> TrimSpace l \<noteq> guardEnd key"

definition inner :: "string \<Rightarrow> string \<Rightarrow> bool" where
  "inner key l \<longleftrightarrow> TrimSpace l \<noteq> guardEnd key"

lemma guardBegin_eq: "guardBegin key = ''# Begin host entries managed by '' @ key @ '' - do not edit''"
  by (simp add: guardBegin_def GUARD_BEGIN_TEMPLATE_def HasPrefix_def)

lemma guardEnd_eq: "guardEnd key = ''# End host entries managed by '' @ key"
  by (simp add: guardEnd_def GUARD_END_TEMPLATE_def HasPrefix_def)

lemma guards_differ [simp]: "guardBegin key \<noteq> guardEnd key" "guardBegin key \<noteq> []" "guardEnd key \<noteq> []"
  "[] \<noteq> guardBegin key" "[] \<noteq> guardEnd key"
  by (simp_all add: guardBegin_eq guardEnd_eq)

lemma TrimSpace_guards: "TrimSpace (guardBegin key) = guardBegin key" "good_key key \<Longrightarrow> TrimSpace (guardEnd key) = guardEnd key"
  by (rule TrimSpace_id; simp add: guardBegin_eq is_space_def) (rule TrimSpace_id; simp add: guardEnd_eq is_space_def good_key_def)

lemma TrimSpace_empty [simp]: "TrimSpace [] = []"
  by (simp add: TrimSpace_def)

lemma guards_no_newline: "good_key key \<Longrightarrow> CHR 10 \<notin> set (guardBegin key) \<and> CHR 10 \<notin> set (guardEnd key)"
  by (simp add: guardBegin_eq guardEnd_eq good_key_def)

lemma foreign_blank [simp]: "foreign key []"
  by (simp add: foreign_def)

text \<open>How the scan treats each part of a file.\<close>

lemma scan_foreign:
  "\<forall>l \<in> set ls. foreign key l \<Longrightarrow> fold (scan_line key) ls (out, False, False) = (out @ ls, False, False)"
  by (induction ls arbitrary: out) (auto simp: scan_line_def foreign_def Let_def)

lemma scan_inner:
  "\<forall>l \<in> set ls. inner key l \<Longrightarrow> fold (scan_line key) ls (out, True, False) = (out, True, False)"
  by (induction ls) (auto simp: scan_line_def inner_def Let_def)

definition skip_blank :: "string list \<Rightarrow> string list" where
  "skip_blank ls = (case ls of [] \<Rightarrow> [] | l # ls' \<Rightarrow> if TrimSpace l = [] then ls' else ls)"

lemma scan_after_block:
  assumes "\<forall>l \<in> set ls. foreign key l"
  shows "fst (fold (scan_line key) ls (out, False, True)) = out @ skip_blank ls"
proof (cases ls)
  case (Cons l ls')
  with assms scan_foreign [of ls' key] show ?thesis
    by (auto simp: scan_line_def skip_blank_def foreign_def Let_def)
qed (simp add: skip_blank_def)

lemma scan_guards:
  "scan_line key (guardBegin key) (out, False, False) = (out, True, False)"
  "good_key key \<Longrightarrow> scan_line key (guardEnd key) (out, True, False) = (out, False, True)"
  using guards_differ [of key] by (auto simp: scan_line_def TrimSpace_guards Let_def simp del: guards_differ(1))

lemma kept_with_block:
  assumes "good_key key" "\<forall>l \<in> set pre \<union> set post. foreign key l" "\<forall>l \<in> set body. inner key l"
  shows "kept_lines key (pre @ [guardBegin key] @ body @ [guardEnd key] @ post) = pre @ skip_blank post"
  using assms by (simp add: kept_lines_def scan_foreign scan_guards scan_inner scan_after_block)

lemma scan_keeps_foreign:
  assumes "\<forall>l \<in> set (fst st). foreign key l \<and> l \<in> L" "l \<in> L"
  shows "\<forall>l \<in> set (fst (scan_line key l st)). foreign key l \<and> l \<in> L"
  using assms by (auto simp: scan_line_def foreign_def Let_def split: prod.splits)

lemma kept_lines_foreign:
  assumes "l \<in> set (kept_lines key ls)" shows "foreign key l \<and> l \<in> set ls"
proof -
  have "set ms \<subseteq> L \<Longrightarrow> \<forall>l \<in> set (fst st). foreign key l \<and> l \<in> L \<Longrightarrow>
      \<forall>l \<in> set (fst (fold (scan_line key) ms st)). foreign key l \<and> l \<in> L" for ms st and L :: "string set"
  proof (induction ms arbitrary: st)
    case (Cons m ms)
    have "m \<in> L" "set ms \<subseteq> L" using Cons.prems(1) by auto
    then show ?case using Cons.IH [OF _ scan_keeps_foreign [OF Cons.prems(2) \<open>m \<in> L\<close>]] by simp
  qed simp
  from this [of ls "set ls" "([], False, False)"] assms show ?thesis by (auto simp: kept_lines_def)
qed

lemma set_drop_blank: "set (drop_blank ls) \<subseteq> set ls"
  by (auto simp: drop_blank_def dest: set_dropWhileD)

lemma drop_blank_idem [simp]: "drop_blank (drop_blank ls) = drop_blank ls" "drop_blank (ls @ [[]]) = drop_blank ls"
  by (simp_all add: drop_blank_def dropWhile_idem)

lemma split_hosts_text:
  assumes "good_key key" "\<forall>l \<in> set lines. CHR 10 \<notin> set l"
  shows "split_on (CHR 10) (hosts_text key lines data) =
    drop_blank (kept_lines key (split_on (CHR 10) data)) @ [[]] @ [guardBegin key] @ sort lines @ [guardEnd key, []]"
proof -
  have "CHR 10 \<notin> set l" if "l \<in> set (drop_blank (kept_lines key (split_on (CHR 10) data)))" for l
    using that set_drop_blank kept_lines_foreign split_on_no_sep by blast
  with assms guards_no_newline [OF assms(1)] show ?thesis
    unfolding hosts_text_def by (subst split_on_join) auto
qed

lemma hosts_text_absorbs:
  assumes "good_key key" "\<forall>l \<in> set lines1. CHR 10 \<notin> set l \<and> inner key l"
  shows "hosts_text key lines2 (hosts_text key lines1 data) = hosts_text key lines2 data"
proof -
  let ?K = "drop_blank (kept_lines key (split_on (CHR 10) data))"
  have K: "\<forall>l \<in> set (?K @ [[]]) \<union> set [[]]. foreign key l"
    using set_drop_blank kept_lines_foreign foreign_blank by fastforce
  have "kept_lines key (split_on (CHR 10) (hosts_text key lines1 data)) = ?K @ [[]]"
    using kept_with_block [OF assms(1) K, of "sort lines1"] assms
    by (simp add: split_hosts_text skip_blank_def)
  then show ?thesis by (simp add: hosts_text_def)
qed

lemma hosts_text_around:
  assumes "good_key key" "\<forall>l \<in> set pre \<union> set post \<union> set lines. CHR 10 \<notin> set l"
    "\<forall>l \<in> set pre \<union> set post. foreign key l" "\<forall>l \<in> set body. CHR 10 \<notin> set l \<and> inner key l"
  shows "split_on (CHR 10) (hosts_text key lines (join [CHR 10] (pre @ [guardBegin key] @ body @ [guardEnd key] @ post))) =
    drop_blank (pre @ skip_blank post) @ [[]] @ [guardBegin key] @ sort lines @ [guardEnd key, []]"
proof -
  have "split_on (CHR 10) (join [CHR 10] (pre @ [guardBegin key] @ body @ [guardEnd key] @ post)) =
      pre @ [guardBegin key] @ body @ [guardEnd key] @ post"
    using assms guards_no_newline [OF assms(1)] by (intro split_on_join) auto
  then show ?thesis
    using assms kept_with_block [OF assms(1,3), of body] by (subst split_hosts_text) auto
qed

text \<open>The order in which a map is visited does not show in the file.\<close>

lemma hosts_text_order: "mset lines1 = mset lines2 \<Longrightarrow> hosts_text key lines1 data = hosts_text key lines2 data"
  using properties_for_sort [of "sort lines2" lines1] by (simp add: hosts_text_def)

section \<open>The names of a line\<close>

lemma more_hosts_remdups_adj:
  "h @ more_hosts h hs = join '' '' (remdups_adj (h # hs))"
  by (induction hs arbitrary: h) (auto simp: join_Cons)

lemma remdups_adj_sorted:
  fixes xs :: "'a :: linorder list"
  assumes "sorted xs" shows "remdups_adj xs = sorted_list_of_set (set xs)"
proof -
  have "sorted (remdups_adj xs) \<and> distinct (remdups_adj xs)"
    using assms by (induction xs rule: remdups_adj.induct) (auto simp: order.order_iff_strict)
  then have "sorted_list_of_set (set (remdups_adj xs)) = remdups_adj xs"
    by (intro sorted_list_of_set.idem_if_sorted_distinct) simp_all
  then show ?thesis by simp
qed

lemma host_line_sorted: "host_line addr (sort hs) = addr @ [CHR 9] @ join '' '' (sorted_list_of_set (set hs))"
proof -
  have "host_line addr (sort hs) = addr @ [CHR 9] @ join '' '' (remdups_adj (sort hs))"
    by (cases "sort hs") (simp_all add: host_line_def more_hosts_remdups_adj)
  then show ?thesis by (simp add: remdups_adj_sorted)
qed

section \<open>Writing until the file reads back\<close>

text \<open>Since a state with data \<open>h\<close> and trace \<open>tr\<close>, at most \<open>k\<close> writes, all of the same text.\<close>

definition wrote :: "nat \<Rightarrow> string \<Rightarrow> string \<Rightarrow> 'st \<Rightarrow> hosts_event list \<Rightarrow> ('st, 'w, hosts_event) sys \<Rightarrow> bool" where
  "wrote k p b h tr s \<longleftrightarrow> self s = h \<and> (\<exists>rs. length rs \<le> k \<and> trace s = tr @ map (HostsWritten p b) rs)"

lemma wrote_world [simp]: "wrote k p b h tr (s\<lparr>world := w\<rparr>) = wrote k p b h tr s"
  by (simp add: wrote_def)

lemma wrote_mono: "wrote k p b h tr s \<Longrightarrow> k \<le> l \<Longrightarrow> wrote l p b h tr s"
  unfolding wrote_def using le_trans by blast

lemma wrote_write: "wrote k p b h tr s \<Longrightarrow> wrote (Suc k) p b h tr (s\<lparr>world := w, trace := trace s @ [HostsWritten p b r]\<rparr>)"
  unfolding wrote_def by clarsimp (metis length_append_singleton Suc_le_mono append_assoc list.map map_append)

lemma write_attempts_spec:
  "hoare (wrote k p b h tr) (write_attempts n e p b mode)
     (\<lambda>x s. wrote (k + n) p b h tr s \<and> (x = None \<longrightarrow> (\<exists>w. hx_ReadFile e p w = (Inr b, world s)))) (\<lambda>_. False)"
proof (induction n arbitrary: k)
  case (Suc n)
  note again = Suc.IH [of "Suc k", simplified]
  have retry: "hoare (\<lambda>s. wrote (Suc k) p b h tr s \<and> A s) (write_attempts n e p b mode)
    (\<lambda>x s. wrote (k + Suc n) p b h tr s \<and> (x = None \<longrightarrow> (\<exists>w. hx_ReadFile e p w = (Inr b, world s)))) (\<lambda>_. False)" for A
    by (rule hoare_conseq [OF again]) auto
  show ?case
    unfolding write_attempts.simps
    apply (rule hoare_bind [OF hoare_act [where Q = "\<lambda>_ s. wrote (Suc k) p b h tr s \<and> True"]])
     apply (simp add: wrote_write)
    apply (rule hoare_case_option)
     apply (rule hoare_bind [OF hoare_ask [where Q = "\<lambda>_. wrote (Suc k) p b h tr"]], simp)
     apply (rule hoare_bind [OF hoare_ask [where Q = "\<lambda>_. wrote (Suc k) p b h tr"]], simp)
     apply (rule hoare_bind [OF hoare_ask [where Q = "\<lambda>r s. wrote (Suc k) p b h tr s \<and> (\<exists>w. hx_ReadFile e p w = (r, world s))"]])
      apply auto[1]
     apply (intro hoare_case_sum hoare_if hoare_ret retry)
     apply (auto intro: wrote_mono)[1]
    by (rule retry)
qed (auto intro!: hoare_ret)

section \<open>What the file should say\<close>

text \<open>
  The contract of \<^verbatim>\<open>dns.Provider\<close>: an address has its primary names, and those fallback names that are not
  primary names of any address.
\<close>

definition primary_names :: "Provider \<Rightarrow> string set" where
  "primary_names h = (\<Union>(a, s) \<in> set (hp_primary h). set (sl_elems s))"

definition fallback_at :: "(string \<Rightarrow> string) \<Rightarrow> Provider \<Rightarrow> string \<Rightarrow> string set" where
  "fallback_at ipString h a = {n. n \<notin> primary_names h \<and> (\<exists>ips. (n, ips) \<in> set (hp_fallbacks h) \<and> a \<in> ipString ` set ips)}"

definition names_at :: "(string \<Rightarrow> string) \<Rightarrow> Provider \<Rightarrow> string \<Rightarrow> string set" where
  "names_at ipString h a = {n. \<exists>s. (a, s) \<in> set (hp_primary h) \<and> n \<in> set (sl_elems s)} \<union> fallback_at ipString h a"

definition known_addresses :: "(string \<Rightarrow> string) \<Rightarrow> Provider \<Rightarrow> string set" where
  "known_addresses ipString h = fst ` set (hp_primary h) \<union> {a. fallback_at ipString h a \<noteq> {}}"

definition contract_text :: "(string \<Rightarrow> string) \<Rightarrow> Provider \<Rightarrow> string \<Rightarrow> string" where
  "contract_text ipString h data =
     hosts_text (hp_Key h) (map (\<lambda>a. a @ [CHR 9] @ join '' '' (sorted_list_of_set (names_at ipString h a)))
       (sorted_list_of_set (known_addresses ipString h))) data"

text \<open>The map the code builds, as a relation between addresses and names.\<close>

definition listed :: "('a \<Rightarrow> string list) \<Rightarrow> 'a gomap \<Rightarrow> string \<Rightarrow> string set" where
  "listed f m a = {n. \<exists>s. (a, s) \<in> set m \<and> n \<in> set (f s)}"

lemma listed_lookup: "gm_ok m \<Longrightarrow> listed f m a = (case gm_lookup m a of None \<Rightarrow> {} | Some s \<Rightarrow> set (f s))"
  by (auto simp: listed_def split: option.splits dest: map_of_SomeD) (metis eq_key_imp_eq_value)

lemma append_step:
  fixes m :: "shared_slice gomap" and addr n :: string
  assumes "gm_ok m"
  defines "m' \<equiv> gm_update addr (append_host n (case gm_lookup m addr of None \<Rightarrow> nil_slice | Some s \<Rightarrow> s)) m"
  shows "gm_ok m'" "fst ` set m' = insert addr (fst ` set m)"
    "listed sl_elems m' a = listed sl_elems m a \<union> (if a = addr then {n} else {})"
  using assms by (auto simp: listed_lookup append_host_def nil_slice_def dom_update split: option.splits)

lemma fallback_step:
  assumes "gm_ok m"
  shows "gm_ok (add_fallback e ex kv m)"
    "fst ` set (add_fallback e ex kv m) = fst ` set m \<union> (if fst kv \<in> set ex then {} else hx_IPString e ` set (snd kv))"
    "listed sl_elems (add_fallback e ex kv m) a =
       listed sl_elems m a \<union> (if fst kv \<notin> set ex \<and> a \<in> hx_IPString e ` set (snd kv) then {fst kv} else {})"
proof -
  let ?f = "\<lambda>ip m. gm_update (hx_IPString e ip) (append_host (fst kv)
    (case gm_lookup m (hx_IPString e ip) of None \<Rightarrow> nil_slice | Some s \<Rightarrow> s)) m"
  have "gm_ok (fold ?f ips m) \<and> fst ` set (fold ?f ips m) = fst ` set m \<union> hx_IPString e ` set ips \<and>
      listed sl_elems (fold ?f ips m) a = listed sl_elems m a \<union> (if a \<in> hx_IPString e ` set ips then {fst kv} else {})" for ips
    using assms by (induction ips arbitrary: m) (auto simp: append_step simp del: gm_lookup_update)
  then show "gm_ok (add_fallback e ex kv m)"
    "fst ` set (add_fallback e ex kv m) = fst ` set m \<union> (if fst kv \<in> set ex then {} else hx_IPString e ` set (snd kv))"
    "listed sl_elems (add_fallback e ex kv m) a =
       listed sl_elems m a \<union> (if fst kv \<notin> set ex \<and> a \<in> hx_IPString e ` set (snd kv) then {fst kv} else {})"
    using assms by (auto simp: add_fallback_def Let_def)
qed

lemma add_fallbacks:
  assumes "gm_ok m"
  shows "gm_ok (fold (add_fallback e ex) fkvs m) \<and>
    fst ` set (fold (add_fallback e ex) fkvs m) = fst ` set m \<union>
      {a. \<exists>n ips. (n, ips) \<in> set fkvs \<and> n \<notin> set ex \<and> a \<in> hx_IPString e ` set ips} \<and>
    listed sl_elems (fold (add_fallback e ex) fkvs m) a = listed sl_elems m a \<union>
      {n. n \<notin> set ex \<and> (\<exists>ips. (n, ips) \<in> set fkvs \<and> a \<in> hx_IPString e ` set ips)}"
  using assms
proof (induction fkvs arbitrary: m)
  case (Cons kv fkvs)
  have "gm_ok (add_fallback e ex kv m)" using Cons.prems by (rule fallback_step)
  from Cons.IH [OF this] Cons.prems show ?case by (cases kv) (auto simp: fallback_step)
qed simp

lemma shared_primary_simps:
  "map fst (shared_primary ps) = map fst ps" "listed sl_elems (shared_primary ps) a = listed sl_elems ps a"
  by (auto simp: shared_primary_def listed_def)

lemma lines_by_address:
  assumes "gm_ok m" and "\<And>a. listed sl_elems m a = names a" and "fst ` set m = A"
  shows "hosts_text key (map (\<lambda>(a, s). host_line a (sl_elems s)) (shuffle cs (sorted_slices m))) data =
    hosts_text key (map (\<lambda>a. a @ [CHR 9] @ join '' '' (sorted_list_of_set (names a))) (sorted_list_of_set A)) data"
proof (rule hosts_text_order)
  let ?line = "\<lambda>a. a @ [CHR 9] @ join '' '' (sorted_list_of_set (names a))"
  have "names a = set (sl_elems s)" if "(a, s) \<in> set m" for a s
    using assms(1) that by (simp add: listed_lookup flip: assms(2))
  then have "map (\<lambda>(a, s). host_line a (sl_elems s)) (sorted_slices m) = map ?line (map fst m)"
    by (auto simp: sorted_slices_def host_line_sorted)
  then have "image_mset (\<lambda>(a, s). host_line a (sl_elems s)) (mset (sorted_slices m)) = image_mset ?line (mset (map fst m))"
    by (simp flip: mset_map)
  moreover have "mset (map fst m) = mset (sorted_list_of_set A)"
    using assms(1,3) set_eq_iff_mset_eq_distinct [of "map fst m" "sorted_list_of_set A"]
    by (metis distinct_sorted_list_of_set list.set_map finite_imageI finite_set set_sorted_list_of_set)
  ultimately show "mset (map (\<lambda>(a, s). host_line a (sl_elems s)) (shuffle cs (sorted_slices m))) =
      mset (map ?line (sorted_list_of_set A))" by simp
qed

text \<open>The text the code computes is the text of the contract, in whatever order the maps are visited.\<close>

lemma text_is_contract:
  fixes e :: "'w hosts_env"
  assumes "gm_ok (hp_primary h)" and ps: "pkvs = shuffle cs1 (hp_primary h)" and fs: "fkvs = shuffle cs2 (hp_fallbacks h)"
  defines "m \<equiv> fold (add_fallback e (concat (map (\<lambda>kv. sl_elems (snd kv)) pkvs))) fkvs (shared_primary pkvs)"
  shows "hosts_text (hp_Key h) (map (\<lambda>(a, s). host_line a (sl_elems s)) (shuffle cs3 (sorted_slices m))) data =
    contract_text (hx_IPString e) h data"
proof -
  let ?ex = "concat (map (\<lambda>kv. sl_elems (snd kv)) pkvs)"
  have sets: "set pkvs = set (hp_primary h)" "set fkvs = set (hp_fallbacks h)"
    using ps fs by (metis mset_shuffle set_mset_mset)+
  then have ex: "set ?ex = primary_names h" by (auto simp: primary_names_def)
  have "mset (map fst pkvs) = mset (map fst (hp_primary h))" by (simp add: ps)
  then have ok: "gm_ok (shared_primary pkvs)"
    using assms(1) mset_eq_imp_distinct_iff shared_primary_simps(1) by metis
  note steps = add_fallbacks [OF ok, of e ?ex fkvs, folded m_def]
  have "listed sl_elems m a = names_at (hx_IPString e) h a" for a
    using steps [of a] unfolding ex sets shared_primary_simps by (simp add: names_at_def fallback_at_def listed_def sets)
  moreover have "fst ` set m = known_addresses (hx_IPString e) h"
  proof -
    have "fst ` set (shared_primary pkvs) = fst ` set (hp_primary h)"
      using shared_primary_simps(1) sets by (metis list.set_map)
    then show ?thesis using steps unfolding ex sets by (auto simp: known_addresses_def fallback_at_def)
  qed
  ultimately show ?thesis
    unfolding contract_text_def by (intro lines_by_address) (simp_all add: steps)
qed

text \<open>Reading, comparing and writing: the file was read, and it has been seen with its new text.\<close>

definition seen :: "'w hosts_env \<Rightarrow> string \<Rightarrow> string \<Rightarrow> bool" where
  "seen e p text \<longleftrightarrow> (\<exists>w w'. hx_ReadFile e p w = (Inr text, w'))"

definition wrote_from :: "'w hosts_env \<Rightarrow> string \<Rightarrow> (string \<Rightarrow> string) \<Rightarrow> hosts_event list
    \<Rightarrow> go_error option \<Rightarrow> (Provider, 'w, hosts_event) sys \<Rightarrow> bool" where
  "wrote_from e p T tr x s \<longleftrightarrow> (\<exists>data rs. length rs \<le> 10 \<and> trace s = tr @ map (HostsWritten p (T data)) rs \<and>
     (x = None \<longrightarrow> seen e p data \<and> seen e p (T data)))"

lemma wrote_fromI: "wrote 10 p (T data) h tr s \<Longrightarrow> (x = None \<Longrightarrow> seen e p data \<and> seen e p (T data)) \<Longrightarrow> wrote_from e p T tr x s"
  unfolding wrote_def wrote_from_def by blast

lemma records_spec:
  fixes e :: "'w hosts_env"
  assumes T: "\<And>cs data. hosts_text key (map (\<lambda>(a, s). host_line a (sl_elems s)) (shuffle cs (sorted_slices m))) data = T data"
  shows "hoare (\<lambda>u. self u = h \<and> trace u = tr) (updateHostsFileWithRecords e p key m)
    (\<lambda>(x, _). wrote_from e p T tr x) (\<lambda>_. False)"
proof -
  have start: "wrote 0 p b h tr u" if "self u = h" "trace u = tr" for b and u :: "(Provider, 'w, hosts_event) sys"
    using that by (simp add: wrote_def)
  have early: "wrote_from e p T tr (Some err) u" if "self u = h" "trace u = tr" for err u
    using that by (auto simp: wrote_from_def intro!: exI [of _ "[]"])
  have writing: "hoare (\<lambda>u. (self u = h \<and> trace u = tr) \<and> seen e p data) (bind (pseudoAtomicWrite e p (T data) mode)
      (\<lambda>r. ret (map_option (Wrap ''error writing file'') r, m'))) (\<lambda>(x, _). wrote_from e p T tr x) (\<lambda>_. False)" for data mode m'
    unfolding pseudoAtomicWrite_def
    apply (rule hoare_pure)
    apply (rule hoare_bind [where R = "\<lambda>x s. wrote 10 p (T data) h tr s \<and> (x = None \<longrightarrow> (\<exists>w. hx_ReadFile e p w = (Inr (T data), world s)))"])
     apply (rule hoare_conseq [OF write_attempts_spec [where k = 0 and b = "T data" and h = h and tr = tr and n = 10]]; simp add: start)
    by (rule hoare_ret) (auto intro!: wrote_fromI [where data = data and h = h] exI simp: seen_def)
  show ?thesis
    unfolding updateHostsFileWithRecords_def
    apply (rule hoare_bind [OF hoare_ask [where Q = "\<lambda>_ u. self u = h \<and> trace u = tr"]], simp)
    apply (rule hoare_case_sum)
     apply (rule hoare_ret, simp add: early)
    apply (rule hoare_bind [OF hoare_ask [where Q = "\<lambda>r u. (self u = h \<and> trace u = tr) \<and> (\<forall>d. r = Inr d \<longrightarrow> seen e p d)"]])
     apply (auto simp: seen_def)[1]
    apply (rule hoare_case_sum)
     apply (rule hoare_ret, simp add: early)
    subgoal for r mode r' data
    apply (rule hoare_bind [OF hoare_range_map [where Q = "\<lambda>r u. ((self u = h \<and> trace u = tr) \<and> seen e p data) \<and> (\<exists>cs. r = shuffle cs (sorted_slices m))"]])
     apply auto[1]
    apply (rule hoare_pure)
    apply (clarsimp simp: T Let_def)
    apply (intro conjI impI hoare_ret)
     apply (auto simp: wrote_def T intro!: wrote_fromI [of p T data h])[1]
    using writing [of data mode "sorted_slices m"] by simp
    done
qed


lemma update_spec:
  assumes ok: "gm_ok (hp_primary (self s))" and run: "update e s = (r, s')"
  shows "\<exists>x. r = Ret x \<and> wrote_from e ''/etc/hosts'' (contract_text (hx_IPString e) (self s)) (trace s) x s'"
proof -
  let ?T = "contract_text (hx_IPString e) (self s)" and ?p = "''/etc/hosts''"
  obtain cs1 w1 where 1: "range_map (hx_rt e) (hp_primary (self s)) s = (Ret (shuffle cs1 (hp_primary (self s))), s\<lparr>world := w1\<rparr>)"
    using range_map_eval [of "hx_rt e" "hp_primary (self s)" s] by auto
  obtain cs2 w2 where 2: "range_map (hx_rt e) (hp_fallbacks (self s)) (s\<lparr>world := w1\<rparr>) =
      (Ret (shuffle cs2 (hp_fallbacks (self s))), s\<lparr>world := w1, world := w2\<rparr>)"
    using range_map_eval [of "hx_rt e" "hp_fallbacks (self s)" "s\<lparr>world := w1\<rparr>"] by auto
  define m where "m = fold (add_fallback e (concat (map (\<lambda>kv. sl_elems (snd kv)) (shuffle cs1 (hp_primary (self s))))))
    (shuffle cs2 (hp_fallbacks (self s))) (shared_primary (shuffle cs1 (hp_primary (self s))))"
  obtain r1 s1 where 3: "updateHostsFileWithRecords e ?p (hp_Key (self s)) m (s\<lparr>world := w2\<rparr>) = (r1, s1)"
    by fastforce
  have "hoare (\<lambda>u. self u = self s \<and> trace u = trace s) (updateHostsFileWithRecords e ?p (hp_Key (self s)) m)
      (\<lambda>(x, _). wrote_from e ?p ?T (trace s) x) (\<lambda>_. False)"
    by (rule records_spec) (unfold m_def, rule text_is_contract [OF ok refl refl])
  note ends = hoare_RetD [OF this, of "s\<lparr>world := w2\<rparr>"] hoare_PanicD [OF this, of "s\<lparr>world := w2\<rparr>"]
  obtain x m' where r1: "r1 = Ret (x, m')" and w: "wrote_from e ?p ?T (trace s) x s1"
    using ends 3 by (cases r1) fastforce+
  have "r = Ret x \<and> trace s' = trace s1"
    using run 1 2 3 r1 by (auto simp: update_def bind_apply get_self_def upd_self_def ret_apply Let_def m_def)
  with w show ?thesis by (simp add: wrote_from_def)
qed

section \<open>Properties\<close>

text \<open>
  C13. The update implements the contract of \<^verbatim>\<open>dns.Provider\<close>. It returns, it writes at most ten times and always the
  text that the contract demands for the contents it has read (every address with its primary names and with those fallback names
  that are not a primary name of any address, sorted and without repetition, whatever the order of the maps), and when it
  reports success the file has been read with exactly that text.
\<close>

theorem update_meets_contract:
  assumes "gm_ok (hp_primary (self s))" and "update e s = (r, s')"
  shows "\<exists>x data rs. r = Ret x \<and> length rs \<le> 10 \<and>
    trace s' = trace s @ map (HostsWritten ''/etc/hosts'' (contract_text (hx_IPString e) (self s) data)) rs \<and>
    (x = None \<longrightarrow> seen e ''/etc/hosts'' data \<and> seen e ''/etc/hosts'' (contract_text (hx_IPString e) (self s) data))"
  using update_spec [OF assms] unfolding wrote_from_def by blast

text \<open>A file system that holds one file and loses no write.\<close>

definition one_file_env :: "string hosts_env" where
  "one_file_env = \<lparr>hx_rt = const_rt 0, hx_Stat = (\<lambda>_ w. (Inr 420, w)), hx_ReadFile = (\<lambda>_ w. (Inr w, w)),
     hx_WriteFile = (\<lambda>_ b _ _. (None, b)), hx_rand = (\<lambda>w. (7, w)), hx_Sleep = (\<lambda>_ w. ((), w)),
     hx_CreateTemp = (\<lambda>_ _ w. (Inr ''t'', w)), hx_WriteTemp = (\<lambda>_ _ w. (None, w)), hx_CloseTemp = (\<lambda>_ w. (None, w)),
     hx_Chmod = (\<lambda>_ _ w. (None, w)), hx_Rename = (\<lambda>_ _ w. (None, w)), hx_Remove = (\<lambda>_ w. (None, w)),
     hx_IPString = id\<rparr>"

definition demo_hosts :: Provider where
  "demo_hosts = \<lparr>hp_Key = ''k'', hp_primary = [(''10.0.0.1'', \<lparr>sl_elems = [''a''], sl_spare = 0\<rparr>)],
     hp_fallbacks = [(''a'', [''10.0.0.9'']), (''b'', [''10.0.0.1''])]\<rparr>"

definition demo_start :: "(Provider, string, hosts_event) sys" where
  "demo_start = \<lparr>self = demo_hosts, world = ''x'', trace = []\<rparr>"

lemma write_one_file:
  "pseudoAtomicWrite one_file_env p b mode s = (Ret None, s\<lparr>world := b, trace := trace s @ [HostsWritten p b None]\<rparr>)"
proof -
  have "write_attempts (Suc 9) one_file_env p b mode s = (Ret None, s\<lparr>world := b, trace := trace s @ [HostsWritten p b None]\<rparr>)"
    by (simp only: write_attempts.simps) (simp add: one_file_env_def go_run)
  then show ?thesis by (simp add: pseudoAtomicWrite_def)
qed

lemmas hosts_run = go_run update_def updateHostsFileWithRecords_def write_one_file
  shared_primary_def add_fallback_def append_host_def nil_slice_def sorted_slices_def seen_through_def

lemma one_file_simps:
  "hx_rt one_file_env = const_rt 0" "hx_Stat one_file_env p w = (Inr 420, w)" "hx_ReadFile one_file_env p w = (Inr w, w)"
  "hx_IPString one_file_env = id" "rt_order (const_rt 0) w = ([], w)" "shuffle [] xs = xs"
  by (simp_all add: one_file_env_def const_rt_def) (cases xs, simp_all)

lemma demo_update: "fst (update one_file_env demo_start) = Ret None"
  by (simp add: hosts_run one_file_simps demo_start_def demo_hosts_def Let_def cong: frozen_bind)

theorem update_meets_contract_witness:
  "\<exists>data rs. length rs \<le> 10 \<and>
    trace (snd (update one_file_env demo_start)) = map (HostsWritten ''/etc/hosts'' (contract_text id demo_hosts data)) rs \<and>
    seen one_file_env ''/etc/hosts'' (contract_text id demo_hosts data)"
proof -
  have "update one_file_env demo_start = (Ret None, snd (update one_file_env demo_start))"
    using demo_update by (metis prod.collapse)
  from update_meets_contract [OF _ this] show ?thesis
    by (auto simp: demo_start_def demo_hosts_def one_file_env_def)
qed

text \<open>
  Rewriting absorbs: what an earlier update wrote into the guarded block leaves no trace in the text of a later one, and
  repeating an update changes nothing, so that the file is left alone.
\<close>

theorem rewriting_absorbs:
  assumes "good_key key" and "\<forall>l \<in> set lines1. CHR 10 \<notin> set l \<and> inner key l"
  shows "hosts_text key lines2 (hosts_text key lines1 data) = hosts_text key lines2 data"
  using assms by (rule hosts_text_absorbs)

lemma demo_lines:
  "good_key ''main''" "\<forall>l \<in> set [''10.0.0.1 a'']. CHR 10 \<notin> set l \<and> inner ''main'' l"
  by (simp_all add: good_key_def inner_def guardEnd_eq TrimSpace_def is_space_def)

theorem rewriting_absorbs_witness:
  "hosts_text ''main'' [''10.0.0.2 b''] (hosts_text ''main'' [''10.0.0.1 a''] ''127.0.0.1 localhost'') =
   hosts_text ''main'' [''10.0.0.2 b''] ''127.0.0.1 localhost''"
  using demo_lines by (rule rewriting_absorbs)

text \<open>
  The lines of others survive: in a file with one guarded block the new text keeps every line before and after the
  block in its order (but for one blank line after the block and blank lines at the end), and exactly one block follows them.
\<close>

theorem foreign_lines_survive:
  assumes "good_key key" and "\<forall>l \<in> set pre \<union> set post \<union> set lines. CHR 10 \<notin> set l"
    and "\<forall>l \<in> set pre \<union> set post. foreign key l" and "\<forall>l \<in> set body. CHR 10 \<notin> set l \<and> inner key l"
  shows "split_on (CHR 10) (hosts_text key lines (join [CHR 10] (pre @ [guardBegin key] @ body @ [guardEnd key] @ post))) =
    drop_blank (pre @ skip_blank post) @ [[]] @ [guardBegin key] @ sort lines @ [guardEnd key, []]"
  using assms by (rule hosts_text_around)

theorem foreign_lines_survive_witness:
  "split_on (CHR 10) (hosts_text ''main'' [''new''] (join [CHR 10] ([''x''] @ [guardBegin ''main''] @ [''old''] @ [guardEnd ''main''] @ [[], ''y'']))) =
   [''x'', ''y''] @ [[]] @ [guardBegin ''main''] @ [''new''] @ [guardEnd ''main'', []]"
  by (subst foreign_lines_survive)
    (simp_all add: good_key_def foreign_def inner_def guardBegin_eq guardEnd_eq TrimSpace_def is_space_def drop_blank_def skip_blank_def)

text \<open>
  A primary name can get lost. The slices that are sorted in place may share their array with a slice of \<^verbatim>\<open>primary\<close>: with
  three primary names in an array of four, one more fallback name for the address makes the provider forget a primary name,
  which the next update then no longer writes.
\<close>

definition crowded :: Provider where
  "crowded = \<lparr>hp_Key = ''k'', hp_primary = [(''10.0.0.1'', \<lparr>sl_elems = [''b'', ''c'', ''d''], sl_spare = 1\<rparr>)],
     hp_fallbacks = [(''a'', [''10.0.0.1''])]\<rparr>"

theorem sorting_forgets_a_primary_name:
  "hp_primary (self (snd (update one_file_env \<lparr>self = crowded, world = [], trace = []\<rparr>))) =
     [(''10.0.0.1'', \<lparr>sl_elems = [''a'', ''b'', ''c''], sl_spare = 1\<rparr>)]"
  by (simp add: hosts_run one_file_simps crowded_def Let_def cong: frozen_bind)

end
