(* ===== verification/Locking.thy ===== *)
theory Locking
  imports Go_Strings Go_Time Go_Monad
begin

text \<open>
  The locks of \<^verbatim>\<open>pkg/locking\<close>: a lock that is held while a file has a certain content (\<^verbatim>\<open>FSContentLock\<close>), and one
  that is held through \<^verbatim>\<open>flock\<close> (\<^verbatim>\<open>FSFlockLock\<close>). The file at the path of the content lock is the state that its clients
  share (\<open>None\<close>: it does not exist); which file operations fail, JSON, SHA-256 and the kernel's \<^verbatim>\<open>flock\<close> are parameters.
\<close>

section \<open>The content lock\<close>

record LockInfo =
  li_Holder :: string
  li_Timestamp :: int

record FSContentLock =
  fl_p :: string

record FSContentLockGuard =
  fg_p :: string
  fg_data :: string
  fg_id :: string

datatype lock_op = OpOpen | OpRead | OpTruncate | OpWriteAt | OpSync | OpClose

record 'w lock_env =
  lx_rt :: "'w runtime"
  lx_ctxErr :: "'w \<Rightarrow> go_error option \<times> 'w"
  lx_ToJSON :: "LockInfo \<Rightarrow> go_error + string"
  lx_Unmarshal :: "string \<Rightarrow> go_error + LockInfo"
  lx_hash :: "string \<Rightarrow> string"
  lx_fails :: "lock_op \<Rightarrow> 'w \<Rightarrow> go_error option \<times> 'w"
  lx_written :: "'w \<Rightarrow> nat \<times> 'w"

type_synonym lock_file = "string option"
type_synonym ('w, 'a) lock_go = "((lock_file, 'w, unit) sys, 'a) go"

text \<open>Operations of \<^verbatim>\<open>os.File\<close>: one that fails has no effect, but a failing write may have written some bytes.\<close>

definition file_op :: "'w lock_env \<Rightarrow> lock_op \<Rightarrow> (lock_file \<Rightarrow> lock_file) \<Rightarrow> ('w, go_error option) lock_go" where
  "file_op e op effect = bind (ask (lx_fails e op)) (\<lambda>r. case r of
     Some err \<Rightarrow> ret (Some err)
   | None \<Rightarrow> bind (upd_self effect) (\<lambda>_. ret None))"

definition read_all :: "'w lock_env \<Rightarrow> ('w, go_error + string) lock_go" where
  "read_all e = bind (ask (lx_fails e OpRead)) (\<lambda>r. case r of
     Some err \<Rightarrow> ret (Inl err)
   | None \<Rightarrow> bind (get_self (\<lambda>f. f)) (\<lambda>f. ret (Inr (case f of None \<Rightarrow> [] | Some c \<Rightarrow> c))))"

definition overwrite :: "string \<Rightarrow> lock_file \<Rightarrow> lock_file" where
  "overwrite b f = map_option (\<lambda>c. b @ drop (length b) c) f"

definition write_at_0 :: "'w lock_env \<Rightarrow> string \<Rightarrow> ('w, go_error option) lock_go" where
  "write_at_0 e b = bind (ask (lx_fails e OpWriteAt)) (\<lambda>r. case r of
     Some err \<Rightarrow> bind (ask (lx_written e)) (\<lambda>n. bind (upd_self (overwrite (take n b))) (\<lambda>_. ret (Some err)))
   | None \<Rightarrow> bind (upd_self (overwrite b)) (\<lambda>_. ret None))"

text \<open>\<^verbatim>\<open>klog.Fatalf\<close> ends the process.\<close>

definition close_or_die :: "'w lock_env \<Rightarrow> ('w, unit) lock_go" where
  "close_or_die e = bind (file_op e OpClose id) (\<lambda>r. case r of
     Some _ \<Rightarrow> panic ''error closing lock file'' | None \<Rightarrow> ret ())"

text \<open>Who holds the lock, according to the content of the file.\<close>

definition existing_holder :: "'w lock_env \<Rightarrow> string \<Rightarrow> LockInfo option" where
  "existing_holder e fileBytes = (case index_of [CHR 10] fileBytes of
     None \<Rightarrow> None
   | Some firstLF \<Rightarrow>
       if take firstLF fileBytes = lx_hash e (drop (Suc firstLF) fileBytes)
       then (case lx_Unmarshal e (drop (Suc firstLF) fileBytes) of Inl _ \<Rightarrow> None | Inr i \<Rightarrow> Some i)
       else None)"

text \<open>
  \<^verbatim>\<open>Acquire\<close> looks at the file, and if the lock is free, writes it. The first part answers with the result (no guard), or
  with the bytes to be written and whether something has to be truncated first.
\<close>

definition look :: "'w lock_env \<Rightarrow> FSContentLock \<Rightarrow> string \<Rightarrow> ('w, go_error option + string \<times> bool) lock_go" where
  "look e l ident = bind (ask (lx_ctxErr e)) (\<lambda>r. case r of
     Some err \<Rightarrow> ret (Inl (Some err))
   | None \<Rightarrow>
     bind (time_now (lx_rt e)) (\<lambda>now.
     case lx_ToJSON e \<lparr>li_Holder = ident, li_Timestamp = time_Unix now\<rparr> of
       Inl err \<Rightarrow> ret (Inl (Some (Wrap ''error serializing lock info'' err)))
     | Inr b \<Rightarrow>
       let lockBytes = lx_hash e b @ [CHR 10] @ b in
       bind (file_op e OpOpen (\<lambda>f. case f of None \<Rightarrow> Some [] | Some c \<Rightarrow> Some c)) (\<lambda>r. case r of
         Some err \<Rightarrow> ret (Inl (Some (Wrap ''error creating lock file'' err)))
       | None \<Rightarrow>
         bind (read_all e) (\<lambda>r. case r of
           Inl err \<Rightarrow> bind (close_or_die e) (\<lambda>_. ret (Inl (Some (Wrap ''error reading lock file'' err))))
         | Inr fileBytes \<Rightarrow>
             if fileBytes = [] then ret (Inr (lockBytes, False))
             else if existing_holder e fileBytes \<noteq> None then bind (close_or_die e) (\<lambda>_. ret (Inl None))
             else ret (Inr (lockBytes, True))))))"

definition take_it :: "'w lock_env \<Rightarrow> FSContentLock \<Rightarrow> string \<Rightarrow> string \<times> bool
    \<Rightarrow> ('w, FSContentLockGuard option \<times> go_error option) lock_go" where
  "take_it e l ident = (\<lambda>(lockBytes, nonempty).
     bind (if nonempty then file_op e OpTruncate (map_option (\<lambda>_. [])) else ret None) (\<lambda>r. case r of
       Some err \<Rightarrow> bind (close_or_die e) (\<lambda>_. ret (None, Some (Wrap ''failed to truncate file after failed read'' err)))
     | None \<Rightarrow>
       bind (write_at_0 e lockBytes) (\<lambda>r.
       bind (case r of Some err \<Rightarrow> ret (Some err) | None \<Rightarrow> file_op e OpSync id) (\<lambda>r.
       bind (case r of Some _ \<Rightarrow> file_op e OpTruncate (map_option (\<lambda>_. [])) | None \<Rightarrow> ret None) (\<lambda>_.
       bind (close_or_die e) (\<lambda>_. case r of
         Some err \<Rightarrow> ret (None, Some (Wrap ''error creating lock file'' err))
       | None \<Rightarrow> ret (Some \<lparr>fg_p = fl_p l, fg_data = lockBytes, fg_id = ident\<rparr>, None)))))))"

definition Acquire :: "'w lock_env \<Rightarrow> FSContentLock \<Rightarrow> string
    \<Rightarrow> ('w, FSContentLockGuard option \<times> go_error option) lock_go" where
  "Acquire e l ident = bind (look e l ident) (\<lambda>r. case r of Inl err \<Rightarrow> ret (None, err) | Inr x \<Rightarrow> take_it e l ident x)"

definition Release :: "'w lock_env \<Rightarrow> FSContentLockGuard \<Rightarrow> ('w, go_error option) lock_go" where
  "Release e g =
     bind (get_self (\<lambda>f. f)) (\<lambda>f.
     bind (if f = None then ret (Some NotExist) else file_op e OpOpen id) (\<lambda>r. case r of
       Some err \<Rightarrow> ret (Some (Wrap ''error opening file'' err))
     | None \<Rightarrow>
       bind (read_all e) (\<lambda>r. case r of
         Inl err \<Rightarrow> bind (close_or_die e) (\<lambda>_. ret (Some (Wrap ''error reading lock file'' err)))
       | Inr fileBytes \<Rightarrow>
           if fileBytes \<noteq> fg_data g then bind (close_or_die e) (\<lambda>_. ret (Some (Errorf ''lock file changed'')))
           else bind (file_op e OpTruncate (map_option (\<lambda>_. []))) (\<lambda>r. case r of
             Some err \<Rightarrow> bind (close_or_die e) (\<lambda>_. ret (Some (Wrap ''failed to truncate file after failed write'' err)))
           | None \<Rightarrow>
             bind (file_op e OpClose id) (\<lambda>r.
             ret (map_option (Wrap ''error closing file as part of unlock'') r))))))"

section \<open>The flock\<close>

datatype flock_error = EWOULDBLOCK | Errno go_error

datatype flock_event = FlOpened nat | FlLocked nat | FlUnlocked nat | FlClosed nat

record 'w flock_env =
  kx_ctxErr :: "'w \<Rightarrow> go_error option \<times> 'w"
  kx_OpenFile :: "string \<Rightarrow> 'w \<Rightarrow> (go_error + nat) \<times> 'w"
  kx_lock :: "nat \<Rightarrow> 'w \<Rightarrow> flock_error option \<times> 'w"
  kx_unlock :: "nat \<Rightarrow> 'w \<Rightarrow> flock_error option \<times> 'w"
  kx_Close :: "nat \<Rightarrow> 'w \<Rightarrow> go_error option \<times> 'w"

record FSFlockLockGuard =
  kg_p :: string
  kg_file :: nat

type_synonym ('w, 'a) flock_go = "((unit, 'w, flock_event) sys, 'a) go"

definition close_fd :: "'w flock_env \<Rightarrow> nat \<Rightarrow> ('w, go_error option) flock_go" where
  "close_fd e fd = act (kx_Close e fd) (\<lambda>_. FlClosed fd)"

definition flock_Acquire :: "'w flock_env \<Rightarrow> string \<Rightarrow> string
    \<Rightarrow> ('w, FSFlockLockGuard option \<times> go_error option) flock_go" where
  "flock_Acquire e p ident = bind (ask (kx_ctxErr e)) (\<lambda>r. case r of
     Some err \<Rightarrow> ret (None, Some err)
   | None \<Rightarrow>
     bind (ask (kx_OpenFile e p)) (\<lambda>r. case r of
       Inl err \<Rightarrow> ret (None, Some (Wrap ''error opening lock file'' err))
     | Inr fd \<Rightarrow>
       bind (emit (FlOpened fd)) (\<lambda>_.
       bind (ask (kx_lock e fd)) (\<lambda>r. case r of
         Some err \<Rightarrow> bind (close_fd e fd) (\<lambda>_. ret (case err of
             EWOULDBLOCK \<Rightarrow> (None, None)
           | Errno err' \<Rightarrow> (None, Some (Wrap ''unexpected result from flock(LOCK_EX)'' err'))))
       | None \<Rightarrow> bind (emit (FlLocked fd)) (\<lambda>_. ret (Some \<lparr>kg_p = p, kg_file = fd\<rparr>, None))))))"

definition flock_Release :: "'w flock_env \<Rightarrow> FSFlockLockGuard \<Rightarrow> ('w, go_error option) flock_go" where
  "flock_Release e g =
     bind (ask (kx_unlock e (kg_file g))) (\<lambda>r. case r of
       Some err \<Rightarrow> bind (close_fd e (kg_file g)) (\<lambda>_.
         ret (Some (case err of EWOULDBLOCK \<Rightarrow> Errorf ''unexpected result from flock(LOCK_UN)''
           | Errno err' \<Rightarrow> Wrap ''unexpected result from flock(LOCK_UN)'' err')))
     | None \<Rightarrow>
       bind (emit (FlUnlocked (kg_file g))) (\<lambda>_.
       bind (close_fd e (kg_file g)) (\<lambda>r.
       ret (map_option (\<lambda>_. Errorf ''unexpected result from closing lock file'') r))))"

section \<open>What the operations do\<close>

text \<open>A hash in hexadecimal has no line feed, and what \<^verbatim>\<open>json.Marshal\<close> produces \<^verbatim>\<open>json.Unmarshal\<close> accepts.\<close>

definition codec_ok :: "'w lock_env \<Rightarrow> bool" where
  "codec_ok e \<longleftrightarrow> (\<forall>b. CHR 10 \<notin> set (lx_hash e b)) \<and> (\<forall>i b. lx_ToJSON e i = Inr b \<longrightarrow> (\<exists>j. lx_Unmarshal e b = Inr j))"

definition held :: "'w lock_env \<Rightarrow> lock_file \<Rightarrow> bool" where
  "held e f \<longleftrightarrow> (\<exists>c. f = Some c \<and> c \<noteq> [] \<and> existing_holder e c \<noteq> None)"

definition lock_text :: "'w lock_env \<Rightarrow> string \<Rightarrow> bool" where
  "lock_text e d \<longleftrightarrow> (\<exists>i b. lx_ToJSON e i = Inr b \<and> d = lx_hash e b @ [CHR 10] @ b)"

lemma index_of_line: "CHR 10 \<notin> set h \<Longrightarrow> index_of [CHR 10] (h @ CHR 10 # b) = Some (length h)"
  by (induction h) (auto simp: HasPrefix_def)

lemma lock_text_held: "codec_ok e \<Longrightarrow> lock_text e d \<Longrightarrow> held e (Some d)"
  by (fastforce simp: codec_ok_def lock_text_def held_def existing_holder_def index_of_line)

text \<open>Looking changes nothing but that the file exists.\<close>

definition touch :: "lock_file \<Rightarrow> lock_file" where
  "touch f = (case f of None \<Rightarrow> Some [] | Some c \<Rightarrow> Some c)"

lemma look_spec:
  "hoare (\<lambda>s. self s = f) (look e l ident)
     (\<lambda>r s. (self s = f \<or> self s = touch f) \<and> (case r of
        Inl err \<Rightarrow> err = None \<longrightarrow> held e f
      | Inr (d, nonempty) \<Rightarrow> lock_text e d \<and> \<not> held e f \<and> self s = touch f \<and> (\<not> nonempty \<longrightarrow> self s = Some [])))
     (\<lambda>s. self s = f \<or> self s = touch f)"
  unfolding hoare_def look_def
  by (auto simp: go_run file_op_def read_all_def close_or_die_def touch_def held_def lock_text_def Let_def
      split: prod.splits option.splits sum.splits outcome.splits if_splits)

lemma take_it_spec:
  assumes "\<not> nonempty \<longrightarrow> c = []"
  shows "hoare (\<lambda>s. self s = Some c) (take_it e l ident (d, nonempty))
     (\<lambda>(g, err) s. case g of Some gd \<Rightarrow> err = None \<and> fg_data gd = d \<and> self s = Some d | None \<Rightarrow> err \<noteq> None) (\<lambda>_. True)"
  using assms unfolding hoare_def take_it_def
  by (auto simp: go_run file_op_def write_at_0_def overwrite_def close_or_die_def
      split: prod.splits option.splits sum.splits outcome.splits if_splits)

text \<open>A whole \<^verbatim>\<open>Acquire\<close>: it grants the lock only when it is free, and does not touch a lock that is held.\<close>

lemma look_ends:
  assumes "look e l ident s = (r, s')"
  shows "self s' = self s \<or> self s' = touch (self s)"
    and "r = Ret (Inl err) \<Longrightarrow> err = None \<Longrightarrow> held e (self s)"
    and "r = Ret (Inr (d, n)) \<Longrightarrow> lock_text e d \<and> \<not> held e (self s) \<and> self s' = touch (self s) \<and> (\<not> n \<longrightarrow> self s' = Some [])"
proof -
  note spec = look_spec [of "self s" e l ident]
  show "self s' = self s \<or> self s' = touch (self s)"
    using hoare_RetD [OF spec refl] hoare_PanicD [OF spec refl] assms by (cases r) auto
  show "r = Ret (Inl err) \<Longrightarrow> err = None \<Longrightarrow> held e (self s)"
    "r = Ret (Inr (d, n)) \<Longrightarrow> lock_text e d \<and> \<not> held e (self s) \<and> self s' = touch (self s) \<and> (\<not> n \<longrightarrow> self s' = Some [])"
    using hoare_RetD [OF spec refl] assms by fastforce+
qed

lemma held_touch: "held e f \<Longrightarrow> touch f = f"
  by (auto simp: held_def touch_def)

lemma Acquire_held:
  assumes "Acquire e l ident s = (r, s')" and held: "held e (self s)"
  shows "self s' = self s \<and> r \<noteq> Ret (Some g, err)"
proof (cases "look e l ident s")
  case (Pair r1 s1)
  have "self s1 = self s" using look_ends(1) [OF Pair] held_touch [OF held] by auto
  moreover have "r1 \<noteq> Ret (Inr x)" for x using look_ends(3) [OF Pair] held by (cases x) auto
  ultimately show ?thesis
    using assms(1) Pair by (auto simp: Acquire_def bind_apply ret_apply split: outcome.splits sum.splits)
qed

lemma Acquire_granted:
  assumes "Acquire e l ident s = (Ret (Some g, err), s')"
  shows "err = None \<and> lock_text e (fg_data g) \<and> self s' = Some (fg_data g)"
proof -
  obtain d n s1 where look: "look e l ident s = (Ret (Inr (d, n)), s1)" and take: "take_it e l ident (d, n) s1 = (Ret (Some g, err), s')"
    using assms by (auto simp: Acquire_def bind_apply ret_apply split: prod.splits outcome.splits sum.splits)
  from look_ends(3) [OF look refl] have d: "lock_text e d" "self s1 = touch (self s)" "\<not> n \<longrightarrow> self s1 = Some []" by auto
  then obtain c where c: "self s1 = Some c" "\<not> n \<longrightarrow> c = []" by (auto simp: touch_def split: option.splits)
  from hoare_RetD [OF take_it_spec [OF c(2)] c(1) take] d show ?thesis by simp
qed

lemma Acquire_refused:
  assumes "Acquire e l ident s = (Ret (None, None), s')"
  shows "held e (self s)"
proof (cases "look e l ident s")
  case (Pair r1 s1)
  then consider "r1 = Ret (Inl None)" | d n where "r1 = Ret (Inr (d, n))" "take_it e l ident (d, n) s1 = (Ret (None, None), s')"
    using assms by (auto simp: Acquire_def bind_apply ret_apply split: outcome.splits sum.splits)
  then show ?thesis
  proof cases
    case 1
    with look_ends(2) [OF Pair] show ?thesis by blast
  next
    case 2
    with look_ends(3) [OF Pair] obtain c where c: "self s1 = Some c" "\<not> n \<longrightarrow> c = []"
      by (auto simp: touch_def split: option.splits)
    from hoare_RetD [OF take_it_spec [OF c(2)] c(1) 2(2)] show ?thesis by simp
  qed
qed

lemma Release_ends:
  assumes "Release e g s = (r, s')"
  shows "self s' = self s \<and> r \<noteq> Ret None \<or> self s = Some (fg_data g) \<and> self s' = Some []"
  using assms
  by (auto simp: go_run Release_def file_op_def read_all_def close_or_die_def
      split: prod.splits option.splits sum.splits outcome.splits if_splits)

section \<open>Clients one after the other\<close>

text \<open>The file and the guards that have been granted and not yet given back.\<close>

type_synonym lock_sys = "lock_file \<times> FSContentLockGuard list"

definition granted :: "(FSContentLockGuard option \<times> go_error option) outcome \<Rightarrow> FSContentLockGuard list" where
  "granted r = (case r of Ret (Some g, _) \<Rightarrow> [g] | _ \<Rightarrow> [])"

inductive lock_step :: "'w lock_env \<Rightarrow> lock_sys \<Rightarrow> lock_sys \<Rightarrow> bool" for e where
  acquire: "Acquire e l ident \<lparr>self = f, world = w, trace = []\<rparr> = (r, s') \<Longrightarrow> lock_step e (f, gs) (self s', gs @ granted r)"
| release: "g \<in> set gs \<Longrightarrow> Release e g \<lparr>self = f, world = w, trace = []\<rparr> = (r, s') \<Longrightarrow> lock_step e (f, gs) (self s', remove1 g gs)"

definition excl :: "'w lock_env \<Rightarrow> lock_sys \<Rightarrow> bool" where
  "excl e = (\<lambda>(f, gs). gs = [] \<or> (\<exists>g. gs = [g] \<and> lock_text e (fg_data g) \<and> f = Some (fg_data g)))"

lemma lock_step_excl:
  assumes "codec_ok e" and "lock_step e st st'" and "excl e st"
  shows "excl e st'"
  using assms(2,3)
proof cases
  case (acquire l ident f w r s' gs)
  show ?thesis
  proof (cases gs)
    case Nil
    then show ?thesis using acquire Acquire_granted [of e l ident "\<lparr>self = f, world = w, trace = []\<rparr>"]
      by (auto simp: excl_def granted_def split: outcome.splits option.splits)
  next
    case (Cons g gs')
    with assms acquire have "held e f" "gs = [g]" by (auto simp: excl_def intro: lock_text_held)
    with acquire Acquire_held [OF acquire(3), simplified] assms(3) show ?thesis
      by (auto simp: excl_def granted_def split: outcome.splits option.splits)
  qed
qed (auto simp: excl_def)

lemma clients_exclude:
  assumes "codec_ok e" and "(lock_step e)\<^sup>*\<^sup>* (f, []) st"
  shows "excl e st"
  using assms(2) by (induction rule: rtranclp_induct) (auto simp: excl_def dest: lock_step_excl [OF assms(1), unfolded excl_def])

section \<open>Clients at the same time\<close>

text \<open>Between looking at the file and writing it another client may do the same: clients that have looked wait in a list.\<close>

type_synonym race_sys = "lock_file \<times> (string \<times> string \<times> bool) list \<times> FSContentLockGuard list"

inductive race_step :: "'w lock_env \<Rightarrow> FSContentLock \<Rightarrow> race_sys \<Rightarrow> race_sys \<Rightarrow> bool" for e l where
  looks: "look e l ident \<lparr>self = f, world = w, trace = []\<rparr> = (Ret (Inr x), s') \<Longrightarrow>
    race_step e l (f, ps, gs) (self s', ps @ [(ident, x)], gs)"
| takes: "(ident, x) \<in> set ps \<Longrightarrow> take_it e l ident x \<lparr>self = f, world = w, trace = []\<rparr> = (r, s') \<Longrightarrow>
    race_step e l (f, ps, gs) (self s', remove1 (ident, x) ps, gs @ granted r)"

text \<open>Files, clock and codecs that work.\<close>

definition no_faults :: "'w lock_env \<Rightarrow> bool" where
  "no_faults e \<longleftrightarrow> (\<forall>op w. fst (lx_fails e op w) = None) \<and> (\<forall>w. fst (lx_ctxErr e w) = None) \<and> (\<forall>i. \<exists>b. lx_ToJSON e i = Inr b)"

definition demo_lock_env :: "unit lock_env" where
  "demo_lock_env = \<lparr>lx_rt = const_rt 0, lx_ctxErr = (\<lambda>w. (None, w)), lx_ToJSON = (\<lambda>i. Inr (li_Holder i)),
     lx_Unmarshal = (\<lambda>b. Inr \<lparr>li_Holder = b, li_Timestamp = 0\<rparr>), lx_hash = (\<lambda>b. ''h''),
     lx_fails = (\<lambda>_ w. (None, w)), lx_written = (\<lambda>w. (0, w))\<rparr>"

lemmas lock_run = go_run look_def take_it_def Acquire_def Release_def file_op_def read_all_def write_at_0_def overwrite_def
  close_or_die_def demo_lock_env_def const_rt_def Let_def

lemma demo_codec: "codec_ok demo_lock_env" "no_faults demo_lock_env"
  by (simp_all add: codec_ok_def no_faults_def demo_lock_env_def)

lemma faultless:
  "no_faults e \<Longrightarrow> lx_fails e op w \<noteq> (Some err, w')" "no_faults e \<Longrightarrow> lx_ctxErr e w \<noteq> (Some err, w')"
  "no_faults e \<Longrightarrow> lx_ToJSON e i \<noteq> Inl err"
  unfolding no_faults_def by (metis fst_conv option.distinct(1), metis fst_conv option.distinct(1), metis Inl_Inr_False)

lemma look_ok: "no_faults e \<Longrightarrow> \<exists>r s'. look e l ident s = (Ret r, s') \<and> (\<forall>err. r = Inl err \<longrightarrow> err = None)"
  unfolding look_def
  by (auto simp: faultless go_run file_op_def read_all_def close_or_die_def Let_def
      split: prod.splits option.splits sum.splits outcome.splits if_splits)

lemma take_ok: "no_faults e \<Longrightarrow> \<exists>g s'. take_it e l ident x s = (Ret (Some g, None), s')"
  unfolding take_it_def
  by (auto simp: faultless go_run file_op_def write_at_0_def close_or_die_def
      split: prod.splits option.splits sum.splits outcome.splits if_splits)

lemma Acquire_decides:
  assumes "no_faults e"
  shows "\<exists>g s'. Acquire e l ident s = (Ret (g, None), s') \<and> (g = None \<longleftrightarrow> held e (self s))"
proof -
  obtain r s1 where look: "look e l ident s = (Ret r, s1)" and r: "\<forall>err. r = Inl err \<longrightarrow> err = None"
    using look_ok [OF assms] by blast
  show ?thesis
  proof (cases r)
    case (Inl err)
    with r look have look': "look e l ident s = (Ret (Inl None), s1)" by simp
    with look_ends(2) [OF look' refl refl] show ?thesis by (simp add: Acquire_def bind_apply ret_apply)
  next
    case (Inr x)
    with take_ok [OF assms, of l ident x s1] look
    obtain g s' where run: "Acquire e l ident s = (Ret (Some g, None), s')"
      by (auto simp: Acquire_def bind_apply)
    then show ?thesis using Acquire_held [OF run] by blast
  qed
qed

text \<open>The descriptors that \<^verbatim>\<open>flock\<close> clients open are closed, or kept by a guard that holds the lock.\<close>

lemma flock_Acquire_ends:
  assumes "flock_Acquire e p ident s = (r, s')"
  obtains (guard) fd where "r = Ret (Some \<lparr>kg_p = p, kg_file = fd\<rparr>, None)" "trace s' = trace s @ [FlOpened fd, FlLocked fd]"
  | (no_guard) err evs where "r = Ret (None, err)" "trace s' = trace s @ evs" "evs = [] \<or> (\<exists>fd. evs = [FlOpened fd, FlClosed fd])"
  using assms
  by (auto simp: flock_Acquire_def close_fd_def go_run split: prod.splits option.splits sum.splits flock_error.splits)

lemma flock_Release_ends:
  "flock_Release e g s = (r, s') \<Longrightarrow> \<exists>err evs. r = Ret err \<and> trace s' = trace s @ evs @ [FlClosed (kg_file g)] \<and>
     (err = None \<longrightarrow> evs = [FlUnlocked (kg_file g)])"
  by (auto simp: flock_Release_def close_fd_def go_run split: prod.splits option.splits sum.splits flock_error.splits)

section \<open>Properties\<close>

text \<open>
  C14. Clients that use the content lock one after the other exclude each other: whatever fails, at most one guard is out at a
  time, and while it is out the file holds its content.
\<close>

theorem content_lock_excludes:
  assumes "codec_ok e" and "(lock_step e)\<^sup>*\<^sup>* (f, []) (f', gs)"
  shows "length gs \<le> 1 \<and> (\<forall>g \<in> set gs. f' = Some (fg_data g))"
  using clients_exclude [OF assms] by (auto simp: excl_def)

definition demo_guard :: FSContentLockGuard where
  "demo_guard = \<lparr>fg_p = ''p'', fg_data = ''h'' @ [CHR 10] @ ''a'', fg_id = ''a''\<rparr>"

lemma demo_acquire:
  "Acquire demo_lock_env \<lparr>fl_p = ''p''\<rparr> ''a'' \<lparr>self = None, world = (), trace = []\<rparr> =
     (Ret (Some demo_guard, None), \<lparr>self = Some (fg_data demo_guard), world = (), trace = []\<rparr>)"
  by (simp add: lock_run demo_guard_def)

theorem content_lock_excludes_witness:
  "(lock_step demo_lock_env)\<^sup>*\<^sup>* (None, []) (Some (fg_data demo_guard), [demo_guard]) \<and> length [demo_guard] \<le> 1"
proof -
  have "(lock_step demo_lock_env)\<^sup>*\<^sup>* (None, []) (Some (fg_data demo_guard), [demo_guard])"
    using lock_step.acquire [OF demo_acquire, of "[]"] by (simp add: granted_def r_into_rtranclp)
  with content_lock_excludes [OF demo_codec(1) this] show ?thesis by blast
qed

text \<open>
  C39. A free lock is granted: when no file operation fails, an attempt always ends, and it gets a guard exactly when the
  file does not name a holder, so that a lock can be taken again once it has been released.
\<close>

theorem free_lock_is_granted:
  assumes "no_faults e"
  shows "(\<exists>g s'. Acquire e l ident s = (Ret (g, None), s') \<and> (g = None \<longleftrightarrow> held e (self s)))
    \<and> (Release e gd t = (Ret None, t') \<longrightarrow> (\<exists>g u. Acquire e l ident t' = (Ret (Some g, None), u)))"
proof -
  have "\<not> held e (self t')" if "Release e gd t = (Ret None, t')"
    using Release_ends [OF that] by (auto simp: held_def)
  then show ?thesis using Acquire_decides [OF assms] by (metis option.exhaust)
qed

theorem free_lock_is_granted_witness:
  "\<exists>g s'. Acquire demo_lock_env \<lparr>fl_p = ''p''\<rparr> ''a'' \<lparr>self = None, world = (), trace = []\<rparr> = (Ret (g, None), s') \<and>
     (g = None \<longleftrightarrow> held demo_lock_env None)"
  using free_lock_is_granted [OF demo_codec(2), of "\<lparr>fl_p = ''p''\<rparr>" "''a''" "\<lparr>self = None, world = (), trace = []\<rparr>"] by simp

text \<open>
  Clients that use the content lock at the same time do not exclude each other: two of them that both look at the file
  before either writes it both get a guard.
\<close>

theorem content_lock_is_not_atomic:
  "\<exists>f g h. (race_step demo_lock_env \<lparr>fl_p = ''p''\<rparr>)\<^sup>*\<^sup>* (None, [], []) (f, [], [g, h]) \<and> fg_id g \<noteq> fg_id h"
proof -
  let ?l = "\<lparr>fl_p = ''p''\<rparr>" and ?b = "\<lambda>i. ''h'' @ [CHR 10] @ i" and ?g = "\<lambda>i. \<lparr>fg_p = ''p'', fg_data = ''h'' @ [CHR 10] @ i, fg_id = i\<rparr>"
    and ?s = "\<lambda>f. \<lparr>self = f, world = (), trace = [] :: unit list\<rparr>"
  have look: "look demo_lock_env ?l i (?s f) = (Ret (Inr (?b i, False)), ?s (Some []))" if "f \<in> {None, Some []}" for i f
    using that by (auto simp: lock_run)
  have take: "take_it demo_lock_env ?l i (?b i, False) (?s (Some c)) =
      (Ret (Some (?g i), None), ?s (Some (?b i @ drop (length (?b i)) c)))" for i c
    by (simp add: lock_run)
  have "race_step demo_lock_env ?l (None, [], []) (Some [], [(''a'', ?b ''a'', False)], [])"
    using race_step.looks [OF look [of None "''a''"], of "[]"] by simp
  moreover have "race_step demo_lock_env ?l (Some [], [(''a'', ?b ''a'', False)], [])
      (Some [], [(''a'', ?b ''a'', False), (''b'', ?b ''b'', False)], [])"
    using race_step.looks [OF look [of "Some []" "''b''"], of "[(''a'', ?b ''a'', False)]" "[]"] by simp
  moreover have "race_step demo_lock_env ?l (Some [], [(''a'', ?b ''a'', False), (''b'', ?b ''b'', False)], [])
      (Some (?b ''a''), [(''b'', ?b ''b'', False)], [?g ''a''])"
    using race_step.takes [OF _ take [of "''a''" "[]"], of "[(''a'', ?b ''a'', False), (''b'', ?b ''b'', False)]" "[]"]
    by (simp add: granted_def)
  moreover have "race_step demo_lock_env ?l (Some (?b ''a''), [(''b'', ?b ''b'', False)], [?g ''a''])
      (Some (?b ''b''), [], [?g ''a'', ?g ''b''])"
    using race_step.takes [OF _ take [of "''b''" "?b ''a''"], of "[(''b'', ?b ''b'', False)]" "[?g ''a'']"]
    by (simp add: granted_def)
  ultimately have "(race_step demo_lock_env ?l)\<^sup>*\<^sup>* (None, [], []) (Some (?b ''b''), [], [?g ''a'', ?g ''b''])"
    by (meson converse_rtranclp_into_rtranclp rtranclp.rtrancl_refl)
  then show ?thesis by fastforce
qed

end
