(* ===== verification/Mounting.thy ===== *)
theory Mounting
  imports Go_Strings Go_Monad
begin

text \<open>
  Finding, attaching and mounting the volume of a node at start-up (\<^verbatim>\<open>pkg/volumes\<close>: \<^verbatim>\<open>mounter.go\<close>, \<^verbatim>\<open>boot.go\<close>,
  \<^verbatim>\<open>retry.go\<close>). The cloud's volumes are behind the interface \<^verbatim>\<open>Volumes\<close>, whose operations are parts of the environment that may
  also end the process; what the mounter needs of them is the locale \<open>volume_provider\<close>, which the theories of the providers
  interpret. The mount utilities of Kubernetes and the operating system are parameters.
\<close>

section \<open>Volumes and the environment\<close>

record Volume =
  v_MountName :: string
  v_ProviderID :: string
  v_EtcdName :: string
  v_LocalDevice :: string
  v_AttachedTo :: string
  v_Mountpoint :: string
  v_Status :: string
  v_Description :: string

datatype mount_event =
    EvAttach Volume "go_error option"
  | EvFormatAndMount string string "go_error option"
  | EvResize string string "go_error option"
  | EvMountInside string string "go_error option"

record 'w mount_env =
  mx_rt :: "'w runtime"
  mx_Containerized :: bool
  mx_FindVolumes :: "('w, go_error + Volume list) go"
  mx_AttachVolume :: "Volume \<Rightarrow> ('w, go_error option \<times> Volume) go"
  mx_FindMountedVolume :: "Volume \<Rightarrow> ('w, go_error + string) go"
  mx_Stat :: "string \<Rightarrow> 'w \<Rightarrow> go_error option \<times> 'w"
  mx_MkdirAll :: "string \<Rightarrow> 'w \<Rightarrow> go_error option \<times> 'w"
  mx_NewNsenter :: "'w \<Rightarrow> go_error option \<times> 'w"
  mx_List :: "'w \<Rightarrow> (go_error + (string \<times> string) list) \<times> 'w"
  mx_FormatAndMount :: "string \<Rightarrow> string \<Rightarrow> string \<Rightarrow> 'w \<Rightarrow> go_error option \<times> 'w"
  mx_Resize :: "string \<Rightarrow> string \<Rightarrow> 'w \<Rightarrow> go_error option \<times> 'w"
  mx_GetDeviceName :: "string \<Rightarrow> 'w \<Rightarrow> (go_error + string) \<times> 'w"
  mx_Mount :: "string \<Rightarrow> string \<Rightarrow> string \<Rightarrow> 'w \<Rightarrow> go_error option \<times> 'w"
  mx_EvalSymlinks :: "string \<Rightarrow> 'w \<Rightarrow> (go_error + string) \<times> 'w"
  mx_Abs :: "string \<Rightarrow> 'w \<Rightarrow> (go_error + string) \<times> 'w"
  mx_Sleep :: "duration \<Rightarrow> 'w \<Rightarrow> unit \<times> 'w"
  mx_patience :: nat

record VolumeMountController =
  vm_mounted :: "Volume gomap"

type_synonym 'w mounter = "(VolumeMountController, 'w, mount_event) sys"

text \<open>A call to an operation of the environment that may itself end the process.\<close>

definition call :: "('w, 'a) go \<Rightarrow> (('st, 'w, 'ev) sys, 'a) go" where
  "call f = (\<lambda>s. case f (world s) of (r, w) \<Rightarrow> (r, s\<lparr>world := w\<rparr>))"

text \<open>A component with its own state as a part of the world of another.\<close>

definition hosted :: "(('st, 'w, 'ev) sys, 'a) go \<Rightarrow> ('st \<times> 'w, 'a) go" where
  "hosted m = (\<lambda>(st, w). case m \<lparr>self = st, world = w, trace = []\<rparr> of (r, s') \<Rightarrow> (r, (self s', world s')))"

section \<open>Retrying\<close>

text \<open>
  \<^verbatim>\<open>SleepUntil\<close>: the condition is tried as often as the backoff allows. The variable that the closure of the caller writes is passed
  from one try to the next.
\<close>

fun SleepUntil :: "nat \<Rightarrow> ('w \<Rightarrow> unit \<times> 'w) \<Rightarrow> ('x \<Rightarrow> (('st, 'w, 'ev) sys, bool \<times> go_error option \<times> 'x) go) \<Rightarrow> 'x
    \<Rightarrow> (('st, 'w, 'ev) sys, bool \<times> go_error option \<times> 'x) go" where
  "SleepUntil 0 sleep cond x = ret (False, None, x)"
| "SleepUntil (Suc n) sleep cond x = bind (cond x) (\<lambda>(ok, err, x').
     if err \<noteq> None \<or> ok then ret (ok, err, x')
     else if n = 0 then ret (False, None, x')
     else bind (ask sleep) (\<lambda>_. SleepUntil n sleep cond x'))"

section \<open>Paths and devices\<close>

definition PathFor :: "bool \<Rightarrow> string \<Rightarrow> ('s, string) go" where
  "PathFor containerized hostPath = (case hostPath of
     [] \<Rightarrow> panic ''index out of range''
   | c # cs \<Rightarrow> if c \<noteq> CHR ''/'' then panic ''path was not absolute''
               else ret ((if containerized then ''/rootfs/'' else ''/'') @ cs))"

definition namesFor :: "'w mount_env \<Rightarrow> string \<Rightarrow> ('w mounter, string list) go" where
  "namesFor e dev =
     bind (PathFor (mx_Containerized e) dev) (\<lambda>p.
     bind (ask (mx_EvalSymlinks e dev)) (\<lambda>r. case r of
       Inl _ \<Rightarrow> ret [dev, p]
     | Inr s \<Rightarrow> bind (ask (mx_Abs e s)) (\<lambda>r. ret [dev, p, case r of Inl _ \<Rightarrow> s | Inr a \<Rightarrow> a])))"

text \<open>The loops of \<^verbatim>\<open>isSameDevice\<close> range over the indices of the two slices (\<^verbatim>\<open>for k1 := range aliases1\<close>), not over the names.\<close>

definition isSameDevice :: "'w mount_env \<Rightarrow> string \<Rightarrow> string \<Rightarrow> ('w mounter, bool) go" where
  "isSameDevice e dev1 dev2 =
     bind (namesFor e dev1) (\<lambda>aliases1.
     bind (namesFor e dev2) (\<lambda>aliases2.
     ret (list_ex (\<lambda>k1. list_ex (\<lambda>k2. k1 = k2) [0..<length aliases2]) [0..<length aliases1])))"

section \<open>Mounting one volume\<close>

text \<open>The loop that waits for the device is endless in the code; running out of patience stands for a run that still waits.\<close>

fun wait_device :: "nat \<Rightarrow> 'w mount_env \<Rightarrow> Volume \<Rightarrow> ('w mounter, go_error + string) go" where
  "wait_device 0 e v = panic ''still waiting for the device''"
| "wait_device (Suc n) e v =
     bind (call (mx_FindMountedVolume e v)) (\<lambda>r. case r of
       Inl err \<Rightarrow> ret (Inl err)
     | Inr found \<Rightarrow> if found \<noteq> [] then ret (Inr found)
                   else bind (ask (mx_Sleep e second)) (\<lambda>_. wait_device n e v))"

definition mount_inside :: "'w mount_env \<Rightarrow> string \<Rightarrow> string \<Rightarrow> string \<Rightarrow> ('w mounter, go_error option) go" where
  "mount_inside e device mountpoint fstype =
     bind (PathFor True device) (\<lambda>source.
     bind (PathFor True mountpoint) (\<lambda>target.
     bind (ask (mx_GetDeviceName e target)) (\<lambda>r. case r of
       Inl err \<Rightarrow> ret (Some (Wrap ''error checking for mounts inside container'' err))
     | Inr mountedDevice \<Rightarrow>
         if mountedDevice \<noteq> [] then
           bind (isSameDevice e device mountedDevice) (\<lambda>same.
           ret (if same then None else Some (Errorf ''device already mounted'')))
         else
           bind (act (mx_Mount e source target fstype) (EvMountInside source target)) (\<lambda>r.
           ret (map_option (Wrap ''error mounting inside container'') r)))))"

definition format_if_needed :: "'w mount_env \<Rightarrow> string \<Rightarrow> string \<Rightarrow> string \<Rightarrow> ('w mounter, go_error option) go" where
  "format_if_needed e device mountpoint fstype =
     bind (ask (mx_List e)) (\<lambda>r. case r of
       Inl err \<Rightarrow> ret (Some (Wrap ''error listing existing mounts'' err))
     | Inr mounts \<Rightarrow>
         let existing = filter (\<lambda>m. snd m = mountpoint) mounts in
         if existing = [] then
           bind (PathFor (mx_Containerized e) mountpoint) (\<lambda>dir.
           bind (ask (mx_MkdirAll e dir)) (\<lambda>r. case r of
             Some err \<Rightarrow> ret (Some err)
           | None \<Rightarrow>
             bind (act (mx_FormatAndMount e device mountpoint fstype) (EvFormatAndMount device mountpoint)) (\<lambda>r.
             ret (map_option (Wrap ''error formatting and mounting disk'') r))))
         else if length existing \<noteq> 1 then ret (Some (Errorf ''found multiple existing mounts''))
         else ret None)"

definition safeFormatAndMount :: "'w mount_env \<Rightarrow> Volume \<Rightarrow> string \<Rightarrow> string \<Rightarrow> ('w mounter, go_error option) go" where
  "safeFormatAndMount e v mountpoint fstype =
     bind (wait_device (mx_patience e) e v) (\<lambda>r. case r of
       Inl err \<Rightarrow> ret (Some err)
     | Inr device \<Rightarrow>
       bind (if mx_Containerized e then ask (mx_NewNsenter e) else ret None) (\<lambda>r. case r of
         Some err \<Rightarrow> ret (Some (Wrap ''error building ns-enter helper'' err))
       | None \<Rightarrow>
         bind (format_if_needed e device mountpoint fstype) (\<lambda>r. case r of
           Some err \<Rightarrow> ret (Some err)
         | None \<Rightarrow>
           bind (act (mx_Resize e device mountpoint) (EvResize device mountpoint)) (\<lambda>r. case r of
             Some err \<Rightarrow> ret (Some (Wrap ''error resizing disk'' err))
           | None \<Rightarrow> if mx_Containerized e then mount_inside e device mountpoint fstype else ret None))))"

section \<open>The mount controller\<close>

definition did_not_set :: string where
  "did_not_set = ''AttachVolume did not set LocalDevice or Mountpoint''"

definition try_attach :: "'w mount_env \<Rightarrow> Volume \<Rightarrow> Volume list \<Rightarrow> ('w mounter, (Volume list, Volume list) loop) go" where
  "try_attach e v attached =
     (if attached \<noteq> [] then ret (Stop attached)
      else bind (call (mx_AttachVolume e v)) (\<lambda>(err, v').
        bind (emit (EvAttach v err)) (\<lambda>_. case err of
          Some _ \<Rightarrow> ret (Next attached)
        | None \<Rightarrow> if v_LocalDevice v' = [] \<and> v_Mountpoint v' = [] then panic did_not_set
                  else ret (Next (attached @ [v'])))))"

definition attachMasterVolumes :: "'w mount_env \<Rightarrow> ('w mounter, go_error + Volume list) go" where
  "attachMasterVolumes e =
     bind (call (mx_FindVolumes e)) (\<lambda>r. case r of
       Inl err \<Rightarrow> ret (Inl err)
     | Inr volumes \<Rightarrow>
         let tryAttach = filter (\<lambda>v. v_AttachedTo v = []) volumes;
             attached = filter (\<lambda>v. v_LocalDevice v \<noteq> []) volumes
         in if tryAttach = [] then ret (Inr attached)
            else bind (for_each tryAttach attached (try_attach e)) (\<lambda>r.
              ret (Inr (case r of Next a \<Rightarrow> a | Stop a \<Rightarrow> a))))"

definition put_mounted :: "Volume \<Rightarrow> ('w mounter, unit) go" where
  "put_mounted v = upd_self (\<lambda>k. k\<lparr>vm_mounted := gm_update (v_ProviderID v) v (vm_mounted k)\<rparr>)"

text \<open>\<^verbatim>\<open>break\<close> is \<open>Stop None\<close>, returning an error is \<open>Stop (Some _)\<close>.\<close>

definition mount_new :: "'w mount_env \<Rightarrow> Volume \<Rightarrow> ('w mounter, (unit, go_error option) loop) go" where
  "mount_new e v =
     bind (PathFor (mx_Containerized e) ''/mnt/disks'') (\<lambda>disks.
     bind (ask (mx_Stat e disks)) (\<lambda>r.
     if r \<noteq> None \<and> r \<noteq> Some NotExist then ret (Stop (Some (Wrap ''error checking for /mnt/disks'' (the r))))
     else
       let mountpoint = (if r = None then ''/mnt/disks/'' else ''/mnt/'') @ v_MountName v in
       bind (safeFormatAndMount e v mountpoint []) (\<lambda>r. case r of
         Some _ \<Rightarrow> ret (Next ())
       | None \<Rightarrow>
         bind (PathFor (mx_Containerized e) mountpoint) (\<lambda>p.
         bind (put_mounted (v\<lparr>v_Mountpoint := p\<rparr>)) (\<lambda>_. ret (Next ()))))))"

definition mount_one :: "'w mount_env \<Rightarrow> Volume \<Rightarrow> unit \<Rightarrow> ('w mounter, (unit, go_error option) loop) go" where
  "mount_one e v _ =
     bind (get_self vm_mounted) (\<lambda>mounted.
     if mounted \<noteq> [] then ret (Stop None)
     else if gm_lookup mounted (v_ProviderID v) \<noteq> None then ret (Next ())
     else if v_Mountpoint v \<noteq> [] then bind (put_mounted v) (\<lambda>_. ret (Next ()))
     else mount_new e v)"

definition mountMasterVolumes :: "'w mount_env \<Rightarrow> ('w mounter, go_error + Volume list) go" where
  "mountMasterVolumes e =
     bind (attachMasterVolumes e) (\<lambda>r. case r of
       Inl err \<Rightarrow> ret (Inl (Wrap ''unable to attach master volumes'' err))
     | Inr attached \<Rightarrow>
       bind (for_each attached () (mount_one e)) (\<lambda>r. case r of
         Stop (Some err) \<Rightarrow> ret (Inl err)
       | _ \<Rightarrow>
         bind (get_self vm_mounted) (\<lambda>mounted.
         bind (range_map (mx_rt e) mounted) (\<lambda>kvs.
         ret (Inr (map snd kvs))))))"

section \<open>Booting\<close>

definition newVolumeMountController :: VolumeMountController where
  "newVolumeMountController = \<lparr>vm_mounted = []\<rparr>"

definition tryMountVolumes :: "'w mount_env \<Rightarrow> ('w mounter, go_error + Volume list) go" where
  "tryMountVolumes e = mountMasterVolumes e"

text \<open>The endless loop of \<^verbatim>\<open>WaitForVolumes\<close>, with a bound on its rounds.\<close>

fun WaitForVolumes :: "nat \<Rightarrow> 'w mount_env \<Rightarrow> ('w mounter, Volume list) go" where
  "WaitForVolumes 0 e = panic ''still waiting for volumes''"
| "WaitForVolumes (Suc n) e =
     bind (tryMountVolumes e) (\<lambda>r. case r of
       Inl _ \<Rightarrow> bind (ask (mx_Sleep e second)) (\<lambda>_. WaitForVolumes n e)
     | Inr info \<Rightarrow> if info \<noteq> [] then ret info
                  else bind (ask (mx_Sleep e minute)) (\<lambda>_. WaitForVolumes n e))"

section \<open>What the providers share\<close>

text \<open>\<^verbatim>\<open>strings.SplitN(s, sep, 2)\<close> for a one-byte separator.\<close>

fun split2 :: "char \<Rightarrow> string \<Rightarrow> string list" where
  "split2 c [] = [[]]"
| "split2 c (x # xs) = (if x = c then [[], xs] else (case split2 c xs of y # ys \<Rightarrow> (x # y) # ys | [] \<Rightarrow> [[x]]))"

text \<open>\<^verbatim>\<open>strings.ToUpper\<close> and \<^verbatim>\<open>strings.EqualFold\<close>, for the letters of ASCII.\<close>

definition upper :: "char \<Rightarrow> char" where
  "upper c = (if CHR ''a'' \<le> c \<and> c \<le> CHR ''z'' then char_of (of_char c - 32 :: nat) else c)"

definition ToUpper :: "string \<Rightarrow> string" where
  "ToUpper s = map upper s"

definition EqualFold :: "string \<Rightarrow> string \<Rightarrow> bool" where
  "EqualFold s t \<longleftrightarrow> ToUpper s = ToUpper t"

text \<open>Following a pointer that may be nil.\<close>

definition deref :: "'a option \<Rightarrow> ('s, 'a) go" where
  "deref p = (case p of None \<Rightarrow> panic ''nil pointer dereference'' | Some x \<Rightarrow> ret x)"

text \<open>\<^verbatim>\<open>strconv.FormatInt(n, 10)\<close>.\<close>

definition FormatInt :: "int \<Rightarrow> string" where
  "FormatInt n = (if n < 0 then CHR ''-'' # Itoa (nat (- n)) else Itoa (nat n))"

lemma Itoa_no_sign: "\<not> is_digit c \<Longrightarrow> \<not> HasPrefix (Itoa n) [c]"
  using Itoa_digits [of n] by (cases "Itoa n") (auto simp: HasPrefix_def)

lemma Atoi_FormatInt: "int64_min \<le> n \<Longrightarrow> n \<le> int64_max \<Longrightarrow> Atoi (FormatInt n) = Inr n"
proof -
  assume range: "int64_min \<le> n" "n \<le> int64_max"
  have digits: "all_digits (Itoa m)" for m by (simp add: all_digits_def Itoa_digits Itoa_not_empty)
  have sign: "\<not> is_digit (CHR ''-'')" "\<not> is_digit (CHR ''+'')" by (simp_all add: is_digit_def)
  show ?thesis
  proof (cases "n < 0")
    case True
    then show ?thesis using range digits by (simp add: FormatInt_def Atoi_def HasPrefix_def Let_def)
  next
    case False
    then show ?thesis using range digits Itoa_no_sign [OF sign(1)] Itoa_no_sign [OF sign(2)] by (simp add: FormatInt_def Atoi_def Let_def)
  qed
qed

record 'w cloud_env =
  cl_rt :: "'w runtime"
  cl_Containerized :: bool
  cl_Stat :: "string \<Rightarrow> 'w \<Rightarrow> go_error option \<times> 'w"
  cl_Getenv :: "string \<Rightarrow> 'w \<Rightarrow> string \<times> 'w"
  cl_Sleep :: "duration \<Rightarrow> 'w \<Rightarrow> unit \<times> 'w"
  cl_patience :: nat

text \<open>The device is there, or not yet there (the empty string), or it cannot be said.\<close>

definition stat_device :: "('w, 'x) cloud_env_scheme \<Rightarrow> string \<Rightarrow> string \<Rightarrow> (('st, 'w, 'ev) sys, go_error + string) go" where
  "stat_device e msg device =
     bind (PathFor (cl_Containerized e) device) (\<lambda>p.
     bind (ask (cl_Stat e p)) (\<lambda>r. ret (case r of
       None \<Rightarrow> Inr device
     | Some err \<Rightarrow> if err = NotExist then Inr [] else Inl (Wrap msg err))))"

section \<open>One volume at a time\<close>

definition mounted_ok :: "VolumeMountController \<Rightarrow> bool" where
  "mounted_ok k \<longleftrightarrow> length (vm_mounted k) \<le> 1 \<and> (\<forall>(i, v) \<in> set (vm_mounted k). v_Mountpoint v \<noteq> [])"

lemma mounted_ok_empty: "vm_mounted k = [] \<Longrightarrow> mounted_ok k"
  by (simp add: mounted_ok_def)

text \<open>Everything but the two updates of the map leaves the map alone.\<close>

lemma frame_call: "keeps (frame f) (call g)"
  by (auto simp: keeps_def frame_def call_def split: prod.splits)

lemma frame_PathFor: "keeps (frame f) (PathFor c p)"
  by (simp add: PathFor_def frame.keeps_ret frame.keeps_panic split: list.splits)

lemmas mount_frame = frame_rules frame_call frame_PathFor

lemma wait_device_frame: "keeps (frame f) (wait_device n e v)"
  by (induction n) (auto intro!: mount_frame)

lemma isSameDevice_frame: "keeps (frame f) (isSameDevice e a b)"
  unfolding isSameDevice_def namesFor_def by (intro mount_frame)

lemma safeFormatAndMount_frame: "keeps (frame f) (safeFormatAndMount e v m t)"
  unfolding safeFormatAndMount_def format_if_needed_def mount_inside_def
  by (intro mount_frame wait_device_frame isSameDevice_frame)

lemma attach_frame: "keeps (frame f) (attachMasterVolumes e)"
  unfolding attachMasterVolumes_def try_attach_def by (intro mount_frame)

lemma PathFor_not_empty: "hoare P (PathFor c p) (\<lambda>q s. P s \<and> q \<noteq> []) P"
  by (auto simp: hoare_def PathFor_def ret_apply panic_apply split: list.splits)

abbreviation ok_state :: "'w mounter \<Rightarrow> bool" where
  "ok_state s \<equiv> mounted_ok (self s)"

abbreviation none_mounted :: "'w mounter \<Rightarrow> bool" where
  "none_mounted s \<equiv> vm_mounted (self s) = []"

lemma hoare_none: "keeps (frame (\<lambda>x. x)) m \<Longrightarrow> hoare none_mounted m (\<lambda>_. none_mounted) ok_state"
  by (rule hoareI) (auto simp: frame_def mounted_ok_empty dest!: keepsE)

lemma put_mounted_ok: "v_Mountpoint v \<noteq> [] \<Longrightarrow> hoare none_mounted (put_mounted v) (\<lambda>_. ok_state) E"
  unfolding put_mounted_def by (rule hoare_upd_self) (simp add: mounted_ok_def)

lemma mount_new_ok: "hoare none_mounted (mount_new e v) (\<lambda>_. ok_state) ok_state"
proof -
  have last: "hoare none_mounted (bind (PathFor c p) (\<lambda>p. bind (put_mounted (v\<lparr>v_Mountpoint := p\<rparr>)) (\<lambda>_. ret x))) (\<lambda>_. ok_state) ok_state" for c p x
    by (rule hoare_bind [OF hoare_conseq [OF PathFor_not_empty [where P = none_mounted],
          where Q = "\<lambda>q s. none_mounted s \<and> q \<noteq> []"]])
      (auto simp: mounted_ok_empty intro!: hoare_pure hoare_bind [OF put_mounted_ok] hoare_ret)
  show ?thesis
    unfolding mount_new_def
    by (intro hoare_bind [OF hoare_none] frame_PathFor keeps_frame_ask hoare_if hoare_let safeFormatAndMount_frame
        hoare_case_option last hoare_ret mounted_ok_empty)
qed

lemma mount_one_ok: "hoare ok_state (mount_one e v u) (\<lambda>_. ok_state) ok_state"
  unfolding mount_one_def
proof (rule hoare_read)
  fix s :: "'a mounter" assume ok: "ok_state s"
  show "hoare (\<lambda>t. t = s) (if vm_mounted (self s) \<noteq> [] then ret (Stop None)
     else if gm_lookup (vm_mounted (self s)) (v_ProviderID v) \<noteq> None then ret (Next ())
     else if v_Mountpoint v \<noteq> [] then bind (put_mounted v) (\<lambda>_. ret (Next ())) else mount_new e v) (\<lambda>_. ok_state) ok_state"
    using ok by (auto intro!: hoare_ret hoare_at [OF mount_new_ok] hoare_at [OF hoare_bind [OF put_mounted_ok]])
qed

lemma attach_ok: "hoare ok_state (attachMasterVolumes e) (\<lambda>_. ok_state) ok_state"
  using attach_frame [of "\<lambda>x. x" e] by (auto intro!: hoare_stays simp: keeps_def frame_def stays_def)

lemma mountMasterVolumes_ok:
  "hoare ok_state (mountMasterVolumes e)
     (\<lambda>r s. ok_state s \<and> (case r of Inl _ \<Rightarrow> True | Inr vs \<Rightarrow> length vs \<le> 1 \<and> (\<forall>v \<in> set vs. v_Mountpoint v \<noteq> []))) ok_state"
proof -
  have loop: "hoare ok_state (for_each vs () (mount_one e)) (\<lambda>_. ok_state) ok_state" for vs
    by (rule hoare_conseq [OF hoare_loop [where P = ok_state and R = "\<lambda>_. ok_state"]])
      (auto intro: hoare_conseq [OF mount_one_ok] split: loop.splits)
  have list: "hoare ok_state (bind (get_self vm_mounted) (\<lambda>mounted. bind (range_map (mx_rt e) mounted) (\<lambda>kvs. ret (Inr (map snd kvs)))))
      (\<lambda>r s. ok_state s \<and> (case r of Inl _ \<Rightarrow> True | Inr vs \<Rightarrow> length vs \<le> 1 \<and> (\<forall>v \<in> set vs. v_Mountpoint v \<noteq> []))) ok_state"
  proof (rule hoare_read)
    fix s :: "'a mounter" assume ok: "ok_state s"
    show "hoare (\<lambda>t. t = s) (bind (range_map (mx_rt e) (vm_mounted (self s))) (\<lambda>kvs. ret (Inr (map snd kvs))))
      (\<lambda>r s. ok_state s \<and> (case r of Inl _ \<Rightarrow> True | Inr vs \<Rightarrow> length vs \<le> 1 \<and> (\<forall>v \<in> set vs. v_Mountpoint v \<noteq> []))) ok_state"
      using ok
      by (intro hoare_bind [OF hoare_range_map [where Q = "\<lambda>kvs t. ok_state t \<and> length kvs \<le> 1 \<and> (\<forall>(i, v) \<in> set kvs. v_Mountpoint v \<noteq> [])"]] hoare_ret)
        (auto simp: mounted_ok_def mset_eq_setD [OF mset_shuffle] mset_eq_length [OF mset_shuffle])
  qed
  show ?thesis
    unfolding mountMasterVolumes_def
    by (intro hoare_bind [OF attach_ok] hoare_bind [OF loop] hoare_case_sum hoare_case_loop hoare_case_option hoare_ret list) simp_all
qed

lemma WaitForVolumes_ok: "hoare ok_state (WaitForVolumes n e) (\<lambda>vs _. \<exists>v. vs = [v] \<and> v_Mountpoint v \<noteq> []) (\<lambda>_. True)"
proof (induction n)
  case (Suc n)
  have again: "hoare ok_state (bind (ask f) (\<lambda>_. WaitForVolumes n e)) (\<lambda>vs _. \<exists>v. vs = [v] \<and> v_Mountpoint v \<noteq> []) (\<lambda>_. True)" for f
    by (rule hoare_bind [OF hoare_ask [where Q = "\<lambda>_. ok_state"]]) (simp_all add: Suc.IH)
  show ?case
    unfolding WaitForVolumes.simps tryMountVolumes_def
    apply (rule hoare_bind [OF hoare_conseq [OF mountMasterVolumes_ok, where E = "\<lambda>_. True"]], assumption, assumption, simp)
    apply (rule hoare_case_sum)
     apply (rule hoare_conseq [OF again]; simp)
    apply (rule hoare_if)
     apply (rule hoare_ret, auto simp: le_Suc_eq length_Suc_conv)[1]
    by (rule hoare_conseq [OF again]) simp_all
qed (simp add: hoare_panic)

section \<open>One attachment at a time\<close>

definition attach_done :: "mount_event \<Rightarrow> bool" where
  "attach_done ev \<longleftrightarrow> (\<exists>v. ev = EvAttach v None)"

lemma try_attach_counts:
  "hoare (\<lambda>s. \<exists>evs. trace s = tr @ evs \<and> (if a = [] then filter attach_done evs = [] else length (filter attach_done evs) \<le> 1))
     (try_attach e v a)
     (\<lambda>c s. \<exists>evs. trace s = tr @ evs \<and> (case c of
        Next a' \<Rightarrow> if a' = [] then filter attach_done evs = [] else length (filter attach_done evs) \<le> 1
      | Stop _ \<Rightarrow> length (filter attach_done evs) \<le> 1))
     (\<lambda>s. \<exists>evs. trace s = tr @ evs \<and> length (filter attach_done evs) \<le> 1)"
  unfolding hoare_def try_attach_def
  by (auto simp: go_run call_def attach_done_def split: prod.splits outcome.splits option.splits if_splits)

lemma attach_counts:
  "hoare (\<lambda>s. trace s = tr) (attachMasterVolumes e)
     (\<lambda>_ s. \<exists>evs. trace s = tr @ evs \<and> length (filter attach_done evs) \<le> 1)
     (\<lambda>s. \<exists>evs. trace s = tr @ evs \<and> length (filter attach_done evs) \<le> 1)"
proof -
  let ?I = "\<lambda>(a :: Volume list) s. \<exists>evs. trace s = tr @ evs \<and> (if a = [] then filter attach_done evs = [] else length (filter attach_done evs) \<le> 1)"
  let ?Q = "\<lambda>s. \<exists>evs. trace s = tr @ evs \<and> length (filter attach_done evs) \<le> 1"
  have loop: "hoare (\<lambda>s. trace s = tr) (for_each vs a (try_attach e)) (\<lambda>_. ?Q) ?Q" for vs a
    by (rule hoare_for_each [where I = "\<lambda>_. ?I"]) (auto intro!: hoare_conseq [OF try_attach_counts] split: loop.splits if_splits)
  have find: "hoare (\<lambda>s. trace s = tr) (call (mx_FindVolumes e)) (\<lambda>_ s. trace s = tr) ?Q"
    by (auto simp: hoare_def call_def split: prod.splits outcome.splits)
  show ?thesis
    unfolding attachMasterVolumes_def
    by (intro hoare_bind [OF find] hoare_bind [OF loop] hoare_case_sum hoare_let hoare_if hoare_ret) auto
qed

section \<open>Reasons to die\<close>

text \<open>A computation that does not end the process with a given message.\<close>

definition spares :: "string \<Rightarrow> ('s, 'a) go \<Rightarrow> bool" where
  "spares msg m \<longleftrightarrow> (\<forall>s s'. m s \<noteq> (Panic msg, s'))"

lemma spares_basic:
  "spares msg (ret x)" "spares msg (ask f)" "spares msg (act f ev)" "spares msg (emit ev)" "spares msg (get_self g)"
  "spares msg (upd_self h)" "spares msg (range_map rt m)" "spares msg (time_now rt)" "msg \<noteq> msg' \<Longrightarrow> spares msg (panic msg')"
  by (auto simp: spares_def go_run split: prod.splits)

lemma spares_bind: "spares msg m \<Longrightarrow> (\<And>x. spares msg (f x)) \<Longrightarrow> spares msg (bind m f)"
  unfolding spares_def by (auto simp: bind_apply split: prod.splits outcome.splits)

lemma spares_cases:
  "\<And>b m n. (b \<Longrightarrow> spares msg m) \<Longrightarrow> (\<not> b \<Longrightarrow> spares msg n) \<Longrightarrow> spares msg (if b then m else n)"
  "\<And>x f. spares msg (f x) \<Longrightarrow> spares msg (let y = x in f y)"
  "\<And>r f g. (\<And>x. spares msg (f x)) \<Longrightarrow> (\<And>y. spares msg (g y)) \<Longrightarrow> spares msg (case r of Inl x \<Rightarrow> f x | Inr y \<Rightarrow> g y)"
  "\<And>r m g. spares msg m \<Longrightarrow> (\<And>y. spares msg (g y)) \<Longrightarrow> spares msg (case r of None \<Rightarrow> m | Some y \<Rightarrow> g y)"
  "\<And>r f. (\<And>x y. spares msg (f x y)) \<Longrightarrow> spares msg (case r of (x, y) \<Rightarrow> f x y)"
  "\<And>r m f. spares msg m \<Longrightarrow> (\<And>x xs. spares msg (f x xs)) \<Longrightarrow> spares msg (case r of [] \<Rightarrow> m | x # xs \<Rightarrow> f x xs)"
  by (simp_all split: sum.splits option.splits prod.splits list.splits)

lemma spares_for_each: "(\<And>x a. spares msg (f x a)) \<Longrightarrow> spares msg (for_each xs a f)"
  by (induction xs arbitrary: a) (auto intro!: spares_basic spares_bind split: loop.splits)

lemma spares_hosted: "spares msg m \<Longrightarrow> hosted m w \<noteq> (Panic msg, w')"
  by (auto simp: spares_def hosted_def split: prod.splits)

lemma did_not_set_other: "did_not_set \<noteq> ''index out of range''" "did_not_set \<noteq> ''nil pointer dereference''" "did_not_set \<noteq> ''path was not absolute''"
  by (simp_all add: did_not_set_def)

lemma spares_PathFor: "spares did_not_set (PathFor c p)"
  unfolding PathFor_def by (intro spares_cases spares_basic did_not_set_other)

lemma spares_deref: "spares did_not_set (deref p)"
  unfolding deref_def by (intro spares_cases spares_basic did_not_set_other)

lemmas spares_rules = spares_deref spares_basic(1-8) spares_bind spares_cases spares_for_each spares_PathFor

section \<open>The interface of the volume providers\<close>

text \<open>
  What the mounter relies on: a volume that was found unattached and has been attached has a device or a mount point.
  (A provider may end the process for reasons of its own.)
\<close>

definition survives :: "('w, go_error + Volume list) go \<Rightarrow> (Volume \<Rightarrow> ('w, go_error option \<times> Volume) go) \<Rightarrow> bool" where
  "survives find_volumes attach_volume \<longleftrightarrow> (\<forall>env s s'. mx_FindVolumes env = find_volumes \<longrightarrow> mx_AttachVolume env = attach_volume \<longrightarrow>
     attachMasterVolumes env s \<noteq> (Panic did_not_set, s'))"

locale volume_provider =
  fixes find_volumes :: "('w, go_error + Volume list) go"
    and attach_volume :: "Volume \<Rightarrow> ('w, go_error option \<times> Volume) go"
  assumes attach_sets: "find_volumes w0 = (Ret (Inr vs), w1) \<Longrightarrow> v \<in> set vs \<Longrightarrow> v_AttachedTo v = [] \<Longrightarrow>
      attach_volume v w = (Ret (None, v'), w') \<Longrightarrow> v_LocalDevice v' \<noteq> [] \<or> v_Mountpoint v' \<noteq> []"
    and find_reason: "find_volumes w \<noteq> (Panic did_not_set, w')"
    and attach_reason: "attach_volume v w \<noteq> (Panic did_not_set, w')"
begin

lemma try_attach_reason:
  assumes "mx_AttachVolume e = attach_volume" and "find_volumes w0 = (Ret (Inr vs), w1)" and "set us \<subseteq> set vs"
    and "\<forall>v \<in> set us. v_AttachedTo v = []"
  shows "for_each us a (try_attach e) s \<noteq> (Panic did_not_set, s')"
  using assms(3,4)
proof (induction us arbitrary: a s)
  case (Cons u us)
  have sets: "attach_volume u w = (Ret (None, v'), w') \<Longrightarrow> v_LocalDevice v' = [] \<Longrightarrow> v_Mountpoint v' \<noteq> []" for w v' w'
    using attach_sets [OF assms(2)] Cons.prems by auto
  have "try_attach e u a s \<noteq> (Panic did_not_set, t)" for t
    using attach_reason sets by (auto simp: try_attach_def go_run call_def assms(1) split: prod.splits outcome.splits option.splits)
  then show ?case
    using Cons.IH Cons.prems by (auto simp: bind_apply ret_apply split: prod.splits outcome.splits loop.splits)
qed (simp add: ret_apply)

lemma attach_never_dies:
  assumes "mx_FindVolumes e = find_volumes" and "mx_AttachVolume e = attach_volume"
  shows "attachMasterVolumes e s \<noteq> (Panic did_not_set, s')"
proof (cases "find_volumes (world s)")
  case (Pair r w)
  then have call: "call (mx_FindVolumes e) s = (r, s\<lparr>world := w\<rparr>)" by (simp add: call_def assms(1))
  have loop: "for_each (filter (\<lambda>v. v_AttachedTo v = []) vs) a (try_attach e) t \<noteq> (Panic did_not_set, s')"
    if "r = Ret (Inr vs)" for vs a t
    by (rule try_attach_reason [OF assms(2) Pair [unfolded that]]) auto
  show ?thesis
  proof (cases r)
    case (Panic msg)
    with Pair find_reason have "msg \<noteq> did_not_set" by metis
    with Panic call show ?thesis by (simp add: attachMasterVolumes_def bind_apply)
  next
    case (Ret x)
    with call loop show ?thesis
      by (cases x) (auto simp: attachMasterVolumes_def bind_apply ret_apply Let_def split: outcome.splits prod.splits)
  qed
qed

lemma mounter_survives: "survives find_volumes attach_volume"
  unfolding survives_def using attach_never_dies by blast

end

section \<open>Properties\<close>


definition demo_volume :: Volume where
  "demo_volume = \<lparr>v_MountName = ''m'', v_ProviderID = ''vol-1'', v_EtcdName = ''a'', v_LocalDevice = ''/dev/xvdu'', v_AttachedTo = ''i-1'',
     v_Mountpoint = [], v_Status = ''in-use'', v_Description = []\<rparr>"

definition demo_mount_env :: "unit mount_env" where
  "demo_mount_env = \<lparr>mx_rt = const_rt 0, mx_Containerized = True, mx_FindVolumes = ret (Inr [demo_volume, demo_volume\<lparr>v_ProviderID := ''vol-2''\<rparr>]),
     mx_AttachVolume = (\<lambda>v. ret (None, v)), mx_FindMountedVolume = (\<lambda>v. ret (Inr (v_LocalDevice v))),
     mx_Stat = (\<lambda>_ w. (Some NotExist, w)), mx_MkdirAll = (\<lambda>_ w. (None, w)), mx_NewNsenter = (\<lambda>w. (None, w)),
     mx_List = (\<lambda>w. (Inr [], w)), mx_FormatAndMount = (\<lambda>_ _ _ w. (None, w)), mx_Resize = (\<lambda>_ _ w. (None, w)),
     mx_GetDeviceName = (\<lambda>_ w. (Inr [], w)), mx_Mount = (\<lambda>_ _ _ w. (None, w)), mx_EvalSymlinks = (\<lambda>p w. (Inr p, w)),
     mx_Abs = (\<lambda>p w. (Inr p, w)), mx_Sleep = (\<lambda>_ w. ((), w)), mx_patience = 1\<rparr>"

lemmas mount_run = go_run call_def tryMountVolumes_def mountMasterVolumes_def attachMasterVolumes_def mount_one_def mount_new_def
  put_mounted_def safeFormatAndMount_def format_if_needed_def mount_inside_def PathFor_def demo_mount_env_def demo_volume_def
  newVolumeMountController_def const_rt_def Let_def

lemma demo_wait:
  "fst (WaitForVolumes (Suc 0) demo_mount_env \<lparr>self = newVolumeMountController, world = (), trace = []\<rparr>) =
     Ret [demo_volume\<lparr>v_Mountpoint := ''/rootfs/mnt/m''\<rparr>]"
  by (simp add: mount_run cong: frozen_bind frozen_loop)


text \<open>
  In each round of the start-up at most one volume is attached to the node.
\<close>

theorem one_volume_is_attached:
  "\<exists>evs. trace (snd (attachMasterVolumes e s)) = trace s @ evs \<and> length (filter attach_done evs) \<le> 1"
proof (cases "attachMasterVolumes e s")
  case (Pair r s')
  with hoare_RetD [OF attach_counts refl] hoare_PanicD [OF attach_counts refl] show ?thesis
    by (cases r) fastforce+
qed

text \<open>
  The comparison of devices always says yes: \<^verbatim>\<open>isSameDevice\<close> compares indices of the lists of names instead of the names, so
  that another device that is already mounted at the target is taken for the wanted one.
\<close>

theorem isSameDevice_is_vacuous:
  "isSameDevice e dev1 dev2 s = (Ret b, s') \<Longrightarrow> b"
  by (auto simp: isSameDevice_def namesFor_def PathFor_def go_run split: prod.splits outcome.splits sum.splits list.splits if_splits)

theorem isSameDevice_is_vacuous_witness:
  "fst (isSameDevice demo_mount_env ''/dev/xvdu'' ''/dev/sdb'' \<lparr>self = newVolumeMountController, world = (), trace = []\<rparr>) = Ret True"
proof -
  have "fst (isSameDevice demo_mount_env ''/dev/xvdu'' ''/dev/sdb'' \<lparr>self = newVolumeMountController, world = (), trace = []\<rparr>) = Ret b
      \<Longrightarrow> b" for b
    using isSameDevice_is_vacuous [of demo_mount_env "''/dev/xvdu''" "''/dev/sdb''"] by (metis prod.collapse)
  moreover have "\<exists>b. fst (isSameDevice demo_mount_env ''/dev/xvdu'' ''/dev/sdb'' \<lparr>self = newVolumeMountController, world = (), trace = []\<rparr>) = Ret b"
    by (auto simp: isSameDevice_def namesFor_def mount_run)
  ultimately show ?thesis by (metis (full_types))
qed

end
