(* ===== verification/Volumes_Aws.thy ===== *)
theory Volumes_Aws
  imports Mounting Private_Api
begin

text \<open>
  The volumes of AWS (\<^verbatim>\<open>pkg/volumes/aws\<close>): construction from the instance metadata, the search for tagged EBS volumes, the
  assignment of device names, attaching, finding the device (with NVMe names), and discovery of peers through the volumes. EC2, the
  metadata service and the file system are parameters.
\<close>

section \<open>Data\<close>

record AWSVolumes =
  aw_matchTagKeys :: "string list"
  aw_matchTags :: "string gomap"
  aw_nameTag :: string
  aw_clusterName :: string
  aw_deviceMap :: "string gomap"
  aw_instanceID :: string
  aw_localIP :: string
  aw_zone :: string

record ec2_volume =
  ev_VolumeId :: string
  ev_Tags :: "(string \<times> string) list"
  ev_State :: string
  ev_Attachments :: "(string \<times> string) list"

record ec2_instance =
  ei_InstanceId :: string
  ei_Ipv6Address :: "string option"
  ei_PrivateIpAddress :: string
  ei_NetworkInterfaces :: "string list"

datatype ec2_attach_error = InvalidParameterValue | AttachFailed go_error

datatype imds_error = NotFound404 | HttpError go_error | OtherError go_error

datatype ec2_event = EvEc2Attach string string string "ec2_attach_error option"

type_synonym ec2_filter = "string \<times> string"

record 'w aws_env =
  ax_rt :: "'w runtime"
  ax_Containerized :: bool
  ax_LoadConfig :: "'w \<Rightarrow> go_error option \<times> 'w"
  ax_GetRegion :: "'w \<Rightarrow> (go_error + string) \<times> 'w"
  ax_GetMetadata :: "string \<Rightarrow> 'w \<Rightarrow> (imds_error + (go_error + string)) \<times> 'w"
  ax_DescribeVolumes :: "ec2_filter list \<Rightarrow> string list \<Rightarrow> 'w \<Rightarrow> (go_error + ec2_volume list) list \<times> 'w"
  ax_DescribeInstancesPages :: "string list \<Rightarrow> 'w \<Rightarrow> (go_error + ec2_instance list) list \<times> 'w"
  ax_DescribeInstances :: "string list \<Rightarrow> 'w \<Rightarrow> (go_error + ec2_instance list) \<times> 'w"
  ax_AttachVolume :: "string \<Rightarrow> string \<Rightarrow> string \<Rightarrow> 'w \<Rightarrow> ec2_attach_error option \<times> 'w"
  ax_Stat :: "string \<Rightarrow> 'w \<Rightarrow> go_error option \<times> 'w"
  ax_Lstat :: "string \<Rightarrow> 'w \<Rightarrow> (go_error + bool) \<times> 'w"
  ax_EvalSymlinks :: "string \<Rightarrow> 'w \<Rightarrow> (go_error + string) \<times> 'w"
  ax_Sleep :: "duration \<Rightarrow> 'w \<Rightarrow> unit \<times> 'w"
  ax_patience :: nat

type_synonym 'w aws = "(AWSVolumes, 'w, ec2_event) sys"

definition devices :: "string list" where
  "devices = [''/dev/xvdu'', ''/dev/xvdv'', ''/dev/xvdx'', ''/dev/xvdx'', ''/dev/xvdy'', ''/dev/xvdz'']"

section \<open>Construction\<close>

definition add_tag :: "string \<Rightarrow> AWSVolumes \<Rightarrow> AWSVolumes" where
  "add_tag volumeTag a = (case split2 (CHR ''='') volumeTag of
     [k] \<Rightarrow> a\<lparr>aw_matchTagKeys := aw_matchTagKeys a @ [k]\<rparr>
   | k # v # _ \<Rightarrow> a\<lparr>aw_matchTags := gm_update k v (aw_matchTags a)\<rparr>
   | [] \<Rightarrow> a)"

definition get_metadata :: "'w aws_env \<Rightarrow> string \<Rightarrow> (unit, 'w, ec2_event) sys \<Rightarrow> (go_error + string) outcome \<times> (unit, 'w, ec2_event) sys" where
  "get_metadata e p = bind (ask (ax_GetMetadata e p)) (\<lambda>r. ret (case r of
     Inl (HttpError err) \<Rightarrow> Inl (Wrap ''error querying ec2 metadata service'' err)
   | Inl (OtherError err) \<Rightarrow> Inl (Wrap ''error querying ec2 metadata service'' err)
   | Inl NotFound404 \<Rightarrow> Inl (Errorf ''error querying ec2 metadata service'')
   | Inr (Inl err) \<Rightarrow> Inl (Wrap ''error reading ec2 metadata service response'' err)
   | Inr (Inr x) \<Rightarrow> Inr x))"

definition find_local_ip :: "'w aws_env \<Rightarrow> (unit, 'w, ec2_event) sys \<Rightarrow> (go_error + string) outcome \<times> (unit, 'w, ec2_event) sys" where
  "find_local_ip e = bind (ask (ax_GetMetadata e ''ipv6'')) (\<lambda>r. case r of
     Inr (Inl err) \<Rightarrow> ret (Inl (Wrap ''error reading ec2 metadata service response (for ipv6)'' err))
   | Inr (Inr ipv6) \<Rightarrow> ret (Inr ipv6)
   | Inl (HttpError err) \<Rightarrow> ret (Inl (Wrap ''error querying ec2 metadata service (ipv6)'' err))
   | Inl _ \<Rightarrow> get_metadata e ''local-ipv4'')"

definition NewAWSVolumes :: "'w aws_env \<Rightarrow> string \<Rightarrow> string list \<Rightarrow> string
    \<Rightarrow> (unit, 'w, ec2_event) sys \<Rightarrow> (go_error + AWSVolumes) outcome \<times> (unit, 'w, ec2_event) sys" where
  "NewAWSVolumes e clusterName volumeTags nameTag =
     (let a = fold add_tag volumeTags \<lparr>aw_matchTagKeys = [], aw_matchTags = [], aw_nameTag = nameTag, aw_clusterName = clusterName,
        aw_deviceMap = [], aw_instanceID = [], aw_localIP = [], aw_zone = []\<rparr> in
      bind (ask (ax_LoadConfig e)) (\<lambda>r. case r of
        Some err \<Rightarrow> ret (Inl (Wrap ''error loading AWS config'' err))
      | None \<Rightarrow>
        bind (ask (ax_GetRegion e)) (\<lambda>r. case r of
          Inl err \<Rightarrow> ret (Inl (Wrap ''error querying ec2 metadata service (for az/region)'' err))
        | Inr region \<Rightarrow>
          bind (get_metadata e ''placement/availability-zone'') (\<lambda>r. case r of
            Inl err \<Rightarrow> ret (Inl err)
          | Inr zone \<Rightarrow>
            bind (get_metadata e ''instance-id'') (\<lambda>r. case r of
              Inl err \<Rightarrow> ret (Inl err)
            | Inr instanceID \<Rightarrow>
              bind (find_local_ip e) (\<lambda>r. case r of
                Inl err \<Rightarrow> ret (Inl err)
              | Inr ip \<Rightarrow> ret (Inr (a\<lparr>aw_zone := zone, aw_instanceID := instanceID, aw_localIP := ip\<rparr>))))))))"

definition aws_MyIP :: "AWSVolumes \<Rightarrow> string" where
  "aws_MyIP a = aw_localIP a"

section \<open>Finding volumes\<close>

definition describeInstance :: "'w aws_env \<Rightarrow> ('w aws, go_error + ec2_instance) go" where
  "describeInstance e =
     bind (get_self aw_instanceID) (\<lambda>me.
     bind (ask (ax_DescribeInstancesPages e [me])) (\<lambda>pages.
     bind (for_each pages [] (\<lambda>page instances. ret (case page of
         Inl err \<Rightarrow> Stop (Wrap ''error querying for EC2 instance'' err) | Inr is \<Rightarrow> Next (instances @ is)))) (\<lambda>r.
     ret (case r of
       Stop err \<Rightarrow> Inl err
     | Next [i] \<Rightarrow> Inr i
     | Next _ \<Rightarrow> Inl (Errorf ''unexpected number of instances found with id'')))))"

text \<open>The name of the etcd node: from the name tag (the last one that has a value), or the id of the volume.\<close>

definition etcd_name :: "AWSVolumes \<Rightarrow> ec2_volume \<Rightarrow> string" where
  "etcd_name a v =
     (if aw_nameTag a = [] then ev_VolumeId v
      else fold (\<lambda>(k, x) name. if aw_nameTag a = k \<and> x \<noteq> [] then aw_clusterName a @ ''-'' @ hd (split2 (CHR ''/'') x) else name)
        (ev_Tags v) (ev_VolumeId v))"

definition local_device :: "AWSVolumes \<Rightarrow> ec2_volume \<Rightarrow> string" where
  "local_device a v = fold (\<lambda>(inst, dev) d. if inst = aw_instanceID a then dev else d) (ev_Attachments v) []"

definition volume_of :: "AWSVolumes \<Rightarrow> ec2_volume \<Rightarrow> Volume" where
  "volume_of a v = \<lparr>v_MountName = ''master-'' @ ev_VolumeId v, v_ProviderID = ev_VolumeId v, v_EtcdName = etcd_name a v,
     v_LocalDevice = local_device a v, v_AttachedTo = (if ev_Attachments v = [] then [] else fst (last (ev_Attachments v))),
     v_Mountpoint = [], v_Status = ev_State v, v_Description = ev_VolumeId v\<rparr>"

definition not_root :: "Volume \<Rightarrow> bool" where
  "not_root v \<longleftrightarrow> v_LocalDevice v \<noteq> ''/dev/sda1'' \<and> v_LocalDevice v \<noteq> ''/dev/xvda''"

definition describeVolumes :: "'w aws_env \<Rightarrow> ec2_filter list \<Rightarrow> string list \<Rightarrow> ('w aws, go_error + Volume list) go" where
  "describeVolumes e filters ids =
     bind (get_self (\<lambda>a. a)) (\<lambda>a.
     bind (ask (ax_DescribeVolumes e filters ids)) (\<lambda>pages.
     bind (for_each pages [] (\<lambda>page found. ret (case page of
         Inl err \<Rightarrow> Stop (Wrap ''error querying for EC2 volumes'' err)
       | Inr vs \<Rightarrow> Next (found @ filter not_root (map (volume_of a) vs))))) (\<lambda>r.
     ret (case r of Stop err \<Rightarrow> Inl err | Next found \<Rightarrow> Inr found))))"

definition findVolumes :: "'w aws_env \<Rightarrow> bool \<Rightarrow> ('w aws, go_error + Volume list) go" where
  "findVolumes e filterByAZ =
     bind (get_self (\<lambda>a. a)) (\<lambda>a.
     bind (range_map (ax_rt e) (aw_matchTags a)) (\<lambda>kvs.
     describeVolumes e ((if filterByAZ then [(''availability-zone'', aw_zone a)] else [])
       @ map (\<lambda>(k, v). (''tag:'' @ k, v)) kvs @ map (\<lambda>k. (''tag-key'', k)) (aw_matchTagKeys a)) []))"

definition FindVolumes :: "'w aws_env \<Rightarrow> ('w aws, go_error + Volume list) go" where
  "FindVolumes e = findVolumes e True"

section \<open>The device of an attached volume\<close>

text \<open>\<^verbatim>\<open>strings.Replace(s, old, new, 1)\<close> where \<^verbatim>\<open>old\<close> is a prefix of \<^verbatim>\<open>s\<close>.\<close>

definition replace_prefix :: "string \<Rightarrow> string \<Rightarrow> string \<Rightarrow> string" where
  "replace_prefix s old new = (if HasPrefix s old then new @ drop (length old) s else s)"

definition findNvmeVolume :: "'w aws_env \<Rightarrow> string \<Rightarrow> ('w aws, go_error + string) go" where
  "findNvmeVolume e findName =
     bind (PathFor (ax_Containerized e) (filepath_Join [''/dev/disk/by-id'', findName])) (\<lambda>p.
     bind (ask (ax_Lstat e p)) (\<lambda>r. case r of
       Inl err \<Rightarrow> ret (if err = NotExist then Inr [] else Inl (Wrap ''error getting stat'' err))
     | Inr is_symlink \<Rightarrow>
         if \<not> is_symlink then ret (Inr [])
         else
           bind (ask (ax_EvalSymlinks e p)) (\<lambda>r. case r of
             Inl err \<Rightarrow> ret (Inl (Wrap ''error reading target of symlink'' err))
           | Inr resolved \<Rightarrow>
             bind (PathFor (ax_Containerized e) ''/dev'') (\<lambda>devPath.
             let resolved = replace_prefix resolved devPath ''/dev'' in
             ret (if \<not> HasPrefix resolved ''/dev'' then Inl (Errorf ''resolved symlink was unexpected'') else Inr resolved)))))"

definition nvme_name :: "string \<Rightarrow> string" where
  "nvme_name volumeID = ''nvme-Amazon_Elastic_Block_Store_'' @ filter (\<lambda>c. c \<noteq> CHR ''-'') volumeID"

definition FindMountedVolume :: "'w aws_env \<Rightarrow> Volume \<Rightarrow> ('w aws, go_error + string) go" where
  "FindMountedVolume e v =
     bind (PathFor (ax_Containerized e) (v_LocalDevice v)) (\<lambda>p.
     bind (ask (ax_Stat e p)) (\<lambda>r.
     if r = None then ret (Inr (v_LocalDevice v))
     else if r \<noteq> Some NotExist then ret (Inl (Wrap ''error checking for device'' (the r)))
     else if v_ProviderID v \<noteq> [] then
       bind (findNvmeVolume e (nvme_name (v_ProviderID v))) (\<lambda>r. case r of
         Inl err \<Rightarrow> ret (Inl (Wrap ''error checking for nvme volume'' err))
       | Inr device \<Rightarrow> ret (Inr device))
     else ret (Inr [])))"

section \<open>Attaching\<close>

definition device_of :: "AWSVolumes \<Rightarrow> string \<Rightarrow> string" where
  "device_of a d = (case gm_lookup (aw_deviceMap a) d of None \<Rightarrow> [] | Some x \<Rightarrow> x)"

definition set_device :: "string \<Rightarrow> string \<Rightarrow> AWSVolumes \<Rightarrow> AWSVolumes" where
  "set_device d x a = a\<lparr>aw_deviceMap := gm_update d x (aw_deviceMap a)\<rparr>"

definition assignDevice :: "string \<Rightarrow> ('w aws, go_error + string) go" where
  "assignDevice volumeID =
     bind (get_self (\<lambda>a. find (\<lambda>d. device_of a d = []) devices)) (\<lambda>r. case r of
       None \<Rightarrow> ret (Inl (Errorf ''all devices in use''))
     | Some d \<Rightarrow> bind (upd_self (set_device d volumeID)) (\<lambda>_. ret (Inr d)))"

definition releaseDevice :: "string \<Rightarrow> string \<Rightarrow> ('w aws, unit) go" where
  "releaseDevice d volumeID =
     bind (get_self (\<lambda>a. device_of a d)) (\<lambda>x.
     if x \<noteq> volumeID then panic ''deviceMap logic error'' else upd_self (set_device d []))"

text \<open>
  The loop that looks for a device EC2 accepts: every round reserves a device, so it ends after at most as many rounds as there
  are devices (for a volume with an id); the bound covers them.
\<close>

fun request_attach :: "nat \<Rightarrow> 'w aws_env \<Rightarrow> string \<Rightarrow> ('w aws, go_error + string) go" where
  "request_attach 0 e volumeID = panic ''still asking for a device''"
| "request_attach (Suc n) e volumeID =
     bind (assignDevice volumeID) (\<lambda>r. case r of
       Inl err \<Rightarrow> ret (Inl err)
     | Inr device \<Rightarrow>
       bind (get_self aw_instanceID) (\<lambda>me.
       bind (act (ax_AttachVolume e device me volumeID) (EvEc2Attach device me volumeID)) (\<lambda>r. case r of
         Some InvalidParameterValue \<Rightarrow> request_attach n e volumeID
       | Some (AttachFailed err) \<Rightarrow> ret (Inl (Wrap ''error attaching EBS volume'' err))
       | None \<Rightarrow> ret (Inr device))))"

text \<open>The endless loop that waits until the volume is attached somewhere.\<close>

fun await_attached :: "nat \<Rightarrow> 'w aws_env \<Rightarrow> string \<Rightarrow> string \<Rightarrow> ('w aws, go_error option) go" where
  "await_attached 0 e volumeID device = panic ''still waiting for the volume to be attached''"
| "await_attached (Suc n) e volumeID device =
     bind (describeVolumes e [] [volumeID]) (\<lambda>r. case r of
       Inl err \<Rightarrow> ret (Some (Wrap ''error describing EBS volume'' err))
     | Inr [] \<Rightarrow> ret (Some (Errorf ''EBS volume disappeared during attach''))
     | Inr [v] \<Rightarrow>
       bind (get_self aw_instanceID) (\<lambda>me.
       if v_AttachedTo v \<noteq> [] then
         (if v_AttachedTo v = me then ret None
          else bind (releaseDevice device volumeID) (\<lambda>_. ret (Some (Errorf ''unable to attach volume, was attached to another instance''))))
       else if v_Status v = ''attaching'' then bind (ask (ax_Sleep e (10 * second))) (\<lambda>_. await_attached n e volumeID device)
       else ret (Some (Errorf ''observed unexpected volume state'')))
     | Inr _ \<Rightarrow> ret (Some (Errorf ''multiple volumes found with id'')))"

definition AttachVolume :: "'w aws_env \<Rightarrow> Volume \<Rightarrow> ('w aws, go_error option \<times> Volume) go" where
  "AttachVolume e v =
     bind (if v_LocalDevice v = [] then request_attach (Suc (length devices)) e (v_ProviderID v) else ret (Inr (v_LocalDevice v))) (\<lambda>r. case r of
       Inl err \<Rightarrow> ret (Some err, v)
     | Inr device \<Rightarrow>
       bind (await_attached (ax_patience e) e (v_ProviderID v) device) (\<lambda>r. case r of
         Some err \<Rightarrow> ret (Some err, v)
       | None \<Rightarrow> ret (None, v\<lparr>v_LocalDevice := device\<rparr>)))"

section \<open>Discovery\<close>

definition instance_endpoints :: "ec2_instance \<Rightarrow> NodeEndpoint list" where
  "instance_endpoints i = (case ei_Ipv6Address i of
     Some ip \<Rightarrow> [\<lparr>ne_IP = ip, ne_Port = 0\<rparr>]
   | None \<Rightarrow> map (\<lambda>ip. \<lparr>ne_IP = ip, ne_Port = 0\<rparr>)
       (filter (\<lambda>ip. ip \<noteq> []) (ei_PrivateIpAddress i # ei_NetworkInterfaces i)))"

definition Poll :: "'w aws_env \<Rightarrow> ('w aws, go_error + Node gomap) go" where
  "Poll e =
     bind (findVolumes e False) (\<lambda>r. case r of
       Inl err \<Rightarrow> ret (Inl err)
     | Inr allVolumes \<Rightarrow>
         let instanceToVolumeMap = fold (\<lambda>v m. gm_update (v_AttachedTo v) v m) (filter (\<lambda>v. v_AttachedTo v \<noteq> []) allVolumes) [] in
         if instanceToVolumeMap = [] then ret (Inr [])
         else
           bind (range_map (ax_rt e) instanceToVolumeMap) (\<lambda>kvs.
           bind (ask (ax_DescribeInstances e (map fst kvs))) (\<lambda>r. case r of
             Inl err \<Rightarrow> ret (Inl (Wrap ''error from AWS DescribeInstances'' err))
           | Inr instances \<Rightarrow> ret (Inr (fold (\<lambda>i nodes. case gm_lookup instanceToVolumeMap (ei_InstanceId i) of
                 None \<Rightarrow> nodes
               | Some v \<Rightarrow> gm_update (v_EtcdName v) \<lparr>dn_ID = v_EtcdName v, dn_Endpoints = instance_endpoints i\<rparr> nodes)
               instances [])))))"

section \<open>Device names\<close>

definition free_devices :: "AWSVolumes \<Rightarrow> string list" where
  "free_devices a = filter (\<lambda>d. device_of a d = []) (remdups devices)"

lemma find_free: "find (\<lambda>d. device_of a d = []) devices = (case free_devices a of [] \<Rightarrow> None | d # _ \<Rightarrow> Some d)"
  by (simp add: free_devices_def devices_def)

lemma device_of_set [simp]: "device_of (set_device d x a) d' = (if d' = d then x else device_of a d')"
  by (simp add: device_of_def set_device_def)

lemma set_device_simps [simp]: "aw_instanceID (set_device d x a) = aw_instanceID a"
  by (simp add: set_device_def)

lemma free_after_assign:
  assumes "free_devices a = d # ds" and "x \<noteq> []"
  shows "free_devices (set_device d x a) = ds"
proof -
  have "free_devices (set_device d x a) = filter (\<lambda>d'. d' \<noteq> d) (free_devices a)"
    using assms(2) by (auto simp: free_devices_def intro!: filter_cong)
  moreover have "distinct (d # ds)" using assms(1) distinct_filter distinct_remdups unfolding free_devices_def by metis
  ultimately show ?thesis using assms(1) by (auto intro: filter_True)
qed

lemma assignDevice_eval:
  "assignDevice i s = (case free_devices (self s) of
     [] \<Rightarrow> (Ret (Inl (Errorf ''all devices in use'')), s)
   | d # ds \<Rightarrow> (Ret (Inr d), s\<lparr>self := set_device d i (self s)\<rparr>))"
  by (simp add: assignDevice_def go_run find_free split: list.splits)

lemma device_not_empty: "free_devices a = d # ds \<Longrightarrow> d \<noteq> []"
proof -
  assume "free_devices a = d # ds"
  then have "d \<in> set devices" by (metis (no_types, lifting) free_devices_def filter_is_subset list.set_intros(1) set_remdups subsetD)
  then show "d \<noteq> []" by (auto simp: devices_def)
qed

text \<open>Asking for a device ends: every refusal uses up one name.\<close>

lemma request_attach_ends:
  "i \<noteq> [] \<Longrightarrow> length (free_devices (self s)) < n \<Longrightarrow> \<exists>r s'. request_attach n e i s = (Ret r, s')"
proof (induction n arbitrary: s)
  case (Suc n)
  show ?case
  proof (cases "free_devices (self s)")
    case Nil
    then show ?thesis by (simp add: bind_apply assignDevice_eval ret_apply)
  next
    case (Cons d ds)
    have "length (free_devices (set_device d i (self s))) < n" using Cons Suc.prems free_after_assign [OF Cons] by simp
    then show ?thesis using Suc.IH Suc.prems Cons
      by (auto simp: go_run assignDevice_eval split: prod.splits option.splits ec2_attach_error.splits)
  qed
qed simp

lemma request_attach_device: "request_attach n e i s = (Ret (Inr d), s') \<Longrightarrow> d \<noteq> []"
proof (induction n arbitrary: s)
  case (Suc n)
  then show ?case
    by (auto simp: go_run assignDevice_eval device_not_empty split: prod.splits option.splits ec2_attach_error.splits list.splits)
qed (simp add: panic_apply)

section \<open>The provider keeps the contract of the mounter\<close>

lemma request_attach_spares: "spares did_not_set (request_attach n e i)"
proof (induction n)
  case (Suc n)
  then show ?case
    unfolding request_attach.simps assignDevice_def
    by (intro spares_rules) (simp split: ec2_attach_error.splits add: spares_basic)
qed (simp add: spares_basic did_not_set_def)

lemma describeVolumes_spares: "spares did_not_set (describeVolumes e fs ids)"
  unfolding describeVolumes_def by (intro spares_rules)

lemma await_attached_spares: "spares did_not_set (await_attached n e i d)"
proof (induction n)
  case (Suc n)
  have "spares did_not_set (releaseDevice d i)"
    unfolding releaseDevice_def by (intro spares_rules spares_basic(9)) (simp add: did_not_set_def)
  with Suc show ?case
    unfolding await_attached.simps by (intro spares_rules describeVolumes_spares)
qed (simp add: spares_basic did_not_set_def)

lemma AttachVolume_spares: "spares did_not_set (AttachVolume e v)"
  unfolding AttachVolume_def by (intro spares_rules request_attach_spares await_attached_spares)

lemma FindVolumes_spares: "spares did_not_set (FindVolumes e)"
  unfolding FindVolumes_def findVolumes_def by (intro spares_rules describeVolumes_spares)

lemma AttachVolume_sets: "AttachVolume e v s = (Ret (None, v'), s') \<Longrightarrow> v_LocalDevice v' \<noteq> []"
  by (auto simp: AttachVolume_def bind_apply ret_apply split: prod.splits outcome.splits sum.splits option.splits if_splits
      simp del: request_attach.simps dest: request_attach_device)

interpretation aws: volume_provider "hosted (FindVolumes e)" "\<lambda>v. hosted (AttachVolume e v)" for e
proof
  fix v v' :: Volume and w w' :: "AWSVolumes \<times> 'a"
  assume "hosted (AttachVolume e v) w = (Ret (None, v'), w')"
  then show "v_LocalDevice v' \<noteq> [] \<or> v_Mountpoint v' \<noteq> []"
    by (auto simp: hosted_def split: prod.splits dest: AttachVolume_sets)
qed (rule spares_hosted, rule FindVolumes_spares AttachVolume_spares)+

section \<open>Properties\<close>

definition demo_aws_env :: "bool \<Rightarrow> unit aws_env" where
  "demo_aws_env accept = \<lparr>ax_rt = const_rt 0, ax_Containerized = False, ax_LoadConfig = (\<lambda>w. (None, w)), ax_GetRegion = (\<lambda>w. (Inr ''r'', w)),
     ax_GetMetadata = (\<lambda>p w. (Inr (Inr p), w)), ax_DescribeVolumes = (\<lambda>_ _ w. ([Inr []], w)),
     ax_DescribeInstancesPages = (\<lambda>_ w. ([Inr []], w)), ax_DescribeInstances = (\<lambda>_ w. (Inr [], w)),
     ax_AttachVolume = (\<lambda>_ _ _ w. (if accept then None else Some (AttachFailed (Errorf ''VolumeInUse'')), w)),
     ax_Stat = (\<lambda>_ w. (None, w)), ax_Lstat = (\<lambda>_ w. (Inl NotExist, w)), ax_EvalSymlinks = (\<lambda>p w. (Inr p, w)),
     ax_Sleep = (\<lambda>_ w. ((), w)), ax_patience = 1\<rparr>"

definition demo_aws :: AWSVolumes where
  "demo_aws = \<lparr>aw_matchTagKeys = [], aw_matchTags = [], aw_nameTag = [], aw_clusterName = ''c'', aw_deviceMap = [],
     aw_instanceID = ''i-1'', aw_localIP = [], aw_zone = []\<rparr>"

text \<open>
  A refused attachment costs a device name: when EC2 refuses to attach a volume (another node was faster), the name
  reserved for it stays reserved, although \<^verbatim>\<open>releaseDevice\<close> exists for this case; once the names are used up every further attempt
  fails without asking EC2.
\<close>

theorem refused_attachments_use_up_devices:
  assumes "\<forall>d me w. \<exists>err. fst (ax_AttachVolume e d me (v_ProviderID v) w) = Some (AttachFailed err)"
    and "v_LocalDevice v = []" and "v_ProviderID v \<noteq> []"
  shows "\<exists>err s'. AttachVolume e v s = (Ret (Some err, v), s') \<and> free_devices (self s') = tl (free_devices (self s)) \<and>
    (free_devices (self s) = [] \<longrightarrow> s' = s)"
proof (cases "free_devices (self s)")
  case Nil
  then show ?thesis using assms(2) by (simp add: AttachVolume_def bind_apply assignDevice_eval ret_apply)
next
  case (Cons d ds)
  let ?a = "set_device d (v_ProviderID v) (self s)"
  obtain err w where "ax_AttachVolume e d (aw_instanceID (self s)) (v_ProviderID v) (world s) = (Some (AttachFailed err), w)"
    using assms(1) by (metis prod.collapse)
  with Cons assms(2) free_after_assign [OF Cons assms(3)] show ?thesis
    by (simp add: AttachVolume_def go_run assignDevice_eval)
qed

theorem refused_attachments_use_up_devices_witness:
  "\<exists>err s'. AttachVolume (demo_aws_env False) (demo_volume\<lparr>v_LocalDevice := []\<rparr>) \<lparr>self = demo_aws, world = (), trace = []\<rparr> =
      (Ret (Some err, demo_volume\<lparr>v_LocalDevice := []\<rparr>), s') \<and> length (free_devices demo_aws) = 5 \<and> length (free_devices (self s')) = 4"
proof -
  let ?v = "demo_volume\<lparr>v_LocalDevice := []\<rparr>"
  have five: "length (free_devices demo_aws) = 5" by (simp add: free_devices_def devices_def device_of_def demo_aws_def)
  have "\<forall>d me w. \<exists>err. fst (ax_AttachVolume (demo_aws_env False) d me (v_ProviderID ?v) w) = Some (AttachFailed err)"
    by (simp add: demo_aws_env_def)
  from refused_attachments_use_up_devices [OF this, of "\<lparr>self = demo_aws, world = (), trace = []\<rparr>"]
  obtain err s' where "AttachVolume (demo_aws_env False) ?v \<lparr>self = demo_aws, world = (), trace = []\<rparr> = (Ret (Some err, ?v), s')"
    "free_devices (self s') = tl (free_devices demo_aws)"
    by (auto simp: demo_volume_def)
  with five show ?thesis by auto
qed

end
