(* ===== verification/Volumes_Gce.thy ===== *)
theory Volumes_Gce
  imports Mounting Private_Api
begin

text \<open>
  The volumes of Google Compute Engine (\<^verbatim>\<open>pkg/volumes/gce\<close>): resource URLs, zones, waiting for operations, label matching and
  decoding, attaching and discovery. The compute API, the metadata service and \<^verbatim>\<open>wait.Poll\<close> of Kubernetes are parameters.
\<close>

section \<open>Resource URLs\<close>

record GoogleCloudURL =
  gu_Version :: string
  gu_Project :: string
  gu_Type :: string
  gu_Name :: string
  gu_Global :: bool
  gu_Region :: string
  gu_Zone :: string

definition BuildURL :: "GoogleCloudURL \<Rightarrow> string" where
  "BuildURL u = ''https://www.googleapis.com/compute/'' @ (if gu_Version u = [] then ''v1'' else gu_Version u) @ ''/''
     @ (if gu_Project u \<noteq> [] then ''projects/'' @ gu_Project u @ ''/'' else [])
     @ (if gu_Global u then ''global/'' else [])
     @ (if gu_Region u \<noteq> [] then ''regions/'' @ gu_Region u @ ''/'' else [])
     @ (if gu_Zone u \<noteq> [] then ''zones/'' @ gu_Zone u @ ''/'' else [])
     @ gu_Type u @ ''/'' @ gu_Name u"

text \<open>The loop over the tokens after the version.\<close>

fun parse_tokens :: "string list \<Rightarrow> GoogleCloudURL \<Rightarrow> go_error + GoogleCloudURL" where
  "parse_tokens [] p = Inl (Errorf ''invalid google cloud URL (unexpected end)'')"
| "parse_tokens [t] p =
     (if t = ''projects'' then Inl (Errorf ''invalid google cloud URL (unexpected projects)'')
      else if t = ''zones'' then Inl (Errorf ''invalid google cloud URL (unexpected zones)'')
      else if t = ''global'' then parse_tokens [] (p\<lparr>gu_Global := True\<rparr>)
      else Inl (Errorf ''invalid google cloud URL (no name)''))"
| "parse_tokens (t # x # ts) p =
     (if t = ''projects'' then parse_tokens ts (p\<lparr>gu_Project := x\<rparr>)
      else if t = ''zones'' then parse_tokens ts (p\<lparr>gu_Zone := x\<rparr>)
      else if t = ''regions'' \<and> ts \<noteq> [] then parse_tokens ts (p\<lparr>gu_Region := x\<rparr>)
      else if t = ''global'' then parse_tokens (x # ts) (p\<lparr>gu_Global := True\<rparr>)
      else if ts \<noteq> [] then Inl (Errorf ''invalid google cloud URL (content after name)'')
      else Inr (p\<lparr>gu_Type := t, gu_Name := x\<rparr>))"

definition ParseGoogleCloudURL :: "string \<Rightarrow> go_error + GoogleCloudURL" where
  "ParseGoogleCloudURL u =
     (let tokens = split_on (CHR ''/'') u in
      if length tokens < 3 then Inl (Errorf ''invalid google cloud URL (token count)'')
      else if tokens ! 0 \<noteq> ''https:'' \<or> tokens ! 1 \<noteq> [] \<or> tokens ! 2 \<noteq> ''www.googleapis.com''
      then Inl (Errorf ''invalid google cloud URL (schema / host)'')
      else if length tokens < 5 \<or> tokens ! 3 \<noteq> ''compute'' then Inl (Errorf ''invalid google cloud URL (not compute)'')
      else if tokens ! 4 \<noteq> ''v1'' \<and> tokens ! 4 \<noteq> ''beta'' then Inl (Errorf ''invalid google cloud URL (not compute/v1 or compute/beta)'')
      else parse_tokens (drop 5 tokens) \<lparr>gu_Version = tokens ! 4, gu_Project = [], gu_Type = [], gu_Name = [], gu_Global = False,
        gu_Region = [], gu_Zone = []\<rparr>)"

text \<open>Everything before and after the last occurrence of a character.\<close>

definition regionFromZone :: "string \<Rightarrow> go_error + string" where
  "regionFromZone zone = (if CHR ''-'' \<notin> set zone then Inl (Errorf ''unexpected zone'')
     else Inr (rev (tl (dropWhile (\<lambda>c. c \<noteq> CHR ''-'') (rev zone)))))"

definition lastComponent :: "string \<Rightarrow> string" where
  "lastComponent s = rev (takeWhile (\<lambda>c. c \<noteq> CHR ''/'') (rev s))"

section \<open>Data and environment\<close>

record gce_op =
  go_SelfLink :: string
  go_Name :: string
  go_Status :: string
  go_Errors :: "string list"

record gce_disk =
  gd_Name :: string
  gd_SelfLink :: string
  gd_Zone :: string
  gd_Labels :: "string gomap"
  gd_Status :: string
  gd_Users :: "string list"

record GCEVolumes =
  gc_matchTagKeys :: "string list"
  gc_matchTags :: "string gomap"
  gc_nameTag :: string
  gc_clusterName :: string
  gc_project :: string
  gc_zone :: string
  gc_region :: string
  gc_instanceName :: string
  gc_internalIP :: string
  gc_allZonesInRegion :: "string list"

datatype gce_event = EvGceAttach string string "go_error + gce_op"

record 'w gce_env = "'w cloud_env" +
  gx_NewClient :: "'w \<Rightarrow> go_error option \<times> 'w"
  gx_Metadata :: "string \<Rightarrow> 'w \<Rightarrow> (go_error + string) \<times> 'w"
  gx_ParseIP :: "string \<Rightarrow> string option"
  gx_Zones :: "string \<Rightarrow> 'w \<Rightarrow> (go_error + (string \<times> string) list) \<times> 'w"
  gx_Disks :: "string \<Rightarrow> string \<Rightarrow> 'w \<Rightarrow> (go_error + gce_disk list list) \<times> 'w"
  gx_AttachDisk :: "string \<Rightarrow> string \<Rightarrow> string \<Rightarrow> string \<Rightarrow> string \<Rightarrow> 'w \<Rightarrow> (go_error + gce_op) \<times> 'w"
  gx_ZoneOperation :: "string \<Rightarrow> string \<Rightarrow> string \<Rightarrow> 'w \<Rightarrow> (go_error + gce_op) \<times> 'w"
  gx_RegionOperation :: "string \<Rightarrow> string \<Rightarrow> string \<Rightarrow> 'w \<Rightarrow> (go_error + gce_op) \<times> 'w"
  gx_GlobalOperation :: "string \<Rightarrow> string \<Rightarrow> 'w \<Rightarrow> (go_error + gce_op) \<times> 'w"
  gx_polls :: nat
  gx_Instance :: "string \<Rightarrow> string \<Rightarrow> string \<Rightarrow> 'w \<Rightarrow> (go_error + string list) \<times> 'w"

type_synonym 'w gce = "(GCEVolumes, 'w, gce_event) sys"

section \<open>Operations\<close>

definition getErrorFromOp :: "gce_op \<Rightarrow> go_error option" where
  "getErrorFromOp op = (case go_Errors op of [] \<Rightarrow> None | m # _ \<Rightarrow> Some (Errorf m))"

definition opIsDone :: "gce_op \<Rightarrow> bool" where
  "opIsDone op \<longleftrightarrow> go_Status op = ''DONE''"

text \<open>
  The condition that \<^verbatim>\<open>wait.Poll\<close> calls until it is done, fails, or time is up; \<open>gx_polls\<close> is how often it is called before that.
  A query that fails yields no operation, and the polling goes on.
\<close>

fun poll_op :: "nat \<Rightarrow> ('w \<Rightarrow> (go_error + gce_op) \<times> 'w) \<Rightarrow> ('w gce, go_error option) go" where
  "poll_op 0 getOperation = ret (Some (Errorf ''timed out waiting for the condition''))"
| "poll_op (Suc n) getOperation =
     bind (ask getOperation) (\<lambda>r. case r of
       Inl _ \<Rightarrow> poll_op n getOperation
     | Inr op \<Rightarrow> if getErrorFromOp op \<noteq> None then ret (getErrorFromOp op)
                else if opIsDone op then ret None else poll_op n getOperation)"

definition waitForOp :: "'w gce_env \<Rightarrow> gce_op \<Rightarrow> ('w \<Rightarrow> (go_error + gce_op) \<times> 'w) \<Rightarrow> ('w gce, go_error option) go" where
  "waitForOp e op getOperation = (if opIsDone op then ret (getErrorFromOp op) else poll_op (gx_polls e) getOperation)"

definition WaitForOp :: "'w gce_env \<Rightarrow> gce_op \<Rightarrow> ('w gce, go_error option) go" where
  "WaitForOp e op = (case ParseGoogleCloudURL (go_SelfLink op) of
     Inl err \<Rightarrow> ret (Some (Wrap ''error parsing operation URL'' err))
   | Inr u \<Rightarrow>
       if gu_Zone u \<noteq> [] then waitForOp e op (gx_ZoneOperation e (gu_Project u) (gu_Zone u) (go_Name op))
       else if gu_Region u \<noteq> [] then waitForOp e op (gx_RegionOperation e (gu_Project u) (gu_Region u) (go_Name op))
       else waitForOp e op (gx_GlobalOperation e (gu_Project u) (go_Name op)))"

section \<open>Construction\<close>

definition gce_add_tag :: "string \<Rightarrow> GCEVolumes \<Rightarrow> GCEVolumes" where
  "gce_add_tag volumeTag a = (case split2 (CHR ''='') volumeTag of
     [k] \<Rightarrow> a\<lparr>gc_matchTagKeys := gc_matchTagKeys a @ [k]\<rparr>
   | k # v # _ \<Rightarrow> a\<lparr>gc_matchTags := gm_update k v (gc_matchTags a)\<rparr>
   | [] \<Rightarrow> a)"

definition gce_metadata :: "'w gce_env \<Rightarrow> string \<Rightarrow> ((unit, 'w, gce_event) sys, go_error + string) go" where
  "gce_metadata e what = bind (ask (gx_Metadata e what)) (\<lambda>r. ret (case r of
     Inl err \<Rightarrow> Inl (Wrap ''error reading from GCE'' err)
   | Inr x \<Rightarrow> if TrimSpace x = [] then Inl (Errorf ''metadata was empty'') else Inr x))"

definition gce_internal_ip :: "'w gce_env \<Rightarrow> ((unit, 'w, gce_event) sys, go_error + string) go" where
  "gce_internal_ip e = bind (ask (gx_Metadata e ''InternalIP'')) (\<lambda>r. ret (case r of
     Inl err \<Rightarrow> Inl (Wrap ''error querying InternalIP from GCE'' err)
   | Inr x \<Rightarrow> if x = [] then Inl (Errorf ''InternalIP from metadata was empty'')
       else (case gx_ParseIP e x of None \<Rightarrow> Inl (Errorf ''InternalIP from metadata was not parseable'') | Some ip \<Rightarrow> Inr ip)))"

definition NewGCEVolumes :: "'w gce_env \<Rightarrow> string \<Rightarrow> string list \<Rightarrow> string \<Rightarrow> ((unit, 'w, gce_event) sys, go_error + GCEVolumes) go" where
  "NewGCEVolumes e clusterName volumeTags nameTag =
     bind (ask (gx_NewClient e)) (\<lambda>r. case r of
       Some err \<Rightarrow> ret (Inl (Wrap ''error building API client'' err))
     | None \<Rightarrow>
       bind (gce_metadata e ''ProjectID'') (\<lambda>r. case r of
         Inl err \<Rightarrow> ret (Inl err)
       | Inr project \<Rightarrow>
         bind (gce_metadata e ''Zone'') (\<lambda>r. case r of
           Inl err \<Rightarrow> ret (Inl err)
         | Inr zone \<Rightarrow> (case regionFromZone zone of
             Inl err \<Rightarrow> ret (Inl (Wrap ''error determining region from zone'' err))
           | Inr region \<Rightarrow>
             bind (gce_metadata e ''InstanceName'') (\<lambda>r. case r of
               Inl err \<Rightarrow> ret (Inl err)
             | Inr instanceName \<Rightarrow>
               bind (gce_internal_ip e) (\<lambda>r. case r of
                 Inl err \<Rightarrow> ret (Inl err)
               | Inr ip \<Rightarrow>
                 bind (ask (gx_Zones e (TrimSpace project))) (\<lambda>r. ret (case r of
                   Inl err \<Rightarrow> Inl (Wrap ''error querying for GCE zones'' err)
                 | Inr zones \<Rightarrow> Inr (fold gce_add_tag volumeTags \<lparr>gc_matchTagKeys = [], gc_matchTags = [], gc_nameTag = nameTag,
                     gc_clusterName = clusterName, gc_project = TrimSpace project, gc_zone = TrimSpace zone, gc_region = region,
                     gc_instanceName = TrimSpace instanceName, gc_internalIP = ip,
                     gc_allZonesInRegion = map fst (filter (\<lambda>(name, r). lastComponent r = region) zones)\<rparr>)))))))))"

section \<open>Finding volumes\<close>

definition gce_matchesTags :: "GCEVolumes \<Rightarrow> gce_disk \<Rightarrow> bool" where
  "gce_matchesTags g d \<longleftrightarrow> list_all (\<lambda>k. gm_lookup (gd_Labels d) k \<noteq> None) (gc_matchTagKeys g)
     \<and> list_all (\<lambda>(k, v). gm_lookup (gd_Labels d) k = Some v) (gc_matchTags g)"

text \<open>\<^verbatim>\<open>url.QueryUnescape\<close>.\<close>

definition hex_val :: "char \<Rightarrow> nat option" where
  "hex_val c = (if CHR ''0'' \<le> c \<and> c \<le> CHR ''9'' then Some (of_char c - 48)
     else if CHR ''a'' \<le> c \<and> c \<le> CHR ''f'' then Some (of_char c - 87)
     else if CHR ''A'' \<le> c \<and> c \<le> CHR ''F'' then Some (of_char c - 55) else None)"

fun QueryUnescape :: "string \<Rightarrow> string option" where
  "QueryUnescape [] = Some []"
| "QueryUnescape (c # s) =
     (if c = CHR ''%'' then (case s of
        x # y # s' \<Rightarrow> (case (hex_val x, hex_val y) of
            (Some a, Some b) \<Rightarrow> map_option (\<lambda>t. char_of (16 * a + b) # t) (QueryUnescape s')
          | _ \<Rightarrow> None)
      | _ \<Rightarrow> None)
      else map_option (\<lambda>t. (if c = CHR ''+'' then CHR '' '' else c) # t) (QueryUnescape s))"

definition DecodeGCELabel :: "string \<Rightarrow> go_error + string" where
  "DecodeGCELabel s = (case QueryUnescape (map (\<lambda>c. if c = CHR ''-'' then CHR ''%'' else c) s) of
     None \<Rightarrow> Inl (Errorf ''cannot decode GCE label'') | Some v \<Rightarrow> Inr v)"

definition gce_etcd_name :: "GCEVolumes \<Rightarrow> gce_disk \<Rightarrow> go_error + string" where
  "gce_etcd_name g d = (case gm_lookup (gd_Labels d) (gc_nameTag g) of
     Some (c # v) \<Rightarrow> if gc_nameTag g = [] then Inr (gd_Name d) else (case DecodeGCELabel (c # v) of
         Inl err \<Rightarrow> Inl (Errorf ''error decoding GCE label'')
       | Inr plaintext \<Rightarrow> Inr (gc_clusterName g @ ''-'' @ hd (split2 (CHR ''/'') plaintext)))
   | _ \<Rightarrow> Inr (gd_Name d))"

text \<open>The users of a disk: the last one is reported, and a device if one of them is this instance.\<close>

fun disk_users :: "GCEVolumes \<Rightarrow> gce_disk \<Rightarrow> string list \<Rightarrow> Volume \<Rightarrow> go_error + Volume" where
  "disk_users g d [] v = Inr v"
| "disk_users g d (attachedTo # us) v = (case ParseGoogleCloudURL attachedTo of
     Inl err \<Rightarrow> Inl (Wrap ''error parsing disk attachmnet url'' err)
   | Inr u \<Rightarrow> disk_users g d us (v\<lparr>v_AttachedTo := attachedTo,
       v_LocalDevice := (if gu_Project u = gc_project g \<and> gu_Zone u = gc_zone g \<and> gu_Name u = gc_instanceName g
         then ''/dev/disk/by-id/google-'' @ gd_Name d else v_LocalDevice v)\<rparr>))"

definition buildGCEVolume :: "GCEVolumes \<Rightarrow> gce_disk \<Rightarrow> go_error + Volume" where
  "buildGCEVolume g d = (case gce_etcd_name g d of
     Inl err \<Rightarrow> Inl err
   | Inr etcdName \<Rightarrow> disk_users g d (gd_Users d) \<lparr>v_MountName = ''master-'' @ lastComponent (gd_Zone d) @ ''-'' @ gd_Name d,
       v_ProviderID = gd_SelfLink d, v_EtcdName = etcdName, v_LocalDevice = [], v_AttachedTo = [], v_Mountpoint = [],
       v_Status = gd_Status d, v_Description = gd_SelfLink d\<rparr>)"

definition volumes_of_disks :: "GCEVolumes \<Rightarrow> gce_disk list \<Rightarrow> Volume list" where
  "volumes_of_disks g ds = List.map_filter (\<lambda>d. case buildGCEVolume g d of Inl _ \<Rightarrow> None | Inr v \<Rightarrow> Some v) (filter (gce_matchesTags g) ds)"

definition gce_findVolumes :: "'w gce_env \<Rightarrow> bool \<Rightarrow> ('w gce, go_error + Volume list) go" where
  "gce_findVolumes e filterByZone =
     bind (get_self (\<lambda>g. g)) (\<lambda>g.
     bind (for_each (if filterByZone then [gc_zone g] else gc_allZonesInRegion g) [] (\<lambda>zone found.
       bind (ask (gx_Disks e (gc_project g) zone)) (\<lambda>r. ret (case r of
         Inl err \<Rightarrow> Stop (Wrap ''error querying GCE disks'' err)
       | Inr pages \<Rightarrow> Next (found @ volumes_of_disks g (concat pages)))))) (\<lambda>r.
     ret (case r of Stop err \<Rightarrow> Inl err | Next found \<Rightarrow> Inr found)))"

definition gce_FindVolumes :: "'w gce_env \<Rightarrow> ('w gce, go_error + Volume list) go" where
  "gce_FindVolumes e = gce_findVolumes e True"

definition gce_FindMountedVolume :: "'w gce_env \<Rightarrow> Volume \<Rightarrow> ('w gce, go_error + string) go" where
  "gce_FindMountedVolume e v = stat_device e ''error checking for device'' (v_LocalDevice v)"

section \<open>Attaching\<close>

definition gce_AttachVolume :: "'w gce_env \<Rightarrow> Volume \<Rightarrow> ('w gce, go_error option \<times> Volume) go" where
  "gce_AttachVolume e v =
     (let volumeURL = v_ProviderID v; volumeName = lastComponent volumeURL in
      bind (get_self (\<lambda>g. g)) (\<lambda>g.
      bind (act (gx_AttachDisk e (gc_project g) (gc_zone g) (gc_instanceName g) volumeName volumeURL) (EvGceAttach (gc_instanceName g) volumeURL)) (\<lambda>r. case r of
        Inl err \<Rightarrow> ret (Some (Wrap ''error attaching disk'' err), v)
      | Inr attachOp \<Rightarrow>
        bind (WaitForOp e attachOp) (\<lambda>r. ret (case r of
          Some err \<Rightarrow> (Some (Wrap ''error waiting for disk attach to complete'' err), v)
        | None \<Rightarrow> (None, v\<lparr>v_LocalDevice := ''/dev/disk/by-id/google-'' @ volumeName\<rparr>))))))"

definition gce_MyIP :: "GCEVolumes \<Rightarrow> go_error + string" where
  "gce_MyIP g = (if gc_internalIP g = [] then Inl (Errorf ''unable to determine local IP'') else Inr (gc_internalIP g))"

section \<open>Discovery\<close>

definition gce_Poll :: "'w gce_env \<Rightarrow> ('w gce, go_error + Node gomap) go" where
  "gce_Poll e =
     bind (gce_findVolumes e False) (\<lambda>r. case r of
       Inl err \<Rightarrow> ret (Inl err)
     | Inr allVolumes \<Rightarrow>
       bind (range_map (cl_rt e) (fold (\<lambda>v m. gm_update (v_AttachedTo v) v m) (filter (\<lambda>v. v_AttachedTo v \<noteq> []) allVolumes) [])) (\<lambda>kvs.
       bind (for_each kvs [] (\<lambda>(i, v) found. case ParseGoogleCloudURL i of
           Inl _ \<Rightarrow> ret (Next found)
         | Inr u \<Rightarrow>
             if gu_Project u = [] \<or> gu_Zone u = [] \<or> gu_Name u = [] then ret (Next found)
             else bind (ask (gx_Instance e (gu_Project u) (gu_Zone u) (gu_Name u))) (\<lambda>r. ret (case r of
                 Inl _ \<Rightarrow> Next found
               | Inr ips \<Rightarrow> (Next (gm_update (v_EtcdName v) \<lparr>dn_ID = v_EtcdName v,
                   dn_Endpoints = map (\<lambda>ip. \<lparr>ne_IP = ip, ne_Port = 0\<rparr>) (filter (\<lambda>ip. ip \<noteq> []) ips)\<rparr> found) :: (Node gomap, unit) loop))))) (\<lambda>r.
       ret (Inr (case r of Next found \<Rightarrow> found | Stop _ \<Rightarrow> [])))))"

section \<open>Resource URLs are read back\<close>

definition url_ok :: "GoogleCloudURL \<Rightarrow> bool" where
  "url_ok u \<longleftrightarrow> gu_Version u \<in> {[], ''v1'', ''beta''} \<and> gu_Type u \<notin> {''projects'', ''zones'', ''global''}
     \<and> (\<forall>x \<in> {gu_Project u, gu_Type u, gu_Name u, gu_Region u, gu_Zone u}. CHR ''/'' \<notin> set x)"

definition url_tail :: "GoogleCloudURL \<Rightarrow> string list" where
  "url_tail u = (if gu_Project u \<noteq> [] then [''projects'', gu_Project u] else []) @ (if gu_Global u then [''global''] else [])
     @ (if gu_Region u \<noteq> [] then [''regions'', gu_Region u] else []) @ (if gu_Zone u \<noteq> [] then [''zones'', gu_Zone u] else [])
     @ [gu_Type u, gu_Name u]"

lemma BuildURL_join:
  "BuildURL u = join ''/'' ([''https:'', [], ''www.googleapis.com'', ''compute'', if gu_Version u = [] then ''v1'' else gu_Version u] @ url_tail u)"
  by (simp add: BuildURL_def url_tail_def)

lemma split_BuildURL:
  assumes "url_ok u"
  shows "split_on (CHR ''/'') (BuildURL u) =
    [''https:'', [], ''www.googleapis.com'', ''compute'', if gu_Version u = [] then ''v1'' else gu_Version u] @ url_tail u"
  using assms unfolding BuildURL_join by (subst split_on_join) (auto simp: url_ok_def url_tail_def)

lemma parse_url_tail:
  assumes "gu_Type u \<notin> {''projects'', ''zones'', ''global''}"
  shows "parse_tokens (url_tail u) \<lparr>gu_Version = x, gu_Project = [], gu_Type = [], gu_Name = [], gu_Global = False, gu_Region = [], gu_Zone = []\<rparr>
    = Inr (u\<lparr>gu_Version := x\<rparr>)"
  using assms by (cases u) (auto simp: url_tail_def)

section \<open>The provider keeps the contract of the mounter\<close>

lemma poll_op_spares: "spares did_not_set (poll_op n f)"
  by (induction n) (auto intro!: spares_rules)

lemma gce_AttachVolume_spares: "spares did_not_set (gce_AttachVolume e v)"
  unfolding gce_AttachVolume_def WaitForOp_def waitForOp_def by (intro spares_rules poll_op_spares)

lemma gce_AttachVolume_sets: "gce_AttachVolume e v s = (Ret (None, v'), s') \<Longrightarrow> v_LocalDevice v' \<noteq> []"
  by (auto simp: gce_AttachVolume_def bind_apply ret_apply Let_def split: prod.splits outcome.splits sum.splits option.splits)

interpretation gce: volume_provider "hosted (gce_FindVolumes e)" "\<lambda>v. hosted (gce_AttachVolume e v)" for e
proof
  fix v v' :: Volume and w w' :: "GCEVolumes \<times> 'a"
  assume "hosted (gce_AttachVolume e v) w = (Ret (None, v'), w')"
  then show "v_LocalDevice v' \<noteq> [] \<or> v_Mountpoint v' \<noteq> []"
    by (auto simp: hosted_def split: prod.splits dest: gce_AttachVolume_sets)
next
  show "hosted (gce_FindVolumes e) w \<noteq> (Panic did_not_set, w')" for w w'
    unfolding gce_FindVolumes_def gce_findVolumes_def by (intro spares_hosted spares_rules)
  show "hosted (gce_AttachVolume e v) w \<noteq> (Panic did_not_set, w')" for v w w'
    by (intro spares_hosted gce_AttachVolume_spares)
qed

section \<open>Properties\<close>

text \<open>
  A resource URL that is built is read back: parsing gives the same project, zone, region, type and name, with the version
  made explicit.
\<close>

theorem resource_url_read_back:
  assumes "url_ok u"
  shows "ParseGoogleCloudURL (BuildURL u) = Inr (u\<lparr>gu_Version := if gu_Version u = [] then ''v1'' else gu_Version u\<rparr>)"
proof -
  have "gu_Version u \<in> {[], ''v1'', ''beta''}" "gu_Type u \<notin> {''projects'', ''zones'', ''global''}"
    using assms by (auto simp: url_ok_def)
  then show ?thesis
    unfolding ParseGoogleCloudURL_def split_BuildURL [OF assms] by (auto simp: parse_url_tail Let_def)
qed

theorem resource_url_read_back_witness:
  "ParseGoogleCloudURL (BuildURL \<lparr>gu_Version = [], gu_Project = ''p'', gu_Type = ''instances'', gu_Name = ''a'', gu_Global = False,
      gu_Region = [], gu_Zone = ''us-central1-b''\<rparr>) =
   Inr \<lparr>gu_Version = ''v1'', gu_Project = ''p'', gu_Type = ''instances'', gu_Name = ''a'', gu_Global = False, gu_Region = [], gu_Zone = ''us-central1-b''\<rparr>"
  by (subst resource_url_read_back) (simp_all add: url_ok_def)

end
