(* ===== verification/Volumes_Do.thy ===== *)
theory Volumes_Do
  imports Mounting Private_Api
begin

text \<open>
  The volumes of DigitalOcean (\<^verbatim>\<open>pkg/volumes/do\<close>): droplet metadata over HTTP, tags as \<^verbatim>\<open>key:value\<close> strings that are compared without
  regard to case, attaching and discovery. The API client and HTTP are parameters; upper case is that of ASCII.
\<close>

section \<open>Data\<close>

record do_volume =
  dv_ID :: string
  dv_Name :: string
  dv_Tags :: "string list"
  dv_DropletIDs :: "int list"

record DOVolumes =
  do_ClusterName :: string
  do_region :: string
  do_dropletName :: string
  do_dropletID :: int
  do_nameTag :: string
  do_matchTagKeys :: "string list"
  do_matchTags :: "string gomap"
  do_dropletTags :: "string list"

datatype do_event = EvDoAttach string int "go_error + string"

record 'w do_env = "'w cloud_env" +
  dx_HttpGet :: "string \<Rightarrow> 'w \<Rightarrow> (go_error + int \<times> (go_error + string)) \<times> 'w"
  dx_ListVolumes :: "string option \<Rightarrow> int \<Rightarrow> 'w \<Rightarrow> (go_error + do_volume list \<times> (go_error + int) option) \<times> 'w"
  dx_GetVolume :: "string \<Rightarrow> 'w \<Rightarrow> (go_error + do_volume) \<times> 'w"
  dx_Attach :: "string \<Rightarrow> int \<Rightarrow> 'w \<Rightarrow> (go_error + string) \<times> 'w"
  dx_GetDroplet :: "int \<Rightarrow> 'w \<Rightarrow> (go_error + (go_error + string)) \<times> 'w"

type_synonym ('st, 'w) do_sys = "('st, 'w, do_event) sys"
type_synonym 'w dovol = "(DOVolumes, 'w) do_sys"

section \<open>Metadata and construction\<close>

definition do_getMetadata :: "'w do_env \<Rightarrow> string \<Rightarrow> (('st, 'w) do_sys, go_error + string) go" where
  "do_getMetadata e url =
     bind (ask (dx_HttpGet e url)) (\<lambda>r. ret (case r of
       Inl err \<Rightarrow> Inl err
     | Inr (code, body) \<Rightarrow> if code \<noteq> 200 then Inl (Errorf ''droplet metadata returned non-200 status code'') else body))"

definition do_metadata_url :: "string \<Rightarrow> string" where
  "do_metadata_url what = ''http://169.254.169.254/metadata/v1/'' @ what"

definition getMetadataDropletTags :: "'w do_env \<Rightarrow> (('st, 'w) do_sys, go_error + string list) go" where
  "getMetadataDropletTags e =
     bind (do_getMetadata e (do_metadata_url ''tags'')) (\<lambda>r. ret (case r of
       Inl err \<Rightarrow> Inl (Wrap ''error fetching droplet tags'' err) | Inr tags \<Rightarrow> Inr (split_on (CHR 10) tags)))"

definition NewCloud :: "'w do_env \<Rightarrow> (('st, 'w) do_sys, go_error option) go" where
  "NewCloud e = bind (ask (cl_Getenv e ''DIGITALOCEAN_ACCESS_TOKEN'')) (\<lambda>accessToken.
     ret (if accessToken = [] then Some (Errorf ''DIGITALOCEAN_ACCESS_TOKEN is required'') else None))"

definition do_add_tag :: "string \<Rightarrow> DOVolumes \<Rightarrow> DOVolumes" where
  "do_add_tag volumeTag a = (case split2 (CHR ''='') volumeTag of
     [k] \<Rightarrow> a\<lparr>do_matchTagKeys := do_matchTagKeys a @ [k]\<rparr>
   | k # v # _ \<Rightarrow> a\<lparr>do_matchTags := gm_update k v (do_matchTags a)\<rparr>
   | [] \<Rightarrow> a)"

definition NewDOVolumes :: "'w do_env \<Rightarrow> string \<Rightarrow> string list \<Rightarrow> string \<Rightarrow> ((unit, 'w) do_sys, go_error + DOVolumes) go" where
  "NewDOVolumes e clusterName volumeTags nameTag =
     bind (do_getMetadata e (do_metadata_url ''region'')) (\<lambda>r. case r of
       Inl err \<Rightarrow> ret (Inl (Wrap ''failed to get droplet region'' err))
     | Inr region \<Rightarrow>
       bind (do_getMetadata e (do_metadata_url ''id'')) (\<lambda>r. case r of
         Inl err \<Rightarrow> ret (Inl (Wrap ''failed to get droplet id'' err))
       | Inr i \<Rightarrow> (case Atoi i of
           Inl err \<Rightarrow> ret (Inl (Wrap ''failed to convert droplet ID to int'' err))
         | Inr dropletID \<Rightarrow>
           bind (do_getMetadata e (do_metadata_url ''hostname'')) (\<lambda>r. case r of
             Inl err \<Rightarrow> ret (Inl (Wrap ''failed to get droplet name'' err))
           | Inr dropletName \<Rightarrow>
             bind (getMetadataDropletTags e) (\<lambda>r. case r of
               Inl err \<Rightarrow> ret (Inl (Wrap ''failed to get droplet tags'' err))
             | Inr dropletTags \<Rightarrow>
               bind (NewCloud e) (\<lambda>r. ret (case r of
                 Some err \<Rightarrow> Inl (Wrap ''failed to initialize digitalocean cloud'' err)
               | None \<Rightarrow> Inr (fold do_add_tag volumeTags \<lparr>do_ClusterName = clusterName, do_region = region, do_dropletName = dropletName,
                   do_dropletID = dropletID, do_nameTag = nameTag, do_matchTagKeys = [], do_matchTags = [], do_dropletTags = dropletTags\<rparr>))))))))"

definition do_MyIP :: "'w do_env \<Rightarrow> (('st, 'w) do_sys, go_error + string) go" where
  "do_MyIP e = do_getMetadata e (do_metadata_url ''interfaces/private/0/ipv4/address'')"

section \<open>Matching\<close>

definition do_Contains :: "string list \<Rightarrow> string \<Rightarrow> bool" where
  "do_Contains dotags x = list_ex (\<lambda>n. ToUpper x = ToUpper n) dotags"

definition matchesDropletTags :: "DOVolumes \<Rightarrow> do_volume \<Rightarrow> bool" where
  "matchesDropletTags a v = list_all (\<lambda>(k, x). do_Contains (dv_Tags v) (k @ '':'' @ x) \<and> do_Contains (do_dropletTags a) (k @ '':'' @ x))
     (do_matchTags a)"

text \<open>The pairs of a volume tag and a droplet tag that agree on a key and its value are counted.\<close>

definition same_value :: "string \<Rightarrow> string \<Rightarrow> string \<Rightarrow> bool" where
  "same_value matchTag volumeTag dropletTag = (case (split2 (CHR '':'') volumeTag, split2 (CHR '':'') dropletTag) of
     (vtKey # vtValue # _, dtKey # dtValue # _) \<Rightarrow>
       ToUpper matchTag = ToUpper vtKey \<and> ToUpper matchTag = ToUpper dtKey \<and> ToUpper dtValue = ToUpper vtValue
   | _ \<Rightarrow> False)"

definition matchingTagCount :: "DOVolumes \<Rightarrow> do_volume \<Rightarrow> nat" where
  "matchingTagCount a v = sum_list (map (\<lambda>matchTag. sum_list (map (\<lambda>volumeTag.
     length (filter (same_value matchTag volumeTag) (do_dropletTags a))) (dv_Tags v))) (do_matchTagKeys a))"

definition do_matchesTags :: "DOVolumes \<Rightarrow> do_volume \<Rightarrow> bool" where
  "do_matchesTags a v \<longleftrightarrow> matchesDropletTags a v \<and> length (do_matchTagKeys a) = matchingTagCount a v"

definition contains :: "string \<Rightarrow> string \<Rightarrow> bool" where
  "contains s sub \<longleftrightarrow> index_of sub s \<noteq> None"

definition getLocalDeviceName :: "do_volume \<Rightarrow> string" where
  "getLocalDeviceName v = ''/dev/disk/by-id/scsi-0DO_Volume_'' @ dv_Name v"

definition clusterKey :: "do_volume \<Rightarrow> string" where
  "clusterKey v = (if contains (dv_Name v) ''etcd-main'' then ''main'' else if contains (dv_Name v) ''etcd-events'' then ''events'' else [])"

definition appendMatchedVolume :: "DOVolumes \<Rightarrow> do_volume \<Rightarrow> Volume option" where
  "appendMatchedVolume a v =
     (if contains (do_nameTag a) (clusterKey v)
      then Some \<lparr>v_MountName = ''master-'' @ dv_ID v, v_ProviderID = dv_ID v, v_EtcdName = dv_Name v,
        v_LocalDevice = (if dv_DropletIDs v \<noteq> [] then getLocalDeviceName v else []),
        v_AttachedTo = (case dv_DropletIDs v of [] \<Rightarrow> [] | i # _ \<Rightarrow> FormatInt i),
        v_Mountpoint = [], v_Status = [], v_Description = do_ClusterName a @ ''-'' @ do_nameTag a\<rparr>
      else None)"

section \<open>Finding volumes\<close>

text \<open>The loop over the pages of the list; the bound is on their number.\<close>

fun list_pages :: "nat \<Rightarrow> 'w do_env \<Rightarrow> string option \<Rightarrow> int \<Rightarrow> do_volume list \<Rightarrow> ('w dovol, go_error + do_volume list) go" where
  "list_pages 0 e region pg acc = panic ''still listing volumes''"
| "list_pages (Suc n) e region pg acc =
     bind (ask (dx_ListVolumes e region pg)) (\<lambda>r. case r of
       Inl err \<Rightarrow> ret (Inl err)
     | Inr (vs, links) \<Rightarrow> (case links of
         None \<Rightarrow> ret (Inr (acc @ vs))
       | Some (Inl err) \<Rightarrow> ret (Inl err)
       | Some (Inr current) \<Rightarrow> list_pages n e region (current + 1) (acc @ vs)))"

definition getAllVolumesByRegion :: "'w do_env \<Rightarrow> bool \<Rightarrow> ('w dovol, go_error + do_volume list) go" where
  "getAllVolumesByRegion e filterByRegion =
     bind (get_self do_region) (\<lambda>region. list_pages (cl_patience e) e (if filterByRegion then Some region else None) 0 [])"

definition matched_volumes :: "'w do_env \<Rightarrow> (DOVolumes \<Rightarrow> do_volume \<Rightarrow> bool) \<Rightarrow> bool \<Rightarrow> ('w dovol, go_error + Volume list) go" where
  "matched_volumes e matches filterByRegion =
     bind (get_self (\<lambda>a. a)) (\<lambda>a.
     bind (getAllVolumesByRegion e filterByRegion) (\<lambda>r. ret (case r of
       Inl err \<Rightarrow> Inl (Wrap ''failed to list volumes'' err)
     | Inr vs \<Rightarrow> Inr (List.map_filter (appendMatchedVolume a) (filter (matches a) vs)))))"

definition do_findAllVolumes :: "'w do_env \<Rightarrow> bool \<Rightarrow> ('w dovol, go_error + Volume list) go" where
  "do_findAllVolumes e filterByRegion = matched_volumes e matchesDropletTags filterByRegion"

definition do_findVolumes :: "'w do_env \<Rightarrow> bool \<Rightarrow> ('w dovol, go_error + Volume list) go" where
  "do_findVolumes e filterByRegion = matched_volumes e do_matchesTags filterByRegion"

definition do_FindVolumes :: "'w do_env \<Rightarrow> ('w dovol, go_error + Volume list) go" where
  "do_FindVolumes e = do_findVolumes e True"

definition do_FindMountedVolume :: "'w do_env \<Rightarrow> Volume \<Rightarrow> ('w dovol, go_error + string) go" where
  "do_FindMountedVolume e v = stat_device e ''error checking for device'' (v_LocalDevice v)"

section \<open>Attaching\<close>

text \<open>The endless loop of \<^verbatim>\<open>AttachVolume\<close>.\<close>

fun do_attach :: "nat \<Rightarrow> 'w do_env \<Rightarrow> Volume \<Rightarrow> ('w dovol, go_error option \<times> Volume) go" where
  "do_attach 0 e v = panic ''still attaching the volume''"
| "do_attach (Suc n) e v =
     bind (get_self do_dropletID) (\<lambda>me.
     bind (act (dx_Attach e (v_ProviderID v) me) (EvDoAttach (v_ProviderID v) me)) (\<lambda>r. case r of
       Inl err \<Rightarrow> ret (Some (Wrap ''error attaching volume'' err), v)
     | Inr st \<Rightarrow>
         if st \<noteq> ''in-progress'' \<and> st \<noteq> ''completed'' then ret (Some (Errorf ''invalid status for digitalocean volume''), v)
         else
           bind (ask (dx_GetVolume e (v_ProviderID v))) (\<lambda>r. case r of
             Inl err \<Rightarrow> ret (Some (Wrap ''error getting volume status'' err), v)
           | Inr dv \<Rightarrow> (case dv_DropletIDs dv of
               [] \<Rightarrow> bind (ask (cl_Sleep e (10 * second))) (\<lambda>_. do_attach n e v)
             | i # rest \<Rightarrow>
                 if rest \<noteq> [] then ret (Some (Errorf ''multiple attachments found for volume''), v)
                 else if i \<noteq> me then ret (Some (Errorf ''digitalocean volume is attached to another droplet''), v)
                 else ret (None, v\<lparr>v_LocalDevice := getLocalDeviceName dv\<rparr>)))))"

definition do_AttachVolume :: "'w do_env \<Rightarrow> Volume \<Rightarrow> ('w dovol, go_error option \<times> Volume) go" where
  "do_AttachVolume e v = do_attach (cl_patience e) e v"

section \<open>Discovery\<close>

definition do_Poll :: "'w do_env \<Rightarrow> ('w dovol, go_error + Node gomap) go" where
  "do_Poll e =
     bind (do_findAllVolumes e False) (\<lambda>r. case r of
       Inl err \<Rightarrow> ret (Inl (Wrap ''failed to discover any volumes'' err))
     | Inr allVolumes \<Rightarrow>
       bind (range_map (cl_rt e) (fold (\<lambda>v m. gm_update (v_AttachedTo v) v m) (filter (\<lambda>v. v_AttachedTo v \<noteq> []) allVolumes) [])) (\<lambda>kvs.
       bind (for_each (map snd kvs) [] (\<lambda>v found. case Atoi (v_AttachedTo v) of
           Inl err \<Rightarrow> ret (Stop (Wrap ''failed to convert to integer'' err))
         | Inr dropletID \<Rightarrow>
           bind (ask (dx_GetDroplet e dropletID)) (\<lambda>r. ret (case r of
             Inl err \<Rightarrow> Stop (Wrap ''failed to retrieve droplet via api'' err)
           | Inr (Inl err) \<Rightarrow> Stop (Wrap ''failed to retrieve droplet private IP'' err)
           | Inr (Inr ip) \<Rightarrow> Next (gm_update (v_EtcdName v) \<lparr>dn_ID = v_EtcdName v, dn_Endpoints = [\<lparr>ne_IP = ip, ne_Port = 0\<rparr>]\<rparr> found))))) (\<lambda>r.
       ret (case r of Stop err \<Rightarrow> Inl err | Next found \<Rightarrow> Inr found))))"

section \<open>The provider keeps the contract of the mounter\<close>

lemma do_attach_spares: "spares did_not_set (do_attach n e v)"
proof (induction n)
  case (Suc n)
  then show ?case unfolding do_attach.simps by (intro spares_rules)
qed (simp add: spares_basic did_not_set_def)

lemma do_attach_sets: "do_attach n e v s = (Ret (None, v'), s') \<Longrightarrow> v_LocalDevice v' \<noteq> []"
proof (induction n arbitrary: s)
  case (Suc n)
  then show ?case
    by (auto simp: go_run getLocalDeviceName_def split: prod.splits option.splits sum.splits if_splits list.splits)
qed (simp add: panic_apply)

lemma list_pages_spares: "spares did_not_set (list_pages n e r pg acc)"
proof (induction n arbitrary: pg acc)
  case (Suc n)
  then show ?case unfolding list_pages.simps by (intro spares_rules)
qed (simp add: spares_basic did_not_set_def)

interpretation dovol: volume_provider "hosted (do_FindVolumes e)" "\<lambda>v. hosted (do_AttachVolume e v)" for e
proof
  fix v v' :: Volume and w w' :: "DOVolumes \<times> 'a"
  assume "hosted (do_AttachVolume e v) w = (Ret (None, v'), w')"
  then show "v_LocalDevice v' \<noteq> [] \<or> v_Mountpoint v' \<noteq> []"
    by (auto simp: hosted_def do_AttachVolume_def split: prod.splits dest: do_attach_sets)
next
  show "hosted (do_FindVolumes e) w \<noteq> (Panic did_not_set, w')" for w w'
    unfolding do_FindVolumes_def do_findVolumes_def matched_volumes_def getAllVolumesByRegion_def
    by (intro spares_hosted spares_rules list_pages_spares)
  show "hosted (do_AttachVolume e v) w \<noteq> (Panic did_not_set, w')" for v w w'
    unfolding do_AttachVolume_def by (intro spares_hosted do_attach_spares)
qed

section \<open>Two oddities\<close>

text \<open>A volume whose name is neither of a main nor of an events cluster matches every name tag.\<close>

lemma contains_nothing: "contains s []"
  by (cases s) (simp_all add: contains_def HasPrefix_def)

theorem foreign_names_match:
  assumes "\<not> contains (dv_Name v) ''etcd-main''" and "\<not> contains (dv_Name v) ''etcd-events''"
  shows "appendMatchedVolume a v \<noteq> None"
  using assms by (simp add: appendMatchedVolume_def clusterKey_def contains_nothing)

text \<open>A volume that is attached to another droplet is reported with a local device.\<close>

theorem remote_volumes_look_local:
  assumes "dv_DropletIDs v = [i]" and "appendMatchedVolume a v = Some u"
  shows "v_LocalDevice u \<noteq> [] \<and> v_AttachedTo u = FormatInt i"
  using assms by (auto simp: appendMatchedVolume_def getLocalDeviceName_def split: if_splits)

end
