(* ===== verification/Volumes_Hetzner.thy ===== *)
theory Volumes_Hetzner
  imports Mounting Private_Api
begin

text \<open>
  The volumes of Hetzner Cloud (\<^verbatim>\<open>pkg/volumes/hetzner\<close>). The API client and the metadata service are parameters. The provider
  does not keep the contract of the mounter: a volume it has just attached has no device.
\<close>

section \<open>Data\<close>

record hcloud_server =
  hs_ID :: int
  hs_Location :: "string option"
  hs_PrivateNet :: "string list"

record hcloud_volume =
  hv_ID :: int
  hv_Name :: string
  hv_Location :: "string option"
  hv_Server :: "int option"

record HetznerVolumes =
  hz_clusterName :: string
  hz_matchPeerTags :: "string gomap"
  hz_matchNameTags :: "string gomap"
  hz_server :: hcloud_server

datatype hcloud_event = EvHcloudAttach int int "go_error + nat"

record 'w hetzner_env = "'w cloud_env" +
  zx_InstanceID :: "'w \<Rightarrow> (go_error + int) \<times> 'w"
  zx_GetServer :: "int \<Rightarrow> 'w \<Rightarrow> (go_error + hcloud_server option) \<times> 'w"
  zx_AllServers :: "'w \<Rightarrow> (go_error + hcloud_server list) \<times> 'w"
  zx_AllVolumes :: "string \<Rightarrow> 'w \<Rightarrow> (go_error + hcloud_volume list) \<times> 'w"
  zx_GetVolume :: "int \<Rightarrow> 'w \<Rightarrow> (go_error + hcloud_volume option) \<times> 'w"
  zx_Attach :: "int \<Rightarrow> int \<Rightarrow> 'w \<Rightarrow> (go_error + nat) \<times> 'w"
  zx_WatchProgress :: "nat \<Rightarrow> 'w \<Rightarrow> go_error option \<times> 'w"

type_synonym 'w hetzner = "(HetznerVolumes, 'w, hcloud_event) sys"

definition hcloud_device_prefix :: string where
  "hcloud_device_prefix = ''/dev/disk/by-id/scsi-0HC_Volume_''"

section \<open>Construction\<close>

definition put_tag :: "string \<Rightarrow> string gomap \<Rightarrow> string gomap" where
  "put_tag tag m = (case split2 (CHR ''='') tag of
     [k] \<Rightarrow> gm_update k [] m
   | k # v # _ \<Rightarrow> gm_update k v m
   | [] \<Rightarrow> m)"

definition NewHetznerVolumes :: "'w hetzner_env \<Rightarrow> string \<Rightarrow> string list \<Rightarrow> string
    \<Rightarrow> ((unit, 'w, hcloud_event) sys, go_error + HetznerVolumes) go" where
  "NewHetznerVolumes e clusterName volumeTags nameTag =
     bind (ask (zx_InstanceID e)) (\<lambda>r. case r of
       Inl err \<Rightarrow> ret (Inl (Wrap ''failed to retrieve server id'' err))
     | Inr serverID \<Rightarrow>
       bind (ask (cl_Getenv e ''HCLOUD_TOKEN'')) (\<lambda>hcloudToken.
       if hcloudToken = [] then ret (Inl (Errorf ''HCLOUD_TOKEN is required''))
       else
         bind (ask (zx_GetServer e serverID)) (\<lambda>r. case r of
           Inl err \<Rightarrow> ret (Inl (Wrap ''failed to get info for the running server'' err))
         | Inr None \<Rightarrow> ret (Inl (Errorf ''running server not found''))
         | Inr (Some server) \<Rightarrow>
             if hs_Location server = None then ret (Inl (Errorf ''failed to find location of the running server''))
             else if hs_PrivateNet server = [] then ret (Inl (Errorf ''failed to find private net of the running server''))
             else ret (Inr \<lparr>hz_clusterName = clusterName, hz_matchPeerTags = fold put_tag volumeTags [],
               hz_matchNameTags = put_tag nameTag (fold put_tag volumeTags []), hz_server = server\<rparr>))))"

section \<open>Finding volumes\<close>

definition hcloud_getMatchingVolumes :: "'w hetzner_env \<Rightarrow> string gomap \<Rightarrow> ('w hetzner, go_error + hcloud_volume list) go" where
  "hcloud_getMatchingVolumes e matchLabels =
     bind (range_map (cl_rt e) matchLabels) (\<lambda>kvs.
     let labelSelector = join '','' (map (\<lambda>(k, v). if v = [] then k else k @ ''='' @ v) kvs) in
     bind (ask (zx_AllVolumes e labelSelector)) (\<lambda>r. ret (case r of
       Inl err \<Rightarrow> Inl (Wrap ''failed to get volumes matching label selector'' err) | Inr vs \<Rightarrow> Inr vs)))"

definition hcloud_volume_of :: "HetznerVolumes \<Rightarrow> hcloud_volume \<Rightarrow> Volume" where
  "hcloud_volume_of a v =
     (let volumeID = FormatInt (hv_ID v) in
      \<lparr>v_MountName = ''hcloud-'' @ volumeID, v_ProviderID = volumeID, v_EtcdName = ''vol-'' @ volumeID,
       v_LocalDevice = (if hv_Server v = Some (hs_ID (hz_server a)) then hcloud_device_prefix @ FormatInt (hv_ID v) else []),
       v_AttachedTo = (case hv_Server v of None \<Rightarrow> [] | Some i \<Rightarrow> FormatInt i),
       v_Mountpoint = [], v_Status = [], v_Description = hz_clusterName a @ ''-'' @ volumeID\<rparr>)"

definition hetzner_FindVolumes :: "'w hetzner_env \<Rightarrow> ('w hetzner, go_error + Volume list) go" where
  "hetzner_FindVolumes e =
     bind (get_self (\<lambda>a. a)) (\<lambda>a. case hs_Location (hz_server a) of
       None \<Rightarrow> ret (Inl (Errorf ''failed to find server location for the running server''))
     | Some serverLocation \<Rightarrow>
       bind (hcloud_getMatchingVolumes e (hz_matchNameTags a)) (\<lambda>r. case r of
         Inl err \<Rightarrow> ret (Inl (Wrap ''failed to get matching volumes'' err))
       | Inr matching \<Rightarrow> ret (Inr (map (hcloud_volume_of a) (filter (\<lambda>v. hv_Location v = Some serverLocation) matching)))))"

definition hetzner_FindMountedVolume :: "'w hetzner_env \<Rightarrow> Volume \<Rightarrow> ('w hetzner, go_error + string) go" where
  "hetzner_FindMountedVolume e v = stat_device e ''failed to find local device'' (v_LocalDevice v)"

section \<open>Attaching\<close>

definition hetzner_AttachVolume :: "'w hetzner_env \<Rightarrow> Volume \<Rightarrow> ('w hetzner, go_error option \<times> Volume) go" where
  "hetzner_AttachVolume e v =
     bind (get_self (\<lambda>a. hs_ID (hz_server a))) (\<lambda>me. case Atoi (v_ProviderID v) of
       Inl err \<Rightarrow> ret (Some (Wrap ''failed to convert volume id to int'' err), v)
     | Inr volumeID \<Rightarrow>
       bind (ask (zx_GetVolume e volumeID)) (\<lambda>r. case r of
         Inl err \<Rightarrow> ret (Some (Wrap ''failed to get info for volume id'' err), v)
       | Inr None \<Rightarrow> ret (Some (Errorf ''volume id not found''), v)
       | Inr (Some hv) \<Rightarrow> (case hv_Server hv of
           Some server \<Rightarrow>
             if server \<noteq> me then ret (Some (Errorf ''found volume attached to a different server''), v)
             else ret (None, v\<lparr>v_LocalDevice := hcloud_device_prefix @ FormatInt (hv_ID hv)\<rparr>)
         | None \<Rightarrow>
             bind (act (zx_Attach e (hv_ID hv) me) (EvHcloudAttach (hv_ID hv) me)) (\<lambda>r. case r of
               Inl err \<Rightarrow> ret (Some (Wrap ''failed to attach volume'' err), v)
             | Inr action \<Rightarrow>
               bind (ask (zx_WatchProgress e action)) (\<lambda>r. case r of
                 Some err \<Rightarrow> ret (Some (Wrap ''failed to wait for volume to be ready'' err), v)
               | None \<Rightarrow> ret (None, v))))))"

definition hetzner_MyIP :: "HetznerVolumes \<Rightarrow> go_error + string" where
  "hetzner_MyIP a = (case hs_PrivateNet (hz_server a) of
     [] \<Rightarrow> Inl (Errorf ''failed to find server private ip address'') | ip # _ \<Rightarrow> Inr ip)"

section \<open>Discovery\<close>

definition hetzner_peer :: "(int \<times> hcloud_server) list \<Rightarrow> hcloud_volume \<Rightarrow> Node gomap \<Rightarrow> Node gomap" where
  "hetzner_peer serversByID v found = (case hv_Server v of
     None \<Rightarrow> found
   | Some serverID \<Rightarrow> (case map_of serversByID serverID of
       None \<Rightarrow> found
     | Some server \<Rightarrow> (case hs_PrivateNet server of
         [] \<Rightarrow> found
       | ip # _ \<Rightarrow> let i = ''vol-'' @ FormatInt (hv_ID v) in gm_update i \<lparr>dn_ID = i, dn_Endpoints = [\<lparr>ne_IP = ip, ne_Port = 0\<rparr>]\<rparr> found)))"

definition hetzner_Poll :: "'w hetzner_env \<Rightarrow> ('w hetzner, go_error + Node gomap) go" where
  "hetzner_Poll e =
     bind (get_self hz_matchPeerTags) (\<lambda>tags.
     bind (hcloud_getMatchingVolumes e tags) (\<lambda>r. case r of
       Inl err \<Rightarrow> ret (Inl (Wrap ''failed to get matching volumes'' err))
     | Inr matching \<Rightarrow>
       bind (ask (zx_AllServers e)) (\<lambda>r. case r of
         Inl err \<Rightarrow> ret (Inl (Wrap ''failed to list servers'' err))
       | Inr allServers \<Rightarrow>
           let serversByID = fold (\<lambda>s m. AList.update (hs_ID s) s m) allServers [] in
           ret (Inr (fold (hetzner_peer serversByID) matching [])))))"

section \<open>The contract of the mounter is broken\<close>

text \<open>The state of the provider does not change, and a volume that is already attached here gets its device.\<close>

lemma hetzner_AttachVolume_attached:
  assumes "Atoi (v_ProviderID v) = Inr i" and "zx_GetVolume e i (world s) = (Inr (Some hv), w)" and "hv_Server hv = Some (hs_ID (hz_server (self s)))"
  shows "hetzner_AttachVolume e v s = (Ret (None, v\<lparr>v_LocalDevice := hcloud_device_prefix @ FormatInt (hv_ID hv)\<rparr>), s\<lparr>world := w\<rparr>)"
  using assms by (simp add: hetzner_AttachVolume_def go_run)

lemma hetzner_AttachVolume_fresh:
  assumes "Atoi (v_ProviderID v) = Inr i" and "zx_GetVolume e i w = (Inr (Some hv), w1)" and "hv_Server hv = None"
    and "zx_Attach e (hv_ID hv) (hs_ID (hz_server a)) w1 = (Inr x, w2)" and "zx_WatchProgress e x w2 = (None, w3)"
  shows "hosted (hetzner_AttachVolume e v) (a, w) = (Ret (None, v), (a, w3))"
  using assms by (simp add: hetzner_AttachVolume_def hosted_def go_run)

text \<open>
  C40. The first volume that a Hetzner node attaches ends the process: \<^verbatim>\<open>AttachVolume\<close> returns without setting \<^verbatim>\<open>LocalDevice\<close> when the
  volume was free and the attachment succeeds, and the mounter takes that for a fatal error.
\<close>

theorem hetzner_attachment_is_fatal:
  assumes env: "mx_FindVolumes env = hosted (hetzner_FindVolumes e)" "mx_AttachVolume env = (\<lambda>v. hosted (hetzner_AttachVolume e v))"
    and found: "hosted (hetzner_FindVolumes e) (world s) = (Ret (Inr (v # vs)), (a, w))"
    and none_here: "\<forall>u \<in> set (v # vs). v_LocalDevice u = []" and free: "v_AttachedTo v = []"
    and volume: "Atoi (v_ProviderID v) = Inr i" "zx_GetVolume e i w = (Inr (Some hv), w1)" "hv_Server hv = None"
    and attached: "zx_Attach e (hv_ID hv) (hs_ID (hz_server a)) w1 = (Inr x, w2)" "zx_WatchProgress e x w2 = (None, w3)"
  shows "fst (attachMasterVolumes env s) = Panic did_not_set"
proof -
  have "v_Mountpoint v = []"
  proof -
    have "v \<in> set (v # vs)" by simp
    then show ?thesis using found
      by (auto simp: hosted_def hetzner_FindVolumes_def hcloud_getMatchingVolumes_def hcloud_volume_of_def Let_def go_run
          split: prod.splits option.splits outcome.splits sum.splits)
  qed
  then show ?thesis
    using found none_here free hetzner_AttachVolume_fresh [OF volume attached]
    by (auto simp: attachMasterVolumes_def env call_def try_attach_def go_run Let_def split: prod.splits)
qed

definition demo_hcloud_volume :: hcloud_volume where
  "demo_hcloud_volume = \<lparr>hv_ID = 7, hv_Name = ''etcd'', hv_Location = Some ''nbg1'', hv_Server = None\<rparr>"

definition demo_hetzner :: HetznerVolumes where
  "demo_hetzner = \<lparr>hz_clusterName = ''c'', hz_matchPeerTags = [], hz_matchNameTags = [],
     hz_server = \<lparr>hs_ID = 1, hs_Location = Some ''nbg1'', hs_PrivateNet = [''10.0.0.1'']\<rparr>\<rparr>"

definition demo_hetzner_env :: "unit hetzner_env" where
  "demo_hetzner_env = \<lparr>cl_rt = const_rt 0, cl_Containerized = True, cl_Stat = (\<lambda>_ w. (None, w)), cl_Getenv = (\<lambda>_ w. (''token'', w)),
     cl_Sleep = (\<lambda>_ w. ((), w)), cl_patience = 1, zx_InstanceID = (\<lambda>w. (Inr 1, w)),
     zx_GetServer = (\<lambda>_ w. (Inr (Some (hz_server demo_hetzner)), w)), zx_AllServers = (\<lambda>w. (Inr [hz_server demo_hetzner], w)),
     zx_AllVolumes = (\<lambda>_ w. (Inr [demo_hcloud_volume], w)), zx_GetVolume = (\<lambda>_ w. (Inr (Some demo_hcloud_volume), w)),
     zx_Attach = (\<lambda>_ _ w. (Inr 3, w)), zx_WatchProgress = (\<lambda>_ w. (None, w))\<rparr>"

definition hetzner_mount_env :: "(HetznerVolumes \<times> unit) mount_env" where
  "hetzner_mount_env = \<lparr>mx_rt = const_rt 0, mx_Containerized = True, mx_FindVolumes = hosted (hetzner_FindVolumes demo_hetzner_env),
     mx_AttachVolume = (\<lambda>v. hosted (hetzner_AttachVolume demo_hetzner_env v)),
     mx_FindMountedVolume = (\<lambda>v. hosted (hetzner_FindMountedVolume demo_hetzner_env v)),
     mx_Stat = (\<lambda>_ w. (None, w)), mx_MkdirAll = (\<lambda>_ w. (None, w)), mx_NewNsenter = (\<lambda>w. (None, w)),
     mx_List = (\<lambda>w. (Inr [], w)), mx_FormatAndMount = (\<lambda>_ _ _ w. (None, w)), mx_Resize = (\<lambda>_ _ w. (None, w)),
     mx_GetDeviceName = (\<lambda>_ w. (Inr [], w)), mx_Mount = (\<lambda>_ _ _ w. (None, w)), mx_EvalSymlinks = (\<lambda>p w. (Inr p, w)),
     mx_Abs = (\<lambda>p w. (Inr p, w)), mx_Sleep = (\<lambda>_ w. ((), w)), mx_patience = 1\<rparr>"

theorem hetzner_attachment_is_fatal_witness:
  "fst (attachMasterVolumes hetzner_mount_env \<lparr>self = newVolumeMountController, world = (demo_hetzner, ()), trace = []\<rparr>) = Panic did_not_set"
proof (rule hetzner_attachment_is_fatal [where hv = demo_hcloud_volume and i = 7 and a = demo_hetzner and x = 3])
  show "hosted (hetzner_FindVolumes demo_hetzner_env) (world \<lparr>self = newVolumeMountController, world = (demo_hetzner, ()), trace = []\<rparr>) =
      (Ret (Inr [hcloud_volume_of demo_hetzner demo_hcloud_volume]), (demo_hetzner, ()))"
    by (simp add: hosted_def hetzner_FindVolumes_def hcloud_getMatchingVolumes_def go_run demo_hetzner_env_def demo_hetzner_def
        demo_hcloud_volume_def const_rt_def)
  show "Atoi (v_ProviderID (hcloud_volume_of demo_hetzner demo_hcloud_volume)) = Inr 7"
    by (simp add: hcloud_volume_of_def demo_hcloud_volume_def Atoi_FormatInt int64_min_def int64_max_def Let_def)
qed (simp_all add: hetzner_mount_env_def demo_hetzner_env_def hcloud_volume_of_def demo_hcloud_volume_def demo_hetzner_def Let_def)

end
