(* ===== verification/Volumes_Linode.thy ===== *)
theory Volumes_Linode
  imports Mounting Private_Api
begin

text \<open>
  The volumes of Linode (\<^verbatim>\<open>pkg/volumes/linode\<close>): the metadata service with its text format, tags with \<^verbatim>\<open>=\<close> or \<^verbatim>\<open>:\<close>, device paths from
  labels, attaching and discovery. The API client and HTTP are parameters.
\<close>

section \<open>Data\<close>

record linode_volume =
  lv_ID :: int
  lv_Label :: string
  lv_Status :: string
  lv_Region :: string
  lv_Tags :: "string list"
  lv_LinodeID :: "int option"
  lv_FilesystemPath :: string

record linode_ip =
  lip_text :: string
  lip_is4 :: bool
  lip_private :: bool

record LinodeVolumes =
  ln_clusterName :: string
  ln_matchPeerTags :: "string gomap"
  ln_matchNameTags :: "string gomap"
  ln_instanceID :: int
  ln_region :: string

datatype linode_event = EvLinodeAttach int int "go_error option"

record 'w linode_env = "'w cloud_env" +
  nx_request :: "string \<Rightarrow> string \<Rightarrow> (string \<times> string) \<Rightarrow> 'w \<Rightarrow> (go_error + int \<times> (go_error + string)) \<times> 'w"
  nx_ListVolumes :: "'w \<Rightarrow> (go_error + linode_volume list) \<times> 'w"
  nx_GetVolume :: "int \<Rightarrow> 'w \<Rightarrow> (go_error + linode_volume) \<times> 'w"
  nx_AttachVolume :: "int \<Rightarrow> int \<Rightarrow> 'w \<Rightarrow> go_error option \<times> 'w"
  nx_GetIPs :: "int \<Rightarrow> 'w \<Rightarrow> (go_error + (string option list \<times> string option list) option) \<times> 'w"
  nx_GetInstance :: "int \<Rightarrow> 'w \<Rightarrow> (go_error + linode_ip option list) \<times> 'w"

type_synonym 'w linode = "(LinodeVolumes, 'w, linode_event) sys"

section \<open>Metadata\<close>

definition parseLinodeMetadataValue :: "string \<Rightarrow> string \<Rightarrow> string" where
  "parseLinodeMetadataValue metadata key =
     (let prefix = key @ '':'' in
      case List.find (\<lambda>l. HasPrefix l prefix) (map TrimSpace (split_on (CHR 10) metadata)) of
        None \<Rightarrow> [] | Some line \<Rightarrow> TrimSpace (TrimPrefix line prefix))"

definition fetchLinodeMetadataToken :: "'w linode_env \<Rightarrow> string \<Rightarrow> ((unit, 'w, linode_event) sys, go_error + string) go" where
  "fetchLinodeMetadataToken e baseURL =
     bind (ask (nx_request e ''PUT'' (baseURL @ ''/v1/token'') (''Metadata-Token-Expiry-Seconds'', ''300''))) (\<lambda>r. ret (case r of
       Inl err \<Rightarrow> Inl (Wrap ''fetching metadata token'' err)
     | Inr (statusCode, body) \<Rightarrow>
         if statusCode \<noteq> 200 then Inl (Errorf ''fetching metadata token: unexpected status code'')
         else (case body of
           Inl err \<Rightarrow> Inl (Wrap ''reading metadata token response'' err)
         | Inr b \<Rightarrow> if TrimSpace b = [] then Inl (Errorf ''metadata token was empty'') else Inr (TrimSpace b))))"

definition fetchLinodeInstanceMetadata :: "'w linode_env \<Rightarrow> string \<Rightarrow> string \<Rightarrow> ((unit, 'w, linode_event) sys, go_error + string) go" where
  "fetchLinodeInstanceMetadata e baseURL token =
     bind (ask (nx_request e ''GET'' (baseURL @ ''/v1/instance'') (''Metadata-Token'', token))) (\<lambda>r. ret (case r of
       Inl err \<Rightarrow> Inl (Wrap ''fetching instance metadata'' err)
     | Inr (statusCode, body) \<Rightarrow>
         if statusCode \<noteq> 200 then Inl (Errorf ''fetching instance metadata: unexpected status code'')
         else (case body of Inl err \<Rightarrow> Inl (Wrap ''reading instance metadata response'' err) | Inr b \<Rightarrow> Inr b)))"

definition loadLinodeMetadata :: "'w linode_env \<Rightarrow> string \<Rightarrow> ((unit, 'w, linode_event) sys, go_error + int \<times> string) go" where
  "loadLinodeMetadata e baseURL =
     bind (fetchLinodeMetadataToken e baseURL) (\<lambda>r. case r of
       Inl err \<Rightarrow> ret (Inl err)
     | Inr token \<Rightarrow>
       bind (fetchLinodeInstanceMetadata e baseURL token) (\<lambda>r. ret (case r of
         Inl err \<Rightarrow> Inl err
       | Inr md \<Rightarrow>
           let i = parseLinodeMetadataValue md ''id''; region = parseLinodeMetadataValue md ''region'' in
           if i = [] then Inl (Errorf ''instance id from metadata was empty'')
           else (case Atoi i of
             Inl err \<Rightarrow> Inl (Wrap ''invalid instance id'' err)
           | Inr instanceID \<Rightarrow>
               if region = [] then Inl (Errorf ''instance region from metadata was empty'') else Inr (instanceID, region)))))"

section \<open>Tags\<close>

text \<open>Key, value, and whether there is a value.\<close>

definition parseResourceTag :: "string \<Rightarrow> string \<times> string \<times> bool" where
  "parseResourceTag tag0 =
     (let tag = TrimSpace tag0;
          cut = (\<lambda>c. let ts = split2 c tag in (TrimSpace (ts ! 0), TrimSpace (ts ! 1), True))
      in if tag = [] then ([], [], False)
         else if CHR ''='' \<in> set tag then cut (CHR ''='')
         else if CHR '':'' \<in> set tag then cut (CHR '':'')
         else (tag, [], False))"

definition parseTagSpec :: "string \<Rightarrow> go_error + string \<times> string" where
  "parseTagSpec tag = (case parseResourceTag tag of (key, value, _) \<Rightarrow>
     if key = [] then Inl (Errorf ''tag key cannot be empty'') else Inr (key, value))"

definition hasTag :: "string list \<Rightarrow> string \<Rightarrow> string \<Rightarrow> bool" where
  "hasTag resourceTags requiredKey requiredValue =
     list_ex (\<lambda>tag. case parseResourceTag tag of (key, value, hasValue) \<Rightarrow>
       key = requiredKey \<and> (requiredValue = [] \<or> hasValue \<and> value = requiredValue)) resourceTags"

definition tagsMatch :: "string list \<Rightarrow> string gomap \<Rightarrow> bool" where
  "tagsMatch resourceTags requiredTags = list_all (\<lambda>(key, value). hasTag resourceTags key value) requiredTags"

fun add_tags :: "string list \<Rightarrow> string gomap \<Rightarrow> go_error + string gomap" where
  "add_tags [] m = Inr m"
| "add_tags (t # ts) m = (case parseTagSpec t of
     Inl err \<Rightarrow> Inl (Wrap ''parsing volume tag'' err) | Inr (k, v) \<Rightarrow> add_tags ts (gm_update k v m))"

definition NewLinodeVolumes :: "'w linode_env \<Rightarrow> string \<Rightarrow> string list \<Rightarrow> string
    \<Rightarrow> ((unit, 'w, linode_event) sys, go_error + LinodeVolumes) go" where
  "NewLinodeVolumes e clusterName volumeTags nameTag =
     bind (ask (cl_Getenv e ''LINODE_TOKEN'')) (\<lambda>token.
     if TrimSpace token = [] then ret (Inl (Errorf ''LINODE_TOKEN is required''))
     else
       bind (loadLinodeMetadata e ''http://169.254.169.254'') (\<lambda>r. ret (case r of
         Inl err \<Rightarrow> Inl (Wrap ''failed to load linode metadata'' err)
       | Inr (instanceID, region) \<Rightarrow> (case add_tags volumeTags [] of
           Inl err \<Rightarrow> Inl err
         | Inr m \<Rightarrow>
             let mk = (\<lambda>names. \<lparr>ln_clusterName = clusterName, ln_matchPeerTags = m, ln_matchNameTags = names,
               ln_instanceID = instanceID, ln_region = region\<rparr>) in
             if TrimSpace nameTag = [] then Inr (mk m)
             else (case parseTagSpec nameTag of
               Inl err \<Rightarrow> Inl (Wrap ''parsing volume name tag'' err) | Inr (k, v) \<Rightarrow> Inr (mk (gm_update k v m)))))))"

section \<open>Volumes and devices\<close>

definition sanitizeLabel :: "string \<Rightarrow> string" where
  "sanitizeLabel label = TrimSpace (map (\<lambda>c. if c = CHR '' '' \<or> c = CHR 9 \<or> c = CHR ''/'' then CHR ''-'' else c) label)"

definition localDevicePath :: "linode_volume \<Rightarrow> string" where
  "localDevicePath v =
     (if lv_FilesystemPath v \<noteq> [] then lv_FilesystemPath v
      else if sanitizeLabel (lv_Label v) = [] then []
      else ''/dev/disk/by-id/linode-volume-'' @ sanitizeLabel (lv_Label v))"

definition linode_buildVolume :: "LinodeVolumes \<Rightarrow> linode_volume \<Rightarrow> Volume" where
  "linode_buildVolume a v =
     (let volumeID = FormatInt (lv_ID v) in
      \<lparr>v_MountName = ''linode-'' @ volumeID, v_ProviderID = volumeID, v_EtcdName = ''vol-'' @ volumeID,
       v_LocalDevice = (if lv_LinodeID v = Some (ln_instanceID a) then localDevicePath v else []),
       v_AttachedTo = (case lv_LinodeID v of None \<Rightarrow> [] | Some i \<Rightarrow> FormatInt i),
       v_Mountpoint = [], v_Status = lv_Status v, v_Description = ln_clusterName a @ ''-'' @ volumeID\<rparr>)"

definition linode_findMatchingVolumes :: "'w linode_env \<Rightarrow> bool \<Rightarrow> string gomap \<Rightarrow> ('w linode, go_error + Volume list) go" where
  "linode_findMatchingVolumes e filterByRegion matchTags =
     bind (get_self (\<lambda>a. a)) (\<lambda>a.
     bind (ask (nx_ListVolumes e)) (\<lambda>r. ret (case r of
       Inl err \<Rightarrow> Inl (Wrap ''failed to list volumes'' err)
     | Inr vs \<Rightarrow> Inr (map (linode_buildVolume a)
         (filter (\<lambda>v. \<not> (filterByRegion \<and> lv_Region v \<noteq> ln_region a) \<and> tagsMatch (lv_Tags v) matchTags) vs)))))"

definition linode_FindVolumes :: "'w linode_env \<Rightarrow> ('w linode, go_error + Volume list) go" where
  "linode_FindVolumes e = bind (get_self ln_matchNameTags) (\<lambda>tags. linode_findMatchingVolumes e True tags)"

definition linode_FindMountedVolume :: "'w linode_env \<Rightarrow> Volume \<Rightarrow> ('w linode, go_error + string) go" where
  "linode_FindMountedVolume e v =
     (if v_LocalDevice v = [] then ret (Inl (Errorf ''volume has an empty local device path''))
      else stat_device e ''failed to find local device'' (v_LocalDevice v))"

section \<open>Attaching\<close>

text \<open>The endless loop of \<^verbatim>\<open>AttachVolume\<close>; an attach call that fails is only logged. The volume may have lost its device on an error.\<close>

fun linode_attach :: "nat \<Rightarrow> 'w linode_env \<Rightarrow> int \<Rightarrow> Volume \<Rightarrow> ('w linode, go_error option \<times> Volume) go" where
  "linode_attach 0 e volumeID v = panic ''still attaching the volume''"
| "linode_attach (Suc n) e volumeID v =
     bind (get_self ln_instanceID) (\<lambda>me.
     bind (ask (nx_GetVolume e volumeID)) (\<lambda>r. case r of
       Inl err \<Rightarrow> ret (Some (Wrap ''failed to get info for volume id'' err), v)
     | Inr lv \<Rightarrow> (case lv_LinodeID lv of
         Some i \<Rightarrow>
           if i \<noteq> me then ret (Some (Errorf ''found volume attached to a different instance''), v)
           else let v' = v\<lparr>v_LocalDevice := localDevicePath lv\<rparr> in
             ret (if v_LocalDevice v' = [] then (Some (Errorf ''failed to determine local device path''), v') else (None, v'))
       | None \<Rightarrow>
           bind (act (nx_AttachVolume e volumeID me) (EvLinodeAttach volumeID me)) (\<lambda>_.
           bind (ask (cl_Sleep e (5 * second))) (\<lambda>_. linode_attach n e volumeID v)))))"

definition linode_AttachVolume :: "'w linode_env \<Rightarrow> Volume \<Rightarrow> ('w linode, go_error option \<times> Volume) go" where
  "linode_AttachVolume e v = (case Atoi (v_ProviderID v) of
     Inl err \<Rightarrow> ret (Some (Wrap ''failed to convert volume id to int'' err), v)
   | Inr volumeID \<Rightarrow> linode_attach (cl_patience e) e volumeID v)"

section \<open>Addresses and discovery\<close>

definition first_address :: "string option list \<Rightarrow> string option" where
  "first_address ips = (case List.find (\<lambda>i. i \<noteq> None \<and> i \<noteq> Some []) ips of None \<Rightarrow> None | Some i \<Rightarrow> i)"

definition getPrivateIPv4 :: "'w linode_env \<Rightarrow> int \<Rightarrow> ('w linode, go_error + string) go" where
  "getPrivateIPv4 e linodeID =
     bind (ask (nx_GetIPs e linodeID)) (\<lambda>r.
     let known = (case r of Inr (Some (priv, vpc)) \<Rightarrow>
         (case first_address priv of Some ip \<Rightarrow> Some ip | None \<Rightarrow> first_address vpc) | _ \<Rightarrow> None)
     in case known of
       Some ip \<Rightarrow> ret (Inr ip)
     | None \<Rightarrow>
       bind (ask (nx_GetInstance e linodeID)) (\<lambda>r. ret (case r of
         Inl err \<Rightarrow> Inl (Wrap ''failed to get instance'' err)
       | Inr ips \<Rightarrow> (case List.find (\<lambda>ip. lip_is4 ip \<and> lip_private ip) (map the (filter (\<lambda>i. i \<noteq> None) ips)) of
           Some ip \<Rightarrow> Inr (lip_text ip)
         | None \<Rightarrow> Inl (Errorf ''failed to find private IPv4 for instance'')))))"

definition linode_MyIP :: "'w linode_env \<Rightarrow> ('w linode, go_error + string) go" where
  "linode_MyIP e = bind (get_self ln_instanceID) (\<lambda>me. getPrivateIPv4 e me)"

definition linode_Poll :: "'w linode_env \<Rightarrow> ('w linode, go_error + Node gomap) go" where
  "linode_Poll e =
     bind (get_self ln_matchPeerTags) (\<lambda>tags.
     bind (linode_findMatchingVolumes e False tags) (\<lambda>r. case r of
       Inl err \<Rightarrow> ret (Inl (Wrap ''failed to get matching volumes'' err))
     | Inr matching \<Rightarrow>
       bind (for_each matching [] (\<lambda>v found.
           if v_AttachedTo v = [] then ret (Next found)
           else case Atoi (v_AttachedTo v) of
             Inl err \<Rightarrow> ret (Stop (Wrap ''failed to parse attached instance id'' err))
           | Inr linodeID \<Rightarrow>
             bind (getPrivateIPv4 e linodeID) (\<lambda>r. ret (case r of
               Inl err \<Rightarrow> Stop (Wrap ''failed to get private IP for instance'' err)
             | Inr ip \<Rightarrow> Next (gm_update (v_EtcdName v) \<lparr>dn_ID = v_EtcdName v, dn_Endpoints = [\<lparr>ne_IP = ip, ne_Port = 0\<rparr>]\<rparr> found))))) (\<lambda>r.
       ret (case r of Stop err \<Rightarrow> Inl err | Next found \<Rightarrow> Inr found))))"

section \<open>The provider keeps the contract of the mounter\<close>

lemma linode_attach_spares: "spares did_not_set (linode_attach n e i v)"
proof (induction n)
  case (Suc n)
  then show ?case unfolding linode_attach.simps by (intro spares_rules)
qed (simp add: spares_basic did_not_set_def)

lemma linode_attach_sets: "linode_attach n e i v s = (Ret (None, v'), s') \<Longrightarrow> v_LocalDevice v' \<noteq> []"
proof (induction n arbitrary: s)
  case (Suc n)
  then show ?case by (auto simp: go_run Let_def split: prod.splits option.splits sum.splits if_splits)
qed (simp add: panic_apply)

interpretation linode: volume_provider "hosted (linode_FindVolumes e)" "\<lambda>v. hosted (linode_AttachVolume e v)" for e
proof
  fix v v' :: Volume and w w' :: "LinodeVolumes \<times> 'a"
  assume "hosted (linode_AttachVolume e v) w = (Ret (None, v'), w')"
  then show "v_LocalDevice v' \<noteq> [] \<or> v_Mountpoint v' \<noteq> []"
    by (auto simp: hosted_def linode_AttachVolume_def ret_apply split: prod.splits sum.splits dest: linode_attach_sets)
next
  show "hosted (linode_FindVolumes e) w \<noteq> (Panic did_not_set, w')" for w w'
    unfolding linode_FindVolumes_def linode_findMatchingVolumes_def by (intro spares_hosted spares_rules)
  show "hosted (linode_AttachVolume e v) w \<noteq> (Panic did_not_set, w')" for v w w'
    unfolding linode_AttachVolume_def by (intro spares_hosted spares_rules linode_attach_spares)
qed

end
