(* ===== verification/Volumes_Scaleway.thy ===== *)
theory Volumes_Scaleway
  imports Mounting Private_Api
begin

text \<open>
  The volumes of Scaleway (\<^verbatim>\<open>pkg/volumes/scaleway\<close>). The instance and address APIs and the metadata service are parameters.
\<close>

section \<open>Data\<close>

record scw_volume =
  sv_ID :: string
  sv_Zone :: string
  sv_Server :: "string option"

record scw_server =
  ss_ID :: string
  ss_Zone :: string

record ScalewayVolumes =
  sw_clusterName :: string
  sw_matchTags :: "string list"
  sw_nameTag :: string
  sw_server :: scw_server
  sw_zone :: string

datatype scw_event = EvScwAttach string string "go_error option"

record 'w scw_env = "'w cloud_env" +
  wx_NewClient :: "'w \<Rightarrow> go_error option \<times> 'w"
  wx_GetMetadata :: "'w \<Rightarrow> (go_error + string \<times> string) \<times> 'w"
  wx_ParseZone :: "string \<Rightarrow> go_error + string"
  wx_GetServer :: "string \<Rightarrow> string \<Rightarrow> 'w \<Rightarrow> (go_error + scw_server option) \<times> 'w"
  wx_ListVolumes :: "string \<Rightarrow> string list \<Rightarrow> 'w \<Rightarrow> (go_error + scw_volume list) \<times> 'w"
  wx_GetVolume :: "string \<Rightarrow> string \<Rightarrow> 'w \<Rightarrow> (go_error + scw_volume option) \<times> 'w"
  wx_AttachVolume :: "string \<Rightarrow> string \<Rightarrow> string \<Rightarrow> 'w \<Rightarrow> go_error option \<times> 'w"
  wx_WaitForVolume :: "string \<Rightarrow> string \<Rightarrow> 'w \<Rightarrow> go_error option \<times> 'w"
  wx_WaitForServer :: "string \<Rightarrow> string \<Rightarrow> 'w \<Rightarrow> go_error option \<times> 'w"
  wx_Region :: "string \<Rightarrow> go_error + string"
  wx_ListIPs :: "string \<Rightarrow> string \<Rightarrow> string \<Rightarrow> 'w \<Rightarrow> (go_error + string list) \<times> 'w"

type_synonym 'w scw = "(ScalewayVolumes, 'w, scw_event) sys"

definition scw_device_prefix :: string where
  "scw_device_prefix = ''/dev/disk/by-id/scsi-0SCW_b_ssd_volume-''"

section \<open>Construction\<close>

definition scw_NewVolumes :: "'w scw_env \<Rightarrow> string \<Rightarrow> string list \<Rightarrow> string
    \<Rightarrow> ((unit, 'w, scw_event) sys, go_error + ScalewayVolumes) go" where
  "scw_NewVolumes e clusterName volumeTags nameTag =
     bind (ask (wx_NewClient e)) (\<lambda>r. case r of
       Some err \<Rightarrow> ret (Inl (Wrap ''error creating Scaleway client'' err))
     | None \<Rightarrow>
       bind (ask (wx_GetMetadata e)) (\<lambda>r. case r of
         Inl err \<Rightarrow> ret (Inl (Wrap ''failed to retrieve server metadata'' err))
       | Inr (serverID, zoneID) \<Rightarrow> (case wx_ParseZone e zoneID of
           Inl err \<Rightarrow> ret (Inl (Wrap ''unable to parse Scaleway zone'' err))
         | Inr zone \<Rightarrow>
           bind (ask (wx_GetServer e serverID zone)) (\<lambda>r. case r of
             Inl err \<Rightarrow> ret (Inl (Wrap ''failed to get the running server'' err))
           | Inr None \<Rightarrow> ret (Inl (Errorf ''failed to get the running server''))
           | Inr (Some server) \<Rightarrow> ret (Inr \<lparr>sw_clusterName = clusterName, sw_matchTags = volumeTags, sw_nameTag = nameTag,
               sw_server = server, sw_zone = zone\<rparr>)))))"

section \<open>Finding volumes\<close>

definition scw_getMatchingVolumes :: "'w scw_env \<Rightarrow> string \<Rightarrow> string list \<Rightarrow> ('w scw, go_error + scw_volume list) go" where
  "scw_getMatchingVolumes e zone matchTags =
     bind (ask (wx_ListVolumes e zone matchTags)) (\<lambda>r. ret (case r of
       Inl err \<Rightarrow> Inl (Wrap ''failed to get volumes matching tags'' err) | Inr vs \<Rightarrow> Inr vs))"

definition scw_volume_of :: "ScalewayVolumes \<Rightarrow> scw_volume \<Rightarrow> Volume" where
  "scw_volume_of a v = \<lparr>v_MountName = ''scw-'' @ sv_ID v, v_ProviderID = sv_ID v, v_EtcdName = ''vol-'' @ sv_ID v,
     v_LocalDevice = (if sv_Server v = Some (ss_ID (sw_server a)) then scw_device_prefix @ sv_ID v else []),
     v_AttachedTo = (case sv_Server v of None \<Rightarrow> [] | Some i \<Rightarrow> i),
     v_Mountpoint = [], v_Status = [], v_Description = sw_clusterName a @ ''-'' @ sv_ID v\<rparr>"

definition scw_FindVolumes :: "'w scw_env \<Rightarrow> ('w scw, go_error + Volume list) go" where
  "scw_FindVolumes e =
     bind (get_self (\<lambda>a. a)) (\<lambda>a.
     bind (scw_getMatchingVolumes e (sw_zone a) (sw_matchTags a @ [sw_nameTag a])) (\<lambda>r. case r of
       Inl err \<Rightarrow> ret (Inl (Wrap ''failed to get matching volumes'' err))
     | Inr matching \<Rightarrow> ret (Inr (map (scw_volume_of a) (filter (\<lambda>v. sv_Zone v \<noteq> [] \<and> sv_Zone v = sw_zone a) matching)))))"

definition scw_FindMountedVolume :: "'w scw_env \<Rightarrow> Volume \<Rightarrow> ('w scw, go_error + string) go" where
  "scw_FindMountedVolume e v = stat_device e ''failed to find local device'' (v_LocalDevice v)"

section \<open>Attaching\<close>

text \<open>The endless loop of \<^verbatim>\<open>AttachVolume\<close>: it attaches again as long as the volume is reported free.\<close>

fun scw_attach :: "nat \<Rightarrow> 'w scw_env \<Rightarrow> Volume \<Rightarrow> ('w scw, go_error option \<times> Volume) go" where
  "scw_attach 0 e v = panic ''still attaching the volume''"
| "scw_attach (Suc n) e v =
     bind (get_self (\<lambda>a. a)) (\<lambda>a.
     bind (ask (wx_GetVolume e (v_ProviderID v) (sw_zone a))) (\<lambda>r. case r of
       Inl err \<Rightarrow> ret (Some (Wrap ''failed to get info for volume id'' err), v)
     | Inr None \<Rightarrow> ret (Some (Errorf ''failed to get info for volume id''), v)
     | Inr (Some sv) \<Rightarrow> (case sv_Server sv of
         Some server \<Rightarrow>
           if server \<noteq> ss_ID (sw_server a) then ret (Some (Errorf ''found volume attached to a different server''), v)
           else ret (None, v\<lparr>v_LocalDevice := scw_device_prefix @ sv_ID sv\<rparr>)
       | None \<Rightarrow>
           bind (act (wx_AttachVolume e (sw_zone a) (ss_ID (sw_server a)) (sv_ID sv)) (EvScwAttach (ss_ID (sw_server a)) (sv_ID sv))) (\<lambda>r. case r of
             Some err \<Rightarrow> ret (Some (Wrap ''failed to attach volume'' err), v)
           | None \<Rightarrow>
             bind (ask (wx_WaitForVolume e (sv_ID sv) (sw_zone a))) (\<lambda>r. case r of
               Some err \<Rightarrow> ret (Some (Wrap ''error waiting for volume'' err), v)
             | None \<Rightarrow>
               bind (ask (wx_WaitForServer e (ss_ID (sw_server a)) (sw_zone a))) (\<lambda>r. case r of
                 Some err \<Rightarrow> ret (Some (Wrap ''error waiting for server'' err), v)
               | None \<Rightarrow> scw_attach n e v))))))"

definition scw_AttachVolume :: "'w scw_env \<Rightarrow> Volume \<Rightarrow> ('w scw, go_error option \<times> Volume) go" where
  "scw_AttachVolume e v = scw_attach (cl_patience e) e v"

section \<open>Addresses and discovery\<close>

definition scw_getServerIP :: "'w scw_env \<Rightarrow> string \<Rightarrow> ('w scw, go_error + string) go" where
  "scw_getServerIP e serverID =
     bind (get_self (\<lambda>a. a)) (\<lambda>a. case wx_Region e (sw_zone a) of
       Inl err \<Rightarrow> ret (Inl (Wrap ''unable to parse Scaleway region'' err))
     | Inr region \<Rightarrow>
       bind (ask (wx_ListIPs e region serverID (ss_Zone (sw_server a)))) (\<lambda>r. ret (case r of
         Inl err \<Rightarrow> Inl (Wrap ''listing server's IPs'' err)
       | Inr [] \<Rightarrow> Inl (Errorf ''expected at least 1 IP attached to the server'')
       | Inr (ip # _) \<Rightarrow> Inr ip)))"

definition scw_MyIP :: "'w scw_env \<Rightarrow> ('w scw, go_error + string) go" where
  "scw_MyIP e =
     bind (get_self (\<lambda>a. ss_ID (sw_server a))) (\<lambda>me.
     bind (scw_getServerIP e me) (\<lambda>r. ret (case r of Inl err \<Rightarrow> Inl (Wrap ''getting IP for server'' err) | Inr ip \<Rightarrow> Inr ip)))"

definition scw_Poll :: "'w scw_env \<Rightarrow> ('w scw, go_error + Node gomap) go" where
  "scw_Poll e =
     bind (get_self (\<lambda>a. a)) (\<lambda>a.
     bind (scw_getMatchingVolumes e (sw_zone a) (sw_matchTags a)) (\<lambda>r. case r of
       Inl err \<Rightarrow> ret (Inl (Wrap ''failed to get matching volumes'' err))
     | Inr matching \<Rightarrow>
       bind (for_each matching [] (\<lambda>v found. case sv_Server v of
           None \<Rightarrow> ret (Next found)
         | Some serverID \<Rightarrow>
           bind (scw_getServerIP e serverID) (\<lambda>r. ret (case r of
             Inl err \<Rightarrow> Stop (Wrap ''getting IP for server'' err)
           | Inr ip \<Rightarrow> Next (gm_update (''vol-'' @ sv_ID v) \<lparr>dn_ID = ''vol-'' @ sv_ID v, dn_Endpoints = [\<lparr>ne_IP = ip, ne_Port = 0\<rparr>]\<rparr> found))))) (\<lambda>r.
       ret (case r of Stop err \<Rightarrow> Inl err | Next found \<Rightarrow> Inr found))))"

section \<open>The provider keeps the contract of the mounter\<close>

lemma scw_attach_spares: "spares did_not_set (scw_attach n e v)"
proof (induction n)
  case (Suc n)
  then show ?case unfolding scw_attach.simps by (intro spares_rules)
qed (simp add: spares_basic did_not_set_def)

lemma scw_attach_sets: "scw_attach n e v s = (Ret (None, v'), s') \<Longrightarrow> v_LocalDevice v' \<noteq> []"
proof (induction n arbitrary: s)
  case (Suc n)
  then show ?case
    by (auto simp: go_run scw_device_prefix_def split: prod.splits option.splits sum.splits if_splits)
qed (simp add: panic_apply)

interpretation scw: volume_provider "hosted (scw_FindVolumes e)" "\<lambda>v. hosted (scw_AttachVolume e v)" for e
proof
  fix v v' :: Volume and w w' :: "ScalewayVolumes \<times> 'a"
  assume "hosted (scw_AttachVolume e v) w = (Ret (None, v'), w')"
  then show "v_LocalDevice v' \<noteq> [] \<or> v_Mountpoint v' \<noteq> []"
    by (auto simp: hosted_def scw_AttachVolume_def split: prod.splits dest: scw_attach_sets)
next
  show "hosted (scw_FindVolumes e) w \<noteq> (Panic did_not_set, w')" for w w'
    unfolding scw_FindVolumes_def scw_getMatchingVolumes_def by (intro spares_hosted spares_rules)
  show "hosted (scw_AttachVolume e v) w \<noteq> (Panic did_not_set, w')" for v w w'
    unfolding scw_AttachVolume_def by (intro spares_hosted scw_attach_spares)
qed

end
