(* ===== verification/Volumes_External.thy ===== *)
theory Volumes_External
  imports Mounting Private_Api
begin

text \<open>
  Volumes that are directories of the machine (\<^verbatim>\<open>pkg/volumes/external\<close>), for bare metal: they are reported as mounted. The file system
  and the network interfaces are parameters.
\<close>

section \<open>Data\<close>

record ext_ip =
  xi_bytes :: "nat list"
  xi_text :: string
  xi_loopback :: bool
  xi_linklocal :: bool

datatype ext_addr = IPNet "ext_ip option" | IPAddr "ext_ip option" | OtherAddr

record ExternalVolumes =
  ex_basedir :: string
  ex_clusterName :: string
  ex_localIP :: ext_ip
  ex_volumeTags :: "string list"

record 'w ext_env = "'w cloud_env" +
  bx_Interfaces :: "'w \<Rightarrow> (go_error + (go_error + ext_addr list) list) \<times> 'w"
  bx_ReadDir :: "string \<Rightarrow> 'w \<Rightarrow> (go_error + (string \<times> bool) list) \<times> 'w"
  bx_StatDir :: "string \<Rightarrow> 'w \<Rightarrow> (go_error + bool) \<times> 'w"
  bx_ParseIP :: "string \<Rightarrow> string option"

type_synonym ('st, 'w) ext_sys = "('st, 'w, unit) sys"
type_synonym 'w ext = "(ExternalVolumes, 'w) ext_sys"

section \<open>The address of the machine\<close>

definition addr_ip :: "ext_addr \<Rightarrow> ext_ip option" where
  "addr_ip a = (case a of IPNet i \<Rightarrow> i | IPAddr i \<Rightarrow> i | OtherAddr \<Rightarrow> None)"

definition usable_ips :: "ext_addr list \<Rightarrow> ext_ip list" where
  "usable_ips addrs = filter (\<lambda>ip. \<not> xi_loopback ip \<and> \<not> xi_linklocal ip) (List.map_filter addr_ip addrs)"

text \<open>Shorter addresses come first, then the order of the bytes; without an address \<^verbatim>\<open>ips[0]\<close> panics.\<close>

definition findLocalIP :: "'w ext_env \<Rightarrow> (('st, 'w) ext_sys, go_error + ext_ip) go" where
  "findLocalIP e =
     bind (ask (bx_Interfaces e)) (\<lambda>r. case r of
       Inl err \<Rightarrow> ret (Inl (Wrap ''error getting network interfaces'' err))
     | Inr ifaces \<Rightarrow>
       bind (for_each ifaces [] (\<lambda>iface ips. ret (case iface of
           Inl err \<Rightarrow> Stop (Wrap ''error getting addresses for interface'' err)
         | Inr addrs \<Rightarrow> Next (ips @ usable_ips addrs)))) (\<lambda>r. case r of
         Stop err \<Rightarrow> ret (Inl err)
       | Next ips \<Rightarrow> (case sort_key (\<lambda>ip. length (xi_bytes ip) # xi_bytes ip) ips of
           [] \<Rightarrow> panic ''index out of range''
         | ip # _ \<Rightarrow> ret (Inr ip))))"

definition NewExternalVolumes :: "'w ext_env \<Rightarrow> string \<Rightarrow> string \<Rightarrow> string list \<Rightarrow> ((unit, 'w) ext_sys, go_error + ExternalVolumes) go" where
  "NewExternalVolumes e clusterName basedir volumeTags =
     bind (findLocalIP e) (\<lambda>r. ret (case r of
       Inl err \<Rightarrow> Inl err
     | Inr localIP \<Rightarrow>
         if length volumeTags \<noteq> 1 then Inl (Errorf ''baremetal expected a single volume tag (the prefix to use)'')
         else Inr \<lparr>ex_basedir = basedir, ex_clusterName = clusterName, ex_localIP = localIP, ex_volumeTags = volumeTags\<rparr>))"

section \<open>Volumes\<close>

definition ext_volume :: "ExternalVolumes \<Rightarrow> string \<Rightarrow> string \<Rightarrow> Volume" where
  "ext_volume a volumeID mntPath = \<lparr>v_MountName = ''master-'' @ mntPath, v_ProviderID = mntPath, v_EtcdName = volumeID,
     v_LocalDevice = mntPath, v_AttachedTo = xi_text (ex_localIP a), v_Mountpoint = mntPath, v_Status = [], v_Description = mntPath\<rparr>"

definition ext_entry :: "'w ext_env \<Rightarrow> ExternalVolumes \<Rightarrow> string \<times> bool \<Rightarrow> Volume list \<Rightarrow> ('w ext, (Volume list, go_error) loop) go" where
  "ext_entry e a = (\<lambda>(name, isDir) found.
     if \<not> isDir \<or> \<not> list_all (\<lambda>tag. HasPrefix name tag) (ex_volumeTags a) then ret (Next found)
     else
       let mntPath = filepath_Join [filepath_Join [ex_basedir a, name], ''mnt''] in
       bind (ask (bx_StatDir e mntPath)) (\<lambda>r. ret (case r of
         Inl err \<Rightarrow> if err = NotExist then Next found else Stop (Wrap ''error doing stat'' err)
       | Inr d \<Rightarrow> if d then Next (found @ [ext_volume a name mntPath]) else Next found)))"

definition ext_FindVolumes :: "'w ext_env \<Rightarrow> ('w ext, go_error + Volume list) go" where
  "ext_FindVolumes e =
     bind (get_self (\<lambda>a. a)) (\<lambda>a.
     bind (ask (bx_ReadDir e (ex_basedir a))) (\<lambda>r. case r of
       Inl err \<Rightarrow> ret (Inl (Wrap ''error reading'' err))
     | Inr files \<Rightarrow>
       bind (for_each files [] (ext_entry e a)) (\<lambda>r.
       ret (case r of Stop err \<Rightarrow> Inl err | Next found \<Rightarrow> Inr found))))"

definition ext_FindMountedVolume :: "Volume \<Rightarrow> ('w ext, go_error + string) go" where
  "ext_FindMountedVolume v = ret (Inl (Errorf ''FindMountedVolume should not be called for ExternalVolumes''))"

definition ext_AttachVolume :: "Volume \<Rightarrow> ('w ext, go_error option \<times> Volume) go" where
  "ext_AttachVolume v = ret (None, v)"

definition ext_MyIP :: "ExternalVolumes \<Rightarrow> string" where
  "ext_MyIP a = xi_text (ex_localIP a)"

section \<open>Discovery\<close>

definition node_with_ip :: "string \<Rightarrow> string \<Rightarrow> Node" where
  "node_with_ip i ip = \<lparr>dn_ID = i, dn_Endpoints = [\<lparr>ne_IP = ip, ne_Port = 0\<rparr>]\<rparr>"

definition seed_id :: "string \<Rightarrow> string" where
  "seed_id ip = ''ip-'' @ map (\<lambda>c. if c = CHR ''.'' then CHR ''-'' else c) ip"

definition seed_nodes :: "'w ext_env \<Rightarrow> (string \<times> bool) list \<Rightarrow> Node gomap" where
  "seed_nodes e files = fold (\<lambda>(name, isDir) nodes.
     if isDir then nodes
     else case bx_ParseIP e name of
       None \<Rightarrow> nodes
     | Some ip \<Rightarrow> gm_update (seed_id ip) (node_with_ip (seed_id ip) ip) nodes) files []"

definition ext_Poll :: "'w ext_env \<Rightarrow> string \<Rightarrow> ('w ext, go_error + Node gomap) go" where
  "ext_Poll e seeddir =
     bind (ask (bx_ReadDir e seeddir)) (\<lambda>r. case r of
       Inl err \<Rightarrow> ret (Inl (Wrap ''error reading seed directory'' err))
     | Inr files \<Rightarrow>
       bind (ext_FindVolumes e) (\<lambda>r. case r of
         Inl err \<Rightarrow> ret (Inl err)
       | Inr vs \<Rightarrow>
         bind (get_self ext_MyIP) (\<lambda>ip.
         ret (Inr (fold (\<lambda>v nodes. gm_update (v_EtcdName v) (node_with_ip (v_EtcdName v) ip) nodes) vs (seed_nodes e files))))))"

section \<open>The provider keeps the contract of the mounter\<close>

text \<open>\<^verbatim>\<open>AttachVolume\<close> does nothing, but every volume that is found has its mount point.\<close>

lemma filepath_Clean_not_empty: "filepath_Clean p \<noteq> []"
proof (cases "path_comps p")
  case (Cons c cs)
  then have "c \<noteq> []" using path_comps_plain [of c p] by simp
  with Cons show ?thesis by (simp add: filepath_Clean_def join_Cons)
qed (simp add: filepath_Clean_def)

lemma mnt_path_not_empty: "filepath_Join [x, ''mnt''] \<noteq> []"
  using filepath_Clean_not_empty by simp

definition all_mounted :: "Volume list \<Rightarrow> bool" where
  "all_mounted vs \<longleftrightarrow> (\<forall>v \<in> set vs. v_Mountpoint v \<noteq> [])"

lemma ext_entry_mounted:
  "hoare (\<lambda>_. all_mounted found) (ext_entry e a f found) (\<lambda>c _. case c of Next found' \<Rightarrow> all_mounted found' | Stop _ \<Rightarrow> True) (\<lambda>_. True)"
  unfolding hoare_def ext_entry_def
  by (auto simp: go_run Let_def all_mounted_def ext_volume_def mnt_path_not_empty simp del: filepath_Join.simps split: prod.splits sum.splits)

lemma ext_FindVolumes_mounted:
  "hoare (\<lambda>_. True) (ext_FindVolumes e) (\<lambda>r _. case r of Inr vs \<Rightarrow> all_mounted vs | Inl _ \<Rightarrow> True) (\<lambda>_. True)"
proof -
  have loop: "hoare (\<lambda>_. True) (for_each files [] (ext_entry e a)) (\<lambda>c _. case c of Next found \<Rightarrow> all_mounted found | Stop _ \<Rightarrow> True) (\<lambda>_. True)" for files a
    by (rule hoare_for_each [where I = "\<lambda>_ found _. all_mounted found"])
      (auto intro: hoare_conseq [OF ext_entry_mounted] simp: all_mounted_def split: loop.splits)
  show ?thesis
    unfolding ext_FindVolumes_def
    by (intro hoare_bind [OF hoare_get_self [where Q = "\<lambda>_ _. True"]] hoare_bind [OF hoare_ask [where Q = "\<lambda>_ _. True"]]
        hoare_case_sum hoare_ret hoare_bind [OF loop]) (auto split: loop.splits)
qed

lemma ext_entry_spares: "spares msg (ext_entry e a f found)"
  unfolding ext_entry_def by (cases f) (auto intro!: spares_bind spares_basic simp: Let_def)

interpretation ext: volume_provider "hosted (ext_FindVolumes e)" "\<lambda>v. hosted (ext_AttachVolume v)" for e
proof
  fix v v' vs and w0 w1 w w' :: "ExternalVolumes \<times> 'a"
  assume find: "hosted (ext_FindVolumes e) w0 = (Ret (Inr vs), w1)" and "v \<in> set vs" and "hosted (ext_AttachVolume v) w = (Ret (None, v'), w')"
  then have "v' = v" by (auto simp: hosted_def ext_AttachVolume_def ret_apply split: prod.splits)
  moreover have "all_mounted vs"
    using find hoare_RetD [OF ext_FindVolumes_mounted TrueI] by (fastforce simp: hosted_def split: prod.splits)
  ultimately show "v_LocalDevice v' \<noteq> [] \<or> v_Mountpoint v' \<noteq> []" using \<open>v \<in> set vs\<close> by (simp add: all_mounted_def)
next
  show "hosted (ext_FindVolumes e) w \<noteq> (Panic did_not_set, w')" for w w'
    unfolding ext_FindVolumes_def by (intro spares_hosted spares_rules ext_entry_spares)
  show "hosted (ext_AttachVolume v) w \<noteq> (Panic did_not_set, w')" for v w w'
    unfolding ext_AttachVolume_def by (intro spares_hosted spares_rules)
qed

end
