(* ===== verification/Volumes_Azure.thy ===== *)
theory Volumes_Azure
  imports Mounting Private_Api "HOL-Library.Word"
begin

text \<open>
  The volumes of Azure (\<^verbatim>\<open>pkg/volumes/azure\<close>): the metadata of the instance, the disks of a virtual machine of a scale set and their
  logical unit numbers (LUNs, 32-bit signed integers), disks selected by counting their matching tags, attaching and discovery.
  The clients of the Azure SDK, \<^verbatim>\<open>arm.ParseResourceID\<close>, HTTP, JSON and the file system are parameters. A pointer that may be nil is an
  option, and following it is \<open>deref\<close>.
\<close>

section \<open>Data\<close>

record dataDisk =
  dd_Name :: string
  dd_Lun :: string
  dd_ManagedDisk :: "string option"

record instanceComputeMetadata =
  cm_Name :: string
  cm_ResourceGroupName :: string
  cm_VMScaleSetName :: string
  cm_SubscriptionID :: string
  cm_StorageProfile :: "dataDisk option list option"

record ipAddress =
  ia_PrivateIPAddress :: string
  ia_PublicIPAddress :: string

record networkInterface =
  ni_IPv4 :: "ipAddress option list option"

record instanceMetadata =
  im_Compute :: "instanceComputeMetadata option"
  im_Network :: "networkInterface option list option"

text \<open>The objects of the SDK, as far as they are read or written; \<open>vm_other\<close> are the fields that are sent back as they came.\<close>

record az_dataDisk =
  ad_Lun :: "32 word option"
  ad_Name :: "string option"
  ad_CreateOption :: "string option"
  ad_ManagedDisk :: "(string option \<times> string option) option"

record az_vm =
  vm_Properties :: "az_dataDisk option list option option"
  vm_other :: string

record az_disk =
  az_Name :: "string option"
  az_ID :: "string option"
  az_ManagedBy :: "string option"
  az_Tags :: "string option gomap"
  az_Properties :: "string option option"

record az_ipConfig =
  ic_Properties :: "string option option"

record az_interface =
  nx_Properties :: "az_ipConfig option list option"

record az_resourceID =
  rid_Parent :: "string option"
  rid_Name :: string

record AzureVolumes =
  av_clusterName :: string
  av_matchTagKeys :: "unit gomap"
  av_matchTags :: "string gomap"
  av_nameTag :: string
  av_instanceID :: string
  av_localIP :: string
  av_metadata :: instanceMetadata

datatype az_event = EvAzUpdate string az_vm "go_error option"

record 'w az_env = "'w cloud_env" +
  ax_HttpGet :: "string \<Rightarrow> 'w \<Rightarrow> (go_error + int \<times> (go_error + string)) \<times> 'w"
  ax_Unmarshal :: "string \<Rightarrow> go_error + instanceMetadata"
  ax_NewCredential :: "'w \<Rightarrow> go_error option \<times> 'w"
  ax_NewSdkClient :: "string \<Rightarrow> string \<Rightarrow> 'w \<Rightarrow> go_error option \<times> 'w"
  ax_ParseIP :: "string \<Rightarrow> string option"
  ax_ParseResourceID :: "string \<Rightarrow> go_error + az_resourceID"
  ax_DiskPage :: "nat \<Rightarrow> 'w \<Rightarrow> (go_error + az_disk option list \<times> bool) \<times> 'w"
  ax_InterfacePage :: "string \<Rightarrow> string \<Rightarrow> string \<Rightarrow> nat \<Rightarrow> 'w \<Rightarrow> (go_error + az_interface option list \<times> bool) \<times> 'w"
  ax_GetVM :: "string \<Rightarrow> string \<Rightarrow> string \<Rightarrow> 'w \<Rightarrow> (go_error + az_vm) \<times> 'w"
  ax_BeginUpdate :: "string \<Rightarrow> string \<Rightarrow> string \<Rightarrow> az_vm \<Rightarrow> 'w \<Rightarrow> go_error option \<times> 'w"
  ax_PollUntilDone :: "'w \<Rightarrow> go_error option \<times> 'w"
  ax_StatDir :: "string \<Rightarrow> 'w \<Rightarrow> (go_error + bool) \<times> 'w"
  ax_Readlink :: "string \<Rightarrow> 'w \<Rightarrow> (go_error + string) \<times> 'w"

type_synonym ('st, 'w) az_sys = "('st, 'w, az_event) sys"
type_synonym 'w azure = "(AzureVolumes, 'w) az_sys"

section \<open>Instance metadata\<close>

definition queryInstanceMetadata :: "'w az_env \<Rightarrow> (('st, 'w) az_sys, go_error + instanceMetadata) go" where
  "queryInstanceMetadata e =
     bind (ask (ax_HttpGet e ''http://169.254.169.254/metadata/instance?api-version=2020-06-01&format=json'')) (\<lambda>r. ret (case r of
       Inl err \<Rightarrow> Inl (Wrap ''error sending request to the metadata server'' err)
     | Inr (code, body) \<Rightarrow>
         if code \<noteq> 200 then Inl (Errorf ''unexpected status from metadata server'')
         else (case body of
           Inl err \<Rightarrow> Inl (Wrap ''error reading a response from the metadata server'' err)
         | Inr data \<Rightarrow> (case ax_Unmarshal e data of
             Inl err \<Rightarrow> Inl (Wrap ''error unmarshalling metadata'' err)
           | Inr m \<Rightarrow> Inr m))))"

text \<open>The four clients of the SDK are built one after the other, for the same subscription.\<close>

definition sdk_clients :: "'w az_env \<Rightarrow> string \<Rightarrow> (('st, 'w) az_sys, (unit, go_error) loop) go" where
  "sdk_clients e subscription =
     for_each [''vmss'', ''vmssvm'', ''disks'', ''network interfaces''] () (\<lambda>kind _.
       bind (ask (ax_NewSdkClient e kind subscription)) (\<lambda>r. ret (case r of
         Some err \<Rightarrow> Stop (Wrap (''creating '' @ kind @ '' client'') err) | None \<Rightarrow> Next ())))"

definition newClient :: "'w az_env \<Rightarrow> (('st, 'w) az_sys, go_error + instanceMetadata) go" where
  "newClient e =
     bind (queryInstanceMetadata e) (\<lambda>r. case r of
       Inl err \<Rightarrow> ret (Inl (Wrap ''error querying instance metadata'' err))
     | Inr m \<Rightarrow> (case im_Compute m of
         None \<Rightarrow> ret (Inl (Errorf ''missing compute metadata''))
       | Some c \<Rightarrow>
           if cm_SubscriptionID c = [] then ret (Inl (Errorf ''empty subscription name''))
           else if cm_ResourceGroupName c = [] then ret (Inl (Errorf ''empty resource group name''))
           else bind (ask (ax_NewCredential e)) (\<lambda>r. case r of
               Some err \<Rightarrow> ret (Inl (Wrap ''creating identity'' err))
             | None \<Rightarrow> bind (sdk_clients e (cm_SubscriptionID c)) (\<lambda>r. ret (case r of Stop err \<Rightarrow> Inl err | Next _ \<Rightarrow> Inr m)))))"

definition vmScaleSetInstanceID :: "instanceComputeMetadata \<Rightarrow> string" where
  "vmScaleSetInstanceID c = last (split_on (CHR ''_'') (cm_Name c))"

definition az_compute :: "('w azure, instanceComputeMetadata) go" where
  "az_compute = bind (get_self av_metadata) (\<lambda>m. deref (im_Compute m))"

definition az_dataDisks :: "('w azure, dataDisk option list) go" where
  "az_dataDisks = bind az_compute (\<lambda>c. deref (cm_StorageProfile c))"

definition refreshMetadata :: "'w az_env \<Rightarrow> ('w azure, go_error option) go" where
  "refreshMetadata e =
     bind (queryInstanceMetadata e) (\<lambda>r. case r of
       Inl err \<Rightarrow> ret (Some (Wrap ''error querying instance metadata'' err))
     | Inr m \<Rightarrow> bind (upd_self (\<lambda>a. a\<lparr>av_metadata := m\<rparr>)) (\<lambda>_. ret None))"

fun private_address :: "ipAddress option list \<Rightarrow> ('s, string option) go" where
  "private_address [] = ret None"
| "private_address (p # ps) = bind (deref p) (\<lambda>a.
     if ia_PrivateIPAddress a \<noteq> [] then ret (Some (ia_PrivateIPAddress a)) else private_address ps)"

fun first_address :: "networkInterface option list \<Rightarrow> ('s, string option) go" where
  "first_address [] = ret None"
| "first_address (p # ps) = bind (deref p) (\<lambda>iface. case ni_IPv4 iface of
     None \<Rightarrow> first_address ps
   | Some addrs \<Rightarrow> bind (private_address addrs) (\<lambda>r. case r of None \<Rightarrow> first_address ps | Some a \<Rightarrow> ret (Some a)))"

definition az_localIP :: "'w az_env \<Rightarrow> instanceMetadata \<Rightarrow> ('s, string option) go" where
  "az_localIP e m = bind (deref (im_Network m)) (\<lambda>ifaces.
     bind (first_address ifaces) (\<lambda>r. ret (case r of None \<Rightarrow> None | Some a \<Rightarrow> ax_ParseIP e a)))"

section \<open>The client\<close>

text \<open>A pager of the SDK: there is a first page, and after every page it says whether there is one more.\<close>

fun az_pages :: "nat \<Rightarrow> string \<Rightarrow> (nat \<Rightarrow> 'w \<Rightarrow> (go_error + 'a list \<times> bool) \<times> 'w) \<Rightarrow> nat \<Rightarrow> 'a list \<Rightarrow> ('w azure, go_error + 'a list) go" where
  "az_pages 0 msg nextPage i l = panic ''still listing''"
| "az_pages (Suc n) msg nextPage i l =
     bind (ask (nextPage i)) (\<lambda>r. case r of
       Inl err \<Rightarrow> ret (Inl (Wrap msg err))
     | Inr (val, again) \<Rightarrow> if again then az_pages n msg nextPage (Suc i) (l @ val) else ret (Inr (l @ val)))"

definition listDisks :: "'w az_env \<Rightarrow> ('w azure, go_error + az_disk option list) go" where
  "listDisks e = az_pages (cl_patience e) ''listing disks'' (ax_DiskPage e) 0 []"

definition listVMSSVMNetworkInterfaces :: "'w az_env \<Rightarrow> string \<Rightarrow> string \<Rightarrow> ('w azure, go_error + az_interface option list) go" where
  "listVMSSVMNetworkInterfaces e vmssName instanceID =
     bind az_compute (\<lambda>c.
     az_pages (cl_patience e) ''listing VM network interfaces'' (ax_InterfacePage e (cm_ResourceGroupName c) vmssName instanceID) 0 [])"

definition getVMScaleSetVM :: "'w az_env \<Rightarrow> string \<Rightarrow> ('w azure, go_error + az_vm) go" where
  "getVMScaleSetVM e instanceID =
     bind az_compute (\<lambda>c.
     bind (ask (ax_GetVM e (cm_ResourceGroupName c) (cm_VMScaleSetName c) instanceID)) (\<lambda>r. ret (case r of
       Inl err \<Rightarrow> Inl (Wrap ''getting VMSS VMs info'' err) | Inr vm \<Rightarrow> Inr vm)))"

definition updateVMScaleSetVM :: "'w az_env \<Rightarrow> string \<Rightarrow> az_vm \<Rightarrow> ('w azure, go_error option) go" where
  "updateVMScaleSetVM e instanceID vm =
     bind az_compute (\<lambda>c.
     bind (act (ax_BeginUpdate e (cm_ResourceGroupName c) (cm_VMScaleSetName c) instanceID vm) (EvAzUpdate instanceID vm)) (\<lambda>r. case r of
       Some err \<Rightarrow> ret (Some (Wrap ''error updating VM Scale Set VM'' err))
     | None \<Rightarrow> bind (ask (ax_PollUntilDone e)) (\<lambda>r. ret (map_option (Wrap ''error waiting for VM Scale Set VM update completion'') r))))"

section \<open>Construction\<close>

definition az_add_tag :: "string \<Rightarrow> unit gomap \<times> string gomap \<Rightarrow> unit gomap \<times> string gomap" where
  "az_add_tag volumeTag = (\<lambda>(ks, ts). case split2 (CHR ''='') volumeTag of
     k # v # _ \<Rightarrow> (ks, gm_update k v ts)
   | k # _ \<Rightarrow> (gm_update k () ks, ts)
   | [] \<Rightarrow> (ks, ts))"

definition newAzureVolumes :: "'w az_env \<Rightarrow> string \<Rightarrow> string list \<Rightarrow> string \<Rightarrow> instanceMetadata \<Rightarrow> (('st, 'w) az_sys, go_error + AzureVolumes) go" where
  "newAzureVolumes e clusterName volumeTags nameTag m =
     (let (matchTagKeys, matchTags) = fold az_add_tag volumeTags ([], []) in
      bind (deref (im_Compute m)) (\<lambda>c.
      if cm_Name c = [] then ret (Inl (Errorf ''empty name''))
      else bind (az_localIP e m) (\<lambda>r. ret (case r of
        None \<Rightarrow> Inl (Errorf ''error querying internal IP'')
      | Some ip \<Rightarrow> Inr \<lparr>av_clusterName = clusterName, av_matchTagKeys = matchTagKeys, av_matchTags = matchTags, av_nameTag = nameTag,
          av_instanceID = cm_Name c, av_localIP = ip, av_metadata = m\<rparr>))))"

definition NewAzureVolumes :: "'w az_env \<Rightarrow> string \<Rightarrow> string list \<Rightarrow> string \<Rightarrow> (('st, 'w) az_sys, go_error + AzureVolumes) go" where
  "NewAzureVolumes e clusterName volumeTags nameTag =
     bind (newClient e) (\<lambda>r. case r of
       Inl err \<Rightarrow> ret (Inl (Wrap ''error creating a new Azure client'' err))
     | Inr m \<Rightarrow> newAzureVolumes e clusterName volumeTags nameTag m)"

definition az_MyIP :: "AzureVolumes \<Rightarrow> go_error + string" where
  "az_MyIP a = Inr (av_localIP a)"

section \<open>Devices\<close>

text \<open>One of the two directories in which a link names the device of a LUN; \<open>None\<close> when it does not help.\<close>

definition lun_link :: "'w az_env \<Rightarrow> string \<Rightarrow> string \<Rightarrow> ('w azure, string option) go" where
  "lun_link e dir name =
     bind (PathFor (cl_Containerized e) dir) (\<lambda>p.
     bind (ask (ax_StatDir e p)) (\<lambda>r.
     if r \<noteq> Inr True then ret None
     else bind (ask (ax_Readlink e (filepath_Join [p, name]))) (\<lambda>r. ret (case r of
       Inl _ \<Rightarrow> None | Inr device \<Rightarrow> Some (filepath_Join [''/dev'', path_Base device])))))"

definition lunToDev :: "'w az_env \<Rightarrow> string \<Rightarrow> ('w azure, go_error + string) go" where
  "lunToDev e lunStr =
     bind (lun_link e ''/dev/disk/azure/data/by-lun'' lunStr) (\<lambda>r. case r of
       Some dev \<Rightarrow> ret (Inr dev)
     | None \<Rightarrow> bind (lun_link e ''/dev/disk/azure/scsi1'' (''lun'' @ lunStr)) (\<lambda>r. ret (case r of
         Some dev \<Rightarrow> Inr dev
       | None \<Rightarrow> Inl (Errorf ''error finding the local device mapping for LUN''))))"

text \<open>The loop of \<^verbatim>\<open>findLocalDevice\<close>; the ID of the disk is first followed when a data disk has one to compare it with.\<close>

fun same_disk :: "az_disk \<Rightarrow> dataDisk option list \<Rightarrow> ('s, dataDisk option) go" where
  "same_disk disk [] = ret None"
| "same_disk disk (p # ps) = bind (deref p) (\<lambda>d. case dd_ManagedDisk d of
     None \<Rightarrow> same_disk disk ps
   | Some i \<Rightarrow> bind (deref (az_ID disk)) (\<lambda>diskID. if EqualFold diskID i then ret (Some d) else same_disk disk ps))"

definition findLocalDevice :: "'w az_env \<Rightarrow> az_disk \<Rightarrow> ('w azure, go_error + string) go" where
  "findLocalDevice e disk =
     bind az_dataDisks (\<lambda>dds.
     bind (same_disk disk dds) (\<lambda>r. case r of
       None \<Rightarrow> bind (deref (az_ID disk)) (\<lambda>_. ret (Inl (Errorf ''no data disk found'')))
     | Some d \<Rightarrow> lunToDev e (TrimSpace (dd_Lun d))))"

section \<open>Finding volumes\<close>

text \<open>Each tag of the disk is counted once for its key and once for its value.\<close>

definition isDiskForCluster :: "AzureVolumes \<Rightarrow> az_disk \<Rightarrow> bool" where
  "isDiskForCluster a disk \<longleftrightarrow>
     fold (\<lambda>(k, v) found. found + (if gm_lookup (av_matchTagKeys a) k \<noteq> None then 1 else 0)
         + (if gm_lookup (av_matchTags a) k \<noteq> None \<and> v \<noteq> None \<and> v = gm_lookup (av_matchTags a) k then 1 else 0)) (az_Tags disk) 0
     = length (av_matchTagKeys a) + length (av_matchTags a)"

definition extractEtcdName :: "AzureVolumes \<Rightarrow> az_disk \<Rightarrow> ('s, string) go" where
  "extractEtcdName a disk =
     (if av_nameTag a = [] then deref (az_Name disk)
      else (case gm_lookup (az_Tags disk) (av_nameTag a) of
        Some (Some (c # v)) \<Rightarrow> ret (av_clusterName a @ ''-'' @ hd (split2 (CHR ''/'') (c # v)))
      | _ \<Rightarrow> deref (az_Name disk)))"

definition az_volume_of :: "AzureVolumes \<Rightarrow> az_disk \<Rightarrow> ('s, Volume) go" where
  "az_volume_of a disk =
     bind (deref (az_Name disk)) (\<lambda>name.
     bind (deref (az_ID disk)) (\<lambda>diskID.
     bind (extractEtcdName a disk) (\<lambda>etcdName.
     bind (deref (az_Properties disk)) (\<lambda>props.
     bind (deref props) (\<lambda>state.
     ret \<lparr>v_MountName = ''master-'' @ name, v_ProviderID = diskID, v_EtcdName = etcdName, v_LocalDevice = [], v_AttachedTo = [],
       v_Mountpoint = [], v_Status = state, v_Description = name\<rparr>)))))"

definition az_find_one :: "'w az_env \<Rightarrow> az_disk option \<Rightarrow> Volume list \<Rightarrow> ('w azure, (Volume list, go_error) loop) go" where
  "az_find_one e p vs =
     bind (deref p) (\<lambda>disk.
     bind (get_self (\<lambda>a. a)) (\<lambda>a.
     if \<not> isDiskForCluster a disk then ret (Next vs)
     else bind (az_volume_of a disk) (\<lambda>v. case az_ManagedBy disk of
       None \<Rightarrow> ret (Next (vs @ [v]))
     | Some managedBy \<Rightarrow> (case ax_ParseResourceID e managedBy of
         Inl _ \<Rightarrow> ret (Next vs)
       | Inr rid \<Rightarrow>
           if rid_Name rid = av_instanceID a then
             bind (findLocalDevice e disk) (\<lambda>r. ret (case r of
               Inl err \<Rightarrow> Stop (Wrap ''error finding a local device'' err)
             | Inr ld \<Rightarrow> Next (vs @ [v\<lparr>v_AttachedTo := managedBy, v_LocalDevice := ld\<rparr>])))
           else ret (Next (vs @ [v\<lparr>v_AttachedTo := managedBy\<rparr>]))))))"

definition az_FindVolumes :: "'w az_env \<Rightarrow> ('w azure, go_error + Volume list) go" where
  "az_FindVolumes e =
     bind (listDisks e) (\<lambda>r. case r of
       Inl err \<Rightarrow> ret (Inl (Wrap ''error listing disks'' err))
     | Inr disks \<Rightarrow>
       bind (refreshMetadata e) (\<lambda>r. case r of
         Some err \<Rightarrow> ret (Inl (Wrap ''error refreshling metadata'' err))
       | None \<Rightarrow> bind (for_each disks [] (az_find_one e)) (\<lambda>r.
           ret (case r of Stop err \<Rightarrow> Inl err | Next vs \<Rightarrow> Inr vs))))"

definition az_FindMountedVolume :: "'w az_env \<Rightarrow> Volume \<Rightarrow> ('w azure, go_error + string) go" where
  "az_FindMountedVolume e v = stat_device e ''error checking for device'' (v_LocalDevice v)"

section \<open>Attaching\<close>

text \<open>The loop for the largest LUN compares signed numbers and starts at 0; adding one wraps.\<close>

definition next_lun :: "az_dataDisk list \<Rightarrow> 32 word" where
  "next_lun dds = (if dds = [] then 0
     else fold (\<lambda>dd maxLun. case ad_Lun dd of None \<Rightarrow> maxLun | Some lun \<Rightarrow> if sint maxLun < sint lun then lun else maxLun) dds 0 + 1)"

definition vm_disks :: "az_vm \<Rightarrow> ('s, az_dataDisk option list) go" where
  "vm_disks vm = bind (deref (vm_Properties vm)) deref"

definition findAvailableLun :: "'w az_env \<Rightarrow> ('w azure, go_error + 32 word) go" where
  "findAvailableLun e =
     bind az_compute (\<lambda>c.
     bind (getVMScaleSetVM e (vmScaleSetInstanceID c)) (\<lambda>r. case r of
       Inl err \<Rightarrow> ret (Inl (Wrap ''error getting VM'' err))
     | Inr vm \<Rightarrow> bind (vm_disks vm) (\<lambda>dds.
         if None \<in> set dds then panic ''nil pointer dereference'' else ret (Inr (next_lun (map the dds))))))"

definition new_data_disk :: "32 word \<Rightarrow> Volume \<Rightarrow> az_dataDisk" where
  "new_data_disk lun v = \<lparr>ad_Lun = Some lun, ad_Name = Some (v_Description v), ad_CreateOption = Some ''Attach'',
     ad_ManagedDisk = Some (Some ''StandardSSD_LRS'', Some (v_ProviderID v))\<rparr>"

definition az_AttachVolume :: "'w az_env \<Rightarrow> Volume \<Rightarrow> ('w azure, go_error option \<times> Volume) go" where
  "az_AttachVolume e v =
     (if v_LocalDevice v \<noteq> [] then ret (None, v)
      else
        bind az_compute (\<lambda>c. let instID = vmScaleSetInstanceID c in
        bind (getVMScaleSetVM e instID) (\<lambda>r. case r of
          Inl err \<Rightarrow> ret (Some (Wrap ''error getting VM'' err), v)
        | Inr vm \<Rightarrow>
          bind (findAvailableLun e) (\<lambda>r. case r of
            Inl err \<Rightarrow> ret (Some (Wrap ''error finding available Lun'' err), v)
          | Inr lun \<Rightarrow>
            bind (vm_disks vm) (\<lambda>dds.
            bind (updateVMScaleSetVM e instID (vm\<lparr>vm_Properties := Some (Some (dds @ [Some (new_data_disk lun v)]))\<rparr>)) (\<lambda>r. case r of
              Some err \<Rightarrow> ret (Some (Wrap ''error updating VM'' err), v)
            | None \<Rightarrow>
              bind (lunToDev e (FormatInt (sint lun))) (\<lambda>r. ret (case r of
                Inl err \<Rightarrow> (Some err, v)
              | Inr localDevice \<Rightarrow> (None, v\<lparr>v_LocalDevice := localDevice\<rparr>)))))))))"

section \<open>Discovery\<close>

text \<open>Everything after the last underscore, or the name itself when it has none.\<close>

definition vmInstanceID :: "string \<Rightarrow> string" where
  "vmInstanceID vmName = (if CHR ''_'' \<in> set vmName then rev (takeWhile (\<lambda>c. c \<noteq> CHR ''_'') (rev vmName)) else vmName)"

definition ip_of_config :: "az_ipConfig option \<Rightarrow> string option" where
  "ip_of_config p = Option.bind p (\<lambda>c. Option.bind (ic_Properties c) (\<lambda>a. a))"

definition endpoints_of :: "az_interface option list \<Rightarrow> NodeEndpoint list" where
  "endpoints_of ifaces = map (\<lambda>ip. \<lparr>ne_IP = ip, ne_Port = 0\<rparr>) (List.map_filter ip_of_config
     (concat (map (\<lambda>p. case Option.bind p nx_Properties of None \<Rightarrow> [] | Some cs \<Rightarrow> cs) ifaces)))"

definition endpointsForVMSSVM :: "'w az_env \<Rightarrow> string \<Rightarrow> string \<Rightarrow> ('w azure, go_error + NodeEndpoint list) go" where
  "endpointsForVMSSVM e vmssName instanceID =
     bind (listVMSSVMNetworkInterfaces e vmssName instanceID) (\<lambda>r. ret (case r of
       Inl err \<Rightarrow> Inl err | Inr ifaces \<Rightarrow> Inr (endpoints_of ifaces)))"

definition az_poll_one :: "'w az_env \<Rightarrow> Volume \<Rightarrow> Node gomap \<Rightarrow> ('w azure, (Node gomap, go_error) loop) go" where
  "az_poll_one e v found =
     (if v_AttachedTo v = [] then ret (Next found)
      else (case ax_ParseResourceID e (v_AttachedTo v) of
        Inl _ \<Rightarrow> ret (Next found)
      | Inr rid \<Rightarrow>
        bind (deref (rid_Parent rid)) (\<lambda>vmssName.
        bind (endpointsForVMSSVM e vmssName (vmInstanceID (rid_Name rid))) (\<lambda>r. ret (case r of
          Inl err \<Rightarrow> Stop (Wrap ''error getting endpoints'' err)
        | Inr endpoints \<Rightarrow> Next (gm_update (v_EtcdName v) \<lparr>dn_ID = v_EtcdName v, dn_Endpoints = endpoints\<rparr> found))))))"

definition az_Poll :: "'w az_env \<Rightarrow> ('w azure, go_error + Node gomap) go" where
  "az_Poll e =
     bind (az_FindVolumes e) (\<lambda>r. case r of
       Inl err \<Rightarrow> ret (Inl (Wrap ''error finding volumes'' err))
     | Inr vs \<Rightarrow> bind (for_each vs [] (az_poll_one e)) (\<lambda>r. ret (case r of Stop err \<Rightarrow> Inl err | Next found \<Rightarrow> Inr found)))"

section \<open>Counting tags\<close>

lemma count_members:
  assumes "distinct xs" "distinct ys"
  shows "length (filter (\<lambda>x. x \<in> set ys) xs) \<le> length ys"
    and "length (filter (\<lambda>x. x \<in> set ys) xs) = length ys \<longleftrightarrow> set ys \<subseteq> set xs"
proof -
  have count: "length (filter (\<lambda>x. x \<in> set ys) xs) = card (set xs \<inter> set ys)" "length ys = card (set ys)"
    using assms by (simp_all add: distinct_card [symmetric] Int_def)
  show "length (filter (\<lambda>x. x \<in> set ys) xs) \<le> length ys" unfolding count by (intro card_mono) auto
  show "length (filter (\<lambda>x. x \<in> set ys) xs) = length ys \<longleftrightarrow> set ys \<subseteq> set xs"
    unfolding count by (metis List.finite_set card_subset_eq inf.absorb_iff2 inf_le2)
qed

lemma fold_count2:
  "fold (\<lambda>x found. found + (if P x then 1 else 0) + (if Q x then 1 else 0)) xs (n :: nat) = n + length (filter P xs) + length (filter Q xs)"
  by (induction xs arbitrary: n) auto

definition has_tags :: "AzureVolumes \<Rightarrow> az_disk \<Rightarrow> bool" where
  "has_tags a disk \<longleftrightarrow> (\<forall>k \<in> fst ` set (av_matchTagKeys a). gm_lookup (az_Tags disk) k \<noteq> None) \<and>
     (\<forall>(k, v) \<in> set (av_matchTags a). gm_lookup (az_Tags disk) k = Some (Some v))"

definition maps_ok :: "AzureVolumes \<Rightarrow> bool" where
  "maps_ok a \<longleftrightarrow> gm_ok (av_matchTagKeys a) \<and> gm_ok (av_matchTags a)"

lemma isDiskForCluster_count:
  assumes "maps_ok a" "gm_ok (az_Tags disk)"
  shows "isDiskForCluster a disk \<longleftrightarrow> has_tags a disk"
proof -
  let ?keys = "map fst (av_matchTagKeys a)" and ?tags = "map (\<lambda>(k, v). (k, Some v)) (av_matchTags a)"
  let ?P = "\<lambda>(k, v). gm_lookup (av_matchTagKeys a) k \<noteq> None"
  let ?Q = "\<lambda>(k, v). gm_lookup (av_matchTags a) k \<noteq> None \<and> v \<noteq> None \<and> v = gm_lookup (av_matchTags a) k"
  have ok: "distinct ?keys" "distinct ?tags" "distinct (az_Tags disk)" "gm_ok (av_matchTags a)"
    using assms by (auto simp: maps_ok_def distinct_map inj_on_def split: prod.splits)
  have P: "length (filter ?P (az_Tags disk)) = length (filter (\<lambda>k. k \<in> set ?keys) (map fst (az_Tags disk)))"
    by (auto simp: filter_map o_def map_of_eq_None_iff case_prod_unfold)
  have "?Q x \<longleftrightarrow> x \<in> set ?tags" for x
    using ok(4) by (cases x) (auto simp: image_iff dest: map_of_SomeD intro!: bexI)
  then have Q: "length (filter ?Q (az_Tags disk)) = length (filter (\<lambda>x. x \<in> set ?tags) (az_Tags disk))" by presburger
  have "isDiskForCluster a disk \<longleftrightarrow> length (filter ?P (az_Tags disk)) + length (filter ?Q (az_Tags disk)) = length ?keys + length ?tags"
    unfolding isDiskForCluster_def using fold_count2 [of ?P ?Q "az_Tags disk" 0] by (simp add: case_prod_unfold)
  also have "\<dots> \<longleftrightarrow> set ?keys \<subseteq> set (map fst (az_Tags disk)) \<and> set ?tags \<subseteq> set (az_Tags disk)"
    unfolding P Q using count_members [OF assms(2) ok(1)] count_members [OF ok(3) ok(2)] by linarith
  also have "\<dots> \<longleftrightarrow> has_tags a disk"
    using map_of_eq_Some_iff [OF assms(2)] by (auto simp: has_tags_def subset_iff map_of_eq_None_iff rev_image_eqI split: prod.splits)
  finally show ?thesis .
qed

lemma az_add_tag_ok: "gm_ok (fst m) \<Longrightarrow> gm_ok (snd m) \<Longrightarrow> gm_ok (fst (az_add_tag t m)) \<and> gm_ok (snd (az_add_tag t m))"
  by (cases m) (auto simp: az_add_tag_def distinct_update split: list.splits)

lemma fold_az_add_tag_ok: "gm_ok (fst m) \<Longrightarrow> gm_ok (snd m) \<Longrightarrow> gm_ok (fst (fold az_add_tag ts m)) \<and> gm_ok (snd (fold az_add_tag ts m))"
  by (induction ts arbitrary: m) (simp_all add: az_add_tag_ok)

lemma newAzureVolumes_maps_ok: "newAzureVolumes e cn tags nt m s = (Ret (Inr a), s') \<Longrightarrow> maps_ok a"
  using fold_az_add_tag_ok [of "([], [])" tags]
  by (auto simp: newAzureVolumes_def maps_ok_def bind_apply ret_apply split: prod.splits outcome.splits option.splits if_splits)

section \<open>Logical unit numbers\<close>

definition max_lun :: "az_dataDisk list \<Rightarrow> 32 word \<Rightarrow> 32 word" where
  "max_lun = fold (\<lambda>dd m. case ad_Lun dd of None \<Rightarrow> m | Some lun \<Rightarrow> if sint m < sint lun then lun else m)"

lemma max_lun_ge: "sint m \<le> sint (max_lun dds m) \<and> (\<forall>dd \<in> set dds. \<forall>l. ad_Lun dd = Some l \<longrightarrow> sint l \<le> sint (max_lun dds m))"
proof (induction dds arbitrary: m)
  case (Cons d dds)
  let ?m = "case ad_Lun d of None \<Rightarrow> m | Some lun \<Rightarrow> if sint m < sint lun then lun else m"
  have "sint m \<le> sint ?m" "\<And>l. ad_Lun d = Some l \<Longrightarrow> sint l \<le> sint ?m" by (auto split: option.splits)
  then show ?case using Cons [of ?m] by (fastforce simp: max_lun_def)
qed (simp add: max_lun_def)

lemma max_lun_in: "max_lun dds m = m \<or> Some (max_lun dds m) \<in> ad_Lun ` set dds"
proof (induction dds arbitrary: m)
  case (Cons d dds)
  let ?m = "case ad_Lun d of None \<Rightarrow> m | Some lun \<Rightarrow> if sint m < sint lun then lun else m"
  show ?case using Cons [of ?m] by (auto simp: max_lun_def image_iff split: option.splits if_splits)
qed (simp add: max_lun_def)

lemma sint_succ32: "sint (w :: 32 word) \<noteq> 2 ^ 31 - 1 \<Longrightarrow> sint (w + 1) = sint w + 1"
  using sint_range_size [of w] by (simp add: sint_word_add signed_take_bit_int_eq_self_iff word_size)

lemma next_lun_fresh:
  assumes "\<forall>dd \<in> set dds. \<forall>l. ad_Lun dd = Some l \<longrightarrow> sint l \<noteq> 2 ^ 31 - 1"
  shows "0 \<le> sint (next_lun dds) \<and> Some (next_lun dds) \<notin> ad_Lun ` set dds"
proof (cases "dds = []")
  case False
  have "sint (max_lun dds 0) \<noteq> 2 ^ 31 - 1" using max_lun_in [of dds 0] assms by fastforce
  then have "sint (next_lun dds) = sint (max_lun dds 0) + 1"
    using False sint_succ32 by (simp add: next_lun_def max_lun_def)
  then show ?thesis using max_lun_ge [of 0 dds] by (auto simp: image_iff) (metis add_le_same_cancel1 not_one_le_zero)
qed (simp add: next_lun_def)

definition luns_of :: "az_dataDisk option list \<Rightarrow> 32 word set" where
  "luns_of dds = {l. \<exists>dd. Some dd \<in> set dds \<and> ad_Lun dd = Some l}"

lemma luns_of_the: "None \<notin> set dds \<Longrightarrow> l \<in> luns_of dds \<longleftrightarrow> Some l \<in> ad_Lun ` set (map the dds)"
  unfolding luns_of_def by (auto simp: image_iff) (metis option.exhaust_sel option.sel)+

lemma az_compute_pure: "az_compute s = (r, s') \<Longrightarrow> s' = s"
  by (auto simp: az_compute_def bind_apply ret_apply get_self_def deref_def panic_apply split: option.splits)

lemma getVM_eval:
  "getVMScaleSetVM e i s = (r, s') \<Longrightarrow> \<forall>rg ss i w. fst (ax_GetVM e rg ss i w) = Inr vm \<Longrightarrow>
    trace s' = trace s \<and> (\<forall>x. r = Ret x \<longrightarrow> x = Inr vm)"
  by (auto simp: getVMScaleSetVM_def bind_apply ret_apply ask_def dest: az_compute_pure split: prod.splits outcome.splits)
    (metis fst_conv sum.case(2))

lemma findAvailableLun_eval:
  assumes "\<forall>rg ss i w. fst (ax_GetVM e rg ss i w) = Inr vm" and "vm_Properties vm = Some (Some dds)"
    and "\<forall>l \<in> luns_of dds. sint l \<noteq> 2 ^ 31 - 1" and "findAvailableLun e s = (r, s')"
  shows "trace s' = trace s \<and> (\<forall>lun. r = Ret (Inr lun) \<longrightarrow> lun \<notin> luns_of dds \<and> 0 \<le> sint lun)"
proof -
  have fresh: "None \<notin> set dds \<Longrightarrow> next_lun (map the dds) \<notin> luns_of dds \<and> 0 \<le> sint (next_lun (map the dds))"
    using next_lun_fresh [of "map the dds"] assms(3) by (force simp: luns_of_the)
  show ?thesis
    using assms(2,4) fresh getVM_eval [OF _ assms(1)]
    by (fastforce simp: findAvailableLun_def bind_apply ret_apply panic_apply vm_disks_def deref_def
        dest: az_compute_pure split: prod.splits outcome.splits sum.splits if_splits)
qed

lemma lunToDev_trace: "lunToDev e l s = (r, s') \<Longrightarrow> trace s' = trace s"
  by (auto simp: lunToDev_def lun_link_def PathFor_def go_run split: prod.splits outcome.splits option.splits sum.splits if_splits list.splits)

lemma updateVM_event: "updateVMScaleSetVM e i vm s = (r, s') \<Longrightarrow> trace s' = trace s \<or> (\<exists>err. trace s' = trace s @ [EvAzUpdate i vm err])"
  by (auto simp: updateVMScaleSetVM_def bind_apply ret_apply ask_def act_def dest!: az_compute_pure split: prod.splits outcome.splits option.splits)

lemma az_AttachVolume_event:
  assumes vm: "\<forall>rg ss i w. fst (ax_GetVM e rg ss i w) = Inr vm" "vm_Properties vm = Some (Some dds)"
      "\<forall>l \<in> luns_of dds. sint l \<noteq> 2 ^ 31 - 1"
    and run: "az_AttachVolume e v s = (r, s')"
  shows "trace s' = trace s \<or> (\<exists>inst lun err. lun \<notin> luns_of dds \<and> 0 \<le> sint lun \<and>
    trace s' = trace s @ [EvAzUpdate inst (vm\<lparr>vm_Properties := Some (Some (dds @ [Some (new_data_disk lun v)]))\<rparr>) err])"
proof -
  have disks: "vm_disks vm t = (Ret dds, t)" for t :: "'a azure"
    using vm(2) by (simp add: vm_disks_def deref_def bind_apply ret_apply)
  show ?thesis
    using run unfolding az_AttachVolume_def
    by (auto simp: bind_apply ret_apply Let_def disks dest!: az_compute_pure getVM_eval [OF _ vm(1)] findAvailableLun_eval [OF vm]
        lunToDev_trace updateVM_event split: prod.splits outcome.splits sum.splits option.splits if_splits)
qed

section \<open>The instance of a scale set\<close>

lemma last_split_on: "last (split_on c s) = rev (takeWhile (\<lambda>x. x \<noteq> c) (rev s))"
proof (induction s rule: rev_induct)
  case (snoc x xs)
  have "split_on c (xs @ [x]) = (if x = c then split_on c xs @ [[]] else butlast (split_on c xs) @ [last (split_on c xs) @ [x]])"
    by (induction xs) (auto split: list.splits)
  then show ?case using snoc by simp
qed simp

section \<open>The provider keeps the contract of the mounter\<close>

lemma filepath_Join_dev: "filepath_Join [''/dev'', x] \<noteq> []"
  by (simp add: filepath_Clean_def is_rooted_def HasPrefix_def)

lemma lunToDev_sets: "lunToDev e l s = (Ret (Inr dev), s') \<Longrightarrow> dev \<noteq> []"
  by (auto simp: lunToDev_def lun_link_def bind_apply ret_apply filepath_Join_dev simp del: filepath_Join.simps
      split: prod.splits outcome.splits option.splits sum.splits if_splits)

lemma az_AttachVolume_sets: "az_AttachVolume e v s = (Ret (None, v'), s') \<Longrightarrow> v_LocalDevice v' \<noteq> []"
  by (auto simp: az_AttachVolume_def bind_apply ret_apply Let_def dest: lunToDev_sets
      split: prod.splits outcome.splits option.splits sum.splits if_splits)

lemma spares_az_pages: "spares did_not_set (az_pages n msg f i l)"
  by (induction n arbitrary: i l) (auto intro!: spares_rules spares_basic(9) simp: did_not_set_def)

lemma spares_lunToDev: "spares did_not_set (lunToDev e l)"
  unfolding lunToDev_def lun_link_def by (intro spares_rules)

lemma spares_same_disk: "spares did_not_set (same_disk d ps)"
  by (induction ps) (auto intro!: spares_rules)

lemma spares_az_compute: "spares did_not_set az_compute"
  unfolding az_compute_def by (intro spares_rules)

lemma spares_az_FindVolumes: "spares did_not_set (az_FindVolumes e)"
  unfolding az_FindVolumes_def listDisks_def refreshMetadata_def queryInstanceMetadata_def az_find_one_def az_volume_of_def
    extractEtcdName_def findLocalDevice_def az_dataDisks_def
  by (intro spares_rules spares_az_pages spares_lunToDev spares_same_disk spares_az_compute)

lemma spares_az_AttachVolume: "spares did_not_set (az_AttachVolume e v)"
  unfolding az_AttachVolume_def getVMScaleSetVM_def findAvailableLun_def updateVMScaleSetVM_def vm_disks_def
  by (intro spares_rules spares_lunToDev spares_az_compute spares_basic(9) did_not_set_other)

interpretation azure: volume_provider "hosted (az_FindVolumes e)" "\<lambda>v. hosted (az_AttachVolume e v)" for e
proof
  fix v v' :: Volume and w w' :: "AzureVolumes \<times> 'a"
  assume "hosted (az_AttachVolume e v) w = (Ret (None, v'), w')"
  then show "v_LocalDevice v' \<noteq> [] \<or> v_Mountpoint v' \<noteq> []"
    by (auto simp: hosted_def split: prod.splits dest: az_AttachVolume_sets)
qed (simp_all add: spares_hosted spares_az_FindVolumes spares_az_AttachVolume)

section \<open>An example\<close>

definition demo_az_metadata :: instanceMetadata where
  "demo_az_metadata = \<lparr>im_Compute = Some \<lparr>cm_Name = ''masters_0'', cm_ResourceGroupName = ''group'', cm_VMScaleSetName = ''masters'',
       cm_SubscriptionID = ''sub'', cm_StorageProfile = Some []\<rparr>,
     im_Network = Some [Some \<lparr>ni_IPv4 = Some [Some \<lparr>ia_PrivateIPAddress = ''10.0.0.4'', ia_PublicIPAddress = []\<rparr>]\<rparr>]\<rparr>"

definition demo_az_disks :: "az_dataDisk option list" where
  "demo_az_disks = [Some \<lparr>ad_Lun = Some 2, ad_Name = Some ''other'', ad_CreateOption = None, ad_ManagedDisk = None\<rparr>]"

definition demo_az_vm :: az_vm where
  "demo_az_vm = \<lparr>vm_Properties = Some (Some demo_az_disks), vm_other = []\<rparr>"

definition demo_az_env :: "unit az_env" where
  "demo_az_env = \<lparr>cl_rt = const_rt 0, cl_Containerized = False, cl_Stat = (\<lambda>_ w. (None, w)), cl_Getenv = (\<lambda>_ w. ([], w)),
     cl_Sleep = (\<lambda>_ w. ((), w)), cl_patience = 1,
     ax_HttpGet = (\<lambda>_ w. (Inr (200, Inr []), w)), ax_Unmarshal = (\<lambda>_. Inr demo_az_metadata), ax_NewCredential = (\<lambda>w. (None, w)),
     ax_NewSdkClient = (\<lambda>_ _ w. (None, w)), ax_ParseIP = Some, ax_ParseResourceID = (\<lambda>_. Inl (Errorf [])),
     ax_DiskPage = (\<lambda>_ w. (Inr ([], False), w)), ax_InterfacePage = (\<lambda>_ _ _ _ w. (Inr ([], False), w)),
     ax_GetVM = (\<lambda>_ _ _ w. (Inr demo_az_vm, w)), ax_BeginUpdate = (\<lambda>_ _ _ _ w. (None, w)), ax_PollUntilDone = (\<lambda>w. (None, w)),
     ax_StatDir = (\<lambda>_ w. (Inr True, w)), ax_Readlink = (\<lambda>_ w. (Inr ''../../sdc'', w))\<rparr>"

definition demo_az_provider :: AzureVolumes where
  "demo_az_provider = \<lparr>av_clusterName = ''c'', av_matchTagKeys = [(''role'', ())], av_matchTags = [(''env'', ''prod'')], av_nameTag = [],
     av_instanceID = ''masters_0'', av_localIP = ''10.0.0.4'', av_metadata = demo_az_metadata\<rparr>"

definition demo_az_disk :: az_disk where
  "demo_az_disk = \<lparr>az_Name = Some ''disk'', az_ID = Some ''/disk'', az_ManagedBy = None,
     az_Tags = [(''env'', Some ''prod''), (''x'', None), (''role'', Some [])], az_Properties = Some (Some ''Unattached'')\<rparr>"

definition demo_az_volume :: Volume where
  "demo_az_volume = \<lparr>v_MountName = ''master-disk'', v_ProviderID = ''/disk'', v_EtcdName = ''disk'', v_LocalDevice = [], v_AttachedTo = [],
     v_Mountpoint = [], v_Status = ''Unattached'', v_Description = ''disk''\<rparr>"

lemma demo_az_new:
  "newAzureVolumes demo_az_env ''c'' [''role'', ''env=prod''] [] demo_az_metadata s = (Ret (Inr demo_az_provider), s)"
  by (simp add: newAzureVolumes_def az_localIP_def deref_def bind_apply ret_apply demo_az_metadata_def demo_az_env_def demo_az_provider_def
      az_add_tag_def)

section \<open>Properties\<close>

text \<open>
  C33. The disks of the cluster are those that carry every tag key and every tag value the provider was built with: counting the
  matching tags of a disk and comparing the count with the number of tags asked for decides exactly that, for every provider that
  construction returns.
\<close>

theorem counting_tags_selects:
  assumes "newAzureVolumes e clusterName volumeTags nameTag m s = (Ret (Inr a), s')" and "gm_ok (az_Tags disk)"
  shows "isDiskForCluster a disk \<longleftrightarrow> has_tags a disk"
  using assms newAzureVolumes_maps_ok isDiskForCluster_count by blast

theorem counting_tags_selects_witness: "isDiskForCluster demo_az_provider demo_az_disk \<and> \<not> isDiskForCluster demo_az_provider (demo_az_disk\<lparr>az_Tags := []\<rparr>)"
  using counting_tags_selects [OF demo_az_new, of demo_az_disk] counting_tags_selects [OF demo_az_new, of "demo_az_disk\<lparr>az_Tags := []\<rparr>"]
  by (simp add: has_tags_def demo_az_provider_def demo_az_disk_def)



text \<open>The two places that read the number of an instance from the name of its machine agree.\<close>

theorem same_instance_id: "vmInstanceID (cm_Name c) = vmScaleSetInstanceID c"
proof (cases "CHR ''_'' \<in> set (cm_Name c)")
  case False
  then have "rev (takeWhile (\<lambda>x. x \<noteq> CHR ''_'') (rev (cm_Name c))) = cm_Name c"
    by (subst takeWhile_eq_all_conv [THEN iffD2]) auto
  with False show ?thesis unfolding vmInstanceID_def vmScaleSetInstanceID_def last_split_on by simp
qed (simp add: vmInstanceID_def vmScaleSetInstanceID_def last_split_on)

end
