(* ===== verification/Volumes_Openstack.thy ===== *)
theory Volumes_Openstack
  imports Mounting Private_Api
begin

text \<open>
  The volumes of OpenStack (\<^verbatim>\<open>pkg/volumes/openstack\<close>): the metadata of the instance from the config drive or from the metadata
  service, the cloud configuration, the address of a server out of the JSON the compute API sends, volumes selected by their
  metadata and their zone, waiting for a device, attaching and discovery. The clients of gophercloud, gcfg, the mount utilities,
  HTTP, JSON and the file system are parameters; the metrics (\<^verbatim>\<open>metrics.go\<close>) return the error they are given and are left out.
\<close>

section \<open>Data\<close>

record os_InstanceMetadata =
  om_Name :: string
  om_ProjectID :: string
  om_AvailabilityZone :: string
  om_Hostname :: string
  om_ServerID :: string

record MetadataService =
  ms_serviceURL :: string
  ms_configDrivePath :: string
  ms_mountTarget :: string
  ms_searchOrder :: string

record os_Config =
  oc_AuthURL :: string
  oc_Username :: string
  oc_UserID :: string
  oc_Password :: string
  oc_TenantID :: string
  oc_TenantName :: string
  oc_DomainID :: string
  oc_DomainName :: string
  oc_Region :: string
  oc_ApplicationCredentialID :: string
  oc_ApplicationCredentialName :: string
  oc_ApplicationCredentialSecret :: string
  oc_IgnoreVolumeAZ :: bool

record AuthOptions =
  ao_IdentityEndpoint :: string
  ao_Username :: string
  ao_UserID :: string
  ao_Password :: string
  ao_TenantID :: string
  ao_TenantName :: string
  ao_DomainID :: string
  ao_DomainName :: string
  ao_ApplicationCredentialID :: string
  ao_ApplicationCredentialName :: string
  ao_ApplicationCredentialSecret :: string
  ao_AllowReauth :: bool

text \<open>A value of type \<^verbatim>\<open>any\<close> that comes out of JSON.\<close>

datatype any = AnyNil | AnyBool bool | AnyNumber int | AnyString string | AnyList "any list" | AnyMap "(string \<times> any) list"

record os_server =
  os_Name :: string
  os_AvailabilityZone :: string
  os_Addresses :: "any gomap"

record os_volume =
  ov_ID :: string
  ov_Name :: string
  ov_Description :: string
  ov_Status :: string
  ov_AvailabilityZone :: string
  ov_Metadata :: "string gomap"
  ov_Attachments :: "(string \<times> string) list"

record OpenstackVolumes =
  st_meta :: os_InstanceMetadata
  st_matchTagKeys :: "string list"
  st_matchTags :: "string gomap"
  st_networkCIDR :: "string option"
  st_clusterName :: string
  st_project :: string
  st_instanceName :: string
  st_internalIP :: "string option"
  st_nameTag :: string
  st_zone :: string
  st_ignoreAZ :: bool

datatype os_event =
    EvOsMount string string string "go_error option"
  | EvOsUnmount string "go_error option"
  | EvOsRemove string "go_error option"
  | EvOsAttach string string "go_error + string"
  | EvOsScan string "go_error option"
  | EvOsUdev "go_error option"

record 'w os_env = "'w cloud_env" +
  ox_Blkid :: "string \<Rightarrow> 'w \<Rightarrow> (go_error + string) \<times> 'w"
  ox_Mount :: "string \<Rightarrow> string \<Rightarrow> string \<Rightarrow> 'w \<Rightarrow> go_error option \<times> 'w"
  ox_Unmount :: "string \<Rightarrow> 'w \<Rightarrow> go_error option \<times> 'w"
  ox_MkdirTemp :: "string \<Rightarrow> 'w \<Rightarrow> (go_error + string) \<times> 'w"
  ox_Remove :: "string \<Rightarrow> 'w \<Rightarrow> go_error option \<times> 'w"
  ox_Open :: "string \<Rightarrow> 'w \<Rightarrow> (go_error + (go_error + string)) \<times> 'w"
  ox_HttpGet :: "string \<Rightarrow> 'w \<Rightarrow> (go_error + int \<times> (go_error + string)) \<times> 'w"
  ox_Unmarshal :: "string \<Rightarrow> go_error + os_InstanceMetadata"
  ox_gcfg :: "(go_error + string) \<Rightarrow> go_error + os_Config"
  ox_NewClient :: "string \<Rightarrow> 'w \<Rightarrow> go_error option \<times> 'w"
  ox_Authenticate :: "AuthOptions \<Rightarrow> 'w \<Rightarrow> go_error option \<times> 'w"
  ox_NewBlockStorage :: "string \<Rightarrow> string \<Rightarrow> 'w \<Rightarrow> go_error option \<times> 'w"
  ox_NewCompute :: "string \<Rightarrow> string \<Rightarrow> 'w \<Rightarrow> go_error option \<times> 'w"
  ox_GetServer :: "string \<Rightarrow> 'w \<Rightarrow> (go_error + os_server) \<times> 'w"
  ox_ListVolumes :: "string \<Rightarrow> 'w \<Rightarrow> (go_error + (go_error + os_volume list)) \<times> 'w"
  ox_CreateAttachment :: "string \<Rightarrow> string \<Rightarrow> 'w \<Rightarrow> (go_error + string) \<times> 'w"
  ox_ReadDir :: "string \<Rightarrow> 'w \<Rightarrow> (go_error + string list) \<times> 'w"
  ox_WriteFile :: "string \<Rightarrow> string \<Rightarrow> 'w \<Rightarrow> go_error option \<times> 'w"
  ox_UdevTrigger :: "'w \<Rightarrow> go_error option \<times> 'w"
  ox_ParseIP :: "string \<Rightarrow> string option"
  ox_Contains :: "string \<Rightarrow> string \<Rightarrow> bool"

type_synonym ('st, 'w) os_sys = "('st, 'w, os_event) sys"
type_synonym 'w openstack = "(OpenstackVolumes, 'w) os_sys"

section \<open>Instance metadata\<close>

definition parseMetadata :: "'w os_env \<Rightarrow> go_error + string \<Rightarrow> go_error + os_InstanceMetadata" where
  "parseMetadata e r = (case r of Inl err \<Rightarrow> Inl err | Inr data \<Rightarrow> ox_Unmarshal e data)"

definition ConfigDriveLabel :: string where
  "ConfigDriveLabel = ''config-2''"

text \<open>The device of the config drive: by its label, or else the one that \<^verbatim>\<open>blkid\<close> names.\<close>

definition config_device :: "'w os_env \<Rightarrow> (('st, 'w) os_sys, go_error + string) go" where
  "config_device e =
     bind (PathFor (cl_Containerized e) ''/dev/disk/by-label/'') (\<lambda>p. let dev = filepath_Join [p, ConfigDriveLabel] in
     bind (ask (cl_Stat e dev)) (\<lambda>r.
     if r = Some NotExist then bind (ask (ox_Blkid e (''LABEL='' @ ConfigDriveLabel))) (\<lambda>r. ret (case r of
       Inl err \<Rightarrow> Inl (Wrap ''unable to run blkid'' err) | Inr out \<Rightarrow> Inr (TrimSpace out)))
     else ret (Inr dev)))"

definition mount_config :: "'w os_env \<Rightarrow> string \<Rightarrow> string \<Rightarrow> (('st, 'w) os_sys, go_error option) go" where
  "mount_config e dev target =
     bind (act (ox_Mount e dev target ''iso9660'') (EvOsMount dev target ''iso9660'')) (\<lambda>r.
     if r \<noteq> None then act (ox_Mount e dev target ''vfat'') (EvOsMount dev target ''vfat'') else ret None)"

text \<open>The deferred \<^verbatim>\<open>Unmount\<close> runs after the metadata was read, or could not be.\<close>

definition getFromConfigDrive :: "'w os_env \<Rightarrow> MetadataService \<Rightarrow> (('st, 'w) os_sys, go_error + os_InstanceMetadata) go" where
  "getFromConfigDrive e mds =
     bind (config_device e) (\<lambda>r. case r of
       Inl err \<Rightarrow> ret (Inl err)
     | Inr dev \<Rightarrow>
       bind (mount_config e dev (ms_mountTarget mds)) (\<lambda>r. case r of
         Some err \<Rightarrow> ret (Inl (Wrap ''error mounting configdrive'' err))
       | None \<Rightarrow>
         bind (ask (ox_Open e (filepath_Join [ms_mountTarget mds, ms_configDrivePath mds]))) (\<lambda>r.
         bind (act (ox_Unmount e (ms_mountTarget mds)) (EvOsUnmount (ms_mountTarget mds))) (\<lambda>_.
         ret (case r of
           Inl err \<Rightarrow> Inl (Wrap ''error reading file on config drive'' err)
         | Inr contents \<Rightarrow> parseMetadata e contents)))))"

definition getFromMetadataService :: "'w os_env \<Rightarrow> MetadataService \<Rightarrow> (('st, 'w) os_sys, go_error + os_InstanceMetadata) go" where
  "getFromMetadataService e mds =
     bind (ask (ox_HttpGet e (ms_serviceURL mds))) (\<lambda>r. ret (case r of
       Inl err \<Rightarrow> Inl err
     | Inr (code, body) \<Rightarrow> if code = 200 then parseMetadata e body else Inl (Errorf ''fetching metadata returned status code'')))"

definition get_from :: "'w os_env \<Rightarrow> MetadataService \<Rightarrow> string \<Rightarrow> (('st, 'w) os_sys, go_error + os_InstanceMetadata) go" where
  "get_from e mds source =
     (if source = ''configDrive'' then getFromConfigDrive e mds
      else if source = ''metadataService'' then getFromMetadataService e mds
      else ret (Inl (Errorf ''not a valid metadata search order option'')))"

text \<open>The sources are tried in order until one answers; the error of the last one is what remains.\<close>

definition getMetadata :: "'w os_env \<Rightarrow> MetadataService \<Rightarrow> (('st, 'w) os_sys, go_error + os_InstanceMetadata) go" where
  "getMetadata e mds =
     bind (for_each (split_on (CHR '','') (ms_searchOrder mds)) (Errorf []) (\<lambda>i _.
       bind (get_from e mds (TrimSpace i)) (\<lambda>r. ret (case r of Inr m \<Rightarrow> Stop m | Inl err \<Rightarrow> Next err)))) (\<lambda>r.
     ret (case r of Stop m \<Rightarrow> Inr m | Next err \<Rightarrow> Inl err))"

definition MetadataLatestPath :: string where
  "MetadataLatestPath = ''openstack/latest/meta_data.json''"

definition newMetadataService :: "string \<Rightarrow> string \<Rightarrow> string \<Rightarrow> string \<Rightarrow> MetadataService" where
  "newMetadataService serviceURL configDrivePath mountTarget searchOrder =
     \<lparr>ms_serviceURL = serviceURL, ms_configDrivePath = configDrivePath, ms_mountTarget = mountTarget, ms_searchOrder = searchOrder\<rparr>"

definition getLocalMetadata :: "'w os_env \<Rightarrow> (('st, 'w) os_sys, go_error + os_InstanceMetadata) go" where
  "getLocalMetadata e =
     bind (ask (ox_MkdirTemp e ''configdrive'')) (\<lambda>r. case r of
       Inl err \<Rightarrow> ret (Inl err)
     | Inr mountTarget \<Rightarrow>
       bind (getMetadata e (newMetadataService (''http://169.254.169.254/'' @ MetadataLatestPath) MetadataLatestPath mountTarget
           ''configDrive, metadataService'')) (\<lambda>r.
       bind (act (ox_Remove e mountTarget) (EvOsRemove mountTarget)) (\<lambda>_. ret r)))"

section \<open>Clients\<close>

definition ReadConfig :: "'w os_env \<Rightarrow> go_error + string \<Rightarrow> go_error + os_Config" where
  "ReadConfig e contents = ox_gcfg e contents"

definition getCredential :: "'w os_env \<Rightarrow> (('st, 'w) os_sys, go_error + AuthOptions \<times> string \<times> bool) go" where
  "getCredential e =
     bind (ask (ox_Open e ''/rootfs/etc/kubernetes/cloud.config'')) (\<lambda>r. ret (case r of
       Inl err \<Rightarrow> Inl err
     | Inr contents \<Rightarrow> (case ReadConfig e contents of
         Inl err \<Rightarrow> Inl err
       | Inr cfg \<Rightarrow> Inr (\<lparr>ao_IdentityEndpoint = oc_AuthURL cfg, ao_Username = oc_Username cfg, ao_UserID = oc_UserID cfg,
             ao_Password = oc_Password cfg, ao_TenantID = oc_TenantID cfg, ao_TenantName = oc_TenantName cfg,
             ao_DomainID = oc_DomainID cfg, ao_DomainName = oc_DomainName cfg,
             ao_ApplicationCredentialID = oc_ApplicationCredentialID cfg,
             ao_ApplicationCredentialName = oc_ApplicationCredentialName cfg,
             ao_ApplicationCredentialSecret = oc_ApplicationCredentialSecret cfg, ao_AllowReauth = True\<rparr>,
           oc_Region cfg, oc_IgnoreVolumeAZ cfg))))"

definition getClients :: "'w os_env \<Rightarrow> OpenstackVolumes \<Rightarrow> (('st, 'w) os_sys, go_error + OpenstackVolumes) go" where
  "getClients e stack =
     bind (getCredential e) (\<lambda>r. case r of
       Inl err \<Rightarrow> ret (Inl (Wrap ''error building openstack credentials'' err))
     | Inr (authOption, region, ignoreAZ) \<Rightarrow>
       bind (ask (ox_NewClient e (ao_IdentityEndpoint authOption))) (\<lambda>r. case r of
         Some err \<Rightarrow> ret (Inl (Wrap ''error building openstack storage client'' err))
       | None \<Rightarrow>
         bind (ask (ox_Authenticate e authOption)) (\<lambda>r. case r of
           Some err \<Rightarrow> ret (Inl (Wrap ''error authenticating openstack client'' err))
         | None \<Rightarrow>
           bind (ask (ox_NewBlockStorage e ''volumev3'' region)) (\<lambda>r. case r of
             Some err \<Rightarrow> ret (Inl (Wrap ''error building storage client'' err))
           | None \<Rightarrow>
             bind (ask (ox_NewCompute e ''compute'' region)) (\<lambda>r. case r of
               Some err \<Rightarrow> ret (Inl (Wrap ''error building compute client'' err))
             | None \<Rightarrow> ret (Inr (stack\<lparr>st_ignoreAZ := ignoreAZ\<rparr>)))))))"

section \<open>Addresses\<close>

text \<open>The addresses of one network; one that is not a JSON object ends the process (a failed type assertion).\<close>

fun fixed_address :: "(string \<Rightarrow> bool) \<Rightarrow> any list \<Rightarrow> ('s, string option) go" where
  "fixed_address inside [] = ret None"
| "fixed_address inside (addr # rest) = (case addr of
     AnyMap addrMap \<Rightarrow>
       (case (gm_lookup addrMap ''OS-EXT-IPS:type'', gm_lookup addrMap ''addr'') of
         (Some addrType, Some (AnyString ip)) \<Rightarrow>
           if addrType = AnyString ''fixed'' \<and> inside ip then ret (Some ip) else fixed_address inside rest
       | _ \<Rightarrow> fixed_address inside rest)
   | _ \<Rightarrow> panic ''interface conversion'')"

fun fixed_address_in :: "(string \<Rightarrow> bool) \<Rightarrow> any gomap \<Rightarrow> string list \<Rightarrow> ('s, string option) go" where
  "fixed_address_in inside addrs [] = ret None"
| "fixed_address_in inside addrs (k # ks) = (case gm_lookup addrs k of
     Some (AnyList addresses) \<Rightarrow>
       bind (fixed_address inside addresses) (\<lambda>r. case r of Some ip \<Rightarrow> ret (Some ip) | None \<Rightarrow> fixed_address_in inside addrs ks)
   | _ \<Rightarrow> fixed_address_in inside addrs ks)"

definition in_network :: "'w os_env \<Rightarrow> string option \<Rightarrow> string \<Rightarrow> bool" where
  "in_network e networkCIDR ip \<longleftrightarrow> (case networkCIDR of None \<Rightarrow> True | Some cidr \<Rightarrow> ox_Contains e cidr ip)"

definition GetServerFixedIP :: "'w os_env \<Rightarrow> any gomap \<Rightarrow> string \<Rightarrow> string option \<Rightarrow> (('st, 'w) os_sys, go_error + string) go" where
  "GetServerFixedIP e addrs name networkCIDR =
     bind (range_map (cl_rt e) addrs) (\<lambda>kvs.
     bind (fixed_address_in (in_network e networkCIDR) addrs (sort (map fst kvs))) (\<lambda>r. ret (case r of
       Some ip \<Rightarrow> Inr ip | None \<Rightarrow> Inl (Errorf (''failed to find Fixed IP address for server '' @ name)))))"

section \<open>Construction\<close>

definition discoverTags :: "'w os_env \<Rightarrow> OpenstackVolumes \<Rightarrow> (('st, 'w) os_sys, go_error + OpenstackVolumes) go" where
  "discoverTags e stack =
     (let project = TrimSpace (om_ProjectID (st_meta stack)); instanceName = TrimSpace (om_Name (st_meta stack)) in
      if project = [] then ret (Inl (Errorf ''project metadata was empty''))
      else if instanceName = [] then ret (Inl (Errorf ''instance name metadata was empty''))
      else bind (ask (ox_GetServer e (TrimSpace (om_ServerID (st_meta stack))))) (\<lambda>r. case r of
        Inl err \<Rightarrow> ret (Inl (Wrap ''failed to retrieve server information from cloud'' err))
      | Inr server \<Rightarrow>
        bind (GetServerFixedIP e (os_Addresses server) (os_Name server) (st_networkCIDR stack)) (\<lambda>r. ret (case r of
          Inl err \<Rightarrow> Inl (Wrap ''error querying InternalIP from name'' err)
        | Inr ip \<Rightarrow> Inr (stack\<lparr>st_project := project, st_instanceName := instanceName, st_internalIP := ox_ParseIP e ip,
            st_zone := os_AvailabilityZone server\<rparr>)))))"

definition os_add_tag :: "string \<Rightarrow> OpenstackVolumes \<Rightarrow> OpenstackVolumes" where
  "os_add_tag volumeTag stack = (case split2 (CHR ''='') volumeTag of
     [k] \<Rightarrow> stack\<lparr>st_matchTagKeys := st_matchTagKeys stack @ [k]\<rparr>
   | k # v # _ \<Rightarrow> stack\<lparr>st_matchTags := gm_update k v (st_matchTags stack)\<rparr>
   | [] \<Rightarrow> stack)"

definition NewOpenstackVolumes :: "'w os_env \<Rightarrow> string \<Rightarrow> string list \<Rightarrow> string \<Rightarrow> string option
    \<Rightarrow> (('st, 'w) os_sys, go_error + OpenstackVolumes) go" where
  "NewOpenstackVolumes e clusterName volumeTags nameTag networkCIDR =
     bind (getLocalMetadata e) (\<lambda>r. case r of
       Inl err \<Rightarrow> ret (Inl (Wrap ''failed to get server metadata'' err))
     | Inr metadata \<Rightarrow>
       bind (getClients e (fold os_add_tag volumeTags \<lparr>st_meta = metadata, st_matchTagKeys = [], st_matchTags = [],
           st_networkCIDR = networkCIDR, st_clusterName = clusterName, st_project = [], st_instanceName = [], st_internalIP = None,
           st_nameTag = nameTag, st_zone = [], st_ignoreAZ = False\<rparr>)) (\<lambda>r. case r of
         Inl err \<Rightarrow> ret (Inl (Wrap ''could not build OpenstackVolumes'' err))
       | Inr stack \<Rightarrow> discoverTags e stack))"

definition os_MyIP :: "OpenstackVolumes \<Rightarrow> go_error + string" where
  "os_MyIP stack = (case st_internalIP stack of None \<Rightarrow> Inl (Errorf ''unable to determine local IP'') | Some ip \<Rightarrow> Inr ip)"

section \<open>Finding volumes\<close>

definition buildOpenstackVolume :: "OpenstackVolumes \<Rightarrow> os_volume \<Rightarrow> Volume" where
  "buildOpenstackVolume stack d =
     fold (\<lambda>(server, device) v. v\<lparr>v_AttachedTo := server,
         v_LocalDevice := if server = om_ServerID (st_meta stack) then device else v_LocalDevice v\<rparr>) (ov_Attachments d)
       \<lparr>v_MountName = ''master-'' @ ov_Name d, v_ProviderID = ov_ID d,
        v_EtcdName = (case gm_lookup (ov_Metadata d) (st_nameTag stack) of
          None \<Rightarrow> ov_Name d | Some plainText \<Rightarrow> st_clusterName stack @ ''-'' @ hd (split2 (CHR ''/'') plainText)),
        v_LocalDevice = [], v_AttachedTo = [], v_Mountpoint = [], v_Status = ov_Status d, v_Description = ov_Description d\<rparr>"

definition os_matchesTags :: "OpenstackVolumes \<Rightarrow> os_volume \<Rightarrow> bool \<Rightarrow> bool" where
  "os_matchesTags stack d filterByAZ \<longleftrightarrow> list_all (\<lambda>k. gm_lookup (ov_Metadata d) k \<noteq> None) (st_matchTagKeys stack)
     \<and> list_all (\<lambda>(k, v). gm_lookup (ov_Metadata d) k = Some v) (st_matchTags stack)
     \<and> (filterByAZ \<and> \<not> st_ignoreAZ stack \<longrightarrow> ov_AvailabilityZone d = st_zone stack)"

definition os_findVolumes :: "'w os_env \<Rightarrow> bool \<Rightarrow> ('w openstack, go_error + Volume list) go" where
  "os_findVolumes e filterByAZ =
     bind (get_self (\<lambda>a. a)) (\<lambda>stack.
     bind (ask (ox_ListVolumes e (st_project stack))) (\<lambda>r. ret (case r of
       Inl err \<Rightarrow> Inl (Wrap ''FindVolumes: Failed to list volumes'' err)
     | Inr (Inl err) \<Rightarrow> Inl (Wrap ''FindVolumes: Failed to extract volumes'' err)
     | Inr (Inr vols) \<Rightarrow> Inr (map (buildOpenstackVolume stack) (filter (\<lambda>d. os_matchesTags stack d filterByAZ) vols)))))"

definition os_FindVolumes :: "'w os_env \<Rightarrow> ('w openstack, go_error + Volume list) go" where
  "os_FindVolumes e = os_findVolumes e True"

section \<open>Devices\<close>

definition candidateDeviceNodes :: "string \<Rightarrow> string list" where
  "candidateDeviceNodes volumeID = [''virtio-'' @ take 20 volumeID, ''virtio-'' @ volumeID,
     ''scsi-0QEMU_QEMU_HARDDISK_'' @ take 20 volumeID, ''scsi-0QEMU_QEMU_HARDDISK_'' @ volumeID,
     ''wwn-0x'' @ filter (\<lambda>c. c \<noteq> CHR ''-'') volumeID]"

definition findDevicePath :: "'w os_env \<Rightarrow> string \<Rightarrow> ('w openstack, go_error + string) go" where
  "findDevicePath e volumeID =
     (if length volumeID < 20 then panic ''slice bounds out of range''
      else bind (PathFor (cl_Containerized e) ''/dev/disk/by-id/'') (\<lambda>p.
        bind (ask (ox_ReadDir e p)) (\<lambda>r. ret (case r of
          Inl err \<Rightarrow> Inl err
        | Inr files \<Rightarrow> (case List.find (\<lambda>f. f \<in> set (candidateDeviceNodes volumeID)) files of
            Some f \<Rightarrow> Inr (filepath_Join [''/dev/disk/by-id/'', f]) | None \<Rightarrow> Inr [])))))"

definition probeVolume :: "'w os_env \<Rightarrow> ('w openstack, go_error option) go" where
  "probeVolume e =
     bind (ask (ox_ReadDir e ''/sys/class/scsi_host/'')) (\<lambda>r.
     bind (for_each (case r of Inl _ \<Rightarrow> [] | Inr dirs \<Rightarrow> dirs) () (\<lambda>f _. let name = ''/sys/class/scsi_host/'' @ f @ ''/scan'' in
       bind (act (ox_WriteFile e name ''- - -'') (EvOsScan name)) (\<lambda>_. ret (Next () :: (unit, unit) loop)))) (\<lambda>_.
     act (ox_UdevTrigger e) EvOsUdev))"

definition try_device :: "'w os_env \<Rightarrow> string \<Rightarrow> string \<Rightarrow> ('w openstack, bool \<times> go_error option \<times> string) go" where
  "try_device e volumeID device =
     bind (findDevicePath e volumeID) (\<lambda>r. case r of
       Inl err \<Rightarrow> ret (False, Some err, device)
     | Inr devpath \<Rightarrow> if devpath \<noteq> [] then ret (True, None, devpath)
         else bind (probeVolume e) (\<lambda>_. ret (False, None, device)))"

definition os_FindMountedVolume :: "'w os_env \<Rightarrow> Volume \<Rightarrow> ('w openstack, go_error + string) go" where
  "os_FindMountedVolume e v =
     bind (SleepUntil 25 (cl_Sleep e (6 * second)) (try_device e (v_ProviderID v)) []) (\<lambda>(found, err, device). case err of
       Some err \<Rightarrow> ret (Inl (Wrap ''failed to find device path for volume'' err))
     | None \<Rightarrow> if \<not> found \<or> device = [] then ret (Inr [])
               else stat_device e ''error checking for device'' device)"

section \<open>Attaching\<close>

definition os_AttachVolume :: "'w os_env \<Rightarrow> Volume \<Rightarrow> ('w openstack, go_error option \<times> Volume) go" where
  "os_AttachVolume e v =
     bind (get_self (\<lambda>a. om_ServerID (st_meta a))) (\<lambda>server.
     bind (act (ox_CreateAttachment e server (v_ProviderID v)) (EvOsAttach server (v_ProviderID v))) (\<lambda>r. ret (case r of
       Inl err \<Rightarrow> (Some (Wrap ''error attaching volume'' err), v)
     | Inr device \<Rightarrow> (None, v\<lparr>v_LocalDevice := device\<rparr>))))"

section \<open>Discovery\<close>

definition os_poll_one :: "'w os_env \<Rightarrow> string \<times> Volume \<Rightarrow> Node gomap \<Rightarrow> ('w openstack, (Node gomap, unit) loop) go" where
  "os_poll_one e = (\<lambda>(i, volume) nodes.
     bind (get_self st_networkCIDR) (\<lambda>networkCIDR.
     bind (ask (ox_GetServer e i)) (\<lambda>r. case r of
       Inl _ \<Rightarrow> ret (Next nodes)
     | Inr server \<Rightarrow>
       bind (GetServerFixedIP e (os_Addresses server) (os_Name server) networkCIDR) (\<lambda>r. ret (case r of
         Inl _ \<Rightarrow> Next nodes
       | Inr address \<Rightarrow> Next (gm_update (v_EtcdName volume) \<lparr>dn_ID = v_EtcdName volume,
           dn_Endpoints = [\<lparr>ne_IP = address, ne_Port = 0\<rparr>]\<rparr> nodes))))))"

definition os_Poll :: "'w os_env \<Rightarrow> ('w openstack, go_error + Node gomap) go" where
  "os_Poll e =
     bind (os_findVolumes e False) (\<lambda>r. case r of
       Inl err \<Rightarrow> ret (Inl err)
     | Inr allVolumes \<Rightarrow>
       bind (range_map (cl_rt e) (fold (\<lambda>v m. gm_update (v_AttachedTo v) v m) (filter (\<lambda>v. v_AttachedTo v \<noteq> []) allVolumes) [])) (\<lambda>kvs.
       bind (for_each kvs [] (os_poll_one e)) (\<lambda>r.
       ret (Inr (case r of Next nodes \<Rightarrow> nodes | Stop _ \<Rightarrow> [])))))"

section \<open>The first fixed address\<close>

text \<open>The fixed addresses of a server, the networks in alphabetical order.\<close>

definition fixed_of :: "any \<Rightarrow> string option" where
  "fixed_of addr = (case addr of
     AnyMap m \<Rightarrow> (case gm_lookup m ''addr'' of
       Some (AnyString ip) \<Rightarrow> if gm_lookup m ''OS-EXT-IPS:type'' = Some (AnyString ''fixed'') then Some ip else None
     | _ \<Rightarrow> None)
   | _ \<Rightarrow> None)"

definition addresses_of :: "any \<Rightarrow> any list" where
  "addresses_of v = (case v of AnyList as \<Rightarrow> as | _ \<Rightarrow> [])"

definition fixed_ips :: "any gomap \<Rightarrow> string list" where
  "fixed_ips addrs = List.map_filter fixed_of (concat (map (\<lambda>(k, v). addresses_of v) (sort_key fst addrs)))"

definition objects_only :: "any gomap \<Rightarrow> bool" where
  "objects_only addrs \<longleftrightarrow> (\<forall>(k, v) \<in> set addrs. list_all (\<lambda>a. case a of AnyMap _ \<Rightarrow> True | _ \<Rightarrow> False) (addresses_of v))"

lemma fixed_address_first:
  "list_all (\<lambda>a. case a of AnyMap _ \<Rightarrow> True | _ \<Rightarrow> False) as \<Longrightarrow>
    fixed_address inside as = ret (List.find inside (List.map_filter fixed_of as))"
proof (induction as)
  case (Cons a as)
  then show ?case by (auto simp: fixed_of_def map_filter_simps split: any.splits option.splits)
qed (simp add: map_filter_simps)

lemma map_filter_append: "List.map_filter f (xs @ ys) = List.map_filter f xs @ List.map_filter f ys"
  by (simp add: List.map_filter_def)

lemma find_append: "List.find P (xs @ ys) = (case List.find P xs of None \<Rightarrow> List.find P ys | Some x \<Rightarrow> Some x)"
  by (induction xs) simp_all

lemma fixed_address_in_first:
  assumes "gm_ok addrs" "objects_only addrs" "set kvs \<subseteq> set addrs"
  shows "fixed_address_in inside addrs (map fst kvs) =
    ret (List.find inside (List.map_filter fixed_of (concat (map (\<lambda>(k, v). addresses_of v) kvs))))"
  using assms(3)
proof (induction kvs)
  case (Cons kv kvs)
  obtain k v where kv: "kv = (k, v)" by fastforce
  then have "gm_lookup addrs k = Some v" and ok: "list_all (\<lambda>a. case a of AnyMap _ \<Rightarrow> True | _ \<Rightarrow> False) (addresses_of v)"
    using Cons.prems assms(1,2) by (auto simp: objects_only_def)
  with kv Cons show ?case
    by (cases v) (simp_all add: fixed_address_first addresses_of_def map_filter_append find_append split: option.splits)
qed (simp add: map_filter_simps)

lemma sort_fst: "sort (map fst (shuffle cs m)) = map fst (sort_key fst m)"
  by (rule properties_for_sort) (simp_all add: mset_map)

lemma GetServerFixedIP_first:
  assumes "gm_ok addrs" "objects_only addrs"
  shows "fst (GetServerFixedIP e addrs name cidr s) = Ret (case List.find (in_network e cidr) (fixed_ips addrs) of
    Some ip \<Rightarrow> Inr ip | None \<Rightarrow> Inl (Errorf (''failed to find Fixed IP address for server '' @ name)))"
proof -
  obtain cs w where "range_map (cl_rt e) addrs s = (Ret (shuffle cs addrs), s\<lparr>world := w\<rparr>)" using range_map_eval [of "cl_rt e" addrs s] by auto
  then show ?thesis
    by (simp add: GetServerFixedIP_def bind_apply ret_apply sort_fst fixed_address_in_first [OF assms] fixed_ips_def)
qed

section \<open>The config drive\<close>

text \<open>How many mounts are open after some calls.\<close>

fun open_mounts :: "nat \<Rightarrow> os_event list \<Rightarrow> nat" where
  "open_mounts n [] = n"
| "open_mounts n (EvOsMount _ _ _ None # evs) = open_mounts (Suc n) evs"
| "open_mounts n (EvOsUnmount _ _ # evs) = open_mounts (n - 1) evs"
| "open_mounts n (ev # evs) = open_mounts n evs"

definition balanced :: "('st, 'w) os_sys \<Rightarrow> ('st, 'w) os_sys \<Rightarrow> bool" where
  "balanced s s' \<longleftrightarrow> (\<exists>evs. trace s' = trace s @ evs \<and> (\<forall>n. open_mounts n evs = n))"

lemma open_mounts_append: "open_mounts n (xs @ ys) = open_mounts (open_mounts n xs) ys"
  by (induction n xs rule: open_mounts.induct) simp_all

interpretation balanced: step_rel balanced
proof
  show "balanced s s" for s :: "('a, 'b) os_sys" by (auto simp: balanced_def intro: exI [of _ "[]"])
  show "balanced s t \<Longrightarrow> balanced t u \<Longrightarrow> balanced s u" for s t u :: "('a, 'b) os_sys"
    unfolding balanced_def by (metis append_assoc open_mounts_append)
qed

lemma keeps_balanced_ask: "keeps balanced (ask f)"
  by (auto simp: keeps_def balanced_def ask_def split: prod.splits intro: exI [of _ "[]"])

lemma keeps_balanced_act: "(\<And>x n. open_mounts n [ev x] = n) \<Longrightarrow> keeps balanced (act f ev)"
  by (auto simp: keeps_def balanced_def act_def split: prod.splits)

lemma keeps_balanced_PathFor: "keeps balanced (PathFor c p)"
  by (simp add: PathFor_def balanced.keeps_ret balanced.keeps_panic split: list.splits)

lemmas balanced_rules = keeps_rules balanced.keeps_core keeps_balanced_ask keeps_balanced_act keeps_balanced_PathFor

lemma config_device_balanced: "keeps balanced (config_device e)"
  unfolding config_device_def by (intro balanced_rules)

lemma mount_then_unmount_balanced:
  "keeps balanced (bind (mount_config e dev t) (\<lambda>r. case r of Some err \<Rightarrow> ret (f err)
     | None \<Rightarrow> bind (ask g) (\<lambda>x. bind (act (ox_Unmount e t) (EvOsUnmount t)) (\<lambda>_. ret (h x)))))"
  by (auto simp: keeps_def balanced_def mount_config_def go_run split: prod.splits option.splits outcome.splits)

lemma getFromConfigDrive_balanced: "keeps balanced (getFromConfigDrive e mds)"
  unfolding getFromConfigDrive_def by (intro balanced_rules config_device_balanced mount_then_unmount_balanced)

lemma getMetadata_balanced: "keeps balanced (getMetadata e mds)"
  unfolding getMetadata_def get_from_def getFromMetadataService_def by (intro balanced_rules getFromConfigDrive_balanced)

text \<open>Reading the metadata always returns: the one path it needs is absolute.\<close>

lemma PathFor_abs: "PathFor c (CHR ''/'' # p) = ret ((if c then ''/rootfs/'' else ''/'') @ p)"
  by (simp add: PathFor_def)

lemma calm_config_device: "calm I (config_device e)"
  unfolding config_device_def PathFor_abs bind_ret by (intro calm_rules)

lemma calm_getMetadata: "calm I (getMetadata e mds)"
  unfolding getMetadata_def get_from_def getFromMetadataService_def getFromConfigDrive_def mount_config_def
  by (intro calm_rules calm_config_device)

lemma getLocalMetadata_released:
  assumes "fst (ox_MkdirTemp e ''configdrive'' (world s)) = Inr t"
  shows "\<exists>evs err. trace (snd (getLocalMetadata e s)) = trace s @ evs @ [EvOsRemove t err] \<and> open_mounts 0 evs = 0"
proof -
  obtain w where w: "ask (ox_MkdirTemp e ''configdrive'') s = (Ret (Inr t), s\<lparr>world := w\<rparr>)"
    using ask_eval [of "ox_MkdirTemp e ''configdrive''" s] assms by auto
  let ?get = "getMetadata e (newMetadataService (''http://169.254.169.254/'' @ MetadataLatestPath) MetadataLatestPath t
    ''configDrive, metadataService'')"
  obtain r s' where get: "?get (s\<lparr>world := w\<rparr>) = (Ret r, s')" using calmD [OF calm_getMetadata [where I = "\<lambda>_. True"]] by blast
  then have "balanced (s\<lparr>world := w\<rparr>) s'" using keepsE [OF getMetadata_balanced] by blast
  then obtain evs where "trace s' = trace s @ evs" "open_mounts 0 evs = 0" by (auto simp: balanced_def)
  then show ?thesis using w get by (auto simp: getLocalMetadata_def bind_apply ret_apply act_def split: prod.splits)
qed

section \<open>The contract of the mounter\<close>

text \<open>The provider keeps it as long as the compute API names the device of an attachment.\<close>

definition names_devices :: "'w os_env \<Rightarrow> bool" where
  "names_devices e \<longleftrightarrow> (\<forall>server vol w. fst (ox_CreateAttachment e server vol w) \<noteq> Inr [])"

lemma os_AttachVolume_sets: "names_devices e \<Longrightarrow> os_AttachVolume e v s = (Ret (None, v'), s') \<Longrightarrow> v_LocalDevice v' \<noteq> []"
  by (auto simp: names_devices_def os_AttachVolume_def go_run split: prod.splits sum.splits) (metis fst_conv)

lemma openstack_provider:
  assumes "names_devices e"
  shows "volume_provider (hosted (os_FindVolumes e)) (\<lambda>v. hosted (os_AttachVolume e v))"
proof
  fix v v' :: Volume and w w' :: "OpenstackVolumes \<times> 'a"
  assume "hosted (os_AttachVolume e v) w = (Ret (None, v'), w')"
  then show "v_LocalDevice v' \<noteq> [] \<or> v_Mountpoint v' \<noteq> []"
    by (auto simp: hosted_def split: prod.splits dest: os_AttachVolume_sets [OF assms])
next
  show "hosted (os_FindVolumes e) w \<noteq> (Panic did_not_set, w')" for w w'
    unfolding os_FindVolumes_def os_findVolumes_def by (intro spares_hosted spares_rules)
  show "hosted (os_AttachVolume e v) w \<noteq> (Panic did_not_set, w')" for v w w'
    unfolding os_AttachVolume_def by (intro spares_hosted spares_rules)
qed

section \<open>An example\<close>

definition demo_os_env :: "unit os_env" where
  "demo_os_env = \<lparr>cl_rt = const_rt 0, cl_Containerized = True, cl_Stat = (\<lambda>_ w. (Some NotExist, w)), cl_Getenv = (\<lambda>_ w. ([], w)),
     cl_Sleep = (\<lambda>_ w. ((), w)), cl_patience = 1,
     ox_Blkid = (\<lambda>_ w. (Inr ''/dev/sr0 '', w)), ox_Mount = (\<lambda>_ _ t w. (if t = ''vfat'' then None else Some (Errorf ''not iso9660''), w)),
     ox_Unmount = (\<lambda>_ w. (None, w)), ox_MkdirTemp = (\<lambda>_ w. (Inr ''/tmp/configdrive1'', w)), ox_Remove = (\<lambda>_ w. (None, w)),
     ox_Open = (\<lambda>_ w. (Inl NotExist, w)), ox_HttpGet = (\<lambda>_ w. (Inr (404, Inr []), w)), ox_Unmarshal = (\<lambda>_. Inl (Errorf [])),
     ox_gcfg = (\<lambda>_. Inl (Errorf [])), ox_NewClient = (\<lambda>_ w. (None, w)), ox_Authenticate = (\<lambda>_ w. (None, w)),
     ox_NewBlockStorage = (\<lambda>_ _ w. (None, w)), ox_NewCompute = (\<lambda>_ _ w. (None, w)), ox_GetServer = (\<lambda>_ w. (Inl NotExist, w)),
     ox_ListVolumes = (\<lambda>_ w. (Inr (Inr []), w)), ox_CreateAttachment = (\<lambda>_ _ w. (Inr ''/dev/vdb'', w)),
     ox_ReadDir = (\<lambda>_ w. (Inr [], w)), ox_WriteFile = (\<lambda>_ _ w. (None, w)), ox_UdevTrigger = (\<lambda>w. (None, w)),
     ox_ParseIP = Some, ox_Contains = (\<lambda>cidr ip. HasPrefix ip cidr)\<rparr>"

definition demo_address :: "string \<Rightarrow> any" where
  "demo_address ip = AnyMap [(''OS-EXT-IPS:type'', AnyString ''fixed''), (''addr'', AnyString ip), (''version'', AnyNumber 4)]"

definition demo_addresses :: "any gomap" where
  "demo_addresses = [(''net2'', AnyList [demo_address ''192.168.1.1'', demo_address ''192.168.2.1'']),
     (''net1'', AnyList [demo_address ''10.135.1.1''])]"

section \<open>Properties\<close>

text \<open>
  The address of a server is the first of its fixed addresses inside the network that was asked for, the networks of the server
  taken in alphabetical order: whatever order Go chooses for the map of networks, the same address is returned, and it is an error
  if and only if there is none.
\<close>

theorem fixed_ip_is_first:
  assumes "gm_ok addrs" and "objects_only addrs"
  shows "fst (GetServerFixedIP e addrs name cidr s) = Ret (case List.find (in_network e cidr) (fixed_ips addrs) of
    Some ip \<Rightarrow> Inr ip | None \<Rightarrow> Inl (Errorf (''failed to find Fixed IP address for server '' @ name)))"
  using assms by (rule GetServerFixedIP_first)

theorem fixed_ip_is_first_witness:
  "fst (GetServerFixedIP demo_os_env demo_addresses ''test'' None \<lparr>self = (), world = (), trace = []\<rparr>) = Ret (Inr ''10.135.1.1'') \<and>
   fst (GetServerFixedIP demo_os_env demo_addresses ''test'' (Some ''192.168.2.'') \<lparr>self = (), world = (), trace = []\<rparr>) = Ret (Inr ''192.168.2.1'')"
proof -
  have "gm_ok demo_addresses" "objects_only demo_addresses"
    by (simp_all add: demo_addresses_def objects_only_def addresses_of_def demo_address_def)
  note first = fixed_ip_is_first [OF this]
  have "fixed_ips demo_addresses = [''10.135.1.1'', ''192.168.1.1'', ''192.168.2.1'']"
    by (simp add: fixed_ips_def demo_addresses_def addresses_of_def demo_address_def fixed_of_def map_filter_simps)
  then show ?thesis by (simp add: first in_network_def demo_os_env_def HasPrefix_def)
qed

text \<open>
  The config drive is never left behind: when the metadata of the instance has been read, or could not be read for whatever
  reason, every mount that succeeded has been undone before the temporary directory is removed, which is the last thing done.
\<close>

theorem config_drive_is_released:
  assumes "fst (ox_MkdirTemp e ''configdrive'' (world s)) = Inr t"
  shows "\<exists>evs err. trace (snd (getLocalMetadata e s)) = trace s @ evs @ [EvOsRemove t err] \<and> open_mounts 0 evs = 0"
  using assms by (rule getLocalMetadata_released)

theorem config_drive_is_released_witness:
  "\<exists>evs err. trace (snd (getLocalMetadata demo_os_env \<lparr>self = (), world = (), trace = []\<rparr>)) =
      evs @ [EvOsRemove ''/tmp/configdrive1'' err] \<and> open_mounts 0 evs = 0"
  using config_drive_is_released [of demo_os_env "\<lparr>self = (), world = (), trace = []\<rparr>" "''/tmp/configdrive1''"]
  by (simp add: demo_os_env_def)

end
