(* ===== verification/Dump.thy ===== *)
theory Dump
  imports Server_Safety
begin

text \<open>
  The program \<^verbatim>\<open>etcd-dump\<close> (\<^verbatim>\<open>cmd/etcd-dump/main.go\<close>, \<^verbatim>\<open>pkg/etcd/dump\<close>): it runs an etcd from a backup and copies its keys
  to a sink, either lines on the standard output or a compressed archive. The two sinks implement \<^verbatim>\<open>etcdclient.NodeSink\<close>, the interface
  that \<^verbatim>\<open>CopyTo\<close> writes to; it is the locale \<open>node_sink\<close>. What the library's archive writer has accepted is part of the state of the sink.
\<close>

section \<open>The sinks\<close>

datatype typeflag = TypeReg | TypeDir

record tar_header =
  th_Name :: string
  th_Mode :: int
  th_Typeflag :: typeflag
  th_Size :: int

datatype tar_entry = TarHeader tar_header | TarData string

record TarDumpSink =
  ts_tw :: "tar_entry list"
  ts_doneDirs :: "bool gomap"

record dumper = TarDumpSink +
  ds_out :: string

text \<open>\<open>tx_depth\<close> is how many nested calls the stack has room for.\<close>

record 'w tar_env =
  tx_Create :: "string \<Rightarrow> 'w \<Rightarrow> go_error option \<times> 'w"
  tx_WriteHeader :: "tar_header \<Rightarrow> 'w \<Rightarrow> go_error option \<times> 'w"
  tx_Write :: "string \<Rightarrow> 'w \<Rightarrow> go_error option \<times> 'w"
  tx_CloseTar :: "'w \<Rightarrow> go_error option \<times> 'w"
  tx_CloseGzip :: "'w \<Rightarrow> go_error option \<times> 'w"
  tx_CloseFile :: "'w \<Rightarrow> go_error option \<times> 'w"
  tx_Stdout :: "string \<Rightarrow> 'w \<Rightarrow> go_error option \<times> 'w"
  tx_depth :: nat

type_synonym 'w dump = "(dumper, 'w, node_event) sys"

definition NewTarDumpSink :: "'w tar_env \<Rightarrow> string \<Rightarrow> ('w dump, go_error option) go" where
  "NewTarDumpSink e p =
     bind (ask (tx_Create e p)) (\<lambda>r. case r of
       Some err \<Rightarrow> ret (Some (Wrap ''unable to create file'' err))
     | None \<Rightarrow> bind (upd_self (\<lambda>s. s\<lparr>ts_tw := [], ts_doneDirs := []\<rparr>)) (\<lambda>_. ret None))"

definition tar_WriteHeader :: "'w tar_env \<Rightarrow> tar_header \<Rightarrow> ('w dump, go_error option) go" where
  "tar_WriteHeader e hdr =
     bind (ask (tx_WriteHeader e hdr)) (\<lambda>r. case r of
       Some err \<Rightarrow> ret (Some (Wrap ''error writing tar header'' err))
     | None \<Rightarrow> bind (upd_self (\<lambda>s. s\<lparr>ts_tw := ts_tw s @ [TarHeader hdr]\<rparr>)) (\<lambda>_. ret None))"

definition tar_Write :: "'w tar_env \<Rightarrow> string \<Rightarrow> ('w dump, go_error option) go" where
  "tar_Write e data =
     bind (ask (tx_Write e data)) (\<lambda>r. case r of
       Some err \<Rightarrow> ret (Some (Wrap ''error writing tar data'' err))
     | None \<Rightarrow> bind (upd_self (\<lambda>s. s\<lparr>ts_tw := ts_tw s @ [TarData data]\<rparr>)) (\<lambda>_. ret None))"

definition dir_header :: "string \<Rightarrow> tar_header" where
  "dir_header p = \<lparr>th_Name = TrimPrefix (if HasSuffix p ''/'' then p else p @ ''/'') ''/'', th_Mode = 493, th_Typeflag = TypeDir, th_Size = 0\<rparr>"

definition file_header :: "string \<Rightarrow> string \<Rightarrow> tar_header" where
  "file_header name v = \<lparr>th_Name = TrimPrefix name ''/'', th_Mode = 420, th_Typeflag = TypeReg, th_Size = int (length v)\<rparr>"

text \<open>The recursion of \<^verbatim>\<open>ensureDirs\<close>, with the room on the stack; \<^verbatim>\<open>path.Dir\<close> is \<^verbatim>\<open>filepath.Dir\<close> on Unix.\<close>

fun ensureDirs :: "nat \<Rightarrow> 'w tar_env \<Rightarrow> string \<Rightarrow> ('w dump, go_error option) go" where
  "ensureDirs 0 e p = panic ''stack overflow''"
| "ensureDirs (Suc n) e p =
     (if p = [] \<or> p = ''/'' then ret None
      else bind (get_self ts_doneDirs) (\<lambda>doneDirs.
        if gm_lookup doneDirs p = Some True then ret None
        else bind (ensureDirs n e (filepath_Dir p)) (\<lambda>r. case r of
          Some err \<Rightarrow> ret (Some err)
        | None \<Rightarrow>
          bind (tar_WriteHeader e (dir_header p)) (\<lambda>r. case r of
            Some err \<Rightarrow> ret (Some err)
          | None \<Rightarrow> bind (upd_self (\<lambda>s. s\<lparr>ts_doneDirs := gm_update p True (ts_doneDirs s)\<rparr>)) (\<lambda>_. ret None)))))"

definition tar_Put :: "'w tar_env \<Rightarrow> string \<Rightarrow> string \<Rightarrow> ('w dump, go_error option) go" where
  "tar_Put e key v =
     bind (ensureDirs (tx_depth e) e (filepath_Dir key)) (\<lambda>r. case r of
       Some err \<Rightarrow> ret (Some err)
     | None \<Rightarrow>
       bind (tar_WriteHeader e (file_header key v)) (\<lambda>r. case r of
         Some err \<Rightarrow> ret (Some err)
       | None \<Rightarrow> if v \<noteq> [] then tar_Write e v else ret None))"

text \<open>All three are closed; the last error is reported.\<close>

definition tar_Close :: "'w tar_env \<Rightarrow> ('w dump, go_error option) go" where
  "tar_Close e =
     bind (ask (tx_CloseTar e)) (\<lambda>e1.
     bind (ask (tx_CloseGzip e)) (\<lambda>e2.
     bind (ask (tx_CloseFile e)) (\<lambda>e3.
     ret (case e3 of Some err \<Rightarrow> Some (Wrap ''error closing file'' err)
       | None \<Rightarrow> (case e2 of Some err \<Rightarrow> Some (Wrap ''error closing gzip'' err)
         | None \<Rightarrow> map_option (Wrap ''error closing tar'') e1)))))"

definition stream_Put :: "'w tar_env \<Rightarrow> string \<Rightarrow> string \<Rightarrow> ('w dump, go_error option) go" where
  "stream_Put e key v =
     (if key = ''/'' then ret None
      else let line = TrimPrefix key ''/'' @ '' => '' @ v @ [CHR 10] in
        bind (ask (tx_Stdout e line)) (\<lambda>r. case r of
          Some err \<Rightarrow> ret (Some (Wrap ''error writing to output'' err))
        | None \<Rightarrow> bind (upd_self (\<lambda>s. s\<lparr>ds_out := ds_out s @ line\<rparr>)) (\<lambda>_. ret None)))"

section \<open>The program\<close>

definition sink_Put :: "'w tar_env \<Rightarrow> string \<Rightarrow> string \<Rightarrow> string \<Rightarrow> ('w dump, go_error option) go" where
  "sink_Put t out = (if out = [] then stream_Put t else tar_Put t)"

definition sink_Close :: "'w tar_env \<Rightarrow> string \<Rightarrow> ('w dump, go_error option) go" where
  "sink_Close t out = (if out = [] then ret None else tar_Close t)"

definition new_sink :: "'w tar_env \<Rightarrow> string \<Rightarrow> ('w dump, go_error option) go" where
  "new_sink t out = (if out = [] then ret None
     else bind (NewTarDumpSink t out) (\<lambda>r. ret (map_option (Wrap ''unable to create file'') r)))"

text \<open>With a client for the process, which is closed in the end.\<close>

definition dump_keys :: "'w server_env \<Rightarrow> 'w tar_env \<Rightarrow> string \<Rightarrow> etcdProcess \<Rightarrow> EtcdClient \<Rightarrow> ('w dump, go_error option) go" where
  "dump_keys e t out p sourceClient =
     bind (bind (await_source 60 e p sourceClient) (\<lambda>r. case r of
       Some _ \<Rightarrow> ret (Some (Errorf ''etcd process exited''))
     | None \<Rightarrow>
       bind (CopyTo (sx_copyFuel e) (px_api (sx_proc e)) sourceClient (sink_Put t out)) (\<lambda>r. case r of
         None \<Rightarrow> panic ''still copying keys''
       | Some (_, Some err) \<Rightarrow> ret (Some (Wrap ''error copying keys to sink'' err))
       | Some (_, None) \<Rightarrow> sink_Close t out))) (\<lambda>res.
     bind (ask (api_Close (px_api (sx_proc e)) (cl_handle sourceClient))) (\<lambda>_. ret res))"

text \<open>With a running process, which is stopped in the end.\<close>

definition dump_process :: "'w server_env \<Rightarrow> 'w tar_env \<Rightarrow> string \<Rightarrow> etcdProcess \<Rightarrow> ('w dump, go_error option) go" where
  "dump_process e t out p =
     bind (bind (new_sink t out) (\<lambda>r. case r of
       Some err \<Rightarrow> ret (Some err)
     | None \<Rightarrow>
       bind (process_NewClient (sx_proc e) p) (\<lambda>r. case r of
         Inl err \<Rightarrow> ret (Some (Wrap ''error building etcd client'' err))
       | Inr sourceClient \<Rightarrow> dump_keys e t out p sourceClient))) (\<lambda>res.
     bind (process_Stop (sx_proc e) p) (\<lambda>_. ret res))"

definition runDump :: "'w server_env \<Rightarrow> 'w tar_env \<Rightarrow> string \<Rightarrow> string \<Rightarrow> ('w dump, go_error option) go" where
  "runDump e t file out = (let backupFile = TrimSuffix file ''/'' in
     if CHR ''/'' \<notin> set backupFile then ret (Some (Errorf ''expected slash''))
     else let backupStoreBase = rev (tl (dropWhile (\<lambda>c. c \<noteq> CHR ''/'') (rev backupFile)));
              backupName = rev (takeWhile (\<lambda>c. c \<noteq> CHR ''/'') (rev backupFile)) in
     case NewStore (sx_vfs e) backupStoreBase of
       Inl err \<Rightarrow> ret (Some err)
     | Inr backupStore \<Rightarrow>
       bind (time_now (sx_rt e)) (\<lambda>now.
       let tempDir = filepath_Join [sx_TempDir e, ''restore-etcd-'' @ Itoa (nat (time_UnixNano now))] in
       bind (act (sx_MkdirAll e tempDir) (EvMkdir tempDir)) (\<lambda>r. case r of
         Some err \<Rightarrow> ret (Some (Wrap ''error creating tempdir'' err))
       | None \<Rightarrow>
         bind (bind (RunEtcdFromBackup e backupStore backupName tempDir) (\<lambda>r. case r of
           Inl err \<Rightarrow> ret (Some err)
         | Inr p \<Rightarrow> dump_process e t out p)) (\<lambda>res.
         bind (act (sx_RemoveAll e tempDir) (EvRemoveAll tempDir)) (\<lambda>_. ret res)))))"

definition dump_main :: "'w server_env \<Rightarrow> 'w tar_env \<Rightarrow> string \<Rightarrow> string \<Rightarrow> ('w dump, nat) go" where
  "dump_main e t datadir out =
     (if datadir = [] then ret 1 else bind (runDump e t datadir out) (\<lambda>r. ret (case r of Some _ \<Rightarrow> 1 | None \<Rightarrow> 0)))"

section \<open>Paths\<close>

definition plain :: "string list \<Rightarrow> bool" where
  "plain cs \<longleftrightarrow> dot_free cs \<and> (\<forall>c \<in> set cs. CHR ''/'' \<notin> set c)"

definition abs_path :: "string list \<Rightarrow> string" where
  "abs_path cs = CHR ''/'' # join ''/'' cs"

definition up_to_slash :: "string \<Rightarrow> string" where
  "up_to_slash p = rev (dropWhile (\<lambda>c. c \<noteq> CHR ''/'') (rev p))"

lemma up_to_slash_prefix: "\<exists>q. p = up_to_slash p @ q \<and> CHR ''/'' \<notin> set q"
proof -
  have "rev p = takeWhile (\<lambda>c. c \<noteq> CHR ''/'') (rev p) @ dropWhile (\<lambda>c. c \<noteq> CHR ''/'') (rev p)" by simp
  then have "p = up_to_slash p @ rev (takeWhile (\<lambda>c. c \<noteq> CHR ''/'') (rev p))"
    unfolding up_to_slash_def by (metis rev_append rev_rev_ident)
  moreover have "CHR ''/'' \<notin> set (rev (takeWhile (\<lambda>c. c \<noteq> CHR ''/'') (rev p)))" using set_takeWhileD by fastforce
  ultimately show ?thesis by blast
qed

lemma up_to_slash_eq: "CHR ''/'' \<notin> set c \<Longrightarrow> up_to_slash (q @ CHR ''/'' # c) = q @ ''/''"
  by (simp add: up_to_slash_def dropWhile_append)

lemma Dir_is_Clean: "filepath_Dir p = filepath_Clean (up_to_slash p)"
  by (simp add: filepath_Dir_def up_to_slash_def)

lemma rooted_up_to_slash: "is_rooted (up_to_slash p) = is_rooted p"
proof -
  obtain q where q: "p = up_to_slash p @ q" "CHR ''/'' \<notin> set q" using up_to_slash_prefix by blast
  show ?thesis
  proof (cases "up_to_slash p")
    case Nil
    with q have "p = q" by simp
    with q(2) Nil show ?thesis by (auto simp: is_rooted_iff)
  next
    case (Cons a l)
    with q have "p = a # l @ q" by simp
    with Cons show ?thesis by (simp add: is_rooted_iff)
  qed
qed

lemma length_clean_comps: "length (clean_comps r st cs) \<le> length st + length cs"
  by (induction r st cs rule: clean_comps.induct) (auto split: list.splits)

lemma length_split_on: "length (split_on c s) \<le> Suc (length s)"
  by (induction s) (auto split: list.splits)

lemma Dir_rooted:
  assumes "is_rooted k"
  shows "\<exists>cs. plain cs \<and> filepath_Dir k = abs_path cs \<and> length cs \<le> Suc (length k)"
proof -
  have "length (up_to_slash k) \<le> length k" using length_dropWhile_le [of _ "rev k"] by (simp add: up_to_slash_def)
  then have len: "length (path_comps (up_to_slash k)) \<le> Suc (length k)"
    using length_clean_comps [of "is_rooted (up_to_slash k)" "[]" "split_on (CHR ''/'') (up_to_slash k)"] length_split_on [of "CHR ''/''" "up_to_slash k"]
    by (simp add: path_comps_def)
  have r: "is_rooted (up_to_slash k)" using assms by (simp add: rooted_up_to_slash)
  then have "plain (path_comps (up_to_slash k))"
    using rooted_dot_free path_comps_plain by (auto simp: plain_def)
  with r len show ?thesis by (auto simp: Dir_is_Clean rooted_Clean abs_path_def)
qed

lemma plain_append: "plain (xs @ ys) \<longleftrightarrow> plain xs \<and> plain ys"
  by (auto simp: plain_def dot_free_def)

lemma plain_comps: "plain cs \<Longrightarrow> path_comps (CHR ''/'' # (if cs = [] then [] else join ''/'' cs @ ''/'')) = cs"
proof (cases "cs = []")
  case False
  assume "plain cs"
  then have "split_on (CHR ''/'') (join ''/'' (cs @ [[]])) = cs @ [[]]" by (intro split_on_join) (auto simp: plain_def)
  moreover have "join ''/'' (cs @ [[]]) = join ''/'' cs @ ''/''" using False by (simp add: join_append)
  moreover have "clean_comps True st (cs @ [[]]) = rev st @ cs" for st
    using \<open>plain cs\<close> by (induction cs arbitrary: st) (auto simp: plain_def dot_free_def)
  ultimately show ?thesis using False by (simp add: path_comps_def is_rooted_def HasPrefix_def)
qed (simp add: path_comps_def is_rooted_def HasPrefix_def)

lemma Dir_abs_path:
  assumes "plain (cs @ [c])"
  shows "filepath_Dir (abs_path (cs @ [c])) = abs_path cs"
proof -
  let ?q = "CHR ''/'' # (if cs = [] then [] else join ''/'' cs @ ''/'')"
  have "up_to_slash (abs_path (cs @ [c])) = ?q"
    using up_to_slash_eq [of c "[]"] up_to_slash_eq [of c "CHR ''/'' # join ''/'' cs"] assms
    by (auto simp: abs_path_def join_append plain_def)
  moreover have "path_comps ?q = cs" using plain_comps assms by (simp add: plain_append)
  moreover have "is_rooted ?q" by (simp add: is_rooted_iff)
  ultimately show ?thesis by (simp add: Dir_is_Clean rooted_Clean abs_path_def)
qed

lemma Clean_not_empty: "filepath_Clean p \<noteq> []"
proof -
  have "join ''/'' (path_comps p) \<noteq> []" if "path_comps p \<noteq> []"
    using path_comps_plain [of "hd (path_comps p)" p] that by (cases "path_comps p") (auto simp: join_Cons)
  then show ?thesis by (auto simp: filepath_Clean_def)
qed

lemma Dir_relative: "\<not> is_rooted p \<Longrightarrow> \<not> is_rooted (filepath_Dir p) \<and> filepath_Dir p \<noteq> []"
  by (simp add: Dir_is_Clean is_rooted_Clean rooted_up_to_slash Clean_not_empty)

lemma abs_path_rooted [simp]: "is_rooted (abs_path cs)"
  by (simp add: abs_path_def is_rooted_iff)

lemma abs_path_inj: "plain cs \<Longrightarrow> plain ds \<Longrightarrow> abs_path cs = abs_path ds \<Longrightarrow> cs = ds"
  using path_comps_rooted_join by (metis abs_path_def plain_def)

section \<open>The archive\<close>

definition is_dir :: "tar_header \<Rightarrow> bool" where
  "is_dir h \<longleftrightarrow> th_Typeflag h = TypeDir"

fun dir_names :: "tar_entry list \<Rightarrow> string list" where
  "dir_names [] = []"
| "dir_names (TarData _ # es) = dir_names es"
| "dir_names (TarHeader h # es) = (if is_dir h then th_Name h # dir_names es else dir_names es)"

text \<open>The directory an entry is in.\<close>

definition parent_dir :: "tar_header \<Rightarrow> string" where
  "parent_dir h = filepath_Dir (CHR ''/'' # (if is_dir h then butlast (th_Name h) else th_Name h))"

text \<open>No directory twice, and every entry after the directory it is in; \<open>seen\<close> are the directories before.\<close>

fun ordered :: "string list \<Rightarrow> tar_entry list \<Rightarrow> bool" where
  "ordered seen [] = True"
| "ordered seen (TarData _ # es) = ordered seen es"
| "ordered seen (TarHeader h # es) =
     ((parent_dir h = ''/'' \<or> th_Name (dir_header (parent_dir h)) \<in> set seen) \<and> (is_dir h \<longrightarrow> th_Name h \<notin> set seen) \<and>
      ordered (if is_dir h then th_Name h # seen else seen) es)"

lemma dir_names_append [simp]: "dir_names (xs @ ys) = dir_names xs @ dir_names ys"
  by (induction xs rule: dir_names.induct) auto

lemma ordered_cong: "set s = set t \<Longrightarrow> ordered s es = ordered t es"
proof (induction s es arbitrary: t rule: ordered.induct)
  case (3 seen h es)
  show ?case using "3.IH" [of "if is_dir h then th_Name h # t else t"] "3.prems" by auto
qed auto

lemma ordered_append: "ordered s (xs @ ys) \<longleftrightarrow> ordered s xs \<and> ordered (s @ dir_names xs) ys"
proof (induction s xs rule: ordered.induct)
  case (3 seen h es)
  have "ordered (th_Name h # seen @ dir_names es) ys = ordered (seen @ th_Name h # dir_names es) ys" by (rule ordered_cong) auto
  with 3 show ?case by auto
qed simp_all

definition tar_name :: "string list \<Rightarrow> string" where
  "tar_name cs = join ''/'' cs @ ''/''"

lemma join_last:
  assumes "plain cs" and "cs \<noteq> []"
  shows "join ''/'' cs \<noteq> [] \<and> last (join ''/'' cs) \<noteq> CHR ''/''"
  using assms
proof (induction cs)
  case (Cons c cs)
  have "c \<noteq> []" "CHR ''/'' \<notin> set c" using Cons.prems by (auto simp: plain_def dot_free_def)
  then have "last c \<noteq> CHR ''/''" using last_in_set by metis
  moreover have "plain cs" using Cons.prems plain_append [of "[c]" cs] by simp
  ultimately show ?case using Cons.IH \<open>c \<noteq> []\<close> by (auto simp: join_Cons)
qed simp

lemma dir_header_abs:
  assumes "plain cs" and "cs \<noteq> []"
  shows "th_Name (dir_header (abs_path cs)) = tar_name cs"
proof -
  obtain j x where j: "join ''/'' cs = j @ [x]" "x \<noteq> CHR ''/''" using join_last [OF assms] by (metis append_butlast_last_id)
  then have "\<not> HasSuffix (abs_path cs) ''/''" by (simp add: abs_path_def HasSuffix_def HasPrefix_def)
  then show ?thesis by (simp add: dir_header_def tar_name_def abs_path_def TrimPrefix_def HasPrefix_def)
qed

lemma tar_name_inj: "plain cs \<Longrightarrow> plain ds \<Longrightarrow> tar_name cs = tar_name ds \<Longrightarrow> cs = ds"
  by (rule abs_path_inj) (auto simp: tar_name_def abs_path_def)

lemma parent_of_dir:
  assumes "plain (cs @ [c])"
  shows "parent_dir (dir_header (abs_path (cs @ [c]))) = abs_path cs"
proof -
  have "th_Name (dir_header (abs_path (cs @ [c]))) = tar_name (cs @ [c])" using assms by (rule dir_header_abs) simp
  moreover have "is_dir (dir_header p)" for p by (simp add: is_dir_def dir_header_def)
  ultimately have "parent_dir (dir_header (abs_path (cs @ [c]))) = filepath_Dir (abs_path (cs @ [c]))"
    by (simp add: parent_dir_def tar_name_def abs_path_def)
  then show ?thesis using Dir_abs_path [OF assms] by simp
qed

text \<open>What holds of the sink between two calls.\<close>

definition archive_ok :: "dumper \<Rightarrow> bool" where
  "archive_ok m \<longleftrightarrow> ordered [] (ts_tw m) \<and>
     (\<forall>p b. gm_lookup (ts_doneDirs m) p = Some b \<longrightarrow> b \<and> (\<exists>cs. plain cs \<and> cs \<noteq> [] \<and> p = abs_path cs \<and> tar_name cs \<in> set (dir_names (ts_tw m)))) \<and>
     (\<forall>x \<in> set (dir_names (ts_tw m)). \<exists>cs. plain cs \<and> cs \<noteq> [] \<and> x = tar_name cs \<and> gm_lookup (ts_doneDirs m) (abs_path cs) = Some True)"

definition covered :: "string list \<Rightarrow> dumper \<Rightarrow> bool" where
  "covered cs m \<longleftrightarrow> cs = [] \<or> gm_lookup (ts_doneDirs m) (abs_path cs) = Some True"

lemma covered_named: "archive_ok m \<Longrightarrow> plain cs \<Longrightarrow> covered cs m \<Longrightarrow> cs \<noteq> [] \<Longrightarrow> tar_name cs \<in> set (dir_names (ts_tw m))"
  unfolding archive_ok_def covered_def using abs_path_inj by metis

lemma parent_seen:
  assumes "archive_ok m" and "plain cs" and "covered cs m"
  shows "abs_path cs = ''/'' \<or> th_Name (dir_header (abs_path cs)) \<in> set (dir_names (ts_tw m))"
  using covered_named [OF assms] dir_header_abs [OF assms(2)] by (cases "cs = []") (auto simp: abs_path_def)

lemma new_dir:
  assumes "archive_ok m" and "plain (cs @ [c])" and "covered cs m" and "gm_lookup (ts_doneDirs m) (abs_path (cs @ [c])) \<noteq> Some True"
  shows "archive_ok (m\<lparr>ts_tw := ts_tw m @ [TarHeader (dir_header (abs_path (cs @ [c])))],
    ts_doneDirs := gm_update (abs_path (cs @ [c])) True (ts_doneDirs m)\<rparr>)"
proof -
  let ?ds = "cs @ [c]"
  have name: "th_Name (dir_header (abs_path ?ds)) = tar_name ?ds" using assms(2) by (rule dir_header_abs) simp
  have dir: "is_dir (dir_header (abs_path ?ds))" by (simp add: is_dir_def dir_header_def)
  have fresh: "tar_name ?ds \<notin> set (dir_names (ts_tw m))"
    using assms(1,2,4) tar_name_inj unfolding archive_ok_def by metis
  have "plain cs" using assms(2) by (simp add: plain_append)
  then have "ordered (dir_names (ts_tw m)) [TarHeader (dir_header (abs_path ?ds))]"
    using parent_seen [OF assms(1) _ assms(3)] fresh name parent_of_dir [OF assms(2)] by simp
  then show ?thesis
    using assms(1,2) name dir unfolding archive_ok_def
    by (auto simp: ordered_append)
qed

section \<open>Directories come before what is in them\<close>

abbreviation sink_ok :: "'w dump \<Rightarrow> bool" where "sink_ok s \<equiv> archive_ok (self s)"

lemma write_dir:
  assumes "plain (cs @ [c])"
  shows "hoare (\<lambda>s. sink_ok s \<and> covered cs (self s) \<and> gm_lookup (ts_doneDirs (self s)) (abs_path (cs @ [c])) \<noteq> Some True)
    (bind (tar_WriteHeader e (dir_header (abs_path (cs @ [c])))) (\<lambda>r. case r of
       Some err \<Rightarrow> ret (Some err)
     | None \<Rightarrow> bind (upd_self (\<lambda>s. s\<lparr>ts_doneDirs := gm_update (abs_path (cs @ [c])) True (ts_doneDirs s)\<rparr>)) (\<lambda>_. ret None)))
    (\<lambda>r s. sink_ok s \<and> (r = None \<longrightarrow> covered (cs @ [c]) (self s))) sink_ok"
  using new_dir [OF _ assms]
  by (auto simp: hoare_def tar_WriteHeader_def go_run covered_def split: prod.splits option.splits)

text \<open>Going up does not make a directory done that is below.\<close>

lemma ensureDirs_not_below:
  "keeps (\<lambda>s s'. \<forall>q. length (abs_path cs) < length q \<longrightarrow> gm_lookup (ts_doneDirs (self s')) q = gm_lookup (ts_doneDirs (self s)) q)
     (ensureDirs n e (abs_path cs))" if "plain cs"
  using that
proof (induction n arbitrary: cs)
  case 0
  then show ?case by (simp add: keeps_def panic_apply)
next
  case (Suc n)
  show ?case
  proof (cases cs rule: rev_cases)
    case Nil
    then show ?thesis by (simp add: keeps_def abs_path_def ret_apply)
  next
    case (snoc ds d)
    then have ds: "plain ds" and dir: "filepath_Dir (abs_path cs) = abs_path ds" using Suc.prems Dir_abs_path by (auto simp: plain_append)
    have len: "length (abs_path ds) < length (abs_path cs)"
      using Suc.prems snoc by (cases "ds = []") (auto simp: abs_path_def join_append plain_def dot_free_def)
    show ?thesis
    proof (rule keepsI)
      fix s :: "'a dump"
      have "\<forall>q. length (abs_path ds) < length q \<longrightarrow>
          gm_lookup (ts_doneDirs (self (snd (ensureDirs n e (abs_path ds) s)))) q = gm_lookup (ts_doneDirs (self s)) q"
        using keepsD [OF Suc.IH [OF ds]] .
      then show "\<forall>q. length (abs_path cs) < length q \<longrightarrow>
          gm_lookup (ts_doneDirs (self (snd (ensureDirs (Suc n) e (abs_path cs) s)))) q = gm_lookup (ts_doneDirs (self s)) q"
        using len by (auto simp: dir tar_WriteHeader_def go_run split: prod.splits option.splits outcome.splits)
    qed
  qed
qed

lemma ensureDirs_ok:
  assumes "plain cs"
  shows "hoare sink_ok (ensureDirs n e (abs_path cs)) (\<lambda>r s. sink_ok s \<and> (r = None \<longrightarrow> covered cs (self s))) sink_ok"
  using assms
proof (induction n arbitrary: cs)
  case 0
  show ?case by (simp add: hoare_panic)
next
  case (Suc n)
  show ?case
  proof (cases cs rule: rev_cases)
    case Nil
    then show ?thesis by (simp add: abs_path_def covered_def hoare_ret)
  next
    case (snoc ds d)
    then have ds: "plain ds" and dir: "filepath_Dir (abs_path cs) = abs_path ds" using Suc.prems Dir_abs_path by (auto simp: plain_append)
    have len: "length (abs_path ds) < length (abs_path cs)"
      using Suc.prems snoc by (cases "ds = []") (auto simp: abs_path_def join_append plain_def dot_free_def)
    have ne: "abs_path cs \<noteq> [] \<and> abs_path cs \<noteq> ''/''" using len by (auto simp: abs_path_def)
    have up: "hoare (\<lambda>s. sink_ok s \<and> gm_lookup (ts_doneDirs (self s)) (abs_path cs) \<noteq> Some True) (ensureDirs n e (abs_path ds))
        (\<lambda>r s. sink_ok s \<and> (r = None \<longrightarrow> covered ds (self s)) \<and> gm_lookup (ts_doneDirs (self s)) (abs_path cs) \<noteq> Some True) sink_ok"
      using Suc.IH [OF ds] keepsE [OF ensureDirs_not_below [OF ds]] len unfolding hoare_def by (fastforce split: outcome.splits)
    have rest: "hoare (\<lambda>s. sink_ok s \<and> gm_lookup (ts_doneDirs (self s)) (abs_path cs) \<noteq> Some True)
        (bind (ensureDirs n e (abs_path ds)) (\<lambda>r. case r of
          Some err \<Rightarrow> ret (Some err)
        | None \<Rightarrow>
          bind (tar_WriteHeader e (dir_header (abs_path cs))) (\<lambda>r. case r of
            Some err \<Rightarrow> ret (Some err)
          | None \<Rightarrow> bind (upd_self (\<lambda>s. s\<lparr>ts_doneDirs := gm_update (abs_path cs) True (ts_doneDirs s)\<rparr>)) (\<lambda>_. ret None))))
        (\<lambda>r s. sink_ok s \<and> (r = None \<longrightarrow> covered cs (self s))) sink_ok"
      by (rule hoare_bind [OF up])
        (auto simp: snoc split: option.splits intro!: hoare_ret write_dir [OF Suc.prems [unfolded snoc]])
    show ?thesis
      unfolding ensureDirs.simps dir using ne
      by simp (rule hoare_read, auto simp: covered_def intro: hoare_ret hoare_at [OF rest [unfolded covered_def]])
  qed
qed

lemma ensureDirs_relative:
  assumes "\<not> is_rooted p" and "p \<noteq> []" and "sink_ok s"
  shows "ensureDirs n e p s = (Panic ''stack overflow'', s)"
  using assms
proof (induction n arbitrary: p)
  case (Suc n)
  have "gm_lookup (ts_doneDirs (self s)) p = None"
    using Suc.prems(1,3) unfolding archive_ok_def by (metis abs_path_rooted option.exhaust)
  moreover have "p \<noteq> ''/''" using Suc.prems(1) by (auto simp: is_rooted_iff)
  ultimately show ?case using Suc.IH [of "filepath_Dir p"] Dir_relative [OF Suc.prems(1)] Suc.prems by (simp add: go_run)
qed (simp add: panic_apply)

lemma ensureDirs_returns:
  assumes "plain cs" and "length cs < n"
  shows "\<exists>r s'. ensureDirs n e (abs_path cs) s = (Ret r, s')"
  using assms
proof (induction n arbitrary: cs)
  case (Suc n)
  show ?case
  proof (cases cs rule: rev_cases)
    case Nil
    then show ?thesis by (simp add: abs_path_def ret_apply)
  next
    case (snoc ds d)
    then have dir: "filepath_Dir (abs_path cs) = abs_path ds" using Suc.prems Dir_abs_path by simp
    obtain r s' where "ensureDirs n e (abs_path ds) s = (Ret r, s')" using Suc.IH [of ds] Suc.prems snoc by (auto simp: plain_append)
    then show ?thesis by (auto simp: dir go_run tar_WriteHeader_def split: option.splits prod.splits)
  qed
qed simp

lemma new_file:
  assumes "archive_ok m" and "is_rooted key" and "filepath_Dir key = abs_path cs" and "plain cs" and "covered cs m"
  shows "archive_ok (m\<lparr>ts_tw := ts_tw m @ [TarHeader (file_header key v)]\<rparr>)"
proof -
  have reg: "\<not> is_dir (file_header key v)" by (simp add: is_dir_def file_header_def)
  obtain k where k: "key = CHR ''/'' # k" using assms(2) by (auto simp: is_rooted_iff)
  have "parent_dir (file_header key v) = abs_path cs"
    using reg assms(3) by (simp add: parent_dir_def file_header_def k TrimPrefix_def HasPrefix_def)
  then have "ordered (dir_names (ts_tw m)) [TarHeader (file_header key v)]" using parent_seen [OF assms(1,4,5)] reg by simp
  then show ?thesis using assms(1) reg unfolding archive_ok_def by (auto simp: ordered_append)
qed

lemma new_data: "archive_ok m \<Longrightarrow> archive_ok (m\<lparr>ts_tw := ts_tw m @ [TarData d]\<rparr>)"
  by (auto simp: archive_ok_def ordered_append)

lemma tar_Put_relative: "\<not> is_rooted key \<Longrightarrow> sink_ok s \<Longrightarrow> tar_Put e key v s = (Panic ''stack overflow'', s)"
  unfolding tar_Put_def bind_apply using ensureDirs_relative [of "filepath_Dir key" s "tx_depth e" e] Dir_relative [of key] by simp

lemma tar_Put_ok: "hoare sink_ok (tar_Put e key v) (\<lambda>_. sink_ok) sink_ok"
proof (cases "is_rooted key")
  case True
  then obtain cs where cs: "plain cs" "filepath_Dir key = abs_path cs" using Dir_rooted by blast
  have "hoare (\<lambda>s. sink_ok s \<and> covered cs (self s)) (bind (tar_WriteHeader e (file_header key v)) (\<lambda>r. case r of
       Some err \<Rightarrow> ret (Some err) | None \<Rightarrow> if v \<noteq> [] then tar_Write e v else ret None)) (\<lambda>_. sink_ok) sink_ok"
    using new_file [OF _ True cs(2,1)] new_data [OF new_file [OF _ True cs(2,1)], of _ v]
    by (auto simp: hoare_def tar_WriteHeader_def tar_Write_def go_run split: prod.splits option.splits)
  then show ?thesis
    unfolding tar_Put_def cs(2)
    by (intro hoare_bind [OF ensureDirs_ok [OF cs(1)]]) (auto split: option.splits intro!: hoare_ret elim: hoare_conseq)
next
  case False
  then show ?thesis by (simp add: hoare_def tar_Put_relative)
qed

section \<open>The interface of the sinks\<close>

lemma hoare_preserves: "hoare (\<lambda>s. I (self s)) m (\<lambda>_ s. I (self s)) (\<lambda>s. I (self s)) \<Longrightarrow> keeps (preserves I) m"
proof (rule keepsI)
  fix s
  assume h: "hoare (\<lambda>s. I (self s)) m (\<lambda>_ s. I (self s)) (\<lambda>s. I (self s))"
  obtain r s' where m: "m s = (r, s')" by force
  then show "preserves I s (snd (m s))" using hoare_RetD [OF h, of s] hoare_PanicD [OF h, of s] by (cases r) (auto simp: preserves_def)
qed

text \<open>A sink whose \<^verbatim>\<open>Put\<close> keeps what is to hold of it: then \<^verbatim>\<open>CopyTo\<close> keeps it too.\<close>

locale node_sink =
  fixes put :: "string \<Rightarrow> string \<Rightarrow> (('st, 'w, 'ev) sys, go_error option) go"
    and I :: "'st \<Rightarrow> bool"
  assumes put_keeps: "keeps (preserves I) (put k v)"
begin

lemma copy_kv_keeps: "keeps (preserves I) (copy_kv put kv acc)"
  unfolding copy_kv_def by (intro pres_rules put_keeps)

lemma copy_loop_keeps: "keeps (preserves I) (copy_loop n api c put cnt lk)"
proof (induction n arbitrary: cnt lk)
  case 0
  show ?case by (simp add: pres.keeps_ret)
next
  case (Suc n)
  show ?case unfolding copy_loop.simps by (intro pres_rules copy_kv_keeps Suc)
qed

lemma CopyTo_keeps: "keeps (preserves I) (CopyTo fuel api c put)"
  unfolding CopyTo_def by (rule copy_loop_keeps)

end

interpretation tar: node_sink "tar_Put e" archive_ok for e
  by unfold_locales (rule hoare_preserves [OF tar_Put_ok])

lemma stream_Put_tar: "keeps (frame (\<lambda>m. (ts_tw m, ts_doneDirs m))) (stream_Put e key v)"
  unfolding stream_Put_def by (intro frame_rules keeps_frame_upd_self) simp

interpretation stream: node_sink "stream_Put e" archive_ok for e
  by unfold_locales (rule keeps_weaken [OF stream_Put_tar], auto simp: frame_def preserves_def archive_ok_def)

interpretation sink: node_sink "sink_Put t out" archive_ok for t out
  by unfold_locales (simp add: sink_Put_def tar.put_keeps stream.put_keeps)

section \<open>Cleaning up\<close>

text \<open>Events that neither start nor end a process.\<close>

fun bystander :: "node_event \<Rightarrow> bool" where
  "bystander (EvStart _ _ (Inr _)) = False"
| "bystander (EvKill _ _) = False"
| "bystander _ = True"

definition releases :: "node_event list \<Rightarrow> bool" where
  "releases evs \<longleftrightarrow> list_all bystander evs \<or> (\<exists>p c pid mid k rest. evs = EvStart p c (Inr pid) # mid @ EvKill pid k # rest \<and>
     list_all bystander mid \<and> list_all bystander rest)"

lemma asks_events: "keeps asks m \<Longrightarrow> keeps (emits A) m"
  by (erule keeps_weaken) (auto simp: asks_def emits_def)

lemmas event_asks = ask_only [THEN asks_events]

lemma hoare_asks: "keeps asks m \<Longrightarrow> hoare (\<lambda>s. trace s = tr) m (\<lambda>_ s. trace s = tr) (\<lambda>_. True)"
  by (rule hoareI) (auto simp: asks_def dest!: keepsE)

abbreviation bystands :: "(('st, 'w, node_event) sys, 'a) go \<Rightarrow> bool" where "bystands m \<equiv> keeps (emits bystander) m"

lemma ExitState_bystands: "bystands (ExitState e p)"
  unfolding ExitState_def by (intro emits_rules keeps_emits_act) (simp split: prod.splits)

lemma wait_exit_bystands: "bystands (wait_exit n e p)"
  by (induction n) (auto intro!: emits_rules ExitState_bystands)

lemma await_source_bystands: "bystands (await_source n e p c)"
proof (induction n)
  case 0
  show ?case by (simp add: emits.keeps_ret)
next
  case (Suc n)
  show ?case unfolding await_source.simps client_Get_def by (intro emits_rules ExitState_bystands Suc)
qed

lemma ensureDirs_bystands: "bystands (ensureDirs n e p)"
proof (induction n arbitrary: p)
  case 0
  show ?case by (simp add: emits.keeps_panic)
next
  case (Suc n)
  show ?case unfolding ensureDirs.simps tar_WriteHeader_def by (intro emits_rules keeps_emits_upd_self Suc)
qed

lemma sink_Put_bystands: "bystands (sink_Put t out k v)"
  unfolding sink_Put_def tar_Put_def stream_Put_def tar_WriteHeader_def tar_Write_def
  by (auto intro!: emits_rules keeps_emits_upd_self ensureDirs_bystands)

lemma copy_loop_bystands: "(\<And>k v. bystands (put k v)) \<Longrightarrow> bystands (copy_loop n api c put cnt lk)"
proof (induction n arbitrary: cnt lk)
  case 0
  show ?case by (simp add: emits.keeps_ret)
next
  case (Suc n)
  show ?case unfolding copy_loop.simps copy_kv_def by (intro emits_rules Suc)
qed

lemma dump_keys_bystands: "bystands (dump_keys e t out p c)"
  unfolding dump_keys_def CopyTo_def sink_Close_def tar_Close_def
  by (intro emits_rules await_source_bystands copy_loop_bystands sink_Put_bystands)

lemma new_sink_bystands: "bystands (new_sink t out)"
  unfolding new_sink_def NewTarDumpSink_def by (intro emits_rules keeps_emits_upd_self)

lemma hoare_bystands: "bystands m \<Longrightarrow> hoare (\<lambda>s. trace s = tr) m (\<lambda>_ s. \<exists>evs. trace s = tr @ evs \<and> list_all bystander evs) (\<lambda>_. True)"
  by (rule hoareI) (auto simp: emits_def list_all_iff dest!: keepsE)

lemma process_Stop_kills:
  assumes "pr_cmd p = Some pid"
  shows "hoare (\<lambda>s. trace s = tr) (process_Stop e p) (\<lambda>_ s. \<exists>k evs. trace s = tr @ EvKill pid k # evs \<and> list_all bystander evs) (\<lambda>_. True)"
proof -
  have rest: "bystands (case r of Some err \<Rightarrow> bind (ExitState e p) (\<lambda>(st, _). if st then ret None else ret (Some (Wrap ''failed to kill process'' err)))
      | None \<Rightarrow> bind (wait_exit (px_patience e) e p) (\<lambda>exited. if exited then ret None else panic ''still waiting for etcd to exit''))" for r
    by (intro emits_rules ExitState_bystands wait_exit_bystands)
  show ?thesis unfolding process_Stop_def assms option.case
    by (rule hoare_bind [where R = "\<lambda>r s. trace s = tr @ [EvKill pid r]"])
      (auto intro!: hoare_act intro: hoare_conseq [OF hoare_bystands [OF rest]])
qed

lemma dump_process_releases:
  assumes "pr_cmd p = Some pid"
  shows "hoare (\<lambda>s. trace s = tr) (dump_process e t out p)
    (\<lambda>_ s. \<exists>mid k rest. trace s = tr @ mid @ EvKill pid k # rest \<and> list_all bystander mid \<and> list_all bystander rest) (\<lambda>_. True)"
proof -
  have first: "bystands (bind (new_sink t out) (\<lambda>r. case r of
       Some err \<Rightarrow> ret (Some err)
     | None \<Rightarrow>
       bind (process_NewClient (sx_proc e) p) (\<lambda>r. case r of
         Inl err \<Rightarrow> ret (Some (Wrap ''error building etcd client'' err))
       | Inr sourceClient \<Rightarrow> dump_keys e t out p sourceClient)))"
    by (intro emits_rules event_asks new_sink_bystands dump_keys_bystands)
  have stop: "hoare (\<lambda>s. \<exists>mid. trace s = tr @ mid \<and> list_all bystander mid) (process_Stop (sx_proc e) p)
      (\<lambda>_ s. \<exists>mid k rest. trace s = tr @ mid @ EvKill pid k # rest \<and> list_all bystander mid \<and> list_all bystander rest) (\<lambda>_. True)"
  proof (rule hoare_ex)
    fix mid
    show "hoare (\<lambda>s. trace s = tr @ mid \<and> list_all bystander mid) (process_Stop (sx_proc e) p)
      (\<lambda>_ s. \<exists>mid k rest. trace s = tr @ mid @ EvKill pid k # rest \<and> list_all bystander mid \<and> list_all bystander rest) (\<lambda>_. True)"
      by (rule hoare_pure, rule hoare_conseq [OF process_Stop_kills [OF assms, of "tr @ mid"]]) auto
  qed
  show ?thesis unfolding dump_process_def
    by (intro hoare_bind [OF hoare_bystands [OF first]] hoare_bind [OF stop] hoare_ret)
qed

text \<open>Starting etcd from a backup changes nothing that is recorded but the start itself, which comes last.\<close>

definition started_last :: "node_event list \<Rightarrow> go_error + etcdProcess \<Rightarrow> node_event list \<Rightarrow> bool" where
  "started_last tr r tr' \<longleftrightarrow> (case r of
     Inl _ \<Rightarrow> \<exists>evs. tr' = tr @ evs \<and> list_all bystander evs
   | Inr p \<Rightarrow> \<exists>q c pid. tr' = tr @ [EvStart q c (Inr pid)] \<and> pr_cmd p = Some pid)"

lemma started_last_Inl [simp]: "started_last tr (Inl err) tr"
  by (simp add: started_last_def)

lemma process_Start_last:
  "hoare (\<lambda>s. trace s = tr) (process_Start e p) (\<lambda>r s. started_last tr r (trace s)) (\<lambda>_. True)"
proof -
  have act_Start: "hoare (\<lambda>s. trace s = tr) (bind (act (px_StartCmd e c) (EvStart p c)) (\<lambda>r. ret (case r of
      Inl err \<Rightarrow> Inl (Wrap ''error starting etcd'' err) | Inr pid \<Rightarrow> Inr (p\<lparr>pr_cmd := Some pid\<rparr>))))
      (\<lambda>r s. started_last tr r (trace s)) (\<lambda>_. True)" for c
    by (auto simp: hoare_def go_run started_last_def split: prod.splits sum.splits)
  show ?thesis
    unfolding process_Start_def Let_def
    by (intro hoare_case_option hoare_ret hoare_panic hoare_bind [OF hoare_asks [OF keeps_asks_ask]] hoare_bind [OF hoare_asks [OF keeps_asks_range]]
        act_Start) simp_all
qed

lemma start_restore_last:
  "hoare (\<lambda>s. trace s = tr) (start_restore e basedir p) (\<lambda>r s. started_last tr r (trace s)) (\<lambda>_. True)"
proof -
  have expand: "keeps asks (expand g f d)" for g f d
    unfolding expand_def gz_transfer_def by (intro asks_rules)
  have last: "hoare (\<lambda>s. trace s = tr) (bind (process_Start (sx_proc e) p) (\<lambda>r. ret (case r of
      Inl err \<Rightarrow> Inl (Wrap ''error starting etcd'' err) | Inr p' \<Rightarrow> Inr p'))) (\<lambda>r s. started_last tr r (trace s)) (\<lambda>_. True)"
    by (rule hoare_bind [OF process_Start_last], rule hoare_ret) (auto simp: started_last_def split: sum.splits)
  show ?thesis
    unfolding start_restore_def Let_def
    by (intro hoare_bind [OF hoare_asks [OF expand]] hoare_bind [OF hoare_asks [OF RestoreV3Snapshot_asks]] hoare_case_option hoare_ret last) simp_all
qed

lemma restore_CAs_asks: "keeps asks (restore_CAs e)"
  unfolding restore_CAs_def by (intro asks_rules NewCA_asks)

lemma RunEtcdFromBackup_last:
  "hoare (\<lambda>s. trace s = tr) (RunEtcdFromBackup e st name basedir) (\<lambda>r s. started_last tr r (trace s)) (\<lambda>_. True)"
  unfolding RunEtcdFromBackup_def Let_def
  by (intro hoare_bind [OF hoare_asks [OF LoadInfo_asks]] hoare_bind [OF hoare_asks [OF DownloadBackup_asks]]
      hoare_bind [OF hoare_asks [OF Bindir_asks]] hoare_bind [OF hoare_asks [OF restore_CAs_asks]] hoare_bind [OF hoare_asks [OF createKeypairs_asks]]
      hoare_case_sum hoare_case_option hoare_case_prod hoare_if hoare_ret start_restore_last) simp_all

lemma dump_backup_releases:
  "hoare (\<lambda>s. trace s = tr) (bind (RunEtcdFromBackup e st name tempDir) (\<lambda>r. case r of
     Inl err \<Rightarrow> ret (Some err) | Inr p \<Rightarrow> dump_process e t out p)) (\<lambda>_ s. \<exists>evs. trace s = tr @ evs \<and> releases evs) (\<lambda>_. True)"
proof (rule hoare_bind [OF RunEtcdFromBackup_last])
  fix r
  show "hoare (\<lambda>s. started_last tr r (trace s)) (case r of Inl err \<Rightarrow> ret (Some err) | Inr p \<Rightarrow> dump_process e t out p)
    (\<lambda>_ s. \<exists>evs. trace s = tr @ evs \<and> releases evs) (\<lambda>_. True)"
  proof (cases r)
    case (Inl err)
    then show ?thesis by (auto simp: started_last_def releases_def intro!: hoare_ret)
  next
    case (Inr p)
    have "hoare (\<lambda>s. trace s = tr @ [EvStart q c (Inr pid)] \<and> pr_cmd p = Some pid) (dump_process e t out p)
        (\<lambda>_ s. \<exists>evs. trace s = tr @ evs \<and> releases evs) (\<lambda>_. True)" for q c pid
      by (rule hoare_pure, rule hoare_conseq [OF dump_process_releases [of p pid "tr @ [EvStart q c (Inr pid)]"]])
        (auto simp: releases_def)
    with Inr show ?thesis by (auto simp: started_last_def intro!: hoare_ex)
  qed
qed

lemma dump_backup_removes:
  "hoare (\<lambda>s. trace s = tr) (bind (bind (RunEtcdFromBackup e st name tempDir) (\<lambda>r. case r of
     Inl err \<Rightarrow> ret (Some err) | Inr p \<Rightarrow> dump_process e t out p)) (\<lambda>res.
     bind (act (sx_RemoveAll e tempDir) (EvRemoveAll tempDir)) (\<lambda>_. ret res)))
   (\<lambda>_ s. \<exists>evs gone. trace s = tr @ evs @ [EvRemoveAll tempDir gone] \<and> releases evs) (\<lambda>_. True)"
  by (rule hoare_bind [OF dump_backup_releases]) (auto simp: hoare_def go_run split: prod.splits)

definition cleaned_up :: "node_event list \<Rightarrow> node_event list \<Rightarrow> bool" where
  "cleaned_up tr tr' \<longleftrightarrow> tr' = tr \<or> (\<exists>dir err. tr' = tr @ [EvMkdir dir (Some err)]) \<or>
    (\<exists>dir evs gone. tr' = tr @ EvMkdir dir None # evs @ [EvRemoveAll dir gone] \<and> releases evs)"

lemma in_tempdir:
  "hoare (\<lambda>s. trace s = tr) (bind (act (sx_MkdirAll e dir) (EvMkdir dir)) (\<lambda>r. case r of
     Some err \<Rightarrow> ret (Some (Wrap ''error creating tempdir'' err))
   | None \<Rightarrow>
     bind (bind (RunEtcdFromBackup e st name dir) (\<lambda>r. case r of Inl err \<Rightarrow> ret (Some err) | Inr p \<Rightarrow> dump_process e t out p)) (\<lambda>res.
     bind (act (sx_RemoveAll e dir) (EvRemoveAll dir)) (\<lambda>_. ret res))))
   (\<lambda>_ s. cleaned_up tr (trace s)) (\<lambda>_. True)"
proof (rule hoare_bind [where R = "\<lambda>r s. trace s = tr @ [EvMkdir dir r]"])
  fix r
  show "hoare (\<lambda>s. trace s = tr @ [EvMkdir dir r]) (case r of
     Some err \<Rightarrow> ret (Some (Wrap ''error creating tempdir'' err))
   | None \<Rightarrow>
     bind (bind (RunEtcdFromBackup e st name dir) (\<lambda>r. case r of Inl err \<Rightarrow> ret (Some err) | Inr p \<Rightarrow> dump_process e t out p)) (\<lambda>res.
     bind (act (sx_RemoveAll e dir) (EvRemoveAll dir)) (\<lambda>_. ret res)))
   (\<lambda>_ s. cleaned_up tr (trace s)) (\<lambda>_. True)"
  proof (cases r)
    case None
    show ?thesis unfolding None option.case
      by (rule hoare_conseq [OF dump_backup_removes [of "tr @ [EvMkdir dir None]"]]) (auto simp: cleaned_up_def)
  qed (auto simp: cleaned_up_def intro!: hoare_ret)
qed (simp add: hoare_act)

section \<open>An example\<close>

text \<open>An archive that accepts everything, and two keys.\<close>

definition demo_tar :: "unit tar_env" where
  "demo_tar = \<lparr>tx_Create = (\<lambda>_ w. (None, w)), tx_WriteHeader = (\<lambda>_ w. (None, w)), tx_Write = (\<lambda>_ w. (None, w)), tx_CloseTar = (\<lambda>w. (None, w)),
     tx_CloseGzip = (\<lambda>w. (None, w)), tx_CloseFile = (\<lambda>w. (None, w)), tx_Stdout = (\<lambda>_ w. (None, w)), tx_depth = 10\<rparr>"

definition demo_dump :: "unit dump" where
  "demo_dump = \<lparr>self = \<lparr>ts_tw = [], ts_doneDirs = [], ds_out = []\<rparr>, world = (), trace = []\<rparr>"

definition demo_keys :: "(string \<times> string) list" where
  "demo_keys = [(''/a/b'', ''1''), (''/a/c/d'', [])]"

definition demo_client :: EtcdClient where
  "demo_client = \<lparr>cl_endpoints = [''x''], cl_handle = 0, cl_tlsConfig = None\<rparr>"

section \<open>Properties\<close>

text \<open>C30.
  A dump cleans up after itself. When \<^verbatim>\<open>runDump\<close> returns, with an error or without, it has either not got as far as making its
  temporary directory, or removing that directory was the last thing it did; and if it started an etcd in between, it also stopped it.
\<close>

theorem dump_cleans_up:
  assumes "runDump e t file out s = (Ret r, s')"
  shows "trace s' = trace s \<or> (\<exists>dir err. trace s' = trace s @ [EvMkdir dir (Some err)]) \<or>
    (\<exists>dir evs gone. trace s' = trace s @ EvMkdir dir None # evs @ [EvRemoveAll dir gone] \<and> releases evs)"
proof -
  have none: "cleaned_up (trace s) (trace s)" by (simp add: cleaned_up_def)
  have "hoare (\<lambda>u. trace u = trace s) (runDump e t file out) (\<lambda>_ u. cleaned_up (trace s) (trace u)) (\<lambda>_. True)"
    unfolding runDump_def Let_def
    by (intro hoare_if hoare_case_sum hoare_ret hoare_bind [OF hoare_asks [OF keeps_asks_now]] in_tempdir)
      (simp_all only: none)
  from hoare_RetD [OF this refl assms] show ?thesis by (simp add: cleaned_up_def)
qed

text \<open>A backup that is not in the store.\<close>

theorem dump_cleans_up_witness:
  "\<exists>r s' dir evs gone. runDump (example_env True) demo_tar ''/backups/b/'' [] demo_dump = (Ret r, s') \<and>
     trace s' = EvMkdir dir None # evs @ [EvRemoveAll dir gone] \<and> releases evs"
proof -
  have "case runDump (example_env True) demo_tar ''/backups/b/'' [] demo_dump of (Ret r, s) \<Rightarrow> length (trace s) = 2 | _ \<Rightarrow> False" by code_simp
  then obtain r s' where run: "runDump (example_env True) demo_tar ''/backups/b/'' [] demo_dump = (Ret r, s')" "length (trace s') = 2"
    by (auto split: prod.splits outcome.splits)
  moreover have "trace demo_dump = []" by (simp add: demo_dump_def)
  ultimately show ?thesis using dump_cleans_up [OF run(1)] by auto
qed

text \<open>C29.
  An archive that a dump has written, as far as it got, can be unpacked in order: every file and every directory comes after the
  directory it is in, and no directory comes twice, whatever keys etcd returns and whatever writes fail.
\<close>

theorem dump_archive_is_ordered:
  assumes "ts_tw (self s) = []" and "ts_doneDirs (self s) = []"
  shows "ordered [] (ts_tw (self (snd (CopyTo fuel api c (tar_Put e) s))))"
proof -
  have "archive_ok (self s)" using assms by (simp add: archive_ok_def)
  then have "archive_ok (self (snd (CopyTo fuel api c (tar_Put e) s)))"
    using keepsD [OF tar.CopyTo_keeps] unfolding preserves_def by blast
  then show ?thesis by (simp add: archive_ok_def)
qed

theorem dump_archive_is_ordered_witness:
  "ordered [] (ts_tw (self (snd (CopyTo 3 (mem_api demo_keys) demo_client (tar_Put demo_tar) demo_dump)))) \<and>
   dir_names (ts_tw (self (snd (CopyTo 3 (mem_api demo_keys) demo_client (tar_Put demo_tar) demo_dump)))) = [''a/'', ''a/c/'']"
proof
  show "ordered [] (ts_tw (self (snd (CopyTo 3 (mem_api demo_keys) demo_client (tar_Put demo_tar) demo_dump))))"
    by (rule dump_archive_is_ordered) (simp_all add: demo_dump_def)
  show "dir_names (ts_tw (self (snd (CopyTo 3 (mem_api demo_keys) demo_client (tar_Put demo_tar) demo_dump)))) = [''a/'', ''a/c/'']"
    by code_simp
qed

text \<open>C28.
  Only keys that begin with a slash can be written to an archive. \<^verbatim>\<open>Put\<close> returns for every such key, with room on the stack for as many calls
  as the key has characters; for every other key \<^verbatim>\<open>ensureDirs\<close> calls itself with \<^verbatim>\<open>.\<close> until the stack is used up, however large it is.
\<close>

theorem put_needs_absolute_keys:
  assumes "archive_ok (self s)"
  shows "if HasPrefix key ''/'' then Suc (length key) < tx_depth e \<longrightarrow> (\<exists>r s'. tar_Put e key v s = (Ret r, s'))
    else tar_Put (e\<lparr>tx_depth := n\<rparr>) key v s = (Panic ''stack overflow'', s)"
proof (cases "HasPrefix key ''/''")
  case True
  then obtain cs where cs: "plain cs" "filepath_Dir key = abs_path cs" "length cs \<le> Suc (length key)"
    using Dir_rooted [of key] by (auto simp: is_rooted_def)
  have "\<exists>r s'. tar_Put e key v s = (Ret r, s')" if depth: "Suc (length key) < tx_depth e"
  proof -
    obtain r s1 where "ensureDirs (tx_depth e) e (abs_path cs) s = (Ret r, s1)"
      using ensureDirs_returns [OF cs(1), of "tx_depth e" e s] cs(3) depth by auto
    then show ?thesis by (auto simp: tar_Put_def cs(2) tar_WriteHeader_def tar_Write_def go_run split: option.splits prod.splits)
  qed
  with True show ?thesis by simp
next
  case False
  then show ?thesis using tar_Put_relative [OF _ assms] by (simp add: is_rooted_def)
qed

theorem put_needs_absolute_keys_witness:
  "(\<exists>r s'. tar_Put demo_tar ''/a/b'' ''1'' demo_dump = (Ret r, s')) \<and>
   tar_Put (demo_tar\<lparr>tx_depth := 100000\<rparr>) ''a'' ''1'' demo_dump = (Panic ''stack overflow'', demo_dump)"
proof -
  have ok: "archive_ok (self demo_dump)" by (simp add: archive_ok_def demo_dump_def)
  show ?thesis
    using put_needs_absolute_keys [OF ok, of "''/a/b''" demo_tar "''1''" 0] put_needs_absolute_keys [OF ok, of "''a''" demo_tar "''1''" 100000]
    by (simp add: HasPrefix_def demo_tar_def)
qed

end
