(* ===== verification/Hostmount.thy ===== *)
theory Hostmount
  imports Mounting
begin

text \<open>
  The mounter of a containerized node (\<^verbatim>\<open>pkg/hostmount/nsenter.go\<close>): it runs \<^verbatim>\<open>mount(8)\<close> in the mount namespace of the host. It implements
  the interface of the mount library that \<open>Mounting\<close> calls; the library's helpers and the execution of commands are parameters.
\<close>

datatype host_event = EvExec string "string list" "go_error option"

record ('p, 'w) host_env =
  hm_ListProcMounts :: "string \<Rightarrow> 'w \<Rightarrow> (go_error + 'p list) \<times> 'w"
  hm_MakeBindOptsSensitive :: "string list \<Rightarrow> string list \<Rightarrow> bool \<times> string list \<times> string list \<times> string list"
  hm_AbsHostPath :: "string \<Rightarrow> string"
  hm_MakeMountArgs :: "string \<Rightarrow> string \<Rightarrow> string \<Rightarrow> string list \<Rightarrow> string list"
  hm_SupportsSystemd :: "string option"
  hm_AddSystemdScope :: "string \<Rightarrow> string \<Rightarrow> string \<Rightarrow> string list \<Rightarrow> string \<times> string list"
  hm_Exec :: "string \<Rightarrow> string list \<Rightarrow> 'w \<Rightarrow> go_error option \<times> 'w"

type_synonym ('st, 'w) host = "('st, 'w, host_event) sys"

definition hostProcMountsPath :: string where "hostProcMountsPath = ''/rootfs/proc/1/mounts''"

definition host_List :: "('p, 'w) host_env \<Rightarrow> (('st, 'w) host, go_error + 'p list) go" where
  "host_List e = ask (hm_ListProcMounts e hostProcMountsPath)"

definition makeNsenterArgs :: "('p, 'w) host_env \<Rightarrow> string \<Rightarrow> string \<Rightarrow> string \<Rightarrow> string list \<Rightarrow> string \<times> string list" where
  "makeNsenterArgs e source target fstype options =
     (let mountCmd = hm_AbsHostPath e ''mount''; mountArgs = hm_MakeMountArgs e source target fstype options in
      case hm_SupportsSystemd e of
        Some systemdRunPath \<Rightarrow> hm_AddSystemdScope e systemdRunPath target mountCmd mountArgs
      | None \<Rightarrow> (mountCmd, mountArgs))"

definition doNsenterMount :: "('p, 'w) host_env \<Rightarrow> string \<Rightarrow> string \<Rightarrow> string \<Rightarrow> string list \<Rightarrow> (('st, 'w) host, go_error option) go" where
  "doNsenterMount e source target fstype options =
     (case makeNsenterArgs e source target fstype options of (cmd, args) \<Rightarrow> act (hm_Exec e cmd args) (EvExec cmd args))"

definition MountSensitive :: "('p, 'w) host_env \<Rightarrow> string \<Rightarrow> string \<Rightarrow> string \<Rightarrow> string list \<Rightarrow> string list
    \<Rightarrow> (('st, 'w) host, go_error option) go" where
  "MountSensitive e source target fstype options sensitiveOptions =
     (case hm_MakeBindOptsSensitive e options sensitiveOptions of (is_bind, bindOpts, bindRemountOpts, bindRemountSensitiveOpts) \<Rightarrow>
       if bindRemountSensitiveOpts \<noteq> [] then ret (Some (Errorf ''sensitiveOptions not supported by implementation of MountSensitive''))
       else if is_bind then
         bind (doNsenterMount e source target fstype bindOpts) (\<lambda>r. case r of
           Some err \<Rightarrow> ret (Some err)
         | None \<Rightarrow> doNsenterMount e source target fstype bindRemountOpts)
       else doNsenterMount e source target fstype options)"

definition host_Mount :: "('p, 'w) host_env \<Rightarrow> string \<Rightarrow> string \<Rightarrow> string \<Rightarrow> string list \<Rightarrow> (('st, 'w) host, go_error option) go" where
  "host_Mount e source target fstype options = MountSensitive e source target fstype options []"

text \<open>What the interface has besides is refused.\<close>

definition GetMountRefs :: "string \<Rightarrow> go_error + string list" where
  "GetMountRefs pathname = Inl (Errorf ''GetMountRefs not implemented for containerized mounter'')"

definition IsLikelyNotMountPoint :: "string \<Rightarrow> bool \<times> go_error option" where
  "IsLikelyNotMountPoint p = (False, Some (Errorf ''IsLikelyNotMountPoint not implemented for containerized mounter''))"

definition Unmount :: "string \<Rightarrow> go_error option" where
  "Unmount target = Some (Errorf ''Unmount not implemented for containerized mounter'')"

definition MountSensitiveWithoutSystemd :: "string \<Rightarrow> string \<Rightarrow> string \<Rightarrow> string list \<Rightarrow> string list \<Rightarrow> go_error option" where
  "MountSensitiveWithoutSystemd source target fstype options sensitiveOptions =
     Some (Errorf ''MountSensitiveWithoutSystemd not implemented for containerized mounter'')"

definition MountSensitiveWithoutSystemdWithMountFlags :: "string \<Rightarrow> string \<Rightarrow> string \<Rightarrow> string list \<Rightarrow> string list \<Rightarrow> string list \<Rightarrow> go_error option" where
  "MountSensitiveWithoutSystemdWithMountFlags source target fstype options sensitiveOptions mountFlags =
     Some (Errorf ''MountSensitiveWithoutSystemdWithMountFlags not implemented for containerized mounter'')"

text \<open>
  Options that have to be kept secret are refused before anything is run. Otherwise a bind mount that succeeds has run two commands, the
  mount and the remount with the other options, because \<^verbatim>\<open>mount(8)\<close> ignores them in the first; any other mount has run one.
\<close>

theorem host_mounts:
  assumes "hm_MakeBindOptsSensitive e options sens = (is_bind, bindOpts, remountOpts, remountSens)"
    and "MountSensitive e source target fstype options sens s = (Ret r, s')"
  shows "if remountSens \<noteq> [] then r \<noteq> None \<and> s' = s
    else \<exists>evs. trace s' = trace s @ evs \<and> (r = None \<longrightarrow>
      evs = map (\<lambda>opts. EvExec (fst (makeNsenterArgs e source target fstype opts)) (snd (makeNsenterArgs e source target fstype opts)) None)
        (if is_bind then [bindOpts, remountOpts] else [options]))"
  using assms by (auto simp: MountSensitive_def doNsenterMount_def go_run split: prod.splits option.splits if_splits)

end
