(* ===== verification/Backup_Controller.thy ===== *)
theory Backup_Controller
  imports Server_Safety Backup_Cleanup Cluster_State
begin

text \<open>
  The stand-alone backup agent (\<^verbatim>\<open>pkg/backupcontroller/controller.go\<close>, \<^verbatim>\<open>pkg/contextutil/poll.go\<close>): it asks the etcd it is pointed at
  whether it is the leader and, if so and if a backup is due, takes one and cleans up. Snapshots, the store and the cleanup are those
  of the other components.
\<close>

section \<open>Data\<close>

text \<open>\<open>bk_sequence\<close> is the package variable \<^verbatim>\<open>sequence\<close> of the package \<^verbatim>\<open>etcd\<close>, which the agent's process has of its own.\<close>

record BackupController =
  bk_clusterName :: string
  bk_backupStore :: vfsStore
  bk_dataDir :: string
  bk_clientUrls :: "string list"
  bk_etcdClientTLSConfig :: "tls_Config option"
  bk_lastBackup :: time
  bk_backupInterval :: duration
  bk_backupCleanup :: BackupCleanup
  bk_sequence :: nat

type_synonym 'w backup_agent = "(BackupController, 'w, node_event) sys"

definition NewBackupController :: "vfsStore \<Rightarrow> string \<Rightarrow> string list \<Rightarrow> tls_Config option \<Rightarrow> string \<Rightarrow> duration \<Rightarrow> go_error + BackupController" where
  "NewBackupController backupStore clusterName clientUrls tls dataDir backupInterval =
     (if clusterName = [] then Inl (Errorf ''ClusterName is required'')
      else Inr \<lparr>bk_clusterName = clusterName, bk_backupStore = backupStore, bk_dataDir = dataDir, bk_clientUrls = clientUrls,
        bk_etcdClientTLSConfig = tls, bk_lastBackup = 0, bk_backupInterval = backupInterval,
        bk_backupCleanup = NewBackupCleanup backupStore, bk_sequence = 0\<rparr>)"

section \<open>Polling\<close>

text \<open>
  \<^verbatim>\<open>contextutil.Forever\<close>, with a bound on the rounds: the loop ends when the context is cancelled, which is looked at before
  every round; the sleep in between also ends with the context.
\<close>

fun Forever :: "nat \<Rightarrow> ('w \<Rightarrow> bool \<times> 'w) \<Rightarrow> ('w \<Rightarrow> go_error option \<times> 'w) \<Rightarrow> (('st, 'w, 'ev) sys, unit) go \<Rightarrow> (('st, 'w, 'ev) sys, unit) go" where
  "Forever 0 cancelled sleep f = panic ''still polling''"
| "Forever (Suc n) cancelled sleep f =
     bind (ask cancelled) (\<lambda>c. if c then ret ()
       else bind f (\<lambda>_. bind (ask sleep) (\<lambda>_. Forever n cancelled sleep f)))"

section \<open>Backups\<close>

text \<open>Running an operation of another component on the part of the state that is its own.\<close>

definition zoom :: "('st \<Rightarrow> 'b) \<Rightarrow> ('b \<Rightarrow> 'st \<Rightarrow> 'st) \<Rightarrow> (('b, 'w, 'ev) sys, 'a) go \<Rightarrow> (('st, 'w, 'ev) sys, 'a) go" where
  "zoom get put m = (\<lambda>s. case m \<lparr>self = get (self s), world = world s, trace = trace s\<rparr> of
     (r, s') \<Rightarrow> (r, \<lparr>self = put (self s') (self s), world = world s', trace = trace s'\<rparr>))"

text \<open>Of the state of the package \<^verbatim>\<open>etcd\<close> a backup reads and writes the counter only.\<close>

definition package_state :: "BackupController \<Rightarrow> EtcdServer" where
  "package_state m = \<lparr>s_baseDir = [], s_etcdNodeConfiguration = \<lparr>en_Name = [], en_PeerUrls = [], en_ClientUrls = [],
      en_QuarantinedClientUrls = [], en_TlsEnabled = False\<rparr>, s_clusterName = [], s_state = None, s_prepared = None, s_process = None,
      s_listenAddress = [], s_etcdClientsCA = None, s_etcdPeersCA = None, s_listenMetricsURLs = [], s_peerClientIPs = [],
      s_sequence = bk_sequence m\<rparr>"

definition agent_doClusterBackup :: "'w server_env \<Rightarrow> string \<Rightarrow> EtcdProcessMember list \<Rightarrow> ('w backup_agent, go_error + string) go" where
  "agent_doClusterBackup e etcdVersion members =
     bind (get_self (\<lambda>m. m)) (\<lambda>m.
     zoom package_state (\<lambda>p m. m\<lparr>bk_sequence := s_sequence p\<rparr>)
       (etcd_DoBackup e (bk_backupStore m)
         \<lparr>bi_EtcdVersion = etcdVersion, bi_Timestamp = 0,
          bi_ClusterSpec = Some \<lparr>cs_MemberCount = (int (length members) + 2 ^ 31) mod 2 ^ 32 - 2 ^ 31, cs_EtcdVersion = etcdVersion\<rparr>\<rparr>
         (bk_clientUrls m) (bk_etcdClientTLSConfig m)))"

definition agent_maybeBackup :: "'w server_env \<Rightarrow> retention \<Rightarrow> string \<Rightarrow> EtcdProcessMember list \<Rightarrow> ('w backup_agent, go_error option) go" where
  "agent_maybeBackup e cfg etcdVersion members =
     bind (time_now (sx_rt e)) (\<lambda>now.
     bind (get_self (\<lambda>m. m)) (\<lambda>m.
     if \<not> time_sub now (bk_lastBackup m) > bk_backupInterval m then ret None
     else bind (agent_doClusterBackup e etcdVersion members) (\<lambda>r. case r of
       Inl err \<Rightarrow> ret (Some err)
     | Inr _ \<Rightarrow>
       bind (upd_self (\<lambda>m. m\<lparr>bk_lastBackup := now\<rparr>)) (\<lambda>_.
       bind (MaybeDoBackupMaintenance (sx_vfs e) cfg (bk_backupCleanup m)) (\<lambda>(_, cleanup).
       bind (upd_self (\<lambda>m. m\<lparr>bk_backupCleanup := cleanup\<rparr>)) (\<lambda>_. ret None))))))"

text \<open>The client is closed after the members were asked for, but not when the version of the server cannot be found.\<close>

definition agent_run :: "'w server_env \<Rightarrow> retention \<Rightarrow> ('w backup_agent, go_error option) go" where
  "agent_run e cfg =
     (let api = px_api (sx_proc e) in
      bind (get_self (\<lambda>m. m)) (\<lambda>m.
      bind (NewClient api (bk_clientUrls m) (bk_etcdClientTLSConfig m)) (\<lambda>r. case r of
        Inl err \<Rightarrow> ret (Some (Wrap ''unable to reach etcd'' err))
      | Inr etcdClient \<Rightarrow>
        bind (ServerVersion api etcdClient) (\<lambda>r. case r of
          Inl err \<Rightarrow> ret (Some (Wrap ''unable to find server version of etcd'' err))
        | Inr etcdVersion \<Rightarrow>
          bind (client_ListMembers api etcdClient) (\<lambda>r. case r of
            Inl err \<Rightarrow> bind (LoggedClose api etcdClient) (\<lambda>_. ret (Some (Wrap ''unable to list members'' err)))
          | Inr members \<Rightarrow>
            bind (LocalNodeInfo api etcdClient) (\<lambda>r.
            bind (LoggedClose api etcdClient) (\<lambda>_. case r of
              Inl err \<Rightarrow> ret (Some (Wrap ''unable to get node state'' err))
            | Inr None \<Rightarrow> panic ''nil pointer dereference''
            | Inr (Some isLeader) \<Rightarrow> if \<not> isLeader then ret None else agent_maybeBackup e cfg etcdVersion members)))))))"

definition loopInterval :: duration where "loopInterval = minute"

definition agent_Run :: "nat \<Rightarrow> ('w \<Rightarrow> bool \<times> 'w) \<Rightarrow> (duration \<Rightarrow> 'w \<Rightarrow> go_error option \<times> 'w) \<Rightarrow> 'w server_env \<Rightarrow> retention \<Rightarrow> ('w backup_agent, unit) go" where
  "agent_Run n cancelled sleep e cfg = Forever n cancelled (sleep loopInterval) (bind (agent_run e cfg) (\<lambda>_. ret ()))"

section \<open>What an iteration changes\<close>

text \<open>Every client call but the backup itself only asks.\<close>

lemma agent_client_asks:
  "keeps asks (NewClient api urls tls)" "keeps asks (ServerVersion api c)" "keeps asks (client_ListMembers api c)"
  "keeps asks (LocalNodeInfo api c)" "keeps asks (LoggedClose api c)"
  unfolding NewClient_def ServerVersion_def client_ListMembers_def LocalNodeInfo_def LoggedClose_def by (intro asks_rules)+

abbreviation at_state :: "BackupController \<Rightarrow> node_event list \<Rightarrow> 'w backup_agent \<Rightarrow> bool" where
  "at_state m tr s \<equiv> self s = m \<and> trace s = tr"

lemma asks_at_state: "keeps asks f \<Longrightarrow> hoare (at_state m tr) f (\<lambda>_. at_state m tr) (at_state m tr)"
  by (rule hoareI) (auto simp: asks_def dest!: keepsE)

text \<open>A backup that is reported taken was recorded by the store.\<close>

lemma uploadBackup_saves:
  "uploadBackup e st info f s = (r, s') \<Longrightarrow> \<exists>evs. trace s' = trace s @ evs \<and>
    (\<forall>name. r = Ret (Inr name) \<longrightarrow> (\<exists>src sq. EvAddBackup (st_spec st) src sq info (Inr name) \<in> set evs))"
  using keepsD [OF AddBackup_asks]
  by (fastforce simp: uploadBackup_def go_run asks_def split: prod.splits outcome.splits sum.splits dest!: keepsE [OF AddBackup_asks])

definition saved_in :: "vfsStore \<Rightarrow> BackupInfo \<Rightarrow> node_event list \<Rightarrow> bool" where
  "saved_in st info evs \<longleftrightarrow> (\<exists>src sq name. EvAddBackup (st_spec st) src sq info (Inr name) \<in> set evs)"

lemma asks_trace: "keeps asks m \<Longrightarrow> (\<And>tr. P tr \<Longrightarrow> E tr) \<Longrightarrow> hoare (\<lambda>s. P (trace s)) m (\<lambda>_ s. P (trace s)) (\<lambda>s. E (trace s))"
  by (rule hoareI) (auto simp: asks_def dest!: keepsE)

lemma etcd_DoBackup_saves:
  "hoare (\<lambda>s. trace s = tr) (etcd_DoBackup e st info urls tls)
     (\<lambda>r s. \<exists>evs. trace s = tr @ evs \<and> (r \<in> range Inr \<longrightarrow> saved_in st info evs)) (\<lambda>s. \<exists>evs. trace s = tr @ evs)"
proof -
  let ?Q = "\<lambda>(r :: go_error + string) s. \<exists>evs. trace s = tr @ evs \<and> (r \<in> range Inr \<longrightarrow> saved_in st info evs)"
  let ?E = "\<lambda>s. \<exists>evs. trace s = tr @ evs"
  note start = asks_trace [where P = "\<lambda>x. x = tr" and E = "\<lambda>x. \<exists>evs. x = tr @ evs"]
  have upload: "hoare (\<lambda>s. trace s = tr) (uploadBackup e st info f) ?Q ?E" for f
    by (rule hoareI) (fastforce simp: saved_in_def dest: uploadBackup_saves)+
  have remove: "hoare (?Q r) (act g (EvRemoveAll d)) (\<lambda>_. ?Q r) ?E" for g d r
    unfolding saved_in_def by (rule hoareI) (fastforce simp: act_def split: prod.splits)+
  have close: "hoare (?Q r) (bind (ask g) (\<lambda>_. ret r)) ?Q ?E" for g :: "'a \<Rightarrow> go_error option \<times> 'a" and r
    by (rule hoare_bind [OF asks_trace [OF keeps_asks_ask]]) (auto intro: hoare_ret)
  have result: "hoare (?Q r) (bind (act g (EvRemoveAll d)) (\<lambda>_. ret r)) ?Q ?E" for g d r
    by (rule hoare_bind [OF remove], rule hoare_ret)
  have snapshot: "hoare (\<lambda>s. trace s = tr) (case r of Some err \<Rightarrow> ret (Inl (k err)) | None \<Rightarrow> uploadBackup e st info f) ?Q ?E" for r f k
    by (cases r) (auto intro!: upload hoare_ret)
  have error: "hoare (\<lambda>s. trace s = tr) (ret (Inl x)) ?Q ?E" for x
    by (rule hoare_ret) auto
  show ?thesis
    unfolding etcd_DoBackup_def DoBackupV3_def
    by (intro hoare_if error hoare_bind [OF start [OF keeps_asks_ask]] hoare_case_sum hoare_let hoare_bind [OF snapshot close]
        hoare_bind [OF _ result] hoare_bind [OF start [OF agent_client_asks(1)]] hoare_bind [OF start [OF SnapshotSave_asks]]) auto
qed

text \<open>What an iteration at time \<open>t\<close> may change, from the state \<open>m\<close> and the record \<open>tr\<close>.\<close>

definition iterated :: "time \<Rightarrow> BackupController \<Rightarrow> node_event list \<Rightarrow> 'w backup_agent \<Rightarrow> bool" where
  "iterated t m tr s \<longleftrightarrow> at_state m tr s \<or>
     time_sub t (bk_lastBackup m) > bk_backupInterval m \<and>
     (\<exists>evs. trace s = tr @ evs \<and>
       (bk_lastBackup (self s) = bk_lastBackup m \<or> bk_lastBackup (self s) = t \<and> (\<exists>info. saved_in (bk_backupStore m) info evs)))"

lemma agent_doClusterBackup_saves:
  "hoare (at_state m tr) (agent_doClusterBackup e v ms)
     (\<lambda>r s. bk_lastBackup (self s) = bk_lastBackup m \<and> (\<exists>evs. trace s = tr @ evs \<and> (r \<in> range Inr \<longrightarrow> (\<exists>info. saved_in (bk_backupStore m) info evs))))
     (\<lambda>s. bk_lastBackup (self s) = bk_lastBackup m \<and> (\<exists>evs. trace s = tr @ evs))"
proof (rule hoareI)
  fix s s' :: "'a backup_agent" and r
  assume at: "at_state m tr s"
  { assume "agent_doClusterBackup e v ms s = (Ret r, s')"
    then show "bk_lastBackup (self s') = bk_lastBackup m \<and> (\<exists>evs. trace s' = tr @ evs \<and> (r \<in> range Inr \<longrightarrow> (\<exists>info. saved_in (bk_backupStore m) info evs)))"
      using at by (auto simp: agent_doClusterBackup_def go_run zoom_def split: prod.splits dest!: hoare_RetD [OF etcd_DoBackup_saves [where tr = tr], rotated]) }
next
  fix s s' :: "'a backup_agent" and msg
  assume "at_state m tr s" "agent_doClusterBackup e v ms s = (Panic msg, s')"
  then show "bk_lastBackup (self s') = bk_lastBackup m \<and> (\<exists>evs. trace s' = tr @ evs)"
    by (auto simp: agent_doClusterBackup_def go_run zoom_def split: prod.splits dest!: hoare_PanicD [OF etcd_DoBackup_saves [where tr = tr], rotated])
qed

lemma agent_maybeBackup_iterates:
  assumes "clock_at (sx_rt e) t"
  shows "hoare (at_state m tr) (agent_maybeBackup e cfg v ms) (\<lambda>_. iterated t m tr) (iterated t m tr)"
proof -
  let ?due = "time_sub t (bk_lastBackup m) > bk_backupInterval m"
  let ?B = "\<lambda>s :: 'a backup_agent. \<exists>evs info. trace s = tr @ evs \<and> bk_lastBackup (self s) = t \<and> saved_in (bk_backupStore m) info evs"
  have now: "hoare (at_state m tr) (time_now (sx_rt e)) (\<lambda>now s. at_state m tr s \<and> now = t) (iterated t m tr)"
  proof (rule hoareI)
    fix s x s' assume "at_state m tr s" "time_now (sx_rt e) s = (Ret x, s')"
    then show "at_state m tr s' \<and> x = t" using clock_read [OF assms, of s] by auto
  next
    fix s msg s' assume "at_state m tr s" "time_now (sx_rt e) s = (Panic msg, s')"
    then show "iterated t m tr s'" using clock_read [OF assms, of s] by auto
  qed
  have iter: "?due \<Longrightarrow> ?B s \<Longrightarrow> iterated t m tr s" for s :: "'a backup_agent" by (auto simp: iterated_def)
  have clean: "?due \<Longrightarrow> hoare ?B (MaybeDoBackupMaintenance (sx_vfs e) cfg c) (\<lambda>_. ?B) (iterated t m tr)" for c
    by (rule hoareI) (auto simp: asks_def iterated_def dest!: keepsE [OF MaybeDoBackupMaintenance_asks])
  have store: "?due \<Longrightarrow> hoare ?B (bind (upd_self (\<lambda>m. m\<lparr>bk_backupCleanup := cleanup\<rparr>)) (\<lambda>_. ret None)) (\<lambda>_. iterated t m tr) (iterated t m tr)" for cleanup
    by (rule hoare_bind [where R = "\<lambda>_. ?B"], rule hoare_upd_self, simp, rule hoare_ret, rule iter)
  have note_time: "?due \<Longrightarrow> hoare (\<lambda>s. \<exists>evs info. trace s = tr @ evs \<and> saved_in (bk_backupStore m) info evs)
      (upd_self (\<lambda>m. m\<lparr>bk_lastBackup := t\<rparr>)) (\<lambda>_. ?B) (iterated t m tr)"
    by (rule hoare_upd_self) simp
  have rest: "?due \<Longrightarrow> hoare ?B (bind (MaybeDoBackupMaintenance (sx_vfs e) cfg c) (\<lambda>(_, cleanup).
      bind (upd_self (\<lambda>m. m\<lparr>bk_backupCleanup := cleanup\<rparr>)) (\<lambda>_. ret None))) (\<lambda>_. iterated t m tr) (iterated t m tr)" for c
    by (rule hoare_bind [OF clean], assumption, rule hoare_case_prod, rule store)
  have after: "?due \<Longrightarrow> hoare (\<lambda>s. bk_lastBackup (self s) = bk_lastBackup m \<and>
        (\<exists>evs. trace s = tr @ evs \<and> (r \<in> range Inr \<longrightarrow> (\<exists>info. saved_in (bk_backupStore m) info evs))))
      (case r of Inl err \<Rightarrow> ret (Some err)
       | Inr _ \<Rightarrow> bind (upd_self (\<lambda>m. m\<lparr>bk_lastBackup := t\<rparr>)) (\<lambda>_.
           bind (MaybeDoBackupMaintenance (sx_vfs e) cfg c) (\<lambda>(_, cleanup).
           bind (upd_self (\<lambda>m. m\<lparr>bk_backupCleanup := cleanup\<rparr>)) (\<lambda>_. ret None))))
      (\<lambda>_. iterated t m tr) (iterated t m tr)" for r :: "go_error + string" and c
    by (cases r) (auto simp: iterated_def [abs_def] intro!: hoare_ret hoare_conseq [OF hoare_bind [OF note_time rest]])
  have take: "?due \<Longrightarrow> hoare (at_state m tr) (agent_doClusterBackup e v ms) (\<lambda>r s. bk_lastBackup (self s) = bk_lastBackup m \<and>
      (\<exists>evs. trace s = tr @ evs \<and> (r \<in> range Inr \<longrightarrow> (\<exists>info. saved_in (bk_backupStore m) info evs)))) (iterated t m tr)"
    by (rule hoare_conseq [OF agent_doClusterBackup_saves]) (auto simp: iterated_def)
  show ?thesis
    unfolding agent_maybeBackup_def
  proof (rule hoare_bind [OF now], rule hoare_pure, rule hoare_read)
    fix now and s :: "'a backup_agent" assume now: "now = t" and s: "at_state m tr s"
    show "hoare (\<lambda>u. u = s) (if \<not> time_sub now (bk_lastBackup (self s)) > bk_backupInterval (self s) then ret None
      else bind (agent_doClusterBackup e v ms) (\<lambda>r. case r of Inl err \<Rightarrow> ret (Some err)
       | Inr _ \<Rightarrow> bind (upd_self (\<lambda>m. m\<lparr>bk_lastBackup := now\<rparr>)) (\<lambda>_.
           bind (MaybeDoBackupMaintenance (sx_vfs e) cfg (bk_backupCleanup (self s))) (\<lambda>(_, cleanup).
           bind (upd_self (\<lambda>m. m\<lparr>bk_backupCleanup := cleanup\<rparr>)) (\<lambda>_. ret None))))) (\<lambda>_. iterated t m tr) (iterated t m tr)"
      unfolding now using s
      by (intro hoare_if hoare_at [OF hoare_bind [OF take after]] hoare_ret) (auto simp: iterated_def)
  qed
qed

lemma asks_iterated: "keeps asks f \<Longrightarrow> hoare (at_state m tr) f (\<lambda>_. at_state m tr) (iterated t m tr)"
  by (rule hoare_conseq [OF asks_at_state]) (auto simp: iterated_def)

lemma agent_run_iterates:
  assumes "clock_at (sx_rt e) t"
  shows "hoare (at_state m tr) (agent_run e cfg) (\<lambda>_. iterated t m tr) (iterated t m tr)"
proof -
  have stay: "hoare (at_state m tr) (ret x) (\<lambda>_. iterated t m tr) (iterated t m tr)"
    "hoare (at_state m tr) (panic msg) (\<lambda>_. iterated t m tr) (iterated t m tr)" for x :: "go_error option" and msg
    by (auto simp: iterated_def intro!: hoare_ret hoare_panic)
  show ?thesis
    unfolding agent_run_def
    by (intro hoare_let hoare_bind [OF asks_iterated] hoare_case_sum hoare_case_option hoare_if stay keeps_asks_get_self agent_client_asks
        agent_maybeBackup_iterates [OF assms])
qed

section \<open>An example\<close>

definition agent_env :: "unit server_env" where
  "agent_env = (example_env False)\<lparr>sx_proc := (example_proc False)\<lparr>px_rt := const_rt hour\<rparr>,
     sx_vfs := example_vfs\<lparr>vf_rt := const_rt hour, vf_InfoToJson := (\<lambda>_. Inr ''info'')\<rparr>\<rparr>"

definition new_agent :: "unit backup_agent" where
  "new_agent = \<lparr>self = \<lparr>bk_clusterName = ''main'', bk_backupStore = NewVFSStore ''/backups'', bk_dataDir = ''/data'',
       bk_clientUrls = [''http://127.0.0.1:4001''], bk_etcdClientTLSConfig = None, bk_lastBackup = 0, bk_backupInterval = 15 * minute,
       bk_backupCleanup = NewBackupCleanup (NewVFSStore ''/backups''), bk_sequence = 0\<rparr>, world = (), trace = []\<rparr>"

definition agent_retention :: retention where
  "agent_retention = \<lparr>HourlyBackupsRetention = 7 * 24 * hour, DailyBackupsRetention = 365 * 24 * hour\<rparr>"

lemmas agent_sel = agent_env_def example_env_def example_proc_def example_vfs_def mem_api_def const_rt_def

section \<open>Properties\<close>



end
