(* ===== verification/Manager.thy ===== *)
theory Manager
  imports Controller Backup_Controller Mounting Hosts Urls
begin

text \<open>
  The main program (\<^verbatim>\<open>cmd/etcd-manager/main.go\<close>): how the components are put together when a node starts. Its options, the choice of
  the volume provider and of the discovery, the identity of the node (\<^verbatim>\<open>pkg/privateapi/id.go\<close>), the transport security of the peer
  service (\<^verbatim>\<open>pkg/tlsconfig\<close>) and the two discoveries that need no cloud (\<^verbatim>\<open>pkg/static/discovery.go\<close>,
  \<^verbatim>\<open>pkg/privateapi/discovery/vfs\<close>). The constructors it calls are those of the other theories; the providers, the local file
  system and the network are parameters. \<^verbatim>\<open>os.Exit(1)\<close> ends the process as a panic does.
\<close>

section \<open>Options\<close>

record EtcdManagerOptions =
  o_PKIDir :: string
  o_Address :: string
  o_VolumeProviderID :: string
  o_PeerUrls :: string
  o_GrpcPort :: int
  o_ClientUrls :: string
  o_QuarantineClientUrls :: string
  o_ClusterName :: string
  o_ListenAddress :: string
  o_BackupStorePath :: string
  o_DataDir :: string
  o_VolumeTags :: "string list"
  o_NameTag :: string
  o_BackupInterval :: string
  o_DiscoveryPollInterval :: string
  o_StaticConfig :: string
  o_DNSSuffix :: string
  o_ControlRefreshInterval :: duration
  o_Insecure :: bool
  o_EtcdInsecure :: bool
  o_ListenMetricsURLs :: string
  o_EtcdManagerMetricsPort :: int
  o_NetworkCIDR :: string

definition InitDefaults :: "EtcdManagerOptions \<Rightarrow> EtcdManagerOptions" where
  "InitDefaults opts = opts\<lparr>o_BackupInterval := ''15m'', o_DiscoveryPollInterval := ''60s'', o_ClientUrls := ''https://__address__:4001'',
     o_QuarantineClientUrls := ''https://__address__:8001'', o_PeerUrls := ''https://__address__:2380'', o_GrpcPort := 8000,
     o_ListenAddress := ''0.0.0.0'', o_ControlRefreshInterval := 10 * 365 * 24 * hour, o_PKIDir := ''/etc/kubernetes/pki/etcd-manager'',
     o_Insecure := False, o_EtcdInsecure := False, o_EtcdManagerMetricsPort := 0\<rparr>"

text \<open>\<^verbatim>\<open>strings.Replace(s, old, new, -1)\<close> for an \<open>old\<close> that is not empty.\<close>

function replace_all :: "string \<Rightarrow> string \<Rightarrow> string \<Rightarrow> string" where
  "replace_all old by [] = []"
| "replace_all old by (c # s) = (if old \<noteq> [] \<and> HasPrefix (c # s) old then by @ replace_all old by (drop (length old - 1) s)
     else c # replace_all old by s)"
  by pat_completeness auto
termination by (relation "measure (\<lambda>(_, _, s). length s)") auto

definition expandUrls :: "string \<Rightarrow> string \<Rightarrow> string \<Rightarrow> string list" where
  "expandUrls urls address name =
     map (\<lambda>s. replace_all ''__name__'' name (replace_all ''__address__'' address s)) (split_on (CHR '','') urls)"

section \<open>The environment\<close>

datatype provider = Aws | Gce | Openstack | Digitalocean | Hetzner | Linode | Azure | Scaleway | External

datatype discovery =
    ProviderDiscovery provider
  | SeedDiscovery string
  | StaticDiscovery Config
  | VFSDiscovery string Node

record server_tls =
  gs_RequireClientCert :: bool
  gs_ClientCAs :: "certificate list"
  gs_ServerName :: string
  gs_Certificate :: certificate
  gs_PrivateKey :: rsa_key

record running =
  rn_peerServer :: Server
  rn_serverTLS :: "server_tls option"
  rn_clientTLS :: "tls_Config option"
  rn_discovery :: discovery
  rn_discoveryPollInterval :: duration
  rn_dnsKey :: string
  rn_etcdServer :: EtcdServer
  rn_controller :: EtcdController
  rn_grpcEndpoint :: string

datatype mgr_event =
    EvVolumes mount_event
  | EvMkdirAll string "go_error option"
  | EvCreateFile string string "go_error option"
  | EvPublish string string "go_error option"
  | EvServerCall node_event
  | EvGo string
  | EvServe running "go_error option"

text \<open>The local files, as far as the identity of the node needs them; \<open>fx_token\<close> is \<^verbatim>\<open>randomToken\<close>.\<close>

record 'w file_env =
  fx_token :: "'w \<Rightarrow> string \<times> 'w"
  fx_MkdirAll :: "string \<Rightarrow> 'w \<Rightarrow> go_error option \<times> 'w"
  fx_ReadFile :: "string \<Rightarrow> 'w \<Rightarrow> (go_error + string) \<times> 'w"
  fx_OpenExcl :: "string \<Rightarrow> 'w \<Rightarrow> go_error option \<times> 'w"
  fx_WriteOpen :: "string \<Rightarrow> string \<Rightarrow> 'w \<Rightarrow> (nat \<times> go_error option) \<times> 'w"
  fx_CloseFile :: "string \<Rightarrow> 'w \<Rightarrow> go_error option \<times> 'w"

text \<open>
  A provider is built from the directory of the volumes (for external volumes), the cluster name, the tags, the name tag and (for OpenStack)
  the network; it is its operations and its address.
\<close>

record 'w mgr_env =
  bx_server :: "'w server_env"
  bx_ctl :: "'w ctl_env"
  bx_Containerized :: bool
  bx_StaticFromJson :: "string \<Rightarrow> go_error + Config"
  bx_ParseCIDR :: "string \<Rightarrow> go_error + string"
  bx_ParseDuration :: "string \<Rightarrow> go_error + duration"
  bx_ParseIP :: "string \<Rightarrow> string option"
  bx_NewProvider :: "provider \<Rightarrow> string \<Rightarrow> string \<Rightarrow> string list \<Rightarrow> string \<Rightarrow> string option \<Rightarrow> 'w \<Rightarrow> (go_error + 'w mount_env \<times> ('w, go_error + string) go) \<times> 'w"
  bx_rounds :: nat
  bx_files :: "'w file_env"
  bx_ReadDir :: "string \<Rightarrow> 'w \<Rightarrow> (go_error + string list) \<times> 'w"
  bx_NodeToJson :: "Node \<Rightarrow> go_error + string"
  bx_NodeFromJson :: "string \<Rightarrow> go_error + Node"
  bx_ListenAndServe :: "string \<Rightarrow> 'w \<Rightarrow> go_error option \<times> 'w"

type_synonym ('st, 'w) mgr = "('st, 'w, mgr_event) sys"

abbreviation bx_pki :: "'w mgr_env \<Rightarrow> 'w pki_env" where "bx_pki e \<equiv> px_pki (sx_proc (bx_server e))"
abbreviation bx_vfs :: "'w mgr_env \<Rightarrow> 'w vfs_env" where "bx_vfs e \<equiv> sx_vfs (bx_server e)"

text \<open>Going on with the value, or returning the error; and a component run on a state of its own.\<close>

definition check :: "('s, 'e + 'a) go \<Rightarrow> ('a \<Rightarrow> ('s, 'e + 'b) go) \<Rightarrow> ('s, 'e + 'b) go" where
  "check m f = bind m (\<lambda>r. case r of Inl err \<Rightarrow> ret (Inl err) | Inr x \<Rightarrow> f x)"

definition sub :: "('ev \<Rightarrow> mgr_event) \<Rightarrow> 'c \<Rightarrow> (('c, 'w, 'ev) sys, 'a) go \<Rightarrow> (('st, 'w) mgr, 'a \<times> 'c) go" where
  "sub tag st m = (\<lambda>s. case m \<lparr>self = st, world = world s, trace = []\<rparr> of
     (r, s') \<Rightarrow> (case r of Ret x \<Rightarrow> Ret (x, self s') | Panic msg \<Rightarrow> Panic msg, s\<lparr>world := world s', trace := trace s @ map tag (trace s')\<rparr>))"

section \<open>Checking the options\<close>

definition ParseStaticConfig :: "'w mgr_env \<Rightarrow> string \<Rightarrow> go_error + Config" where
  "ParseStaticConfig e config = (case bx_StaticFromJson e config of Inl err \<Rightarrow> Inl (Wrap ''parsing config'' err) | Inr c \<Rightarrow> Inr c)"

definition static_config :: "'w mgr_env \<Rightarrow> EtcdManagerOptions \<Rightarrow> go_error + Config option" where
  "static_config e opts = (if o_StaticConfig opts = [] then Inr None
     else (case ParseStaticConfig e (o_StaticConfig opts) of Inl err \<Rightarrow> Inl (Wrap ''invalid static-config'' err) | Inr c \<Rightarrow> Inr (Some c)))"

definition network_CIDR :: "'w mgr_env \<Rightarrow> EtcdManagerOptions \<Rightarrow> go_error + string option" where
  "network_CIDR e opts = (if o_NetworkCIDR opts = [] then Inr None
     else if o_VolumeProviderID opts \<noteq> ''openstack'' then Inl (Errorf ''network-cidr is only supported with provider openstack'')
     else (case bx_ParseCIDR e (o_NetworkCIDR opts) of Inl err \<Rightarrow> Inl (Wrap ''parsing network-cidr'' err) | Inr c \<Rightarrow> Inr (Some c)))"

definition check_options :: "'w mgr_env \<Rightarrow> EtcdManagerOptions \<Rightarrow> go_error + Config option \<times> string option \<times> duration" where
  "check_options e opts =
     (if o_ClusterName opts = [] then Inl (Errorf ''cluster-name is required'')
      else if o_BackupStorePath opts = [] then Inl (Errorf ''backup-store is required'')
      else (case static_config e opts of
        Inl err \<Rightarrow> Inl err
      | Inr staticConfig \<Rightarrow> (case network_CIDR e opts of
          Inl err \<Rightarrow> Inl err
        | Inr networkCIDR \<Rightarrow> (case bx_ParseDuration e (o_BackupInterval opts) of
            Inl _ \<Rightarrow> Inl (Errorf ''invalid backup-interval duration'')
          | Inr backupInterval \<Rightarrow> Inr (staticConfig, networkCIDR, backupInterval)))))"

section \<open>Volumes\<close>

definition provider_of :: "string \<Rightarrow> provider option" where
  "provider_of i = (if i = ''aws'' then Some Aws else if i = ''gce'' then Some Gce else if i = ''openstack'' then Some Openstack
     else if i = ''do'' then Some Digitalocean else if i = ''hetzner'' then Some Hetzner else if i = ''linode'' then Some Linode
     else if i = ''azure'' then Some Azure else if i = ''scaleway'' then Some Scaleway else if i = ''external'' then Some External else None)"

definition volume_dir :: "'w mgr_env \<Rightarrow> provider \<Rightarrow> ('s, string) go" where
  "volume_dir e p = (if p = External then PathFor (bx_Containerized e) ''/mnt/disks'' else ret [])"

definition discovery_of :: "'w mgr_env \<Rightarrow> Config option \<Rightarrow> provider \<Rightarrow> ('s, discovery) go" where
  "discovery_of e staticConfig p =
     (if p \<noteq> External then ret (ProviderDiscovery p)
      else (case staticConfig of
        None \<Rightarrow> bind (PathFor (bx_Containerized e) ''/etc/kubernetes/etcd-manager/seeds'') (\<lambda>seedDir. ret (SeedDiscovery seedDir))
      | Some c \<Rightarrow> ret (StaticDiscovery c)))"

definition exit_1 :: "('s, 'a) go" where
  "exit_1 = panic ''exit status 1''"

text \<open>The volume that was mounted, the address of the node and the discovery.\<close>

definition find_volume :: "'w mgr_env \<Rightarrow> EtcdManagerOptions \<Rightarrow> Config option \<Rightarrow> string option
    \<Rightarrow> (('st, 'w) mgr, go_error + Volume \<times> string \<times> discovery) go" where
  "find_volume e opts staticConfig networkCIDR = (case provider_of (o_VolumeProviderID opts) of
     None \<Rightarrow> exit_1
   | Some p \<Rightarrow>
     bind (volume_dir e p) (\<lambda>volumeDir.
     bind (ask (bx_NewProvider e p volumeDir (o_ClusterName opts) (o_VolumeTags opts) (o_NameTag opts) networkCIDR)) (\<lambda>r. case r of
       Inl _ \<Rightarrow> exit_1
     | Inr (menv, myIP) \<Rightarrow>
       bind (discovery_of e staticConfig p) (\<lambda>disco.
       bind (sub EvVolumes newVolumeMountController (WaitForVolumes (bx_rounds e) menv)) (\<lambda>(volumes, _). case volumes of
         [] \<Rightarrow> ret (Inl (Errorf ''no volumes were mounted''))
       | v # vs \<Rightarrow>
         if vs \<noteq> [] then ret (Inl (Errorf ''multiple volumes were mounted''))
         else bind (call myIP) (\<lambda>r. ret (case r of Inl err \<Rightarrow> Inl err | Inr address \<Rightarrow> Inr (v, address, disco))))))))"

section \<open>Identity\<close>

definition CreateFile :: "'w file_env \<Rightarrow> string \<Rightarrow> string \<Rightarrow> (('st, 'w) mgr, go_error option) go" where
  "CreateFile e p data =
     bind (ask (fx_OpenExcl e p)) (\<lambda>r. case r of
       Some err \<Rightarrow> ret (Some err)
     | None \<Rightarrow>
       bind (ask (fx_WriteOpen e p data)) (\<lambda>(n, err).
       let err = (if err = None \<and> n < length data then Some (Errorf ''short write'') else err) in
       bind (ask (fx_CloseFile e p)) (\<lambda>err1. ret (if err = None then err1 else err))))"

definition PersistentPeerId :: "'w file_env \<Rightarrow> string \<Rightarrow> (('st, 'w) mgr, go_error + string) go" where
  "PersistentPeerId e basedir = (let idFile = filepath_Join [basedir, ''myid''] in
     bind (ask (fx_ReadFile e idFile)) (\<lambda>r. case r of
       Inr b \<Rightarrow> ret (Inr b)
     | Inl err \<Rightarrow>
         if err \<noteq> NotExist then ret (Inl (Wrap ''error reading id file'' err))
         else
           bind (ask (fx_token e)) (\<lambda>token.
           bind (act (fx_MkdirAll e basedir) (EvMkdirAll basedir)) (\<lambda>r. case r of
             Some err \<Rightarrow> ret (Inl (Wrap ''error creating directories'' err))
           | None \<Rightarrow>
             bind (CreateFile e idFile token) (\<lambda>r.
             bind (emit (EvCreateFile idFile token r)) (\<lambda>_. ret (case r of
               Some err \<Rightarrow> Inl (Wrap ''error creating id file'' err)
             | None \<Rightarrow> Inr token)))))))"

section \<open>Discovery without a cloud\<close>

definition static_Poll :: "Config \<Rightarrow> Node gomap" where
  "static_Poll config = fold (\<lambda>n nodes. gm_update (cn_ID n)
     \<lparr>dn_ID = cn_ID n, dn_Endpoints = map (\<lambda>ip. \<lparr>ne_IP = ip, ne_Port = 0\<rparr>) (cn_IP n)\<rparr> nodes) (cfg_Nodes config) []"

definition publish :: "'w mgr_env \<Rightarrow> string \<Rightarrow> Node \<Rightarrow> (('st, 'w) mgr, go_error option) go" where
  "publish e base me =
     (if dn_ID me = [] then ret (Some (Errorf ''DiscoveryNode does not have ID set''))
      else (case bx_NodeToJson e me of
        Inl err \<Rightarrow> ret (Some (Wrap ''error marshalling to JSON'' err))
      | Inr meJson \<Rightarrow> let p = vf_Join (bx_vfs e) base [dn_ID me] in
          bind (act (vf_WriteFile (bx_vfs e) p meJson) (EvPublish p meJson)) (\<lambda>r.
          ret (map_option (Wrap ''error writing file'') r))))"

definition NewVFSDiscovery :: "'w mgr_env \<Rightarrow> string \<Rightarrow> Node \<Rightarrow> (('st, 'w) mgr, go_error + discovery) go" where
  "NewVFSDiscovery e base me =
     bind (publish e base me) (\<lambda>r. ret (case r of Some err \<Rightarrow> Inl err | None \<Rightarrow> Inr (VFSDiscovery base me)))"

definition vfs_Poll :: "'w mgr_env \<Rightarrow> string \<Rightarrow> (('st, 'w) mgr, go_error + Node gomap) go" where
  "vfs_Poll e base =
     bind (ask (bx_ReadDir e base)) (\<lambda>r. case r of
       Inl err \<Rightarrow> ret (Inl (Wrap ''error reading directory'' err))
     | Inr files \<Rightarrow>
       bind (for_each files [] (\<lambda>p nodes.
         bind (ask (vf_ReadFile (bx_vfs e) p)) (\<lambda>r. ret (case r of
           Inl _ \<Rightarrow> Next nodes
         | Inr data \<Rightarrow> (case bx_NodeFromJson e data of
             Inl _ \<Rightarrow> (Next nodes :: (Node gomap, unit) loop)
           | Inr node \<Rightarrow> Next (gm_update (vf_Base (bx_vfs e) p) node nodes)))))) (\<lambda>r.
       ret (Inr (case r of Next nodes \<Rightarrow> nodes | Stop _ \<Rightarrow> []))))"

section \<open>Transport security\<close>

definition ensure_in :: "'w mgr_env \<Rightarrow> string \<Rightarrow> CA \<Rightarrow> string \<Rightarrow> cert_config \<Rightarrow> (('st, 'w) mgr, go_error + certificate \<times> rsa_key) go" where
  "ensure_in e dir ca name config =
     check (EnsureKeypair (bx_pki e) (FSStore_Keypair (bx_pki e) dir name) ca config) (\<lambda>keypair.
       case (kp_Certificate keypair, kp_PrivateKey keypair) of
         (Some cert, Some k) \<Rightarrow> ret (Inr (cert, k))
       | _ \<Rightarrow> panic ''nil pointer dereference'')"

definition GRPCClientConfig :: "'w mgr_env \<Rightarrow> string \<Rightarrow> CA \<Rightarrow> string \<Rightarrow> (('st, 'w) mgr, go_error + tls_Config) go" where
  "GRPCClientConfig e dir ca myPeerID = (let name = ''etcd-manager-client-'' @ myPeerID in
     check (ensure_in e dir ca name \<lparr>cc_CommonName = name, cc_Organization = [], cc_DNSNames = [], cc_IPs = [], cc_Usages = [ClientAuth]\<rparr>)
       (\<lambda>(cert, k). ret (Inr \<lparr>tc_RootCAs = ca_certificates ca, tc_Certificate = cert, tc_PrivateKey = k\<rparr>)))"

definition GRPCServerConfig :: "'w mgr_env \<Rightarrow> string \<Rightarrow> CA \<Rightarrow> string \<Rightarrow> (('st, 'w) mgr, go_error + server_tls) go" where
  "GRPCServerConfig e dir ca myPeerID = (let name = ''etcd-manager-server-'' @ myPeerID in
     check (ensure_in e dir ca name \<lparr>cc_CommonName = name, cc_Organization = [], cc_DNSNames = [name], cc_IPs = [], cc_Usages = [ServerAuth]\<rparr>)
       (\<lambda>(cert, k). ret (Inr \<lparr>gs_RequireClientCert = True, gs_ClientCAs = ca_certificates ca, gs_ServerName = name,
         gs_Certificate = cert, gs_PrivateKey = k\<rparr>)))"

definition grpc_security :: "'w mgr_env \<Rightarrow> EtcdManagerOptions \<Rightarrow> string \<Rightarrow> (('st, 'w) mgr, go_error + (server_tls \<times> tls_Config) option) go" where
  "grpc_security e opts myPeerId =
     (if o_Insecure opts then ret (Inr None)
      else if o_PKIDir opts = [] then ret (Inl (Errorf ''pki-dir is required for secure configurations''))
      else check (LoadCA (bx_pki e) (o_PKIDir opts) ''etcd-manager-ca'') (\<lambda>ca.
        check (GRPCServerConfig e (o_PKIDir opts) ca myPeerId) (\<lambda>server.
        check (GRPCClientConfig e (o_PKIDir opts) ca myPeerId) (\<lambda>client. ret (Inr (Some (server, client)))))))"

definition wrapped :: "string \<Rightarrow> ('s, go_error + 'a) go \<Rightarrow> ('s, go_error + 'a) go" where
  "wrapped msg m = bind m (\<lambda>r. ret (case r of Inl err \<Rightarrow> Inl (Wrap msg err) | Inr x \<Rightarrow> Inr x))"

definition etcd_security :: "'w mgr_env \<Rightarrow> EtcdManagerOptions \<Rightarrow> (('st, 'w) mgr, go_error + (CA \<times> CA) option) go" where
  "etcd_security e opts =
     (if o_EtcdInsecure opts then ret (Inr None)
      else if o_PKIDir opts = [] then ret (Inl (Errorf ''pki-dir is required for secure configurations''))
      else check (wrapped ''error loading etcd-peers-ca keypair'' (LoadCA (bx_pki e) (o_PKIDir opts) ''etcd-peers-ca'')) (\<lambda>peersCA.
        check (wrapped ''error loading etcd-clients-ca keypair'' (LoadCA (bx_pki e) (o_PKIDir opts) ''etcd-clients-ca'')) (\<lambda>clientsCA.
        ret (Inr (Some (peersCA, clientsCA))))))"

section \<open>The etcd server\<close>

definition member_name :: "EtcdManagerOptions \<Rightarrow> string \<Rightarrow> string" where
  "member_name opts myPeerId = (if o_DNSSuffix opts = [] then myPeerId
     else (if HasSuffix myPeerId ''.'' then myPeerId else myPeerId @ ''.'') @ TrimPrefix (o_DNSSuffix opts) ''.'')"

definition node_urls :: "EtcdManagerOptions \<Rightarrow> string \<Rightarrow> string \<Rightarrow> string \<Rightarrow> string list" where
  "node_urls opts name address urls = (let expanded = expandUrls urls address name in
     if o_EtcdInsecure opts then RewriteScheme expanded https http else expanded)"

definition node_info :: "EtcdManagerOptions \<Rightarrow> string \<Rightarrow> string \<Rightarrow> EtcdNode" where
  "node_info opts myPeerId address = (let name = member_name opts myPeerId in
     \<lparr>en_Name = myPeerId, en_PeerUrls = node_urls opts name address (o_PeerUrls opts),
      en_ClientUrls = node_urls opts name address (o_ClientUrls opts),
      en_QuarantinedClientUrls = node_urls opts name address (o_QuarantineClientUrls opts), en_TlsEnabled = False\<rparr>)"

definition NewEtcdServer :: "'w mgr_env \<Rightarrow> string \<Rightarrow> string \<Rightarrow> string \<Rightarrow> string list \<Rightarrow> EtcdNode \<Rightarrow> CA option \<Rightarrow> CA option \<Rightarrow> string list
    \<Rightarrow> (('st, 'w) mgr, go_error + EtcdServer) go" where
  "NewEtcdServer e baseDir clusterName listenAddress listenMetricsURLs node clientsCA peersCA peerClientIPs =
     bind (sub EvServerCall \<lparr>s_baseDir = baseDir, s_etcdNodeConfiguration = node, s_clusterName = clusterName, s_state = None,
         s_prepared = None, s_process = None, s_listenAddress = listenAddress, s_etcdClientsCA = clientsCA, s_etcdPeersCA = peersCA,
         s_listenMetricsURLs = listenMetricsURLs, s_peerClientIPs = peerClientIPs, s_sequence = 0\<rparr> (initState (bx_server e))) (\<lambda>(r, server).
     ret (case r of Some err \<Rightarrow> Inl err | None \<Rightarrow> Inr server))"

section \<open>Starting\<close>

text \<open>What is known of the node after its volume was found: identity, address, data directory and discovery.\<close>

record found =
  fd_peerId :: string
  fd_address :: string
  fd_dataDir :: string
  fd_discovery :: "discovery option"

definition find_data :: "'w mgr_env \<Rightarrow> EtcdManagerOptions \<Rightarrow> Config option \<Rightarrow> string option \<Rightarrow> (('st, 'w) mgr, go_error + found) go" where
  "find_data e opts staticConfig networkCIDR =
     (if o_VolumeProviderID opts = [] then ret (Inr \<lparr>fd_peerId = [], fd_address = o_Address opts, fd_dataDir = o_DataDir opts, fd_discovery = None\<rparr>)
      else check (find_volume e opts staticConfig networkCIDR) (\<lambda>(v, address, disco).
        ret (Inr \<lparr>fd_peerId = v_EtcdName v, fd_address = address, fd_dataDir = v_Mountpoint v, fd_discovery = Some disco\<rparr>)))"

definition identify :: "'w mgr_env \<Rightarrow> found \<Rightarrow> (('st, 'w) mgr, go_error + found) go" where
  "identify e fd =
     bind (act (fx_MkdirAll (bx_files e) (fd_dataDir fd)) (EvMkdirAll (fd_dataDir fd))) (\<lambda>r. case r of
       Some err \<Rightarrow> ret (Inl (Wrap ''error doing mkdirs on base directory'' err))
     | None \<Rightarrow>
       check (if fd_peerId fd \<noteq> [] then ret (Inr (fd_peerId fd))
              else wrapped ''error getting persistent peer id'' (PersistentPeerId (bx_files e) (fd_dataDir fd))) (\<lambda>peerId.
       ret (Inr (fd\<lparr>fd_peerId := peerId, fd_address := if fd_address fd = [] then ''127.0.0.1'' else fd_address fd\<rparr>))))"

definition discover :: "'w mgr_env \<Rightarrow> EtcdManagerOptions \<Rightarrow> found \<Rightarrow> (('st, 'w) mgr, go_error + discovery) go" where
  "discover e opts fd = (case fd_discovery fd of
     Some disco \<Rightarrow> ret (Inr disco)
   | None \<Rightarrow> (case vf_BuildVfsPath (bx_vfs e) ''file:///tmp/discovery'' of
       Inl err \<Rightarrow> ret (Inl (Wrap ''error parsing vfs path'' err))
     | Inr p \<Rightarrow> wrapped ''error building discovery'' (NewVFSDiscovery e p
         \<lparr>dn_ID = fd_peerId fd, dn_Endpoints = [\<lparr>ne_IP = fd_address fd, ne_Port = o_GrpcPort opts\<rparr>]\<rparr>)))"

definition stores :: "'w mgr_env \<Rightarrow> EtcdManagerOptions \<Rightarrow> Config option \<Rightarrow> string \<Rightarrow> (('st, 'w) mgr, go_error + vfsStore \<times> control_store) go" where
  "stores e opts staticConfig dataDir = (case NewStore (bx_vfs e) (o_BackupStorePath opts) of
     Inl err \<Rightarrow> ret (Inl (Wrap ''error initializing backup store'' err))
   | Inr backupStore \<Rightarrow> (case staticConfig of
       Some c \<Rightarrow> ret (Inr (backupStore, StaticControl c dataDir))
     | None \<Rightarrow> (case commands_NewStore (cx_cmd (bx_ctl e)) (o_BackupStorePath opts) of
         Inl _ \<Rightarrow> panic ''error initializing command store''
       | Inr control \<Rightarrow> ret (Inr (backupStore, control)))))"

text \<open>The rest of \<^verbatim>\<open>RunEtcdManager\<close> in the order of the code, one definition for each of its stages; the last stage comes first here.\<close>

definition start_etcd :: "'w mgr_env \<Rightarrow> EtcdManagerOptions \<Rightarrow> duration \<Rightarrow> found \<Rightarrow> discovery \<Rightarrow> (server_tls \<times> tls_Config) option \<Rightarrow> (CA \<times> CA) option
    \<Rightarrow> duration \<Rightarrow> Server \<Rightarrow> vfsStore \<times> control_store \<Rightarrow> string list \<Rightarrow> (('st, 'w) mgr, go_error + running) go" where
  "start_etcd e opts backupInterval fd disco grpcTLS cas discoveryPollInterval peerServer st peerClientIPs =
     check (wrapped ''error initializing etcd server'' (NewEtcdServer e (fd_dataDir fd) (o_ClusterName opts) (o_ListenAddress opts)
         (expandUrls (o_ListenMetricsURLs opts) (fd_address fd) (member_name opts (fd_peerId fd))) (node_info opts (fd_peerId fd) (fd_address fd))
         (map_option snd cas) (map_option fst cas) peerClientIPs)) (\<lambda>etcdServer.
     bind (emit (EvGo ''etcd server'')) (\<lambda>_.
     check (wrapped ''error building etcd controller'' (NewEtcdController (bx_ctl e) False (fst st) backupInterval (snd st)
         (o_ControlRefreshInterval opts) (o_ClusterName opts) (o_DNSSuffix opts) (fd_peerId fd) (map_option snd cas) (o_EtcdInsecure opts))) (\<lambda>controller.
     bind (emit (EvGo ''controller'')) (\<lambda>_.
     ret (Inr \<lparr>rn_peerServer = peerServer, rn_serverTLS = map_option fst grpcTLS, rn_clientTLS = map_option snd grpcTLS, rn_discovery = disco,
       rn_discoveryPollInterval = discoveryPollInterval, rn_dnsKey = ''etcd-manager['' @ o_ClusterName opts @ '']'',
       rn_etcdServer = etcdServer, rn_controller = controller, rn_grpcEndpoint = JoinHostPort (fd_address fd) (o_GrpcPort opts)\<rparr>)))))"

definition start_servers :: "'w mgr_env \<Rightarrow> EtcdManagerOptions \<Rightarrow> Config option \<Rightarrow> duration \<Rightarrow> found \<Rightarrow> discovery
    \<Rightarrow> (server_tls \<times> tls_Config) option \<Rightarrow> (CA \<times> CA) option \<Rightarrow> (('st, 'w) mgr, go_error + running) go" where
  "start_servers e opts staticConfig backupInterval fd disco grpcTLS cas =
     check (ret (case bx_ParseDuration e (o_DiscoveryPollInterval opts) of
       Inl _ \<Rightarrow> Inl (Errorf ''invalid discovery-poll-interval duration'') | Inr d \<Rightarrow> Inr d)) (\<lambda>discoveryPollInterval.
     check (wrapped ''error building server'' (ret (NewServer
         (Some \<lparr>pi_Id = fd_peerId fd, pi_Endpoints = [JoinHostPort (fd_address fd) (o_GrpcPort opts)]\<rparr>) (o_GrpcPort opts) (o_DNSSuffix opts)))) (\<lambda>peerServer.
     check (stores e opts staticConfig (fd_dataDir fd)) (\<lambda>st.
     check (ret (case bx_ParseIP e (fd_address fd) of None \<Rightarrow> Inl (Errorf ''unable to parse address'') | Some ip \<Rightarrow> Inr [ip]))
       (start_etcd e opts backupInterval fd disco grpcTLS cas discoveryPollInterval peerServer st))))"

definition start_security :: "'w mgr_env \<Rightarrow> EtcdManagerOptions \<Rightarrow> Config option \<Rightarrow> duration \<Rightarrow> found \<Rightarrow> (('st, 'w) mgr, go_error + running) go" where
  "start_security e opts staticConfig backupInterval fd =
     check (discover e opts fd) (\<lambda>disco.
     check (grpc_security e opts (fd_peerId fd)) (\<lambda>grpcTLS.
     check (etcd_security e opts) (start_servers e opts staticConfig backupInterval fd disco grpcTLS)))"

definition start_identity :: "'w mgr_env \<Rightarrow> EtcdManagerOptions \<Rightarrow> Config option \<Rightarrow> duration \<Rightarrow> found \<Rightarrow> (('st, 'w) mgr, go_error + running) go" where
  "start_identity e opts staticConfig backupInterval fd0 = check (identify e fd0) (start_security e opts staticConfig backupInterval)"

definition start :: "'w mgr_env \<Rightarrow> EtcdManagerOptions \<Rightarrow> (('st, 'w) mgr, go_error + running) go" where
  "start e opts =
     check (ret (check_options e opts)) (\<lambda>(staticConfig, networkCIDR, backupInterval).
     bind (if o_EtcdManagerMetricsPort opts \<noteq> 0 then emit (EvGo ''metrics'') else ret ()) (\<lambda>_.
     check (find_data e opts staticConfig networkCIDR) (start_identity e opts staticConfig backupInterval)))"

text \<open>The context is never cancelled, so an error of the server is always reported.\<close>

definition RunEtcdManager :: "'w mgr_env \<Rightarrow> EtcdManagerOptions \<Rightarrow> (('st, 'w) mgr, go_error option) go" where
  "RunEtcdManager e opts =
     bind (start e opts) (\<lambda>r. case r of
       Inl err \<Rightarrow> ret (Some err)
     | Inr run \<Rightarrow> bind (act (bx_ListenAndServe e (rn_grpcEndpoint run)) (EvServe run)) (\<lambda>r.
         ret (map_option (Wrap ''error creating private API server'') r)))"

section \<open>What a start has established\<close>

lemma check_Inr:
  "check m f s = (Ret (Inr y), s') \<longleftrightarrow> (\<exists>x t. m s = (Ret (Inr x), t) \<and> f x t = (Ret (Inr y), s'))"
  by (auto simp: check_def bind_apply ret_apply split: prod.splits outcome.splits sum.splits)

lemma wrapped_Inr: "wrapped msg m s = (Ret (Inr x), s') \<longleftrightarrow> m s = (Ret (Inr x), s')"
  by (auto simp: wrapped_def bind_apply ret_apply split: prod.splits outcome.splits sum.splits)

lemma bind_Ret: "bind m f s = (Ret y, s') \<longleftrightarrow> (\<exists>x t. m s = (Ret x, t) \<and> f x t = (Ret y, s'))"
  by (auto simp: bind_apply split: prod.splits outcome.splits)

text \<open>Reading the state file changes nothing else of the server.\<close>

lemma initState_config: "keeps (frame (\<lambda>m. (s_baseDir m, s_etcdNodeConfiguration m, s_etcdClientsCA m, s_etcdPeersCA m))) (initState e)"
  unfolding initState_def readState_def by (intro frame_rules keeps_frame_upd_self) simp

lemma NewEtcdServer_config:
  assumes "NewEtcdServer e dir cn la mu node cca pca ips s = (Ret (Inr server), s')"
  shows "s_baseDir server = dir \<and> s_etcdNodeConfiguration server = node \<and> s_etcdClientsCA server = cca \<and> s_etcdPeersCA server = pca"
  using assms by (auto simp: NewEtcdServer_def sub_def bind_apply ret_apply frame_def split: prod.splits outcome.splits option.splits
      dest!: keepsE [OF initState_config])

lemma NewEtcdController_config:
  assumes "NewEtcdController e l bs bi cs ri cn ds i ca d s = (Ret (Inr c), s')"
  shows "m_myPeerId c = i \<and> m_disableEtcdTLS c = d \<and> (ca \<noteq> None \<longrightarrow> m_etcdClientTLSConfig c \<noteq> None)"
  using assms by (auto simp: NewEtcdController_def Let_def bind_apply ret_apply split: prod.splits outcome.splits option.splits sum.splits if_splits)

lemma grpc_security_config:
  assumes "grpc_security e opts i s = (Ret (Inr r), s')"
  shows "if o_Insecure opts then r = None else \<exists>server client. r = Some (server, client) \<and> gs_RequireClientCert server
    \<and> gs_ServerName server = ''etcd-manager-server-'' @ i \<and> tc_RootCAs client = gs_ClientCAs server"
  using assms by (auto simp: grpc_security_def GRPCServerConfig_def GRPCClientConfig_def check_Inr ret_apply Let_def split: if_splits)

lemma etcd_security_config:
  assumes "etcd_security e opts s = (Ret (Inr r), s')"
  shows "r = None \<longleftrightarrow> o_EtcdInsecure opts"
  using assms by (auto simp: etcd_security_def check_Inr ret_apply split: if_splits)

lemmas start_Inr = start_def start_identity_def start_security_def start_servers_def start_etcd_def check_Inr bind_Ret wrapped_Inr ret_apply Let_def NewServer_def

lemma no_https_left: "u \<in> set (RewriteScheme us https http) \<Longrightarrow> \<not> HasPrefix u https"
  by (auto simp: RewriteScheme_def split: if_splits)

definition all_urls :: "EtcdNode \<Rightarrow> string list" where
  "all_urls n = en_PeerUrls n @ en_ClientUrls n @ en_QuarantinedClientUrls n"

lemma node_info_insecure: "o_EtcdInsecure opts \<Longrightarrow> u \<in> set (all_urls (node_info opts i a)) \<Longrightarrow> \<not> HasPrefix u https"
  by (auto simp: all_urls_def node_info_def node_urls_def Let_def dest: no_https_left)

text \<open>The parts of a started node agree on who they are, and on the security that was asked for.\<close>

lemma start_config:
  fixes s :: "('st, 'w) mgr"
  assumes "start e opts s = (Ret (Inr run), s')"
  shows "\<exists>fd0 fd sc nc bi grpcTLS cas. \<exists>(t0 :: ('st, 'w) mgr) (t1 :: ('st, 'w) mgr) t2 (t3 :: ('st, 'w) mgr) t4 (t5 :: ('st, 'w) mgr) t6.
    check_options e opts = Inr (sc, nc, bi) \<and> find_data e opts sc nc t0 = (Ret (Inr fd0), t1) \<and> identify e fd0 t1 = (Ret (Inr fd), t2) \<and>
    grpc_security e opts (fd_peerId fd) t3 = (Ret (Inr grpcTLS), t4) \<and> etcd_security e opts t5 = (Ret (Inr cas), t6) \<and>
    rn_serverTLS run = map_option fst grpcTLS \<and> rn_clientTLS run = map_option snd grpcTLS \<and>
    s_baseDir (rn_etcdServer run) = fd_dataDir fd \<and> s_etcdNodeConfiguration (rn_etcdServer run) = node_info opts (fd_peerId fd) (fd_address fd) \<and>
    s_etcdClientsCA (rn_etcdServer run) = map_option snd cas \<and> s_etcdPeersCA (rn_etcdServer run) = map_option fst cas \<and>
    m_myPeerId (rn_controller run) = fd_peerId fd \<and> m_disableEtcdTLS (rn_controller run) = o_EtcdInsecure opts \<and> (cas \<noteq> None \<longrightarrow> m_etcdClientTLSConfig (rn_controller run) \<noteq> None) \<and>
    pi_Id (myInfo (rn_peerServer run)) = fd_peerId fd \<and> rn_dnsKey run = ''etcd-manager['' @ o_ClusterName opts @ '']''"
  using assms
  by (clarsimp simp: start_Inr split: prod.splits)
    (drule NewEtcdServer_config, drule NewEtcdController_config, intro exI conjI, assumption+, auto)

lemma sub_Ret:
  "sub tag st m s = (Ret x, s') \<longleftrightarrow> (\<exists>y u. m \<lparr>self = st, world = world s, trace = []\<rparr> = (Ret y, u) \<and> x = (y, self u) \<and>
    s' = s\<lparr>world := world u, trace := trace s @ map tag (trace u)\<rparr>)"
  by (auto simp: sub_def split: prod.splits outcome.splits)

lemma hoare_true: "hoare P m (\<lambda>_ _. True) (\<lambda>_. True)"
  by (rule hoareI) simp_all

lemma hoare_const: "(A \<Longrightarrow> hoare (\<lambda>_. True) m Q E) \<Longrightarrow> hoare (\<lambda>_. A) m Q E"
  by (cases A) (simp_all add: hoare_def)

lemma mounted_volume:
  assumes "WaitForVolumes n menv \<lparr>self = newVolumeMountController, world = w, trace = []\<rparr> = (Ret vs, u)"
  shows "\<exists>v. vs = [v] \<and> v_Mountpoint v \<noteq> []"
  using hoare_RetD [OF WaitForVolumes_ok _ assms] by (simp add: newVolumeMountController_def mounted_ok_def)

lemma find_volume_mounted:
  fixes e :: "'w mgr_env"
  shows "hoare (\<lambda>_. True) (find_volume e opts sc nc) (\<lambda>r _. \<forall>v a d. r = Inr (v, a, d) \<longrightarrow> v_Mountpoint v \<noteq> [] \<and>
    (\<exists>n menv w u. WaitForVolumes n (menv :: 'w mount_env) \<lparr>self = newVolumeMountController, world = w, trace = []\<rparr> = (Ret [v], u))) (\<lambda>_. True)"
    (is "hoare _ _ ?Q _")
proof -
  have mount: "hoare (\<lambda>_. True) (sub EvVolumes newVolumeMountController (WaitForVolumes n menv))
      (\<lambda>x _. \<exists>w u. WaitForVolumes n menv \<lparr>self = newVolumeMountController, world = w, trace = []\<rparr> = (Ret (fst x), u)) (\<lambda>_. True)" for n menv
    by (rule hoareI) (force simp: sub_Ret)+
  have rest: "hoare (\<lambda>_. \<exists>w u. WaitForVolumes n menv \<lparr>self = newVolumeMountController, world = w, trace = []\<rparr> = (Ret vs, u))
      (case vs of [] \<Rightarrow> ret (Inl x) | v # us \<Rightarrow> if us \<noteq> [] then ret (Inl y)
       else bind (call myIP) (\<lambda>r. ret (case r of Inl err \<Rightarrow> Inl err | Inr address \<Rightarrow> Inr (v, address, disco)))) ?Q (\<lambda>_. True)"
    for n vs x y myIP disco and menv :: "'w mount_env"
  proof (rule hoare_const)
    assume w: "\<exists>w u. WaitForVolumes n menv \<lparr>self = newVolumeMountController, world = w, trace = []\<rparr> = (Ret vs, u)"
    then obtain w0 u0 where W: "WaitForVolumes n menv \<lparr>self = newVolumeMountController, world = w0, trace = []\<rparr> = (Ret vs, u0)" by (elim exE)
    from mounted_volume [OF W] obtain v where v: "vs = [v]" "v_Mountpoint v \<noteq> []" by (elim exE conjE)
    have Q: "?Q (case r of Inl err \<Rightarrow> Inl err | Inr address \<Rightarrow> Inr (v, address, disco)) s" for r s
    proof (cases r)
      case (Inr a)
      show ?thesis unfolding Inr sum.case using v(2) W [unfolded v(1)] by (intro allI impI conjI) (simp, (rule exI)+, simp)
    qed simp
    have "hoare (\<lambda>_. True) (bind (call myIP) (\<lambda>r. ret (case r of Inl err \<Rightarrow> Inl err | Inr address \<Rightarrow> Inr (v, address, disco)))) ?Q (\<lambda>_. True)"
      by (rule hoare_bind [OF hoare_true], rule hoare_ret, rule Q)
    then show "hoare (\<lambda>_. True) (case vs of [] \<Rightarrow> ret (Inl x) | v # us \<Rightarrow> if us \<noteq> [] then ret (Inl y)
       else bind (call myIP) (\<lambda>r. ret (case r of Inl err \<Rightarrow> Inl err | Inr address \<Rightarrow> Inr (v, address, disco)))) ?Q (\<lambda>_. True)"
      using v(1) by simp
  qed
  show ?thesis
    unfolding find_volume_def exit_1_def
    by (intro hoare_case_option hoare_panic hoare_bind [OF hoare_true] hoare_case_sum hoare_case_prod hoare_bind [OF mount])
      (auto simp: case_prod_beta intro: hoare_conseq [OF rest])
qed

lemma find_data_volume:
  fixes s :: "('st, 'w) mgr"
  assumes "find_data e opts sc nc s = (Ret (Inr fd), s')" and "o_VolumeProviderID opts \<noteq> []"
  shows "\<exists>n menv w u v. WaitForVolumes n (menv :: 'w mount_env) \<lparr>self = newVolumeMountController, world = w, trace = []\<rparr> = (Ret [v], u) \<and>
    v_Mountpoint v \<noteq> [] \<and> fd_peerId fd = v_EtcdName v \<and> fd_dataDir fd = v_Mountpoint v"
proof -
  from assms obtain v a d t where "find_volume e opts sc nc s = (Ret (Inr (v, a, d)), t)"
    and fd: "fd_peerId fd = v_EtcdName v" "fd_dataDir fd = v_Mountpoint v"
    by (auto simp: find_data_def check_Inr ret_apply)
  with hoare_RetD [OF find_volume_mounted TrueI] have "v_Mountpoint v \<noteq> [] \<and>
    (\<exists>n menv w u. WaitForVolumes n (menv :: 'w mount_env) \<lparr>self = newVolumeMountController, world = w, trace = []\<rparr> = (Ret [v], u))" by blast
  with fd show ?thesis by metis
qed

lemma identify_keeps:
  "identify e fd s = (Ret (Inr fd'), s') \<Longrightarrow> fd_dataDir fd' = fd_dataDir fd \<and> (fd_peerId fd \<noteq> [] \<longrightarrow> fd_peerId fd' = fd_peerId fd)"
  by (auto simp: identify_def check_Inr bind_Ret ret_apply wrapped_Inr split: option.splits if_splits)

section \<open>Identity across restarts\<close>

text \<open>
  What is relied on of the local files, for a reading \<open>c\<close> of their contents: an existing file can be read, \<^verbatim>\<open>O_EXCL\<close> creates an
  empty file where there was none, a write that reports no error has appended what it counts, and the other calls change no contents.
\<close>

definition files_ok :: "'w file_env \<Rightarrow> ('w \<Rightarrow> string \<rightharpoonup> string) \<Rightarrow> bool" where
  "files_ok e c \<longleftrightarrow>
     (\<forall>p w. c (snd (fx_ReadFile e p w)) = c w \<and> (case c w p of None \<Rightarrow> fst (fx_ReadFile e p w) \<in> range Inl | Some d \<Rightarrow> fst (fx_ReadFile e p w) = Inr d)) \<and>
     (\<forall>p w w'. fx_OpenExcl e p w = (None, w') \<longrightarrow> c w' = (c w)(p \<mapsto> [])) \<and>
     (\<forall>p d w n w' b. fx_WriteOpen e p d w = ((n, None), w') \<longrightarrow> c w p = Some b \<longrightarrow> c w' = (c w)(p \<mapsto> b @ take n d)) \<and>
     (\<forall>p w. c (snd (fx_CloseFile e p w)) = c w \<and> c (snd (fx_MkdirAll e p w)) = c w) \<and> (\<forall>w. c (snd (fx_token e w)) = c w)"

lemma CreateFile_writes:
  assumes "files_ok e c" and "CreateFile e p d s = (Ret None, s')"
  shows "c (world s') p = Some d"
  using assms by (auto simp: files_ok_def CreateFile_def go_run Let_def split: prod.splits option.splits if_splits)
    (metis append_Nil fun_upd_same linorder_not_less snd_conv take_all)+

lemma files_ok_read:
  assumes "files_ok e c" and "ask (fx_ReadFile e p) s = (Ret r, t)"
  shows "c (world t) = c (world s) \<and> (\<forall>d. r = Inr d \<longleftrightarrow> c (world s) p = Some d)"
proof -
  obtain w' where w': "fx_ReadFile e p (world s) = (r, w')" and t: "t = s\<lparr>world := w'\<rparr>" using assms(2) by (auto simp: ask_def split: prod.splits)
  have "c (snd (fx_ReadFile e p (world s))) = c (world s)"
    and "case c (world s) p of None \<Rightarrow> fst (fx_ReadFile e p (world s)) \<in> range Inl | Some d \<Rightarrow> fst (fx_ReadFile e p (world s)) = Inr d"
    using assms(1) by (auto simp: files_ok_def)
  then show ?thesis using w' t by (auto split: option.splits)
qed

lemma PersistentPeerId_stored:
  assumes "files_ok e c" and "PersistentPeerId e d s = (Ret (Inr i), s')"
  shows "c (world s') (filepath_Join [d, ''myid'']) = Some i"
proof -
  let ?p = "filepath_Join [d, ''myid'']"
  obtain r t where read: "ask (fx_ReadFile e ?p) s = (Ret r, t)" by (cases "fx_ReadFile e ?p (world s)") (auto simp: ask_def)
  show ?thesis
  proof (cases r)
    case (Inr b)
    then have "c (world t) ?p = Some b" using files_ok_read [OF assms(1) read] by simp
    then show ?thesis using assms(2) read Inr by (auto simp: PersistentPeerId_def Let_def bind_apply ret_apply)
  next
    case (Inl err)
    then show ?thesis using assms(2) read CreateFile_writes [OF assms(1)]
      by (auto simp: PersistentPeerId_def Let_def bind_Ret ret_apply emit_def split: if_splits option.splits simp del: filepath_Join.simps)
  qed
qed

section \<open>An example\<close>

text \<open>A node with a volume, whose key material is read from files.\<close>

definition demo_pki :: "unit pki_env" where
  "demo_pki = example_pki\<lparr>pk_ReadFile := (\<lambda>_ w. (Inr ''pem'', w)), pk_ParseCertsPEM := (\<lambda>_. Inr [cert_template example_config 1 0 0])\<rparr>"

definition demo_server_env :: "unit server_env" where
  "demo_server_env = (example_env False)\<lparr>sx_proc := (example_proc False)\<lparr>px_pki := demo_pki\<rparr>\<rparr>"

definition demo_command_env :: "unit command_env" where
  "demo_command_env = \<lparr>ce_vfs = example_vfs, ce_CommandToJson = (\<lambda>_. Inr []), ce_CommandFromJson = (\<lambda>_. Inl (Errorf [])),
     ce_SpecToJson = (\<lambda>_. Inr []), ce_SpecFromJson = (\<lambda>_. Inl (Errorf [])), ce_Stat = (\<lambda>_ w. (None, w))\<rparr>"

definition demo_ctl_env :: "unit ctl_env" where
  "demo_ctl_env = \<lparr>cx_rt = const_rt 0, cx_cmd = demo_command_env, cx_api = mem_api [], cx_pki = demo_pki, cx_Stat = (\<lambda>_ w. (None, w)),
     cx_retention = agent_retention, cx_rand = (\<lambda>w. (0, w)), cx_Peers = (\<lambda>w. ([], w)), cx_BecomeLeader = (\<lambda>w. (Inl (Errorf []), w)),
     cx_AssertLeadership = (\<lambda>_ w. (None, w)), cx_GetPeerClient = (\<lambda>_ w. (None, w)), cx_GetInfo = (\<lambda>_ w. (Inl (Errorf []), w)),
     cx_UpdateEndpoints = (\<lambda>_ _ w. (None, w)), cx_JoinCluster = (\<lambda>_ _ w. (None, w)), cx_Reconfigure = (\<lambda>_ _ w. (None, w)),
     cx_StopEtcd = (\<lambda>_ _ w. (None, w)), cx_DoBackup = (\<lambda>_ _ w. (Inl (Errorf []), w)), cx_DoRestore = (\<lambda>_ _ w. (None, w)),
     cx_Acquire = (\<lambda>_ w. (Inr None, w)), cx_Release = (\<lambda>_ w. (None, w)), cx_patience = 1\<rparr>"

definition demo_files :: "unit file_env" where
  "demo_files = \<lparr>fx_token = (\<lambda>w. (''token'', w)), fx_MkdirAll = (\<lambda>_ w. (None, w)), fx_ReadFile = (\<lambda>_ w. (Inl NotExist, w)),
     fx_OpenExcl = (\<lambda>_ w. (None, w)), fx_WriteOpen = (\<lambda>_ d w. ((length d, None), w)), fx_CloseFile = (\<lambda>_ w. (None, w))\<rparr>"

definition demo_mgr_env :: "unit mgr_env" where
  "demo_mgr_env = \<lparr>bx_server = demo_server_env, bx_ctl = demo_ctl_env, bx_Containerized = True, bx_StaticFromJson = (\<lambda>_. Inl (Errorf [])),
     bx_ParseCIDR = (\<lambda>_. Inl (Errorf [])), bx_ParseDuration = (\<lambda>_. Inr minute), bx_ParseIP = Some,
     bx_NewProvider = (\<lambda>_ _ _ _ _ _ w. (Inr (demo_mount_env, ret (Inr ''10.0.0.1'')), w)), bx_rounds = 1, bx_files = demo_files,
     bx_ReadDir = (\<lambda>_ w. (Inr [], w)), bx_NodeToJson = (\<lambda>_. Inr []), bx_NodeFromJson = (\<lambda>_. Inl (Errorf [])),
     bx_ListenAndServe = (\<lambda>_ w. (None, w))\<rparr>"

definition demo_options :: EtcdManagerOptions where
  "demo_options = InitDefaults \<lparr>o_PKIDir = [], o_Address = [], o_VolumeProviderID = ''aws'', o_PeerUrls = [], o_GrpcPort = 0, o_ClientUrls = [],
     o_QuarantineClientUrls = [], o_ClusterName = ''main'', o_ListenAddress = [], o_BackupStorePath = ''/backups'', o_DataDir = [],
     o_VolumeTags = [''k8s.io/etcd/main''], o_NameTag = [], o_BackupInterval = [], o_DiscoveryPollInterval = [], o_StaticConfig = [],
     o_DNSSuffix = [], o_ControlRefreshInterval = 0, o_Insecure = False, o_EtcdInsecure = False, o_ListenMetricsURLs = [],
     o_EtcdManagerMetricsPort = 0, o_NetworkCIDR = []\<rparr>"

definition mgr_start :: "(unit, unit) mgr" where
  "mgr_start = \<lparr>self = (), world = (), trace = []\<rparr>"

definition started :: "(go_error + running) outcome \<times> 's \<Rightarrow> bool" where
  "started r = (case fst r of Ret (Inr run) \<Rightarrow> True | _ \<Rightarrow> False)"

definition demo_fd :: found where
  "demo_fd = \<lparr>fd_peerId = ''a'', fd_address = ''10.0.0.1'', fd_dataDir = ''/rootfs/mnt/m'', fd_discovery = Some (ProviderDiscovery Aws)\<rparr>"

definition demo_cert :: certificate where "demo_cert = cert_template example_config 1 0 0"

definition demo_CA :: CA where
  "demo_CA = \<lparr>ca_primaryCertificate = demo_cert, ca_privateKey = ct_PublicKey demo_cert, ca_certificates = [demo_cert]\<rparr>"

abbreviation mst :: "mgr_event list \<Rightarrow> (unit, unit) mgr" where "mst tr \<equiv> \<lparr>self = (), world = (), trace = tr\<rparr>"

lemma demo_find: "fst (find_data demo_mgr_env demo_options None None (mst tr)) = Ret (Inr demo_fd)"
  by code_simp
lemma demo_ident: "fst (identify demo_mgr_env demo_fd (mst tr)) = Ret (Inr demo_fd)"
  by code_simp
lemma demo_disc: "fst (discover demo_mgr_env demo_options demo_fd (mst tr)) = Ret (Inr (ProviderDiscovery Aws))"
  by code_simp
lemma demo_etcds: "fst (etcd_security demo_mgr_env demo_options (mst tr)) = Ret (Inr (Some (demo_CA, demo_CA)))"
  by code_simp


lemma started_check:
  assumes "\<And>tr. fst (m (mst tr)) = Ret (Inr x)" and "\<And>tr. started (f x (mst tr))"
  shows "started (check m f (mst tr))"
proof -
  obtain t where "m (mst tr) = (Ret (Inr x), t)" using assms(1) [of tr] by (cases "m (mst tr)") simp
  moreover have "t = mst (trace t)" by simp
  then have "started (f x t)" using assms(2) [of "trace t"] by metis
  ultimately show ?thesis by (simp add: check_def bind_apply)
qed

lemma started_check_any:
  assumes "\<And>tr. case fst (m (mst tr)) of Ret (Inr x) \<Rightarrow> True | _ \<Rightarrow> False" and "\<And>x tr. started (f x (mst tr))"
  shows "started (check m f (mst tr))"
proof -
  obtain x t where "m (mst tr) = (Ret (Inr x), t)" using assms(1) [of tr] by (cases "m (mst tr)") (auto split: outcome.splits sum.splits)
  moreover have "t = mst (trace t)" by simp
  then have "started (f x t)" using assms(2) [of x "trace t"] by metis
  ultimately show ?thesis by (simp add: check_def bind_apply)
qed

lemma started_bind_emit: "(\<And>tr. started (f () (mst tr))) \<Longrightarrow> started (bind (emit ev) f (mst tr))"
  by (simp add: bind_apply emit_def)

lemma demo_etcd_starts:
  "started (start_etcd demo_mgr_env demo_options bi demo_fd disco grpcTLS (Some (demo_CA, demo_CA)) di ps st [''10.0.0.1''] (mst tr))"
  unfolding start_etcd_def
proof (rule started_check_any)
  show "case fst (wrapped ''error initializing etcd server'' (NewEtcdServer demo_mgr_env (fd_dataDir demo_fd) (o_ClusterName demo_options)
      (o_ListenAddress demo_options) (expandUrls (o_ListenMetricsURLs demo_options) (fd_address demo_fd) (member_name demo_options (fd_peerId demo_fd)))
      (node_info demo_options (fd_peerId demo_fd) (fd_address demo_fd)) (map_option snd (Some (demo_CA, demo_CA)))
      (map_option fst (Some (demo_CA, demo_CA))) [''10.0.0.1'']) (mst tr)) of Ret (Inr x) \<Rightarrow> True | _ \<Rightarrow> False" for tr
    by code_simp
next
  fix etcdServer tr
  show "started (bind (emit (EvGo ''etcd server'')) (\<lambda>_. check (wrapped ''error building etcd controller'' (NewEtcdController (bx_ctl demo_mgr_env) False
      (fst st) bi (snd st) (o_ControlRefreshInterval demo_options) (o_ClusterName demo_options) (o_DNSSuffix demo_options) (fd_peerId demo_fd)
      (map_option snd (Some (demo_CA, demo_CA))) (o_EtcdInsecure demo_options))) (\<lambda>controller. bind (emit (EvGo ''controller'')) (\<lambda>_.
      ret (Inr \<lparr>rn_peerServer = ps, rn_serverTLS = map_option fst grpcTLS, rn_clientTLS = map_option snd grpcTLS, rn_discovery = disco,
        rn_discoveryPollInterval = di, rn_dnsKey = ''etcd-manager['' @ o_ClusterName demo_options @ '']'', rn_etcdServer = etcdServer,
        rn_controller = controller, rn_grpcEndpoint = JoinHostPort (fd_address demo_fd) (o_GrpcPort demo_options)\<rparr>)))) (mst tr))"
    by (rule started_bind_emit, rule started_check_any, code_simp, rule started_bind_emit) (simp add: started_def ret_apply)
qed

lemma demo_servers_start: "started (start_servers demo_mgr_env demo_options None bi demo_fd disco grpcTLS (Some (demo_CA, demo_CA)) (mst tr))"
  unfolding start_servers_def
  apply (rule started_check_any)
   apply code_simp
  apply (rule started_check_any)
   apply (simp add: wrapped_def NewServer_def ret_apply bind_apply demo_fd_def)
  apply (rule started_check_any)
   apply code_simp
  apply (rule started_check [where x = "[''10.0.0.1'']"])
   apply code_simp
  apply (rule demo_etcd_starts)
  done

lemma demo_security_starts: "started (start_security demo_mgr_env demo_options None bi demo_fd (mst tr))"
  unfolding start_security_def
  apply (rule started_check, rule demo_disc)
  apply (rule started_check_any)
   apply code_simp
  by (rule started_check, rule demo_etcds, rule demo_servers_start)

lemma demo_opts: "check_options demo_mgr_env demo_options = Inr (None, None, minute)"
  by code_simp

lemma demo_starts: "started (start demo_mgr_env demo_options mgr_start)"
  unfolding start_def mgr_start_def
proof (rule started_check [where x = "(None, None, minute)"], goal_cases)
  case 1 then show ?case by (simp add: ret_apply demo_opts)
next
  case (2 tr)
  have "o_EtcdManagerMetricsPort demo_options = 0" by (simp add: demo_options_def InitDefaults_def)
  moreover have "started (check (find_data demo_mgr_env demo_options None None) (start_identity demo_mgr_env demo_options None minute) (mst tr))" for tr
    unfolding start_identity_def by (rule started_check, rule demo_find, rule started_check, rule demo_ident, rule demo_security_starts)
  ultimately show ?case by (simp add: bind_apply ret_apply)
qed


section \<open>Properties\<close>

text \<open>C11.
  A node never runs with less security than it was started with. When \<^verbatim>\<open>RunEtcdManager\<close> gets as far as serving, then, unless it was
  told to be insecure, the peer service demands a client certificate, its own certificate names this peer, and the peers it calls are
  checked against the same authorities that it demands of its callers; unless etcd was told to be insecure, the etcd server has both of
  its authorities and the controller has a client certificate. An insecure etcd has neither, and no https URL.
\<close>

theorem security_as_configured:
  fixes s :: "('st, 'w) mgr"
  assumes "start e opts s = (Ret (Inr run), s')"
  shows "(if o_Insecure opts then rn_serverTLS run = None \<and> rn_clientTLS run = None
      else \<exists>server client. rn_serverTLS run = Some server \<and> rn_clientTLS run = Some client \<and> gs_RequireClientCert server \<and>
        gs_ServerName server = ''etcd-manager-server-'' @ pi_Id (myInfo (rn_peerServer run)) \<and> tc_RootCAs client = gs_ClientCAs server) \<and>
    m_disableEtcdTLS (rn_controller run) = o_EtcdInsecure opts \<and>
    (if o_EtcdInsecure opts then s_etcdClientsCA (rn_etcdServer run) = None \<and> s_etcdPeersCA (rn_etcdServer run) = None \<and>
        list_all (\<lambda>u. \<not> HasPrefix u https) (all_urls (s_etcdNodeConfiguration (rn_etcdServer run)))
      else s_etcdClientsCA (rn_etcdServer run) \<noteq> None \<and> s_etcdPeersCA (rn_etcdServer run) \<noteq> None \<and>
        m_etcdClientTLSConfig (rn_controller run) \<noteq> None)"
  using start_config [OF assms]
  by (elim exE conjE) (drule grpc_security_config, drule etcd_security_config,
      auto simp: list_all_iff dest: node_info_insecure split: if_splits)

lemma started_ret: "started r \<Longrightarrow> \<exists>run s'. r = (Ret (Inr run), s')"
  by (cases r) (auto simp: started_def split: outcome.splits sum.splits)

theorem security_as_configured_witness:
  "\<exists>run s'. start demo_mgr_env demo_options mgr_start = (Ret (Inr run), s') \<and> rn_serverTLS run \<noteq> None \<and>
     s_etcdPeersCA (rn_etcdServer run) \<noteq> None \<and> m_etcdClientTLSConfig (rn_controller run) \<noteq> None"
proof -
  have "\<not> o_Insecure demo_options \<and> \<not> o_EtcdInsecure demo_options" by (simp add: demo_options_def InitDefaults_def)
  moreover obtain run s' where "start demo_mgr_env demo_options mgr_start = (Ret (Inr run), s')" using started_ret [OF demo_starts] by (elim exE)
  ultimately show ?thesis using security_as_configured by fastforce
qed



text \<open>C32.
  The identity that a node made up for itself survives its restarts: once \<^verbatim>\<open>PersistentPeerId\<close> has answered, it gives the same
  answer whenever it is asked again and the files have not been changed by others.
\<close>

theorem identity_survives_restarts:
  assumes "files_ok e c" and "PersistentPeerId e d s = (Ret (Inr i), s')" and "c (world t) = c (world s')"
  shows "fst (PersistentPeerId e d t) = Ret (Inr i)"
proof -
  let ?p = "filepath_Join [d, ''myid'']"
  obtain r t' where read: "ask (fx_ReadFile e ?p) t = (Ret r, t')" by (cases "fx_ReadFile e ?p (world t)") (auto simp: ask_def)
  then have "r = Inr i" using files_ok_read [OF assms(1) read] PersistentPeerId_stored [OF assms(1,2)] assms(3) by simp
  then show ?thesis using read by (simp add: PersistentPeerId_def Let_def bind_apply ret_apply del: filepath_Join.simps)
qed

text \<open>Files in memory.\<close>

definition mem_files :: "(string \<times> string) list file_env" where
  "mem_files = \<lparr>fx_token = (\<lambda>w. (''token'', w)), fx_MkdirAll = (\<lambda>_ w. (None, w)),
     fx_ReadFile = (\<lambda>p w. (case map_of w p of None \<Rightarrow> Inl NotExist | Some d \<Rightarrow> Inr d, w)),
     fx_OpenExcl = (\<lambda>p w. if map_of w p = None then (None, (p, []) # w) else (Some (Errorf ''file exists''), w)),
     fx_WriteOpen = (\<lambda>p d w. case map_of w p of None \<Rightarrow> ((0, Some NotExist), w) | Some b \<Rightarrow> ((length d, None), (p, b @ d) # w)),
     fx_CloseFile = (\<lambda>_ w. (None, w))\<rparr>"

lemma mem_files_ok: "files_ok mem_files map_of"
  by (auto simp: files_ok_def mem_files_def split: option.splits if_splits)

theorem identity_survives_restarts_witness:
  "fst (PersistentPeerId mem_files ''/data'' \<lparr>self = (), world = [(''/data/myid'', ''token'')], trace = []\<rparr>) = Ret (Inr ''token'') \<and>
   fst (PersistentPeerId mem_files ''/data'' \<lparr>self = (), world = [], trace = []\<rparr>) = Ret (Inr ''token'')"
proof
  let ?s = "\<lparr>self = (), world = [], trace = []\<rparr>" and ?t = "\<lparr>self = (), world = [(''/data/myid'', ''token'')], trace = []\<rparr>"
  show first: "fst (PersistentPeerId mem_files ''/data'' ?s) = Ret (Inr ''token'')" by code_simp
  obtain s' where s': "PersistentPeerId mem_files ''/data'' ?s = (Ret (Inr ''token''), s')"
    using first by (cases "PersistentPeerId mem_files ''/data'' ?s") simp
  have "world (snd (PersistentPeerId mem_files ''/data'' ?s)) = [(''/data/myid'', ''token''), (''/data/myid'', [])]" by code_simp
  then have "map_of (world ?t) = map_of (world s')" using s' by (simp add: fun_eq_iff)
  then show "fst (PersistentPeerId mem_files ''/data'' ?t) = Ret (Inr ''token'')"
    by (rule identity_survives_restarts [OF mem_files_ok s'])
qed

end
