(* ===== verification/Programs.thy ===== *)
theory Programs
  imports Controller_Total Manager
begin

text \<open>
  The other programs: \<^verbatim>\<open>cmd/etcd-manager-ctl\<close>, with which an operator configures a cluster and asks for the restore of a backup,
  \<^verbatim>\<open>cmd/etcd-backup-ctl\<close>, and \<^verbatim>\<open>cmd/etcd-backup\<close>, which runs the stand-alone backup agent. They share the command store and the
  backup store with the nodes; parsing of flags is not modelled.
\<close>

section \<open>etcd-manager-ctl\<close>

record Options =
  op_MemberCount :: int
  op_EtcdVersion :: string
  op_BackupStorePath :: string

definition DefaultEtcdVersion :: string where "DefaultEtcdVersion = ''3.2.24''"

definition SetDefaults :: "Options \<Rightarrow> Options" where
  "SetDefaults opts = opts\<lparr>op_BackupStorePath := ''/backups''\<rparr>"

text \<open>What is written to the standard output.\<close>

datatype printed = PrintBackup string | PrintCommand Command | PrintSpec ClusterSpec | PrintAdded Command | PrintSet ClusterSpec

type_synonym ('st, 'w) tool = "('st, 'w, printed) sys"

definition GetBackupStore :: "'w command_env \<Rightarrow> Options \<Rightarrow> go_error + vfsStore" where
  "GetBackupStore e opts = (if op_BackupStorePath opts = [] then Inl (Errorf ''backup-store is required'')
     else (case NewStore (ce_vfs e) (op_BackupStorePath opts) of Inl err \<Rightarrow> Inl (Wrap ''error initializing backup store'' err) | Inr st \<Rightarrow> Inr st))"

definition GetCommandStore :: "'w command_env \<Rightarrow> Options \<Rightarrow> go_error + control_store" where
  "GetCommandStore e opts = (if op_BackupStorePath opts = [] then Inl (Errorf ''backup-store is required'')
     else (case commands_NewStore e (op_BackupStorePath opts) of Inl err \<Rightarrow> Inl (Wrap ''error initializing commands store'' err) | Inr st \<Rightarrow> Inr st))"

definition print_all :: "('a \<Rightarrow> printed) \<Rightarrow> 'a list \<Rightarrow> (('st, 'w) tool, unit) go" where
  "print_all f xs = bind (for_each xs () (\<lambda>x _. bind (emit (f x)) (\<lambda>_. ret (Next () :: (unit, unit) loop)))) (\<lambda>_. ret ())"

definition runListBackups :: "'w command_env \<Rightarrow> Options \<Rightarrow> (('st, 'w) tool, go_error option) go" where
  "runListBackups e opts = (case GetBackupStore e opts of
     Inl err \<Rightarrow> ret (Some err)
   | Inr backupStore \<Rightarrow>
     bind (ListBackups (ce_vfs e) backupStore) (\<lambda>r. case r of
       Inl err \<Rightarrow> ret (Some (Wrap ''error listing backups'' err))
     | Inr backups \<Rightarrow> bind (print_all PrintBackup backups) (\<lambda>_. ret None)))"

definition runListCommands :: "'w command_env \<Rightarrow> Options \<Rightarrow> (('st, 'w) tool, go_error option) go" where
  "runListCommands e opts = (case GetCommandStore e opts of
     Inl err \<Rightarrow> ret (Some err)
   | Inr commandStore \<Rightarrow>
     bind (ListCommands e commandStore) (\<lambda>r. case r of
       Inl err \<Rightarrow> ret (Some (Wrap ''error listing commands'' err))
     | Inr commands \<Rightarrow> bind (print_all (\<lambda>c. PrintCommand (vc_data c)) commands) (\<lambda>_. ret None)))"

definition delete_if :: "'w command_env \<Rightarrow> control_store \<Rightarrow> string \<Rightarrow> vfsCommand \<Rightarrow> unit \<Rightarrow> (('st, 'w) tool, (unit, go_error) loop) go" where
  "delete_if e commandStore backupName c _ = (case cmd_RestoreBackup (vc_data c) of
     None \<Rightarrow> panic ''nil pointer dereference''
   | Some rb \<Rightarrow>
     if rb_Backup rb = backupName then
       bind (RemoveCommand e commandStore c) (\<lambda>r. ret (case r of Some err \<Rightarrow> Stop (Wrap ''error deleting command'' err) | None \<Rightarrow> Next ()))
     else ret (Next ()))"

definition runDeleteCommand :: "'w command_env \<Rightarrow> Options \<Rightarrow> string list \<Rightarrow> (('st, 'w) tool, go_error option) go" where
  "runDeleteCommand e opts args = (case args of
     [backupName] \<Rightarrow> (case GetCommandStore e opts of
       Inl err \<Rightarrow> ret (Some err)
     | Inr commandStore \<Rightarrow>
       bind (ListCommands e commandStore) (\<lambda>r. case r of
         Inl err \<Rightarrow> ret (Some (Wrap ''error listing commands'' err))
       | Inr commands \<Rightarrow>
         bind (for_each commands () (delete_if e commandStore backupName)) (\<lambda>r.
         ret (case r of Stop err \<Rightarrow> Some err | Next _ \<Rightarrow> None))))
   | _ \<Rightarrow> ret (Some (Errorf ''syntax: delete-command <backupname>'')))"

definition runRestoreBackup :: "'w command_env \<Rightarrow> Options \<Rightarrow> string list \<Rightarrow> (('st, 'w) tool, go_error option) go" where
  "runRestoreBackup e opts args = (case args of
     [backupName] \<Rightarrow> (case GetCommandStore e opts of
       Inl err \<Rightarrow> ret (Some err)
     | Inr commandStore \<Rightarrow>
       bind (GetExpectedClusterSpec e commandStore) (\<lambda>r. case r of
         Inl err \<Rightarrow> ret (Some (Wrap ''error reading etcd cluster spec'' err))
       | Inr None \<Rightarrow> ret (Some (Errorf ''cluster spec was not found - is this a new cluster?''))
       | Inr (Some clusterSpec) \<Rightarrow>
         let cmd = restore_command backupName clusterSpec in
         bind (AddCommand e commandStore cmd) (\<lambda>r. case r of
           Some err \<Rightarrow> ret (Some (Wrap ''error writing command to store'' err))
         | None \<Rightarrow> bind (emit (PrintAdded cmd)) (\<lambda>_. ret None))))
   | _ \<Rightarrow> ret (Some (Errorf ''syntax: restore-backup <backupname>'')))"

text \<open>The conversion \<^verbatim>\<open>int32(o.MemberCount)\<close> keeps the low 32 bits.\<close>

definition int32 :: "int \<Rightarrow> int" where
  "int32 n = (n + 2 ^ 31) mod 2 ^ 32 - 2 ^ 31"

definition configured_spec :: "Options \<Rightarrow> ClusterSpec option \<Rightarrow> ClusterSpec" where
  "configured_spec opts current =
     (let spec = (case current of None \<Rightarrow> \<lparr>cs_MemberCount = 0, cs_EtcdVersion = []\<rparr> | Some spec \<Rightarrow> spec);
          spec = (if op_MemberCount opts \<noteq> 0 then spec\<lparr>cs_MemberCount := int32 (op_MemberCount opts)\<rparr> else spec);
          spec = (if op_EtcdVersion opts \<noteq> [] then spec\<lparr>cs_EtcdVersion := op_EtcdVersion opts\<rparr> else spec);
          spec = (if cs_EtcdVersion spec = [] then spec\<lparr>cs_EtcdVersion := DefaultEtcdVersion\<rparr> else spec)
      in if cs_MemberCount spec = 0 then spec\<lparr>cs_MemberCount := 1\<rparr> else spec)"

definition runInitCluster :: "'w command_env \<Rightarrow> Options \<Rightarrow> (('st, 'w) tool, go_error option) go" where
  "runInitCluster e opts = (case GetCommandStore e opts of
     Inl err \<Rightarrow> ret (Some err)
   | Inr commandStore \<Rightarrow>
     bind (GetExpectedClusterSpec e commandStore) (\<lambda>r. case r of
       Inl err \<Rightarrow> ret (Some (Wrap ''error reading etcd cluster spec'' err))
     | Inr current \<Rightarrow>
       let clusterSpec = configured_spec opts current in
       bind (SetExpectedClusterSpec e commandStore clusterSpec) (\<lambda>r. case r of
         Some err \<Rightarrow> ret (Some (Wrap ''error setting expected cluster spec'' err))
       | None \<Rightarrow> bind (emit (PrintSet clusterSpec)) (\<lambda>_. ret None))))"

definition runGet :: "'w command_env \<Rightarrow> Options \<Rightarrow> (('st, 'w) tool, go_error option) go" where
  "runGet e opts = (case GetCommandStore e opts of
     Inl err \<Rightarrow> ret (Some err)
   | Inr commandStore \<Rightarrow>
     bind (GetExpectedClusterSpec e commandStore) (\<lambda>r. case r of
       Inl err \<Rightarrow> ret (Some (Wrap ''error reading etcd cluster spec'' err))
     | Inr None \<Rightarrow> ret (Some (Errorf ''no spec found in store''))
     | Inr (Some clusterSpec) \<Rightarrow> bind (emit (PrintSpec clusterSpec)) (\<lambda>_. ret None)))"

definition tool_run :: "'w command_env \<Rightarrow> Options \<Rightarrow> string \<Rightarrow> string list \<Rightarrow> (('st, 'w) tool, go_error option) go" where
  "tool_run e opts command args =
     (if command = ''get'' then runGet e opts
      else if command = ''configure-cluster'' then runInitCluster e opts
      else if command = ''list-backups'' then runListBackups e opts
      else if command = ''list-commands'' then runListCommands e opts
      else if command = ''delete-command'' then runDeleteCommand e opts args
      else if command = ''restore-backup'' then runRestoreBackup e opts args
      else ret (Some (Errorf ''unknown command'')))"

text \<open>The exit status of \<^verbatim>\<open>main\<close>, for the arguments that are left after the flags.\<close>

definition tool_main :: "'w command_env \<Rightarrow> Options \<Rightarrow> string list \<Rightarrow> (('st, 'w) tool, nat) go" where
  "tool_main e opts args =
     bind (case args of [] \<Rightarrow> tool_run e opts ''get'' [] | command # rest \<Rightarrow> tool_run e opts command rest) (\<lambda>r.
     ret (case r of Some _ \<Rightarrow> 1 | None \<Rightarrow> 0))"

section \<open>etcd-backup-ctl\<close>

definition runBackupCtl :: "'w vfs_env \<Rightarrow> string \<Rightarrow> (('st, 'w) tool, go_error option) go" where
  "runBackupCtl e backupStorePath = (case NewStore e backupStorePath of
     Inl err \<Rightarrow> ret (Some err)
   | Inr backupStore \<Rightarrow>
     bind (ListBackups e backupStore) (\<lambda>r. case r of
       Inl err \<Rightarrow> ret (Some err)
     | Inr backups \<Rightarrow> bind (print_all PrintBackup backups) (\<lambda>_. ret None)))"

definition backup_ctl_main :: "'w vfs_env \<Rightarrow> string \<Rightarrow> (('st, 'w) tool, nat) go" where
  "backup_ctl_main e backupStorePath =
     (if backupStorePath = [] then ret 1
      else bind (runBackupCtl e backupStorePath) (\<lambda>r. ret (case r of Some _ \<Rightarrow> 1 | None \<Rightarrow> 0)))"

section \<open>etcd-backup\<close>

record backup_flags =
  bf_clusterName :: string
  bf_backupStorePath :: string
  bf_dataDir :: string
  bf_clientURL :: string
  bf_interval :: string
  bf_clientCAFile :: string
  bf_clientCertFile :: string
  bf_clientKeyFile :: string

record 'w backup_main_env =
  bm_vfs :: "'w vfs_env"
  bm_ParseDuration :: "string \<Rightarrow> go_error + duration"
  bm_LoadX509KeyPair :: "string \<Rightarrow> string \<Rightarrow> 'w \<Rightarrow> (go_error + certificate \<times> rsa_key) \<times> 'w"
  bm_ReadFile :: "string \<Rightarrow> 'w \<Rightarrow> (go_error + string) \<times> 'w"
  bm_CertsFromPEM :: "string \<Rightarrow> certificate list option"

definition default_backup_flags :: backup_flags where
  "default_backup_flags = \<lparr>bf_clusterName = [], bf_backupStorePath = ''/backups'', bf_dataDir = ''/data'', bf_clientURL = ''http://127.0.0.1:4001'',
     bf_interval = ''15m'', bf_clientCAFile = [], bf_clientCertFile = [], bf_clientKeyFile = []\<rparr>"

definition backup_tls :: "'w backup_main_env \<Rightarrow> backup_flags \<Rightarrow> (('st, 'w, 'ev) sys, tls_Config option) go" where
  "backup_tls e f =
     (if bf_clientCertFile f = [] \<or> bf_clientKeyFile f = [] \<or> bf_clientCAFile f = [] then ret None
      else bind (ask (bm_LoadX509KeyPair e (bf_clientCertFile f) (bf_clientKeyFile f))) (\<lambda>r. case r of
        Inl _ \<Rightarrow> exit_1
      | Inr (cert, k) \<Rightarrow>
        bind (ask (bm_ReadFile e (bf_clientCAFile f))) (\<lambda>r. case r of
          Inl _ \<Rightarrow> exit_1
        | Inr raw \<Rightarrow> (case bm_CertsFromPEM e raw of
            None \<Rightarrow> exit_1
          | Some roots \<Rightarrow> ret (Some \<lparr>tc_RootCAs = roots, tc_Certificate = cert, tc_PrivateKey = k\<rparr>)))))"

text \<open>The agent that \<^verbatim>\<open>main\<close> builds, before \<open>agent_Run\<close>.\<close>

definition backup_setup :: "'w backup_main_env \<Rightarrow> backup_flags \<Rightarrow> (('st, 'w, 'ev) sys, BackupController) go" where
  "backup_setup e f =
     (if bf_clusterName f = [] \<or> bf_backupStorePath f = [] then exit_1
      else (case bm_ParseDuration e (bf_interval f) of
        Inl _ \<Rightarrow> exit_1
      | Inr backupInterval \<Rightarrow>
        bind (backup_tls e f) (\<lambda>tls. case NewStore (bm_vfs e) (bf_backupStorePath f) of
          Inl _ \<Rightarrow> exit_1
        | Inr backupStore \<Rightarrow> (case NewBackupController backupStore (bf_clusterName f) [bf_clientURL f] tls (bf_dataDir f) backupInterval of
            Inl _ \<Rightarrow> exit_1
          | Inr c \<Rightarrow> ret c))))"

section \<open>What the operator asked for is what the nodes see\<close>

lemma GetCommandStore_vfs: "GetCommandStore e opts = Inr store \<Longrightarrow> \<exists>base. store = VFSControl base"
  by (auto simp: GetCommandStore_def commands_NewStore_def commands_NewVFSStore_def split: if_splits sum.splits)

text \<open>A specification that was stored is read back by whoever has the same files.\<close>

lemma spec_read_back:
  assumes "control_ok e" and "SetExpectedClusterSpec e (VFSControl base) spec s = (Ret None, s')" and "world t = world s'"
  shows "\<exists>w. GetExpectedClusterSpec e (VFSControl base) t = (Ret (Inr (Some spec)), t\<lparr>world := w\<rparr>)"
proof -
  let ?p = "vf_Join (ce_vfs e) base [EtcdClusterSpec]"
  obtain d w where d: "ce_SpecToJson e spec = Inr d" "vf_WriteFile (ce_vfs e) ?p d w = (None, world s')"
    using assms(2) by (auto simp: SetExpectedClusterSpec_def vfs_SetExpectedClusterSpec_def go_run split: prod.splits sum.splits option.splits)
  have "fst (vf_ReadFile (ce_vfs e) ?p (world t)) = Inr d" using vfs_read [OF _ d(2)] assms(1,3) by (simp add: control_ok_def)
  moreover have "ce_SpecFromJson e d = Inr spec" using assms(1) d(1) by (simp add: control_ok_def)
  ultimately show ?thesis
    by (auto simp: GetExpectedClusterSpec_def vfs_GetExpectedClusterSpec_def go_run split: prod.splits)
qed

lemma int32_id: "- (2 ^ 31) \<le> n \<Longrightarrow> n < 2 ^ 31 \<Longrightarrow> int32 n = n"
  by (simp add: int32_def mod_pos_pos_trivial)

lemma configured_spec_ok:
  "cs_EtcdVersion (configured_spec opts cur) \<noteq> [] \<and> cs_MemberCount (configured_spec opts cur) \<noteq> 0 \<and>
   (op_EtcdVersion opts \<noteq> [] \<longrightarrow> cs_EtcdVersion (configured_spec opts cur) = op_EtcdVersion opts) \<and>
   (op_MemberCount opts \<noteq> 0 \<and> - (2 ^ 31) \<le> op_MemberCount opts \<and> op_MemberCount opts < 2 ^ 31 \<longrightarrow>
     cs_MemberCount (configured_spec opts cur) = op_MemberCount opts)"
  by (auto simp: configured_spec_def Let_def DefaultEtcdVersion_def int32_id split: option.splits)

lemma runGet_prints:
  assumes "GetCommandStore e opts = Inr store" and "GetExpectedClusterSpec e store s = (Ret (Inr (Some spec)), t)"
  shows "runGet e opts s = (Ret None, t\<lparr>trace := trace t @ [PrintSpec spec]\<rparr>)"
  using assms by (simp add: runGet_def bind_apply emit_def ret_apply)

section \<open>An example\<close>

text \<open>A control store in memory that can hold requests to restore a backup of one specification.\<close>

definition restore_spec :: ClusterSpec where
  "restore_spec = \<lparr>cs_MemberCount = 3, cs_EtcdVersion = ''3.5.0''\<rparr>"

definition restore_control :: "time \<Rightarrow> string gomap command_env" where
  "restore_control now = (mem_control now)\<lparr>
     ce_CommandToJson := (\<lambda>c. case cmd_RestoreBackup c of None \<Rightarrow> Inl (Errorf ''not encoded here'')
       | Some rb \<Rightarrow> if 0 \<le> cmd_Timestamp c \<and> rb_ClusterSpec rb = Some restore_spec then Inr (Itoa (nat (cmd_Timestamp c)) @ '','' @ rb_Backup rb)
           else Inl (Errorf ''not encoded here'')),
     ce_CommandFromJson := (\<lambda>d. Inr \<lparr>cmd_Timestamp = dec_val (takeWhile is_digit d),
       cmd_RestoreBackup = Some \<lparr>rb_ClusterSpec = Some restore_spec, rb_Backup = drop 1 (dropWhile is_digit d)\<rparr>\<rparr>)\<rparr>"

lemma digits_then_comma:
  "takeWhile is_digit (Itoa n @ CHR '','' # b) = Itoa n" "dropWhile is_digit (Itoa n @ CHR '','' # b) = CHR '','' # b"
proof -
  have "\<forall>c \<in> set (Itoa n). is_digit c" using Itoa_digits [of n] by (simp add: list_all_iff)
  moreover have "\<not> is_digit (CHR '','')" by (simp add: is_digit_def less_eq_char_def)
  ultimately show "takeWhile is_digit (Itoa n @ CHR '','' # b) = Itoa n" "dropWhile is_digit (Itoa n @ CHR '','' # b) = CHR '','' # b"
    by (simp_all add: takeWhile_append2 dropWhile_append2)
qed

lemma restore_control_ok: "control_ok (restore_control now)"
proof -
  have "ce_CommandFromJson (restore_control now) d = Inr c" if "ce_CommandToJson (restore_control now) c = Inr d" for c d
    using that by (auto simp: restore_control_def digits_then_comma split: option.splits if_splits)
  with mem_control_ok [of now] show ?thesis by (auto simp: control_ok_def restore_control_def)
qed

definition tool_options :: Options where
  "tool_options = \<lparr>op_MemberCount = 3, op_EtcdVersion = ''3.5.0'', op_BackupStorePath = ''s3://b''\<rparr>"

definition tool_start :: "string gomap \<Rightarrow> (unit, string gomap) tool" where
  "tool_start files = \<lparr>self = (), world = files, trace = []\<rparr>"

definition request_env :: "string gomap ctl_env" where
  "request_env = (demo_env [] [] 62135596800000000005)\<lparr>cx_cmd := restore_control 62135596800000000005\<rparr>"

definition restore_controller :: "string gomap \<Rightarrow> string gomap ctl" where
  "restore_controller files = \<lparr>self = (demo_controller [] [])\<lparr>m_controlStore := VFSControl ''s3://b/control''\<rparr>, world = files, trace = []\<rparr>"

definition restore_asked :: "go_error option outcome \<times> (unit, string gomap) tool" where
  "restore_asked = runRestoreBackup (cx_cmd request_env) tool_options [''backup-1''] (tool_start [(''s3://b/control/etcd-cluster-spec'', ''3.5.0'')])"

section \<open>Properties\<close>

text \<open>C27.
  What an operator configures is what the nodes read. After \<^verbatim>\<open>configure-cluster\<close> has succeeded, \<^verbatim>\<open>get\<close> shows the specification that was there
  with what the operator gave put in, and defaults where there is nothing: it has a version and a number of members other than zero,
  and those of the operator where they were given, the number being exact if it fits in 32 bits.
\<close>

theorem configuration_is_read_back:
  assumes "control_ok e" and "runInitCluster e opts s = (Ret None, s')"
  shows "\<exists>store cur spec t. GetCommandStore e opts = Inr store \<and> fst (GetExpectedClusterSpec e store s) = Ret (Inr cur) \<and>
    spec = configured_spec opts cur \<and> runGet e opts s' = (Ret None, t) \<and> trace t = trace s' @ [PrintSpec spec] \<and>
    cs_EtcdVersion spec \<noteq> [] \<and> cs_MemberCount spec \<noteq> 0 \<and> (op_EtcdVersion opts \<noteq> [] \<longrightarrow> cs_EtcdVersion spec = op_EtcdVersion opts) \<and>
    (op_MemberCount opts \<noteq> 0 \<and> - (2 ^ 31) \<le> op_MemberCount opts \<and> op_MemberCount opts < 2 ^ 31 \<longrightarrow> cs_MemberCount spec = op_MemberCount opts)"
proof -
  obtain store cur u v where store: "GetCommandStore e opts = Inr store" and cur: "GetExpectedClusterSpec e store s = (Ret (Inr cur), u)"
    and set: "SetExpectedClusterSpec e store (configured_spec opts cur) u = (Ret None, v)" and w: "world s' = world v"
    using assms(2) by (auto simp: runInitCluster_def Let_def bind_apply ret_apply emit_def split: sum.splits prod.splits outcome.splits option.splits)
  obtain base where base: "store = VFSControl base" using GetCommandStore_vfs [OF store] by blast
  obtain w' where "GetExpectedClusterSpec e store s' = (Ret (Inr (Some (configured_spec opts cur))), s'\<lparr>world := w'\<rparr>)"
    using spec_read_back [OF assms(1) set [unfolded base] w] base by blast
  from runGet_prints [OF store this] store cur configured_spec_ok show ?thesis by fastforce
qed

theorem configuration_is_read_back_witness:
  "\<exists>s' t. runInitCluster (restore_control 0) tool_options (tool_start []) = (Ret None, s') \<and>
     runGet (restore_control 0) tool_options s' = (Ret None, t) \<and> PrintSpec restore_spec \<in> set (trace t)"
proof -
  let ?m = "runInitCluster (restore_control 0) tool_options (tool_start [])"
  have "fst ?m = Ret None" by code_simp
  then have run: "?m = (Ret None, snd ?m)" by (metis prod.collapse)
  have spec: "configured_spec tool_options cur = restore_spec" for cur
    by (simp add: configured_spec_def tool_options_def restore_spec_def int32_def split: option.splits)
  from configuration_is_read_back [OF restore_control_ok run] show ?thesis using run by (auto simp: spec)
qed

text \<open>C12.
  A restore that an operator asks for is found by the control loop. When \<^verbatim>\<open>restore-backup\<close> has succeeded and the leader looks at the
  same control store afterwards, then either the look fails or the queue it keeps holds the request, for that backup and with the
  specification that was current when the operator asked; so there is a request that the loop will act on.
\<close>

theorem restore_request_reaches_the_loop:
  assumes "control_ok (cx_cmd e)" and "\<And>w. snd (rt_now (cx_rt e) w) = w"
    and "runRestoreBackup (cx_cmd e) opts [backup] s = (Ret None, s')"
    and "GetCommandStore (cx_cmd e) opts = Inr (m_controlStore (self c))" and "world c = world s'"
    and "refreshControlStore e 0 c = (Ret None, c')"
  shows "\<exists>spec v. fst (GetExpectedClusterSpec (cx_cmd e) (m_controlStore (self c)) s) = Ret (Inr (Some spec)) \<and>
    v \<in> set (m_controlCommands (self c')) \<and> cmd_RestoreBackup (vc_data v) = Some \<lparr>rb_ClusterSpec = Some spec, rb_Backup = backup\<rparr> \<and>
    getRestoreBackupCommand (self c') \<noteq> None"
proof -
  obtain spec u t where spec: "GetExpectedClusterSpec (cx_cmd e) (m_controlStore (self c)) s = (Ret (Inr (Some spec)), u)"
    and add: "AddCommand (cx_cmd e) (m_controlStore (self c)) (restore_command backup spec) u = (Ret None, t)" and w: "world s' = world t"
    using assms(3,4) by (auto simp: runRestoreBackup_def Let_def bind_apply ret_apply emit_def
        split: sum.splits prod.splits outcome.splits option.splits)
  from refresh_sees_added [OF assms(1,2) add _ assms(6)] assms(5) w obtain v ts where v: "v \<in> set (m_controlCommands (self c'))"
      "vc_data v = (restore_command backup spec)\<lparr>cmd_Timestamp := ts\<rparr>" by auto
  then have "getRestoreBackupCommand (self c') \<noteq> None" by (auto simp: getRestoreBackupCommand_def find_None_iff restore_command_def)
  with spec v show ?thesis by (auto simp: restore_command_def)
qed

theorem restore_request_reaches_the_loop_witness:
  "\<exists>s' c' v. restore_asked = (Ret None, s') \<and> refreshControlStore request_env 0 (restore_controller (world s')) = (Ret None, c') \<and>
     v \<in> set (m_controlCommands (self c')) \<and> map_option rb_Backup (cmd_RestoreBackup (vc_data v)) = Some ''backup-1''"
proof -
  let ?c = "restore_controller (world (snd restore_asked))" and ?e = request_env
  have "fst restore_asked = Ret None" by code_simp
  then have asked: "restore_asked = (Ret None, snd restore_asked)" by (metis prod.collapse)
  have "fst (refreshControlStore ?e 0 ?c) = Ret None" by code_simp
  then have look: "refreshControlStore ?e 0 ?c = (Ret None, snd (refreshControlStore ?e 0 ?c))" by (metis prod.collapse)
  have ok: "control_ok (cx_cmd ?e)" by (simp add: request_env_def restore_control_ok)
  have clock: "snd (rt_now (cx_rt ?e) w) = w" for w by (simp add: request_env_def demo_env_def const_rt_def)
  have store: "GetCommandStore (cx_cmd ?e) tool_options = Inr (m_controlStore (self ?c))" by code_simp
  have same: "world ?c = world (snd restore_asked)" by (simp add: restore_controller_def)
  from restore_request_reaches_the_loop [OF ok clock asked [unfolded restore_asked_def] store [unfolded restore_asked_def] same [unfolded restore_asked_def] look [unfolded restore_asked_def]]
  obtain v where "v \<in> set (m_controlCommands (self (snd (refreshControlStore ?e 0 ?c))))"
    "map_option rb_Backup (cmd_RestoreBackup (vc_data v)) = Some ''backup-1''" unfolding restore_asked_def by auto
  with asked look show ?thesis by metis
qed

end
