(* ===== verification/Loops.thy ===== *)
theory Loops
  imports Controller_Total Backup_Controller
begin

text \<open>
  The endless loops of a node, around the steps that the other theories have: the supervision of the etcd process
  (\<^verbatim>\<open>EtcdServer.Run\<close>), the control loop (\<^verbatim>\<open>EtcdController.Run\<close>), discovery (\<^verbatim>\<open>runDiscovery\<close>) and the goroutine that pings one peer
  (\<^verbatim>\<open>peer.Run\<close>). All use \<^verbatim>\<open>contextutil.Forever\<close>; \<open>n\<close> bounds the rounds, and a run that needs more is the panic of a loop that still runs.
  \<open>cancelled\<close> is \<^verbatim>\<open>ctx.Err() != nil\<close> and \<open>sleep\<close> is \<^verbatim>\<open>contextutil.Sleep\<close>.
\<close>

section \<open>The loops\<close>

type_synonym 'w waiting = "duration \<Rightarrow> 'w \<Rightarrow> go_error option \<times> 'w"

definition server_Run :: "nat \<Rightarrow> ('w \<Rightarrow> bool \<times> 'w) \<Rightarrow> 'w waiting \<Rightarrow> 'w server_env \<Rightarrow> ('w server, unit) go" where
  "server_Run n cancelled sleep e = Forever n cancelled (sleep (10 * second)) (bind (runOnce e) (\<lambda>_. ret ()))"

text \<open>\<^verbatim>\<open>CycleInterval\<close> is a field of the controller that \<^verbatim>\<open>NewEtcdController\<close> sets to this.\<close>

definition defaultCycleInterval :: duration where "defaultCycleInterval = 10 * second"

text \<open>A round that made progress is followed by the next at once (after a millisecond).\<close>

definition control_round :: "'w waiting \<Rightarrow> duration \<Rightarrow> 'w ctl_env \<Rightarrow> ('w ctl, unit) go" where
  "control_round sleep CycleInterval e = bind (run e) (\<lambda>(progress, _).
     if \<not> progress then bind (ask (sleep CycleInterval)) (\<lambda>_. ret ()) else ret ())"

definition controller_Run :: "nat \<Rightarrow> ('w \<Rightarrow> bool \<times> 'w) \<Rightarrow> 'w waiting \<Rightarrow> duration \<Rightarrow> 'w ctl_env \<Rightarrow> ('w ctl, unit) go" where
  "controller_Run n cancelled sleep CycleInterval e =
     bind (Forever n cancelled (sleep 1000000) (control_round sleep CycleInterval e)) (\<lambda>_.
     bind (releaseLeaderLock e) (\<lambda>_. ret ()))"

definition runDiscovery :: "nat \<Rightarrow> ('w \<Rightarrow> bool \<times> 'w) \<Rightarrow> 'w waiting \<Rightarrow> duration \<Rightarrow> 'w peer_env \<Rightarrow> ('w node, unit) go" where
  "runDiscovery n cancelled sleep interval e = Forever n cancelled (sleep interval) (bind (runDiscoveryOnce e) (\<lambda>_. ret ()))"

text \<open>The inner loop of \<^verbatim>\<open>sendPings\<close> goes on over one connection until a ping fails.\<close>

fun ping_loop :: "nat \<Rightarrow> ('w \<Rightarrow> bool \<times> 'w) \<Rightarrow> ('w \<Rightarrow> go_error option \<times> 'w) \<Rightarrow> 'w peer_env \<Rightarrow> PeerId \<Rightarrow> string \<Rightarrow> ('w node, go_error option) go" where
  "ping_loop 0 cancelled sleep e i conn = panic ''still pinging''"
| "ping_loop (Suc n) cancelled sleep e i conn =
     bind (ask cancelled) (\<lambda>c. if c then ret (Some (Errorf ''context canceled''))
       else bind (sendPing e i conn) (\<lambda>r. case r of
         Some err \<Rightarrow> ret (Some err)
       | None \<Rightarrow> bind (ask sleep) (\<lambda>_. ping_loop n cancelled sleep e i conn)))"

definition sendPings :: "nat \<Rightarrow> ('w \<Rightarrow> bool \<times> 'w) \<Rightarrow> 'w waiting \<Rightarrow> duration \<Rightarrow> 'w peer_env \<Rightarrow> PeerId \<Rightarrow> ('w node, go_error option) go" where
  "sendPings n cancelled sleep pingInterval e i =
     bind (connect e i) (\<lambda>r. case r of
       Inl err \<Rightarrow> ret (Some err)
     | Inr None \<Rightarrow> ret (Some (Errorf ''unable to connect to peer''))
     | Inr (Some conn) \<Rightarrow> ping_loop n cancelled (sleep pingInterval) e i conn)"

definition peer_Run :: "nat \<Rightarrow> ('w \<Rightarrow> bool \<times> 'w) \<Rightarrow> 'w waiting \<Rightarrow> duration \<Rightarrow> 'w peer_env \<Rightarrow> PeerId \<Rightarrow> ('w node, unit) go" where
  "peer_Run n cancelled sleep pingInterval e i =
     Forever n cancelled (sleep pingInterval) (bind (sendPings n cancelled sleep pingInterval e i) (\<lambda>_. ret ()))"

section \<open>What a round keeps, the loop keeps\<close>

lemma Forever_keeps:
  assumes "step_rel R" and "keeps R (ask cancelled)" and "keeps R (ask sleep)" and "keeps R f"
  shows "keeps R (Forever n cancelled sleep f)"
proof (induction n)
  case 0
  show ?case by (simp add: step_rel.keeps_panic [OF assms(1)])
next
  case (Suc n)
  show ?case unfolding Forever.simps
    by (intro keeps_rules step_rel.keeps_bind [OF assms(1)] step_rel.keeps_ret [OF assms(1)] assms(2-4) Suc)
qed

lemma done_keeps: "step_rel R \<Longrightarrow> keeps R m \<Longrightarrow> keeps R (bind m (\<lambda>_. ret ()))"
  by (rule step_rel.keeps_bind) (auto intro: step_rel.keeps_ret)

section \<open>Supervision of the process\<close>

lemma reach_ask: "keeps (stays (server_reach e)) (ask f)"
  by (auto simp: keeps_def stays_def ask_def split: prod.splits intro: reach_run run_world)

lemma reach_runOnce: "keeps (stays (server_reach e)) (runOnce e)"
  by (auto simp: keeps_def stays_def intro: reach_run run_Once)

text \<open>
  Supervision is a run of the state machine of the node: it visits reachable states only, whenever it is looked at. So a node never runs two
  etcd processes, however long it is supervised.
\<close>

theorem server_Run_reach: "server_reach e s \<Longrightarrow> server_reach e (snd (server_Run n cancelled sleep e s))"
proof -
  have "keeps (stays (server_reach e)) (server_Run n cancelled sleep e)"
    unfolding server_Run_def by (intro Forever_keeps stays.step_rel_axioms reach_ask done_keeps reach_runOnce)
  from keepsD [OF this] show "server_reach e s \<Longrightarrow> ?thesis" by (simp add: stays_def)
qed

corollary server_Run_single: "server_reach e s \<Longrightarrow> single (snd (server_Run n cancelled sleep e s))"
  by (rule server_reach_single [OF server_Run_reach])

section \<open>Discovery and pings\<close>

lemma runDiscovery_keeps: "keeps server_step (runDiscovery n cancelled sleep interval e)"
  unfolding runDiscovery_def
  by (intro Forever_keeps srv.step_rel_axioms srv_ask done_keeps runDiscoveryOnce_keeps)

context peer_network
begin

lemma ping_loop_keeps: "keeps server_step (ping_loop n cancelled sleep e i c)"
proof (induction n)
  case 0
  show ?case by (simp add: srv.keeps_panic)
next
  case (Suc n)
  show ?case unfolding ping_loop.simps by (intro srv_rules sendPing_keeps Suc)
qed

lemma peer_Run_keeps: "keeps server_step (peer_Run n cancelled sleep interval e i)"
  unfolding peer_Run_def sendPings_def
  by (intro Forever_keeps srv.step_rel_axioms srv_ask done_keeps srv_rules connect_keeps ping_loop_keeps)

end

text \<open>
  Discovery and the goroutines that ping keep the peer table well formed and forget no peer, for as long as they run.
\<close>

theorem peer_loops_keep:
  assumes "server_ok (self s)"
  shows "server_ok (self (snd (runDiscovery n cancelled sleep interval e s)))"
    and "server_ok (self (snd (peer_Run n cancelled sleep interval (loopback rt poll) i s)))"
proof -
  have "server_step s (snd (runDiscovery n cancelled sleep interval e s))" by (rule keepsD [OF runDiscovery_keeps])
  with assms show "server_ok (self (snd (runDiscovery n cancelled sleep interval e s)))" by (simp add: server_step_def)
  have "server_step s (snd (peer_Run n cancelled sleep interval (loopback rt poll) i s))" by (rule keepsD [OF lb.peer_Run_keeps])
  with assms show "server_ok (self (snd (peer_Run n cancelled sleep interval (loopback rt poll) i s)))" by (simp add: server_step_def)
qed

section \<open>The control loop\<close>

lemma ask_total: "ask f s = (Ret (fst (f (world s))), s\<lparr>world := snd (f (world s))\<rparr>)"
  by (simp add: ask_def split: prod.splits)

lemma Forever_goes_on:
  assumes "\<And>s. \<exists>s'. f s = (Ret (), s')"
  shows "fst (Forever n cancelled sleep f s) \<in> {Ret (), Panic ''still polling''}"
proof (induction n arbitrary: s)
  case 0
  show ?case by (simp add: panic_apply)
next
  case (Suc n)
  let ?t = "s\<lparr>world := snd (cancelled (world s))\<rparr>"
  obtain t' where f: "f ?t = (Ret (), t')" using assms by blast
  with Suc [of "t'\<lparr>world := snd (sleep (world t'))\<rparr>"] show ?case by (auto simp: bind_apply ret_apply ask_total)
qed

lemma control_round_total:
  assumes "reporting e" and "patient e"
  shows "\<exists>s'. control_round sleep interval e s = (Ret (), s')"
proof -
  obtain p r t where "run e s = (Ret (p, r), t)" using run_total [OF assms] by (metis surj_pair)
  then show ?thesis by (simp add: control_round_def bind_apply ret_apply ask_total)
qed

lemma release_ends:
  assumes "releaseLeaderLock e s = (Ret r, s')"
  shows "m_leaderLockGuard (self s') = None \<or> (\<exists>g err. trace s' \<noteq> [] \<and> last (trace s') = LockReleased g (Some err))"
  using assms by (auto simp: releaseLeaderLock_def bind_apply ret_apply get_self_def act_def upd_self_def split: option.splits prod.splits)

text \<open>
  The control loop never dies: whatever the cluster does, after any number of rounds it either goes on or has ended because the context was cancelled.
  When it has ended, the leader lock was given back, or the attempt to was the last thing that the controller did.
\<close>

theorem controller_Run_goes_on:
  assumes "reporting e" and "patient e"
  shows "fst (controller_Run n cancelled sleep interval e s) = Panic ''still polling''
    \<or> (\<exists>s'. controller_Run n cancelled sleep interval e s = (Ret (), s')
        \<and> (m_leaderLockGuard (self s') = None
          \<or> (\<exists>g err. trace s' \<noteq> [] \<and> last (trace s') = LockReleased g (Some err))))"
proof -
  let ?loop = "Forever n cancelled (sleep 1000000) (control_round sleep interval e) s"
  have "fst ?loop \<in> {Ret (), Panic ''still polling''}" by (rule Forever_goes_on [OF control_round_total [OF assms]])
  then consider t where "?loop = (Ret (), t)" | t where "?loop = (Panic ''still polling'', t)" by (cases ?loop) auto
  then show ?thesis
  proof cases
    case (1 t)
    obtain r s' where rel: "releaseLeaderLock e t = (Ret r, s')" using calmD [OF releaseLeaderLock_calm] by blast
    with 1 have "controller_Run n cancelled sleep interval e s = (Ret (), s')" by (simp add: controller_Run_def bind_apply ret_apply)
    with release_ends [OF rel] show ?thesis by blast
  next
    case (2 t)
    then show ?thesis by (simp add: controller_Run_def bind_apply)
  qed
qed

text \<open>A cancelled context ends the loop at the next look.\<close>

theorem controller_Run_stops:
  assumes "fst (cancelled (world s))"
  shows "\<exists>s'. controller_Run (Suc n) cancelled sleep interval e s = (Ret (), s')"
proof -
  obtain t where "ask cancelled s = (Ret True, t)" using assms by (simp add: ask_total)
  moreover obtain r s' where "releaseLeaderLock e t = (Ret r, s')" using calmD [OF releaseLeaderLock_calm] by blast
  ultimately show ?thesis by (simp add: controller_Run_def bind_apply ret_apply)
qed

end
