(* ===== verification/Spec2Isabelle.thy ===== *)
theory Spec2Isabelle
  imports Server_Safety Controller_Total Hosts Locking Volumes_Aws Volumes_Gce Volumes_Do Volumes_Hetzner Volumes_Linode
    Volumes_Scaleway Volumes_External Volumes_Azure Volumes_Openstack Dump Hostmount Programs Loops
begin

text \<open>
  A verification library for etcd-manager: the program that runs beside etcd on every node of a cluster, elects a leader among the
  nodes, and lets the leader create, grow, upgrade, back up and restore the etcd cluster.

  \<^bold>\<open>The parts and how they interact.\<close> On every node the main program (\<^verbatim>\<open>cmd/etcd-manager\<close>) mounts the volume of the node (\<^verbatim>\<open>pkg/volumes\<close>), finds the other nodes
  (discovery), and starts three components: the peer service (\<^verbatim>\<open>pkg/privateapi\<close>), which pings the other nodes and keeps the bid for
  leadership it has accepted; the etcd server (\<^verbatim>\<open>pkg/etcd\<close>), which owns the etcd process of the node and answers requests of the
  leader after checking their token with the peer service; and the controller (\<^verbatim>\<open>pkg/controller\<close>), whose loop on the node with the smallest id becomes
  the leader, asks all nodes for their state, compares it with the wanted state in the control store (\<^verbatim>\<open>pkg/commands\<close>, \<^verbatim>\<open>pkg/static\<close>), and sends requests.
  Backups go to a store (\<^verbatim>\<open>pkg/backup\<close>) that is thinned out by age (\<^verbatim>\<open>pkg/backupcontroller\<close>). Certificates (\<^verbatim>\<open>pkg/pki\<close>) and names in \<^verbatim>\<open>/etc/hosts\<close>
  (\<^verbatim>\<open>pkg/hosts\<close>) serve the etcd processes. Paths are below \<^verbatim>\<open>src/\<close>.

  \<^bold>\<open>How code is modelled.\<close> A Go function is a computation of the type \<open>('s, 'a) go\<close> (theory \<open>Go_Monad\<close>): it returns a value or panics (which
  includes \<^verbatim>\<open>klog.Fatalf\<close>), and changes the state. The state of a component is \<open>('st, 'w, 'ev) sys\<close>: its own data, a world that only the
  environment knows, and the trace of the calls that change something outside. Everything that is not in the repository (the cloud APIs, gRPC, the
  virtual file system of kops, cryptography, the operating system) is a record of functions on the world, one per component, and the theorems hold for
  every such record; where a theorem needs a law of it, the law is a named hypothesis. A \<^verbatim>\<open>range\<close> over a map visits the entries in an order the
  environment picks. \<^verbatim>\<open>int64\<close> arithmetic wraps explicitly (\<open>wrap64\<close>), times are nanoseconds since year 1. An error is the constant part of its
  message, with the error it wraps.

  \<^bold>\<open>The theories.\<close>
  \<^item> \<open>Prelude\<close>, \<open>Go_Monad\<close>, \<open>Go_Strings\<close>, \<open>Go_Time\<close>: the language and its library. \<open>Go_Monad\<close> has four logics: \<open>keeps\<close> (a relation between
    the states before and after, composed by the locale \<open>step_rel\<close> and its interpretations \<open>frame\<close>, \<open>emits\<close>, \<open>pres\<close>), \<open>stays\<close>, \<open>hoare\<close> (with an
    exceptional postcondition), and \<open>calm\<close> (no panic under an invariant).
  \<^item> \<open>Api_Types\<close>: the messages (\<^verbatim>\<open>pkg/apis/etcd\<close>, \<^verbatim>\<open>pkg/privateapi/cluster.proto\<close>).
  \<^item> \<open>Urls\<close>, \<open>Etcd_Versions\<close>, \<open>Human_Duration\<close>: \<^verbatim>\<open>pkg/urls\<close>, \<^verbatim>\<open>pkg/etcdversions\<close>, durations in settings.
  \<^item> \<open>Private_Api\<close>: the peer table, pings, discovery, the weak leader election (\<^verbatim>\<open>peers.go\<close>, \<^verbatim>\<open>server.go\<close>, \<^verbatim>\<open>leadership.go\<close>). Shown: the invariant of the peer
    table in every reachable state, and what a node answers to a bid.
  \<^item> \<open>Pki\<close>: key pairs and certificate authorities (\<^verbatim>\<open>pkg/pki\<close>). Shown: an ensured key pair serves what was asked for, and old certificates are replaced.
  \<^item> \<open>Etcd_Client\<close>, \<open>Etcd_Process\<close>, \<open>Etcd_Server\<close>, \<open>Server_Safety\<close>: \<^verbatim>\<open>pkg/etcdclient\<close> and \<^verbatim>\<open>pkg/etcd\<close> (client, process, server, backup, restore). Shown: at
    most one etcd process per node in every reachable state, requests of others change nothing, joining needs preparation, what a successful join or
    reconfiguration leaves behind, and that copying keys is complete.
  \<^item> \<open>Backup_Store\<close>, \<open>Backup_Cleanup\<close>, \<open>Command_Store\<close>: \<^verbatim>\<open>pkg/backup\<close>, \<^verbatim>\<open>pkg/backupcontroller\<close>, \<^verbatim>\<open>pkg/commands\<close>, \<^verbatim>\<open>pkg/static\<close>. Shown: what is added is listed and read back,
    removed backups are covered by kept ones, a cluster is created once.
  \<^item> \<open>Cluster_State\<close>, \<open>Controller\<close>, \<open>Controller_Loop\<close>: \<^verbatim>\<open>pkg/controller\<close>, one definition per function, \<open>run\<close> being one iteration of the loop. \<open>Controller_Safety\<close>: only
    the leader acts. \<open>Controller_Order\<close>: backups come first. \<open>Controller_Creation\<close>: creation is in two phases and has a quorum. \<open>Controller_Members\<close>:
    members are removed for a reason. \<open>Controller_Total\<close>: an iteration always returns. \<open>Controller_Example\<close>: a concrete cluster for the witnesses.
  \<^item> \<open>Hosts\<close>: \<^verbatim>\<open>pkg/hosts\<close>, with the free capacity of slices, because the code sorts shared arrays in place. Shown: an update refines the
    contract of \<^verbatim>\<open>dns.Provider\<close>, rewriting absorbs earlier blocks, lines of others survive; and that a primary name can get lost.
  \<^item> \<open>Locking\<close>: \<^verbatim>\<open>pkg/locking\<close>, as a system of clients that share a file. Shown: clients in sequence exclude each other, a free lock is granted; and that
    clients at the same time do not exclude each other.
  \<^item> \<open>Mounting\<close>: \<^verbatim>\<open>pkg/volumes\<close>. The interface of the providers is the locale \<open>volume_provider\<close>; it is interpreted by \<open>Volumes_Aws\<close>, \<open>Volumes_Gce\<close>,
    \<open>Volumes_Do\<close>, \<open>Volumes_Linode\<close>, \<open>Volumes_Scaleway\<close>, \<open>Volumes_Azure\<close> and \<open>Volumes_External\<close> (the packages of the same names); \<open>Volumes_Openstack\<close> keeps it when the
    cloud names the device of an attachment, while \<open>Volumes_Hetzner\<close> shows that its provider breaks it. Shown: exactly one volume is mounted, at most one is attached
    per round, which disks belong to a cluster, that a disk gets a free unit number, that the configuration drive is released, and several defects of the providers.
  \<^item> \<open>Loops\<close>: the endless loops of a node around those steps (\<^verbatim>\<open>Run\<close> of the etcd server, the controller and a peer, \<^verbatim>\<open>runDiscovery\<close>). Shown: what the steps
    keep, the loops keep; the control loop never dies and gives the leader lock back when it is cancelled.
  \<^item> \<open>Backup_Controller\<close>: the stand-alone backup agent (\<^verbatim>\<open>pkg/backupcontroller/controller.go\<close>). Shown: it writes a backup only when one is due, on the leader,
    and for the version that is running.
  \<^item> \<open>Manager\<close>: \<^verbatim>\<open>cmd/etcd-manager/main.go\<close>, which puts the components together, with \<^verbatim>\<open>pkg/tlsconfig\<close>, \<^verbatim>\<open>pkg/ioutils\<close>, the identity of a node and the discoveries
    that need no cloud. Shown: a node that has started has the security it was configured with and one identity, which survives restarts.
  \<^item> \<open>Programs\<close>: \<^verbatim>\<open>cmd/etcd-manager-ctl\<close>, \<^verbatim>\<open>cmd/etcd-backup-ctl\<close> and \<^verbatim>\<open>cmd/etcd-backup\<close>. Shown: what an operator configures is what the nodes read, and a restore
    that is asked for reaches the control loop.
  \<^item> \<open>Dump\<close>: \<^verbatim>\<open>cmd/etcd-dump\<close> and its sinks \<^verbatim>\<open>pkg/etcd/dump\<close>; the interface of the sinks is the locale \<open>node_sink\<close>. Shown: archives are ordered, a dump cleans up
    after itself, and a key that does not begin with a slash uses up the stack.
  \<^item> \<open>Hostmount\<close>: \<^verbatim>\<open>pkg/hostmount\<close>, mounting in the namespace of the host.
  \<^item> This theory: properties that span components.

  \<^bold>\<open>Bounds.\<close> Loops over data are structural. \<open>write_attempts\<close> has the ten attempts of the code. Loops that the code runs without a bound have one in the
  model, and running out of it is the panic of a run that still waits, never a result: \<open>cx_patience\<close> for the wait for a restore command (\<open>run_returns\<close> shows
  that one look is enough), \<open>px_patience\<close> for the exit of a process, \<open>sx_copyFuel\<close> for copying (shown to be enough with the number of keys), \<open>mx_patience\<close>, \<open>ax_patience\<close>
  and \<open>cl_patience\<close> for devices and attachments in the cloud, which may indeed never come. The search for a device name on AWS needs no more rounds
  than there are names (\<open>request_attach_ends\<close>). \<open>gx_polls\<close> is how often the polling library calls its condition.
  The loops of \<open>Loops\<close> and \<open>agent_Run\<close> take the number of rounds as an argument and the theorems hold for every number.
  \<open>tx_depth\<close> is the room on the stack for a recursion that need not end, and \<open>bx_rounds\<close> how often a starting node looks for its volume.

  \<^bold>\<open>Not modelled.\<close> The interleaving of the goroutines of one node below the granularity of a step (each step is atomic, but for calls in flight); gRPC transport,
  generated marshalling code, logging and metrics, the parsing of flags; the test harness; vendored code.
\<close>

section \<open>The leader and the nodes\<close>

text \<open>
  C3. Only the latest accepted leader is obeyed. When the peer service of a node has accepted a bid for leadership, the etcd
  server of that node accepts the header a control loop builds exactly if the loop works for the same cluster and holds the token of that
  bid; a loop that lost its leadership to another bid is refused.
\<close>

theorem only_the_latest_leader_is_obeyed:
  assumes "server_ok (self p)" and "clock_at rt t" and "ln_View req = Some v" and "v_Healthy v \<noteq> []"
    and bid: "LeaderNotification rt req p = (Ret (Inr resp), p')" "lr_Accepted resp"
    and node: "sx_peerServer e (world s) = self p'"
    and leads: "m_leadership (self c) = Some l" and header: "buildHeader c = (Ret h, c')"
  shows "\<exists>err. validateHeader e (Some h) s = (Ret err, s) \<and>
    (err = None \<longleftrightarrow> m_clusterName (self c) = s_clusterName (self s) \<and> ls_token l = v_LeadershipToken v)"
proof -
  have "IsLeader (self p') tok \<longleftrightarrow> tok = v_LeadershipToken v" for tok
    using LeaderNotification_spec [OF assms(1-4)] bid by auto
  moreover have "h = \<lparr>h_LeadershipToken = ls_token l, h_ClusterName = m_clusterName (self c)\<rparr>"
    using header leads by (auto simp: buildHeader_def bind_apply get_self_def ret_apply)
  ultimately show ?thesis
    using node by (auto simp: validateHeader_def bind_apply get_self_def ret_apply ask_def)
qed

text \<open>A node that has accepted the token \<^verbatim>\<open>t\<close> refuses the loop that still holds the token \<^verbatim>\<open>leader\<close>.\<close>

theorem only_the_latest_leader_is_obeyed_witness:
  "\<exists>resp p' h err. LeaderNotification (const_rt 0) \<lparr>ln_View = Some example_view\<rparr> example_pinged = (Ret (Inr resp), p') \<and>
     buildHeader grow_start = (Ret h, grow_start) \<and>
     validateHeader ((example_env False)\<lparr>sx_peerServer := \<lambda>_. self p'\<rparr>) (Some h) example_start = (Ret (Some err), example_start)"
proof -
  have healthy: "v_Healthy example_view \<noteq> []" by (simp add: example_view_def)
  obtain resp p' where bid: "LeaderNotification (const_rt 0) \<lparr>ln_View = Some example_view\<rparr> example_pinged = (Ret (Inr resp), p')" "lr_Accepted resp"
    using LeaderNotification_spec [OF example_ok clock_at_const_rt [of 0], of "\<lparr>ln_View = Some example_view\<rparr>" example_view] example_bid healthy by auto
  obtain h l where leads: "m_leadership (self grow_start) = Some l" "ls_token l = ''leader''" and h: "buildHeader grow_start = (Ret h, grow_start)"
    by (simp add: demo_controller_def buildHeader_def bind_apply get_self_def ret_apply)
  let ?e = "(example_env False)\<lparr>sx_peerServer := \<lambda>_. self p'\<rparr>"
  have node: "sx_peerServer ?e (world example_start) = self p'" by simp
  obtain err where "validateHeader ?e (Some h) example_start = (Ret err, example_start)"
    "err = None \<longleftrightarrow> m_clusterName (self grow_start) = s_clusterName (self example_start) \<and> ls_token l = v_LeadershipToken example_view"
    using only_the_latest_leader_is_obeyed [OF example_ok clock_at_const_rt [of 0] _ healthy bid node leads(1) h] by auto
  with bid h leads(2) show ?thesis by (auto simp: example_view_def)
qed

section \<open>Volume providers and the mounter\<close>

text \<open>
  C15. The providers keep the contract of the mounter: with the volumes of AWS, Google, DigitalOcean, Linode, Scaleway,
  Azure and with external volumes the mounter never ends the process because an attached volume has neither device nor mount point.
\<close>

theorem providers_keep_contract:
  "survives (hosted (Volumes_Aws.FindVolumes e1)) (\<lambda>v. hosted (Volumes_Aws.AttachVolume e1 v)) \<and>
   survives (hosted (gce_FindVolumes e2)) (\<lambda>v. hosted (gce_AttachVolume e2 v)) \<and>
   survives (hosted (do_FindVolumes e3)) (\<lambda>v. hosted (do_AttachVolume e3 v)) \<and>
   survives (hosted (linode_FindVolumes e4)) (\<lambda>v. hosted (linode_AttachVolume e4 v)) \<and>
   survives (hosted (scw_FindVolumes e5)) (\<lambda>v. hosted (scw_AttachVolume e5 v)) \<and>
   survives (hosted (ext_FindVolumes e6)) (\<lambda>v. hosted (ext_AttachVolume v)) \<and>
   survives (hosted (az_FindVolumes e7)) (\<lambda>v. hosted (az_AttachVolume e7 v))"
  using aws.mounter_survives gce.mounter_survives dovol.mounter_survives linode.mounter_survives scw.mounter_survives ext.mounter_survives
    azure.mounter_survives
  by blast

end
